(* ===== verification/Prelude.thy ===== *)
theory Prelude
  imports Main "HOL-Library.Sublist"
begin

text \<open>
  What every component shares: the JavaScript values the client code handles (strings, optional
  strings, truthiness, results of fallible calls), the collections of rewrite rules the component
  proofs use, and generic facts on lists and options.

  A JavaScript string is a \<^typ>\<open>string\<close>, one \<^typ>\<open>char\<close> per UTF-16 code unit, so the model covers
  the code units below 256. Numbers that the code uses as counts, indices, sequence numbers and
  milliseconds are \<^typ>\<open>nat\<close>; where the code can see a negative value they are \<^typ>\<open>int\<close>.
\<close>

section \<open>Collections\<close>

named_theorems js_defs "definitions of the JavaScript string and value operations"
named_theorems step_simps "what one operation of a component does to its state"
named_theorems frame_simps "the fields an operation leaves alone"

section \<open>Optional values and truthiness\<close>

text \<open>\<open>undefined\<close> and \<open>null\<close> are \<^const>\<open>None\<close>. A string is falsy when it is missing or empty.\<close>

type_synonym jsstr = string

definition truthy :: "jsstr option \<Rightarrow> bool" where
  "truthy v = (case v of None \<Rightarrow> False | Some s \<Rightarrow> s \<noteq> [])"

definition js_or :: "jsstr option \<Rightarrow> jsstr \<Rightarrow> jsstr" where
  "js_or v d = (case v of None \<Rightarrow> d | Some s \<Rightarrow> if s = [] then d else s)"

definition opt_or :: "'a option \<Rightarrow> 'a option \<Rightarrow> 'a option" where
  "opt_or a b = (case a of None \<Rightarrow> b | Some x \<Rightarrow> Some x)"

lemma truthy_simps [simp]:
  "\<not> truthy None" "truthy (Some s) \<longleftrightarrow> s \<noteq> []"
  by (simp_all add: truthy_def)

lemma js_or_simps [simp]:
  "js_or None d = d" "js_or (Some []) d = d" "s \<noteq> [] \<Longrightarrow> js_or (Some s) d = s"
  by (simp_all add: js_or_def)

lemma js_or_Cons [simp]: "js_or (Some (c # cs)) d = c # cs"
  by (simp add: js_or_def)

lemma opt_or_simps [simp]:
  "opt_or None b = b" "opt_or (Some x) b = Some x"
  by (simp_all add: opt_or_def)

section \<open>Results of fallible calls\<close>

text \<open>
  A rejected request carries the message and the HTTP status of the error that
  \<open>PaperApi.request\<close> throws; the status is 0 for an error that is not a response.
\<close>

record api_error =
  err_message :: jsstr
  err_status :: nat

type_synonym 'a result = "api_error + 'a"

section \<open>Lists\<close>

lemma filter_map_Some [simp]: "List.map_filter Some xs = xs"
  by (induction xs) (simp_all add: List.map_filter_simps)

lemma subset_filter: "set (filter P xs) \<subseteq> set xs"
  by auto

lemma last_in_set_Cons: "last (x # xs) \<in> set (x # xs)"
  by (rule last_in_set) simp

fun js_join :: "jsstr \<Rightarrow> jsstr list \<Rightarrow> jsstr" where
  "js_join sep [] = []"
| "js_join sep [x] = x"
| "js_join sep (x # y # ys) = x @ sep @ js_join sep (y # ys)"

lemma js_join_Cons: "xs \<noteq> [] \<Longrightarrow> js_join sep (x # xs) = x @ sep @ js_join sep xs"
  by (cases xs) simp_all

lemma js_join_append:
  "xs \<noteq> [] \<Longrightarrow> ys \<noteq> [] \<Longrightarrow> js_join sep (xs @ ys) = js_join sep xs @ sep @ js_join sep ys"
proof (induction xs)
  case (Cons x xs)
  then show ?case by (cases "xs = []") (simp_all add: js_join_Cons)
qed simp

end
