(* ===== verification/Timers.thy ===== *)
theory Timers
  imports Prelude
begin

text \<open>
  The timer service behind \<open>window.setTimeout\<close> and \<open>window.clearTimeout\<close>: the interface the
  client's debouncing code relies on (locale \<open>timer_service\<close>) and its model as a clock with a table
  of armed timers. The clock follows the one of
  \<^verbatim>\<open>services/server/frontend/auto-build.test.mjs\<close> (\<open>setTimer\<close>, \<open>clearTimer\<close>, \<open>advance\<close>), which is
  the repository's own description of the service.
\<close>

section \<open>The clock\<close>

text \<open>
  \<open>armed\<close> is the \<open>Map\<close> from a handle to its due time and callback, oldest first; \<open>next_id\<close> is the
  last handle given out.
\<close>

record 'cb clock =
  now :: nat
  next_id :: nat
  armed :: "(nat \<times> nat \<times> 'cb) list"

definition clock_init :: "'cb clock" where
  "clock_init = \<lparr>now = 0, next_id = 0, armed = []\<rparr>"

definition setTimer :: "'cb \<Rightarrow> nat \<Rightarrow> 'cb clock \<Rightarrow> nat \<times> 'cb clock" where
  "setTimer cb delay c =
     (let h = Suc (next_id c)
      in (h, c\<lparr>next_id := h, armed := armed c @ [(h, now c + delay, cb)]\<rparr>))"

definition clearTimer :: "nat \<Rightarrow> 'cb clock \<Rightarrow> 'cb clock" where
  "clearTimer h c = c\<lparr>armed := filter (\<lambda>(i, _). i \<noteq> h) (armed c)\<rparr>"

definition lookup_timer :: "'cb clock \<Rightarrow> nat \<Rightarrow> (nat \<times> 'cb) option" where
  "lookup_timer c h = map_of (armed c) h"

definition clock_wf :: "'cb clock \<Rightarrow> bool" where
  "clock_wf c \<longleftrightarrow> distinct (map fst (armed c)) \<and> (\<forall>h\<in>set (map fst (armed c)). h \<le> next_id c)"

text \<open>Handles of the timers that are due at the current time, oldest first.\<close>

definition due_timers :: "'cb clock \<Rightarrow> (nat \<times> nat \<times> 'cb) list" where
  "due_timers c = filter (\<lambda>(_, at, _). at \<le> now c) (armed c)"

section \<open>The interface\<close>

locale timer_service =
  fixes arm :: "'cb \<Rightarrow> nat \<Rightarrow> 'w \<Rightarrow> nat \<times> 'w"
    and disarm :: "nat \<Rightarrow> 'w \<Rightarrow> 'w"
    and timer :: "'w \<Rightarrow> nat \<Rightarrow> (nat \<times> 'cb) option"
    and time :: "'w \<Rightarrow> nat"
    and wf :: "'w \<Rightarrow> bool"
  assumes arm_fresh: "wf w \<Longrightarrow> timer w (fst (arm cb d w)) = None"
    and arm_timer: "wf w \<Longrightarrow>
          timer (snd (arm cb d w)) = (timer w)(fst (arm cb d w) \<mapsto> (time w + d, cb))"
    and arm_time: "time (snd (arm cb d w)) = time w"
    and arm_wf: "wf w \<Longrightarrow> wf (snd (arm cb d w))"
    and disarm_timer: "wf w \<Longrightarrow> timer (disarm h w) = (timer w)(h := None)"
    and disarm_time: "time (disarm h w) = time w"
    and disarm_wf: "wf w \<Longrightarrow> wf (disarm h w)"
begin

text \<open>
  Debouncing: disarm the previous handle, if any, and arm a new one. The only timer the client can
  have running is the one it holds.
\<close>

definition rearm :: "'cb \<Rightarrow> nat \<Rightarrow> nat option \<Rightarrow> 'w \<Rightarrow> nat \<times> 'w" where
  "rearm cb d held w = arm cb d (case held of None \<Rightarrow> w | Some h \<Rightarrow> disarm h w)"

definition only_held :: "nat option \<Rightarrow> 'w \<Rightarrow> bool" where
  "only_held held w \<longleftrightarrow> (\<forall>h. timer w h \<noteq> None \<longrightarrow> held = Some h)"

lemma rearm_only_held:
  assumes "wf w" "only_held held w"
  shows "only_held (Some (fst (rearm cb d held w))) (snd (rearm cb d held w))"
    and "timer (snd (rearm cb d held w)) (fst (rearm cb d held w)) = Some (time w + d, cb)"
    and "wf (snd (rearm cb d held w))"
  using assms
  by (auto simp: rearm_def only_held_def arm_timer disarm_timer disarm_wf disarm_time arm_wf
      split: option.splits)

lemma disarm_only_held:
  assumes "wf w" "only_held (Some h) w"
  shows "only_held None (disarm h w)"
  using assms by (auto simp: only_held_def disarm_timer)

end

section \<open>The clock provides the interface\<close>

lemma map_of_filter_key: "map_of (filter (\<lambda>(i, _). i \<noteq> h) xs) = (map_of xs)(h := None)"
  by (induction xs) (auto simp: fun_eq_iff)

lemma map_of_snoc_fresh:
  "h \<notin> set (map fst xs) \<Longrightarrow> map_of (xs @ [(h, v)]) = (map_of xs)(h \<mapsto> v)"
  by (induction xs) (auto simp: fun_eq_iff)

lemma clock_fresh: "clock_wf c \<Longrightarrow> Suc (next_id c) \<notin> fst ` set (armed c)"
  by (auto simp: clock_wf_def)

interpretation clk: timer_service setTimer clearTimer lookup_timer now clock_wf
proof unfold_locales
  fix w :: "'a clock" and cb d h
  assume wf: "clock_wf w"
  from clock_fresh [OF wf] have fresh: "Suc (next_id w) \<notin> set (map fst (armed w))" by simp
  show "lookup_timer w (fst (setTimer cb d w)) = None"
    using fresh by (simp add: setTimer_def lookup_timer_def map_of_eq_None_iff)
  show "lookup_timer (snd (setTimer cb d w)) =
      (lookup_timer w)(fst (setTimer cb d w) \<mapsto> (now w + d, cb))"
    using fresh
    by (simp add: setTimer_def lookup_timer_def Let_def fun_eq_iff map_of_snoc_fresh del: map_of_append)
  show "clock_wf (snd (setTimer cb d w))"
    using wf fresh by (auto simp: clock_wf_def setTimer_def Let_def intro: le_SucI)
  show "lookup_timer (clearTimer h w) = (lookup_timer w)(h := None)"
    by (simp add: lookup_timer_def clearTimer_def map_of_filter_key fun_eq_iff)
  show "clock_wf (clearTimer h w)"
    using wf by (auto simp: clock_wf_def clearTimer_def distinct_map_filter)
next
  fix w :: "'a clock" and cb d h
  show "now (snd (setTimer cb d w)) = now w" by (simp add: setTimer_def Let_def)
  show "now (clearTimer h w) = now w" by (simp add: clearTimer_def)
qed

lemma clock_init_wf [simp]: "clock_wf clock_init"
  by (simp add: clock_wf_def clock_init_def)

lemma lookup_timer_init [simp]: "lookup_timer clock_init h = None"
  by (simp add: lookup_timer_def clock_init_def)

text \<open>When a client holds the only armed timer, the table is that single entry.\<close>

lemma armed_singleton:
  assumes wf: "clock_wf c" and only: "clk.only_held (Some h) c"
    and l: "lookup_timer c h = Some (t, cb)"
  shows "armed c = [(h, t, cb)]"
proof -
  have keys: "\<forall>e\<in>set (armed c). fst e = h"
  proof
    fix e assume "e \<in> set (armed c)"
    then have "lookup_timer c (fst e) \<noteq> None"
      by (auto simp: lookup_timer_def map_of_eq_None_iff)
    with only show "fst e = h" by (auto simp: clk.only_held_def)
  qed
  have "distinct (map fst (armed c))" using wf by (simp add: clock_wf_def)
  with keys have "length (armed c) \<le> 1"
    by (cases "armed c"; cases "tl (armed c)") auto
  with l keys show ?thesis
    by (cases "armed c") (auto simp: lookup_timer_def split: if_splits)
qed

lemma armed_empty:
  assumes "clock_wf c" and only: "clk.only_held None c"
  shows "armed c = []"
proof (cases "armed c")
  case (Cons e es)
  then have "lookup_timer c (fst e) \<noteq> None" by (cases e) (simp add: lookup_timer_def)
  with only show ?thesis by (auto simp: clk.only_held_def)
qed simp

end
