(* ===== verification/AutoBuild.thy ===== *)
theory AutoBuild
  imports Timers
begin

text \<open>
  The idle build scheduler of \<^verbatim>\<open>services/server/frontend/auto-build.mjs\<close>. The closure's only
  variable is the handle \<open>timer\<close>; the injected \<open>setTimer\<close> and \<open>clearTimer\<close> are arguments, as in
  the source. The scheduler is then run against the clock of \<open>Timers\<close> and shown to implement a
  specification that knows only a deadline: a build is requested exactly when \<open>delay\<close> milliseconds
  pass with no durable update and no cancellation.
\<close>

section \<open>The scheduler\<close>

datatype trigger = Auto | Manual

definition AUTO_BUILD_IDLE_MS :: nat where
  "AUTO_BUILD_IDLE_MS = 2000"

definition durableUpdate ::
  "('cb \<Rightarrow> nat \<Rightarrow> 'w \<Rightarrow> nat \<times> 'w) \<Rightarrow> (nat \<Rightarrow> 'w \<Rightarrow> 'w) \<Rightarrow> 'cb \<Rightarrow> nat \<Rightarrow>
     nat option \<times> 'w \<Rightarrow> nat option \<times> 'w" where
  "durableUpdate setT clearT cb delay s =
     (case s of (timer, w) \<Rightarrow>
        let w1 = (case timer of None \<Rightarrow> w | Some h \<Rightarrow> clearT h w);
            (h', w2) = setT cb delay w1
        in (Some h', w2))"

definition cancel :: "(nat \<Rightarrow> 'w \<Rightarrow> 'w) \<Rightarrow> nat option \<times> 'w \<Rightarrow> nat option \<times> 'w" where
  "cancel clearT s =
     (case s of (timer, w) \<Rightarrow> (None, case timer of None \<Rightarrow> w | Some h \<Rightarrow> clearT h w))"

definition pending :: "nat option \<times> 'w \<Rightarrow> bool" where
  "pending s = (fst s \<noteq> None)"

text \<open>The callback the timer runs: forget the handle, then ask for an automatic build.\<close>

definition timerCallback ::
  "(trigger \<Rightarrow> 'q \<Rightarrow> 'q) \<Rightarrow> nat option \<times> 'q \<Rightarrow> nat option \<times> 'q" where
  "timerCallback requestBuild s = (case s of (timer, q) \<Rightarrow> (None, requestBuild Auto q))"

section \<open>The scheduler on the clock\<close>

text \<open>
  \<open>sched_timer\<close> is the closure's variable, \<open>requests\<close> the builds asked for so far. The scheduler
  arms timers with one callback only, so the clock's callbacks are of type \<^typ>\<open>unit\<close>.
\<close>

record scheduler =
  sched_timer :: "nat option"
  sched_clock :: "unit clock"
  requests :: "trigger list"

datatype sched_event = DurableUpdate | Cancel | ManualRequest | Advance nat

definition sched_init :: scheduler where
  "sched_init = \<lparr>sched_timer = None, sched_clock = clock_init, requests = []\<rparr>"

text \<open>
  \<open>clock().advance(ms)\<close>: the time moves on, then every timer that has become due is removed and
  its callback runs.
\<close>

definition fire :: "scheduler \<Rightarrow> nat \<times> nat \<times> unit \<Rightarrow> scheduler" where
  "fire s e =
     (case e of (h, _) \<Rightarrow>
        let (t, rs) = timerCallback (\<lambda>tr q. q @ [tr]) (sched_timer s, requests s)
        in s\<lparr>sched_timer := t, requests := rs, sched_clock := clearTimer h (sched_clock s)\<rparr>)"

definition advance :: "nat \<Rightarrow> scheduler \<Rightarrow> scheduler" where
  "advance ms s =
     (let s1 = s\<lparr>sched_clock := (sched_clock s)\<lparr>now := now (sched_clock s) + ms\<rparr>\<rparr>
      in foldl fire s1 (due_timers (sched_clock s1)))"

fun sched_step :: "nat \<Rightarrow> scheduler \<Rightarrow> sched_event \<Rightarrow> scheduler" where
  "sched_step delay s DurableUpdate =
     (let (t, c) = durableUpdate setTimer clearTimer () delay (sched_timer s, sched_clock s)
      in s\<lparr>sched_timer := t, sched_clock := c\<rparr>)"
| "sched_step delay s Cancel =
     (let (t, c) = cancel clearTimer (sched_timer s, sched_clock s)
      in s\<lparr>sched_timer := t, sched_clock := c\<rparr>)"
| "sched_step delay s ManualRequest = s\<lparr>requests := requests s @ [Manual]\<rparr>"
| "sched_step delay s (Advance ms) = advance ms s"

definition sched_run :: "nat \<Rightarrow> sched_event list \<Rightarrow> scheduler \<Rightarrow> scheduler" where
  "sched_run delay es s = foldl (sched_step delay) s es"

section \<open>The deadline specification\<close>

record idle_spec =
  spec_now :: nat
  deadline :: "nat option"
  spec_requests :: "trigger list"

fun spec_step :: "nat \<Rightarrow> idle_spec \<Rightarrow> sched_event \<Rightarrow> idle_spec" where
  "spec_step delay a DurableUpdate = a\<lparr>deadline := Some (spec_now a + delay)\<rparr>"
| "spec_step delay a Cancel = a\<lparr>deadline := None\<rparr>"
| "spec_step delay a ManualRequest = a\<lparr>spec_requests := spec_requests a @ [Manual]\<rparr>"
| "spec_step delay a (Advance ms) =
     (let t = spec_now a + ms
      in case deadline a of
           None \<Rightarrow> a\<lparr>spec_now := t\<rparr>
         | Some d \<Rightarrow> if d \<le> t
                    then a\<lparr>spec_now := t, deadline := None, spec_requests := spec_requests a @ [Auto]\<rparr>
                    else a\<lparr>spec_now := t\<rparr>)"

definition abs_sched :: "scheduler \<Rightarrow> idle_spec" where
  "abs_sched s = \<lparr>spec_now = now (sched_clock s),
     deadline = (case sched_timer s of None \<Rightarrow> None
                 | Some h \<Rightarrow> map_option fst (lookup_timer (sched_clock s) h)),
     spec_requests = requests s\<rparr>"

section \<open>The invariant\<close>

text \<open>The handle the closure holds is armed, and no other timer is.\<close>

definition sched_inv :: "scheduler \<Rightarrow> bool" where
  "sched_inv s \<longleftrightarrow> clock_wf (sched_clock s) \<and> clk.only_held (sched_timer s) (sched_clock s)
     \<and> (\<forall>h. sched_timer s = Some h \<longrightarrow> lookup_timer (sched_clock s) h \<noteq> None)"

lemma durableUpdate_rearm:
  "durableUpdate setTimer clearTimer cb d (held, c) =
     (Some (fst (clk.rearm cb d held c)), snd (clk.rearm cb d held c))"
  by (simp add: durableUpdate_def clk.rearm_def Let_def split: prod.split option.split)

lemma sched_inv_init: "sched_inv sched_init"
  by (simp add: sched_inv_def sched_init_def clk.only_held_def)

text \<open>In a state of the invariant the due timers are at most the one that is held.\<close>

lemma sched_inv_armed:
  assumes "sched_inv s"
  shows "(\<exists>h t. sched_timer s = Some h \<and> armed (sched_clock s) = [(h, t, ())]) \<or>
         (sched_timer s = None \<and> armed (sched_clock s) = [])"
proof (cases "sched_timer s")
  case None
  with assms show ?thesis by (auto simp: sched_inv_def intro: armed_empty)
next
  case (Some h)
  with assms obtain t where "lookup_timer (sched_clock s) h = Some (t, ())"
    by (auto simp: sched_inv_def)
  with Some assms have "armed (sched_clock s) = [(h, t, ())]"
    by (intro armed_singleton) (auto simp: sched_inv_def)
  with Some show ?thesis by blast
qed

lemma advance_cases:
  assumes "sched_inv s"
  shows "sched_inv (advance ms s) \<and> abs_sched (advance ms s) = spec_step d (abs_sched s) (Advance ms)"
  using sched_inv_armed [OF assms]
proof (elim disjE exE conjE)
  fix h t
  assume t: "sched_timer s = Some h" and a: "armed (sched_clock s) = [(h, t, ())]"
  show ?thesis
    using assms t a
    by (auto simp: advance_def Let_def due_timers_def fire_def timerCallback_def clearTimer_def
        sched_inv_def clock_wf_def clk.only_held_def lookup_timer_def abs_sched_def)
next
  assume "sched_timer s = None" and "armed (sched_clock s) = []"
  then show ?thesis
    using assms
    by (auto simp: advance_def Let_def due_timers_def sched_inv_def clock_wf_def clk.only_held_def
        lookup_timer_def abs_sched_def)
qed

lemma durable_step:
  assumes "sched_inv s"
  shows "sched_inv (sched_step d s DurableUpdate) \<and>
         abs_sched (sched_step d s DurableUpdate) = spec_step d (abs_sched s) DurableUpdate"
proof -
  let ?r = "clk.rearm () d (sched_timer s) (sched_clock s)"
  have wf: "clock_wf (sched_clock s)" and only: "clk.only_held (sched_timer s) (sched_clock s)"
    using assms by (auto simp: sched_inv_def)
  have step: "sched_step d s DurableUpdate =
      s\<lparr>sched_timer := Some (fst ?r), sched_clock := snd ?r\<rparr>"
    by (simp add: durableUpdate_rearm)
  have "now (snd ?r) = now (sched_clock s)"
    by (simp add: clk.rearm_def clk.arm_time clk.disarm_time split: option.split)
  then show ?thesis
    unfolding step using clk.rearm_only_held [OF wf only, of "()" d]
    by (simp add: sched_inv_def abs_sched_def)
qed

lemma cancel_step:
  assumes "sched_inv s"
  shows "sched_inv (sched_step d s Cancel) \<and>
         abs_sched (sched_step d s Cancel) = spec_step d (abs_sched s) Cancel"
proof (cases "sched_timer s")
  case None
  with assms show ?thesis
    by (simp add: cancel_def sched_inv_def abs_sched_def)
next
  case (Some h)
  with assms have "clk.only_held None (clearTimer h (sched_clock s))"
    by (intro clk.disarm_only_held) (auto simp: sched_inv_def)
  with Some assms show ?thesis
    by (simp add: cancel_def sched_inv_def abs_sched_def clk.disarm_wf clk.disarm_time)
qed

lemma sched_step_refines:
  "sched_inv s \<Longrightarrow> sched_inv (sched_step d s e) \<and>
     abs_sched (sched_step d s e) = spec_step d (abs_sched s) e"
proof (cases e)
  case ManualRequest
  assume "sched_inv s"
  with ManualRequest show ?thesis
    by (cases "sched_timer s") (simp_all add: sched_inv_def abs_sched_def)
next
  case (Advance ms)
  assume "sched_inv s"
  from advance_cases [OF this, of ms d] Advance show ?thesis by simp
qed (use durable_step [of s d] cancel_step [of s d] in \<open>simp_all\<close>)

lemma sched_run_refines:
  "sched_inv s \<Longrightarrow> sched_inv (sched_run d es s) \<and>
     abs_sched (sched_run d es s) = foldl (spec_step d) (abs_sched s) es"
  unfolding sched_run_def
  by (induction es arbitrary: s) (simp_all add: sched_step_refines)

section \<open>Properties\<close>

text \<open>
  C35. Over any sequence of durable updates, cancellations, manual requests and passing time, the
  scheduler requests exactly the builds of the deadline specification, in the same order, and its
  \<open>pending()\<close> says whether a deadline is set: a newer durable update replaces the deadline, a
  cancellation removes it, and one automatic build is requested when it passes.
\<close>

theorem scheduler_refines_deadline:
  "requests (sched_run delay es sched_init) =
     spec_requests (foldl (spec_step delay) (abs_sched sched_init) es) \<and>
   (pending (sched_timer (sched_run delay es sched_init), c) \<longleftrightarrow>
     deadline (foldl (spec_step delay) (abs_sched sched_init) es) \<noteq> None)"
proof -
  let ?s = "sched_run delay es sched_init"
  from sched_run_refines [OF sched_inv_init, of delay es]
  have inv: "sched_inv ?s" and abs: "abs_sched ?s = foldl (spec_step delay) (abs_sched sched_init) es"
    by auto
  have "requests ?s = spec_requests (abs_sched ?s)" by (simp add: abs_sched_def)
  moreover have "pending (sched_timer ?s, c) \<longleftrightarrow> deadline (abs_sched ?s) \<noteq> None"
    using inv by (auto simp: pending_def abs_sched_def sched_inv_def split: option.splits)
  ultimately show ?thesis by (simp add: abs)
qed

text \<open>
  However many durable updates, cancellations and waits have happened, at most one timer is
  armed in the timer service, and it is the one the scheduler holds: no build request can be left
  running after a newer update or a cancellation.
\<close>

theorem at_most_one_timer:
  "armed (sched_clock (sched_run delay es sched_init)) =
     (case sched_timer (sched_run delay es sched_init) of
        None \<Rightarrow> []
      | Some h \<Rightarrow> [(h, the (deadline (abs_sched (sched_run delay es sched_init))), ())])"
proof -
  from sched_run_refines [OF sched_inv_init, of delay es]
  have "sched_inv (sched_run delay es sched_init)" by simp
  from sched_inv_armed [OF this] show ?thesis
    by (auto simp: abs_sched_def lookup_timer_def)
qed

end
