(* ===== verification/JsString.thy ===== *)
theory JsString
  imports Prelude
begin

text \<open>
  The \<^verbatim>\<open>String\<close> operations the client code uses: \<open>startsWith\<close>, \<open>endsWith\<close>, \<open>indexOf\<close>,
  \<open>includes\<close>, \<open>split\<close>, \<open>trim\<close>, \<open>toLowerCase\<close>, decimal rendering of a number and \<open>parseInt\<close>.
  They belong to the language, not to the repository, and are defined here as ECMAScript
  specifies them on code units below 256.
\<close>

section \<open>Searching\<close>

definition js_startsWith :: "jsstr \<Rightarrow> jsstr \<Rightarrow> bool" where
  "js_startsWith s p = (take (length p) s = p)"

definition js_endsWith :: "jsstr \<Rightarrow> jsstr \<Rightarrow> bool" where
  "js_endsWith s p = (length p \<le> length s \<and> drop (length s - length p) s = p)"

text \<open>The least position at which \<open>p\<close> occurs in \<open>s\<close>.\<close>

fun find_at :: "jsstr \<Rightarrow> jsstr \<Rightarrow> nat option" where
  "find_at p [] = (if p = [] then Some 0 else None)"
| "find_at p (c # s) =
     (if take (length p) (c # s) = p then Some 0 else map_option Suc (find_at p s))"

text \<open>\<open>s.indexOf(p, from)\<close> for \<open>0 \<le> from \<le> s.length\<close>; \<^const>\<open>None\<close> is the result -1.\<close>

definition js_indexOf :: "jsstr \<Rightarrow> jsstr \<Rightarrow> nat \<Rightarrow> nat option" where
  "js_indexOf s p from = map_option ((+) from) (find_at p (drop from s))"

definition js_includes :: "jsstr \<Rightarrow> jsstr \<Rightarrow> bool" where
  "js_includes s p = (js_indexOf s p 0 \<noteq> None)"

declare js_startsWith_def [js_defs] js_endsWith_def [js_defs] js_indexOf_def [js_defs]
  js_includes_def [js_defs]

lemma js_startsWith_iff: "js_startsWith s p \<longleftrightarrow> (\<exists>r. s = p @ r)"
  by (metis append_eq_conv_conj append_take_drop_id js_startsWith_def)

lemma js_endsWith_iff: "js_endsWith s p \<longleftrightarrow> (\<exists>r. s = r @ p)"
  unfolding js_endsWith_def
  by (metis append_eq_conv_conj append_take_drop_id diff_diff_cancel diff_le_self length_append
      length_drop le_add2 add_diff_cancel_right')

lemma find_at_Some:
  "find_at p s = Some i \<Longrightarrow> i + length p \<le> length s \<and> take (length p) (drop i s) = p"
proof (induction s arbitrary: i)
  case (Cons c s)
  show ?case
  proof (cases "take (length p) (c # s) = p")
    case True
    with Cons.prems have "i = 0" by simp
    moreover have "length p \<le> length (c # s)"
      using True by (metis length_take min.cobounded1)
    ultimately show ?thesis using True by simp
  next
    case False
    with Cons.prems obtain j where "find_at p s = Some j" "i = Suc j" by auto
    with Cons.IH show ?thesis by fastforce
  qed
qed (simp split: if_splits)

lemma find_at_None_iff: "find_at p s = None \<longleftrightarrow> (\<nexists>u v. s = u @ p @ v)"
proof (induction s)
  case (Cons c s)
  have "(\<exists>u v. c # s = u @ p @ v) \<longleftrightarrow> (\<exists>v. c # s = p @ v) \<or> (\<exists>u v. s = u @ p @ v)"
    by (metis append_Cons append_Nil append_eq_Cons_conv)
  moreover have "take (length p) (c # s) = p \<longleftrightarrow> (\<exists>v. c # s = p @ v)"
    by (metis append_eq_conv_conj append_take_drop_id)
  ultimately show ?case using Cons.IH by auto
qed simp

lemma find_at_least:
  "find_at p s = Some i \<Longrightarrow> j < i \<Longrightarrow> take (length p) (drop j s) \<noteq> p"
proof (induction s arbitrary: i j)
  case (Cons c s)
  then show ?case by (cases j) (auto split: if_splits)
qed (simp split: if_splits)

lemma js_includes_iff: "js_includes s p \<longleftrightarrow> (\<exists>u v. s = u @ p @ v)"
  using find_at_None_iff [of p s] by (auto simp: js_includes_def js_indexOf_def)

lemma js_indexOf_Some:
  "js_indexOf s p k = Some i \<Longrightarrow> k \<le> length s \<Longrightarrow>
     k \<le> i \<and> i + length p \<le> length s \<and> take (length p) (drop i s) = p"
  by (auto simp: js_indexOf_def add.commute dest!: find_at_Some)

lemma js_indexOf_char:
  assumes "js_indexOf s [c] k = Some i" "k \<le> length s"
  shows "k \<le> i \<and> i < length s \<and> s ! i = c"
  using js_indexOf_Some [OF assms] by (auto simp: take_Suc hd_drop_conv_nth split: if_splits)

section \<open>Splitting\<close>

text \<open>\<open>s.split(c)\<close> for a one-character separator: never empty.\<close>

fun js_split :: "char \<Rightarrow> jsstr \<Rightarrow> jsstr list" where
  "js_split d [] = [[]]"
| "js_split d (c # s) =
     (if c = d then [] # js_split d s
      else (case js_split d s of [] \<Rightarrow> [[c]] | w # ws \<Rightarrow> (c # w) # ws))"

lemma js_split_nonempty [simp]: "js_split d s \<noteq> []"
  by (cases s) (auto split: list.splits)

lemma js_join_split: "js_join [d] (js_split d s) = s"
proof (induction s)
  case (Cons c s)
  obtain w ws where w: "js_split d s = w # ws"
    by (cases "js_split d s") auto
  with Cons show ?case by (cases ws) auto
qed simp

lemma js_split_no_sep: "w \<in> set (js_split d s) \<Longrightarrow> d \<notin> set w"
  by (induction s arbitrary: w) (auto split: if_splits list.splits)

lemma js_split_id: "d \<notin> set s \<Longrightarrow> js_split d s = [s]"
  by (induction s) auto

lemma js_split_append: "d \<notin> set w \<Longrightarrow> js_split d (w @ d # s) = w # js_split d s"
  by (induction w) auto

lemma js_split_join:
  "ws \<noteq> [] \<Longrightarrow> \<forall>w\<in>set ws. d \<notin> set w \<Longrightarrow> js_split d (js_join [d] ws) = ws"
proof (induction "[d]" ws rule: js_join.induct)
  case (3 x y ys)
  then show ?case by (simp add: js_split_append)
qed (simp_all add: js_split_id)

section \<open>Whitespace and case\<close>

definition js_space :: "char \<Rightarrow> bool" where
  "js_space c = (let n = (of_char c :: nat) in n \<in> {9, 10, 11, 12, 13, 32, 160})"

definition js_trimStart :: "jsstr \<Rightarrow> jsstr" where
  "js_trimStart s = dropWhile js_space s"

definition js_trim :: "jsstr \<Rightarrow> jsstr" where
  "js_trim s = rev (dropWhile js_space (rev (dropWhile js_space s)))"

definition js_lower_char :: "char \<Rightarrow> char" where
  "js_lower_char c =
     (let n = (of_char c :: nat)
      in if 65 \<le> n \<and> n \<le> 90 \<or> 192 \<le> n \<and> n \<le> 222 \<and> n \<noteq> 215 then char_of (n + 32) else c)"

definition js_lower :: "jsstr \<Rightarrow> jsstr" where
  "js_lower s = map js_lower_char s"

declare js_space_def [js_defs] js_trimStart_def [js_defs] js_trim_def [js_defs]
  js_lower_char_def [js_defs] js_lower_def [js_defs]

lemma length_js_lower [simp]: "length (js_lower s) = length s"
  by (simp add: js_lower_def)

lemma js_lower_char_idem [simp]: "js_lower_char (js_lower_char c) = js_lower_char c"
proof -
  let ?n = "of_char c :: nat"
  show ?thesis
  proof (cases "65 \<le> ?n \<and> ?n \<le> 90 \<or> 192 \<le> ?n \<and> ?n \<le> 222 \<and> ?n \<noteq> 215")
    case True
    then have "?n + 32 < 256" by auto
    then have "(of_char (char_of (?n + 32) :: char) :: nat) = ?n + 32" by simp
    with True show ?thesis by (auto simp: js_lower_char_def Let_def)
  next
    case False
    then have "js_lower_char c = c" unfolding js_lower_char_def Let_def by (rule if_not_P)
    then show ?thesis by simp
  qed
qed

lemma js_lower_idem [simp]: "js_lower (js_lower s) = js_lower s"
  by (simp add: js_lower_def)

lemma js_trim_eq_Nil: "js_trim s = [] \<longleftrightarrow> (\<forall>c\<in>set s. js_space c)"
proof -
  have "js_trim s = [] \<longleftrightarrow> (\<forall>c\<in>set (dropWhile js_space s). js_space c)"
    by (simp add: js_trim_def)
  also have "\<dots> \<longleftrightarrow> (\<forall>c\<in>set s. js_space c)"
    by (induction s) auto
  finally show ?thesis .
qed

section \<open>Numbers in text\<close>

fun nat_str :: "nat \<Rightarrow> jsstr" where
  "nat_str n = (if n < 10 then [char_of (48 + n)]
                else nat_str (n div 10) @ [char_of (48 + n mod 10)])"

declare nat_str.simps [simp del]

lemma nat_str_nonempty [simp]: "nat_str n \<noteq> []"
  by (subst nat_str.simps) simp

definition js_digit :: "char \<Rightarrow> bool" where
  "js_digit c = (let n = (of_char c :: nat) in 48 \<le> n \<and> n \<le> 57)"

definition digit_val :: "char \<Rightarrow> nat" where
  "digit_val c = of_char c - 48"

definition digits_val :: "jsstr \<Rightarrow> nat" where
  "digits_val ds = foldl (\<lambda>a c. 10 * a + digit_val c) 0 ds"

text \<open>
  \<open>Number.parseInt(value, 10)\<close> on a string: leading white space, an optional sign, then the
  longest run of digits; \<^const>\<open>None\<close> is \<open>NaN\<close>.
\<close>

definition parse_digits :: "jsstr \<Rightarrow> nat option" where
  "parse_digits s = (let ds = takeWhile js_digit s in if ds = [] then None else Some (digits_val ds))"

definition js_parseInt :: "jsstr \<Rightarrow> int option" where
  "js_parseInt s =
     (case js_trimStart s of
        [] \<Rightarrow> None
      | c # cs \<Rightarrow>
          if c = CHR ''-'' then map_option (\<lambda>n. - int n) (parse_digits cs)
          else if c = CHR ''+'' then map_option int (parse_digits cs)
          else map_option int (parse_digits (c # cs)))"

declare js_digit_def [js_defs] digit_val_def [js_defs] digits_val_def [js_defs]
  parse_digits_def [js_defs] js_parseInt_def [js_defs]

lemma char_eq_char_of [js_defs]: "(c = char_of (n :: nat)) = (of_char c = n mod 256)"
  using char_of_eq_iff [of n c] by (auto simp: take_bit_eq_mod eq_commute)

lemma char_of_eq_char [js_defs]: "(char_of (n :: nat) = c) = (of_char c = n mod 256)"
  using char_eq_char_of [of c n] by auto

lemma of_char_digit [simp]:
  "k < 10 \<Longrightarrow> (of_char (char_of (48 + k :: nat) :: char) :: nat) = 48 + k"
  by simp

lemma nat_str_digits: "c \<in> set (nat_str n) \<Longrightarrow> js_digit c"
proof (induction n rule: nat_str.induct)
  case (1 n)
  show ?case
  proof (cases "n < 10")
    case True
    with "1.prems" show ?thesis by (subst (asm) nat_str.simps) (simp add: js_digit_def Let_def)
  next
    case False
    have "n mod 10 < 10" by simp
    then have "js_digit (char_of (48 + n mod 10))" by (simp only: js_digit_def Let_def of_char_digit) simp
    with "1.IH" "1.prems" False show ?thesis by (subst (asm) nat_str.simps) auto
  qed
qed

lemma digits_val_snoc [simp]: "digits_val (ds @ [c]) = 10 * digits_val ds + digit_val c"
  by (simp add: digits_val_def)

lemma digits_val_nat_str: "digits_val (nat_str n) = n"
proof (induction n rule: nat_str.induct)
  case (1 n)
  show ?case
  proof (cases "n < 10")
    case True
    then show ?thesis by (simp add: nat_str.simps digits_val_def digit_val_def)
  next
    case False
    have "n mod 10 < 10" by simp
    then have "digit_val (char_of (48 + n mod 10)) = n mod 10"
      by (simp only: digit_val_def of_char_digit diff_add_inverse)
    with "1.IH" False show ?thesis by (subst nat_str.simps) simp
  qed
qed

lemma nat_str_head:
  assumes "nat_str n = c # cs"
  shows "js_digit c \<and> \<not> js_space c \<and> c \<noteq> CHR ''-'' \<and> c \<noteq> CHR ''+''"
proof -
  have "js_digit c" using nat_str_digits [of c n] assms by simp
  then show ?thesis by (auto simp: js_digit_def js_space_def Let_def)
qed

lemma js_parseInt_nat_str: "js_parseInt (nat_str n) = Some (int n)"
proof -
  obtain c cs where c: "nat_str n = c # cs" by (cases "nat_str n") auto
  have tw: "takeWhile js_digit (nat_str n) = nat_str n"
    by (simp add: nat_str_digits)
  have "parse_digits (c # cs) = Some n"
    by (simp only: parse_digits_def c [symmetric] tw Let_def digits_val_nat_str nat_str_nonempty if_False)
  then show ?thesis
    using nat_str_head [OF c] by (simp add: js_parseInt_def js_trimStart_def c)
qed

lemma nat_str_inject [simp]: "nat_str m = nat_str n \<longleftrightarrow> m = n"
  by (metis digits_val_nat_str)

section \<open>Separators\<close>

text \<open>A middle dot between spaces, the separator of the client's captions.\<close>

definition middot :: jsstr where
  "middot = [CHR '' '', CHR 0xB7, CHR '' '']"

text \<open>\<open>s.replaceAll('_', ' ')\<close>.\<close>

definition underscores_to_spaces :: "jsstr \<Rightarrow> jsstr" where
  "underscores_to_spaces s = map (\<lambda>c. if c = CHR ''_'' then CHR '' '' else c) s"

end
