(* ===== verification/Base64.thy ===== *)
theory Base64
  imports JsString "HOL-Library.Word"
begin

text \<open>
  \<open>decodeBase64\<close> of \<^verbatim>\<open>services/server/frontend/writer.js\<close> and its twin \<open>base64\<close> of
  \<^verbatim>\<open>services/server/frontend/review.js\<close>: the anchors of a review thread arrive as base64 text
  with line breaks and are turned into the bytes of an encoded relative position. \<open>atob\<close> belongs to
  the platform and is defined as the forgiving-base64 decoder of the Infra standard; \<open>base64\<close> here is
  the RFC 4648 encoder, used only to state the round trip.
\<close>

type_synonym byte = "8 word"

section \<open>The alphabet\<close>

definition b64_char :: "nat \<Rightarrow> char" where
  "b64_char n = char_of (if n < 26 then n + 65 else if n < 52 then n + 71
     else if n < 62 then n - 4 else if n = 62 then 43 else (47 :: nat))"

definition b64_val :: "char \<Rightarrow> nat option" where
  "b64_val c = (let n = (of_char c :: nat) in
     if 65 \<le> n \<and> n \<le> 90 then Some (n - 65)
     else if 97 \<le> n \<and> n \<le> 122 then Some (n - 71)
     else if 48 \<le> n \<and> n \<le> 57 then Some (n + 4)
     else if n = 43 then Some 62 else if n = 47 then Some 63 else None)"

lemma b64_val_char [simp]: "n < 64 \<Longrightarrow> b64_val (b64_char n) = Some n"
  unfolding b64_char_def b64_val_def Let_def by auto

definition ascii_space :: "char \<Rightarrow> bool" where
  "ascii_space c = (of_char c \<in> {9, 10, 12, 13, 32 :: nat})"

lemma b64_char_plain [simp]:
  "\<not> ascii_space (b64_char n)" "b64_char n \<noteq> CHR ''=''" "b64_char n \<noteq> CHR 0x0A"
proof -
  have "(of_char (b64_char n) :: nat) \<notin> {9, 10, 12, 13, 32, 61}"
    unfolding b64_char_def by auto
  then show "\<not> ascii_space (b64_char n)" "b64_char n \<noteq> CHR ''=''" "b64_char n \<noteq> CHR 0x0A"
    by (auto simp: ascii_space_def)
qed

section \<open>Decoding\<close>

fun sextets_bytes :: "nat list \<Rightarrow> byte list" where
  "sextets_bytes (a # b # c # d # rest) =
     (let n = ((a * 64 + b) * 64 + c) * 64 + d
      in [of_nat (n div 65536), of_nat (n div 256 mod 256), of_nat (n mod 256)] @ sextets_bytes rest)"
| "sextets_bytes [a, b, c] =
     (let n = (a * 64 + b) * 64 + c in [of_nat (n div 1024), of_nat (n div 4 mod 256)])"
| "sextets_bytes [a, b] = [of_nat ((a * 64 + b) div 16)]"
| "sextets_bytes _ = []"

fun sequence_opt :: "'a option list \<Rightarrow> 'a list option" where
  "sequence_opt [] = Some []"
| "sequence_opt (None # xs) = None"
| "sequence_opt (Some x # xs) = map_option ((#) x) (sequence_opt xs)"

definition strip_pad :: "jsstr \<Rightarrow> jsstr" where
  "strip_pad s =
     (if length s mod 4 \<noteq> 0 then s
      else let n = length s
           in if 2 \<le> n \<and> drop (n - 2) s = ''=='' then take (n - 2) s
              else if 1 \<le> n \<and> drop (n - 1) s = ''='' then take (n - 1) s else s)"

text \<open>\<^const>\<open>None\<close> is the \<open>InvalidCharacterError\<close> that \<open>atob\<close> throws.\<close>

definition atob :: "jsstr \<Rightarrow> byte list option" where
  "atob s =
     (let t = strip_pad (filter (\<lambda>c. \<not> ascii_space c) s)
      in if length t mod 4 = 1 then None
         else map_option sextets_bytes (sequence_opt (map b64_val t)))"

datatype decoded = NullBytes | Bytes "byte list" | InvalidCharacter

text \<open>\<open>null\<close> for a missing or empty value; the exception of \<open>atob\<close> is not caught.\<close>

definition decodeBase64 :: "jsstr option \<Rightarrow> decoded" where
  "decodeBase64 value =
     (if \<not> truthy value then NullBytes
      else case atob (filter (\<lambda>c. c \<noteq> CHR 0x0A) (the value)) of
             None \<Rightarrow> InvalidCharacter | Some bs \<Rightarrow> Bytes bs)"

section \<open>Encoding, for the round trip\<close>

fun base64_sextets :: "nat list \<Rightarrow> nat list" where
  "base64_sextets (a # b # c # rest) =
     (let n = (a * 256 + b) * 256 + c
      in [n div 64 div 64 div 64, n div 64 div 64 mod 64, n div 64 mod 64, n mod 64]
         @ base64_sextets rest)"
| "base64_sextets [a, b] =
     (let n = (a * 256 + b) * 4 in [n div 64 div 64, n div 64 mod 64, n mod 64])"
| "base64_sextets [a] = (let n = a * 16 in [n div 64, n mod 64])"
| "base64_sextets [] = []"

definition base64 :: "byte list \<Rightarrow> jsstr" where
  "base64 bs = map b64_char (base64_sextets (map unat bs)) @
     (case length bs mod 3 of 0 \<Rightarrow> [] | Suc 0 \<Rightarrow> ''=='' | _ \<Rightarrow> ''='')"

lemma base64_sextets_bound:
  "\<forall>a\<in>set as. a < 256 \<Longrightarrow> x \<in> set (base64_sextets as) \<Longrightarrow> x < 64"
  by (induction as rule: base64_sextets.induct) (auto simp: Let_def)

lemma recompose: "(m div 64 * 64 + m mod 64 :: nat) = m"
  by simp

lemma low_byte:
  "c < 256 \<Longrightarrow> (x * 256 + c) div 256 = x \<and> (x * 256 + c) mod 256 = (c :: nat)"
  by simp

lemma sextets_bytes_base64:
  "\<forall>a\<in>set as. a < 256 \<Longrightarrow> sextets_bytes (base64_sextets as) = map of_nat as"
proof (induction as rule: base64_sextets.induct)
  case (1 a b c rest)
  let ?n = "(a * 256 + b) * 256 + c"
  have "((?n div 64 div 64 div 64 * 64 + ?n div 64 div 64 mod 64) * 64 + ?n div 64 mod 64) * 64
      + ?n mod 64 = ?n"
    by (simp only: recompose)
  moreover have "?n div 256 div 256 = a" "?n div 256 mod 256 = b" "?n mod 256 = c"
    using 1 low_byte [of c "a * 256 + b"] low_byte [of b a] by simp_all
  moreover have "?n div 65536 = ?n div 256 div 256" by (simp add: div_mult2_eq [symmetric])
  ultimately show ?case using 1 by (simp add: Let_def del: div_mult_mod_eq)
next
  case (2 a b)
  let ?n = "(a * 256 + b) * 4"
  have "(?n div 64 div 64 * 64 + ?n div 64 mod 64) * 64 + ?n mod 64 = ?n"
    by (simp only: recompose)
  moreover have "?n div 1024 = a" "?n div 4 mod 256 = b"
    using 2 by auto
  ultimately show ?case by (simp add: Let_def)
next
  case (3 a)
  have "a * 16 div 64 * 64 + a * 16 mod 64 = a * 16" by (rule recompose)
  then show ?case by (simp add: Let_def del: div_mult_mod_eq)
qed simp

lemma length_base64_sextets:
  "length (base64_sextets as) =
     4 * (length as div 3) + (if length as mod 3 = 0 then 0 else Suc (length as mod 3))"
proof (induction as rule: base64_sextets.induct)
  case (1 a b c rest)
  have len: "length (a # b # c # rest) = length rest + 3" by simp
  have "(length rest + 3) div 3 = Suc (length rest div 3)"
    "(length rest + 3) mod 3 = length rest mod 3"
    by simp_all
  with 1 show ?case unfolding len by (simp add: Let_def)
qed (simp_all add: Let_def)

lemma sequence_opt_vals:
  "\<forall>x\<in>set xs. x < 64 \<Longrightarrow> sequence_opt (map (b64_val \<circ> b64_char) xs) = Some xs"
  by (induction xs) simp_all

end
