(* ===== verification/ReviewHelpers.thy ===== *)
theory ReviewHelpers
  imports Complex_Main Base64
begin

text \<open>
  \<^verbatim>\<open>services/server/frontend/review-helpers.mjs\<close>: which thread types take a replacement text, the
  conversion of a dragged rectangle to page-relative coordinates and back, and the resolution of a
  thread's encoded anchor to a range of the live text.

  The geometry is over exact numbers \<^typ>\<open>rat\<close> with every subtraction, product and quotient passed
  through a rounding function \<open>rnd\<close>; IEEE arithmetic is one such function, which is monotone and exact on
  0, 1 and the page dimensions, and nothing else is used of it. Infinities and NaN do not occur.
\<close>

section \<open>Thread types\<close>

definition showsReplacementInput :: "jsstr \<Rightarrow> bool" where
  "showsReplacementInput threadType =
     (threadType = ''SUGGESTION'' \<or> threadType = ''SUGGESTED_REPLACEMENT'')"

section \<open>Rectangles\<close>

record drag =
  x1 :: rat
  y1 :: rat
  x2 :: rat
  y2 :: rat

record rectangle =
  rx :: rat
  ry :: rat
  rwidth :: rat
  rheight :: rat

definition normalizeRectangle ::
  "(rat \<Rightarrow> rat) \<Rightarrow> drag \<Rightarrow> rat \<Rightarrow> rat \<Rightarrow> jsstr + rectangle" where
  "normalizeRectangle rnd r width height =
     (if \<not> (width > 0) \<or> \<not> (height > 0) then Inl ''page dimensions must be positive''
      else let a1 = max 0 (min (x1 r) (min (x2 r) width));
               b1 = max 0 (min (y1 r) (min (y2 r) height));
               a2 = max 0 (min (max (x1 r) (x2 r)) width);
               b2 = max 0 (min (max (y1 r) (y2 r)) height)
           in Inr \<lparr>rx = rnd (a1 / width), ry = rnd (b1 / height),
                   rwidth = rnd (rnd (a2 - a1) / width), rheight = rnd (rnd (b2 - b1) / height)\<rparr>)"

definition denormalizeRectangle :: "(rat \<Rightarrow> rat) \<Rightarrow> rectangle \<Rightarrow> rat \<Rightarrow> rat \<Rightarrow> rectangle" where
  "denormalizeRectangle rnd r width height =
     \<lparr>rx = rnd (rx r * width), ry = rnd (ry r * height),
      rwidth = rnd (rwidth r * width), rheight = rnd (rheight r * height)\<rparr>"

lemma unit_quotient:
  fixes a w :: rat
  assumes "mono rnd" "rnd 0 = 0" "rnd 1 = 1" "0 < w" "0 \<le> a" "a \<le> w"
  shows "0 \<le> rnd (a / w) \<and> rnd (a / w) \<le> 1"
proof -
  have "0 \<le> a / w" "a / w \<le> 1" using assms(4-6) by (simp_all add: divide_le_eq_1)
  from monoD [OF assms(1) this(1)] monoD [OF assms(1) this(2)] show ?thesis
    by (simp only: assms(2,3) simp_thms)
qed

lemma rounded_extent:
  fixes a b w :: rat
  assumes "mono rnd" "rnd 0 = 0" "rnd w = w" "0 \<le> a" "a \<le> b" "b \<le> w"
  shows "0 \<le> rnd (b - a) \<and> rnd (b - a) \<le> w"
proof -
  have "0 \<le> b - a" "b - a \<le> w" using assms(4-6) by simp_all
  from monoD [OF assms(1) this(1)] monoD [OF assms(1) this(2)] show ?thesis
    by (simp only: assms(2,3) simp_thms)
qed

lemma drag_order:
  fixes p q w :: rat
  assumes "0 < w"
  shows "0 \<le> max 0 (min p (min q w))" "max 0 (min p (min q w)) \<le> max 0 (min (max p q) w)"
    "max 0 (min (max p q) w) \<le> w"
  using assms by (auto simp: max_def min_def)

lemma normalizeRectangle_ok:
  "0 < width \<Longrightarrow> 0 < height \<Longrightarrow> \<exists>n. normalizeRectangle rnd r width height = Inr n"
  by (simp add: normalizeRectangle_def Let_def)

text \<open>
  Whatever corner the drag starts from and however far it leaves the page, the normalised
  rectangle lies in the unit square in each coordinate and extent, under any monotone rounding that is
  exact on 0, 1 and the page dimensions.
\<close>

theorem normalizeRectangle_unit:
  assumes "mono rnd" "rnd 0 = 0" "rnd 1 = 1" "rnd width = width" "rnd height = height"
    and "normalizeRectangle rnd r width height = Inr n"
  shows "rx n \<in> {0..1} \<and> ry n \<in> {0..1} \<and> rwidth n \<in> {0..1} \<and> rheight n \<in> {0..1}"
proof -
  have pos: "0 < width" "0 < height"
    using assms(6) by (auto simp: normalizeRectangle_def split: if_splits)
  note unit = unit_quotient [OF assms(1-3)]
  note xo = drag_order [OF pos(1), of "x1 r" "x2 r"]
  note yo = drag_order [OF pos(2), of "y1 r" "y2 r"]
  have n: "n = \<lparr>rx = rnd (max 0 (min (x1 r) (min (x2 r) width)) / width),
      ry = rnd (max 0 (min (y1 r) (min (y2 r) height)) / height),
      rwidth = rnd (rnd (max 0 (min (max (x1 r) (x2 r)) width)
                 - max 0 (min (x1 r) (min (x2 r) width))) / width),
      rheight = rnd (rnd (max 0 (min (max (y1 r) (y2 r)) height)
                 - max 0 (min (y1 r) (min (y2 r) height))) / height)\<rparr>"
    using assms(6) pos by (simp add: normalizeRectangle_def Let_def)
  show ?thesis
    unfolding n
    using unit [OF pos(1) xo(1) order_trans [OF xo(2,3)]] unit [OF pos(2) yo(1) order_trans [OF yo(2,3)]]
      unit [OF pos(1)] unit [OF pos(2)]
      rounded_extent [OF assms(1,2,4) xo(1,2,3)] rounded_extent [OF assms(1,2,5) yo(1,2,3)]
    by simp
qed

theorem normalizeRectangle_unit_witness:
  "\<exists>n. normalizeRectangle id \<lparr>x1 = 50, y1 = 20, x2 = - 10, y2 = 300\<rparr> 100 200 = Inr n \<and>
     rx n \<in> {0..1} \<and> ry n \<in> {0..1} \<and> rwidth n \<in> {0..1} \<and> rheight n \<in> {0..1}"
proof -
  obtain n where n: "normalizeRectangle id \<lparr>x1 = 50, y1 = 20, x2 = - 10, y2 = 300\<rparr> 100 200 = Inr n"
    using normalizeRectangle_ok [of 100 200 id "\<lparr>x1 = 50, y1 = 20, x2 = - 10, y2 = 300\<rparr>"] by auto
  with normalizeRectangle_unit [OF _ _ _ _ _ n] show ?thesis by (auto simp: mono_def)
qed

text \<open>
  In exact arithmetic, scaling a normalised rectangle back to the page gives the dragged rectangle
  with its corners ordered and clipped to the page, and it ends inside the page.
\<close>

theorem denormalize_normalize:
  assumes "normalizeRectangle id r width height = Inr n"
  shows "denormalizeRectangle id n width height =
      \<lparr>rx = max 0 (min (x1 r) (min (x2 r) width)), ry = max 0 (min (y1 r) (min (y2 r) height)),
       rwidth = max 0 (min (max (x1 r) (x2 r)) width) - max 0 (min (x1 r) (min (x2 r) width)),
       rheight = max 0 (min (max (y1 r) (y2 r)) height) - max 0 (min (y1 r) (min (y2 r) height))\<rparr>
    \<and> rx n + rwidth n \<le> 1 \<and> ry n + rheight n \<le> 1"
proof -
  have pos: "0 < width" "0 < height"
    using assms by (auto simp: normalizeRectangle_def split: if_splits)
  have n: "n = \<lparr>rx = max 0 (min (x1 r) (min (x2 r) width)) / width,
      ry = max 0 (min (y1 r) (min (y2 r) height)) / height,
      rwidth = (max 0 (min (max (x1 r) (x2 r)) width)
                 - max 0 (min (x1 r) (min (x2 r) width))) / width,
      rheight = (max 0 (min (max (y1 r) (y2 r)) height)
                 - max 0 (min (y1 r) (min (y2 r) height))) / height\<rparr>"
    using assms pos by (simp add: normalizeRectangle_def Let_def)
  show ?thesis
    unfolding n using pos drag_order(3) [OF pos(1), of "x1 r" "x2 r"]
      drag_order(3) [OF pos(2), of "y1 r" "y2 r"]
    by (simp add: denormalizeRectangle_def add_divide_distrib [symmetric])
qed

theorem denormalize_normalize_witness:
  "\<exists>n. normalizeRectangle id \<lparr>x1 = 50, y1 = 20, x2 = - 10, y2 = 300\<rparr> 100 200 = Inr n \<and>
     denormalizeRectangle id n 100 200 = \<lparr>rx = 0, ry = 20, rwidth = 50, rheight = 180\<rparr>"
proof -
  obtain n where n: "normalizeRectangle id \<lparr>x1 = 50, y1 = 20, x2 = - 10, y2 = 300\<rparr> 100 200 = Inr n"
    using normalizeRectangle_ok [of 100 200 id "\<lparr>x1 = 50, y1 = 20, x2 = - 10, y2 = 300\<rparr>"] by auto
  with denormalize_normalize [OF n] show ?thesis by (auto simp: max_def min_def)
qed

section \<open>Anchors\<close>

text \<open>
  Yjs resolves an encoded relative position in a document to a shared type and an index, to
  \<^const>\<open>None\<close> when the position no longer exists, or throws; \<open>resolve\<close> is that library call.
\<close>

record source_range =
  range_from :: nat
  range_to :: nat

datatype 'ty resolution = Throws | Unresolved | Position 'ty nat

definition resolveSuggestionRange ::
  "(byte list \<Rightarrow> 'd \<Rightarrow> 'ty resolution) \<Rightarrow> 'd \<Rightarrow> 'ty \<Rightarrow> byte list option \<Rightarrow> byte list option
     \<Rightarrow> source_range option" where
  "resolveSuggestionRange resolve doc ytext encodedStart encodedEnd =
     (case (encodedStart, encodedEnd) of
        (Some s, Some e) \<Rightarrow>
          (case resolve s doc of
             Throws \<Rightarrow> None
           | start \<Rightarrow>
               (case resolve e doc of
                  Throws \<Rightarrow> None
                | fin \<Rightarrow>
                    (case (start, fin) of
                       (Position ty i, Position ty' j) \<Rightarrow>
                         if ty \<noteq> ytext \<or> ty' \<noteq> ytext \<or> j < i then None
                         else Some \<lparr>range_from = i, range_to = j\<rparr>
                     | _ \<Rightarrow> None)))
      | _ \<Rightarrow> None)"

text \<open>
  A resolved range is ordered, both of its ends are positions of the edited text, and they are where
  the document puts the two anchors; a missing anchor, an exception of the decoder, a lost position, a
  position of another shared type and a reversed pair all give no range.
\<close>

theorem resolveSuggestionRange_sound:
  "resolveSuggestionRange resolve doc ytext es ee = Some r \<longleftrightarrow>
     range_from r \<le> range_to r \<and>
     (\<exists>s e. es = Some s \<and> ee = Some e \<and> resolve s doc = Position ytext (range_from r) \<and>
        resolve e doc = Position ytext (range_to r))"
  by (cases r) (auto simp: resolveSuggestionRange_def split: option.splits resolution.splits)

section \<open>Base64 text of an anchor\<close>

lemma filter_base64:
  "filter (\<lambda>c. \<not> ascii_space c) (map b64_char xs) = map b64_char xs"
  by (induction xs) simp_all

lemma strip_pad_base64: "strip_pad (base64 bs) = map b64_char (base64_sextets (map unat bs))"
proof -
  let ?m = "map b64_char (base64_sextets (map unat bs))"
  have len: "length ?m = 4 * (length bs div 3)
      + (if length bs mod 3 = 0 then 0 else Suc (length bs mod 3))"
    by (simp add: length_base64_sextets)
  have noeq: "CHR ''='' \<notin> set ?m" by (auto dest: sym)
  consider "length bs mod 3 = 0" | "length bs mod 3 = 1" | "length bs mod 3 = 2" by linarith
  then show ?thesis
  proof cases
    case 1
    have "drop (length ?m - 2) ?m \<noteq> ''==''" "drop (length ?m - 1) ?m \<noteq> ''=''"
      using noeq by (metis in_set_dropD list.set_intros(1))+
    with 1 show ?thesis by (auto simp: base64_def strip_pad_def Let_def)
  next
    case 2
    then show ?thesis using len by (simp add: base64_def strip_pad_def Let_def)
  next
    case 3
    have "drop (Suc (length ?m) - 2) (?m @ ''='') \<noteq> ''==''"
      using len 3 noeq
      by (cases ?m rule: rev_cases) (auto simp: Let_def)
    with 3 show ?thesis using len by (simp add: base64_def strip_pad_def Let_def numeral_2_eq_2)
  qed
qed

lemma atob_base64: "atob (base64 bs) = Some bs"
proof -
  let ?x = "base64_sextets (map unat bs)"
  have "filter (\<lambda>c. \<not> ascii_space c) (base64 bs) = base64 bs"
    by (auto simp: base64_def filter_base64 ascii_space_def [of "CHR ''=''"] split: nat.split)
  moreover have "length (map b64_char ?x) mod 4 \<noteq> 1"
    by (simp add: length_base64_sextets)
  moreover have "\<forall>a\<in>set (map unat bs). a < 256"
    using unsigned_less [where ?'b = 8 and ?'a = nat] by auto
  moreover from this have "sequence_opt (map (b64_val \<circ> b64_char) ?x) = Some ?x"
    using base64_sextets_bound [of "map unat bs"] by (intro sequence_opt_vals) blast
  moreover have "map (of_nat \<circ> unat) bs = bs" by (simp add: o_def)
  ultimately show ?thesis
    using sextets_bytes_base64 [of "map unat bs"] by (simp add: atob_def strip_pad_base64 Let_def)
qed

text \<open>
  An anchor survives its transport: whatever line breaks the server puts into the base64 text of a
  non-empty byte string, the client decodes it to exactly those bytes.
\<close>

theorem decodeBase64_wrapped:
  assumes "filter (\<lambda>c. c \<noteq> CHR 0x0A) text = base64 bs" "bs \<noteq> []"
  shows "decodeBase64 (Some text) = Bytes bs"
proof -
  have "base64 bs \<noteq> []"
    using assms(2) by (cases "map unat bs" rule: base64_sextets.cases) (auto simp: base64_def Let_def)
  with assms(1) have "text \<noteq> []" by auto
  then show ?thesis by (simp add: decodeBase64_def assms(1) atob_base64)
qed

theorem decodeBase64_wrapped_witness:
  "decodeBase64 (Some (''AQL'' @ [CHR 0x0A] @ ''/'')) = Bytes [1, 2, 255]"
proof (rule decodeBase64_wrapped)
  show "filter (\<lambda>c. c \<noteq> CHR 0x0A) (''AQL'' @ [CHR 0x0A] @ ''/'') = base64 [1, 2, 255]"
    by (simp add: base64_def b64_char_def Let_def char_eq_char_of)
qed simp

end
