(* ===== verification/Outline.thy ===== *)
theory Outline
  imports JsString
begin

text \<open>
  \<open>buildOutlineTree\<close> of \<^verbatim>\<open>services/server/frontend/writer-productivity.mjs\<close>. The source keeps a
  stack of nodes and pushes a new node into the \<open>children\<close> array of the node on top, an array that the
  tree built so far shares with the stack. The model keeps that sharing: nodes live in a store, indexed
  in creation order, and the stack, the roots and the children arrays hold addresses. The store is then
  shown to hold the forest of a direct recursive specification.
\<close>

section \<open>The code\<close>

record 'p outline_entry =
  oe_level :: jsstr
  oe_payload :: 'p

text \<open>
  \<open>LEVELS[entry.level] ?? 0\<close>. The levels are the sectioning commands that the server finds; a level with the name of
  something that every object inherits (\<open>constructor\<close>), for which the code would compare with a function, is outside
  the model.
\<close>

definition LEVELS :: "jsstr \<rightharpoonup> nat" where
  "LEVELS = map_of [(''part'', 0), (''chapter'', 0), (''section'', 0), (''subsection'', 1),
     (''subsubsection'', 2), (''paragraph'', 3), (''subparagraph'', 4)]"

definition entry_level :: "'p outline_entry \<Rightarrow> nat" where
  "entry_level e = (case LEVELS (oe_level e) of None \<Rightarrow> 0 | Some l \<Rightarrow> l)"

text \<open>A node: the copied entry and the addresses in its \<open>children\<close> array.\<close>

type_synonym 'p node_store = "('p outline_entry \<times> nat list) list"

record 'p outline_state =
  store :: "'p node_store"
  roots :: "nat list"
  stack :: "(nat \<times> nat) list"  \<comment> \<open>level and address, the top first\<close>

definition push_child :: "nat \<Rightarrow> nat \<Rightarrow> 'p node_store \<Rightarrow> 'p node_store" where
  "push_child p c h = h[p := (fst (h ! p), snd (h ! p) @ [c])]"

definition outline_step :: "'p outline_state \<Rightarrow> 'p outline_entry \<Rightarrow> 'p outline_state" where
  "outline_step s entry =
     (let level = entry_level entry;
          node = length (store s);
          h = store s @ [(entry, [])];
          stk = dropWhile (\<lambda>(l, _). level \<le> l) (stack s)
      in case stk of
           [] \<Rightarrow> \<lparr>store = h, roots = roots s @ [node], stack = [(level, node)]\<rparr>
         | (_, p) # _ \<Rightarrow> \<lparr>store = push_child p node h, roots = roots s, stack = (level, node) # stk\<rparr>)"

definition outline_init :: "'p outline_state" where
  "outline_init = \<lparr>store = [], roots = [], stack = []\<rparr>"

datatype 'p outline_node = ONode "'p outline_entry" "'p outline_node list"

text \<open>
  The object graph below an address, read out to a given depth; the depth of the result is at most the
  number of entries (\<open>build_height\<close>).
\<close>

fun read_node :: "nat \<Rightarrow> 'p node_store \<Rightarrow> nat \<Rightarrow> 'p outline_node" where
  "read_node 0 h a = ONode (fst (h ! a)) []"
| "read_node (Suc n) h a = ONode (fst (h ! a)) (map (read_node n h) (snd (h ! a)))"

definition buildOutlineTree :: "'p outline_entry list \<Rightarrow> 'p outline_node list" where
  "buildOutlineTree entries =
     (let s = foldl outline_step outline_init entries
      in map (read_node (length entries) (store s)) (roots s))"

section \<open>The specification\<close>

text \<open>An entry's children come from the entries after it, up to the next one that is not deeper.\<close>

function outline_spec :: "'p outline_entry list \<Rightarrow> 'p outline_node list" where
  "outline_spec [] = []"
| "outline_spec (e # es) =
     ONode e (outline_spec (takeWhile (\<lambda>x. entry_level e < entry_level x) es))
       # outline_spec (dropWhile (\<lambda>x. entry_level e < entry_level x) es)"
  by pat_completeness auto
termination
  by (relation "measure length") (auto simp: le_imp_less_Suc length_takeWhile_le length_dropWhile_le)

fun preorder :: "'p outline_node \<Rightarrow> 'p outline_entry list" where
  "preorder (ONode e ts) = e # concat (map preorder ts)"

fun root_entry :: "'p outline_node \<Rightarrow> 'p outline_entry" where
  "root_entry (ONode e ts) = e"

text \<open>Every node is deeper than its parent and nested nodes are again so.\<close>

fun well_nested :: "'p outline_node \<Rightarrow> bool" where
  "well_nested (ONode e ts) \<longleftrightarrow>
     (\<forall>t\<in>set ts. entry_level e < entry_level (root_entry t) \<and> well_nested t)"

fun height :: "'p outline_node \<Rightarrow> nat" where
  "height (ONode e ts) = (if ts = [] then 0 else Suc (Max (set (map height ts))))"

section \<open>The store holds the forest\<close>

text \<open>\<open>holds b h a t\<close>: the object graph below \<open>a\<close> is the tree \<open>t\<close>, all of it at addresses from \<open>b\<close> on.\<close>

fun holds :: "nat \<Rightarrow> 'p node_store \<Rightarrow> nat \<Rightarrow> 'p outline_node \<Rightarrow> bool" where
  "holds b h a (ONode e ts) \<longleftrightarrow>
     b \<le> a \<and> a < length h \<and> fst (h ! a) = e \<and> list_all2 (holds b h) (snd (h ! a)) ts"

lemma holds_mono: "holds b h a t \<Longrightarrow> c \<le> b \<Longrightarrow> holds c h a t"
  by (induction t arbitrary: a) (auto simp: list_all2_conv_all_nth)

lemma holds_frame:
  "holds b h a t \<Longrightarrow> length h \<le> length h' \<Longrightarrow> (\<And>i. b \<le> i \<Longrightarrow> i < length h \<Longrightarrow> h' ! i = h ! i) \<Longrightarrow>
     holds b h' a t"
  by (induction t arbitrary: a) (auto simp: list_all2_conv_all_nth)

lemma read_node_holds: "holds b h a t \<Longrightarrow> height t \<le> n \<Longrightarrow> read_node n h a = t"
proof (induction t arbitrary: n a)
  case (ONode e ts)
  show ?case
  proof (cases n)
    case 0
    with ONode.prems show ?thesis by (auto split: if_splits)
  next
    case (Suc m)
    have kids: "list_all2 (holds b h) (snd (h ! a)) ts" using ONode.prems by simp
    have "height t \<le> m" if "t \<in> set ts" for t
      using ONode.prems(2) Suc that by (auto split: if_splits)
    with kids ONode.IH have "map (read_node m h) (snd (h ! a)) = ts"
      by (auto simp: list_all2_conv_all_nth intro!: nth_equalityI)
    with Suc ONode.prems show ?thesis by simp
  qed
qed

lemma outline_spec_height: "t \<in> set (outline_spec es) \<Longrightarrow> height t < length es"
proof (induction es arbitrary: t rule: outline_spec.induct)
  case (2 e es)
  let ?a = "takeWhile (\<lambda>x. entry_level e < entry_level x) es"
  let ?b = "dropWhile (\<lambda>x. entry_level e < entry_level x) es"
  have len: "length ?a \<le> length es" "length ?b \<le> length es"
    by (simp_all add: length_takeWhile_le length_dropWhile_le)
  from 2 consider "t = ONode e (outline_spec ?a)" | "t \<in> set (outline_spec ?b)" by auto
  then show ?case
  proof cases
    case 1
    show ?thesis
    proof (cases "outline_spec ?a = []")
      case False
      then have "Max (set (map height (outline_spec ?a))) < length ?a"
        using "2.IH"(1) by (subst Max_less_iff) auto
      moreover have "height t = Suc (Max (set (map height (outline_spec ?a))))"
        using 1 False by simp
      ultimately show ?thesis using len by (simp only: list.size)
    qed (simp add: 1)
  next
    case 2
    with "2.IH"(2) [OF 2] len show ?thesis by simp
  qed
qed simp

text \<open>
  The stack is what is left of the current branch: below it lies \<open>base\<close>, whose top, if there is one, is
  the parent of the entries to come. \<open>kids\<close> is the array those entries are pushed into.
\<close>

definition kids :: "(nat \<times> nat) list \<Rightarrow> 'p outline_state \<Rightarrow> nat list" where
  "kids base s = (case base of [] \<Rightarrow> roots s | (_, p) # _ \<Rightarrow> snd (store s ! p))"

definition above :: "(nat \<times> nat) list \<Rightarrow> nat \<Rightarrow> bool" where
  "above base k \<longleftrightarrow> (case base of [] \<Rightarrow> True | (l, _) # _ \<Rightarrow> l < k)"

definition base_ok :: "(nat \<times> nat) list \<Rightarrow> 'p outline_state \<Rightarrow> bool" where
  "base_ok base s \<longleftrightarrow> (case base of [] \<Rightarrow> True | (_, p) # _ \<Rightarrow> p < length (store s))"

text \<open>Only the parent's array changes among the nodes that exist, and the roots only when there is none.\<close>

definition grows :: "(nat \<times> nat) list \<Rightarrow> 'p outline_state \<Rightarrow> 'p outline_state \<Rightarrow> bool" where
  "grows base s s' \<longleftrightarrow> length (store s) \<le> length (store s')
     \<and> (\<forall>a<length (store s). fst (store s' ! a) = fst (store s ! a))
     \<and> (\<forall>a<length (store s). (\<forall>l st. base \<noteq> (l, a) # st) \<longrightarrow> store s' ! a = store s ! a)
     \<and> (base \<noteq> [] \<longrightarrow> roots s' = roots s)"

lemma outline_step_push:
  assumes "stack s = stk @ base" "\<forall>(k, _)\<in>set stk. entry_level e \<le> k" "above base (entry_level e)"
    and "base_ok base s"
  shows "stack (outline_step s e) = (entry_level e, length (store s)) # base"
    and "kids base (outline_step s e) = kids base s @ [length (store s)]"
    and "store (outline_step s e) ! length (store s) = (e, [])"
    and "length (store (outline_step s e)) = Suc (length (store s))"
    and "grows base s (outline_step s e)"
proof -
  have drop: "dropWhile (\<lambda>(l, _). entry_level e \<le> l) (stk @ base) = base"
    using assms(2,3)
    by (subst dropWhile_append2) (auto simp: above_def split: list.splits)
  note defs = outline_step_def Let_def assms(1) drop
  show "stack (outline_step s e) = (entry_level e, length (store s)) # base"
    unfolding defs by (cases base) auto
  show "kids base (outline_step s e) = kids base s @ [length (store s)]"
    unfolding defs using assms(4)
    by (cases base) (auto simp: kids_def push_child_def base_ok_def nth_append)
  show "store (outline_step s e) ! length (store s) = (e, [])"
    unfolding defs using assms(4)
    by (cases base) (auto simp: push_child_def base_ok_def nth_append)
  show "length (store (outline_step s e)) = Suc (length (store s))"
    unfolding defs by (cases base) (auto simp: push_child_def)
  show "grows base s (outline_step s e)"
    unfolding defs using assms(4)
    by (cases base) (auto simp: grows_def push_child_def base_ok_def nth_append nth_list_update)
qed

text \<open>
  What running a segment of entries does: it appends to the parent's array the nodes of the segment's
  forest, in order, and leaves a stack on the same base.
\<close>

definition segment_result ::
  "(nat \<times> nat) list \<Rightarrow> 'p outline_state \<Rightarrow> 'p outline_entry list \<Rightarrow> 'p outline_state \<Rightarrow> bool" where
  "segment_result base s es s' \<longleftrightarrow>
     (\<exists>ids stk'. kids base s' = kids base s @ ids
        \<and> list_all2 (holds (length (store s)) (store s')) ids (outline_spec es)
        \<and> stack s' = stk' @ base \<and> (\<forall>(k, _)\<in>set stk'. above base k) \<and> grows base s s')"

lemma grows_trans:
  assumes "grows base s s1" "grows base s1 s2"
  shows "grows base s s2"
proof -
  have len: "length (store s) \<le> length (store s1)" "length (store s1) \<le> length (store s2)"
    using assms by (auto simp: grows_def)
  show ?thesis using assms len by (simp add: grows_def)
qed

lemma grows_inner:
  assumes "grows base s s1" "grows ((l, length (store s)) # base) s1 s2"
    and "length (store s1) = Suc (length (store s))" "base_ok base s"
  shows "grows base s s2" "kids base s2 = kids base s1"
  using assms
  by (auto simp: grows_def kids_def base_ok_def split: list.splits)

lemma outline_segment:
  assumes "stack s = stk @ base" "es \<noteq> [] \<Longrightarrow> \<forall>(k, _)\<in>set stk. entry_level (hd es) \<le> k"
    and "\<forall>x\<in>set es. above base (entry_level x)" "base_ok base s" "\<forall>(k, _)\<in>set stk. above base k"
  shows "segment_result base s es (foldl outline_step s es)"
  using assms
proof (induction es arbitrary: s stk base rule: outline_spec.induct)
  case 1
  then show ?case by (auto simp: segment_result_def grows_def)
next
  case (2 e es)
  let ?A = "takeWhile (\<lambda>x. entry_level e < entry_level x) es"
  let ?B = "dropWhile (\<lambda>x. entry_level e < entry_level x) es"
  let ?n = "length (store s)"
  define s1 where "s1 = outline_step s e"
  define s2 where "s2 = foldl outline_step s1 ?A"
  define s3 where "s3 = foldl outline_step s2 ?B"
  have fin: "foldl outline_step s (e # es) = s3"
    by (simp add: s1_def s2_def s3_def foldl_append [symmetric])
  have lv: "above base (entry_level e)" using "2.prems"(3) by simp
  from "2.prems"(2) have stk: "\<forall>(k, _)\<in>set stk. entry_level e \<le> k" by simp
  note push = outline_step_push [OF "2.prems"(1) stk lv "2.prems"(4), folded s1_def]
  have "segment_result ((entry_level e, ?n) # base) s1 ?A s2"
    unfolding s2_def
    by (rule "2.IH"(1) [where stk = "[]"])
       (auto simp: push above_def base_ok_def dest: set_takeWhileD)
  then obtain idsA stkA where A: "snd (store s2 ! ?n) = idsA"
      "list_all2 (holds (Suc ?n) (store s2)) idsA (outline_spec ?A)"
      "stack s2 = stkA @ (entry_level e, ?n) # base" "\<forall>(k, _)\<in>set stkA. entry_level e < k"
      "grows ((entry_level e, ?n) # base) s1 s2"
    by (auto simp: segment_result_def kids_def above_def push)
  note inner = grows_inner [OF push(5) A(5) push(4) "2.prems"(4)]
  have len2: "?n < length (store s2)" and e2: "fst (store s2 ! ?n) = e"
    using A(5) push(3,4) by (auto simp: grows_def)
  have node: "holds ?n (store s2) ?n (ONode e (outline_spec ?A))"
    using A(1,2) len2 e2 by (auto elim!: list_all2_mono intro: holds_mono)
  have stk2: "\<forall>(k, _)\<in>set (stkA @ [(entry_level e, ?n)]). above base k"
    using A(4) lv by (fastforce simp: above_def split: list.splits)
  have "segment_result base s2 ?B s3"
    unfolding s3_def
  proof (rule "2.IH"(2) [where stk = "stkA @ [(entry_level e, ?n)]"])
    show "?B \<noteq> [] \<Longrightarrow> \<forall>(k, _)\<in>set (stkA @ [(entry_level e, ?n)]). entry_level (hd ?B) \<le> k"
      using A(4) hd_dropWhile [of "\<lambda>x. entry_level e < entry_level x" es] by fastforce
    show "\<forall>x\<in>set ?B. above base (entry_level x)"
      using "2.prems"(3) by (auto dest: set_dropWhileD)
    show "base_ok base s2" using "2.prems"(4) len2 by (auto simp: base_ok_def split: list.splits)
  qed (use A(3) stk2 in \<open>simp_all\<close>)
  then obtain idsB stkB where B: "kids base s3 = kids base s2 @ idsB"
      "list_all2 (holds (length (store s2)) (store s3)) idsB (outline_spec ?B)"
      "stack s3 = stkB @ base" "\<forall>(k, _)\<in>set stkB. above base k" "grows base s2 s3"
    by (auto simp: segment_result_def)
  have "holds ?n (store s3) ?n (ONode e (outline_spec ?A))"
    using node
  proof (rule holds_frame)
    show "length (store s2) \<le> length (store s3)" using B(5) by (simp add: grows_def)
    show "store s3 ! i = store s2 ! i" if "?n \<le> i" "i < length (store s2)" for i
      using that B(5) "2.prems"(4) by (auto simp: grows_def base_ok_def)
  qed
  moreover have "list_all2 (holds ?n (store s3)) idsB (outline_spec ?B)"
    using B(2) len2 by (auto elim!: list_all2_mono intro: holds_mono)
  ultimately have "list_all2 (holds ?n (store s3)) (?n # idsB) (outline_spec (e # es))" by simp
  moreover have "kids base s3 = kids base s @ (?n # idsB)" using B(1) inner(2) push(2) by simp
  ultimately show ?case
    unfolding fin segment_result_def using B(3,4) grows_trans [OF inner(1) B(5)] by blast
qed

lemma buildOutlineTree_eq_spec: "buildOutlineTree es = outline_spec es"
proof -
  let ?s = "foldl outline_step outline_init es"
  have "segment_result [] outline_init es ?s"
    by (rule outline_segment [where stk = "[]"])
       (auto simp: outline_init_def above_def base_ok_def)
  then have h: "list_all2 (holds 0 (store ?s)) (roots ?s) (outline_spec es)"
    by (auto simp: segment_result_def kids_def outline_init_def)
  have "read_node (length es) (store ?s) (roots ?s ! i) = outline_spec es ! i"
    if "i < length (outline_spec es)" for i
    using h that outline_spec_height [of "outline_spec es ! i" es]
    by (intro read_node_holds [where b = 0]) (auto simp: list_all2_conv_all_nth)
  with h show ?thesis
    by (auto simp: buildOutlineTree_def Let_def list_all2_conv_all_nth intro!: nth_equalityI)
qed

section \<open>Properties\<close>

text \<open>
  C36. The tree that the shared, mutated children arrays end up holding is the forest of the recursive
  specification: an entry's children are the entries after it up to the next one that is not deeper,
  nested by the same rule.
\<close>

theorem buildOutlineTree_refines: "buildOutlineTree entries = outline_spec entries"
  by (rule buildOutlineTree_eq_spec)

lemma preorder_outline_spec: "concat (map preorder (outline_spec es)) = es"
  by (induction es rule: outline_spec.induct) simp_all

lemma root_outline_spec:
  "t \<in> set (outline_spec es) \<Longrightarrow> root_entry t \<in> set es"
proof (induction es arbitrary: t rule: outline_spec.induct)
  case (2 e es)
  then show ?case by (auto dest: set_dropWhileD)
qed simp

lemma well_nested_outline_spec: "t \<in> set (outline_spec es) \<Longrightarrow> well_nested t"
proof (induction es arbitrary: t rule: outline_spec.induct)
  case (2 e es)
  let ?A = "takeWhile (\<lambda>x. entry_level e < entry_level x) es"
  have "entry_level e < entry_level (root_entry u)" if "u \<in> set (outline_spec ?A)" for u
    using root_outline_spec [OF that] by (auto dest: set_takeWhileD)
  with 2 show ?case by auto
qed simp

text \<open>
  The outline loses nothing and invents nothing: reading the tree in preorder gives back the list of
  sections in document order, and every section lies strictly deeper than the one it is shown under.
\<close>

theorem buildOutlineTree_preorder:
  "concat (map preorder (buildOutlineTree entries)) = entries \<and>
     list_all well_nested (buildOutlineTree entries)"
  by (simp add: buildOutlineTree_eq_spec preorder_outline_spec list_all_iff well_nested_outline_spec)

end
