(* ===== verification/JsSort.thy ===== *)
theory JsSort
  imports JsString "HOL-Library.Multiset"
begin

text \<open>
  \<open>Array.prototype.sort(compare)\<close>. ECMAScript fixes its result for a consistent comparator: a sorted
  permutation in which equal elements keep their order. The model is insertion sort;
  \<open>stable_sorted_unique\<close> shows that every stable sort gives the same list, so nothing depends on the
  engine's algorithm. The locale \<open>comparator\<close> states what a comparator promises; it is interpreted on
  the order of code units, the default order of \<open>sort()\<close>.
\<close>

section \<open>Sorting\<close>

fun js_insert :: "('a \<Rightarrow> 'a \<Rightarrow> int) \<Rightarrow> 'a \<Rightarrow> 'a list \<Rightarrow> 'a list" where
  "js_insert cmp x [] = [x]"
| "js_insert cmp x (y # ys) = (if cmp x y \<le> 0 then x # y # ys else y # js_insert cmp x ys)"

definition js_sort :: "('a \<Rightarrow> 'a \<Rightarrow> int) \<Rightarrow> 'a list \<Rightarrow> 'a list" where
  "js_sort cmp xs = foldr (js_insert cmp) xs []"

lemma js_sort_simps [simp]:
  "js_sort cmp [] = []" "js_sort cmp (x # xs) = js_insert cmp x (js_sort cmp xs)"
  by (simp_all add: js_sort_def)

lemma mset_js_insert [simp]: "mset (js_insert cmp x xs) = add_mset x (mset xs)"
  by (induction xs) auto

lemma mset_js_sort [simp]: "mset (js_sort cmp xs) = mset xs"
  by (induction xs) auto

lemma set_js_sort [simp]: "set (js_sort cmp xs) = set xs"
  by (metis mset_js_sort set_mset_mset)

lemma length_js_sort [simp]: "length (js_sort cmp xs) = length xs"
  by (metis mset_js_sort size_mset)

section \<open>Comparators\<close>

locale comparator =
  fixes cmp :: "'a \<Rightarrow> 'a \<Rightarrow> int"
  assumes cmp_anti: "cmp a b < 0 \<longleftrightarrow> 0 < cmp b a"
    and cmp_trans: "cmp a b \<le> 0 \<Longrightarrow> cmp b c \<le> 0 \<Longrightarrow> cmp a c \<le> 0"
begin

lemma cmp_total: "cmp a b \<le> 0 \<or> cmp b a \<le> 0"
  using cmp_anti [of b a] by linarith

lemma cmp_zero_sym: "cmp a b = 0 \<longleftrightarrow> cmp b a = 0"
  using cmp_anti [of a b] cmp_anti [of b a] by linarith

lemma cmp_equiv: "cmp a b = 0 \<longleftrightarrow> cmp a b \<le> 0 \<and> cmp b a \<le> 0"
  using cmp_anti [of a b] cmp_anti [of b a] by linarith

lemma cmp_refl [simp]: "cmp a a = 0"
  using cmp_anti [of a a] by linarith

lemma cmp_zero_trans: "cmp a b = 0 \<Longrightarrow> cmp b c = 0 \<Longrightarrow> cmp a c = 0"
  using cmp_trans [of a b c] cmp_trans [of c b a] by (simp add: cmp_equiv)

lemma set_js_insert: "set (js_insert cmp x xs) = insert x (set xs)"
  by (induction xs) auto

lemma sorted_js_insert:
  "sorted_wrt (\<lambda>a b. cmp a b \<le> 0) xs \<Longrightarrow> sorted_wrt (\<lambda>a b. cmp a b \<le> 0) (js_insert cmp x xs)"
proof (induction xs)
  case (Cons y ys)
  show ?case
  proof (cases "cmp x y \<le> 0")
    case True
    with Cons.prems show ?thesis by (auto intro: cmp_trans)
  next
    case False
    then have "cmp y x \<le> 0" using cmp_total by blast
    with False Cons show ?thesis by (auto simp: set_js_insert)
  qed
qed simp

lemma sorted_js_sort: "sorted_wrt (\<lambda>a b. cmp a b \<le> 0) (js_sort cmp xs)"
  by (induction xs) (auto intro: sorted_js_insert)

lemma filter_js_insert:
  "sorted_wrt (\<lambda>a b. cmp a b \<le> 0) xs \<Longrightarrow>
     filter (\<lambda>y. cmp z y = 0) (js_insert cmp x xs) = filter (\<lambda>y. cmp z y = 0) (x # xs)"
proof (induction xs)
  case (Cons y ys)
  have "\<not> (cmp z x = 0 \<and> cmp z y = 0)" if "\<not> cmp x y \<le> 0"
    using that cmp_zero_trans [of x z y] cmp_zero_sym by auto
  with Cons show ?case by auto
qed simp

lemma js_sort_stable: "filter (\<lambda>y. cmp z y = 0) (js_sort cmp xs) = filter (\<lambda>y. cmp z y = 0) xs"
  by (induction xs) (simp_all add: filter_js_insert sorted_js_sort)

text \<open>Comparing by a descending number first, as the ranking code does, is consistent again.\<close>

lemma score_first:
  "comparator (\<lambda>a b. if key b - key a \<noteq> 0 then key b - key a else cmp (nm a) (nm b))"
  by unfold_locales (auto simp: cmp_anti split: if_splits intro: cmp_trans)

lemma stable_sorted_unique:
  assumes "sorted_wrt (\<lambda>a b. cmp a b \<le> 0) xs" "sorted_wrt (\<lambda>a b. cmp a b \<le> 0) ys"
    and "\<And>z. filter (\<lambda>y. cmp z y = 0) xs = filter (\<lambda>y. cmp z y = 0) ys"
  shows "xs = ys"
  using assms
proof (induction xs arbitrary: ys)
  case Nil
  show ?case
  proof (cases ys)
    case (Cons y ys')
    with Nil.prems(3) [of y] show ?thesis by simp
  qed simp
next
  case (Cons x xs)
  from Cons.prems(3) [of x] obtain y ys' where ys: "ys = y # ys'"
    by (cases ys) auto
  have "x \<in> set (filter (\<lambda>u. cmp x u = 0) (x # xs))" by simp
  then have "x \<in> set ys" unfolding Cons.prems(3) by simp
  moreover have "y \<in> set (filter (\<lambda>u. cmp y u = 0) ys)" using ys by simp
  then have "y \<in> set (x # xs)" unfolding Cons.prems(3) [symmetric] by (auto split: if_splits)
  ultimately have "cmp x y \<le> 0" "cmp y x \<le> 0"
    using Cons.prems(1,2) ys by auto
  then have "cmp x y = 0" by (simp add: cmp_equiv)
  with Cons.prems(3) [of x] ys have xy: "x = y" by simp
  have "filter (\<lambda>u. cmp z u = 0) xs = filter (\<lambda>u. cmp z u = 0) ys'" for z
    using Cons.prems(3) [of z] ys xy by (auto split: if_splits)
  with Cons.IH [of ys'] Cons.prems(1,2) ys xy show ?case by simp
qed

end

section \<open>The order of code units\<close>

fun code_unit_cmp :: "jsstr \<Rightarrow> jsstr \<Rightarrow> int" where
  "code_unit_cmp [] [] = 0"
| "code_unit_cmp [] (d # ds) = -1"
| "code_unit_cmp (c # cs) [] = 1"
| "code_unit_cmp (c # cs) (d # ds) =
     (if c = d then code_unit_cmp cs ds
      else if (of_char c :: nat) < of_char d then -1 else 1)"

lemma code_unit_cmp_anti: "code_unit_cmp a b < 0 \<longleftrightarrow> 0 < code_unit_cmp b a"
  by (induction a b rule: code_unit_cmp.induct) auto

lemma code_unit_cmp_trans:
  "code_unit_cmp a b \<le> 0 \<Longrightarrow> code_unit_cmp b c \<le> 0 \<Longrightarrow> code_unit_cmp a c \<le> 0"
proof (induction a b arbitrary: c rule: code_unit_cmp.induct)
  case (4 c1 cs d ds)
  then show ?case by (cases c) (auto split: if_splits)
next
  case (1 c)
  then show ?case by (cases c) auto
next
  case (2 d ds c)
  then show ?case by (cases c) auto
qed simp

lemma code_unit_cmp_zero: "code_unit_cmp a b = 0 \<longleftrightarrow> a = b"
  by (induction a b rule: code_unit_cmp.induct) auto

interpretation code_units: comparator code_unit_cmp
  by unfold_locales (auto simp: code_unit_cmp_anti intro: code_unit_cmp_trans)

end
