(* ===== verification/QuickOpen.thy ===== *)
theory QuickOpen
  imports JsSort
begin

text \<open>
  \<open>fuzzyRankFiles\<close> of \<^verbatim>\<open>services/server/frontend/writer-productivity.mjs\<close>, the ranking behind the
  Quick Open dialog. \<open>localeCompare\<close> is the argument \<open>loc\<close>: which strings it puts first depends on the
  browser's locale, and all that is used of it is that it is a consistent comparator.
\<close>

section \<open>The code\<close>

record 'f qfile =
  qf_path :: jsstr
  file_rest :: 'f

text \<open>
  The loop over the characters of the needle; \<open>pos\<close> is \<open>cursor + 1\<close>, so \<open>gaps\<close> grows by
  \<open>next - cursor - 1 = next - pos\<close>. \<^const>\<open>None\<close> of \<open>indexOf\<close> is the early \<open>return -1\<close>.
\<close>

fun fuzzy_scan :: "jsstr \<Rightarrow> nat \<Rightarrow> nat \<Rightarrow> jsstr \<Rightarrow> int" where
  "fuzzy_scan value pos gaps [] = 300 - int gaps"
| "fuzzy_scan value pos gaps (character # rest) =
     (case js_indexOf value [character] pos of
        None \<Rightarrow> -1
      | Some next \<Rightarrow> fuzzy_scan value (Suc next) (gaps + (next - pos)) rest)"

definition fuzzy_score :: "jsstr \<Rightarrow> jsstr \<Rightarrow> int" where
  "fuzzy_score needle p =
     (if needle = [] then 0
      else let value = js_lower p;
               basename = last (js_split CHR ''/'' value)
           in if basename = needle then 1000
              else if value = needle then 900
              else if js_startsWith basename needle then 800 - int (length basename)
              else (case js_indexOf value needle 0 of
                      Some i \<Rightarrow> 600 - int i
                    | None \<Rightarrow> fuzzy_scan value 0 0 needle))"

definition rank_cmp :: "(jsstr \<Rightarrow> jsstr \<Rightarrow> int) \<Rightarrow> 'f qfile \<times> int \<Rightarrow> 'f qfile \<times> int \<Rightarrow> int" where
  "rank_cmp loc a b = (if snd b - snd a \<noteq> 0 then snd b - snd a else loc (qf_path (fst a)) (qf_path (fst b)))"

definition fuzzyRankFiles ::
  "(jsstr \<Rightarrow> jsstr \<Rightarrow> int) \<Rightarrow> 'f qfile list \<Rightarrow> jsstr \<Rightarrow> 'f qfile list" where
  "fuzzyRankFiles loc files query =
     (let needle = js_lower (js_trim query)
      in map fst (js_sort (rank_cmp loc)
           (filter (\<lambda>(_, s). 0 \<le> s) (map (\<lambda>f. (f, fuzzy_score needle (qf_path f))) files))))"

section \<open>The comparator\<close>

lemma rank_comparator: "comparator loc \<Longrightarrow> comparator (rank_cmp loc)"
  unfolding rank_cmp_def by (rule comparator.score_first)

lemma rank_cmp_le:
  "rank_cmp loc a b \<le> 0 \<longleftrightarrow> snd b < snd a \<or> snd a = snd b \<and> loc (qf_path (fst a)) (qf_path (fst b)) \<le> 0"
  by (auto simp: rank_cmp_def)

section \<open>What the scan matches\<close>

text \<open>
  The length of the shortest prefix of a text in which a needle occurs as a subsequence, from left to
  right; \<^const>\<open>None\<close> when there is none.
\<close>

fun match_end :: "jsstr \<Rightarrow> jsstr \<Rightarrow> nat option" where
  "match_end [] s = Some 0"
| "match_end (c # cs) [] = None"
| "match_end (c # cs) (d # s) =
     map_option Suc (if c = d then match_end cs s else match_end (c # cs) s)"

lemma match_end_subseq: "match_end p s \<noteq> None \<longleftrightarrow> subseq p s"
  by (induction p s rule: match_end.induct) auto

lemma match_end_bounds: "match_end p s = Some e \<Longrightarrow> length p \<le> e \<and> e \<le> length s"
  by (induction p s arbitrary: e rule: match_end.induct) (fastforce split: if_splits)+

lemma match_end_least: "match_end p s = Some e \<Longrightarrow> subseq p (take n s) \<Longrightarrow> e \<le> n"
proof (induction p s arbitrary: e n rule: match_end.induct)
  case (3 c cs d s)
  then show ?case by (cases n) (auto split: if_splits)
qed auto

lemma find_at_char_match:
  "match_end (c # cs) s =
     (case find_at [c] s of None \<Rightarrow> None
      | Some i \<Rightarrow> map_option (\<lambda>j. Suc (i + j)) (match_end cs (drop (Suc i) s)))"
proof (induction s)
  case (Cons d s)
  show ?case
  proof (cases "c = d")
    case True
    then show ?thesis by (cases "match_end cs s") simp_all
  next
    case False
    with Cons show ?thesis by (cases "find_at [c] s") (auto simp: option.map_comp o_def)
  qed
qed simp

lemma fuzzy_scan_match:
  "pos \<le> length val \<Longrightarrow>
     fuzzy_scan val pos gaps needle =
       (case match_end needle (drop pos val) of
          None \<Rightarrow> -1
        | Some e \<Rightarrow> 300 - (int gaps + int e - int (length needle)))"
proof (induction val pos gaps needle rule: fuzzy_scan.induct)
  case (2 val pos gaps c rest)
  show ?case
  proof (cases "find_at [c] (drop pos val)")
    case None
    then show ?thesis by (simp add: js_indexOf_def find_at_char_match)
  next
    case (Some i)
    then have idx: "js_indexOf val [c] pos = Some (pos + i)" by (simp add: js_indexOf_def)
    from find_at_Some [OF Some] have "i + 1 \<le> length val - pos" by simp
    with "2.prems" have le: "Suc (pos + i) \<le> length val" by arith
    have "fuzzy_scan val pos gaps (c # rest) = fuzzy_scan val (Suc (pos + i)) (gaps + i) rest"
      by (simp add: idx)
    also have "\<dots> = (case match_end rest (drop (Suc (pos + i)) val) of None \<Rightarrow> -1
        | Some e \<Rightarrow> 300 - (int (gaps + i) + int e - int (length rest)))"
      using "2.IH" [OF idx le] by (simp only: add_diff_cancel_left')
    also have "\<dots> = (case match_end (c # rest) (drop pos val) of None \<Rightarrow> -1
        | Some e \<Rightarrow> 300 - (int gaps + int e - int (length (c # rest))))"
      by (simp add: find_at_char_match Some add.commute split: option.split)
    finally show ?thesis .
  qed
qed simp

lemma fuzzy_scan_bound: "fuzzy_scan val 0 0 needle \<le> 300"
proof (cases "match_end needle val")
  case (Some e)
  with match_end_bounds [OF Some] show ?thesis by (simp add: fuzzy_scan_match)
qed (simp add: fuzzy_scan_match)

lemma fuzzy_score_top:
  assumes "needle \<noteq> []"
  shows "fuzzy_score needle p \<le> 1000"
    and "fuzzy_score needle p = 1000 \<longleftrightarrow> last (js_split CHR ''/'' (js_lower p)) = needle"
  using assms fuzzy_scan_bound [of "js_lower p" needle]
  by (auto simp: fuzzy_score_def Let_def split: option.split)

lemma basename_suffix: "suffix (last (js_split d s)) s"
proof (induction s)
  case (Cons c s)
  obtain w ws where "js_split d s = w # ws" by (cases "js_split d s") auto
  with Cons js_join_split [of d s] show ?case by (auto simp: suffix_Cons)
qed simp

lemma includes_subseq: "js_includes s p \<Longrightarrow> subseq p s"
  unfolding js_includes_iff by (metis sublist_appendI sublist_imp_subseq)

lemma startsWith_subseq: "js_startsWith s p \<Longrightarrow> subseq p s"
  by (auto simp: js_startsWith_iff)

text \<open>A file is kept only for a needle that is a subsequence of its lower-cased path.\<close>

lemma fuzzy_score_sound:
  assumes "0 \<le> fuzzy_score needle p"
  shows "subseq needle (js_lower p)"
proof (cases "needle = []")
  case False
  let ?v = "js_lower p"
  let ?b = "last (js_split CHR ''/'' ?v)"
  have b: "subseq ?b ?v" by (rule suffix_imp_subseq) (rule basename_suffix)
  consider "?b = needle" | "?v = needle" | "js_startsWith ?b needle"
    | i where "js_indexOf ?v needle 0 = Some i" | "0 \<le> fuzzy_scan ?v 0 0 needle"
    using assms False by (auto simp: fuzzy_score_def Let_def split: if_splits option.splits)
  then show ?thesis
  proof cases
    case 1
    with b show ?thesis by simp
  next
    case 2
    then show ?thesis by simp
  next
    case 3
    then show ?thesis using b startsWith_subseq subseq_order.trans by blast
  next
    case 4
    then show ?thesis by (intro includes_subseq) (simp add: js_includes_def)
  next
    case 5
    then show ?thesis
      by (auto simp: fuzzy_scan_match match_end_subseq [symmetric] split: option.splits)
  qed
qed simp

text \<open>Conversely, a path of at most 300 characters is kept for each of its subsequences.\<close>

lemma fuzzy_score_complete:
  assumes "subseq needle (js_lower p)" "length p \<le> 300"
  shows "0 \<le> fuzzy_score needle p"
proof -
  let ?v = "js_lower p"
  obtain e where e: "match_end needle ?v = Some e"
    using assms(1) match_end_subseq by blast
  have scan: "0 \<le> fuzzy_scan ?v 0 0 needle"
    using match_end_bounds [OF e] assms(2) by (simp add: fuzzy_scan_match e)
  have "length (last (js_split CHR ''/'' ?v)) \<le> 300"
    using suffix_length_le [OF basename_suffix, of "CHR ''/''" ?v] assms(2) by simp
  moreover have "i \<le> 300" if "js_indexOf ?v needle 0 = Some i" for i
    using js_indexOf_Some [OF that] assms(2) by simp
  ultimately show ?thesis
    using scan by (auto simp: fuzzy_score_def Let_def split: option.split)
qed

lemma map_fst_filter_scored:
  "map fst (filter (\<lambda>(_, s). 0 \<le> s) (map (\<lambda>f. (f, g f)) fs)) = filter (\<lambda>f. (0::int) \<le> g f) fs"
  by (induction fs) auto

section \<open>Properties\<close>

abbreviation scored :: "jsstr \<Rightarrow> 'f qfile \<Rightarrow> 'f qfile \<times> int" where
  "scored query f \<equiv> (f, fuzzy_score (js_lower (js_trim query)) (qf_path f))"

lemma scored_results:
  assumes "comparator loc"
  shows "map (scored query) (fuzzyRankFiles loc files query) =
    js_sort (rank_cmp loc) (filter (\<lambda>(_, s). 0 \<le> s) (map (scored query) files))"
proof -
  let ?r = "js_sort (rank_cmp loc) (filter (\<lambda>(_, s). 0 \<le> s) (map (scored query) files))"
  have "map (scored query) (map fst ?r) = ?r"
    by (rule map_idI [THEN trans [OF map_map [unfolded o_def]]]) auto
  then show ?thesis by (simp add: fuzzyRankFiles_def Let_def)
qed

text \<open>
  The ranking is sorted by descending score and, among equal scores, by the locale's order of the
  paths, and it holds exactly the files with a non-negative score, each as often as it is listed.
\<close>

theorem fuzzyRankFiles_sorted:
  assumes "comparator loc"
  shows "sorted_wrt (\<lambda>a b. rank_cmp loc (scored query a) (scored query b) \<le> 0)
           (fuzzyRankFiles loc files query) \<and>
         mset (fuzzyRankFiles loc files query) =
           filter_mset (\<lambda>f. 0 \<le> fuzzy_score (js_lower (js_trim query)) (qf_path f)) (mset files)"
proof -
  have "sorted_wrt (\<lambda>a b. rank_cmp loc a b \<le> 0) (map (scored query) (fuzzyRankFiles loc files query))"
    unfolding scored_results [OF assms]
    by (rule comparator.sorted_js_sort [OF rank_comparator [OF assms]])
  moreover have "mset (fuzzyRankFiles loc files query) =
      filter_mset (\<lambda>f. 0 \<le> fuzzy_score (js_lower (js_trim query)) (qf_path f)) (mset files)"
    unfolding fuzzyRankFiles_def Let_def mset_map mset_js_sort
    by (simp only: mset_map [of fst, symmetric] map_fst_filter_scored) (rule mset_filter)
  ultimately show ?thesis by (simp add: sorted_wrt_map)
qed


theorem fuzzyRankFiles_sorted_witness:
  "sorted_wrt (\<lambda>a b. rank_cmp code_unit_cmp (scored ''ma'' a) (scored ''ma'' b) \<le> 0)
     (fuzzyRankFiles code_unit_cmp
        [\<lparr>qf_path = ''notes.tex'', file_rest = ()\<rparr>, \<lparr>qf_path = ''main.tex'', file_rest = ()\<rparr>] ''ma'')"
  using fuzzyRankFiles_sorted [OF code_units.comparator_axioms] by blast

text \<open>
  Quick Open keeps only files whose lower-cased path contains the query's characters in order, and
  for paths of at most 300 characters it keeps all of them. (A longer path can lose: the score
  \<open>300 - gaps\<close> of a subsequence match drops below zero and the file is filtered out.)
\<close>

theorem fuzzyRankFiles_matches:
  assumes "length (qf_path f) \<le> 300"
  shows "f \<in> set (fuzzyRankFiles loc files query) \<longleftrightarrow>
     f \<in> set files \<and> subseq (js_lower (js_trim query)) (js_lower (qf_path f))"
proof -
  have "set (fuzzyRankFiles loc files query) =
      set (filter (\<lambda>f. 0 \<le> fuzzy_score (js_lower (js_trim query)) (qf_path f)) files)"
    unfolding fuzzyRankFiles_def Let_def set_map [of fst] set_js_sort
    by (simp only: set_map [of fst, symmetric] map_fst_filter_scored)
  then show ?thesis
    using fuzzy_score_sound fuzzy_score_complete [OF _ assms] by auto
qed

theorem fuzzyRankFiles_matches_witness:
  "\<lparr>qf_path = ''a/methods.tex'', file_rest = ()\<rparr> \<in> set (fuzzyRankFiles code_unit_cmp
      [\<lparr>qf_path = ''a/methods.tex'', file_rest = ()\<rparr>] '' MTH'')"
proof -
  have "subseq (js_lower (js_trim '' MTH'')) (js_lower ''a/methods.tex'')" by (simp add: js_defs)
  then show ?thesis
    by (subst fuzzyRankFiles_matches) simp_all
qed

text \<open>
  A file whose name is exactly the query comes before every file whose name is not.
\<close>

theorem fuzzyRankFiles_exact_first:
  assumes "comparator loc" "js_lower (js_trim query) \<noteq> []"
    and "fuzzyRankFiles loc files query = pre @ f # post"
    and "last (js_split CHR ''/'' (js_lower (qf_path f))) \<noteq> js_lower (js_trim query)"
    and "g \<in> set post"
  shows "last (js_split CHR ''/'' (js_lower (qf_path g))) \<noteq> js_lower (js_trim query)"
proof -
  let ?q = "js_lower (js_trim query)"
  from fuzzyRankFiles_sorted [OF assms(1), of query files]
  have "rank_cmp loc (scored query f) (scored query g) \<le> 0"
    using assms(3,5) by (simp add: sorted_wrt_append)
  then have "fuzzy_score ?q (qf_path g) \<le> fuzzy_score ?q (qf_path f)"
    by (auto simp: rank_cmp_le)
  with fuzzy_score_top [OF assms(2)] assms(4) show ?thesis by (metis order_antisym)
qed


theorem fuzzyRankFiles_exact_first_witness:
  "\<exists>pre f post. fuzzyRankFiles code_unit_cmp
        [\<lparr>qf_path = ''xmain.tex'', file_rest = ()\<rparr>, \<lparr>qf_path = ''d/main.tex'', file_rest = ()\<rparr>,
         \<lparr>qf_path = ''main.texx'', file_rest = ()\<rparr>] ''main.tex'' = pre @ f # post \<and>
     qf_path f = ''main.texx'' \<and>
     (\<forall>g\<in>set post. last (js_split CHR ''/'' (js_lower (qf_path g))) \<noteq> ''main.tex'')"
proof -
  let ?m = "\<lparr>qf_path = ''d/main.tex'', file_rest = ()\<rparr>"
  let ?t = "\<lparr>qf_path = ''main.texx'', file_rest = ()\<rparr>"
  let ?x = "\<lparr>qf_path = ''xmain.tex'', file_rest = ()\<rparr>"
  have q: "js_lower (js_trim ''main.tex'') = ''main.tex''" by (simp add: js_defs)
  have r: "fuzzyRankFiles code_unit_cmp [?x, ?m, ?t] ''main.tex'' = [?m] @ ?t # [?x]"
    by (simp add: fuzzyRankFiles_def q) (simp add: fuzzy_score_def rank_cmp_def js_defs Let_def)
  have "last (js_split CHR ''/'' (js_lower (qf_path g))) \<noteq> ''main.tex''" if "g \<in> set [?x]" for g
    using fuzzyRankFiles_exact_first [OF code_units.comparator_axioms _ r _ that]
    by (simp add: q) (simp add: js_defs)
  with r show ?thesis by (intro exI [of _ "[?m]"] exI [of _ ?t] exI [of _ "[?x]"]) simp
qed

end
