(* ===== verification/TexScan.thy ===== *)
theory TexScan
  imports JsString
begin

text \<open>
  What the LaTeX builders promise: a reader of LaTeX source that tracks open braces and open
  environments on one stack, and the predicate \<open>tex_closed\<close>, a text that leaves the stack as it found it
  wherever it is put. A control sequence other than \<^verbatim>\<open>\begin{..}\<close> and \<^verbatim>\<open>\end{..}\<close> hides the
  character after its backslash; an unescaped percent sign, which would comment out what follows, is an
  error. The locale \<open>tex_fragment\<close> is the interface between the escaping functions and the builders.
\<close>

section \<open>The reader\<close>

datatype delim = Brace | Env jsstr

abbreviation bslash :: char where "bslash \<equiv> CHR 0x5C"
abbreviation newline :: char where "newline \<equiv> CHR 0x0A"

lemma length_tl_dropWhile: "length (tl (dropWhile P (drop n r))) \<le> length r"
  using length_dropWhile_le [of P "drop n r"] by simp

function tex_scan :: "delim list \<Rightarrow> jsstr \<Rightarrow> delim list option" where
  "tex_scan st [] = Some st"
| "tex_scan st (c # r) =
     (if c = bslash then
        if r = [] then None
        else if take 6 r = ''begin{'' then
          (let rest = dropWhile (\<lambda>x. x \<noteq> CHR ''}'') (drop 6 r)
           in if rest = [] then None
              else tex_scan (Env (takeWhile (\<lambda>x. x \<noteq> CHR ''}'') (drop 6 r)) # st) (tl rest))
        else if take 4 r = ''end{'' then
          (let rest = dropWhile (\<lambda>x. x \<noteq> CHR ''}'') (drop 4 r)
           in if rest = [] \<or> st = [] \<or> hd st \<noteq> Env (takeWhile (\<lambda>x. x \<noteq> CHR ''}'') (drop 4 r)) then None
              else tex_scan (tl st) (tl rest))
        else tex_scan st (tl r)
      else if c = CHR ''{'' then tex_scan (Brace # st) r
      else if c = CHR ''}'' then (if st \<noteq> [] \<and> hd st = Brace then tex_scan (tl st) r else None)
      else if c = CHR ''%'' then None
      else tex_scan st r)"
  by pat_completeness auto

termination
  by (relation "measure (\<lambda>(_, s). length s)")
     (auto simp: less_Suc_eq_le length_tl_dropWhile le_diff_conv
       intro: le_trans [OF length_dropWhile_le] le_SucI)

declare tex_scan.simps [simp del]

lemma tex_scan_Nil [simp]: "tex_scan st [] = Some st"
  by (simp add: tex_scan.simps)

section \<open>Closed text\<close>

definition tex_closed :: "jsstr \<Rightarrow> bool" where
  "tex_closed s \<longleftrightarrow> (\<forall>st r. tex_scan st (s @ r) = tex_scan st r)"

lemma closedD: "tex_closed s \<Longrightarrow> tex_scan st (s @ r) = tex_scan st r"
  by (simp add: tex_closed_def)

lemma closed_balanced: "tex_closed s \<Longrightarrow> tex_scan [] s = Some []"
  using closedD [of s "[]" "[]"] by simp

lemma closed_Nil [simp]: "tex_closed []"
  by (simp add: tex_closed_def)

lemma closed_append [intro]: "tex_closed s \<Longrightarrow> tex_closed t \<Longrightarrow> tex_closed (s @ t)"
  by (simp add: tex_closed_def)

definition plain :: "char \<Rightarrow> bool" where
  "plain c \<longleftrightarrow> c \<notin> {bslash, CHR ''{'', CHR ''}'', CHR ''%''}"

lemma closed_plain: "plain c \<Longrightarrow> tex_closed s \<Longrightarrow> tex_closed (c # s)"
  by (auto simp: tex_closed_def plain_def tex_scan.simps(2))

lemma closed_all_plain: "\<forall>c\<in>set s. plain c \<Longrightarrow> tex_closed s"
  by (induction s) (auto intro: closed_plain)

lemma closed_escape: "c \<noteq> CHR ''b'' \<Longrightarrow> c \<noteq> CHR ''e'' \<Longrightarrow> tex_closed s \<Longrightarrow> tex_closed (bslash # c # s)"
  by (auto simp: tex_closed_def tex_scan.simps(2))

lemma closed_braces: "tex_closed s \<Longrightarrow> tex_closed t \<Longrightarrow> tex_closed (CHR ''{'' # s @ CHR ''}'' # t)"
  by (simp add: tex_closed_def tex_scan.simps(2))

lemma closed_group: "tex_closed s \<Longrightarrow> tex_closed (CHR ''{'' # s @ [CHR ''}''])"
  using closed_braces [of s "[]"] by simp

lemma take_append_lit: "take (length p) (p @ s) = p"
  by simp

lemma tex_scan_begin:
  assumes "CHR ''}'' \<notin> set n"
  shows "tex_scan st (bslash # ''begin{'' @ n @ CHR ''}'' # r) = tex_scan (Env n # st) r"
proof -
  have "takeWhile (\<lambda>x. x \<noteq> CHR ''}'') (n @ CHR ''}'' # r) = n"
    "dropWhile (\<lambda>x. x \<noteq> CHR ''}'') (n @ CHR ''}'' # r) = CHR ''}'' # r"
    using assms by (induction n) auto
  then show ?thesis by (subst tex_scan.simps) simp
qed

lemma tex_scan_end:
  assumes "CHR ''}'' \<notin> set n"
  shows "tex_scan (Env n # st) (bslash # ''end{'' @ n @ CHR ''}'' # r) = tex_scan st r"
proof -
  have "takeWhile (\<lambda>x. x \<noteq> CHR ''}'') (n @ CHR ''}'' # r) = n"
    "dropWhile (\<lambda>x. x \<noteq> CHR ''}'') (n @ CHR ''}'' # r) = CHR ''}'' # r"
    using assms by (induction n) auto
  then show ?thesis by (subst tex_scan.simps) simp
qed

text \<open>An environment around a closed body is closed.\<close>

lemma closed_environment:
  assumes "CHR ''}'' \<notin> set n" "tex_closed body" "tex_closed t"
  shows "tex_closed (bslash # ''begin{'' @ n @ CHR ''}'' # body @ bslash # ''end{'' @ n @ CHR ''}'' # t)"
  unfolding tex_closed_def
proof (intro allI)
  fix st r
  have "tex_scan st (bslash # ''begin{'' @ n @ CHR ''}'' # body @ bslash # ''end{'' @ n @ CHR ''}'' # t @ r)
      = tex_scan (Env n # st) (body @ bslash # ''end{'' @ n @ CHR ''}'' # t @ r)"
    by (rule tex_scan_begin [OF assms(1)])
  also have "\<dots> = tex_scan (Env n # st) (bslash # ''end{'' @ n @ CHR ''}'' # t @ r)"
    by (rule closedD [OF assms(2)])
  also have "\<dots> = tex_scan st (t @ r)" by (rule tex_scan_end [OF assms(1)])
  also have "\<dots> = tex_scan st r" by (rule closedD [OF assms(3)])
  finally show "tex_scan st ((bslash # ''begin{'' @ n @ CHR ''}'' # body @ bslash # ''end{'' @ n
      @ CHR ''}'' # t) @ r) = tex_scan st r" by simp
qed

lemma closed_join:
  "tex_closed sep \<Longrightarrow> \<forall>x\<in>set xs. tex_closed x \<Longrightarrow> tex_closed (js_join sep xs)"
  by (induction sep xs rule: js_join.induct) auto

section \<open>Text that opens and closes\<close>

text \<open>\<open>tex_moves a s b\<close>: reading \<open>s\<close> takes the stack from \<open>a\<close> to \<open>b\<close>, wherever \<open>s\<close> is put.\<close>

definition tex_moves :: "delim list \<Rightarrow> jsstr \<Rightarrow> delim list \<Rightarrow> bool" where
  "tex_moves a s b \<longleftrightarrow> (\<forall>r. tex_scan a (s @ r) = tex_scan b r)"

lemma tex_closed_moves: "tex_closed s \<longleftrightarrow> (\<forall>st. tex_moves st s st)"
  by (simp add: tex_closed_def tex_moves_def)

lemma moves_append: "tex_moves a s b \<Longrightarrow> tex_moves b t c \<Longrightarrow> tex_moves a (s @ t) c"
  by (simp add: tex_moves_def)

lemma moves_closed: "tex_closed s \<Longrightarrow> tex_moves a s a"
  by (simp add: tex_closed_moves)

fun moves_lines :: "delim list \<Rightarrow> jsstr list \<Rightarrow> delim list \<Rightarrow> bool" where
  "moves_lines a [] b \<longleftrightarrow> a = b"
| "moves_lines a (x # xs) b \<longleftrightarrow> (\<exists>m. tex_moves a x m \<and> moves_lines m xs b)"

lemma moves_lines_Nil: "moves_lines a [] a"
  by simp

lemma moves_lines_Cons: "tex_moves a x m \<Longrightarrow> moves_lines m xs b \<Longrightarrow> moves_lines a (x # xs) b"
  by auto

lemma moves_lines_append:
  "moves_lines a xs m \<Longrightarrow> moves_lines m ys b \<Longrightarrow> moves_lines a (xs @ ys) b"
  by (induction xs arbitrary: a) auto

lemma moves_lines_closed: "\<forall>x\<in>set xs. tex_closed x \<Longrightarrow> moves_lines a xs a"
  by (induction xs) (auto intro: moves_closed)

lemma moves_join:
  "moves_lines a xs b \<Longrightarrow> tex_closed sep \<Longrightarrow> tex_moves a (js_join sep xs) b"
proof (induction sep xs arbitrary: a rule: js_join.induct)
  case (1 sep)
  then show ?case by (simp add: tex_moves_def)
next
  case (3 sep x y ys)
  then obtain m where "tex_moves a x m" "moves_lines m (y # ys) b" by auto
  with 3 have "tex_moves a (x @ sep @ js_join sep (y # ys)) b"
    by (intro moves_append [of a x m] moves_append [of m sep m]) (auto intro: moves_closed)
  then show ?case by simp
qed auto

lemmas tex_eval = tex_moves_def tex_closed_def tex_scan.simps(2)

section \<open>The interface of escaping functions\<close>

text \<open>
  An escaping function maps one code unit at a time to text that is closed. A builder that puts escaped
  text into a group or between lines then keeps its own structure, whatever the user typed.
\<close>

locale tex_fragment =
  fixes escape :: "jsstr \<Rightarrow> jsstr"
  assumes escape_Nil: "escape [] = []"
    and escape_Cons: "tex_closed (escape [c])" "escape (c # s) = escape [c] @ escape s"
begin

lemma escape_closed: "tex_closed (escape s)"
proof (induction s)
  case (Cons c s)
  then show ?case by (subst escape_Cons(2)) (auto intro: escape_Cons(1))
qed (simp add: escape_Nil)

lemma escape_append: "escape (s @ t) = escape s @ escape t"
proof (induction s)
  case (Cons c s)
  then show ?case using escape_Cons(2) [of c "s @ t"] escape_Cons(2) [of c s] by simp
qed (simp add: escape_Nil)

lemma escape_group: "tex_closed (CHR ''{'' # escape s @ [CHR ''}''])"
  by (intro closed_group escape_closed)

text \<open>A control sequence with one escaped argument, such as a caption or a label.\<close>

lemma command_closed: "tex_closed cmd \<Longrightarrow> tex_closed (cmd @ CHR ''{'' # escape s @ [CHR ''}''])"
  by (intro closed_append escape_group)

end

end
