(* ===== verification/LatexBuilders.thy ===== *)
theory LatexBuilders
  imports TexScan
begin

text \<open>
  The LaTeX builders of \<^verbatim>\<open>services/server/frontend/writer-productivity.mjs\<close>: tables, figures,
  equations, plots, bibliography entries, algorithms, listings and theorems from the options of a
  dialog. Option objects are records of optional strings (\<^const>\<open>None\<close> is a missing key); an option that
  is used only for its truth value is a \<^typ>\<open>bool\<close>. A number given for \<open>rows\<close> or \<open>columns\<close> is its decimal
  text, which is what \<open>Number.parseInt\<close> reads.
\<close>

section \<open>Escaping\<close>

abbreviation cs :: "jsstr \<Rightarrow> jsstr" where "cs s \<equiv> bslash # s"

definition label_char :: "char \<Rightarrow> bool" where
  "label_char c = (let n = (of_char c :: nat) in
     65 \<le> n \<and> n \<le> 90 \<or> 97 \<le> n \<and> n \<le> 122 \<or> 48 \<le> n \<and> n \<le> 57 \<or>
     c \<in> {CHR '':'', CHR ''_'', CHR ''.'', CHR ''-''})"

definition safeLabel :: "jsstr \<Rightarrow> jsstr" where
  "safeLabel v = map (\<lambda>c. if label_char c then c else CHR ''-'') v"

definition text_escape :: "char \<Rightarrow> jsstr" where
  "text_escape c =
     (if c = bslash then cs ''textbackslash{}''
      else if c \<in> {CHR ''{'', CHR ''}'', CHR ''%'', CHR ''&'', CHR ''#''} then [bslash, c]
      else [c])"

definition safeText :: "jsstr \<Rightarrow> jsstr" where
  "safeText v = concat (map text_escape v)"

definition path_dropped :: "char \<Rightarrow> bool" where
  "path_dropped c \<longleftrightarrow> c \<in> {CHR ''{'', CHR ''}'', bslash, CHR 0x0D, newline, CHR ''%'', CHR ''#''}"

definition safePath :: "jsstr \<Rightarrow> jsstr" where
  "safePath v = filter (\<lambda>c. \<not> path_dropped c) v"

definition clamp :: "jsstr option \<Rightarrow> int \<Rightarrow> int \<Rightarrow> nat" where
  "clamp v minimum maximum =
     (let parsed = Option.bind v js_parseInt;
          n = (case parsed of None \<Rightarrow> minimum | Some i \<Rightarrow> if i = 0 then minimum else i)
      in nat (min maximum (max minimum n)))"

section \<open>Package requirements\<close>

record requirement =
  available :: bool
  req_message :: jsstr

definition packageRequirement :: "jsstr list \<Rightarrow> jsstr \<Rightarrow> requirement" where
  "packageRequirement packages required =
     (if required \<in> set packages then \<lparr>available = True, req_message = ''Available''\<rparr>
      else \<lparr>available = False, req_message = ''Requires package: '' @ required\<rparr>)"

section \<open>Tables and figures\<close>

record table_options =
  t_rows :: "jsstr option"
  t_columns :: "jsstr option"
  t_alignments :: "jsstr list"
  t_header :: bool
  t_booktabs :: bool
  t_caption :: "jsstr option"
  t_label :: "jsstr option"
  t_placement :: "jsstr option"

definition caption_line :: "jsstr option \<Rightarrow> jsstr list" where
  "caption_line v = (if truthy v then [cs ''caption{'' @ safeText (the v) @ ''}''] else [])"

definition label_line :: "jsstr option \<Rightarrow> jsstr list" where
  "label_line v = (if truthy v then [cs ''label{'' @ safeLabel (the v) @ ''}''] else [])"

text \<open>
  What the code makes of a name that every object inherits (\<open>constructor\<close>, \<open>toString\<close>), the text of a function, is
  outside the model.
\<close>

definition alignment :: "jsstr list \<Rightarrow> nat \<Rightarrow> jsstr" where
  "alignment as i =
     (if i < length as then
        (if as ! i = ''left'' then ''l'' else if as ! i = ''center'' then ''c''
         else if as ! i = ''right'' then ''r'' else ''l'')
      else ''l'')"

definition table_cell :: "bool \<Rightarrow> nat \<Rightarrow> nat \<Rightarrow> jsstr" where
  "table_cell header row column =
     (if header \<and> row = 0 then ''Header '' @ nat_str (column + 1)
      else ''Cell '' @ nat_str (row + 1) @ ''.'' @ nat_str (column + 1))"

definition table_row :: "bool \<Rightarrow> nat \<Rightarrow> nat \<Rightarrow> jsstr" where
  "table_row header columns row =
     js_join '' & '' (map (table_cell header row) [0..<columns]) @ '' '' @ [bslash, bslash]"

definition table_lines :: "table_options \<Rightarrow> jsstr list" where
  "table_lines opts =
     (let rows = clamp (t_rows opts) 1 30; columns = clamp (t_columns opts) 1 12;
          alignments = js_join [] (map (alignment (t_alignments opts)) [0..<columns]);
          booktabs = t_booktabs opts; header = t_header opts
      in [cs ''begin{table}['' @ js_or (t_placement opts) ''htbp'' @ '']'', cs ''centering'',
          cs ''begin{tabular}{'' @ alignments @ ''}'']
         @ (if booktabs then [cs ''toprule''] else [])
         @ concat (map (\<lambda>row. table_row header columns row #
             (if booktabs \<and> header \<and> row = 0 then [cs ''midrule''] else [])) [0..<rows])
         @ (if booktabs then [cs ''bottomrule''] else [])
         @ [cs ''end{tabular}''] @ caption_line (t_caption opts) @ label_line (t_label opts)
         @ [cs ''end{table}''])"

definition buildTable :: "table_options \<Rightarrow> jsstr" where
  "buildTable opts = js_join [newline] (table_lines opts)"

record figure_options =
  f_asset :: "jsstr option"
  f_width :: "jsstr option"
  f_customWidth :: "jsstr option"
  f_placement :: "jsstr option"
  f_caption :: "jsstr option"
  f_label :: "jsstr option"

definition figure_width :: "figure_options \<Rightarrow> jsstr" where
  "figure_width opts =
     (if f_width opts = Some ''custom'' then js_or (f_customWidth opts) (cs ''linewidth'')
      else js_or (f_width opts) (cs ''linewidth''))"

definition buildFigure :: "figure_options \<Rightarrow> jsstr" where
  "buildFigure opts = js_join [newline]
     ([cs ''begin{figure}['' @ js_or (f_placement opts) ''htbp'' @ '']'', cs ''centering'',
       cs ''includegraphics[width='' @ figure_width opts @ '']{''
         @ safePath (js_or (f_asset opts) ''path/to/image'') @ ''}'']
      @ caption_line (f_caption opts) @ label_line (f_label opts) @ [cs ''end{figure}''])"

section \<open>Equations\<close>

record equation_options =
  q_type :: "jsstr option"
  q_body :: "jsstr option"
  q_rows :: "jsstr option"
  q_columns :: "jsstr option"
  q_delimiter :: "jsstr option"
  q_label :: "jsstr option"

definition delimiter_env :: "jsstr option \<Rightarrow> jsstr" where
  "delimiter_env d =
     (if d = Some ''()'' then ''pmatrix'' else if d = Some ''[]'' then ''bmatrix''
      else if d = Some ''||'' then ''vmatrix'' else if d = Some ''none'' then ''matrix'' else ''pmatrix'')"

abbreviation row_break :: jsstr where "row_break \<equiv> '' '' @ [bslash, bslash, newline]"

definition matrix_entry :: "nat \<Rightarrow> nat \<Rightarrow> jsstr" where
  "matrix_entry row column = ''a_{'' @ nat_str (row + 1) @ nat_str (column + 1) @ ''}''"

definition matrix_body :: "nat \<Rightarrow> nat \<Rightarrow> jsstr" where
  "matrix_body rows columns =
     js_join row_break (map (\<lambda>row. js_join '' & '' (map (matrix_entry row) [0..<columns])) [0..<rows])"

definition case_row :: "nat \<Rightarrow> jsstr" where
  "case_row row = (if row \<noteq> 0 then ''0'' else ''f(x)'') @ '' & '' @ cs ''text{if } ''
     @ (if row \<noteq> 0 then ''x < 0'' else ''x '' @ cs ''geq 0'')"

definition wrap_env :: "jsstr \<Rightarrow> jsstr \<Rightarrow> jsstr" where
  "wrap_env n body = cs ''begin{'' @ n @ ''}'' @ [newline] @ body @ [newline] @ cs ''end{'' @ n @ ''}''"

definition inline_label :: "jsstr option \<Rightarrow> jsstr" where
  "inline_label v = (if truthy v then newline # cs ''label{'' @ safeLabel (the v) @ ''}'' else [])"

definition buildEquation :: "equation_options \<Rightarrow> jsstr" where
  "buildEquation opts =
     (let body = js_or (q_body opts) ''x = y''
      in if q_type opts = Some ''inline'' then cs ''('' @ body @ cs '')''
         else if q_type opts = Some ''matrix'' then
           wrap_env (delimiter_env (q_delimiter opts))
             (matrix_body (clamp (q_rows opts) 1 10) (clamp (q_columns opts) 1 10))
         else if q_type opts = Some ''cases'' then
           wrap_env ''cases'' (js_join row_break (map case_row [0..<clamp (q_rows opts) 1 10]))
         else if q_type opts = Some ''aligned'' then wrap_env ''align'' body
         else wrap_env ''equation'' (body @ inline_label (q_label opts)))"

section \<open>Plots, bibliography, algorithms, listings, theorems\<close>

record plot_options =
  p_asset :: "jsstr option"
  p_x :: "jsstr option"
  p_y :: "jsstr option"
  p_type :: "jsstr option"
  p_title :: "jsstr option"
  p_xLabel :: "jsstr option"
  p_yLabel :: "jsstr option"
  p_legend :: "jsstr option"
  p_caption :: "jsstr option"
  p_label :: "jsstr option"
  p_width :: "jsstr option"

definition buildPlot :: "plot_options \<Rightarrow> jsstr" where
  "buildPlot opts =
     (let type = js_or (p_type opts) ''line'';
          plotOptions = (if type = ''scatter'' then ''only marks'' else if type = ''bar'' then ''ybar'' else [])
      in js_join [newline]
        ([cs ''begin{figure}[htbp]'', cs ''centering'', cs ''begin{tikzpicture}'',
          cs ''begin{axis}[width='' @ js_or (p_width opts) (cs ''linewidth'')
            @ '',title={'' @ safeText (js_or (p_title opts) [])
            @ ''},xlabel={'' @ safeText (js_or (p_xLabel opts) [])
            @ ''},ylabel={'' @ safeText (js_or (p_yLabel opts) []) @ ''}''
            @ (if truthy (p_legend opts)
               then '',legend entries={'' @ safeText (the (p_legend opts)) @ ''}'' else []) @ '']'',
          cs ''addplot['' @ plotOptions @ ''] table[x='' @ safeText (js_or (p_x opts) ''x'')
            @ '',y='' @ safeText (js_or (p_y opts) ''y'') @ '',col sep=comma] {''
            @ safePath (js_or (p_asset opts) ''data.csv'') @ ''};'',
          cs ''end{axis}'', cs ''end{tikzpicture}'']
         @ caption_line (p_caption opts) @ label_line (p_label opts) @ [cs ''end{figure}'']))"

record bibtex_options =
  b_type :: "jsstr option"
  b_key :: "jsstr option"
  b_title :: "jsstr option"
  b_author :: "jsstr option"
  b_year :: "jsstr option"
  b_journal :: "jsstr option"
  b_booktitle :: "jsstr option"
  b_doi :: "jsstr option"
  b_url :: "jsstr option"

definition bibtex_fields :: "bibtex_options \<Rightarrow> (jsstr \<times> jsstr) list" where
  "bibtex_fields opts =
     map (\<lambda>(n, v). (n, the v)) (filter (\<lambda>(_, v). truthy v)
       [(''title'', b_title opts), (''author'', b_author opts), (''year'', b_year opts),
        (''journal'', b_journal opts), (''booktitle'', b_booktitle opts), (''doi'', b_doi opts),
        (''url'', b_url opts)])"

definition buildBibtexEntry :: "bibtex_options \<Rightarrow> jsstr" where
  "buildBibtexEntry opts =
     (let type = (case b_type opts of
                    None \<Rightarrow> ''article''
                  | Some t \<Rightarrow> if t \<in> {''article'', ''book'', ''inproceedings'', ''misc''} then t
                             else ''article'')
      in ''@'' @ type @ ''{'' @ safeLabel (js_or (b_key opts) ''key'') @ '','' @ [newline]
         @ js_join ('','' @ [newline])
             (map (\<lambda>(n, v). ''  '' @ n @ '' = {'' @ safeText v @ ''}'') (bibtex_fields opts))
         @ [newline] @ ''}'')"

record algorithm_options =
  g_caption :: "jsstr option"
  g_label :: "jsstr option"
  g_body :: "jsstr option"

definition buildAlgorithm :: "algorithm_options \<Rightarrow> jsstr" where
  "buildAlgorithm opts =
     (let body = js_join [newline] (js_split newline (js_or (g_body opts) (cs ''State Describe the method'')))
      in cs ''begin{algorithm}'' @ [newline] @ cs ''caption{'' @ safeText (js_or (g_caption opts) ''Algorithm'')
         @ ''}'' @ inline_label (g_label opts) @ [newline] @ cs ''begin{algorithmic}[1]'' @ [newline]
         @ body @ [newline] @ cs ''end{algorithmic}'' @ [newline] @ cs ''end{algorithm}'')"

record listing_options =
  l_language :: "jsstr option"
  l_caption :: "jsstr option"
  l_label :: "jsstr option"
  l_file :: "jsstr option"
  l_code :: "jsstr option"

definition listing_attributes :: "listing_options \<Rightarrow> jsstr" where
  "listing_attributes opts =
     ''[language='' @ safeText (js_or (l_language opts) []) @ '',caption={''
       @ safeText (js_or (l_caption opts) []) @ ''}''
       @ (if truthy (l_label opts) then '',label={'' @ safeLabel (the (l_label opts)) @ ''}'' else []) @ '']''"

definition buildCodeListing :: "listing_options \<Rightarrow> jsstr" where
  "buildCodeListing opts =
     (if truthy (l_file opts)
      then cs ''lstinputlisting'' @ listing_attributes opts @ ''{'' @ safePath (the (l_file opts)) @ ''}''
      else cs ''begin{lstlisting}'' @ listing_attributes opts @ [newline] @ js_or (l_code opts) []
           @ [newline] @ cs ''end{lstlisting}'')"

record theorem_options =
  h_environment :: "jsstr option"
  h_title :: "jsstr option"
  h_label :: "jsstr option"
  h_body :: "jsstr option"

definition buildTheorem :: "theorem_options \<Rightarrow> jsstr" where
  "buildTheorem opts =
     (let environment = safeLabel (js_or (h_environment opts) ''theorem'')
      in cs ''begin{'' @ environment @ ''}''
         @ (if truthy (h_title opts) then ''['' @ safeText (the (h_title opts)) @ '']'' else [])
         @ inline_label (h_label opts) @ [newline] @ js_or (h_body opts) ''Statement.'' @ [newline]
         @ cs ''end{'' @ environment @ ''}'')"

section \<open>Symbols and snippets\<close>

definition symbols :: "(jsstr \<times> jsstr list) list" where
  "symbols =
     [(''Greek'', [cs ''alpha'', cs ''beta'', cs ''gamma'', cs ''Delta'']),
      (''Relations'', [cs ''leq'', cs ''geq'', cs ''neq'']),
      (''Arrows'', [cs ''rightarrow'', cs ''Rightarrow'']),
      (''Operators'', [cs ''sum'', cs ''prod'']),
      (''Sets'', [cs ''in'', cs ''subseteq'']),
      (''Calculus'', [cs ''int'', cs ''partial'', cs ''nabla'', cs ''infty''])]"

definition no_table :: table_options where
  "no_table = \<lparr>t_rows = None, t_columns = None, t_alignments = [], t_header = False, t_booktabs = False,
     t_caption = None, t_label = None, t_placement = None\<rparr>"

definition no_equation :: equation_options where
  "no_equation = \<lparr>q_type = None, q_body = None, q_rows = None, q_columns = None, q_delimiter = None,
     q_label = None\<rparr>"

definition commonSnippets :: "(jsstr \<times> jsstr) list" where
  "commonSnippets =
     [(''figure'', cs ''begin{figure}[htbp]'' @ [newline] @ cs ''centering'' @ [newline]
         @ cs ''includegraphics[width='' @ cs ''linewidth]{image}'' @ [newline] @ cs ''caption{Caption}''
         @ [newline] @ cs ''label{fig:label}'' @ [newline] @ cs ''end{figure}''),
      (''table'', buildTable (no_table\<lparr>t_rows := Some ''2'', t_columns := Some ''2'', t_header := True\<rparr>)),
      (''equation'', buildEquation (no_equation\<lparr>q_type := Some ''display''\<rparr>)),
      (''align'', buildEquation (no_equation\<lparr>q_type := Some ''aligned''\<rparr>)),
      (''itemize'', cs ''begin{itemize}'' @ [newline] @ ''  '' @ cs ''item Item'' @ [newline] @ cs ''end{itemize}''),
      (''enumerate'', cs ''begin{enumerate}'' @ [newline] @ ''  '' @ cs ''item Item'' @ [newline]
         @ cs ''end{enumerate}''),
      (''theorem'', buildTheorem \<lparr>h_environment = None, h_title = None, h_label = None, h_body = None\<rparr>),
      (''proof'', cs ''begin{proof}'' @ [newline] @ ''Proof.'' @ [newline] @ cs ''end{proof}''),
      (''algorithm'', buildAlgorithm \<lparr>g_caption = None, g_label = None, g_body = None\<rparr>),
      (''code'', buildCodeListing \<lparr>l_language = None, l_caption = None, l_label = None, l_file = None,
         l_code = None\<rparr>)]"

end
