(* ===== verification/LatexSafety.thy ===== *)
theory LatexSafety
  imports LatexBuilders
begin

text \<open>
  The builders' guarantee: whatever the user types into a caption, a label, a title or a file name, the
  generated LaTeX keeps its own braces and environments properly nested. The options that the code
  copies without escaping (placement, widths, bodies) appear as hypotheses.
\<close>

section \<open>The escaping functions\<close>

lemma label_char_plain: "label_char c \<Longrightarrow> plain c"
  by (auto simp: plain_def label_char_def Let_def)

interpretation esc_label: tex_fragment safeLabel
proof unfold_locales
  fix c s
  show "safeLabel [] = []" by (simp add: safeLabel_def)
  show "tex_closed (safeLabel [c])"
    by (rule closed_all_plain) (simp add: safeLabel_def label_char_plain, simp add: plain_def)
  show "safeLabel (c # s) = safeLabel [c] @ safeLabel s" by (simp add: safeLabel_def)
qed

lemma closed_text_escape: "tex_closed (text_escape c)"
proof -
  have "tex_closed (cs ''textbackslash{}'')" by (simp add: tex_eval)
  moreover have "tex_closed [bslash, c]" if "c \<in> {CHR ''{'', CHR ''}'', CHR ''%'', CHR ''&'', CHR ''#''}"
    using that closed_escape [of c "[]"] by auto
  moreover have "tex_closed [c]" if "c \<noteq> bslash" "c \<notin> {CHR ''{'', CHR ''}'', CHR ''%''}"
    using that by (intro closed_all_plain) (auto simp: plain_def)
  ultimately show ?thesis unfolding text_escape_def by simp
qed

interpretation esc_text: tex_fragment safeText
proof unfold_locales
  fix c s
  show "tex_closed (safeText [c])" by (simp add: safeText_def closed_text_escape)
qed (simp_all add: safeText_def)

interpretation esc_path: tex_fragment safePath
proof unfold_locales
  fix c s
  show "tex_closed (safePath [c])"
    by (rule closed_all_plain) (auto simp: safePath_def path_dropped_def plain_def)
qed (simp_all add: safePath_def)

section \<open>Lines\<close>

lemma closed_caption_line: "\<forall>l\<in>set (caption_line v). tex_closed l"
proof -
  have "tex_closed (cs ''caption{'' @ safeText t @ ''}'')" for t
    by (simp add: tex_eval closedD [OF esc_text.escape_closed])
  then show ?thesis by (simp add: caption_line_def)
qed

lemma closed_label_line: "\<forall>l\<in>set (label_line v). tex_closed l"
proof -
  have "tex_closed (cs ''label{'' @ safeLabel t @ ''}'')" for t
    by (simp add: tex_eval closedD [OF esc_label.escape_closed])
  then show ?thesis by (simp add: label_line_def)
qed

lemma closed_inline_label: "tex_closed (inline_label v)"
  by (simp add: inline_label_def) (simp add: tex_eval closedD [OF esc_label.escape_closed])

lemma plain_digits: "js_digit c \<Longrightarrow> plain c"
  by (auto simp: js_digit_def plain_def Let_def)

lemma closed_nat_str: "tex_closed (nat_str n)"
  by (rule closed_all_plain) (auto intro: plain_digits nat_str_digits)

lemma closed_newline: "tex_closed [newline]"
  by (simp add: tex_eval)

lemma closed_table_row: "tex_closed (table_row header columns row)"
proof -
  have "tex_closed (table_cell header row column)" for column
    by (auto simp: table_cell_def tex_eval closedD [OF closed_nat_str])
  then have "tex_closed (js_join '' & '' (map (table_cell header row) [0..<columns]))"
    by (intro closed_join) (auto simp: tex_eval)
  moreover have "tex_closed ('' '' @ [bslash, bslash])" by (simp add: tex_eval)
  ultimately show ?thesis unfolding table_row_def by (rule closed_append)
qed

lemma closed_alignments: "tex_closed (js_join [] (map (alignment as) is))"
  by (rule closed_join) (auto simp: alignment_def tex_eval)

section \<open>The pieces of the other builders\<close>

lemma closed_wrap_env:
  assumes "CHR ''}'' \<notin> set n" "tex_closed body"
  shows "tex_closed (wrap_env n body)"
proof -
  have "tex_closed (newline # body @ [newline])"
    using closed_append [OF closed_newline closed_append [OF assms(2) closed_newline]] by simp
  from closed_environment [OF assms(1) this closed_Nil] show ?thesis by (simp add: wrap_env_def)
qed

lemma closed_matrix_body: "tex_closed (matrix_body rows columns)"
proof -
  have "tex_closed (matrix_entry i j)" for i j
    by (simp add: matrix_entry_def tex_eval closedD [OF closed_nat_str])
  then show ?thesis
    unfolding matrix_body_def by (auto intro!: closed_join) (simp_all add: tex_eval)
qed

lemma closed_case_row: "tex_closed (case_row row)"
  by (simp add: case_row_def tex_eval)

lemma closed_options:
  assumes "\<forall>v\<in>set vs. tex_closed v"
  shows "tex_closed (concat vs)"
  using assms by (induction vs) auto

lemma safeLabel_no_brace: "CHR ''}'' \<notin> set (safeLabel v)"
  by (auto simp: safeLabel_def dest: label_char_plain simp: plain_def split: if_splits)

lemma closed_listing_attributes: "tex_closed (listing_attributes opts)"
  by (auto simp: listing_attributes_def tex_eval closedD [OF esc_text.escape_closed]
      closedD [OF esc_label.escape_closed])

lemma plot_axis_moves:
  assumes "tex_closed w"
  shows "tex_moves st (cs ''begin{axis}[width='' @ w @ '',title={'' @ safeText a @ ''},xlabel={''
    @ safeText b @ ''},ylabel={'' @ safeText c @ ''}''
    @ (if truthy l then '',legend entries={'' @ safeText (the l) @ ''}'' else []) @ '']'')
    (Env ''axis'' # st)"
  by (auto simp: tex_eval closedD [OF esc_text.escape_closed] closedD [OF assms])

lemma plot_table_closed:
  assumes "tex_closed o'"
  shows "tex_closed (cs ''addplot['' @ o' @ ''] table[x='' @ safeText x @ '',y='' @ safeText y
    @ '',col sep=comma] {'' @ safePath f @ ''};'')"
  by (auto simp: tex_eval closedD [OF esc_text.escape_closed] closedD [OF esc_path.escape_closed]
      closedD [OF assms])

lemma figure_tail:
  "moves_lines (Env ''figure'' # st)
     (caption_line c @ label_line l @ [cs ''end{figure}'']) st"
proof -
  have "moves_lines (Env ''figure'' # st) [cs ''end{figure}''] st" by (simp add: tex_eval)
  then show ?thesis
    by (intro moves_lines_append [OF moves_lines_closed [OF closed_caption_line]]
        moves_lines_append [OF moves_lines_closed [OF closed_label_line]])
qed

lemma closed_lines:
  assumes "\<And>st. moves_lines st ls st"
  shows "tex_closed (js_join [newline] ls)"
  using assms by (auto simp: tex_closed_moves intro: moves_join closed_newline)

section \<open>The grid of a table\<close>

lemma clamp_bounds: "int lo \<le> hi \<Longrightarrow> lo \<le> clamp v (int lo) hi \<and> int (clamp v (int lo) hi) \<le> hi"
  by (auto simp: clamp_def Let_def split: option.split)

lemma clamp_in_range: "int lo \<le> int n \<Longrightarrow> int n \<le> hi \<Longrightarrow> n \<noteq> 0 \<Longrightarrow> clamp (Some (nat_str n)) (int lo) hi = n"
  by (simp add: clamp_def js_parseInt_nat_str)

text \<open>A line of cells ends with a row break, and no other line of the table does.\<close>

definition is_row :: "jsstr \<Rightarrow> bool" where
  "is_row l = js_endsWith l ('' '' @ [bslash, bslash])"

lemma is_row_snoc: "is_row (l @ [c]) \<Longrightarrow> c = bslash"
  by (auto simp: is_row_def js_endsWith_iff dest!: arg_cong [where f = last])

lemma not_is_row: "l \<noteq> [] \<Longrightarrow> last l \<noteq> bslash \<Longrightarrow> \<not> is_row l"
  using is_row_snoc [of "butlast l" "last l"] by auto

lemma is_row_table_row: "is_row (table_row h c row)"
  by (auto simp: is_row_def js_endsWith_iff table_row_def)

lemma no_rows:
  "filter is_row (caption_line v) = []" "filter is_row (label_line v) = []"
  by (simp_all add: caption_line_def label_line_def not_is_row)

lemma ampersands_join:
  assumes "\<forall>x\<in>set xs. CHR ''&'' \<notin> set x" "xs \<noteq> []"
  shows "count_list (js_join '' & '' xs) (CHR ''&'') = length xs - 1"
  using assms
proof (induction "'' & ''" xs rule: js_join.induct)
  case (3 x y ys)
  then show ?case by (simp add: count_list_0_iff)
qed (simp_all add: count_list_0_iff)

lemma no_amp_nat: "CHR ''&'' \<notin> set (nat_str n)"
  using nat_str_digits [of "CHR ''&''" n] by (auto simp: js_digit_def)

lemma ampersands_table_row:
  assumes "0 < columns"
  shows "count_list (table_row h columns row) (CHR ''&'') = columns - 1"
proof -
  have "CHR ''&'' \<notin> set (table_cell h row column)" for column
    by (simp add: table_cell_def no_amp_nat)
  then show ?thesis
    using assms ampersands_join [of "map (table_cell h row) [0..<columns]"]
    by (simp add: table_row_def)
qed

lemma filter_grid:
  "filter is_row (concat (map (\<lambda>row. table_row h c row #
      (if b row then [cs ''midrule''] else [])) is)) = map (table_row h c) is"
  by (induction "is") (simp_all add: is_row_table_row not_is_row)

lemma length_alignments: "length (js_join [] (map (alignment as) is)) = length is"
proof (induction "is")
  case (Cons i "is")
  have "length (alignment as i) = 1" by (simp add: alignment_def)
  with Cons show ?case by (cases "is = []") (simp_all add: js_join_Cons)
qed simp

section \<open>Braces as BibTeX counts them\<close>

text \<open>BibTeX delimits a field by counting braces; a backslash before a brace does not hide it.\<close>

fun bib_depth :: "jsstr \<Rightarrow> int" where
  "bib_depth [] = 0"
| "bib_depth (c # s) = (if c = CHR ''{'' then 1 else if c = CHR ''}'' then - 1 else 0) + bib_depth s"

lemma bib_depth_append [simp]: "bib_depth (s @ t) = bib_depth s + bib_depth t"
  by (induction s) simp_all

lemma bib_depth_safeText: "bib_depth (safeText s) = bib_depth s"
  by (induction s) (simp_all add: safeText_def text_escape_def)

lemma bib_depth_safeLabel: "bib_depth (safeLabel s) = 0"
  by (induction s) (auto simp: safeLabel_def label_char_def)

lemma bib_depth_join: "bib_depth sep = 0 \<Longrightarrow> bib_depth (js_join sep xs) = sum_list (map bib_depth xs)"
  by (induction sep xs rule: js_join.induct) simp_all

lemma bibtex_field_names:
  assumes "(n, v) \<in> set (bibtex_fields o')"
  shows "bib_depth n = 0"
proof -
  have "n \<in> {''title'', ''author'', ''year'', ''journal'', ''booktitle'', ''doi'', ''url''}"
    using assms by (simp add: bibtex_fields_def split: if_splits) auto
  then show ?thesis by auto
qed

section \<open>Properties\<close>

text \<open>
  C37. Any table the builder can produce is well nested: with every caption, label, alignment list and
  row and column count, the braces and the environments of the generated LaTeX close in order, provided
  the placement, which is copied as it is, does so itself.
\<close>

theorem buildTable_closed:
  assumes "tex_closed (js_or (t_placement opts) ''htbp'')"
  shows "tex_closed (buildTable opts)"
proof -
  have rows: "\<forall>l\<in>set (concat (map (\<lambda>row. table_row h c row #
      (if b \<and> h \<and> row = 0 then [cs ''midrule''] else [])) is)). tex_closed l" for h c b "is"
    by (auto simp: closed_table_row) (simp add: tex_eval)
  have "moves_lines st (table_lines opts) st" for st
  proof -
    let ?t = "Env ''table'' # st"
    let ?tt = "Env ''tabular'' # ?t"
    have "tex_moves st (cs ''begin{table}['' @ js_or (t_placement opts) ''htbp'' @ '']'') ?t"
      by (simp add: tex_eval closedD [OF assms])
    moreover have "tex_closed (cs ''centering'')" by (simp add: tex_eval)
    moreover have "tex_moves ?t (cs ''begin{tabular}{'' @ js_join [] (map (alignment as) is) @ ''}'') ?tt"
      for as "is" by (simp add: tex_eval closedD [OF closed_alignments])
    ultimately have head: "moves_lines st
        [cs ''begin{table}['' @ js_or (t_placement opts) ''htbp'' @ '']'', cs ''centering'',
         cs ''begin{tabular}{'' @ js_join [] (map (alignment as) is) @ ''}''] ?tt" for as "is"
      by (meson moves_lines_Cons moves_lines_Nil moves_closed)
    have rule_line: "moves_lines ?tt (if b then [cs ''toprule''] else []) ?tt"
      "moves_lines ?tt (if b then [cs ''bottomrule''] else []) ?tt" for b
      by (auto intro!: moves_closed) (simp_all add: tex_eval)
    have fin: "moves_lines ?tt [cs ''end{tabular}''] ?t" "moves_lines ?t [cs ''end{table}''] st"
      by (auto simp: tex_eval)
    show ?thesis
      unfolding table_lines_def Let_def
      by (intro moves_lines_append [OF head] moves_lines_append [OF rule_line(1)]
          moves_lines_append [OF moves_lines_closed [OF rows]] moves_lines_append [OF rule_line(2)]
          moves_lines_append [OF fin(1)] moves_lines_append [OF moves_lines_closed [OF closed_caption_line]]
          moves_lines_append [OF moves_lines_closed [OF closed_label_line]] fin(2))
  qed
  then show ?thesis
    unfolding tex_closed_moves buildTable_def by (auto intro: moves_join closed_newline)
qed

theorem buildTable_closed_witness:
  "tex_closed (buildTable (no_table\<lparr>t_caption := Some ''50% {of'', t_label := Some ''tab:}x''\<rparr>))"
  by (rule buildTable_closed) (simp add: no_table_def tex_eval)

text \<open>
  Figures and plots are well nested for every caption, label, title, axis label, legend, column
  name and file name, provided the width and the placement, which are copied as they are, are.
\<close>

theorem buildFigure_buildPlot_closed:
  assumes "tex_closed (js_or (f_placement fo) ''htbp'')" "tex_closed (figure_width fo)"
    and "tex_closed (js_or (p_width po) (cs ''linewidth''))"
  shows "tex_closed (buildFigure fo) \<and> tex_closed (buildPlot po)"
proof
  have "tex_moves st (cs ''begin{figure}['' @ js_or (f_placement fo) ''htbp'' @ '']'')
      (Env ''figure'' # st)" for st
    by (simp add: tex_eval closedD [OF assms(1)])
  moreover have "tex_closed (cs ''centering'')" by (simp add: tex_eval)
  moreover have "tex_closed (cs ''includegraphics[width='' @ figure_width fo @ '']{'' @ safePath v @ ''}'')" for v
    by (simp add: tex_eval closedD [OF assms(2)] closedD [OF esc_path.escape_closed])
  ultimately have "moves_lines st [cs ''begin{figure}['' @ js_or (f_placement fo) ''htbp'' @ '']'',
      cs ''centering'', cs ''includegraphics[width='' @ figure_width fo @ '']{'' @ safePath v @ ''}'']
      (Env ''figure'' # st)" for st v
    by (meson moves_lines_Cons moves_lines_Nil moves_closed)
  then show "tex_closed (buildFigure fo)"
    unfolding buildFigure_def by (intro closed_lines moves_lines_append [OF _ figure_tail])
next
  have "tex_moves st (cs ''begin{figure}[htbp]'') (Env ''figure'' # st)"
    "tex_moves st (cs ''begin{tikzpicture}'') (Env ''tikzpicture'' # st)"
    "tex_moves (Env ''axis'' # st) (cs ''end{axis}'') st"
    "tex_moves (Env ''tikzpicture'' # st) (cs ''end{tikzpicture}'') st"
    "tex_closed (cs ''centering'')" for st
    by (simp_all add: tex_eval)
  moreover note plot_axis_moves [OF assms(3)]
  moreover have "tex_closed (if t = ''scatter'' then ''only marks'' else if t = ''bar'' then ''ybar'' else [])" for t
    by (auto intro!: closed_all_plain simp: plain_def)
  note plot_table_closed [OF this]
  ultimately show "tex_closed (buildPlot po)"
    unfolding buildPlot_def Let_def
    by (intro closed_lines moves_lines_append [OF _ figure_tail])
      (meson moves_lines_Cons moves_lines_Nil moves_closed)
qed

theorem buildFigure_buildPlot_closed_witness:
  "tex_closed (buildFigure \<lparr>f_asset = Some ''a}b.png'', f_width = None, f_customWidth = None,
      f_placement = None, f_caption = Some ''50% {'', f_label = None\<rparr>) \<and>
   tex_closed (buildPlot \<lparr>p_asset = None, p_x = None, p_y = Some ''c{'', p_type = Some ''bar'',
      p_title = Some ''}'', p_xLabel = None, p_yLabel = None, p_legend = Some ''%'', p_caption = None,
      p_label = None, p_width = None\<rparr>)"
  by (rule buildFigure_buildPlot_closed) (simp_all add: figure_width_def tex_eval)

text \<open>
  Equations, theorems and algorithms are well nested whenever the body the user typed is: the
  matrices and case distinctions are so unconditionally, and a theorem's environment name, title and
  label cannot break it.
\<close>

theorem body_builders_closed:
  assumes "q_type qo \<notin> {Some ''matrix'', Some ''cases''} \<Longrightarrow> tex_closed (js_or (q_body qo) ''x = y'')"
    and "tex_closed (js_or (h_body ho) ''Statement.'')"
    and "tex_closed (js_or (g_body ao) (cs ''State Describe the method''))"
  shows "tex_closed (buildEquation qo) \<and> tex_closed (buildTheorem ho) \<and> tex_closed (buildAlgorithm ao)"
proof (intro conjI)
  let ?b = "js_or (q_body qo) ''x = y''"
  have "tex_closed (CHR '' '' # cs (cs [newline]))" by (simp add: tex_eval)
  then have cases_body: "tex_closed (js_join (CHR '' '' # cs (cs [newline])) (map case_row is))" for "is"
    by (intro closed_join) (auto simp: closed_case_row)
  have body: "tex_closed ?b" if "q_type qo \<noteq> Some ''matrix''" "q_type qo \<noteq> Some ''cases''"
    using assms(1) that by simp
  have "tex_closed (cs ''('' @ ?b @ cs '')'')" if "tex_closed ?b"
    using that by (simp add: tex_eval)
  moreover have "CHR ''}'' \<notin> set (delimiter_env d)" for d by (simp add: delimiter_env_def)
  ultimately show "tex_closed (buildEquation qo)"
    unfolding buildEquation_def Let_def
    by (auto intro!: closed_wrap_env closed_matrix_body cases_body closed_append closed_inline_label
        intro: body)
next
  let ?v = "js_or (h_environment ho) ''theorem''"
  have "tex_closed ((if truthy (h_title ho) then ''['' @ safeText (the (h_title ho)) @ '']'' else [])
      @ inline_label (h_label ho) @ [newline] @ js_or (h_body ho) ''Statement.'' @ [newline])"
    by (intro closed_append closed_inline_label closed_newline assms(2))
      (simp add: tex_eval closedD [OF esc_text.escape_closed])
  from closed_environment [OF safeLabel_no_brace this closed_Nil, of ?v]
  show "tex_closed (buildTheorem ho)" by (simp add: buildTheorem_def Let_def split del: if_split)
next
  let ?b = "js_or (g_body ao) (cs ''State Describe the method'')"
  let ?l = "inline_label (g_label ao)"
  have "tex_closed (newline # ?b @ [newline])"
    using closed_append [OF closed_newline closed_append [OF assms(3) closed_newline]] by simp
  from closed_append [OF this closed_Nil] have "tex_closed (''[1]'' @ newline # ?b @ [newline])"
    by (intro closed_append) (simp_all add: tex_eval)
  from closed_environment [OF _ this closed_newline, of "''algorithmic''"]
  have "tex_closed (newline # cs ''begin{algorithmic}[1]'' @ newline # ?b @ newline
      # cs ''end{algorithmic}'' @ [newline])"
    using closed_newline by (simp add: tex_closed_def)
  then have "tex_closed ((newline # cs ''caption{'' @ safeText (js_or (g_caption ao) ''Algorithm'') @ ''}'')
      @ ?l @ newline # cs ''begin{algorithmic}[1]'' @ newline # ?b @ newline
      # cs ''end{algorithmic}'' @ [newline])"
    by (intro closed_append closed_inline_label)
      (simp_all add: tex_eval closedD [OF esc_text.escape_closed])
  from closed_environment [OF _ this closed_Nil, of "''algorithm''"]
  show "tex_closed (buildAlgorithm ao)"
    by (simp add: buildAlgorithm_def Let_def js_join_split)
qed

theorem body_builders_closed_witness:
  "tex_closed (buildEquation (no_equation\<lparr>q_type := Some ''matrix'', q_rows := Some ''3'',
      q_body := Some ''}''\<rparr>)) \<and>
   tex_closed (buildTheorem \<lparr>h_environment = Some ''le}mma'', h_title = Some ''A}'', h_label = None,
      h_body = Some ''{x}''\<rparr>) \<and>
   tex_closed (buildAlgorithm \<lparr>g_caption = Some ''{'', g_label = Some ''%'', g_body = None\<rparr>)"
  by (rule body_builders_closed) (simp_all add: no_equation_def tex_eval)

text \<open>
  The table has the grid that was asked for: between 1 and 30 rows and between 1 and 12 columns,
  one line per row in order, each with exactly one separator between its cells, and one alignment letter
  per column.
\<close>

theorem buildTable_grid:
  "filter is_row (table_lines opts)
      = map (table_row (t_header opts) (clamp (t_columns opts) 1 12)) [0..<clamp (t_rows opts) 1 30]
    \<and> clamp (t_rows opts) 1 30 \<in> {1..30} \<and> clamp (t_columns opts) 1 12 \<in> {1..12}
    \<and> count_list (table_row (t_header opts) (clamp (t_columns opts) 1 12) i) (CHR ''&'')
      = clamp (t_columns opts) 1 12 - 1
    \<and> (\<exists>as. length as = clamp (t_columns opts) 1 12
        \<and> table_lines opts ! 2 = cs ''begin{tabular}{'' @ as @ ''}'')"
proof -
  let ?r = "clamp (t_rows opts) 1 30" and ?c = "clamp (t_columns opts) 1 12"
  have bounds: "?r \<in> {1..30}" "?c \<in> {1..12}"
    using clamp_bounds [of 1 30 "t_rows opts"] clamp_bounds [of 1 12 "t_columns opts"] by simp_all
  have grid: "filter is_row (table_lines opts) = map (table_row (t_header opts) ?c) [0..<?r]"
    by (simp add: table_lines_def Let_def filter_grid no_rows not_is_row)
  have "table_lines opts ! 2
      = cs ''begin{tabular}{'' @ js_join [] (map (alignment (t_alignments opts)) [0..<?c]) @ ''}''"
    by (simp add: table_lines_def Let_def numeral_2_eq_2)
  then have "\<exists>as. length as = ?c \<and> table_lines opts ! 2 = cs ''begin{tabular}{'' @ as @ ''}''"
    using length_alignments [of "t_alignments opts" "[0..<?c]"] by auto
  with bounds grid show ?thesis by (simp add: ampersands_table_row)
qed

text \<open>
  A bibliography entry is exactly as balanced as the values it is given: escaping does not change
  how BibTeX counts braces, so an unmatched brace in a field leaves the whole entry unmatched.
\<close>

theorem buildBibtexEntry_depth:
  "bib_depth (buildBibtexEntry opts) = (\<Sum>(n, v)\<leftarrow>bibtex_fields opts. bib_depth v)"
proof -
  have "bib_depth (case b_type opts of None \<Rightarrow> ''article''
      | Some t \<Rightarrow> if t \<in> {''article'', ''book'', ''inproceedings'', ''misc''} then t else ''article'') = 0"
    by (auto split: option.split)
  moreover have "(\<Sum>f\<leftarrow>bibtex_fields opts. bib_depth (case f of (n, v) \<Rightarrow> ''  '' @ n @ '' = {'' @ safeText v @ ''}''))
      = (\<Sum>(n, v)\<leftarrow>bibtex_fields opts. bib_depth v)"
    by (intro arg_cong [where f = sum_list] map_cong)
      (auto simp: bib_depth_safeText bibtex_field_names)
  ultimately show ?thesis
    by (simp add: buildBibtexEntry_def Let_def bib_depth_join bib_depth_safeLabel o_def)
qed

end
