(* ===== verification/PdfPreview.thy ===== *)
theory PdfPreview
  imports Prelude
begin

text \<open>
  \<open>pdfPreviewState\<close> of \<^verbatim>\<open>services/server/frontend/writer-pdf.mjs\<close>: which of the PDF panes is shown
  for a build record. A build identifier is falsy when it is missing or empty.
\<close>

record build_record =
  current_build_id :: "jsstr option"
  active_build_id :: "jsstr option"
  latest_status :: "jsstr option"

record pdf_preview =
  pv_empty :: bool
  pv_viewer :: bool
  rebuildingWithLastGood :: bool
  failedWithLastGood :: bool

definition pdfPreviewState :: "build_record \<Rightarrow> pdf_preview" where
  "pdfPreviewState build =
     (let viewer = truthy (current_build_id build)
      in \<lparr>pv_empty = \<not> viewer, pv_viewer = viewer,
          rebuildingWithLastGood = (viewer \<and> truthy (active_build_id build)),
          failedWithLastGood = (viewer \<and> latest_status build = Some ''failed'')\<rparr>)"

lemma preview_viewer_iff [simp]:
  "pv_viewer (pdfPreviewState b) \<longleftrightarrow> truthy (current_build_id b)"
  "pv_empty (pdfPreviewState b) \<longleftrightarrow> \<not> truthy (current_build_id b)"
  by (simp_all add: pdfPreviewState_def Let_def)

text \<open>The two banners speak of the last good PDF, so neither is shown over the empty pane.\<close>

lemma preview_banners_need_viewer:
  "rebuildingWithLastGood (pdfPreviewState b) \<or> failedWithLastGood (pdfPreviewState b) \<Longrightarrow>
     \<not> pv_empty (pdfPreviewState b)"
  by (auto simp: pdfPreviewState_def Let_def)

end
