(* ===== verification/Dom.thy ===== *)
theory Dom
  imports JsString
begin

text \<open>
  The part of the document that the client builds: elements with their properties, the action that runs
  on a click, and their children; and the two element builders that
  \<^verbatim>\<open>services/server/frontend/writer.js\<close> uses throughout. What a click does is a value of the type \<open>'a\<close>
  of the component that renders.
\<close>

datatype 'a dom =
    Elem jsstr "(jsstr \<times> jsstr) list" "'a option" "'a dom list"
  | Txt jsstr

fun with_prop :: "jsstr \<Rightarrow> jsstr \<Rightarrow> 'a dom \<Rightarrow> 'a dom" where
  "with_prop k v (Elem t ps a cs) = Elem t (ps @ [(k, v)]) a cs"
| "with_prop k v (Txt s) = Txt s"

fun with_child :: "'a dom \<Rightarrow> 'a dom \<Rightarrow> 'a dom" where
  "with_child c (Elem t ps a cs) = Elem t ps a (cs @ [c])"
| "with_child c (Txt s) = Txt s"

definition button :: "jsstr \<Rightarrow> 'a \<Rightarrow> bool \<Rightarrow> 'a dom" where
  "button label onClick active =
     Elem ''button'' ((''type'', ''button'') # (if active then [(''aria-current'', ''page'')] else []))
       (Some onClick) [Txt label]"

definition text_elem :: "jsstr \<Rightarrow> jsstr \<Rightarrow> 'a dom" where
  "text_elem tag s = Elem tag [] None [Txt s]"

definition empty_copy :: "jsstr \<Rightarrow> 'a dom" where
  "empty_copy s = Elem ''p'' [(''class'', ''empty-copy'')] None [Txt s]"

text \<open>The clicks a document offers, in document order, with the text of the clicked element.\<close>

fun dom_text :: "'a dom \<Rightarrow> jsstr" where
  "dom_text (Txt s) = s"
| "dom_text (Elem t ps a cs) = concat (map dom_text cs)"

fun clicks :: "'a dom \<Rightarrow> 'a list" where
  "clicks (Txt s) = []"
| "clicks (Elem t ps a cs) = (case a of None \<Rightarrow> [] | Some x \<Rightarrow> [x]) @ concat (map clicks cs)"

lemma clicks_with_prop [simp]: "clicks (with_prop k v d) = clicks d"
  by (cases d) simp_all

lemma clicks_with_child [simp]: "clicks (with_child c (Elem t ps a cs)) = clicks (Elem t ps a cs) @ clicks c"
  by simp

lemma clicks_button [simp]: "clicks (button s a b) = [a]"
  by (simp add: button_def)

lemma clicks_text [simp]: "clicks (text_elem t s) = []" "clicks (empty_copy s) = []"
  by (simp_all add: text_elem_def empty_copy_def)

end
