(* ===== verification/FileTree.thy ===== *)
theory FileTree
  imports Dom JsSort Outline
begin

text \<open>
  The sidebar of \<^verbatim>\<open>services/server/frontend/writer.js\<close>: the paper lists (\<open>renderPapers\<close>,
  \<open>renderPaperGroup\<close>), the file tree (\<open>renderFiles\<close>, \<open>renderTree\<close>), the outline (\<open>renderOutline\<close>) and
  the problems list (\<open>renderProblems\<close>), as functions from the page's model to the document they build.
  A JavaScript \<open>Map\<close> is a list of keys and values in insertion order. \<open>localeCompare\<close> is the argument
  \<open>loc\<close>.
\<close>

section \<open>Papers\<close>

record paper =
  paper_id :: jsstr
  paper_name :: jsstr
  paper_kind :: jsstr
  paper_status :: jsstr
  is_team_leader :: bool

definition paper_item :: "jsstr option \<Rightarrow> paper \<Rightarrow> paper dom" where
  "paper_item current p =
     (let item = with_prop ''title''
            (if paper_status p = ''active'' then paper_name p
             else paper_name p @ '' ('' @ paper_status p @ '', read-only)'')
            (button (paper_name p) p (current = Some (paper_id p)))
      in if paper_status p \<noteq> ''active'' then with_child (text_elem ''small'' (paper_status p)) item else item)"

definition renderPaperGroup :: "jsstr option \<Rightarrow> paper list \<Rightarrow> jsstr \<Rightarrow> paper dom list" where
  "renderPaperGroup current papers copy =
     (if papers = [] then [empty_copy copy]
      else [Elem ''div'' [(''class'', ''paper-list'')] None (map (paper_item current) papers)])"

definition renderPapers :: "jsstr option \<Rightarrow> paper list \<Rightarrow> paper dom list \<times> paper dom list" where
  "renderPapers current papers =
     (renderPaperGroup current (filter (\<lambda>p. paper_kind p = ''personal'') papers) ''No personal papers yet.'',
      renderPaperGroup current (filter (\<lambda>p. paper_kind p = ''team'') papers) ''No assigned team papers.'')"

section \<open>Files\<close>

record pfile =
  fl_id :: jsstr
  fl_path :: jsstr

text \<open>A directory node: its subdirectories in insertion order, and its files with their labels.\<close>

datatype tree_node = TNode "(jsstr \<times> tree_node) list" "(jsstr \<times> pfile) list"

fun map_set :: "jsstr \<Rightarrow> 'v \<Rightarrow> (jsstr \<times> 'v) list \<Rightarrow> (jsstr \<times> 'v) list" where
  "map_set k v [] = [(k, v)]"
| "map_set k v ((k', v') # kvs) = (if k' = k then (k, v) # kvs else (k', v') # map_set k v kvs)"

text \<open>The walk from the root along the directory parts, creating the missing ones.\<close>

fun add_file :: "jsstr list \<Rightarrow> jsstr \<times> pfile \<Rightarrow> tree_node \<Rightarrow> tree_node" where
  "add_file [] leaf (TNode ds fs) = TNode ds (fs @ [leaf])"
| "add_file (part # parts) leaf (TNode ds fs) =
     TNode (map_set part
       (add_file parts leaf (case map_of ds part of None \<Rightarrow> TNode [] [] | Some child \<Rightarrow> child)) ds) fs"

definition file_tree :: "pfile list \<Rightarrow> tree_node" where
  "file_tree files =
     foldl (\<lambda>root f. let parts = js_split CHR ''/'' (fl_path f)
                     in add_file (butlast parts) (last parts, f) root) (TNode [] []) files"

text \<open>
  \<open>[...entries()].sort()\<close> without a comparator compares the entries as strings, and an entry
  \<open>[name, child]\<close> as a string is the name, a comma and \<open>[object Object]\<close>.
\<close>

definition entry_cmp :: "jsstr \<times> 'v \<Rightarrow> jsstr \<times> 'v \<Rightarrow> int" where
  "entry_cmp a b = code_unit_cmp (fst a @ '',[object Object]'') (fst b @ '',[object Object]'')"

definition label_cmp :: "(jsstr \<Rightarrow> jsstr \<Rightarrow> int) \<Rightarrow> jsstr \<times> pfile \<Rightarrow> jsstr \<times> pfile \<Rightarrow> int" where
  "label_cmp loc a b = loc (fst a) (fst b)"

definition dir_item :: "jsstr \<times> pfile dom \<Rightarrow> pfile dom" where
  "dir_item d = Elem ''li'' [] None
     [Elem ''span'' [(''class'', ''directory'')] None [Txt (fst d)], snd d]"

definition file_item :: "jsstr option \<Rightarrow> jsstr option \<Rightarrow> jsstr \<times> pfile \<Rightarrow> pfile dom" where
  "file_item current main lf =
     (let leaf = button (fst lf) (snd lf) (current = Some (fl_id (snd lf)))
      in Elem ''li'' [] None
           [if main = Some (fl_path (snd lf)) then with_child (text_elem ''small'' ''Main'') leaf else leaf])"

text \<open>The children are rendered before they are put in order; the order looks at the names only.\<close>

fun renderTree ::
  "(jsstr \<Rightarrow> jsstr \<Rightarrow> int) \<Rightarrow> jsstr option \<Rightarrow> jsstr option \<Rightarrow> tree_node \<Rightarrow> pfile dom" where
  "renderTree loc current main (TNode ds fs) =
     Elem ''ul'' [(''class'', ''file-tree'')] None
       (map dir_item (js_sort entry_cmp (map (\<lambda>(name, child). (name, renderTree loc current main child)) ds))
        @ map (file_item current main) (js_sort (label_cmp loc) fs))"

definition renderFiles ::
  "(jsstr \<Rightarrow> jsstr \<Rightarrow> int) \<Rightarrow> bool \<Rightarrow> jsstr option \<Rightarrow> jsstr option \<Rightarrow> pfile list \<Rightarrow> pfile dom list" where
  "renderFiles loc paper_open current main files =
     (if \<not> paper_open then [empty_copy ''Choose a paper to view its files.'']
      else if files = [] then [empty_copy ''No files.'']
      else [renderTree loc current main (file_tree files)])"

section \<open>The outline and the problems\<close>

definition outline_label :: "(jsstr \<times> 'p) outline_entry \<Rightarrow> jsstr" where
  "outline_label e = js_or (Some (fst (oe_payload e))) (oe_level e)"

definition outline_list :: "'a dom list \<Rightarrow> 'a dom" where
  "outline_list items = Elem ''ul'' [(''class'', ''outline-tree'')] None items"

fun outline_item :: "(jsstr \<times> 'p) outline_node \<Rightarrow> (jsstr \<times> 'p) outline_entry dom" where
  "outline_item (ONode e children) =
     Elem ''li'' [] None (button (outline_label e) e False
       # (if children \<noteq> [] then [outline_list (map outline_item children)] else []))"

definition renderOutline :: "(jsstr \<times> 'p) outline_entry list \<Rightarrow> (jsstr \<times> 'p) outline_entry dom list" where
  "renderOutline outline =
     (let tree = buildOutlineTree outline
      in if tree = [] then [empty_copy ''No sections detected.''] else [outline_list (map outline_item tree)])"

record diagnostic =
  dg_message :: jsstr
  dg_severity :: "jsstr option"
  dg_code :: "jsstr option"
  dg_path :: "jsstr option"
  dg_file_id :: "jsstr option"
  dg_line :: "nat option"

definition problem_row :: "diagnostic \<Rightarrow> diagnostic dom" where
  "problem_row d =
     with_child (text_elem ''small'' (js_or (dg_path d) ''Build''
         @ (case dg_line d of None \<Rightarrow> [] | Some l \<Rightarrow> if l = 0 then [] else '':'' @ nat_str l)
         @ middot @ js_or (dg_code d) (js_or (dg_severity d) ''undefined'')))
       (with_prop ''class'' (''problem-row '' @ js_or (dg_severity d) ''error'') (button (dg_message d) d False))"

definition renderProblems :: "diagnostic list \<Rightarrow> diagnostic option \<Rightarrow> nat \<times> diagnostic dom list" where
  "renderProblems diagnostics compileDiagnostic =
     (let all = diagnostics @ (case compileDiagnostic of None \<Rightarrow> [] | Some d \<Rightarrow> [d])
      in (length all, if all = [] then [empty_copy ''No current problems.''] else map problem_row all))"

section \<open>The files a tree holds\<close>

fun tree_files :: "tree_node \<Rightarrow> (jsstr list \<times> pfile) list" where
  "tree_files (TNode ds fs) =
     concat (map (\<lambda>(name, child). map (\<lambda>(ps, f). (name # ps, f)) (tree_files child)) ds)
     @ map (\<lambda>(label, f). ([label], f)) fs"

text \<open>Reading the rendered list back: the path of directory names down to each file.\<close>

fun read_tree :: "pfile dom \<Rightarrow> (jsstr list \<times> pfile) list"
  and read_item :: "pfile dom \<Rightarrow> (jsstr list \<times> pfile) list" where
  "read_tree (Elem t ps a items) = concat (map read_item items)"
| "read_tree (Txt s) = []"
| "read_item (Elem t ps a [Elem t1 ps1 None [Txt name], child]) =
     map (\<lambda>(p, f). (name # p, f)) (read_tree child)"
| "read_item (Elem t ps a [Elem t1 ps1 (Some f) (Txt label # rest)]) = [([label], f)]"
| "read_item _ = []"

lemma mset_concat_map:
  "mset xs = mset ys \<Longrightarrow> mset (concat (map f xs)) = mset (concat (map f ys))"
proof -
  have "mset (concat (map f zs)) = \<Sum>\<^sub># (image_mset (\<lambda>x. mset (f x)) (mset zs))" for zs
    by (induction zs) simp_all
  then show "mset xs = mset ys \<Longrightarrow> ?thesis" by simp
qed

lemma mset_concat_cong:
  "(\<And>x. x \<in> set xs \<Longrightarrow> mset (f x) = mset (g x)) \<Longrightarrow> mset (concat (map f xs)) = mset (concat (map g xs))"
  by (induction xs) simp_all

lemma read_dir_item: "read_item (dir_item (name, d)) = map (\<lambda>(p, f). (name # p, f)) (read_tree d)"
  by (simp add: dir_item_def)

lemma read_file_item: "read_item (file_item current main lf) = [([fst lf], snd lf)]"
  by (simp add: file_item_def button_def text_elem_def Let_def)

lemma read_renderTree: "mset (read_tree (renderTree loc current main t)) = mset (tree_files t)"
proof (induction t)
  case (TNode ds fs)
  let ?r = "\<lambda>(name, child). (name, renderTree loc current main child)"
  have "mset (js_sort entry_cmp (map ?r ds)) = mset (map ?r ds)" by simp
  then have "mset (concat (map read_item (map dir_item (js_sort entry_cmp (map ?r ds)))))
      = mset (concat (map (\<lambda>d. read_item (dir_item d)) (map ?r ds)))"
    using mset_concat_map [of _ _ "\<lambda>d. read_item (dir_item d)"] by (simp only: map_map comp_def)
  also have "\<dots> = mset (concat (map (\<lambda>(name, child). map (\<lambda>(p, f). (name # p, f))
      (read_tree (renderTree loc current main child))) ds))"
    by (simp add: comp_def case_prod_unfold read_dir_item)
  also have "\<dots> = mset (concat (map (\<lambda>(name, child). map (\<lambda>(p, f). (name # p, f)) (tree_files child)) ds))"
    by (rule mset_concat_cong) (use TNode in \<open>auto simp: case_prod_unfold\<close>)
  finally have dirs: "mset (concat (map read_item (map dir_item (js_sort entry_cmp (map ?r ds)))))
      = mset (concat (map (\<lambda>(name, child). map (\<lambda>(p, f). (name # p, f)) (tree_files child)) ds))" .
  have "concat (map read_item (map (file_item current main) xs)) = map (\<lambda>(label, f). ([label], f)) xs" for xs
    by (induction xs) (simp_all add: read_file_item case_prod_unfold)
  then have "mset (concat (map read_item (map (file_item current main) (js_sort (label_cmp loc) fs))))
      = mset (map (\<lambda>(label, f). ([label], f)) fs)"
    by simp
  with dirs show ?case by simp
qed

lemma map_set_fresh: "map_of ds k = None \<Longrightarrow> map_set k v ds = ds @ [(k, v)]"
  by (induction ds) (auto split: if_splits)

lemma map_set_files:
  assumes "map_of ds k = Some v" "mset (g k v') = mset (g k v) + xs"
  shows "mset (concat (map (\<lambda>(k, v). g k v) (map_set k v' ds))) = mset (concat (map (\<lambda>(k, v). g k v) ds)) + xs"
  using assms by (induction ds) (auto split: if_splits)

lemma tree_files_add:
  "mset (tree_files (add_file ps (label, f) t)) = mset (tree_files t) + {#(ps @ [label], f)#}"
proof (induction ps "(label, f)" t rule: add_file.induct)
  case (2 part parts ds fs)
  let ?g = "\<lambda>name child. map (\<lambda>(p, f). (name # p, f)) (tree_files child)"
  let ?old = "case map_of ds part of None \<Rightarrow> TNode [] [] | Some child \<Rightarrow> child"
  have new: "mset (?g part (add_file parts (label, f) ?old)) = mset (?g part ?old) + {#((part # parts) @ [label], f)#}"
    using 2 by simp
  show ?case
  proof (cases "map_of ds part")
    case None
    then show ?thesis using new by (simp add: map_set_fresh)
  next
    case (Some child)
    with map_set_files [OF Some, of ?g] new show ?thesis by simp
  qed
qed simp

lemma tree_files_file_tree:
  "mset (tree_files (file_tree files)) = mset (map (\<lambda>f. (js_split CHR ''/'' (fl_path f), f)) files)"
proof (induction files rule: rev_induct)
  case (snoc f files)
  let ?parts = "js_split CHR ''/'' (fl_path f)"
  have "file_tree (files @ [f]) = add_file (butlast ?parts) (last ?parts, f) (file_tree files)"
    by (simp add: file_tree_def Let_def)
  then show ?case using snoc by (simp add: tree_files_add)
qed (simp add: file_tree_def)

section \<open>Property\<close>

text \<open>
  The file tree shows every file of the paper exactly once, under the directories its path names
  and with its last part as the label, and nothing else; whatever order the locale puts the labels in.
\<close>

theorem file_tree_complete:
  "mset (read_tree (renderTree loc current main (file_tree files)))
     = mset (map (\<lambda>f. (js_split CHR ''/'' (fl_path f), f)) files)"
  by (simp only: read_renderTree tree_files_file_tree)

end
