(* ===== verification/WriterBuilders.thy ===== *)
theory WriterBuilders
  imports LatexBuilders FileTree
begin

text \<open>
  The builder dialogs of \<^verbatim>\<open>services/server/frontend/writer.js\<close>: their schemas, the controls \<open>openBuilder\<close>
  makes of them, the values read back, the package requirement it shows and the source it previews. A
  control's value is text, or a truth value for a checkbox; an option list that has no choice has the
  empty value, as the document gives it.
\<close>

section \<open>Schemas\<close>

datatype initial = IText jsstr | ICheck bool | IChoices "jsstr list"

record schema_row =
  sr_name :: jsstr
  sr_label :: jsstr
  sr_type :: jsstr
  sr_initial :: initial

abbreviation text_row :: "jsstr \<Rightarrow> jsstr \<Rightarrow> jsstr \<Rightarrow> schema_row" where
  "text_row n l i \<equiv> \<lparr>sr_name = n, sr_label = l, sr_type = ''text'', sr_initial = IText i\<rparr>"
abbreviation number_row :: "jsstr \<Rightarrow> jsstr \<Rightarrow> jsstr \<Rightarrow> schema_row" where
  "number_row n l i \<equiv> \<lparr>sr_name = n, sr_label = l, sr_type = ''number'', sr_initial = IText i\<rparr>"
abbreviation area_row :: "jsstr \<Rightarrow> jsstr \<Rightarrow> jsstr \<Rightarrow> schema_row" where
  "area_row n l i \<equiv> \<lparr>sr_name = n, sr_label = l, sr_type = ''textarea'', sr_initial = IText i\<rparr>"
abbreviation check_row :: "jsstr \<Rightarrow> jsstr \<Rightarrow> bool \<Rightarrow> schema_row" where
  "check_row n l i \<equiv> \<lparr>sr_name = n, sr_label = l, sr_type = ''checkbox'', sr_initial = ICheck i\<rparr>"
abbreviation select_row :: "jsstr \<Rightarrow> jsstr \<Rightarrow> jsstr list \<Rightarrow> schema_row" where
  "select_row n l i \<equiv> \<lparr>sr_name = n, sr_label = l, sr_type = ''select'', sr_initial = IChoices i\<rparr>"
abbreviation file_row :: "jsstr \<Rightarrow> jsstr \<Rightarrow> jsstr \<Rightarrow> schema_row" where
  "file_row n l t \<equiv> \<lparr>sr_name = n, sr_label = l, sr_type = t, sr_initial = IText []\<rparr>"

definition builderSchemas :: "jsstr \<Rightarrow> schema_row list" where
  "builderSchemas kind =
     (if kind = ''table'' then
        [number_row ''rows'' ''Rows'' ''3'', number_row ''columns'' ''Columns'' ''3'',
         check_row ''header'' ''Header row'' True,
         text_row ''alignments'' ''Column alignments'' ''left,center,left'',
         check_row ''booktabs'' ''Booktabs'' False, text_row ''caption'' ''Caption'' [],
         text_row ''label'' ''Label'' ''tab:'', text_row ''placement'' ''Placement'' ''htbp'']
      else if kind = ''figure'' then
        [file_row ''asset'' ''Asset'' ''asset'',
         select_row ''width'' ''Width'' [cs ''linewidth'', ''0.75'' @ cs ''linewidth'', ''0.5'' @ cs ''linewidth'', ''custom''],
         text_row ''customWidth'' ''Custom width'' [], text_row ''placement'' ''Placement'' ''htbp'',
         text_row ''caption'' ''Caption'' [], text_row ''label'' ''Label'' ''fig:'']
      else if kind = ''equation'' then
        [select_row ''type'' ''Type'' [''inline'', ''display'', ''aligned'', ''matrix'', ''cases''],
         area_row ''body'' ''Expression / body'' ''x = y'', number_row ''rows'' ''Rows'' ''2'',
         number_row ''columns'' ''Columns'' ''2'',
         select_row ''delimiter'' ''Matrix delimiter'' [''()'', ''[]'', ''||'', ''none''],
         text_row ''label'' ''Label'' ''eq:'']
      else if kind = ''plot'' then
        [file_row ''asset'' ''CSV asset'' ''csv'', text_row ''x'' ''X column'' ''x'', text_row ''y'' ''Y column'' ''y'',
         select_row ''type'' ''Plot type'' [''line'', ''scatter'', ''bar''], text_row ''title'' ''Title'' [],
         text_row ''xLabel'' ''X label'' [], text_row ''yLabel'' ''Y label'' [], text_row ''legend'' ''Legend'' [],
         text_row ''caption'' ''Caption'' [], text_row ''label'' ''Label'' ''fig:plot'',
         text_row ''width'' ''Width'' (cs ''linewidth'')]
      else if kind = ''algorithm'' then
        [text_row ''caption'' ''Caption'' ''Algorithm'', text_row ''label'' ''Label'' ''alg:'',
         area_row ''body'' ''Algorithm lines'' (cs ''State Describe the method'')]
      else if kind = ''code'' then
        [text_row ''language'' ''Language'' [], text_row ''caption'' ''Caption'' [],
         text_row ''label'' ''Label'' ''lst:'', text_row ''file'' ''File reference (optional)'' [],
         area_row ''code'' ''Inline code'' []]
      else if kind = ''bibliography'' then
        [file_row ''target'' ''Target .bib file'' ''bib'',
         select_row ''type'' ''Entry type'' [''article'', ''book'', ''inproceedings'', ''misc''],
         text_row ''key'' ''Citation key'' ''key2026'', text_row ''title'' ''Title'' [],
         text_row ''author'' ''Author'' [], text_row ''year'' ''Year'' ''2026'', text_row ''journal'' ''Journal'' [],
         text_row ''booktitle'' ''Book title'' [], text_row ''doi'' ''DOI'' [], text_row ''url'' ''URL'' []]
      else
        [select_row ''environment'' ''Environment''
           [''theorem'', ''lemma'', ''proposition'', ''corollary'', ''definition'', ''remark'', ''proof''],
         text_row ''title'' ''Optional title'' [], text_row ''label'' ''Label'' ''thm:'',
         area_row ''body'' ''Body'' ''Statement.''])"

section \<open>Controls\<close>

datatype bvalue = BText jsstr | BBool bool

record control =
  ct_name :: jsstr
  ct_choices :: "jsstr list option"
  ct_value :: bvalue

definition is_raster_or_pdf :: "jsstr \<Rightarrow> bool" where
  "is_raster_or_pdf p = (let q = js_lower p in
     js_endsWith q ''.png'' \<or> js_endsWith q ''.jpg'' \<or> js_endsWith q ''.jpeg'' \<or> js_endsWith q ''.pdf'')"

definition control_choices :: "pfile list \<Rightarrow> schema_row \<Rightarrow> jsstr list option" where
  "control_choices files r =
     (case sr_initial r of
        IChoices choices \<Rightarrow> Some choices
      | _ \<Rightarrow>
          let paths = map fl_path files
          in if sr_type r = ''asset'' then Some (filter is_raster_or_pdf paths)
             else if sr_type r = ''csv'' then Some (filter (\<lambda>p. js_endsWith p ''.csv'') paths)
             else if sr_type r = ''bib'' then Some (filter (\<lambda>p. js_endsWith p ''.bib'') paths)
             else None)"

text \<open>Choosing a value that is not among the options of a list leaves it empty.\<close>

definition select_value :: "jsstr list \<Rightarrow> jsstr \<Rightarrow> jsstr" where
  "select_value choices v = (if v \<in> set choices then v else [])"

definition make_control :: "(jsstr \<rightharpoonup> bvalue) \<Rightarrow> pfile list \<Rightarrow> schema_row \<Rightarrow> control" where
  "make_control defaults files r =
     (let choices = control_choices files r; given = defaults (sr_name r)
      in \<lparr>ct_name = sr_name r, ct_choices = choices,
          ct_value =
            (case sr_initial r of
               ICheck b \<Rightarrow> (case given of Some v \<Rightarrow> v | None \<Rightarrow> BBool b)
             | _ \<Rightarrow>
                 (case choices of
                    Some options \<Rightarrow>
                      (case given of Some (BText v) \<Rightarrow> BText (select_value options v)
                       | _ \<Rightarrow> BText (case options of [] \<Rightarrow> [] | c # _ \<Rightarrow> c))
                  | None \<Rightarrow>
                      (case given of Some v \<Rightarrow> v
                       | None \<Rightarrow> (case sr_initial r of IText i \<Rightarrow> BText i | _ \<Rightarrow> BText []))))\<rparr>)"

definition openBuilder :: "(jsstr \<rightharpoonup> bvalue) \<Rightarrow> pfile list \<Rightarrow> jsstr \<Rightarrow> control list" where
  "openBuilder defaults files kind = map (make_control defaults files) (builderSchemas kind)"

definition control_values :: "control list \<Rightarrow> jsstr \<rightharpoonup> bvalue" where
  "control_values controls = map_of (map (\<lambda>c. (ct_name c, ct_value c)) controls)"

definition text_value :: "(jsstr \<rightharpoonup> bvalue) \<Rightarrow> jsstr \<Rightarrow> jsstr option" where
  "text_value v n = (case v n of Some (BText s) \<Rightarrow> Some s | _ \<Rightarrow> None)"

definition bool_value :: "(jsstr \<rightharpoonup> bvalue) \<Rightarrow> jsstr \<Rightarrow> bool" where
  "bool_value v n = (case v n of Some (BBool b) \<Rightarrow> b | Some (BText s) \<Rightarrow> s \<noteq> [] | None \<Rightarrow> False)"

section \<open>Requirement and source\<close>

definition required_packages :: "jsstr \<Rightarrow> (jsstr \<rightharpoonup> bvalue) \<Rightarrow> jsstr list" where
  "required_packages kind values =
     (if kind = ''table'' then (if bool_value values ''booktabs'' then [''booktabs''] else [])
      else if kind = ''figure'' then [''graphicx'']
      else if kind = ''plot'' then [''pgfplots'']
      else if kind = ''algorithm'' then [''algorithm'', ''algpseudocode'']
      else if kind = ''code'' then [''listings'']
      else if kind = ''equation'' then
        (if text_value values ''type'' \<in> {Some ''aligned'', Some ''matrix'', Some ''cases''} then [''amsmath''] else [])
      else [])"

definition builderRequirement ::
  "jsstr list \<Rightarrow> jsstr list \<Rightarrow> jsstr \<Rightarrow> (jsstr \<rightharpoonup> bvalue) \<Rightarrow> requirement" where
  "builderRequirement packages environments kind values =
     (let environment = js_or (text_value values ''environment'') []
      in if kind = ''theorem'' \<and> environment \<noteq> ''proof'' \<and> environment \<notin> set environments
         then \<lparr>available = False, req_message = ''Environment not detected: '' @ environment\<rparr>
         else let missing = filter (\<lambda>n. \<not> available (packageRequirement packages n)) (required_packages kind values)
              in if missing \<noteq> []
                 then \<lparr>available = False, req_message = ''Requires package''
                        @ (if length missing > 1 then ''s'' else []) @ '': '' @ js_join '', '' missing\<rparr>
                 else \<lparr>available = True, req_message = ''Available''\<rparr>)"

definition builderSource :: "jsstr \<Rightarrow> (jsstr \<rightharpoonup> bvalue) \<Rightarrow> jsstr" where
  "builderSource kind v =
     (let t = text_value v
      in if kind = ''table'' then
           buildTable \<lparr>t_rows = t ''rows'', t_columns = t ''columns'',
             t_alignments = map js_trim (js_split CHR '','' (js_or (t ''alignments'') [])),
             t_header = bool_value v ''header'', t_booktabs = bool_value v ''booktabs'',
             t_caption = t ''caption'', t_label = t ''label'', t_placement = t ''placement''\<rparr>
         else if kind = ''figure'' then
           buildFigure \<lparr>f_asset = t ''asset'', f_width = t ''width'', f_customWidth = t ''customWidth'',
             f_placement = t ''placement'', f_caption = t ''caption'', f_label = t ''label''\<rparr>
         else if kind = ''equation'' then
           buildEquation \<lparr>q_type = t ''type'', q_body = t ''body'', q_rows = t ''rows'', q_columns = t ''columns'',
             q_delimiter = t ''delimiter'', q_label = t ''label''\<rparr>
         else if kind = ''plot'' then
           buildPlot \<lparr>p_asset = t ''asset'', p_x = t ''x'', p_y = t ''y'', p_type = t ''type'', p_title = t ''title'',
             p_xLabel = t ''xLabel'', p_yLabel = t ''yLabel'', p_legend = t ''legend'', p_caption = t ''caption'',
             p_label = t ''label'', p_width = t ''width''\<rparr>
         else if kind = ''algorithm'' then
           buildAlgorithm \<lparr>g_caption = t ''caption'', g_label = t ''label'', g_body = t ''body''\<rparr>
         else if kind = ''code'' then
           buildCodeListing \<lparr>l_language = t ''language'', l_caption = t ''caption'', l_label = t ''label'',
             l_file = t ''file'', l_code = t ''code''\<rparr>
         else if kind = ''bibliography'' then
           buildBibtexEntry \<lparr>b_type = t ''type'', b_key = t ''key'', b_title = t ''title'', b_author = t ''author'',
             b_year = t ''year'', b_journal = t ''journal'', b_booktitle = t ''booktitle'', b_doi = t ''doi'',
             b_url = t ''url''\<rparr>
         else
           buildTheorem \<lparr>h_environment = t ''environment'', h_title = t ''title'', h_label = t ''label'',
             h_body = t ''body''\<rparr>)"

text \<open>\<open>refresh\<close>: the note and the preview for the values at hand.\<close>

definition builder_refresh ::
  "jsstr list \<Rightarrow> jsstr list \<Rightarrow> jsstr \<Rightarrow> (jsstr \<rightharpoonup> bvalue) \<Rightarrow> jsstr \<times> jsstr \<times> jsstr" where
  "builder_refresh packages environments kind current =
     (let r = builderRequirement packages environments kind current
      in (if available r then [] else ''package-note'', req_message r, builderSource kind current))"

definition builder_insertion :: "jsstr \<Rightarrow> (jsstr \<rightharpoonup> bvalue) \<Rightarrow> jsstr \<times> jsstr" where
  "builder_insertion kind current =
     (builderSource kind current @ [newline], ''writer-'' @ kind @ ''-builder'')"

section \<open>Property\<close>

text \<open>
  A builder says it is available exactly when everything its source needs was detected in the
  paper: each required package, and for a theorem other than a proof its environment; otherwise the note
  is shown.
\<close>

theorem builderRequirement_complete:
  "available (builderRequirement packages environments kind v)
     \<longleftrightarrow> (set (required_packages kind v) \<subseteq> set packages
       \<and> (if kind = ''theorem'' then js_or (text_value v ''environment'') [] \<in> insert ''proof'' (set environments)
          else True))
   \<and> (fst (builder_refresh packages environments kind v) = []
       \<longleftrightarrow> available (builderRequirement packages environments kind v))"
proof -
  have missing: "filter (\<lambda>n. \<not> available (packageRequirement packages n)) ns \<noteq> []
      \<longleftrightarrow> \<not> set ns \<subseteq> set packages" for ns
    by (auto simp: filter_empty_conv packageRequirement_def split: if_splits)
  show ?thesis
    unfolding builder_refresh_def builderRequirement_def Let_def missing
    by (auto simp: required_packages_def)
qed

end
