(* ===== verification/WriterEditor.thy ===== *)
theory WriterEditor
  imports ReviewHelpers LatexBuilders
begin

text \<open>
  What \<^verbatim>\<open>services/server/frontend/writer.js\<close> does with the text of the open file: going to a location
  (\<open>openLocation\<close>), completing (\<open>latexCompletionSource\<close>), inserting (\<open>insertLatex\<close>), the marks of review
  threads (\<open>applyReviewHighlights\<close>) and applying a suggestion (\<open>writerAcceptSuggestion\<close>). The text is a
  string; lines are what CodeMirror cuts it into at line feeds, numbered from 1, with the offsets of their
  first character and of their end.
\<close>

section \<open>Lines\<close>

record doc_line =
  ln_from :: nat
  ln_to :: nat

fun lines_from :: "nat \<Rightarrow> jsstr list \<Rightarrow> doc_line list" where
  "lines_from k [] = []"
| "lines_from k (w # ws) = \<lparr>ln_from = k, ln_to = k + length w\<rparr> # lines_from (k + length w + 1) ws"

definition doc_lines :: "jsstr \<Rightarrow> doc_line list" where
  "doc_lines text = lines_from 0 (js_split newline text)"

lemma lines_from_bounds:
  "l \<in> set (lines_from k ws) \<Longrightarrow> k \<le> ln_from l \<and> ln_from l \<le> ln_to l \<and>
     ln_to l \<le> k + length (js_join [newline] ws)"
proof (induction k ws rule: lines_from.induct)
  case (2 k w ws)
  then show ?case by (cases ws) auto
qed simp

lemma length_lines_from [simp]: "length (lines_from k ws) = length ws"
  by (induction k ws rule: lines_from.induct) simp_all

lemma doc_lines_bounds:
  "l \<in> set (doc_lines text) \<Longrightarrow> ln_from l \<le> ln_to l \<and> ln_to l \<le> length text"
  using lines_from_bounds [of l 0 "js_split newline text"] by (simp add: doc_lines_def js_join_split)

lemma doc_lines_nonempty [simp]: "doc_lines text \<noteq> []"
  using length_lines_from [of 0 "js_split newline text"] by (metis doc_lines_def js_split_nonempty length_0_conv)

text \<open>\<open>lineAt\<close>: the number of the line of a position, and the column in it.\<close>

definition line_at :: "jsstr \<Rightarrow> nat \<Rightarrow> nat \<times> nat" where
  "line_at text pos =
     (let ls = filter (\<lambda>l. ln_from l \<le> pos) (doc_lines text) in (length ls, pos - ln_from (last ls)))"

section \<open>Going to a location\<close>

record location_range =
  start_line :: "nat option"
  start_column :: "nat option"
  end_line :: "nat option"
  end_column :: "nat option"

record location =
  loc_range :: "location_range option"
  loc_line :: "nat option"
  loc_column :: "nat option"

definition num_or :: "nat option \<Rightarrow> nat \<Rightarrow> nat" where
  "num_or v d = (case v of None \<Rightarrow> d | Some 0 \<Rightarrow> d | Some n \<Rightarrow> n)"

abbreviation range_field :: "location \<Rightarrow> (location_range \<Rightarrow> nat option) \<Rightarrow> nat option" where
  "range_field l f \<equiv> Option.bind (loc_range l) f"

definition location_line :: "location \<Rightarrow> nat \<Rightarrow> nat" where
  "location_line l line_count = min (max (num_or (range_field l start_line) (num_or (loc_line l) 1)) 1) line_count"

text \<open>The selection that \<open>openLocation\<close> dispatches: anchor and head.\<close>

definition location_selection :: "jsstr \<Rightarrow> location \<Rightarrow> nat \<times> nat" where
  "location_selection text l =
     (let lineNumber = location_line l (length (doc_lines text));
          line = doc_lines text ! (lineNumber - 1);
          from = min (ln_to line) (ln_from line + num_or (range_field l start_column) (num_or (loc_column l) 0));
          to = (if range_field l end_line = Some lineNumber
                then min (ln_to line) (ln_from line + num_or (range_field l end_column) 0) else from)
      in (from, max from to))"

section \<open>Completion\<close>

record bib_entry =
  bib_key :: jsstr
  bib_author :: "jsstr option"
  bib_title :: "jsstr option"

record label_entry =
  lab_key :: jsstr
  lab_path :: jsstr

record completion =
  co_label :: jsstr
  co_detail :: jsstr
  co_type :: jsstr
  co_template :: "jsstr option"

record completion_result =
  cr_from :: nat
  cr_options :: "completion list"

definition bib_detail :: "bib_entry \<Rightarrow> jsstr" where
  "bib_detail e = js_join middot (map the (filter truthy [bib_author e, bib_title e]))"

definition word_char :: "char \<Rightarrow> bool" where
  "word_char c = (let n = (of_char c :: nat) in
     65 \<le> n \<and> n \<le> 90 \<or> 97 \<le> n \<and> n \<le> 122 \<or> 48 \<le> n \<and> n \<le> 57 \<or> n = 95)"

text \<open>
  The leftmost match of a macro whose argument is still open at the end of the text; the result is the
  argument so far. \<open>cite_arg\<close> is \<^verbatim>\<open>\cite\w*{([^}]*)$\<close> at the start of the text, \<open>ref_arg\<close> the reference
  macros.
\<close>

definition open_arg :: "jsstr \<Rightarrow> jsstr option" where
  "open_arg s = (case s of [] \<Rightarrow> None
     | c # arg \<Rightarrow> if c = CHR ''{'' \<and> CHR ''}'' \<notin> set arg then Some arg else None)"

definition cite_arg :: "jsstr \<Rightarrow> jsstr option" where
  "cite_arg s = (if js_startsWith s (cs ''cite'') then open_arg (dropWhile word_char (drop 5 s)) else None)"

definition ref_arg :: "jsstr \<Rightarrow> jsstr option" where
  "ref_arg s =
     (if js_startsWith s (cs ''ref'') then open_arg (drop 4 s)
      else if js_startsWith s (cs ''eqref'') then open_arg (drop 6 s)
      else if js_startsWith s (cs ''autoref'') then open_arg (drop 8 s) else None)"

fun leftmost :: "(jsstr \<Rightarrow> jsstr option) \<Rightarrow> jsstr \<Rightarrow> jsstr option" where
  "leftmost m [] = m []"
| "leftmost m (c # s) = (case m (c # s) of Some a \<Rightarrow> Some a | None \<Rightarrow> leftmost m s)"

definition latexCommands :: "(jsstr \<times> jsstr) list" where
  "latexCommands =
     [(cs ''section'', cs ''section{${title}}''), (cs ''subsection'', cs ''subsection{${title}}''),
      (cs ''textbf'', cs ''textbf{${text}}''), (cs ''textit'', cs ''textit{${text}}''),
      (cs ''emph'', cs ''emph{${text}}''), (cs ''label'', cs ''label{${label}}''),
      (cs ''ref'', cs ''ref{${label}}''), (cs ''eqref'', cs ''eqref{${label}}''),
      (cs ''cite'', cs ''cite{${key}}''),
      (cs ''includegraphics'', cs ''includegraphics[width=${'' @ cs ''linewidth}]{${asset}}''),
      (cs ''frac'', cs ''frac{${numerator}}{${denominator}}''), (cs ''sqrt'', cs ''sqrt{${value}}'')]"

definition latexEnvironments :: "jsstr list" where
  "latexEnvironments = [''itemize'', ''enumerate'', ''equation'', ''align'', ''figure'', ''table'',
     ''tabular'', ''theorem'', ''proof'', ''algorithm'', ''lstlisting'']"

definition environment_template :: "jsstr \<Rightarrow> jsstr" where
  "environment_template e =
     cs ''begin{'' @ e @ ''}'' @ newline # ''  ${}'' @ newline # cs ''end{'' @ e @ ''}''"

definition snippetCompletion :: "jsstr \<Rightarrow> jsstr \<Rightarrow> completion" where
  "snippetCompletion template label =
     \<lparr>co_label = label, co_detail = [], co_type = ''keyword'', co_template = Some template\<rparr>"

definition variable_completion :: "jsstr \<Rightarrow> jsstr \<Rightarrow> completion" where
  "variable_completion label detail =
     \<lparr>co_label = label, co_detail = detail, co_type = ''variable'', co_template = None\<rparr>"

definition cite_fragment :: "jsstr \<Rightarrow> jsstr" where
  "cite_fragment arg = js_trimStart (last (js_split CHR '','' arg))"

text \<open>
  \<open>before\<close> is the text of the line up to the position; \<open>word_from\<close> is where CodeMirror's \<open>matchBefore\<close>
  finds the pattern of a control sequence, if it does.
\<close>

definition latexCompletionSource ::
  "bib_entry list \<Rightarrow> label_entry list \<Rightarrow> jsstr \<Rightarrow> nat \<Rightarrow> bool \<Rightarrow> nat option \<Rightarrow> completion_result option" where
  "latexCompletionSource bibliography labels before pos explicit word_from =
     (case leftmost cite_arg before of
        Some arg \<Rightarrow>
          Some \<lparr>cr_from = pos - length (cite_fragment arg),
                cr_options = map (\<lambda>e. variable_completion (bib_key e) (bib_detail e)) bibliography\<rparr>
      | None \<Rightarrow>
          (case leftmost ref_arg before of
             Some arg \<Rightarrow>
               Some \<lparr>cr_from = pos - length arg,
                     cr_options = map (\<lambda>l. variable_completion (lab_key l) (lab_path l)) labels\<rparr>
           | None \<Rightarrow>
               (case word_from of
                  None \<Rightarrow> None
                | Some from \<Rightarrow>
                    if from = pos \<and> \<not> explicit then None
                    else Some \<lparr>cr_from = from,
                               cr_options = map (\<lambda>(label, template). snippetCompletion template label) latexCommands
                                 @ map (\<lambda>e. snippetCompletion (environment_template e) (cs ''begin{'' @ e @ ''}''))
                                     latexEnvironments\<rparr>)))"

section \<open>Edits\<close>

text \<open>\<open>text.delete(from, n)\<close> and \<open>text.insert(from, source)\<close> of the shared text.\<close>

definition text_delete :: "nat \<Rightarrow> nat \<Rightarrow> jsstr \<Rightarrow> jsstr" where
  "text_delete from n text = take from text @ drop (from + n) text"

definition text_insert :: "nat \<Rightarrow> jsstr \<Rightarrow> jsstr \<Rightarrow> jsstr" where
  "text_insert from source text = take from text @ source @ drop from text"

record editor =
  ed_mounted :: bool
  ed_writable :: bool
  ed_text :: jsstr
  sel_from :: nat
  sel_to :: nat

text \<open>\<^const>\<open>None\<close> is the refusal with a notice, after which \<open>insertLatex\<close> returns \<open>false\<close>.\<close>

definition insertLatex :: "jsstr \<Rightarrow> editor \<Rightarrow> editor option" where
  "insertLatex source e =
     (if \<not> ed_mounted e \<or> \<not> ed_writable e then None
      else let t = (if sel_to e > sel_from e then text_delete (sel_from e) (sel_to e - sel_from e) (ed_text e)
                    else ed_text e)
           in Some (e\<lparr>ed_text := text_insert (sel_from e) source t\<rparr>))"

definition apply_suggestion :: "source_range \<Rightarrow> jsstr \<Rightarrow> jsstr \<Rightarrow> jsstr" where
  "apply_suggestion r replacement text =
     text_insert (range_from r) replacement (text_delete (range_from r) (range_to r - range_from r) text)"

lemma apply_suggestion_splice:
  "range_from r \<le> range_to r \<Longrightarrow> range_to r \<le> length text \<Longrightarrow>
     apply_suggestion r replacement text = take (range_from r) text @ replacement @ drop (range_to r) text"
  by (simp add: apply_suggestion_def text_insert_def text_delete_def)

section \<open>Open arguments\<close>

lemma leftmost_suffix:
  assumes "\<And>s a. m s = Some a \<Longrightarrow> \<exists>p. s = p @ a" "leftmost m s = Some a"
  shows "\<exists>p. s = p @ a"
  using assms(2)
proof (induction s)
  case Nil
  then show ?case using assms(1) [of "[]" a] by simp
next
  case (Cons c s)
  show ?case
  proof (cases "m (c # s)")
    case None
    with Cons obtain p where "s = p @ a" by auto
    then show ?thesis by (intro exI [of _ "c # p"]) simp
  next
    case (Some b)
    then show ?thesis using Cons.prems assms(1) by auto
  qed
qed

lemma leftmost_plain:
  assumes "\<And>s a. m s = Some a \<Longrightarrow> P a" "leftmost m s = Some a"
  shows "P a"
  using assms(2) by (induction s) (auto split: option.splits intro: assms(1))

lemma open_arg_suffix: "open_arg s = Some a \<Longrightarrow> (\<exists>p. s = p @ a) \<and> CHR ''}'' \<notin> set a"
  by (auto simp: open_arg_def split: list.splits if_splits)

lemma cite_arg_suffix: "cite_arg s = Some a \<Longrightarrow> (\<exists>p. s = p @ a) \<and> CHR ''}'' \<notin> set a"
proof -
  assume "cite_arg s = Some a"
  then have o: "open_arg (dropWhile word_char (drop 5 s)) = Some a"
    by (simp add: cite_arg_def split: if_splits)
  then obtain p where "dropWhile word_char (drop 5 s) = p @ a" using open_arg_suffix by blast
  then have "s = take 5 s @ takeWhile word_char (drop 5 s) @ p @ a"
    by (metis append_take_drop_id takeWhile_dropWhile_id)
  with open_arg_suffix [OF o] show ?thesis by (metis append.assoc)
qed

lemma drop_suffix: "drop n s = p @ a \<Longrightarrow> \<exists>q. s = q @ a"
  by (metis append_take_drop_id append.assoc)

lemma ref_arg_suffix: "ref_arg s = Some a \<Longrightarrow> (\<exists>p. s = p @ a) \<and> CHR ''}'' \<notin> set a"
  by (auto simp: ref_arg_def split: if_splits dest!: open_arg_suffix drop_suffix)

lemma dropWhile_suffix: "\<exists>p. s = p @ dropWhile Q s"
  by (metis takeWhile_dropWhile_id)

lemma js_split_last_suffix: "\<exists>p. s = p @ last (js_split d s)"
proof (induction s)
  case (Cons c s)
  obtain w ws where w: "js_split d s = w # ws" by (cases "js_split d s") auto
  from Cons obtain p where p: "s = p @ last (js_split d s)" by blast
  show ?case
  proof (cases "c \<noteq> d \<and> ws = []")
    case True
    with w show ?thesis using p js_join_split [of d s] by (auto intro: exI [of _ "[]"])
  next
    case False
    with w p have "last (js_split d (c # s)) = last (js_split d s)" by auto
    with p show ?thesis by (intro exI [of _ "c # p"]) simp
  qed
qed simp

lemma cite_fragment_suffix: "(\<exists>p. arg = p @ cite_fragment arg) \<and> CHR '','' \<notin> set (cite_fragment arg)"
proof
  obtain p where "arg = p @ last (js_split CHR '','' arg)" using js_split_last_suffix by blast
  moreover obtain q where "last (js_split CHR '','' arg) = q @ cite_fragment arg"
    unfolding cite_fragment_def js_trimStart_def using dropWhile_suffix by blast
  ultimately show "\<exists>p. arg = p @ cite_fragment arg" by (metis append.assoc)
  have "CHR '','' \<notin> set (last (js_split CHR '','' arg))"
    using js_split_no_sep last_in_set js_split_nonempty by metis
  then show "CHR '','' \<notin> set (cite_fragment arg)"
    unfolding cite_fragment_def js_trimStart_def using set_dropWhileD by metis
qed

section \<open>Properties\<close>

text \<open>
  C39. Going to a location always selects inside the document: on the line asked for, or on the nearest
  there is, with the anchor not after the head and neither outside the line.
\<close>

theorem openLocation_in_document:
  "let n = location_line l (length (doc_lines text)); line = doc_lines text ! (n - 1);
       (anchor, head) = location_selection text l
   in 1 \<le> n \<and> n \<le> length (doc_lines text) \<and> ln_from line \<le> anchor \<and> anchor \<le> head
      \<and> head \<le> ln_to line \<and> head \<le> length text"
proof -
  let ?n = "location_line l (length (doc_lines text))"
  have "length (doc_lines text) \<ge> 1" by (simp add: Suc_le_eq)
  then have n: "1 \<le> ?n" "?n \<le> length (doc_lines text)" by (simp_all add: location_line_def)
  then have "doc_lines text ! (?n - 1) \<in> set (doc_lines text)" by simp
  from doc_lines_bounds [OF this] n show ?thesis
    by (auto simp: location_selection_def Let_def)
qed

text \<open>
  Accepting a completion replaces exactly what was typed of the key: inside an open citation or
  reference the replaced text is the end of the line before the cursor, holds no closing brace, and in a
  citation no comma, so the keys already given are kept.
\<close>

theorem completion_replaces_fragment:
  assumes "latexCompletionSource bibs labels before (k + length before) explicit w = Some r"
    and "leftmost cite_arg before \<noteq> None \<or> leftmost ref_arg before \<noteq> None"
  shows "\<exists>p fragment. before = p @ fragment \<and> cr_from r = k + length p \<and> CHR ''}'' \<notin> set fragment
    \<and> (leftmost cite_arg before \<noteq> None \<longrightarrow> CHR '','' \<notin> set fragment)"
proof (cases "leftmost cite_arg before")
  case (Some arg)
  have arg: "(\<exists>p. before = p @ arg)" "CHR ''}'' \<notin> set arg"
    using leftmost_suffix [OF _ Some] leftmost_plain [OF _ Some, of "\<lambda>a. CHR ''}'' \<notin> set a"]
      cite_arg_suffix by blast+
  obtain p q where "before = p @ arg" "arg = q @ cite_fragment arg"
    using arg(1) cite_fragment_suffix [of arg] by blast
  then have b: "before = (p @ q) @ cite_fragment arg" by simp
  moreover have "cr_from r = k + length (p @ q)"
    using assms(1) Some arg_cong [OF b, of length] by (auto simp: latexCompletionSource_def)
  moreover have "CHR ''}'' \<notin> set (cite_fragment arg)"
    using arg(2) \<open>arg = q @ cite_fragment arg\<close> by (metis Un_iff set_append)
  ultimately show ?thesis using cite_fragment_suffix [of arg] by blast
next
  case None
  with assms(2) obtain arg where a: "leftmost ref_arg before = Some arg" by blast
  have "\<exists>p. before = p @ arg" "CHR ''}'' \<notin> set arg"
    using leftmost_suffix [OF _ a] leftmost_plain [OF _ a, of "\<lambda>a. CHR ''}'' \<notin> set a"]
      ref_arg_suffix by blast+
  moreover have "cr_from r = k + length before - length arg"
    using assms(1) None a by (auto simp: latexCompletionSource_def)
  ultimately show ?thesis using None by force
qed

theorem completion_replaces_fragment_witness:
  "\<exists>p fragment. cs ''cite{a2020, kn'' = p @ fragment \<and> 13 = 0 + length p"
proof -
  have "latexCompletionSource [] [] (cs ''cite{a2020, kn'') (0 + length (cs ''cite{a2020, kn'')) False None
      = Some \<lparr>cr_from = 13, cr_options = []\<rparr>"
    "leftmost cite_arg (cs ''cite{a2020, kn'') \<noteq> None"
    by (simp_all add: latexCompletionSource_def cite_arg_def js_startsWith_def open_arg_def
        word_char_def cite_fragment_def js_trimStart_def js_space_def)
  from completion_replaces_fragment [OF this(1) disjI1 [OF this(2)]] show ?thesis by auto
qed

text \<open>
  Inserting replaces the selection and nothing else, and is refused without a change when no file is
  open for writing.
\<close>

theorem insertLatex_splices:
  assumes "sel_from e \<le> sel_to e" "sel_to e \<le> length (ed_text e)"
  shows "insertLatex source e =
    (if ed_mounted e \<and> ed_writable e
     then Some (e\<lparr>ed_text := take (sel_from e) (ed_text e) @ source @ drop (sel_to e) (ed_text e)\<rparr>)
     else None)"
  using assms by (auto simp: insertLatex_def text_delete_def text_insert_def Let_def)

theorem insertLatex_splices_witness:
  "insertLatex ''X'' \<lparr>ed_mounted = True, ed_writable = True, ed_text = ''abcd'', sel_from = 1, sel_to = 3\<rparr>
     = Some \<lparr>ed_mounted = True, ed_writable = True, ed_text = ''aXd'', sel_from = 1, sel_to = 3\<rparr>"
  using insertLatex_splices [of "\<lparr>ed_mounted = True, ed_writable = True, ed_text = ''abcd'', sel_from = 1,
    sel_to = 3\<rparr>" "''X''"] by simp

end
