(* ===== verification/MathCatalog.thy ===== *)
theory MathCatalog
  imports JsString
begin

text \<open>
  The search of the mathematics palette, \<open>searchMathCatalog\<close> of
  \<^verbatim>\<open>services/server/frontend/math-catalog.mjs\<close>, with its two entry constructors. The catalogue itself
  is data in characters outside the model's code units and is the argument \<open>catalog\<close>.
\<close>

record math_item =
  m_category :: jsstr
  m_symbol :: jsstr
  m_latex :: jsstr
  m_description :: jsstr
  m_keywords :: jsstr

definition math_item_of :: "jsstr \<Rightarrow> jsstr \<Rightarrow> jsstr \<Rightarrow> jsstr \<Rightarrow> jsstr option \<Rightarrow> math_item" where
  "math_item_of category symbol latex description keywords =
     \<lparr>m_category = category, m_symbol = symbol, m_latex = latex, m_description = description,
      m_keywords = (case keywords of None \<Rightarrow> [] | Some k \<Rightarrow> k)\<rparr>"

definition commands ::
  "jsstr \<Rightarrow> (jsstr \<times> jsstr \<times> jsstr \<times> jsstr option) list \<Rightarrow> math_item list" where
  "commands category rows =
     map (\<lambda>(symbol, latex, description, keywords).
       math_item_of category symbol latex description keywords) rows"

text \<open>\<open>split(/\s+/).filter(Boolean)\<close>: the words of a text.\<close>

fun split_space :: "jsstr \<Rightarrow> jsstr list" where
  "split_space [] = [[]]"
| "split_space (c # s) =
     (if js_space c then [] # split_space s
      else (c # hd (split_space s)) # tl (split_space s))"

definition js_words :: "jsstr \<Rightarrow> jsstr list" where
  "js_words s = filter (\<lambda>w. w \<noteq> []) (split_space s)"

definition haystack :: "math_item \<Rightarrow> jsstr" where
  "haystack entry = js_lower (m_category entry @ '' '' @ m_symbol entry @ '' '' @ m_latex entry @ '' ''
     @ m_description entry @ '' '' @ m_keywords entry)"

definition searchMathCatalog :: "jsstr \<Rightarrow> math_item list \<Rightarrow> math_item list" where
  "searchMathCatalog query catalog =
     (let terms = js_words (js_lower (js_trim query))
      in if terms = [] then catalog
         else filter (\<lambda>entry. \<forall>t\<in>set terms. js_includes (haystack entry) t) catalog)"

section \<open>Words\<close>

lemma split_space_nonempty [simp]: "split_space s \<noteq> []"
  by (induction s) simp_all

lemma split_space_append:
  "js_space c \<Longrightarrow> split_space (s @ c # t) = split_space s @ split_space t"
  by (induction s) simp_all

lemma js_words_space: "js_space c \<Longrightarrow> js_words (s @ c # t) = js_words s @ js_words t"
  by (simp add: js_words_def split_space_append)

lemma js_words_Nil [simp]: "js_words [] = []"
  by (simp add: js_words_def)

lemma js_words_dropWhile: "js_words (dropWhile js_space s) = js_words s"
proof (induction s)
  case (Cons c s)
  then show ?case using js_words_space [of c "[]" s] by simp
qed simp

lemma js_words_dropWhile_end: "js_words (rev (dropWhile js_space (rev s))) = js_words s"
proof (induction s rule: rev_induct)
  case (snoc c s)
  then show ?case using js_words_space [of c s "[]"] by simp
qed simp

lemma js_words_trim: "js_words (js_trim s) = js_words s"
  by (simp add: js_trim_def js_words_dropWhile js_words_dropWhile_end)

lemma js_space_lower: "js_space (js_lower_char c) = js_space c"
proof -
  let ?n = "of_char c :: nat"
  show ?thesis
  proof (cases "65 \<le> ?n \<and> ?n \<le> 90 \<or> 192 \<le> ?n \<and> ?n \<le> 222 \<and> ?n \<noteq> 215")
    case True
    then have "?n + 32 < 256" by auto
    with True show ?thesis by (auto simp: js_lower_char_def js_space_def Let_def)
  qed (auto simp: js_lower_char_def Let_def)
qed

lemma js_lower_dropWhile: "js_lower (dropWhile js_space s) = dropWhile js_space (js_lower s)"
  by (induction s) (simp_all add: js_lower_def js_space_lower)

lemma js_lower_trim: "js_lower (js_trim s) = js_trim (js_lower s)"
proof -
  have rev: "js_lower (rev s) = rev (js_lower s)" for s by (simp add: js_lower_def rev_map)
  show ?thesis by (simp add: js_trim_def rev js_lower_dropWhile)
qed

text \<open>The search, without the special case of an empty query and without trimming.\<close>

lemma search_terms_filter:
  "searchMathCatalog query catalog =
     filter (\<lambda>e. \<forall>t\<in>set (js_words (js_lower query)). js_includes (haystack e) t) catalog"
  by (simp add: searchMathCatalog_def Let_def js_lower_trim js_words_trim)

section \<open>Property\<close>

text \<open>
  Searching for two queries joined by white space finds exactly what both find, in the catalogue's
  order: each word added narrows the result, and repeating a search changes nothing.
\<close>

theorem searchMathCatalog_narrows:
  "searchMathCatalog (p @ CHR '' '' # q) catalog = searchMathCatalog q (searchMathCatalog p catalog)
    \<and> searchMathCatalog p (searchMathCatalog p catalog) = searchMathCatalog p catalog"
proof -
  have "js_space (js_lower_char (CHR '' ''))" unfolding js_space_lower by (simp add: js_space_def)
  then show ?thesis
    by (auto simp: search_terms_filter js_lower_def js_words_space intro!: filter_cong)
qed

end
