(* ===== verification/WriterPalette.thy ===== *)
theory WriterPalette
  imports WriterBuilders WriterEditor MathCatalog QuickOpen
begin

text \<open>
  The palette dialog of \<^verbatim>\<open>services/server/frontend/writer.js\<close> (\<open>showPalette\<close>, \<open>quickOpen\<close>) as a state
  machine over its input and key events, and the palettes the page opens with it (\<open>openInsertMenu\<close>,
  \<open>openMathPalette\<close>, \<open>openCitationPalette\<close>, \<open>openReferencePalette\<close>, \<open>openSymbols\<close>, \<open>commandItems\<close>) as
  lists of items. What an item runs is a value of the type \<open>'a\<close>. The closure's variable \<open>selected\<close> may
  become -1, so it is an integer.
\<close>

section \<open>The dialog\<close>

record 'a palette_item =
  pi_label :: jsstr
  pi_detail :: "jsstr option"
  pi_search :: "jsstr option"
  pi_run :: 'a

record 'a palette_button =
  pb_label :: jsstr
  pb_title :: "jsstr option"
  pb_active :: bool
  pb_run :: 'a

record 'a palette =
  pl_title :: jsstr
  pl_items :: "'a palette_item list"
  pl_query :: jsstr
  pl_selected :: int
  pl_list :: "'a palette_button list"
  pl_open :: bool

definition item_haystack :: "'a palette_item \<Rightarrow> jsstr" where
  "item_haystack i = js_lower (pi_label i @ '' '' @ js_or (pi_detail i) [] @ '' '' @ js_or (pi_search i) [])"

definition visible_items :: "jsstr \<Rightarrow> 'a palette_item list \<Rightarrow> 'a palette_item list" where
  "visible_items query items = filter (\<lambda>i. js_includes (item_haystack i) (js_lower query)) items"

definition palette_button_of :: "int \<Rightarrow> nat \<times> 'a palette_item \<Rightarrow> 'a palette_button" where
  "palette_button_of selected ni =
     (case ni of (index, i) \<Rightarrow>
        \<lparr>pb_label = pi_label i, pb_title = (if truthy (pi_detail i) then pi_detail i else None),
         pb_active = (int index = selected), pb_run = pi_run i\<rparr>)"

definition palette_render :: "'a palette \<Rightarrow> 'a palette" where
  "palette_render p =
     (let visible = visible_items (pl_query p) (pl_items p);
          selected = min (pl_selected p) (max (int (length visible) - 1) 0)
      in p\<lparr>pl_selected := selected, pl_list := map (palette_button_of selected) (enumerate 0 visible)\<rparr>)"

definition showPalette :: "jsstr \<Rightarrow> 'a palette_item list \<Rightarrow> 'a palette" where
  "showPalette title items =
     (palette_render \<lparr>pl_title = title, pl_items = items, pl_query = [], pl_selected = 0, pl_list = [],
        pl_open = True\<rparr>)"

definition closeDialog :: "'a palette \<Rightarrow> 'a palette" where
  "closeDialog p = p\<lparr>pl_open := False\<rparr>"

datatype palette_event = Input jsstr | ArrowDown | ArrowUp | Enter | Escape | ClickItem nat

text \<open>Clicking a button closes the dialog and runs its item; the result is what runs.\<close>

definition palette_click :: "int \<Rightarrow> 'a palette \<Rightarrow> 'a palette \<times> 'a option" where
  "palette_click k p =
     (if 0 \<le> k \<and> nat k < length (pl_list p)
      then (closeDialog p, Some (pb_run (pl_list p ! nat k))) else (p, None))"

text \<open>\<open>onkeydown\<close>, the same for every palette.\<close>

fun palette_key :: "palette_event \<Rightarrow> 'a palette \<Rightarrow> 'a palette \<times> 'a option" where
  "palette_key ArrowDown p =
     (palette_render (p\<lparr>pl_selected := min (pl_selected p + 1) (int (length (pl_list p)) - 1)\<rparr>), None)"
| "palette_key ArrowUp p = (palette_render (p\<lparr>pl_selected := max (pl_selected p - 1) 0\<rparr>), None)"
| "palette_key Enter p = palette_click (pl_selected p) p"
| "palette_key Escape p = (closeDialog p, None)"
| "palette_key (ClickItem k) p = palette_click (int k) p"
| "palette_key (Input q) p = (p, None)"

definition palette_event :: "palette_event \<Rightarrow> 'a palette \<Rightarrow> 'a palette \<times> 'a option" where
  "palette_event e p =
     (case e of Input q \<Rightarrow> (palette_render (p\<lparr>pl_query := q, pl_selected := 0\<rparr>), None)
      | _ \<Rightarrow> palette_key e p)"

section \<open>Quick Open\<close>

type_synonym quick_file = "pfile qfile"

definition quick_item :: "quick_file \<Rightarrow> quick_file palette_item" where
  "quick_item f = \<lparr>pi_label = qf_path f, pi_detail = None, pi_search = None, pi_run = f\<rparr>"

definition quickOpen :: "(jsstr \<Rightarrow> jsstr \<Rightarrow> int) \<Rightarrow> quick_file list \<Rightarrow> quick_file palette" where
  "quickOpen loc files = showPalette ''Quick Open'' (map quick_item (fuzzyRankFiles loc files []))"

text \<open>Quick Open replaces \<open>oninput\<close>: the ranked files are listed, and \<open>selected\<close> is not touched.\<close>

definition quick_event ::
  "(jsstr \<Rightarrow> jsstr \<Rightarrow> int) \<Rightarrow> quick_file list \<Rightarrow> palette_event \<Rightarrow> quick_file palette
     \<Rightarrow> quick_file palette \<times> quick_file option" where
  "quick_event loc files e p =
     (case e of
        Input q \<Rightarrow>
          (p\<lparr>pl_query := q,
             pl_list := map (\<lambda>f. \<lparr>pb_label = qf_path f, pb_title = None, pb_active = False, pb_run = f\<rparr>)
               (fuzzyRankFiles loc files q)\<rparr>, None)
      | _ \<Rightarrow> palette_key e p)"

section \<open>The palettes of the page\<close>

datatype writer_action =
    OpenBuilder jsstr
  | OpenCitationPalette
  | OpenReferencePalette
  | OpenMathPalette
  | InsertLatex jsstr jsstr
  | ClickControl jsstr
  | ManualCompile
  | RunStructural bool
  | OpenDrawer jsstr
  | OpenDocumentDetails
  | ShowInPdf

definition plain_item :: "jsstr \<Rightarrow> writer_action \<Rightarrow> writer_action palette_item" where
  "plain_item label run = \<lparr>pi_label = label, pi_detail = None, pi_search = None, pi_run = run\<rparr>"

definition capitalize :: "jsstr \<Rightarrow> jsstr" where
  "capitalize s = (case s of [] \<Rightarrow> []
     | c # r \<Rightarrow> (let n = (of_char c :: nat) in if 97 \<le> n \<and> n \<le> 122 then char_of (n - 32) else c) # r)"

definition openInsertMenu :: "writer_action palette" where
  "openInsertMenu = showPalette ''Insert LaTeX''
     (map (\<lambda>kind. plain_item (capitalize kind @ '' Builder'') (OpenBuilder kind))
        [''table'', ''figure'', ''plot'', ''algorithm'', ''code'', ''bibliography'', ''theorem'']
      @ [plain_item ''Insert Citation'' OpenCitationPalette, plain_item ''Insert Reference'' OpenReferencePalette]
      @ map (\<lambda>(name, source). plain_item (name @ '' snippet'') (InsertLatex (source @ [newline]) ''writer-snippet''))
          commonSnippets)"

definition openMathPalette :: "math_item list \<Rightarrow> writer_action palette" where
  "openMathPalette catalog = showPalette ''Math''
     (map (\<lambda>e. \<lparr>pi_label = m_symbol e @ ''  '' @ m_latex e,
                pi_detail = Some (m_category e @ middot @ m_description e),
                pi_search = Some (m_category e @ '' '' @ m_description e @ '' '' @ m_keywords e),
                pi_run = InsertLatex (m_latex e) ''writer-math-palette''\<rparr>) catalog)"

definition openCitationPalette :: "bib_entry list \<Rightarrow> writer_action palette" where
  "openCitationPalette bibliography = showPalette ''Insert Citation''
     (map (\<lambda>e. \<lparr>pi_label = bib_key e, pi_detail = Some (bib_detail e), pi_search = None,
                pi_run = InsertLatex (cs ''cite{'' @ bib_key e @ ''}'') ''writer-citation''\<rparr>) bibliography)"

definition openReferencePalette :: "label_entry list \<Rightarrow> writer_action palette" where
  "openReferencePalette labels = showPalette ''Insert Reference''
     (map (\<lambda>l. \<lparr>pi_label = lab_key l, pi_detail = Some (lab_path l), pi_search = None,
                pi_run = InsertLatex (cs ''ref{'' @ lab_key l @ ''}'') ''writer-reference''\<rparr>) labels)"

definition openSymbols :: "writer_action palette" where
  "openSymbols = showPalette ''Symbols''
     (concat (map (\<lambda>(category, vs).
        map (\<lambda>v. plain_item (category @ middot @ v) (InsertLatex v ''writer-symbol'')) vs) symbols))"

definition commandItems :: "paper option \<Rightarrow> bool \<Rightarrow> (jsstr \<times> writer_action) list" where
  "commandItems current sendReview_disabled =
     [(''New File'', ClickControl ''newFile''), (''Rename File'', ClickControl ''renameFile''),
      (''Delete File'', ClickControl ''deleteFile''), (''Set Main'', ClickControl ''setMain''),
      (''Save'', ClickControl ''saveFile''), (''Compile'', ManualCompile),
      (''Structural Undo'', RunStructural False), (''Structural Redo'', RunStructural True),
      (''Open Table Builder'', OpenBuilder ''table''), (''Open Figure Builder'', OpenBuilder ''figure''),
      (''Open Math Palette'', OpenMathPalette), (''Open Equation Builder'', OpenBuilder ''equation''),
      (''Open Plot Builder'', OpenBuilder ''plot''), (''Open Problems'', OpenDrawer ''problems''),
      (''Open History'', OpenDrawer ''history''), (''Open Comments'', OpenDrawer ''reviews''),
      (''Document details'', OpenDocumentDetails), (''Insert Citation'', OpenCitationPalette),
      (''Insert Reference'', OpenReferencePalette), (''Show in PDF'', ShowInPdf)]
     @ (if (case current of None \<Rightarrow> True | Some p \<Rightarrow> paper_kind p \<noteq> ''team'' \<or> is_team_leader p)
        then [(''Create Checkpoint'', ClickControl ''createCheckpoint'')] else [])
     @ (if (case current of None \<Rightarrow> False | Some p \<Rightarrow> is_team_leader p) \<and> \<not> sendReview_disabled
        then [(''Send for Review'', ClickControl ''sendReview'')] else [])"

section \<open>What the list shows\<close>

text \<open>
  In an ordinary palette the list is always the visible items under the query, and the selection is
  within it unless it is empty.
\<close>

definition palette_ok :: "'a palette \<Rightarrow> bool" where
  "palette_ok p \<longleftrightarrow>
     (let visible = visible_items (pl_query p) (pl_items p)
      in pl_list p = map (palette_button_of (pl_selected p)) (enumerate 0 visible)
         \<and> (visible \<noteq> [] \<longrightarrow> 0 \<le> pl_selected p \<and> pl_selected p < int (length visible)))"

lemma palette_ok_render:
  "(visible_items (pl_query p) (pl_items p) \<noteq> [] \<Longrightarrow> 0 \<le> pl_selected p) \<Longrightarrow> palette_ok (palette_render p)"
  by (auto simp: palette_ok_def palette_render_def Let_def)

lemma palette_ok_show: "palette_ok (showPalette title items)"
  unfolding showPalette_def by (rule palette_ok_render) simp

lemma palette_ok_close: "palette_ok p \<Longrightarrow> palette_ok (closeDialog p)"
  by (simp add: palette_ok_def closeDialog_def)

lemma palette_ok_event:
  assumes "palette_ok p"
  shows "palette_ok (fst (palette_event e p))"
proof -
  have click: "palette_ok (fst (palette_click k p))" for k
    using assms by (simp add: palette_click_def palette_ok_close)
  have "0 \<le> pl_selected p" "pl_list p \<noteq> []" if "visible_items (pl_query p) (pl_items p) \<noteq> []"
    using that assms by (auto simp: palette_ok_def Let_def enumerate_eq_zip)
  then have "palette_ok (palette_render
      (p\<lparr>pl_selected := min (pl_selected p + 1) (int (length (pl_list p)) - 1)\<rparr>))"
    by (intro palette_ok_render) (simp add: Suc_le_eq)
  then show ?thesis
    using click assms
    by (cases e) (simp_all add: palette_event_def palette_ok_render palette_ok_close)
qed

definition palette_run :: "palette_event list \<Rightarrow> 'a palette \<Rightarrow> 'a palette" where
  "palette_run es p = foldl (\<lambda>p e. fst (palette_event e p)) p es"

lemma palette_ok_run: "palette_ok p \<Longrightarrow> palette_ok (palette_run es p)"
  by (induction es arbitrary: p) (simp_all add: palette_run_def palette_ok_event)

lemma palette_items_run: "pl_items (palette_run es p) = pl_items p"
proof (induction es arbitrary: p)
  case (Cons e es)
  have "pl_items (fst (palette_event e p)) = pl_items p"
    by (cases e) (simp_all add: palette_event_def palette_render_def palette_click_def closeDialog_def Let_def)
  with Cons show ?case by (simp add: palette_run_def)
qed (simp add: palette_run_def)

section \<open>Properties\<close>

text \<open>
  C40. Enter runs what is highlighted: after any sequence of typing and keys in a palette, Enter runs the
  one item shown as current, which is among the items that match the query; with no match it runs
  nothing.
\<close>

theorem palette_enter_highlighted:
  "let p = palette_run es (showPalette title items); shown = visible_items (pl_query p) items
   in case snd (palette_event Enter p) of
        None \<Rightarrow> shown = []
      | Some r \<Rightarrow> r = pi_run (shown ! nat (pl_selected p)) \<and> nat (pl_selected p) < length shown
          \<and> map pb_active (pl_list p) = map (\<lambda>j. j = nat (pl_selected p)) [0..<length shown]"
proof -
  let ?p = "palette_run es (showPalette title items)"
  let ?shown = "visible_items (pl_query ?p) items"
  have "pl_items ?p = items"
    by (simp add: palette_items_run) (simp add: showPalette_def palette_render_def Let_def)
  with palette_ok_run [OF palette_ok_show, of es title items]
  have l: "pl_list ?p = map (palette_button_of (pl_selected ?p)) (enumerate 0 ?shown)"
    and sel: "?shown \<noteq> [] \<Longrightarrow> 0 \<le> pl_selected ?p \<and> pl_selected ?p < int (length ?shown)"
    by (simp_all add: palette_ok_def Let_def)
  have len: "length (pl_list ?p) = length ?shown" by (simp add: l)
  have nth: "pl_list ?p ! j = palette_button_of (pl_selected ?p) (j, ?shown ! j)" if "j < length ?shown" for j
    using that by (simp add: l nth_enumerate_eq)
  show ?thesis
  proof (cases "?shown = []")
    case True
    then show ?thesis using len by (simp add: palette_event_def palette_click_def Let_def)
  next
    case False
    with sel have k: "0 \<le> pl_selected ?p" "nat (pl_selected ?p) < length ?shown" by auto
    then have "snd (palette_event Enter ?p) = Some (pi_run (?shown ! nat (pl_selected ?p)))"
      by (simp add: palette_event_def palette_click_def len nth) (simp add: palette_button_of_def)
    moreover have "map pb_active (pl_list ?p) = map (\<lambda>j. j = nat (pl_selected ?p)) [0..<length ?shown]"
      using k by (intro nth_equalityI) (auto simp: len nth palette_button_of_def)
    ultimately show ?thesis using k by (simp add: Let_def)
  qed
qed

text \<open>
  Typing in Quick Open and pressing Enter opens the best-ranked file, when no arrow key was used.
\<close>

theorem quickOpen_enter_best:
  "snd (quick_event loc files Enter
     (foldl (\<lambda>p q. fst (quick_event loc files (Input q) p)) (quickOpen loc files) (qs @ [q])))
   = (case fuzzyRankFiles loc files q of [] \<Rightarrow> None | f # _ \<Rightarrow> Some f)"
proof -
  have "pl_selected (quickOpen loc files) = 0"
    by (simp add: quickOpen_def showPalette_def palette_render_def Let_def)
  then have "pl_selected (foldl (\<lambda>p q. fst (quick_event loc files (Input q) p)) (quickOpen loc files) qs) = 0"
    by (induction qs rule: rev_induct) (simp_all add: quick_event_def)
  then show ?thesis
    by (cases "fuzzyRankFiles loc files q") (simp_all add: quick_event_def palette_click_def)
qed

text \<open>
  An arrow key in Quick Open discards the ranking: the list becomes the files whose path contains
  the query literally, so a file found by its letters alone disappears.
\<close>

theorem quickOpen_arrow_discards_ranking:
  "map pb_run (pl_list (fst (quick_event loc files ArrowDown (fst (quick_event loc files (Input q) (quickOpen loc files))))))
   = filter (\<lambda>f. js_includes (js_lower (qf_path f @ ''  '')) (js_lower q)) (fuzzyRankFiles loc files [])"
proof -
  have runs: "map (\<lambda>x. pb_run (palette_button_of k x)) (enumerate n is) = map pi_run is"
    for k n and "is" :: "quick_file palette_item list"
    by (induction "is" arbitrary: n) (simp_all add: palette_button_of_def)
  have "pl_items (quickOpen loc files) = map quick_item (fuzzyRankFiles loc files [])"
    by (simp add: quickOpen_def showPalette_def palette_render_def Let_def)
  then show ?thesis
    by (simp add: quick_event_def palette_render_def Let_def runs visible_items_def filter_map comp_def
        item_haystack_def quick_item_def)
qed

end
