(* ===== verification/MathEntries.thy ===== *)
theory MathEntries
  imports WriterPalette
begin

text \<open>
  The catalogue of the mathematics palette, \<open>MATH_CATALOG\<close> of
  \<^verbatim>\<open>services/server/frontend/math-catalog.mjs\<close>, row by row and in its order. A symbol outside the
  model's code units (which are below 256) is \<open>glyph us\<close>, for its UTF-16 code units \<open>us\<close> as the file has them;
  the parameter \<open>glyph\<close> says which text stands for it, and what is proved holds whatever it says. A backslash that
  JavaScript drops from a literal is not in the model's literal either: the \<^verbatim>\<open>split\<close> template reads
  \<^verbatim>\<open>&quad\<close>.
\<close>

section \<open>The rows\<close>

definition math_basic :: "(nat list \<Rightarrow> jsstr) \<Rightarrow> math_item list" where
  "math_basic glyph = commands ''Basic''
    [([CHR 0xB1], cs ''pm'', ''plus or minus'', None), (glyph [8723], cs ''mp'', ''minus or plus'', None),
     (glyph [8734], cs ''infty'', ''infinity'', None),
     (glyph [8901], cs ''cdot'', ''centered multiplication dot'', None),
     ([CHR 0xD7], cs ''times'', ''multiplication times'', None),
     ([CHR 0xF7], cs ''div'', ''division'', None)]"

definition math_greek :: "(nat list \<Rightarrow> jsstr) \<Rightarrow> math_item list" where
  "math_greek glyph = commands ''Greek lowercase''
    [(glyph [945], cs ''alpha'', ''alpha'', None), (glyph [946], cs ''beta'', ''beta'', None),
     (glyph [947], cs ''gamma'', ''gamma'', None), (glyph [948], cs ''delta'', ''delta'', None),
     (glyph [949], cs ''epsilon'', ''epsilon'', None),
     (glyph [1013], cs ''varepsilon'', ''variant epsilon'', None),
     (glyph [950], cs ''zeta'', ''zeta'', None), (glyph [951], cs ''eta'', ''eta'', None),
     (glyph [952], cs ''theta'', ''theta'', None), (glyph [977], cs ''vartheta'', ''variant theta'', None),
     (glyph [953], cs ''iota'', ''iota'', None), (glyph [954], cs ''kappa'', ''kappa'', None),
     (glyph [955], cs ''lambda'', ''lambda'', None), (glyph [956], cs ''mu'', ''mu'', None),
     (glyph [957], cs ''nu'', ''nu'', None), (glyph [958], cs ''xi'', ''xi'', None),
     (glyph [960], cs ''pi'', ''pi'', None), (glyph [961], cs ''rho'', ''rho'', None),
     (glyph [963], cs ''sigma'', ''sigma'', None), (glyph [964], cs ''tau'', ''tau'', None),
     (glyph [965], cs ''upsilon'', ''upsilon'', None), (glyph [966], cs ''phi'', ''phi'', None),
     (glyph [981], cs ''varphi'', ''variant phi'', None), (glyph [967], cs ''chi'', ''chi'', None),
     (glyph [968], cs ''psi'', ''psi'', None), (glyph [969], cs ''omega'', ''omega'', None)]"

definition math_greek_upper :: "(nat list \<Rightarrow> jsstr) \<Rightarrow> math_item list" where
  "math_greek_upper glyph = commands ''Greek uppercase''
    [(glyph [915], cs ''Gamma'', ''capital gamma'', None),
     (glyph [916], cs ''Delta'', ''capital delta'', None),
     (glyph [920], cs ''Theta'', ''capital theta'', None),
     (glyph [923], cs ''Lambda'', ''capital lambda'', None), (glyph [926], cs ''Xi'', ''capital xi'', None),
     (glyph [928], cs ''Pi'', ''capital pi'', None), (glyph [931], cs ''Sigma'', ''capital sigma'', None),
     (glyph [933], cs ''Upsilon'', ''capital upsilon'', None),
     (glyph [934], cs ''Phi'', ''capital phi'', None), (glyph [936], cs ''Psi'', ''capital psi'', None),
     (glyph [937], cs ''Omega'', ''capital omega'', None)]"

definition math_relations :: "(nat list \<Rightarrow> jsstr) \<Rightarrow> math_item list" where
  "math_relations glyph = commands ''Relations''
    [(''='', ''='', ''equals'', None), (glyph [8800], cs ''neq'', ''not equal'', None),
     (''<'', ''<'', ''less than'', None), (''>'', ''>'', ''greater than'', None),
     (glyph [8804], cs ''leq'', ''less than or equal'', Some ''less equal''),
     (glyph [8805], cs ''geq'', ''greater than or equal'', Some ''greater equal''),
     (glyph [8776], cs ''approx'', ''approximately equal'', None),
     (glyph [8801], cs ''equiv'', ''equivalent'', None), (glyph [8764], cs ''sim'', ''similar'', None),
     (glyph [8773], cs ''cong'', ''congruent'', None),
     (glyph [8733], cs ''propto'', ''proportional to'', None),
     (glyph [8869], cs ''perp'', ''perpendicular'', None),
     (glyph [8741], cs ''parallel'', ''parallel'', None), (glyph [8739], cs ''mid'', ''divides'', None),
     (glyph [8740], cs ''nmid'', ''does not divide'', None)]"

definition math_operators :: "(nat list \<Rightarrow> jsstr) \<Rightarrow> math_item list" where
  "math_operators glyph = commands ''Binary operators''
    [(''+'', ''+'', ''plus'', None), (glyph [8722], ''-'', ''minus'', None),
     (glyph [8727], cs ''ast'', ''asterisk product'', None),
     (glyph [8728], cs ''circ'', ''composition'', None), (glyph [8853], cs ''oplus'', ''direct sum'', None),
     (glyph [8855], cs ''otimes'', ''tensor product'', None),
     (glyph [8743], cs ''wedge'', ''wedge and'', None), (glyph [8744], cs ''vee'', ''vee or'', None),
     (glyph [8745], cs ''cap'', ''intersection'', None), (glyph [8746], cs ''cup'', ''union'', None),
     (glyph [8726], cs ''setminus'', ''set difference'', None)]"

definition math_arrows :: "(nat list \<Rightarrow> jsstr) \<Rightarrow> math_item list" where
  "math_arrows glyph = commands ''Arrows''
    [(glyph [8592], cs ''leftarrow'', ''left arrow'', None),
     (glyph [8594], cs ''rightarrow'', ''right arrow'', None),
     (glyph [8596], cs ''leftrightarrow'', ''left right arrow'', None),
     (glyph [8656], cs ''Leftarrow'', ''left implication'', None),
     (glyph [8658], cs ''Rightarrow'', ''right implication implies'', None),
     (glyph [8660], cs ''Leftrightarrow'', ''if and only if'', None),
     (glyph [8614], cs ''mapsto'', ''maps to'', None),
     (glyph [8599], cs ''nearrow'', ''north east arrow'', None),
     (glyph [8600], cs ''searrow'', ''south east arrow'', None),
     (glyph [10230], cs ''longrightarrow'', ''long right arrow'', None)]"

definition math_sets :: "(nat list \<Rightarrow> jsstr) \<Rightarrow> math_item list" where
  "math_sets glyph = commands ''Sets''
    [(glyph [8712], cs ''in'', ''element of'', None),
     (glyph [8713], cs ''notin'', ''not an element of'', None),
     (glyph [8715], cs ''ni'', ''contains element'', None),
     (glyph [8834], cs ''subset'', ''proper subset'', None),
     (glyph [8838], cs ''subseteq'', ''subset or equal'', None),
     (glyph [8835], cs ''supset'', ''proper superset'', None),
     (glyph [8839], cs ''supseteq'', ''superset or equal'', None),
     (glyph [8709], cs ''emptyset'', ''empty set'', None),
     (glyph [8469], cs ''mathbb{N}'', ''natural numbers'', None),
     (glyph [8484], cs ''mathbb{Z}'', ''integers'', None),
     (glyph [8474], cs ''mathbb{Q}'', ''rational numbers'', None),
     (glyph [8477], cs ''mathbb{R}'', ''real numbers'', None),
     (glyph [8450], cs ''mathbb{C}'', ''complex numbers'', None)]"

definition math_logic :: "(nat list \<Rightarrow> jsstr) \<Rightarrow> math_item list" where
  "math_logic glyph = commands ''Logic''
    [([CHR 0xAC], cs ''neg'', ''logical not'', None),
     (glyph [8704], cs ''forall'', ''for all universal'', None),
     (glyph [8707], cs ''exists'', ''there exists existential'', None),
     (glyph [8708], cs ''nexists'', ''does not exist'', None),
     (glyph [8756], cs ''therefore'', ''therefore'', None),
     (glyph [8757], cs ''because'', ''because'', None),
     (glyph [8866], cs ''vdash'', ''proves entails'', None),
     (glyph [8872], cs ''models'', ''models satisfies'', None),
     (glyph [8868], cs ''top'', ''true top'', None), (glyph [8869], cs ''bot'', ''false bottom'', None)]"

definition math_calculus :: "(nat list \<Rightarrow> jsstr) \<Rightarrow> math_item list" where
  "math_calculus glyph = commands ''Calculus''
    [(glyph [8747], cs ''int'', ''integral'', None),
     (glyph [8748], cs ''iint'', ''double integral multiple integral'', None),
     (glyph [8749], cs ''iiint'', ''triple integral multiple integral'', None),
     (glyph [8750], cs ''oint'', ''contour integral'', None),
     (glyph [8706], cs ''partial'', ''partial derivative'', None),
     (glyph [8711], cs ''nabla'', ''nabla gradient'', None),
     (glyph [8710], cs ''Delta'', ''Laplacian delta'', None),
     (''d'', cs ''mathrm{d}'', ''differential'', None)]"

definition math_big_operators :: "(nat list \<Rightarrow> jsstr) \<Rightarrow> math_item list" where
  "math_big_operators glyph = commands ''Big operators''
    [(glyph [8721], cs ''sum'', ''sum summation'', None), (glyph [8719], cs ''prod'', ''product'', None),
     (glyph [8720], cs ''coprod'', ''coproduct'', None), (glyph [8899], cs ''bigcup'', ''big union'', None),
     (glyph [8898], cs ''bigcap'', ''big intersection'', None),
     (glyph [10753], cs ''bigoplus'', ''big direct sum'', None),
     (glyph [10754], cs ''bigotimes'', ''big tensor product'', None)]"

definition math_delimiters :: "(nat list \<Rightarrow> jsstr) \<Rightarrow> math_item list" where
  "math_delimiters glyph = commands ''Delimiters''
    [(''( )'', cs ''left(  '' @ cs ''right)'', ''scalable parentheses'', None),
     (''[ ]'', cs ''left[  '' @ cs ''right]'', ''scalable brackets'', None),
     (''{ }'', cs ''left'' @ cs ''{  '' @ cs ''right'' @ cs ''}'', ''scalable braces'', None),
     (''| |'', cs ''left|  '' @ cs ''right|'', ''absolute value'', None),
     (glyph [8214, 32, 8214], cs ''left'' @ cs ''|  '' @ cs ''right'' @ cs ''|'', ''norm'', None),
     (glyph [8968, 32, 8969], cs ''left'' @ cs ''lceil  '' @ cs ''right'' @ cs ''rceil'', ''ceiling'', None),
     (glyph [8970, 32, 8971], cs ''left'' @ cs ''lfloor  '' @ cs ''right'' @ cs ''rfloor'', ''floor'', None),
     (glyph [10216, 32, 10217], cs ''langle  '' @ cs ''rangle'', ''angle brackets inner product'', None)]"

definition math_accents :: "(nat list \<Rightarrow> jsstr) \<Rightarrow> math_item list" where
  "math_accents glyph = commands ''Accents''
    [(glyph [120, 770], cs ''hat{x}'', ''hat accent'', None),
     (glyph [120, 771], cs ''tilde{x}'', ''tilde accent'', None),
     (glyph [120, 772], cs ''bar{x}'', ''bar accent'', None),
     (glyph [120, 8407], cs ''vec{x}'', ''vector arrow accent'', None),
     (glyph [120, 775], cs ''dot{x}'', ''dot accent'', None),
     (glyph [120, 776], cs ''ddot{x}'', ''double dot accent'', None),
     (glyph [97, 98, 99, 773], cs ''overline{abc}'', ''overline'', None),
     (glyph [97, 98, 99, 818], cs ''underline{abc}'', ''underline'', None)]"

definition math_functions :: "math_item list" where
  "math_functions = commands ''Functions''
    [(''sin'', cs ''sin'', ''sine'', None), (''cos'', cs ''cos'', ''cosine'', None),
     (''tan'', cs ''tan'', ''tangent'', None), (''arcsin'', cs ''arcsin'', ''inverse sine'', None),
     (''log'', cs ''log'', ''logarithm'', None), (''ln'', cs ''ln'', ''natural logarithm'', None),
     (''exp'', cs ''exp'', ''exponential'', None), (''min'', cs ''min'', ''minimum'', None),
     (''max'', cs ''max'', ''maximum'', None), (''det'', cs ''det'', ''determinant'', None),
     (''gcd'', cs ''gcd'', ''greatest common divisor'', None)]"

definition math_helpers :: "(nat list \<Rightarrow> jsstr) \<Rightarrow> math_item list" where
  "math_helpers glyph = commands ''Blackboard / calligraphic helpers''
    [(glyph [55349, 56632], cs ''mathbb{A}'', ''blackboard bold'', None),
     (glyph [55349, 56476], cs ''mathcal{A}'', ''calligraphic'', None),
     (glyph [55349, 56320], cs ''mathbf{A}'', ''bold math'', None),
     (glyph [55349, 56580], cs ''mathfrak{A}'', ''Fraktur'', None),
     (''A'', cs ''mathrm{A}'', ''upright roman math'', None),
     (''A'', cs ''mathsf{A}'', ''sans serif math'', None)]"

text \<open>The row that the array of matrix environments is mapped to.\<close>

definition matrix_template :: "jsstr \<Rightarrow> jsstr \<times> jsstr \<times> jsstr \<times> jsstr option" where
  "matrix_template name =
     (name,
      cs ''begin{'' @ name @ ''}'' @ [newline] @ ''  a & b '' @ [bslash, bslash] @ [newline] @ ''  c & d'' @ [newline]
        @ cs ''end{'' @ name @ ''}'',
      name @ '' matrix template'', None)"

definition math_templates :: "math_item list" where
  "math_templates = commands ''Templates''
    ([(''inline'', cs ''(  '' @ cs '')'', ''inline equation'', None),
     (''display'', cs ''['' @ [newline] @ [newline] @ cs '']'', ''display equation'', None),
     (''equation'', cs ''begin{equation}'' @ [newline] @ [newline] @ cs ''end{equation}'',
       ''numbered equation environment'', None),
     (''align'', cs ''begin{align}'' @ [newline] @ ''  a &= b '' @ [bslash, bslash] @ [newline]
       @ ''  c &= d'' @ [newline] @ cs ''end{align}'', ''align equations environment'', None),
     (''aligned'', cs ''begin{aligned}'' @ [newline] @ ''  a &= b '' @ [bslash, bslash]
       @ [newline] @ ''  c &= d'' @ [newline] @ cs ''end{aligned}'', ''aligned equations component'', None),
     (''gather'', cs ''begin{gather}'' @ [newline] @ ''  a=b '' @ [bslash, bslash] @ [newline]
       @ ''  c=d'' @ [newline] @ cs ''end{gather}'', ''gather equations environment'', None),
     (''split'', cs ''begin{split}'' @ [newline] @ ''  a &= b '' @ [bslash, bslash] @ [newline]
       @ ''    &quad + c'' @ [newline] @ cs ''end{split}'', ''split equation component'', None),
     (''cases'', cs ''begin{cases}'' @ [newline] @ ''  value, & condition '' @ [bslash, bslash]
       @ [newline] @ ''  other, & otherwise'' @ [newline] @ cs ''end{cases}'', ''piecewise cases'', None)]
     @ map matrix_template [''matrix'', ''pmatrix'', ''bmatrix'', ''Bmatrix'', ''vmatrix'', ''Vmatrix''])"

definition math_components :: "(nat list \<Rightarrow> jsstr) \<Rightarrow> math_item list" where
  "math_components glyph = commands ''Components''
    [(''a/b'', cs ''frac{}{}'', ''fraction'', None), (glyph [8730], cs ''sqrt{}'', ''square root'', None),
     (glyph [8319, 8730], cs ''sqrt[]{}'', ''nth root'', None),
     (glyph [120, 8319], ''^{}'', ''superscript power'', None),
     (glyph [120, 8345], ''_{}'', ''subscript index'', None),
     (glyph [931], cs ''sum_{}^{}'', ''sum with limits'', None),
     (glyph [928], cs ''prod_{}^{}'', ''product with limits'', None),
     (glyph [8747], cs ''int_{}^{} '' @ cs ''mathrm{d}x'', ''definite integral'', None),
     (glyph [8748], cs ''iint_{} '' @ cs ''mathrm{d}A'', ''multiple integral'', None),
     (''lim'', cs ''lim_{}'', ''limit'', None),
     (''dy/dx'', cs ''frac{'' @ cs ''mathrm{d}y}{'' @ cs ''mathrm{d}x}'', ''derivative'', None),
     (glyph [8706, 121, 47, 8706, 120], cs ''frac{'' @ cs ''partial y}{'' @ cs ''partial x}'',
       ''partial derivative'', None),
     (glyph [120, 8407], cs ''vec{}'', ''vector'', None), (glyph [120, 770], cs ''hat{}'', ''hat'', None),
     (glyph [120, 772], cs ''bar{}'', ''bar'', None),
     (glyph [97, 98, 99, 773], cs ''overline{}'', ''overline'', None),
     (glyph [9183], cs ''underbrace{}_{}'', ''underbrace'', None),
     (glyph [9182], cs ''overbrace{}^{}'', ''overbrace'', None)]"

definition MATH_CATALOG :: "(nat list \<Rightarrow> jsstr) \<Rightarrow> math_item list" where
  "MATH_CATALOG glyph =
    (math_basic glyph @ math_greek glyph @ math_greek_upper glyph @ math_relations glyph @ math_operators glyph @
     math_arrows glyph @ math_sets glyph @ math_logic glyph @ math_calculus glyph @ math_big_operators glyph @
     math_delimiters glyph @ math_accents glyph @ math_functions @ math_helpers glyph @ math_templates @
     math_components glyph)"

section \<open>What is inserted\<close>

lemma commands_inserts:
  "list_all (\<lambda>e. P (m_latex e)) (commands category rows) = list_all (\<lambda>(s, l, d, k). P l) rows"
  by (induction rows) (auto simp: commands_def math_item_of_def)

lemma matrix_template_inserts:
  assumes "CHR ''}'' \<notin> set name"
  shows "tex_closed (fst (snd (matrix_template name)))"
proof -
  have "tex_closed ([newline] @ ''  a & b '' @ [bslash, bslash] @ [newline] @ ''  c & d'' @ [newline])"
    by (simp add: tex_eval)
  from closed_environment [OF assms this closed_Nil] show ?thesis by (simp add: matrix_template_def)
qed

lemma math_basic_closed: "list_all (\<lambda>e. tex_closed (m_latex e)) (math_basic glyph)"
  by (simp add: math_basic_def commands_inserts) (simp add: tex_eval)?

lemma math_greek_closed: "list_all (\<lambda>e. tex_closed (m_latex e)) (math_greek glyph)"
  by (simp add: math_greek_def commands_inserts) (simp add: tex_eval)?

lemma math_greek_upper_closed: "list_all (\<lambda>e. tex_closed (m_latex e)) (math_greek_upper glyph)"
  by (simp add: math_greek_upper_def commands_inserts) (simp add: tex_eval)?

lemma math_relations_closed: "list_all (\<lambda>e. tex_closed (m_latex e)) (math_relations glyph)"
  by (simp add: math_relations_def commands_inserts) (simp add: tex_eval)?

lemma math_operators_closed: "list_all (\<lambda>e. tex_closed (m_latex e)) (math_operators glyph)"
  by (simp add: math_operators_def commands_inserts) (simp add: tex_eval)?

lemma math_arrows_closed: "list_all (\<lambda>e. tex_closed (m_latex e)) (math_arrows glyph)"
  by (simp add: math_arrows_def commands_inserts) (simp add: tex_eval)?

lemma math_sets_closed: "list_all (\<lambda>e. tex_closed (m_latex e)) (math_sets glyph)"
  by (simp add: math_sets_def commands_inserts) (simp add: tex_eval)?

lemma math_logic_closed: "list_all (\<lambda>e. tex_closed (m_latex e)) (math_logic glyph)"
  by (simp add: math_logic_def commands_inserts) (simp add: tex_eval)?

lemma math_calculus_closed: "list_all (\<lambda>e. tex_closed (m_latex e)) (math_calculus glyph)"
  by (simp add: math_calculus_def commands_inserts) (simp add: tex_eval)?

lemma math_big_operators_closed: "list_all (\<lambda>e. tex_closed (m_latex e)) (math_big_operators glyph)"
  by (simp add: math_big_operators_def commands_inserts) (simp add: tex_eval)?

lemma math_delimiters_closed: "list_all (\<lambda>e. tex_closed (m_latex e)) (math_delimiters glyph)"
  by (simp add: math_delimiters_def commands_inserts) (simp add: tex_eval)?

lemma math_accents_closed: "list_all (\<lambda>e. tex_closed (m_latex e)) (math_accents glyph)"
  by (simp add: math_accents_def commands_inserts) (simp add: tex_eval)?

lemma math_functions_closed: "list_all (\<lambda>e. tex_closed (m_latex e)) (math_functions)"
  by (simp add: math_functions_def commands_inserts) (simp add: tex_eval)?

lemma math_helpers_closed: "list_all (\<lambda>e. tex_closed (m_latex e)) (math_helpers glyph)"
  by (simp add: math_helpers_def commands_inserts) (simp add: tex_eval)?

lemma matrix_template_case: "(case matrix_template n of (s, l, d, k) \<Rightarrow> P l) = P (fst (snd (matrix_template n)))"
  by (simp add: matrix_template_def)

lemma math_templates_closed: "list_all (\<lambda>e. tex_closed (m_latex e)) math_templates"
  by (simp add: math_templates_def commands_inserts matrix_template_case matrix_template_inserts)
     (simp add: tex_eval)

lemma math_components_closed: "list_all (\<lambda>e. tex_closed (m_latex e)) (math_components glyph)"
  by (simp add: math_components_def commands_inserts) (simp add: tex_eval)?

lemmas catalogue_closed = math_basic_closed math_greek_closed math_greek_upper_closed math_relations_closed math_operators_closed math_arrows_closed math_sets_closed math_logic_closed math_calculus_closed math_big_operators_closed math_delimiters_closed math_accents_closed math_functions_closed math_helpers_closed math_templates_closed math_components_closed

text \<open>
  Every entry of the mathematics palette inserts text that closes the braces and environments it opens and
  comments nothing out: an entry chosen anywhere in a document leaves its structure as it was.
\<close>

theorem palette_entries_closed: "list_all (\<lambda>e. tex_closed (m_latex e)) (MATH_CATALOG glyph)"
  by (simp add: MATH_CATALOG_def catalogue_closed)

section \<open>What is found\<close>

lemma lower_append: "js_lower (s @ t) = js_lower s @ js_lower t"
  by (simp add: js_lower_def)

lemma split_space_part: "w \<in> set (split_space s) \<Longrightarrow> \<exists>u v. s = u @ w @ v"
proof (induction s arbitrary: w)
  case (Cons c s)
  have first: "\<exists>v. s = hd (split_space s) @ v" by (induction s) auto
  show ?case
  proof (cases "js_space c \<or> w \<in> set (tl (split_space s))")
    case True
    then consider "w = []" | "w \<in> set (split_space s)"
      using Cons.prems by (cases "js_space c") (auto dest: list.set_sel(2) [rotated])
    then show ?thesis
    proof cases
      case 1
      then show ?thesis by (metis append_Nil)
    next
      case 2
      from Cons.IH [OF this] show ?thesis by (metis append_Cons)
    qed
  next
    case False
    with Cons.prems have "w = c # hd (split_space s)" by (auto split: if_splits)
    with first show ?thesis by (metis append_Cons append_Nil)
  qed
qed simp

lemma js_words_part: "w \<in> set (js_words s) \<Longrightarrow> js_includes s w"
  by (auto simp: js_words_def js_includes_iff dest: split_space_part)

lemma js_includes_trans: "js_includes s t \<Longrightarrow> js_includes t w \<Longrightarrow> js_includes s w"
  unfolding js_includes_iff by (metis append.assoc)

lemma js_includes_lower: "js_includes s t \<Longrightarrow> js_includes (js_lower s) (js_lower t)"
  unfolding js_includes_iff by (metis lower_append)

lemma js_includes_append: "js_includes s t \<Longrightarrow> js_includes (s @ v) t" "js_includes s t \<Longrightarrow> js_includes (u @ s) t"
  unfolding js_includes_iff by (metis append.assoc)+

lemma js_includes_self [simp]: "js_includes t t"
  unfolding js_includes_iff by (metis append_Nil append_Nil2)

lemma haystack_includes:
  "js_includes (haystack e) (js_lower (m_category e))" "js_includes (haystack e) (js_lower (m_symbol e))"
  "js_includes (haystack e) (js_lower (m_latex e))" "js_includes (haystack e) (js_lower (m_description e))"
  "js_includes (haystack e) (js_lower (m_keywords e))"
  unfolding haystack_def lower_append
  by (iprover intro: js_includes_self js_includes_append)+

text \<open>
  An entry is found by any part of any of its five texts, however it is written in upper and lower case and however
  much white space surrounds it: by its category, its symbol, the command it inserts, its description or its
  keywords.
\<close>

theorem search_finds_every_entry:
  assumes "e \<in> set catalog"
    and "\<exists>t\<in>{m_category e, m_symbol e, m_latex e, m_description e, m_keywords e}.
           js_includes (js_lower t) (js_lower query)"
  shows "e \<in> set (searchMathCatalog query catalog)"
proof -
  from assms(2) have "js_includes (haystack e) (js_lower query)"
    by (auto intro: js_includes_trans haystack_includes)
  with assms(1) show ?thesis
    by (auto simp: search_terms_filter dest: js_words_part intro: js_includes_trans)
qed

section \<open>The search of the palette\<close>

text \<open>
  The page does not call \<open>searchMathCatalog\<close>: its palette looks for the query as it stands in the text of an item.
  For a query of one word the two searches agree.
\<close>

definition no_space :: "jsstr \<Rightarrow> bool" where
  "no_space w \<longleftrightarrow> list_all (\<lambda>c. \<not> js_space c) w"

lemma js_includes_around_space:
  assumes "no_space w" "w \<noteq> []" "js_space c"
  shows "js_includes (u @ c # v) w \<longleftrightarrow> js_includes u w \<or> js_includes v w"
proof
  assume "js_includes (u @ c # v) w"
  then obtain a b where e: "u @ c # v = a @ w @ b" by (auto simp: js_includes_iff)
  have c: "c \<notin> set w" using assms(1,3) by (auto simp: no_space_def list_all_iff)
  from e consider t where "u = a @ t" "t @ c # v = w @ b" | t where "u @ t = a" "c # v = t @ w @ b"
    by (auto simp: append_eq_append_conv2)
  then show "js_includes u w \<or> js_includes v w"
  proof cases
    case 1
    then obtain x where "t = w @ x \<or> (t @ x = w \<and> c # v = x @ b)" by (auto simp: append_eq_append_conv2)
    moreover have "x = []" if "t @ x = w" "c # v = x @ b"
      using that c by (cases x) auto
    ultimately have "\<exists>x. t = w @ x" by fastforce
    with 1 show ?thesis by (auto simp: js_includes_iff)
  next
    case 2
    with c assms(2) have "t \<noteq> []" by (cases w) auto
    with 2 have "v = tl t @ w @ b" by (cases t) auto
    then show ?thesis by (auto simp: js_includes_iff)
  qed
next
  assume "js_includes u w \<or> js_includes v w"
  then show "js_includes (u @ c # v) w"
    using js_includes_append(1) [of u w "c # v"] js_includes_append(2) [of v w "u @ [c]"] by auto
qed

lemma no_space_lower: "no_space (js_lower w) = no_space w"
  by (induction w) (auto simp: no_space_def js_lower_def js_space_lower)

lemma js_words_one: "no_space w \<Longrightarrow> w \<noteq> [] \<Longrightarrow> js_words w = [w]"
proof -
  assume "no_space w" "w \<noteq> []"
  have "no_space w \<Longrightarrow> split_space w = [w]" for w
    by (induction w) (auto simp: no_space_def)
  with \<open>no_space w\<close> \<open>w \<noteq> []\<close> show ?thesis by (simp add: js_words_def)
qed

lemma middot_parts: "middot = CHR '' '' # CHR 0xB7 # '' ''"
  by (simp add: middot_def)

lemma lower_char_dot: "js_lower_char c = CHR 0xB7 \<Longrightarrow> c = CHR 0xB7"
proof -
  assume "js_lower_char c = CHR 0xB7"
  then have n: "of_char (js_lower_char c) = (183 :: nat)" by simp
  have "of_char (char_of (of_char c + 32 :: nat)) = (of_char c + 32 :: nat)"
    if "of_char c \<le> (222 :: nat)" using that by simp
  with n have "of_char c = (183 :: nat)" by (auto simp: js_lower_char_def Let_def split: if_splits)
  also have "(183 :: nat) = of_char (CHR 0xB7)" by simp
  finally show ?thesis by (simp only: of_char_eq_iff)
qed

lemma lower_dot: "js_includes [CHR 0xB7] (js_lower w) \<Longrightarrow> w = [] \<or> w = [CHR 0xB7]"
proof (cases w)
  case (Cons c v)
  moreover assume "js_includes [CHR 0xB7] (js_lower w)"
  ultimately have "v = []" "js_lower_char c = CHR 0xB7"
    by (auto simp: js_includes_iff js_lower_def Cons_eq_append_conv append_eq_Cons_conv)
  with Cons lower_char_dot show ?thesis by simp
qed simp

lemma item_search_word:
  assumes "no_space w" "w \<noteq> []" "w \<noteq> [CHR 0xB7]"
  shows "js_includes (item_haystack \<lparr>pi_label = m_symbol e @ ''  '' @ m_latex e,
      pi_detail = Some (m_category e @ middot @ m_description e),
      pi_search = Some (m_category e @ '' '' @ m_description e @ '' '' @ m_keywords e), pi_run = r\<rparr>) (js_lower w)
    = js_includes (haystack e) (js_lower w)"
proof -
  have w: "no_space (js_lower w)" "js_lower w \<noteq> []" "\<not> js_includes [] (js_lower w)" "\<not> js_includes [CHR 0xB7] (js_lower w)"
    using assms lower_dot [of w] no_space_lower [of w] by (auto simp: js_lower_def js_includes_iff)
  have sp: "js_space (CHR '' '')" "js_lower_char (CHR '' '') = CHR '' ''" "js_lower_char (CHR 0xB7) = CHR 0xB7"
    by (simp_all add: js_space_def js_lower_char_def)
  have lower: "js_lower (c # s) = js_lower_char c # js_lower s" "js_lower [] = []" for c s
    by (simp_all add: js_lower_def)
  have around: "js_includes (u @ CHR '' '' # v) (js_lower w) \<longleftrightarrow> js_includes u (js_lower w) \<or> js_includes v (js_lower w)"
    "js_includes (CHR '' '' # v) (js_lower w) \<longleftrightarrow> js_includes v (js_lower w)"
    "js_includes (CHR 0xB7 # CHR '' '' # v) (js_lower w) \<longleftrightarrow> js_includes v (js_lower w)" for u v
    using js_includes_around_space [OF w(1,2) sp(1), of u v] js_includes_around_space [OF w(1,2) sp(1), of "[]" v]
      js_includes_around_space [OF w(1,2) sp(1), of "[CHR 0xB7]" v] w(3,4) by auto
  show ?thesis
    by (auto simp: item_haystack_def haystack_def middot_parts lower lower_append sp around w js_or_def)
qed

text \<open>
  C30. For a query of one word (other than the dot between a category and a description) the math palette offers exactly the
  entries that \<open>searchMathCatalog\<close> finds, in the catalogue's order, and each inserts its own command.
\<close>

theorem math_palette_searches:
  assumes "no_space w" "w \<noteq> []" "w \<noteq> [CHR 0xB7]"
  shows "map pi_run (visible_items w (pl_items (openMathPalette catalog)))
    = map (\<lambda>e. InsertLatex (m_latex e) ''writer-math-palette'') (searchMathCatalog w catalog)"
proof -
  have "js_words (js_lower w) = [js_lower w]"
    using assms(1,2) by (intro js_words_one) (simp_all add: no_space_lower, simp add: js_lower_def)
  then show ?thesis
    by (simp add: search_terms_filter visible_items_def openMathPalette_def showPalette_def palette_render_def Let_def
        filter_map o_def item_search_word [OF assms, unfolded append_Cons append_Nil])
qed

lemma math_palette_searches_witness:
  "map pi_run (visible_items ''variant'' (pl_items (openMathPalette (take 6 (math_greek (\<lambda>_. ''a''))))))
    = [InsertLatex (cs ''varepsilon'') ''writer-math-palette'']"
proof -
  have "no_space ''variant''" by code_simp
  moreover have "map (\<lambda>e. InsertLatex (m_latex e) ''writer-math-palette'')
      (searchMathCatalog ''variant'' (take 6 (math_greek (\<lambda>_. ''a'')))) = [InsertLatex (cs ''varepsilon'') ''writer-math-palette'']"
    by code_simp
  ultimately show ?thesis
    using math_palette_searches [of "''variant''" "take 6 (math_greek (\<lambda>_. ''a''))"] by simp
qed

text \<open>
  For two words they differ: \<^verbatim>\<open>greek alpha\<close> finds the letter with \<open>searchMathCatalog\<close>, and nothing in the palette.
\<close>

theorem math_palette_misses_two_words:
  "map m_latex (searchMathCatalog ''greek alpha'' (take 1 (math_greek (\<lambda>_. ''a'')))) = [cs ''alpha'']
    \<and> visible_items ''greek alpha'' (pl_items (openMathPalette (take 1 (math_greek (\<lambda>_. ''a''))))) = []"
  by code_simp

text \<open>The row of the \<^verbatim>\<open>split\<close> template has lost the backslash of its \<^verbatim>\<open>\quad\<close>.\<close>

lemma split_template_lost_quad:
  "(''split'', cs ''begin{split}'' @ [newline] @ ''  a &= b '' @ [bslash, bslash] @ [newline] @ ''    &quad + c'' @ [newline]
      @ cs ''end{split}'') \<in> (\<lambda>e. (m_symbol e, m_latex e)) ` set (MATH_CATALOG glyph)"
  by (simp add: MATH_CATALOG_def math_templates_def commands_def math_item_of_def)

end
