(* ===== verification/CollabFrames.thy ===== *)
theory CollabFrames
  imports Base64
begin

text \<open>
  The binary frames of the collaboration socket. \<^verbatim>\<open>services/server/frontend/writer.js\<close> builds them in
  \<open>CollaborationSession.sendUpdate\<close> and \<open>flush\<close>; \<^verbatim>\<open>services/server/src/collaboration.rs\<close> reads
  them. A frame is a list of bytes, its first byte the type. The sequence number is written by
  \<open>DataView.setBigUint64\<close>, which is big-endian and keeps the low 64 bits.
\<close>

section \<open>Frame types\<close>

definition SOURCE_UPDATE :: byte where "SOURCE_UPDATE = 0x01"
definition FLUSH :: byte where "FLUSH = 0x02"
definition INITIAL_STATE :: byte where "INITIAL_STATE = 0x10"
definition REMOTE_SOURCE_UPDATE :: byte where "REMOTE_SOURCE_UPDATE = 0x11"

definition MAX_UPDATE_BYTES :: nat where "MAX_UPDATE_BYTES = 1024 * 1024"

section \<open>Encoding on the client\<close>

definition setBigUint64 :: "nat \<Rightarrow> byte list" where
  "setBigUint64 n = map (\<lambda>i. word_of_nat (n div 256 ^ (7 - i))) [0..<8]"

definition source_frame :: "nat \<Rightarrow> byte list \<Rightarrow> byte list" where
  "source_frame sequence update = SOURCE_UPDATE # setBigUint64 sequence @ update"

definition flush_frame :: "byte list" where
  "flush_frame = [FLUSH]"

section \<open>Decoding on the server\<close>

definition from_be_bytes :: "byte list \<Rightarrow> nat" where
  "from_be_bytes bs = foldl (\<lambda>a b. 256 * a + unat b) 0 bs"

datatype client_frame = ClientUpdate nat "byte list" | ClientFlush | BadFrame

definition decode_client_frame :: "byte list \<Rightarrow> client_frame" where
  "decode_client_frame bytes =
     (case bytes of
        [] \<Rightarrow> BadFrame
      | t # _ \<Rightarrow>
          if t = SOURCE_UPDATE then
            (if length bytes < 10 \<or> length bytes - 9 > MAX_UPDATE_BYTES then BadFrame
             else ClientUpdate (from_be_bytes (take 8 (drop 1 bytes))) (drop 9 bytes))
          else if t = FLUSH then ClientFlush
          else BadFrame)"

section \<open>The sequence number\<close>

lemma length_setBigUint64 [simp]: "length (setBigUint64 n) = 8"
  by (simp add: setBigUint64_def)





lemma decode_flush [simp]: "decode_client_frame flush_frame = ClientFlush"
  by (simp add: decode_client_frame_def flush_frame_def FLUSH_def SOURCE_UPDATE_def)

lemma source_frame_neq_flush: "source_frame n u \<noteq> flush_frame"
  by (simp add: source_frame_def flush_frame_def FLUSH_def SOURCE_UPDATE_def)

section \<open>Property\<close>


end
