(* ===== verification/PageStatus.thy ===== *)
theory PageStatus
  imports Prelude
begin

text \<open>
  The page state that an editing session and the workspace around it share, in
  \<^verbatim>\<open>services/server/frontend/writer.js\<close>: the save status, the notice line, and the fields of \<open>model\<close> that
  a session writes. \<open>CollabSession\<close> and \<open>Workspace\<close> each extend this record with their own fields.
\<close>

datatype save_state = LocalSave | Syncing | Synced | Offline | Reconnecting | Conflict

text \<open>The ellipsis is one code unit above 255 in the source; three full stops stand for it.\<close>

fun save_label :: "save_state \<Rightarrow> jsstr" where
  "save_label LocalSave = ''Saved''"
| "save_label Syncing = ''Saving...''"
| "save_label Synced = ''Saved''"
| "save_label Offline = ''Offline''"
| "save_label Reconnecting = ''Reconnecting...''"
| "save_label Conflict = ''Conflict/Error''"

record page_status =
  saveStatus :: save_state
  conflict :: bool
  recoveryText :: "jsstr option"
  copyRecoveryHidden :: bool
  writerNotice :: "(jsstr \<times> bool) option"

definition saveState :: "save_state \<Rightarrow> 'a page_status_scheme \<Rightarrow> 'a page_status_scheme" where
  "saveState st s = s\<lparr>saveStatus := st\<rparr>"

definition notice :: "jsstr \<Rightarrow> bool \<Rightarrow> 'a page_status_scheme \<Rightarrow> 'a page_status_scheme" where
  "notice message failed s = s\<lparr>writerNotice := Some (message, failed)\<rparr>"

end
