(* ===== verification/CollabSession.thy ===== *)
theory CollabSession
  imports CollabFrames Timers PageStatus
begin

text \<open>
  The class \<open>CollaborationSession\<close> of \<^verbatim>\<open>services/server/frontend/writer.js\<close>: one editing session
  on one file, over a WebSocket that may close and reopen, with a shared document and a local database
  behind it. The session's fields are a record, each method and listener a function on it, and the
  handlers of the page that it calls (\<open>saveState\<close>, \<open>notice\<close>, timers, \<open>autoBuild\<close>) act on the \<open>world\<close>
  part of the record. An event is one task of the browser: a socket event, a timer, an edit, the local
  database having loaded, or a call of \<open>flush\<close> or \<open>destroy\<close>.

  Yjs and y-indexeddb are not in the repository; what the session uses of them is the record \<open>yjs\<close> of
  functions, where \<^const>\<open>None\<close> is a thrown exception, and documented behaviour that the events and
  \<open>enabled\<close> state: a destroyed document has no listeners, a destroyed database does not report
  \<open>synced\<close>, and a missing state (\<open>null\<close>) is not an update. A socket delivers messages only while it is
  open, and the server (\<^verbatim>\<open>services/server/src/collaboration.rs\<close>) sends one \<open>JOIN_ACCEPTED\<close> per
  connection.
\<close>

section \<open>The page around the session\<close>

datatype ready_state = CONNECTING | OPEN | CLOSING | CLOSED

datatype flush_outcome = FlushOk nat | FlushError jsstr

datatype timer_cb = Reconnect | FlushTimeout nat | ReopenPaper

datatype app_call = DurableUpdateCall | ScheduleIntelligence | MountEditor bool | OpenPaper

text \<open>
  \<open>sockets\<close> holds the ready state of every socket opened so far, \<open>sent\<close> the frames with the socket they
  went to, and \<open>promises\<close> the outcomes of the promises \<open>flush\<close> has returned (\<^const>\<open>None\<close> while
  unsettled).
\<close>

record world = page_status +
  sockets :: "ready_state list"
  sent :: "(nat \<times> byte list) list"
  timers :: "timer_cb clock"
  promises :: "flush_outcome option list"
  app_calls :: "app_call list"

definition app_call :: "app_call \<Rightarrow> 'a world_scheme \<Rightarrow> 'a world_scheme" where
  "app_call c s = s\<lparr>app_calls := app_calls s @ [c]\<rparr>"

definition clearTimeout :: "nat option \<Rightarrow> 'a world_scheme \<Rightarrow> 'a world_scheme" where
  "clearTimeout h s = (case h of None \<Rightarrow> s | Some i \<Rightarrow> s\<lparr>timers := clearTimer i (timers s)\<rparr>)"

text \<open>A promise keeps its first outcome.\<close>

definition settle :: "nat \<Rightarrow> flush_outcome \<Rightarrow> 'a world_scheme \<Rightarrow> 'a world_scheme" where
  "settle p v s =
     (if p < length (promises s) \<and> promises s ! p = None
      then s\<lparr>promises := (promises s)[p := Some v]\<rparr> else s)"

definition socket_send :: "nat \<Rightarrow> byte list \<Rightarrow> 'a world_scheme \<Rightarrow> 'a world_scheme" where
  "socket_send i frame s = s\<lparr>sent := sent s @ [(i, frame)]\<rparr>"

definition socket_close :: "nat option \<Rightarrow> 'a world_scheme \<Rightarrow> 'a world_scheme" where
  "socket_close so s =
     (case so of None \<Rightarrow> s
      | Some i \<Rightarrow> if i < length (sockets s) \<and> sockets s ! i \<in> {CONNECTING, OPEN}
                 then s\<lparr>sockets := (sockets s)[i := CLOSING]\<rparr> else s)"

section \<open>The session\<close>

datatype access = ReadOnly | ReadWrite

text \<open>The local database: not opened, loading or loaded under its key, or destroyed.\<close>

datatype store = NoStore | Loading jsstr | Loaded jsstr | StoreClosed

text \<open>
  \<open>this.doc\<close> and \<open>this.text\<close> are one document: \<open>ydoc\<close> is its content, \<open>doc_live\<close> says that
  \<open>this.doc\<close> is not \<open>null\<close>. \<open>listening\<close> says that the \<open>update\<close> listener is installed. Of
  \<open>this.metadata\<close> only its epoch is used.
\<close>

record 'd session = world +
  socket :: "nat option"
  ydoc :: "'d option"
  doc_live :: bool
  listening :: bool
  persistence :: store
  destroyed :: bool
  connected :: bool
  access :: access
  clientSequence :: nat
  pending_seqs :: "nat set"
  flushWaiters :: "(nat \<times> nat) list"
  reconnectTimer :: "nat option"
  backoff :: nat
  metadata :: "nat option"
  documentEpoch :: "nat option"
  initialState :: "byte list option"
  initializing :: bool
  bufferedRemote :: "byte list list"
  ready :: bool

record config =
  user_id :: jsstr
  workspace_id :: jsstr
  file_id :: jsstr
  requestedEditable :: bool
  paperEditable :: bool
  paperOpen :: bool

record 'd yjs =
  newDoc :: 'd
  applyUpdate :: "byte list \<Rightarrow> 'd \<Rightarrow> 'd option"
  encodeState :: "'d \<Rightarrow> byte list"
  sourceText :: "'d \<Rightarrow> jsstr"

datatype control =
    JoinAccepted nat access
  | DurableAck nat
  | Flushed nat
  | RemoteDurable
  | ReloadRequired
  | PaperEpochChanged "nat option"
  | PolicyChanged "jsstr option"
  | ErrorControl "jsstr option"
  | OtherControl

datatype message = TextMessage control | BinaryMessage "byte list"

definition session_init :: "'d session" where
  "session_init =
     \<lparr>saveStatus = LocalSave, conflict = False, recoveryText = None, copyRecoveryHidden = True,
      writerNotice = None, sockets = [], sent = [], timers = clock_init, promises = [], app_calls = [],
      socket = None, ydoc = None, doc_live = False, listening = False, persistence = NoStore,
      destroyed = False, connected = False, access = ReadOnly, clientSequence = 0, pending_seqs = {},
      flushWaiters = [], reconnectTimer = None, backoff = 250, metadata = None, documentEpoch = None,
      initialState = None, initializing = False, bufferedRemote = [], ready = False\<rparr>"

section \<open>Methods\<close>

definition socketIsOpen :: "'d session \<Rightarrow> bool" where
  "socketIsOpen s =
     (case socket s of None \<Rightarrow> False | Some i \<Rightarrow> i < length (sockets s) \<and> sockets s ! i = OPEN)"

definition connect :: "'d session \<Rightarrow> 'd session" where
  "connect s =
     (if destroyed s then s
      else let s1 = saveState (if doc_live s then Reconnecting else LocalSave) s
           in s1\<lparr>sockets := sockets s1 @ [CONNECTING], socket := Some (length (sockets s1)),
                 metadata := None, initialState := None\<rparr>)"

definition start :: "'d session \<Rightarrow> 'd session" where
  "start s = connect (saveState LocalSave s)"

text \<open>\<open>resolveFlushes\<close> and \<open>rejectFlushes\<close>: every waiter is taken off the list and settled.\<close>

definition settle_waiter :: "flush_outcome \<Rightarrow> 'd session \<Rightarrow> nat \<times> nat \<Rightarrow> 'd session" where
  "settle_waiter v s w = (case w of (p, timeout) \<Rightarrow> settle p v (clearTimeout (Some timeout) s))"

definition settleFlushes :: "flush_outcome \<Rightarrow> 'd session \<Rightarrow> 'd session" where
  "settleFlushes v s = foldl (settle_waiter v) (s\<lparr>flushWaiters := []\<rparr>) (flushWaiters s)"

definition resolveFlushes :: "nat \<Rightarrow> 'd session \<Rightarrow> 'd session" where
  "resolveFlushes sequence s = settleFlushes (FlushOk sequence) s"

definition rejectFlushes :: "jsstr \<Rightarrow> 'd session \<Rightarrow> 'd session" where
  "rejectFlushes error s = settleFlushes (FlushError error) s"

definition destroy :: "'d session \<Rightarrow> 'd session" where
  "destroy s =
     (let s1 = rejectFlushes ''collaboration session closed''
                 (clearTimeout (reconnectTimer s) (s\<lparr>destroyed := True\<rparr>));
          s2 = socket_close (socket s1) s1
      in s2\<lparr>persistence := (if persistence s2 = NoStore then NoStore else StoreClosed),
            listening := False, socket := None, doc_live := False\<rparr>)"

definition sendUpdate :: "byte list \<Rightarrow> 'd session \<Rightarrow> 'd session" where
  "sendUpdate update s =
     (if \<not> socketIsOpen s then saveState Offline s
      else let sequence = clientSequence s + 1
           in socket_send (the (socket s)) (source_frame sequence update)
                (saveState Syncing
                   (s\<lparr>clientSequence := sequence, pending_seqs := insert sequence (pending_seqs s)\<rparr>)))"

definition flush :: "'d session \<Rightarrow> 'd session" where
  "flush s =
     (if access s \<noteq> ReadWrite then s\<lparr>promises := promises s @ [Some (FlushOk 0)]\<rparr>
      else if \<not> socketIsOpen s then
        (saveState Offline s)\<lparr>promises := promises s @ [Some (FlushError
           ''Offline edits are safely stored locally; reconnect before this structural operation.'')]\<rparr>
      else let s1 = socket_send (the (socket s)) flush_frame (saveState Syncing s);
               p = length (promises s1);
               (h, c) = setTimer (FlushTimeout p) 10000 (timers s1)
           in s1\<lparr>timers := c, promises := promises s1 @ [None],
                 flushWaiters := flushWaiters s1 @ [(p, h)]\<rparr>)"

section \<open>Initialization and merging\<close>

definition persistence_key :: "config \<Rightarrow> nat \<Rightarrow> jsstr" where
  "persistence_key cfg epoch =
     js_join '':'' [''latex-core'', user_id cfg, workspace_id cfg, file_id cfg, nat_str epoch]"

text \<open>Updates applied in order until one throws.\<close>

fun apply_all :: "'d yjs \<Rightarrow> byte list list \<Rightarrow> 'd \<Rightarrow> 'd \<times> bool" where
  "apply_all y [] d = (d, True)"
| "apply_all y (u # us) d =
     (case applyUpdate y u d of None \<Rightarrow> (d, False) | Some d' \<Rightarrow> apply_all y us d')"

text \<open>The last statement of \<open>initializeOrMerge\<close>: offer the whole document to the server.\<close>

definition announce :: "'d yjs \<Rightarrow> 'd session \<Rightarrow> 'd session" where
  "announce y s =
     (if access s = ReadWrite then sendUpdate (encodeState y (the (ydoc s))) s
      else saveState Synced s)"

text \<open>
  \<open>initializeOrMerge\<close> up to its \<open>await\<close>: a session without a document creates it and opens the local
  database, and the rest runs in \<open>resumeInitialize\<close> when that has loaded; a session with a document
  merges the state at once.
\<close>

definition initializeOrMerge :: "'d yjs \<Rightarrow> config \<Rightarrow> 'd session \<Rightarrow> 'd session" where
  "initializeOrMerge y cfg s =
     (case (metadata s, initialState s) of
        (Some epoch, Some state) \<Rightarrow>
          if initializing s then s
          else if \<not> doc_live s then
            s\<lparr>initializing := True, ydoc := Some (newDoc y), doc_live := True,
              persistence := Loading (persistence_key cfg epoch)\<rparr>
          else (case applyUpdate y state (the (ydoc s)) of
                  None \<Rightarrow> s
                | Some d \<Rightarrow> announce y (s\<lparr>ydoc := Some d\<rparr>))
      | _ \<Rightarrow> s)"

definition resumeInitialize :: "'d yjs \<Rightarrow> config \<Rightarrow> byte list list \<Rightarrow> 'd session \<Rightarrow> 'd session" where
  "resumeInitialize y cfg stored s =
     (let d0 = fst (apply_all y stored (the (ydoc s)));
          s1 = s\<lparr>ydoc := Some d0,
                 persistence := (case persistence s of Loading k \<Rightarrow> Loaded k | p \<Rightarrow> p),
                 initializing := False\<rparr>
      in case Option.bind (initialState s1) (\<lambda>st. applyUpdate y st d0) of
           None \<Rightarrow> s1
         | Some d1 \<Rightarrow>
             (case apply_all y (bufferedRemote s1) d1 of
                (d2, False) \<Rightarrow> s1\<lparr>ydoc := Some d2\<rparr>
              | (d2, True) \<Rightarrow>
                  announce y
                    ((app_call (MountEditor (requestedEditable cfg \<and> access s1 = ReadWrite))
                        (s1\<lparr>ydoc := Some d2, bufferedRemote := [], listening := True\<rparr>))
                       \<lparr>ready := True\<rparr>)))"

definition preserveOldEpoch :: "'d yjs \<Rightarrow> config \<Rightarrow> nat option \<Rightarrow> 'd session \<Rightarrow> 'd session" where
  "preserveOldEpoch y cfg newEpoch s =
     (let recovered = (case ydoc s of None \<Rightarrow> [] | Some d \<Rightarrow> sourceText y d);
          s1 = s\<lparr>recoveryText := Some recovered, copyRecoveryHidden := (recovered = []), conflict := True\<rparr>;
          s2 = destroy (notice ''Offline changes from the previous paper version were preserved locally and were not merged after restoration.'' True
                 (saveState Conflict s1))
      in if paperOpen cfg \<and> newEpoch \<noteq> None
         then s2\<lparr>timers := snd (setTimer ReopenPaper 0 (timers s2))\<rparr> else s2)"

section \<open>Listeners\<close>

definition durableNotice :: "config \<Rightarrow> 'd session \<Rightarrow> 'd session" where
  "durableNotice cfg s =
     (let s1 = app_call ScheduleIntelligence s
      in if paperEditable cfg then app_call DurableUpdateCall s1 else s1)"

definition syncedIfNothingPending :: "'d session \<Rightarrow> 'd session" where
  "syncedIfNothingPending s = (if pending_seqs s = {} then saveState Synced s else s)"

fun receiveControl :: "'d yjs \<Rightarrow> config \<Rightarrow> control \<Rightarrow> 'd session \<Rightarrow> 'd session" where
  "receiveControl y cfg (JoinAccepted epoch mode) s =
     (if documentEpoch s \<noteq> None \<and> documentEpoch s \<noteq> Some epoch
      then preserveOldEpoch y cfg (Some epoch) s
      else initializeOrMerge y cfg
             (s\<lparr>documentEpoch := Some epoch, metadata := Some epoch, access := mode\<rparr>))"
| "receiveControl y cfg (DurableAck sequence) s =
     (let s1 = s\<lparr>pending_seqs := pending_seqs s - {sequence}\<rparr>
      in if pending_seqs s1 = {} then durableNotice cfg (saveState Synced s1) else s1)"
| "receiveControl y cfg (Flushed sequence) s = syncedIfNothingPending (resolveFlushes sequence s)"
| "receiveControl y cfg RemoteDurable s = durableNotice cfg (syncedIfNothingPending s)"
| "receiveControl y cfg ReloadRequired s =
     destroy (notice ''The collaborative file was deleted. Reload the paper.'' True
       (saveState Conflict (s\<lparr>conflict := True\<rparr>)))"
| "receiveControl y cfg (PaperEpochChanged epoch) s = preserveOldEpoch y cfg epoch s"
| "receiveControl y cfg (PolicyChanged text) s =
     destroy (notice (js_or text ''File policy changed; reload the paper.'') True
       (saveState Conflict (s\<lparr>conflict := True\<rparr>)))"
| "receiveControl y cfg (ErrorControl text) s =
     notice (js_or text ''Collaboration failed.'') True (saveState Conflict (s\<lparr>conflict := True\<rparr>))"
| "receiveControl y cfg OtherControl s = s"

definition receiveBinary :: "'d yjs \<Rightarrow> config \<Rightarrow> byte list \<Rightarrow> 'd session \<Rightarrow> 'd session" where
  "receiveBinary y cfg bytes s =
     (case bytes of
        [] \<Rightarrow> s
      | t # payload \<Rightarrow>
          if t = INITIAL_STATE then initializeOrMerge y cfg (s\<lparr>initialState := Some payload\<rparr>)
          else if t = REMOTE_SOURCE_UPDATE then
            (let s1 = saveState Syncing s
             in if doc_live s1 then
                  (case applyUpdate y payload (the (ydoc s1)) of
                     None \<Rightarrow> s1 | Some d \<Rightarrow> s1\<lparr>ydoc := Some d\<rparr>)
                else s1\<lparr>bufferedRemote := bufferedRemote s1 @ [payload]\<rparr>)
          else s)"

fun receive :: "'d yjs \<Rightarrow> config \<Rightarrow> message \<Rightarrow> 'd session \<Rightarrow> 'd session" where
  "receive y cfg (TextMessage c) s = receiveControl y cfg c s"
| "receive y cfg (BinaryMessage bytes) s = receiveBinary y cfg bytes s"

definition onOpen :: "'d session \<Rightarrow> 'd session" where
  "onOpen s = saveState Syncing (s\<lparr>connected := True, backoff := 250\<rparr>)"

definition onClose :: "nat \<Rightarrow> 'd session \<Rightarrow> 'd session" where
  "onClose i s =
     (if socket s \<noteq> Some i then s
      else let s1 = rejectFlushes ''connection closed before durable flush''
                      (s\<lparr>connected := False, pending_seqs := {}\<rparr>)
           in if destroyed s1 then s1
              else let s2 = saveState Reconnecting s1;
                       (h, c) = setTimer Reconnect (backoff s2) (timers s2)
                   in s2\<lparr>timers := c, reconnectTimer := Some h, backoff := min (backoff s2 * 2) 5000\<rparr>)"

definition onError :: "'d session \<Rightarrow> 'd session" where
  "onError s = (if \<not> connected s \<and> doc_live s then saveState Offline s else s)"

text \<open>The document's \<open>update\<close> listener, for an edit made in this editor.\<close>

definition onLocalUpdate :: "byte list \<Rightarrow> 'd session \<Rightarrow> 'd session" where
  "onLocalUpdate update s =
     (if connected s \<and> access s = ReadWrite then sendUpdate update s else saveState Offline s)"

definition timerFires :: "nat \<Rightarrow> 'd session \<Rightarrow> 'd session" where
  "timerFires h s =
     (let s1 = s\<lparr>timers := clearTimer h (timers s)\<rparr>
      in case lookup_timer (timers s) h of
           None \<Rightarrow> s
         | Some (_, Reconnect) \<Rightarrow> connect s1
         | Some (_, FlushTimeout p) \<Rightarrow> settle p (FlushError ''Durable flush timed out.'') s1
         | Some (_, ReopenPaper) \<Rightarrow> app_call OpenPaper s1)"

section \<open>Events\<close>

datatype event =
    SocketOpen nat
  | SocketMessage nat message
  | SocketClose nat
  | SocketError nat
  | TimerFires nat
  | Elapse nat
  | LocalEdit "byte list"
  | StorageSynced "byte list list"
  | CallFlush
  | CallDestroy

fun joins :: "message \<Rightarrow> bool" where
  "joins (TextMessage (JoinAccepted _ _)) = True"
| "joins _ = False"

definition is_loading :: "store \<Rightarrow> bool" where
  "is_loading p = (case p of Loading _ \<Rightarrow> True | _ \<Rightarrow> False)"

definition socket_in :: "'d session \<Rightarrow> nat \<Rightarrow> ready_state set \<Rightarrow> bool" where
  "socket_in s i R = (i < length (sockets s) \<and> sockets s ! i \<in> R)"

fun enabled :: "'d yjs \<Rightarrow> event \<Rightarrow> 'd session \<Rightarrow> bool" where
  "enabled y (SocketOpen i) s = socket_in s i {CONNECTING}"
| "enabled y (SocketMessage i m) s = (socket_in s i {OPEN} \<and> (joins m \<longrightarrow> metadata s = None))"
| "enabled y (SocketClose i) s = socket_in s i {CONNECTING, OPEN, CLOSING}"
| "enabled y (SocketError i) s = (i < length (sockets s))"
| "enabled y (TimerFires h) s =
     (case lookup_timer (timers s) h of None \<Rightarrow> False | Some (due, _) \<Rightarrow> due \<le> now (timers s))"
| "enabled y (Elapse ms) s = True"
| "enabled y (LocalEdit u) s = (listening s \<and> applyUpdate y u (the (ydoc s)) \<noteq> None)"
| "enabled y (StorageSynced us) s = (is_loading (persistence s) \<and> snd (apply_all y us (the (ydoc s))))"
| "enabled y CallFlush s = True"
| "enabled y CallDestroy s = True"

fun collab_handle :: "'d yjs \<Rightarrow> config \<Rightarrow> event \<Rightarrow> 'd session \<Rightarrow> 'd session" where
  "collab_handle y cfg (SocketOpen i) s = onOpen (s\<lparr>sockets := (sockets s)[i := OPEN]\<rparr>)"
| "collab_handle y cfg (SocketMessage i m) s = receive y cfg m s"
| "collab_handle y cfg (SocketClose i) s = onClose i (s\<lparr>sockets := (sockets s)[i := CLOSED]\<rparr>)"
| "collab_handle y cfg (SocketError i) s = onError s"
| "collab_handle y cfg (TimerFires h) s = timerFires h s"
| "collab_handle y cfg (Elapse ms) s = s\<lparr>timers := (timers s)\<lparr>now := now (timers s) + ms\<rparr>\<rparr>"
| "collab_handle y cfg (LocalEdit u) s =
     onLocalUpdate u (s\<lparr>ydoc := applyUpdate y u (the (ydoc s))\<rparr>)"
| "collab_handle y cfg (StorageSynced us) s = resumeInitialize y cfg us s"
| "collab_handle y cfg CallFlush s = flush s"
| "collab_handle y cfg CallDestroy s = destroy s"

inductive collab_step :: "'d yjs \<Rightarrow> config \<Rightarrow> 'd session \<Rightarrow> event \<Rightarrow> 'd session \<Rightarrow> bool"
  for y :: "'d yjs" and cfg :: config where
  event: "enabled y e s \<Longrightarrow> collab_step y cfg s e (collab_handle y cfg e s)"

inductive collab_reach :: "'d yjs \<Rightarrow> config \<Rightarrow> 'd session \<Rightarrow> bool"
  for y :: "'d yjs" and cfg :: config where
  start: "collab_reach y cfg (start session_init)"
| step: "collab_reach y cfg s \<Longrightarrow> collab_step y cfg s e s' \<Longrightarrow> collab_reach y cfg s'"

inductive_cases collab_stepE: "collab_step y cfg s e s'"
inductive_simps collab_step_iff: "collab_step y cfg s e s'"

text \<open>The same as a function of the events, for evaluation.\<close>

fun collab_run :: "'d yjs \<Rightarrow> config \<Rightarrow> event list \<Rightarrow> 'd session \<Rightarrow> 'd session option" where
  "collab_run y cfg [] s = Some s"
| "collab_run y cfg (e # es) s =
     (if enabled y e s then collab_run y cfg es (collab_handle y cfg e s) else None)"

lemma collab_run_reach: "collab_reach y cfg s \<Longrightarrow> collab_run y cfg es s = Some s' \<Longrightarrow> collab_reach y cfg s'"
  by (induction es arbitrary: s) (auto split: if_splits intro: collab_reach.step collab_step.event)

end
