(* ===== verification/CollabInvariants.thy ===== *)
theory CollabInvariants
  imports CollabSession
begin

text \<open>
  What every state of a collaboration session satisfies. The methods are first put in the form of one
  record update each; the invariants are then small conjunctions over disjoint groups of fields (the
  sockets, the timers, the flush promises, the sequence numbers, the save status, the epoch), each kept
  by every event.
\<close>

section \<open>Settling the waiting flushes\<close>

definition clear_timers :: "(nat \<times> nat) list \<Rightarrow> 'cb clock \<Rightarrow> 'cb clock" where
  "clear_timers ws c = foldl (\<lambda>c w. clearTimer (snd w) c) c ws"

definition settle_at :: "flush_outcome \<Rightarrow> flush_outcome option list \<Rightarrow> nat \<Rightarrow> flush_outcome option list" where
  "settle_at v ps p = (if p < length ps \<and> ps ! p = None then ps[p := Some v] else ps)"

definition settle_list :: "flush_outcome \<Rightarrow> (nat \<times> nat) list \<Rightarrow> flush_outcome option list \<Rightarrow> flush_outcome option list" where
  "settle_list v ws ps = foldl (\<lambda>ps w. settle_at v ps (fst w)) ps ws"

lemma settle_eq: "settle p v s = s\<lparr>promises := settle_at v (promises s) p\<rparr>"
  by (simp add: settle_def settle_at_def)

lemma foldl_settle_waiter:
  "foldl (settle_waiter v) s ws
     = s\<lparr>timers := clear_timers ws (timers s), promises := settle_list v ws (promises s)\<rparr>"
  by (induction ws arbitrary: s)
     (simp_all add: clear_timers_def settle_list_def settle_waiter_def settle_eq clearTimeout_def
       split: prod.splits)

lemma settleFlushes_eq [step_simps]:
  "settleFlushes v s = s\<lparr>flushWaiters := [], timers := clear_timers (flushWaiters s) (timers s),
     promises := settle_list v (flushWaiters s) (promises s)\<rparr>"
  by (simp add: settleFlushes_def foldl_settle_waiter)

lemma clear_timers_wf:
  "clock_wf c \<Longrightarrow> clock_wf (clear_timers ws c)"
  by (induction ws arbitrary: c) (simp_all add: clear_timers_def clk.disarm_wf)

lemma clear_timers_now [simp]: "now (clear_timers ws c) = now c"
  by (induction ws arbitrary: c) (simp_all add: clear_timers_def clk.disarm_time)

lemma clear_timers_lookup:
  "clock_wf c \<Longrightarrow> lookup_timer (clear_timers ws c) h
     = (if h \<in> snd ` set ws then None else lookup_timer c h)"
proof (induction ws arbitrary: c)
  case (Cons w ws)
  then have "lookup_timer (clear_timers ws (clearTimer (snd w) c)) h
      = (if h \<in> snd ` set ws then None else lookup_timer (clearTimer (snd w) c) h)"
    by (simp add: clk.disarm_wf)
  with Cons.prems show ?case by (auto simp: clear_timers_def clk.disarm_timer)
qed (simp add: clear_timers_def)

lemma settle_list_length [simp]: "length (settle_list v ws ps) = length ps"
  by (induction ws arbitrary: ps) (simp_all add: settle_list_def settle_at_def)

lemma settle_list_nth:
  "p < length ps \<Longrightarrow> settle_list v ws ps ! p
     = (if ps ! p = None \<and> p \<in> fst ` set ws then Some v else ps ! p)"
proof (induction ws arbitrary: ps)
  case (Cons w ws)
  have "settle_list v (w # ws) ps = settle_list v ws (settle_at v ps (fst w))"
    by (simp add: settle_list_def)
  moreover have "length (settle_at v ps (fst w)) = length ps" by (simp add: settle_at_def)
  moreover have "settle_at v ps (fst w) ! p = (if ps ! p = None \<and> p = fst w then Some v else ps ! p)"
    using Cons.prems by (auto simp: settle_at_def nth_list_update)
  ultimately show ?case using Cons by auto
qed (simp add: settle_list_def)

section \<open>The methods as record updates\<close>

definition clear_opt :: "nat option \<Rightarrow> 'cb clock \<Rightarrow> 'cb clock" where
  "clear_opt h c = (case h of None \<Rightarrow> c | Some i \<Rightarrow> clearTimer i c)"

definition close_at :: "nat option \<Rightarrow> ready_state list \<Rightarrow> ready_state list" where
  "close_at so ss =
     (case so of None \<Rightarrow> ss
      | Some i \<Rightarrow> if i < length ss \<and> ss ! i \<in> {CONNECTING, OPEN} then ss[i := CLOSING] else ss)"

definition close_store :: "store \<Rightarrow> store" where
  "close_store p = (if p = NoStore then NoStore else StoreClosed)"

lemmas page_defs = saveState_def notice_def app_call_def settle_eq socket_send_def

lemma clearTimeout_eq: "clearTimeout h s = s\<lparr>timers := clear_opt h (timers s)\<rparr>"
  by (simp add: clearTimeout_def clear_opt_def split: option.split)

lemma socket_close_eq: "socket_close so s = s\<lparr>sockets := close_at so (sockets s)\<rparr>"
  by (auto simp: socket_close_def close_at_def split: option.split)

lemma destroy_eq [step_simps]:
  "destroy s = s\<lparr>destroyed := True,
     timers := clear_timers (flushWaiters s) (clear_opt (reconnectTimer s) (timers s)),
     promises := settle_list (FlushError ''collaboration session closed'') (flushWaiters s) (promises s),
     flushWaiters := [], sockets := close_at (socket s) (sockets s),
     persistence := close_store (persistence s), listening := False, socket := None, doc_live := False\<rparr>"
  by (simp add: destroy_def rejectFlushes_def clearTimeout_eq socket_close_eq settleFlushes_eq Let_def
      close_store_def)

lemma sendUpdate_eq [step_simps]:
  "sendUpdate u s =
     (if socketIsOpen s
      then s\<lparr>clientSequence := clientSequence s + 1,
             pending_seqs := insert (clientSequence s + 1) (pending_seqs s), saveStatus := Syncing,
             sent := sent s @ [(the (socket s), source_frame (clientSequence s + 1) u)]\<rparr>
      else s\<lparr>saveStatus := Offline\<rparr>)"
  by (simp add: sendUpdate_def page_defs Let_def)

lemma onClose_eq [step_simps]:
  "socket s = Some i \<Longrightarrow> \<not> destroyed s \<Longrightarrow>
     onClose i s = s\<lparr>connected := False, pending_seqs := {}, flushWaiters := [],
       timers := snd (setTimer Reconnect (backoff s) (clear_timers (flushWaiters s) (timers s))),
       promises := settle_list (FlushError ''connection closed before durable flush'')
         (flushWaiters s) (promises s),
       saveStatus := Reconnecting,
       reconnectTimer := Some (fst (setTimer Reconnect (backoff s) (clear_timers (flushWaiters s) (timers s)))),
       backoff := min (backoff s * 2) 5000\<rparr>"
  by (simp add: onClose_def rejectFlushes_def settleFlushes_eq page_defs Let_def split: prod.split)

lemma onClose_other: "socket s \<noteq> Some i \<Longrightarrow> onClose i s = s"
  by (simp add: onClose_def)

lemma flush_eq [step_simps]:
  "flush s =
     (if access s \<noteq> ReadWrite then s\<lparr>promises := promises s @ [Some (FlushOk 0)]\<rparr>
      else if \<not> socketIsOpen s then s\<lparr>saveStatus := Offline, promises := promises s @ [Some (FlushError
           ''Offline edits are safely stored locally; reconnect before this structural operation.'')]\<rparr>
      else s\<lparr>sent := sent s @ [(the (socket s), flush_frame)], saveStatus := Syncing,
             timers := snd (setTimer (FlushTimeout (length (promises s))) 10000 (timers s)),
             promises := promises s @ [None],
             flushWaiters := flushWaiters s
               @ [(length (promises s), fst (setTimer (FlushTimeout (length (promises s))) 10000 (timers s)))]\<rparr>)"
  by (simp add: flush_def page_defs Let_def split: prod.split)

lemma preserveOldEpoch_eq [step_simps]:
  "preserveOldEpoch y cfg e s =
     (let recovered = (case ydoc s of None \<Rightarrow> [] | Some d \<Rightarrow> sourceText y d);
          s2 = destroy (s\<lparr>recoveryText := Some recovered, copyRecoveryHidden := (recovered = []),
            conflict := True, saveStatus := Conflict,
            writerNotice := Some (''Offline changes from the previous paper version were preserved locally and were not merged after restoration.'', True)\<rparr>)
      in if paperOpen cfg \<and> e \<noteq> None then s2\<lparr>timers := snd (setTimer ReopenPaper 0 (timers s2))\<rparr> else s2)"
  by (simp add: preserveOldEpoch_def page_defs Let_def)

text \<open>The outcomes of the two halves of the initialization.\<close>

lemma initializeOrMerge_cases:
  obtains (waits) "initializeOrMerge y cfg s = s"
  | (opens) e where "initializeOrMerge y cfg s = s\<lparr>initializing := True, ydoc := Some (newDoc y),
        doc_live := True, persistence := Loading (persistence_key cfg e)\<rparr>"
      "metadata s = Some e" "\<not> doc_live s"
  | (merges) e d where "initializeOrMerge y cfg s = announce y (s\<lparr>ydoc := Some d\<rparr>)"
      "metadata s = Some e" "doc_live s" "\<not> initializing s"
proof -
  consider "metadata s = None \<or> initialState s = None \<or> initializing s"
    | e st where "metadata s = Some e" "initialState s = Some st" "\<not> initializing s" "\<not> doc_live s"
    | e st where "metadata s = Some e" "initialState s = Some st" "\<not> initializing s" "doc_live s"
    by (cases "metadata s"; cases "initialState s") auto
  then show ?thesis
  proof cases
    case 1
    then show ?thesis by (intro waits) (auto simp: initializeOrMerge_def split: option.split)
  next
    case 2
    then show ?thesis by (intro opens) (simp_all add: initializeOrMerge_def)
  next
    case 3
    then show ?thesis
      by (cases "applyUpdate y st (the (ydoc s))")
        (auto intro: waits merges simp: initializeOrMerge_def)
  qed
qed

definition loaded_store :: "store \<Rightarrow> store" where
  "loaded_store p = (case p of Loading k \<Rightarrow> Loaded k | p \<Rightarrow> p)"

lemma resumeInitialize_cases:
  obtains (stuck) d where "resumeInitialize y cfg us s = s\<lparr>ydoc := Some d,
        persistence := loaded_store (persistence s), initializing := False\<rparr>"
  | (mounts) d where "resumeInitialize y cfg us s = announce y (s\<lparr>
        persistence := loaded_store (persistence s), initializing := False, ydoc := Some d,
        bufferedRemote := [],
        listening := True,
        app_calls := app_calls s @ [MountEditor (requestedEditable cfg \<and> access s = ReadWrite)],
        ready := True\<rparr>)"
      "initialState s \<noteq> None"
proof (cases "Option.bind (initialState s) (\<lambda>st. applyUpdate y st (fst (apply_all y us (the (ydoc s)))))")
  case None
  then show ?thesis
    by (intro stuck [of "fst (apply_all y us (the (ydoc s)))"])
      (simp add: resumeInitialize_def Let_def loaded_store_def)
next
  case (Some d1)
  obtain d2 ok where ok: "apply_all y (bufferedRemote s) d1 = (d2, ok)" by fastforce
  show ?thesis
  proof (cases ok)
    case True
    then show ?thesis
      using Some ok by (intro mounts [of d2])
        (auto simp: resumeInitialize_def Let_def page_defs loaded_store_def bind_eq_Some_conv)
  next
    case False
    then show ?thesis
      using Some ok by (intro stuck [of d2]) (simp add: resumeInitialize_def Let_def loaded_store_def)
  qed
qed

section \<open>The invariant\<close>

text \<open>Only the current socket is in use, and it is never one the session has closed itself.\<close>

definition cur_socket :: "nat option \<Rightarrow> ready_state list \<Rightarrow> bool" where
  "cur_socket so ss \<longleftrightarrow>
     (case so of None \<Rightarrow> True | Some i \<Rightarrow> i < length ss \<and> ss ! i \<noteq> CLOSING) \<and>
     (\<forall>i<length ss. so \<noteq> Some i \<longrightarrow> ss ! i \<in> {CLOSING, CLOSED})"

text \<open>A session that lost its socket has one reconnection armed; otherwise none is.\<close>

definition reconnects :: "timer_cb clock \<Rightarrow> nat option \<Rightarrow> nat option \<Rightarrow> ready_state list \<Rightarrow> bool" where
  "reconnects c rt so ss \<longleftrightarrow> clock_wf c \<and>
     (\<forall>h d. lookup_timer c h = Some (d, Reconnect) \<longrightarrow> rt = Some h \<and> (\<exists>i. so = Some i \<and> ss ! i = CLOSED)) \<and>
     (\<forall>i. so = Some i \<and> ss ! i = CLOSED \<longrightarrow>
        (\<exists>h d. rt = Some h \<and> lookup_timer c h = Some (d, Reconnect) \<and> d \<le> now c + 5000))"

text \<open>An unsettled flush waits, with its timeout armed.\<close>

definition waits_for :: "(nat \<times> nat) list \<Rightarrow> timer_cb clock \<Rightarrow> nat \<Rightarrow> bool" where
  "waits_for ws c p \<longleftrightarrow>
     (\<exists>h d. (p, h) \<in> set ws \<and> lookup_timer c h = Some (d, FlushTimeout p) \<and> d \<le> now c + 10000)"

definition flushes_wait :: "flush_outcome option list \<Rightarrow> (nat \<times> nat) list \<Rightarrow> timer_cb clock \<Rightarrow> bool" where
  "flushes_wait ps ws c \<longleftrightarrow> (\<forall>p<length ps. ps ! p = None \<longrightarrow> waits_for ws c p)"

definition doc_state :: "bool \<Rightarrow> nat option \<Rightarrow> bool \<Rightarrow> bool \<Rightarrow> 'd option \<Rightarrow> store \<Rightarrow> bool \<Rightarrow> nat \<Rightarrow> bool" where
  "doc_state dead so live listens d st init n \<longleftrightarrow>
     (dead \<longleftrightarrow> so = None) \<and> (dead \<longrightarrow> \<not> live \<and> \<not> is_loading st) \<and> (listens \<longrightarrow> live) \<and>
     (live \<longrightarrow> d \<noteq> None) \<and> (is_loading st \<longrightarrow> init \<and> live \<and> \<not> listens \<and> n = 0) \<and> (\<not> live \<and> \<not> dead \<longrightarrow> n = 0)"

text \<open>
  Updates are numbered 1, 2, ... in the order they are sent; the unacknowledged ones are among them and
  went to the current socket, which is open while there are any.
\<close>

definition is_source :: "byte list \<Rightarrow> bool" where
  "is_source f = (f \<noteq> [] \<and> hd f = SOURCE_UPDATE)"

definition numbered :: "nat \<Rightarrow> (nat \<times> byte list) list \<Rightarrow> bool" where
  "numbered n snt \<longleftrightarrow>
     (\<exists>us. length us = n \<and> filter is_source (map snd snt) = map2 source_frame [1..<Suc n] us)"

definition pending_on :: "nat \<Rightarrow> nat set \<Rightarrow> (nat \<times> byte list) list \<Rightarrow> nat option \<Rightarrow> ready_state list \<Rightarrow> bool" where
  "pending_on n pend snt so ss \<longleftrightarrow> pend \<subseteq> {1..n} \<and>
     (\<forall>i. so = Some i \<longrightarrow> pend = {} \<or>
        ss ! i = OPEN \<and> (\<forall>q\<in>pend. \<exists>u. (i, source_frame q u) \<in> set snt))"

definition status_ok :: "save_state \<Rightarrow> nat set \<Rightarrow> access \<Rightarrow> nat option \<Rightarrow> bool" where
  "status_ok st pend mode md \<longleftrightarrow> (st = Synced \<and> pend \<noteq> {} \<longrightarrow> mode = ReadOnly \<and> md \<noteq> None)"

definition epoch_ok :: "config \<Rightarrow> nat option \<Rightarrow> nat option \<Rightarrow> store \<Rightarrow> bool" where
  "epoch_ok cfg md de st \<longleftrightarrow> (md \<noteq> None \<longrightarrow> md = de) \<and>
     (\<forall>k. st = Loading k \<or> st = Loaded k \<longrightarrow> (\<exists>e. de = Some e \<and> k = persistence_key cfg e))"

definition backoffs :: "nat set" where
  "backoffs = {250, 500, 1000, 2000, 4000, 5000}"

definition collab_inv :: "config \<Rightarrow> 'd session \<Rightarrow> bool" where
  "collab_inv cfg s \<longleftrightarrow>
     cur_socket (socket s) (sockets s) \<and>
     reconnects (timers s) (reconnectTimer s) (socket s) (sockets s) \<and>
     flushes_wait (promises s) (flushWaiters s) (timers s) \<and>
     doc_state (destroyed s) (socket s) (doc_live s) (listening s) (ydoc s) (persistence s)
       (initializing s) (clientSequence s) \<and>
     numbered (clientSequence s) (sent s) \<and>
     pending_on (clientSequence s) (pending_seqs s) (sent s) (socket s) (sockets s) \<and>
     status_ok (saveStatus s) (pending_seqs s) (access s) (metadata s) \<and>
     epoch_ok cfg (metadata s) (documentEpoch s) (persistence s) \<and>
     backoff s \<in> backoffs"

subsection \<open>Sockets and timers\<close>

lemma cur_socket_drop:
  assumes "cur_socket so ss"
  shows "cur_socket None (close_at so ss)"
proof (cases so)
  case (Some a)
  have "ss ! a \<in> {CONNECTING, OPEN} \<or> ss ! a = CLOSED"
    using assms Some by (cases "ss ! a") (auto simp: cur_socket_def)
  then show ?thesis
    using assms Some by (auto simp: cur_socket_def close_at_def nth_list_update)
qed (use assms in \<open>simp add: cur_socket_def close_at_def\<close>)

lemma cur_socket_new:
  assumes "cur_socket so ss" and "\<And>i. so = Some i \<Longrightarrow> ss ! i = CLOSED"
  shows "cur_socket (Some (length ss)) (ss @ [CONNECTING])"
  using assms unfolding cur_socket_def by (cases so) (auto simp: nth_append less_Suc_eq)

lemma cur_socket_update:
  "cur_socket so ss \<Longrightarrow> i < length ss \<Longrightarrow> (r = OPEN \<and> ss ! i = CONNECTING) \<or> r = CLOSED \<Longrightarrow>
     cur_socket so (ss[i := r])"
  unfolding cur_socket_def by (cases so) (auto simp: nth_list_update)

lemma cur_socket_active:
  "cur_socket so ss \<Longrightarrow> i < length ss \<Longrightarrow> ss ! i \<in> {CONNECTING, OPEN} \<Longrightarrow> so = Some i"
  unfolding cur_socket_def by auto

lemma clear_opt_wf: "clock_wf c \<Longrightarrow> clock_wf (clear_opt h c)"
  by (auto simp: clear_opt_def clk.disarm_wf split: option.split)

lemma clear_opt_lookup:
  "clock_wf c \<Longrightarrow> lookup_timer (clear_opt rt c) h = (if rt = Some h then None else lookup_timer c h)"
  by (auto simp: clear_opt_def clk.disarm_timer split: option.split)

lemma setTimer_lookup:
  "clock_wf c \<Longrightarrow> lookup_timer (snd (setTimer cb d c)) h
     = (if h = fst (setTimer cb d c) then Some (now c + d, cb) else lookup_timer c h)"
  using clk.arm_timer [of c cb d] by simp

lemma setTimer_fresh: "clock_wf c \<Longrightarrow> lookup_timer c (fst (setTimer cb d c)) = None"
  by (rule clk.arm_fresh)

lemmas timer_facts = clear_timers_lookup clear_timers_wf clear_opt_lookup clear_opt_wf setTimer_lookup
  clk.arm_wf clk.arm_time clk.disarm_wf clk.disarm_timer clk.disarm_time

lemma reconnects_wf: "reconnects c rt so ss \<Longrightarrow> clock_wf c"
  by (simp add: reconnects_def)

lemma reconnects_destroy:
  assumes "reconnects c rt so ss"
  shows "reconnects (clear_timers ws (clear_opt rt c)) rt' None ss'"
  using assms unfolding reconnects_def by (auto simp: timer_facts)

lemma reconnects_close:
  assumes "reconnects c rt so ss" "so = Some i" "i < length ss" "ss ! i \<noteq> CLOSED" "d \<le> 5000"
  shows "reconnects (snd (setTimer Reconnect d (clear_timers ws c)))
    (Some (fst (setTimer Reconnect d (clear_timers ws c)))) so (ss[i := CLOSED])"
  using assms unfolding reconnects_def by (auto simp: timer_facts split: if_splits)

lemma reconnects_open:
  assumes "reconnects c rt so ss" "so = Some i" "ss ! i \<noteq> CLOSED"
  shows "reconnects (clear_timers ws c) rt so ss"
  using assms unfolding reconnects_def by (auto simp: timer_facts split: if_splits)

lemma reconnects_cong:
  assumes "\<And>i. so = Some i \<Longrightarrow> (ss ! i = CLOSED) = (ss' ! i = CLOSED)"
  shows "reconnects c rt so ss = reconnects c rt so ss'"
  using assms unfolding reconnects_def by (cases so) simp_all

lemma reconnects_update:
  assumes "reconnects c rt so ss" "so \<noteq> Some i \<or> (i < length ss \<and> ss ! i \<noteq> CLOSED \<and> r \<noteq> CLOSED)"
  shows "reconnects c rt so (ss[i := r])"
  using assms(1)
  by (subst reconnects_cong [where ss' = ss]) (use assms(2) in \<open>auto simp: nth_list_update split: if_splits\<close>)

lemma reconnects_arm:
  assumes "reconnects c rt so ss" "cb \<noteq> Reconnect"
  shows "reconnects (snd (setTimer cb d c)) rt so ss"
proof -
  have wf: "clock_wf c" using assms(1) by (rule reconnects_wf)
  have "lookup_timer (snd (setTimer cb d c)) h = Some (e, Reconnect) \<longleftrightarrow> lookup_timer c h = Some (e, Reconnect)" for h e
    using setTimer_fresh [OF wf, of cb d] assms(2) by (auto simp: setTimer_lookup [OF wf])
  then show ?thesis
    using assms(1) unfolding reconnects_def by (simp add: clk.arm_wf clk.arm_time)
qed

lemma reconnects_clear:
  assumes "reconnects c rt so ss" "lookup_timer c h = Some (d, cb)" "cb \<noteq> Reconnect"
  shows "reconnects (clearTimer h c) rt so ss"
proof -
  have wf: "clock_wf c" using assms(1) by (rule reconnects_wf)
  have "lookup_timer (clearTimer h c) k = Some (e, Reconnect) \<longleftrightarrow> lookup_timer c k = Some (e, Reconnect)" for k e
    using assms(2,3) by (auto simp: clk.disarm_timer [OF wf])
  then show ?thesis
    using assms(1) unfolding reconnects_def by (simp add: clk.disarm_wf clk.disarm_time)
qed

lemma reconnects_fire:
  assumes "reconnects c rt so ss" "lookup_timer c h = Some (d, Reconnect)"
  shows "reconnects (clearTimer h c) rt (Some (length ss)) (ss @ [CONNECTING])"
  using assms unfolding reconnects_def by (auto simp: timer_facts nth_append split: if_splits)

lemma reconnects_elapse:
  "reconnects c rt so ss \<Longrightarrow> reconnects (c\<lparr>now := now c + ms\<rparr>) rt so ss"
  unfolding reconnects_def clock_wf_def lookup_timer_def by fastforce

subsection \<open>Flush promises\<close>

lemma settle_list_all:
  assumes "flushes_wait ps ws c" "p < length ps"
  shows "settle_list v ws ps ! p \<noteq> None"
proof (cases "ps ! p = None")
  case True
  then have "p \<in> fst ` set ws" using assms unfolding flushes_wait_def waits_for_def by force
  with assms(2) True show ?thesis by (simp add: settle_list_nth)
qed (use assms(2) in \<open>simp add: settle_list_nth\<close>)

lemma flushes_settled:
  assumes "flushes_wait ps ws c"
  shows "flushes_wait (settle_list v ws ps) ws' c'"
  unfolding flushes_wait_def using settle_list_all [OF assms] by (metis settle_list_length)

lemma flushes_append: "flushes_wait ps ws c \<Longrightarrow> flushes_wait (ps @ [Some v]) ws c"
  unfolding flushes_wait_def by (auto simp: nth_append less_Suc_eq)

lemma waits_for_mono:
  assumes "waits_for ws c p" "set ws \<subseteq> set ws'" "now c \<le> now c'"
    and "\<And>h d. lookup_timer c h = Some (d, FlushTimeout p) \<Longrightarrow> lookup_timer c' h = Some (d, FlushTimeout p)"
  shows "waits_for ws' c' p"
proof -
  obtain h d where "(p, h) \<in> set ws" "lookup_timer c h = Some (d, FlushTimeout p)" "d \<le> now c + 10000"
    using assms(1) unfolding waits_for_def by blast
  with assms(2-4) have "(p, h) \<in> set ws'" "lookup_timer c' h = Some (d, FlushTimeout p)" "d \<le> now c' + 10000"
    by auto
  then show ?thesis unfolding waits_for_def by blast
qed

lemma flushes_arm:
  assumes "clock_wf c" "flushes_wait ps ws c"
  shows "flushes_wait ps (ws @ xs) (snd (setTimer cb d c))"
proof -
  have "lookup_timer (snd (setTimer cb d c)) h = Some e" if "lookup_timer c h = Some e" for h e
    using that setTimer_fresh [OF assms(1), of cb d] by (auto simp: setTimer_lookup [OF assms(1)])
  then have "waits_for (ws @ xs) (snd (setTimer cb d c)) p" if "waits_for ws c p" for p
    using that by (rule waits_for_mono [rotated 3]) (simp_all add: clk.arm_time)
  then show ?thesis using assms(2) by (simp add: flushes_wait_def)
qed

lemma flushes_new:
  assumes "clock_wf c" "flushes_wait ps ws c"
  shows "flushes_wait (ps @ [None])
    (ws @ [(length ps, fst (setTimer (FlushTimeout (length ps)) 10000 c))])
    (snd (setTimer (FlushTimeout (length ps)) 10000 c))"
proof -
  let ?c = "snd (setTimer (FlushTimeout (length ps)) 10000 c)"
  let ?h = "fst (setTimer (FlushTimeout (length ps)) 10000 c)"
  let ?ws = "ws @ [(length ps, ?h)]"
  have "lookup_timer ?c ?h = Some (now ?c + 10000, FlushTimeout (length ps))"
    by (simp add: setTimer_lookup [OF assms(1)] clk.arm_time)
  then have "waits_for ?ws ?c (length ps)"
    unfolding waits_for_def by (intro exI [of _ ?h] exI [of _ "now ?c + 10000"]) simp
  moreover have "flushes_wait ps ?ws ?c" by (rule flushes_arm [OF assms])
  ultimately show ?thesis by (auto simp: flushes_wait_def nth_append less_Suc_eq)
qed

lemma flushes_clear:
  assumes "clock_wf c" "flushes_wait ps ws c" "lookup_timer c h = Some (d, cb)" "\<And>p. cb \<noteq> FlushTimeout p"
  shows "flushes_wait ps ws (clearTimer h c)"
proof -
  have "waits_for ws (clearTimer h c) p" if "waits_for ws c p" for p
    using that by (rule waits_for_mono)
      (use assms(3,4) in \<open>auto simp: clk.disarm_timer [OF assms(1)] clk.disarm_time\<close>)
  then show ?thesis using assms(2) by (simp add: flushes_wait_def)
qed

lemma flushes_timeout:
  assumes "clock_wf c" "flushes_wait ps ws c" "lookup_timer c h = Some (d, FlushTimeout p)"
  shows "flushes_wait (settle_at v ps p) ws (clearTimer h c)"
  unfolding flushes_wait_def
proof (intro allI impI)
  fix q assume q: "q < length (settle_at v ps p)" "settle_at v ps p ! q = None"
  then have "q < length ps" "ps ! q = None" "q \<noteq> p"
    by (auto simp: settle_at_def nth_list_update split: if_splits)
  then have "waits_for ws c q" using assms(2) unfolding flushes_wait_def by blast
  then show "waits_for ws (clearTimer h c) q"
    by (rule waits_for_mono)
      (use assms(3) \<open>q \<noteq> p\<close> in \<open>auto simp: clk.disarm_timer [OF assms(1)] clk.disarm_time\<close>)
qed

lemma flushes_elapse:
  assumes "flushes_wait ps ws c"
  shows "flushes_wait ps ws (c\<lparr>now := now c + ms\<rparr>)"
proof -
  have "waits_for ws (c\<lparr>now := now c + ms\<rparr>) p" if "waits_for ws c p" for p
    using that by (rule waits_for_mono) (simp_all add: lookup_timer_def)
  then show ?thesis using assms by (simp add: flushes_wait_def)
qed

subsection \<open>Sequence numbers\<close>

lemma is_source_frames [simp]: "is_source (source_frame q u)" "\<not> is_source flush_frame"
  by (simp_all add: is_source_def source_frame_def flush_frame_def FLUSH_def SOURCE_UPDATE_def)

lemma numbered_update:
  assumes "numbered n snt"
  shows "numbered (n + 1) (snt @ [(i, source_frame (n + 1) u)])"
proof -
  obtain us where us: "length us = n" "filter is_source (map snd snt) = map2 source_frame [1..<Suc n] us"
    using assms unfolding numbered_def by blast
  then have "filter is_source (map snd (snt @ [(i, source_frame (n + 1) u)]))
      = map2 source_frame [1..<Suc (n + 1)] (us @ [u])"
    by (simp add: zip_append)
  with us(1) show ?thesis unfolding numbered_def by (metis length_append_singleton Suc_eq_plus1)
qed

lemma numbered_flush: "numbered n snt \<Longrightarrow> numbered n (snt @ [(i, flush_frame)])"
  by (simp add: numbered_def)

lemma pending_empty: "pending_on n {} snt so ss"
  by (simp add: pending_on_def)

lemma pending_update:
  assumes "pending_on n P snt (Some i) ss" "ss ! i = OPEN"
  shows "pending_on (n + 1) (insert (n + 1) P) (snt @ [(i, source_frame (n + 1) u)]) (Some i) ss"
  using assms unfolding pending_on_def by auto

lemma pending_sub:
  assumes "pending_on n P snt so ss" "Q \<subseteq> P"
  shows "pending_on n Q (snt @ xs) so ss"
  using assms unfolding pending_on_def by (cases so) auto

lemma pending_drop: "pending_on n P snt so ss \<Longrightarrow> pending_on n P snt None ss'"
  by (simp add: pending_on_def)

lemma pending_closed: "pending_on n P snt (Some i) ss \<Longrightarrow> ss ! i \<noteq> OPEN \<Longrightarrow> P = {}"
  by (simp add: pending_on_def)

lemma pending_sockets:
  assumes "pending_on n P snt so ss" "ss ! i \<noteq> OPEN \<or> so \<noteq> Some i"
  shows "pending_on n P snt so (ss[i := r])"
proof (cases so)
  case (Some a)
  have "ss[i := r] ! a = OPEN" if "ss ! a = OPEN"
    using that assms(2) Some by (cases "a = i") auto
  then show ?thesis using assms(1) Some unfolding pending_on_def by auto
qed (use assms(1) in \<open>simp add: pending_on_def\<close>)

subsection \<open>Document and epoch\<close>

lemma doc_state_seq:
  "doc_state dead so True l d st init n \<Longrightarrow> \<not> is_loading st \<Longrightarrow> doc_state dead so True l d st init m"
  unfolding doc_state_def by auto

lemma doc_state_destroy:
  "doc_state dead so live l d st init n \<Longrightarrow> doc_state True None False False d (close_store st) init' n"
  unfolding doc_state_def by (auto simp: close_store_def is_loading_def)

lemma doc_state_loaded:
  "doc_state dead so True l d st init n \<Longrightarrow> \<not> is_loading st' \<Longrightarrow> doc_state dead so True l' (Some d') st' init' n"
  unfolding doc_state_def by auto

lemma doc_state_create:
  "doc_state dead so False l d st init n \<Longrightarrow> \<not> dead \<Longrightarrow>
     doc_state dead so True l (Some d') (Loading k) True n"
  unfolding doc_state_def by auto

lemma doc_state_content:
  "doc_state dead so live l d st init n \<Longrightarrow> doc_state dead so live l (Some d') st init n"
  unfolding doc_state_def by auto

lemma epoch_ok_close: "epoch_ok cfg md de st \<Longrightarrow> epoch_ok cfg md de (close_store st)"
  unfolding epoch_ok_def close_store_def by simp

lemma loaded_not_loading [simp]: "\<not> is_loading (loaded_store p)"
  by (simp add: is_loading_def loaded_store_def split: store.split)

lemma epoch_ok_loaded: "epoch_ok cfg md de st \<Longrightarrow> epoch_ok cfg md de (loaded_store st)"
  unfolding epoch_ok_def loaded_store_def by (simp split: store.split)

lemma epoch_ok_open: "epoch_ok cfg (Some e) de st \<Longrightarrow> epoch_ok cfg (Some e) de (Loading (persistence_key cfg e))"
  unfolding epoch_ok_def by auto

subsection \<open>The methods keep the invariant\<close>

lemma collab_invD:
  assumes "collab_inv cfg s"
  shows "clock_wf (timers s)" "destroyed s \<longleftrightarrow> socket s = None" "doc_live s \<Longrightarrow> ydoc s \<noteq> None"
    "listening s \<Longrightarrow> doc_live s" "doc_live s \<Longrightarrow> \<not> destroyed s"
    "is_loading (persistence s) \<Longrightarrow> initializing s \<and> doc_live s \<and> \<not> listening s \<and> clientSequence s = 0"
    "is_loading (persistence s) \<Longrightarrow> pending_seqs s = {}"
    "socket_in s i {CONNECTING, OPEN} \<Longrightarrow> socket s = Some i"
  using assms reconnects_wf [of "timers s"]
  by (auto simp: collab_inv_def doc_state_def pending_on_def socket_in_def intro: cur_socket_active)

lemma socketIsOpen_iff:
  "collab_inv cfg s \<Longrightarrow> socketIsOpen s \<longleftrightarrow> (\<exists>i. socket s = Some i \<and> sockets s ! i = OPEN)"
  by (auto simp: socketIsOpen_def collab_inv_def cur_socket_def split: option.splits)

lemma inv_sendUpdate:
  assumes "collab_inv cfg s" "doc_live s" "\<not> is_loading (persistence s)"
  shows "collab_inv cfg (sendUpdate u s)"
proof (cases "socketIsOpen s")
  case True
  then obtain i where i: "socket s = Some i" "sockets s ! i = OPEN"
    using socketIsOpen_iff [OF assms(1)] by blast
  have "doc_state (destroyed s) (socket s) True (listening s) (ydoc s) (persistence s)
      (initializing s) (clientSequence s)"
    using assms(1,2) by (simp add: collab_inv_def)
  from doc_state_seq [OF this assms(3), of "clientSequence s + 1"]
  have "doc_state (destroyed s) (socket s) (doc_live s) (listening s) (ydoc s) (persistence s)
      (initializing s) (clientSequence s + 1)"
    using assms(2) by simp
  with assms(1) i show ?thesis
    unfolding sendUpdate_eq if_P [OF True] collab_inv_def
    using numbered_update [of "clientSequence s" "sent s" i u]
      pending_update [of "clientSequence s" "pending_seqs s" "sent s" i "sockets s" u]
    by (simp add: status_ok_def)
next
  case False
  with assms(1) show ?thesis by (simp add: sendUpdate_eq collab_inv_def status_ok_def)
qed

lemma inv_announce:
  assumes "collab_inv cfg s" "doc_live s" "\<not> is_loading (persistence s)"
    and "metadata s \<noteq> None \<or> pending_seqs s = {}"
  shows "collab_inv cfg (announce y s)"
proof (cases "access s")
  case ReadOnly
  then show ?thesis
    using assms by (auto simp: announce_def page_defs collab_inv_def status_ok_def)
qed (simp add: announce_def inv_sendUpdate [OF assms(1-3)])

lemma inv_destroy: "collab_inv cfg s \<Longrightarrow> collab_inv cfg (destroy s)"
  by (auto simp: collab_inv_def destroy_eq intro: cur_socket_drop reconnects_destroy flushes_settled
      doc_state_destroy pending_drop epoch_ok_close)

lemma inv_connect_start: "collab_inv cfg (start session_init)"
  by (simp add: collab_inv_def start_def connect_def session_init_def page_defs cur_socket_def
      reconnects_def flushes_wait_def doc_state_def numbered_def pending_on_def status_ok_def
      epoch_ok_def backoffs_def is_loading_def split: option.split)
    (auto simp: nth_Cons')

lemma inv_initialize:
  assumes "collab_inv cfg s" "\<not> destroyed s"
  shows "collab_inv cfg (initializeOrMerge y cfg s)"
proof (cases rule: initializeOrMerge_cases [of y cfg s])
  case waits
  with assms(1) show ?thesis by simp
next
  case (opens e)
  with assms show ?thesis
    by (auto simp: collab_inv_def intro: doc_state_create epoch_ok_open)
next
  case (merges e d)
  then have "\<not> is_loading (persistence s)" using collab_invD(6) [OF assms(1)] by auto
  moreover have "collab_inv cfg (s\<lparr>ydoc := Some d\<rparr>)"
    using assms(1) by (auto simp: collab_inv_def intro: doc_state_content)
  ultimately show ?thesis
    unfolding merges(1) by (intro inv_announce) (simp_all add: merges)
qed

lemma inv_resume:
  assumes "collab_inv cfg s" "is_loading (persistence s)"
  shows "collab_inv cfg (resumeInitialize y cfg us s)"
proof -
  have live: "doc_live s" "pending_seqs s = {}" using collab_invD(6,7) [OF assms(1)] assms(2) by auto
  show ?thesis
  proof (cases rule: resumeInitialize_cases [of y cfg us s])
    case (stuck d)
    with assms live show ?thesis
      by (auto simp: collab_inv_def intro: doc_state_loaded epoch_ok_loaded)
  next
    case (mounts d)
    let ?m = "s\<lparr>persistence := loaded_store (persistence s), initializing := False, ydoc := Some d,
        bufferedRemote := [], listening := True,
        app_calls := app_calls s @ [MountEditor (requestedEditable cfg \<and> access s = ReadWrite)],
        ready := True\<rparr>"
    have "collab_inv cfg ?m"
      using assms live by (auto simp: collab_inv_def intro: doc_state_loaded epoch_ok_loaded)
    with live show ?thesis unfolding mounts(1) by (intro inv_announce) simp_all
  qed
qed

lemma inv_preserveOldEpoch: "collab_inv cfg s \<Longrightarrow> collab_inv cfg (preserveOldEpoch y cfg e s)"
proof -
  assume inv: "collab_inv cfg s"
  have arm: "collab_inv cfg (t\<lparr>timers := snd (setTimer ReopenPaper 0 (timers t))\<rparr>)"
    if "collab_inv cfg t" for t :: "'a session"
    using that collab_invD(1) [OF that] flushes_arm [of "timers t" "promises t" "flushWaiters t" "[]"]
    by (simp add: collab_inv_def reconnects_arm)
  have "collab_inv cfg (s\<lparr>recoveryText := r, copyRecoveryHidden := h, conflict := True,
      saveStatus := Conflict, writerNotice := w\<rparr>)" for r h w
    using inv by (simp add: collab_inv_def status_ok_def)
  from inv_destroy [OF this] show ?thesis
    by (simp add: preserveOldEpoch_eq Let_def arm)
qed

subsection \<open>The events keep the invariant\<close>

lemma inv_pending_sub:
  assumes "collab_inv cfg s" "Q \<subseteq> pending_seqs s"
  shows "collab_inv cfg (s\<lparr>pending_seqs := Q\<rparr>)"
  using assms pending_sub [of "clientSequence s" "pending_seqs s" "sent s" "socket s" "sockets s" Q "[]"]
  by (auto simp: collab_inv_def status_ok_def)

lemma inv_status: "collab_inv cfg s \<Longrightarrow> st \<noteq> Synced \<or> pending_seqs s = {} \<Longrightarrow> collab_inv cfg (s\<lparr>saveStatus := st\<rparr>)"
  by (auto simp: collab_inv_def status_ok_def)

lemma inv_calls: "collab_inv cfg s \<Longrightarrow> collab_inv cfg (s\<lparr>app_calls := cs\<rparr>)"
  by (simp add: collab_inv_def)

lemma inv_durableNotice: "collab_inv cfg s \<Longrightarrow> collab_inv cfg (durableNotice cfg s)"
  by (simp add: durableNotice_def page_defs Let_def inv_calls)

lemma inv_resolveFlushes:
  assumes "collab_inv cfg s" "socket s = Some i" "sockets s ! i = OPEN"
  shows "collab_inv cfg (resolveFlushes n s)"
  using assms by (auto simp: collab_inv_def resolveFlushes_def settleFlushes_eq
      intro: reconnects_open flushes_settled)

lemma inv_syncedIfNothingPending: "collab_inv cfg s \<Longrightarrow> collab_inv cfg (syncedIfNothingPending s)"
  by (simp add: syncedIfNothingPending_def page_defs inv_status)

lemma inv_join:
  assumes "collab_inv cfg s" "metadata s = None" "documentEpoch s = None \<or> documentEpoch s = Some e"
  shows "collab_inv cfg (s\<lparr>documentEpoch := Some e, metadata := Some e, access := mode\<rparr>)"
  using assms by (auto simp: collab_inv_def status_ok_def epoch_ok_def)

lemma inv_conflict:
  "collab_inv cfg s \<Longrightarrow> collab_inv cfg (notice w f (saveState Conflict (s\<lparr>conflict := b\<rparr>)))"
  by (simp add: collab_inv_def page_defs status_ok_def)

lemma inv_receiveControl:
  assumes "collab_inv cfg s" "socket s = Some i" "sockets s ! i = OPEN"
    and "joins (TextMessage c) \<Longrightarrow> metadata s = None"
  shows "collab_inv cfg (receiveControl y cfg c s)"
proof (cases c)
  case (JoinAccepted e mode)
  have "\<not> destroyed s" using assms(2) collab_invD(2) [OF assms(1)] by simp
  with JoinAccepted assms show ?thesis
    by (auto intro!: inv_preserveOldEpoch inv_initialize inv_join)
next
  case (DurableAck q)
  let ?s = "s\<lparr>pending_seqs := pending_seqs s - {q}\<rparr>"
  have "collab_inv cfg ?s"
    by (rule inv_pending_sub [OF assms(1)]) auto
  with DurableAck show ?thesis
    by (auto simp: Let_def page_defs intro!: inv_durableNotice inv_status)
next
  case (Flushed n)
  with assms show ?thesis by (auto intro: inv_syncedIfNothingPending inv_resolveFlushes)
next
  case RemoteDurable
  with assms show ?thesis by (auto intro: inv_durableNotice inv_syncedIfNothingPending)
next
  case (PaperEpochChanged e)
  with assms show ?thesis by (simp add: inv_preserveOldEpoch)
qed (use assms in \<open>auto intro: inv_destroy inv_conflict\<close>)

lemma inv_receiveBinary:
  assumes "collab_inv cfg s" "\<not> destroyed s"
  shows "collab_inv cfg (receiveBinary y cfg bytes s)"
proof (cases bytes)
  case (Cons t payload)
  have "collab_inv cfg (s\<lparr>initialState := Some payload\<rparr>)"
    using assms by (simp add: collab_inv_def)
  then have a: "collab_inv cfg (initializeOrMerge y cfg (s\<lparr>initialState := Some payload\<rparr>))"
    by (rule inv_initialize) (simp add: assms)
  have b: "collab_inv cfg (s\<lparr>saveStatus := Syncing\<rparr>)" by (rule inv_status [OF assms(1)]) simp
  then have c: "collab_inv cfg (s\<lparr>saveStatus := Syncing, ydoc := Some d\<rparr>)" for d
    by (auto simp: collab_inv_def intro: doc_state_content)
  from b have d: "collab_inv cfg (s\<lparr>saveStatus := Syncing, bufferedRemote := bs\<rparr>)" for bs
    by (simp add: collab_inv_def)
  from Cons a b c d assms(1) show ?thesis
    by (simp add: receiveBinary_def page_defs Let_def split: option.split)
qed (simp add: receiveBinary_def assms)

lemma inv_onClose:
  assumes "collab_inv cfg s" "socket_in s i {CONNECTING, OPEN, CLOSING}"
  shows "collab_inv cfg (onClose i (s\<lparr>sockets := (sockets s)[i := CLOSED]\<rparr>))"
proof (cases "socket s = Some i")
  case True
  have "\<not> destroyed s" using True collab_invD(2) [OF assms(1)] by simp
  have "backoff s \<le> 5000" "min (backoff s * 2) 5000 \<in> backoffs"
    using assms(1) by (auto simp: collab_inv_def backoffs_def)
  with True \<open>\<not> destroyed s\<close> assms show ?thesis
    unfolding collab_inv_def socket_in_def
    by (auto simp: onClose_eq status_ok_def pending_empty
        intro!: cur_socket_update reconnects_close intro: flushes_settled)
next
  case False
  with assms show ?thesis
    by (auto simp: onClose_other collab_inv_def socket_in_def
        intro: cur_socket_update reconnects_update pending_sockets)
qed

lemma inv_timerFires:
  assumes "collab_inv cfg s" "lookup_timer (timers s) h = Some (d, cb)"
  shows "collab_inv cfg (timerFires h s)"
proof (cases cb)
  case Reconnect
  obtain i where i: "socket s = Some i" "sockets s ! i = CLOSED"
    using assms Reconnect unfolding collab_inv_def reconnects_def by blast
  then have "pending_seqs s = {}" "\<not> destroyed s"
    using assms(1) collab_invD(2) [OF assms(1)] by (auto simp: collab_inv_def pending_on_def)
  moreover have "cur_socket (Some (length (sockets s))) (sockets s @ [CONNECTING])"
    using assms(1) i by (auto simp: collab_inv_def intro: cur_socket_new)
  moreover have "reconnects (clearTimer h (timers s)) (reconnectTimer s) (Some (length (sockets s)))
      (sockets s @ [CONNECTING])"
    using assms Reconnect by (auto simp: collab_inv_def intro: reconnects_fire)
  moreover have "flushes_wait (promises s) (flushWaiters s) (clearTimer h (timers s))"
    using assms Reconnect collab_invD(1) [OF assms(1)]
    by (auto simp: collab_inv_def intro: flushes_clear)
  moreover have "doc_state (destroyed s) (Some (length (sockets s))) (doc_live s) (listening s) (ydoc s)
      (persistence s) (initializing s) (clientSequence s)"
    using assms(1) i by (simp add: collab_inv_def doc_state_def)
  ultimately show ?thesis
    using assms Reconnect
    by (simp add: timerFires_def connect_def page_defs Let_def collab_inv_def status_ok_def
        pending_empty epoch_ok_def)
next
  case (FlushTimeout p)
  with assms collab_invD(1) [OF assms(1)] show ?thesis
    by (auto simp: timerFires_def page_defs collab_inv_def intro: reconnects_clear flushes_timeout)
next
  case ReopenPaper
  with assms collab_invD(1) [OF assms(1)] show ?thesis
    by (auto simp: timerFires_def page_defs collab_inv_def intro: reconnects_clear flushes_clear)
qed

lemma inv_flush: "collab_inv cfg s \<Longrightarrow> collab_inv cfg (flush s)"
  using socketIsOpen_iff [of cfg s] collab_invD(1) [of cfg s]
  by (auto simp: flush_eq collab_inv_def status_ok_def
      intro: flushes_append flushes_new reconnects_arm numbered_flush pending_sub)

theorem collab_inv_step:
  assumes "collab_inv cfg s" "collab_step y cfg s e s'"
  shows "collab_inv cfg s'"
  using assms(2)
proof (rule collab_stepE)
  assume en: "enabled y e s" and s': "s' = collab_handle y cfg e s"
  show ?thesis
  proof (cases e)
    case (SocketOpen i)
    then have i: "i < length (sockets s)" "sockets s ! i = CONNECTING" "socket s = Some i"
      using en collab_invD(8) [OF assms(1), of i] by (auto simp: socket_in_def)
    have "cur_socket (socket s) ((sockets s)[i := OPEN])"
      "reconnects (timers s) (reconnectTimer s) (socket s) ((sockets s)[i := OPEN])"
      "pending_on (clientSequence s) (pending_seqs s) (sent s) (socket s) ((sockets s)[i := OPEN])"
      using assms(1) i unfolding collab_inv_def
      by (auto intro: cur_socket_update reconnects_update pending_sockets)
    with assms(1) show ?thesis
      by (simp add: s' SocketOpen onOpen_def page_defs collab_inv_def status_ok_def backoffs_def)
  next
    case (SocketMessage i m)
    then have i: "sockets s ! i = OPEN" "socket s = Some i" "joins m \<Longrightarrow> metadata s = None"
      using en collab_invD(8) [OF assms(1), of i] by (auto simp: socket_in_def)
    then have "\<not> destroyed s" using collab_invD(2) [OF assms(1)] by simp
    with assms(1) i show ?thesis
      by (cases m) (auto simp: s' SocketMessage intro: inv_receiveControl inv_receiveBinary)
  next
    case (SocketClose i)
    with en assms(1) show ?thesis by (simp add: s' inv_onClose)
  next
    case (SocketError i)
    with assms(1) show ?thesis by (auto simp: s' onError_def page_defs intro: inv_status)
  next
    case (TimerFires h)
    with en assms(1) show ?thesis by (auto simp: s' intro: inv_timerFires split: option.splits)
  next
    case (Elapse ms)
    with assms(1) show ?thesis
      by (simp add: s' collab_inv_def reconnects_elapse flushes_elapse)
  next
    case (LocalEdit u)
    then have l: "listening s" "applyUpdate y u (the (ydoc s)) \<noteq> None" using en by auto
    let ?s = "s\<lparr>ydoc := applyUpdate y u (the (ydoc s))\<rparr>"
    have live: "doc_live s" "\<not> is_loading (persistence s)"
      using l(1) collab_invD(4,6) [OF assms(1)] by auto
    have "collab_inv cfg ?s"
      using assms(1) l(2) by (auto simp: collab_inv_def intro: doc_state_content)
    with live show ?thesis
      by (auto simp: s' LocalEdit onLocalUpdate_def page_defs intro: inv_sendUpdate inv_status)
  next
    case (StorageSynced us)
    with en assms(1) show ?thesis by (simp add: s' inv_resume)
  next
    case CallFlush
    with assms(1) show ?thesis by (simp add: s' inv_flush)
  next
    case CallDestroy
    with assms(1) show ?thesis by (simp add: s' inv_destroy)
  qed
qed

lemma collab_inv_reach: "collab_reach y cfg s \<Longrightarrow> collab_inv cfg s"
  by (induction rule: collab_reach.induct) (auto intro: inv_connect_start collab_inv_step)

end
