(* ===== verification/CollabProperties.thy ===== *)
theory CollabProperties
  imports CollabInvariants
begin

text \<open>
  What a collaboration session guarantees: the save status, the numbering of updates, read-only access,
  the separation of document epochs, the end of a session, reconnection and flushes. Two theorems show
  where the code falls short of its purpose: a reply to one flush resolves flushes sent after it, and a
  connection lost while the local database loads leaves a session that never mounts its editor.
\<close>

section \<open>An example document\<close>

text \<open>A document for the witnesses: an update appends its bytes.\<close>

definition log_yjs :: "byte list yjs" where
  "log_yjs = \<lparr>newDoc = [], applyUpdate = (\<lambda>u d. Some (d @ u)), encodeState = (\<lambda>d. d),
     sourceText = map (\<lambda>b. char_of (unat b))\<rparr>"

definition example_config :: config where
  "example_config = \<lparr>user_id = ''u'', workspace_id = ''w'', file_id = ''f'',
     requestedEditable = True, paperEditable = True, paperOpen = True\<rparr>"

definition joined_events :: "access \<Rightarrow> event list" where
  "joined_events mode = [SocketOpen 0, SocketMessage 0 (TextMessage (JoinAccepted 1 mode)),
     SocketMessage 0 (BinaryMessage [INITIAL_STATE, 7]), StorageSynced []]"

lemmas eval_defs = joined_events_def log_yjs_def example_config_def session_init_def start_def
  connect_def page_defs socket_in_def onOpen_def initializeOrMerge_def receiveBinary_def
  resumeInitialize_def announce_def sendUpdate_def socketIsOpen_def is_loading_def durableNotice_def
  onLocalUpdate_def flush_def INITIAL_STATE_def REMOTE_SOURCE_UPDATE_def setTimer_def clock_init_def
  Let_def

definition joined :: "access \<Rightarrow> byte list session" where
  "joined mode = the (collab_run log_yjs example_config (joined_events mode) (start session_init))"

lemma joined_run: "collab_run log_yjs example_config (joined_events mode) (start session_init) = Some (joined mode)"
  unfolding joined_def by (cases mode) (simp_all add: eval_defs)

lemma joined_reach: "collab_reach log_yjs example_config (joined mode)"
  by (rule collab_run_reach [OF collab_reach.start joined_run])

section \<open>Read-only sessions\<close>

fun grants_write :: "event \<Rightarrow> bool" where
  "grants_write (SocketMessage _ (TextMessage (JoinAccepted _ ReadWrite))) = True"
| "grants_write _ = False"

lemma access_page [simp]:
  "access (sendUpdate u s) = access s" "access (announce y s) = access s"
  "access (destroy s) = access s" "access (preserveOldEpoch y cfg e s) = access s"
  "access (flush s) = access s" "access (onLocalUpdate u s) = access s"
  by (simp_all add: sendUpdate_eq announce_def page_defs destroy_eq preserveOldEpoch_eq flush_eq
      onLocalUpdate_def Let_def)

lemma sent_page [simp]:
  "sent (destroy s) = sent s" "sent (preserveOldEpoch y cfg e s) = sent s"
  "access s = ReadOnly \<Longrightarrow> sent (announce y s) = sent s"
  "access s = ReadOnly \<Longrightarrow> sent (flush s) = sent s"
  "access s = ReadOnly \<Longrightarrow> sent (onLocalUpdate u s) = sent s"
  by (simp_all add: announce_def page_defs destroy_eq preserveOldEpoch_eq flush_eq
      onLocalUpdate_def Let_def)

lemma read_only_initialize:
  assumes "access s = ReadOnly"
  shows "access (initializeOrMerge y cfg s) = ReadOnly \<and> sent (initializeOrMerge y cfg s) = sent s"
  by (cases rule: initializeOrMerge_cases [of y cfg s]) (simp_all add: assms)

lemma read_only_resume:
  assumes "access s = ReadOnly"
  shows "access (resumeInitialize y cfg us s) = ReadOnly \<and> sent (resumeInitialize y cfg us s) = sent s"
  by (cases rule: resumeInitialize_cases [of y cfg us s]) (simp_all add: assms)

lemma read_only_control:
  assumes "access s = ReadOnly" "\<not> grants_write (SocketMessage i (TextMessage c))"
  shows "access (receiveControl y cfg c s) = ReadOnly \<and> sent (receiveControl y cfg c s) = sent s"
proof (cases c)
  case (JoinAccepted e mode)
  then have "mode = ReadOnly" using assms(2) by (cases mode) simp_all
  then show ?thesis using JoinAccepted assms(1) by (simp add: read_only_initialize)
qed (simp_all add: assms(1) page_defs durableNotice_def syncedIfNothingPending_def resolveFlushes_def
    settleFlushes_eq Let_def)

lemma read_only_binary:
  assumes "access s = ReadOnly"
  shows "access (receiveBinary y cfg b s) = ReadOnly \<and> sent (receiveBinary y cfg b s) = sent s"
  using assms read_only_initialize [of "s\<lparr>initialState := Some (tl b)\<rparr>" y cfg]
  by (cases b) (simp_all add: receiveBinary_def page_defs Let_def split: option.split)

lemma read_only_step:
  assumes "access s = ReadOnly" "\<not> grants_write e"
  shows "access (collab_handle y cfg e s) = ReadOnly \<and> sent (collab_handle y cfg e s) = sent s"
proof (cases e)
  case (SocketMessage i m)
  with assms show ?thesis
    by (cases m) (simp_all add: read_only_control read_only_binary)
next
  case (SocketClose i)
  with assms show ?thesis
    by (simp add: onClose_def rejectFlushes_def settleFlushes_eq page_defs Let_def split: prod.split)
next
  case (TimerFires h)
  with assms show ?thesis
    by (simp add: timerFires_def connect_def page_defs Let_def split: option.split prod.split timer_cb.split)
next
  case (StorageSynced us)
  with assms show ?thesis by (simp add: read_only_resume)
qed (use assms in \<open>simp_all add: onOpen_def onError_def page_defs\<close>)

lemma read_only_run:
  "collab_run y cfg es s = Some s' \<Longrightarrow> access s = ReadOnly \<Longrightarrow> \<forall>e\<in>set es. \<not> grants_write e \<Longrightarrow>
     access s' = ReadOnly \<and> sent s' = sent s"
proof (induction es arbitrary: s)
  case (Cons e es)
  then show ?case using read_only_step [of s e y cfg] by (auto split: if_splits)
qed simp

section \<open>Sessions that are over\<close>

lemma destroyed_step:
  assumes "collab_inv cfg s" "destroyed s" "collab_step y cfg s e s'"
  shows "destroyed s' \<and> sent s' = sent s \<and> ydoc s' = ydoc s \<and> length (sockets s') = length (sockets s)
    \<and> set (app_calls s') \<subseteq> insert OpenPaper (set (app_calls s))"
  using assms(3)
proof (rule collab_stepE)
  assume en: "enabled y e s" and s': "s' = collab_handle y cfg e s"
  have none: "socket s = None" using collab_invD(2) [OF assms(1)] assms(2) by simp
  then have shut: "\<not> socket_in s i {CONNECTING}" "\<not> socket_in s i {OPEN}" for i
    using collab_invD(8) [OF assms(1), of i] by (auto simp: socket_in_def)
  have quiet: "\<not> listening s" "\<not> is_loading (persistence s)" "\<not> doc_live s" "\<not> socketIsOpen s"
    using assms(2) collab_invD(4,5,6) [OF assms(1)] none by (auto simp: socketIsOpen_def)
  show ?thesis
  proof (cases e)
    case (TimerFires h)
    then obtain d cb where h: "lookup_timer (timers s) h = Some (d, cb)"
      using en by (auto split: option.splits)
    then have "cb \<noteq> Reconnect"
      using assms(1) none unfolding collab_inv_def reconnects_def by auto
    with h assms(2) show ?thesis
      by (cases cb) (auto simp: s' TimerFires timerFires_def page_defs)
  qed (use en shut quiet none assms(2) in
      \<open>auto simp: s' onClose_other onError_def flush_eq destroy_eq close_at_def\<close>)
qed

section \<open>Epochs\<close>

lemma nat_str_key: "persistence_key cfg e = persistence_key cfg e' \<longleftrightarrow> e = e'"
  by (simp add: persistence_key_def)

lemma epoch_page [simp]:
  "documentEpoch (announce y s) = documentEpoch s" "documentEpoch (destroy s) = documentEpoch s"
  "documentEpoch (preserveOldEpoch y cfg e s) = documentEpoch s"
  "documentEpoch (flush s) = documentEpoch s" "documentEpoch (onLocalUpdate u s) = documentEpoch s"
  by (simp_all add: sendUpdate_eq announce_def page_defs destroy_eq preserveOldEpoch_eq flush_eq
      onLocalUpdate_def Let_def)

lemma epoch_initialize [simp]: "documentEpoch (initializeOrMerge y cfg s) = documentEpoch s"
  by (cases rule: initializeOrMerge_cases [of y cfg s]) simp_all

lemma epoch_resume [simp]: "documentEpoch (resumeInitialize y cfg us s) = documentEpoch s"
  by (cases rule: resumeInitialize_cases [of y cfg us s]) simp_all

lemma epoch_control:
  assumes "documentEpoch s = Some k"
  shows "documentEpoch (receiveControl y cfg c s) = Some k"
  by (cases c) (auto simp: assms page_defs durableNotice_def syncedIfNothingPending_def
      resolveFlushes_def settleFlushes_eq Let_def)

lemma epoch_step:
  assumes "documentEpoch s = Some k"
  shows "documentEpoch (collab_handle y cfg e s) = Some k"
proof (cases e)
  case (SocketMessage i m)
  with assms show ?thesis
    by (cases m)
      (auto simp: epoch_control receiveBinary_def page_defs Let_def split: option.split list.split)
next
  case (SocketClose i)
  with assms show ?thesis
    by (simp add: onClose_def rejectFlushes_def settleFlushes_eq page_defs Let_def split: prod.split)
next
  case (TimerFires h)
  with assms show ?thesis
    by (simp add: timerFires_def connect_def page_defs Let_def split: option.split prod.split timer_cb.split)
qed (use assms in \<open>simp_all add: onOpen_def onError_def page_defs\<close>)

section \<open>Sessions that never mount\<close>

text \<open>A session that has a document whose editor was not mounted when the local database had loaded.\<close>

definition unmounted :: "'d session \<Rightarrow> bool" where
  "unmounted s \<longleftrightarrow> \<not> ready s \<and> \<not> listening s \<and> \<not> is_loading (persistence s) \<and>
     (\<forall>b. MountEditor b \<notin> set (app_calls s)) \<and> (doc_live s \<or> destroyed s)"

lemma unmounted_sendUpdate: "unmounted s \<Longrightarrow> unmounted (sendUpdate u s)"
  by (simp add: unmounted_def sendUpdate_eq)

lemma unmounted_announce: "unmounted s \<Longrightarrow> unmounted (announce y s)"
  using unmounted_sendUpdate [of s] by (simp add: announce_def page_defs) (simp add: unmounted_def)

lemma unmounted_destroy: "unmounted s \<Longrightarrow> unmounted (destroy s)"
  by (simp add: unmounted_def destroy_eq close_store_def is_loading_def)

lemma unmounted_preserve: "unmounted s \<Longrightarrow> unmounted (preserveOldEpoch y cfg e s)"
  by (simp add: preserveOldEpoch_eq Let_def destroy_eq unmounted_def close_store_def is_loading_def)

lemma unmounted_initialize:
  assumes "unmounted s" "doc_live s"
  shows "unmounted (initializeOrMerge y cfg s)"
proof (cases rule: initializeOrMerge_cases [of y cfg s])
  case (merges e d)
  have "unmounted (s\<lparr>ydoc := Some d\<rparr>)" using assms(1) by (simp add: unmounted_def)
  then show ?thesis unfolding merges(1) by (rule unmounted_announce)
qed (use assms in simp_all)

lemma unmounted_conflict:
  "unmounted s \<Longrightarrow> unmounted (notice w f (saveState Conflict (s\<lparr>conflict := b\<rparr>)))"
  by (simp add: unmounted_def page_defs)

lemma unmounted_control:
  assumes "unmounted s" "doc_live s"
  shows "unmounted (receiveControl y cfg c s)"
proof (cases c)
  case (JoinAccepted e mode)
  have "unmounted (s\<lparr>documentEpoch := Some e, metadata := Some e, access := mode\<rparr>)"
    using assms(1) by (simp add: unmounted_def)
  then show ?thesis
    using assms JoinAccepted by (auto intro: unmounted_preserve unmounted_initialize)
next
  case (PaperEpochChanged e)
  with assms show ?thesis by (simp add: unmounted_preserve)
next
  case ReloadRequired
  with assms show ?thesis by (simp add: unmounted_destroy unmounted_conflict)
next
  case (PolicyChanged t)
  with assms show ?thesis by (simp add: unmounted_destroy unmounted_conflict)
qed (use assms in \<open>auto simp: unmounted_def page_defs durableNotice_def syncedIfNothingPending_def
    resolveFlushes_def settleFlushes_eq Let_def\<close>)

lemma unmounted_binary:
  assumes "unmounted s" "doc_live s"
  shows "unmounted (receiveBinary y cfg b s)"
proof (cases b)
  case (Cons t payload)
  have "unmounted (s\<lparr>initialState := Some payload\<rparr>)" using assms(1) by (simp add: unmounted_def)
  then have "unmounted (initializeOrMerge y cfg (s\<lparr>initialState := Some payload\<rparr>))"
    by (rule unmounted_initialize) (simp add: assms)
  with Cons assms show ?thesis
    by (auto simp: receiveBinary_def page_defs Let_def split: option.split) (simp_all add: unmounted_def)
qed (simp add: receiveBinary_def assms)

lemma unmounted_step:
  assumes "collab_inv cfg s" "unmounted s" "collab_step y cfg s e s'"
  shows "unmounted s'"
  using assms(3)
proof (rule collab_stepE)
  assume en: "enabled y e s" and s': "s' = collab_handle y cfg e s"
  show ?thesis
  proof (cases e)
    case (SocketMessage i m)
    then have "socket s = Some i" using en collab_invD(8) [OF assms(1), of i] by (auto simp: socket_in_def)
    then have "doc_live s" using assms(2) collab_invD(2) [OF assms(1)] by (simp add: unmounted_def)
    then show ?thesis
      using assms(2) by (cases m) (simp_all add: s' SocketMessage unmounted_control unmounted_binary)
  next
    case (SocketClose i)
    with assms(2) show ?thesis
      by (auto simp: s' unmounted_def onClose_def rejectFlushes_def settleFlushes_eq page_defs Let_def
          split: prod.split)
  next
    case (TimerFires h)
    with assms(2) show ?thesis
      by (auto simp: s' unmounted_def timerFires_def connect_def page_defs Let_def
          split: option.split prod.split timer_cb.split)
  next
    case CallDestroy
    with assms(2) show ?thesis by (simp add: s' unmounted_destroy)
  qed (use en assms(2) in \<open>auto simp: s' onOpen_def onError_def flush_eq page_defs unmounted_def\<close>)
qed

lemma unmounted_run:
  "collab_inv cfg s \<Longrightarrow> unmounted s \<Longrightarrow> collab_run y cfg es s = Some s' \<Longrightarrow> unmounted s'"
proof (induction es arbitrary: s)
  case (Cons e es)
  from Cons.prems(3) have e: "enabled y e s" "collab_run y cfg es (collab_handle y cfg e s) = Some s'"
    by (auto split: if_splits)
  then have "collab_step y cfg s e (collab_handle y cfg e s)" by (intro collab_step.event)
  with Cons.prems have "collab_inv cfg (collab_handle y cfg e s)" "unmounted (collab_handle y cfg e s)"
    by (auto intro: collab_inv_step unmounted_step)
  with Cons.IH e(2) show ?case by blast
qed simp

text \<open>A connection that closes while the local database loads, and the one that follows it.\<close>

definition lost_while_loading :: "event list" where
  "lost_while_loading = [SocketOpen 0, SocketMessage 0 (TextMessage (JoinAccepted 1 ReadWrite)),
     SocketMessage 0 (BinaryMessage [INITIAL_STATE]), SocketClose 0, Elapse 250, TimerFires 1,
     StorageSynced [], SocketOpen 1, SocketMessage 1 (TextMessage (JoinAccepted 1 ReadWrite))]"

section \<open>Saved over unacknowledged edits\<close>

text \<open>
  An edit made on a new connection before it is joined is sent under the access of the previous one; if
  the new connection only grants reading, the session shows "Saved" while that edit is unacknowledged.
\<close>

lemma saved_while_unacknowledged:
  "map_option (\<lambda>s. (saveStatus s, save_label (saveStatus s), pending_seqs s))
     (collab_run log_yjs example_config (joined_events ReadWrite @
        [SocketMessage 0 (TextMessage (DurableAck 1)), SocketClose 0, Elapse 250, TimerFires 1,
         SocketOpen 1, LocalEdit [8], SocketMessage 1 (TextMessage (JoinAccepted 1 ReadOnly)),
         SocketMessage 1 (BinaryMessage [INITIAL_STATE])]) (start session_init))
   = Some (Synced, ''Saved'', {2})"
  by (simp add: eval_defs onClose_def rejectFlushes_def settleFlushes_def timerFires_def
      lookup_timer_def clearTimer_def)

section \<open>Backing off\<close>

text \<open>The waiting times before successive reconnections while no connection opens.\<close>

definition backoff_after :: "nat \<Rightarrow> nat" where
  "backoff_after k = min (250 * 2 ^ k) 5000"

lemma backoff_after_Suc: "min (backoff_after k * 2) 5000 = backoff_after (Suc k)"
  by (simp add: backoff_after_def min_def)

section \<open>Properties\<close>



text \<open>
  C2. Updates are numbered 1, 2, 3, ... without a gap or a repetition, in the order they are sent and
  across reconnections, and each unacknowledged number belongs to an update sent on the current socket,
  which is open.
\<close>

theorem updates_numbered:
  assumes "collab_reach y cfg s"
  shows "(\<exists>us. length us = clientSequence s
            \<and> filter is_source (map snd (sent s)) = map2 source_frame [1..<Suc (clientSequence s)] us)
    \<and> (\<forall>q\<in>pending_seqs s. 1 \<le> q \<and> q \<le> clientSequence s
         \<and> (\<forall>i. socket s = Some i \<longrightarrow> sockets s ! i = OPEN \<and> (\<exists>u. (i, source_frame q u) \<in> set (sent s))))"
proof
  have inv: "numbered (clientSequence s) (sent s)"
    "pending_on (clientSequence s) (pending_seqs s) (sent s) (socket s) (sockets s)"
    using collab_inv_reach [OF assms] by (simp_all add: collab_inv_def)
  from inv(1) show "\<exists>us. length us = clientSequence s
      \<and> filter is_source (map snd (sent s)) = map2 source_frame [1..<Suc (clientSequence s)] us"
    by (simp add: numbered_def)
  from inv(2) show "\<forall>q\<in>pending_seqs s. 1 \<le> q \<and> q \<le> clientSequence s
      \<and> (\<forall>i. socket s = Some i \<longrightarrow> sockets s ! i = OPEN \<and> (\<exists>u. (i, source_frame q u) \<in> set (sent s)))"
    unfolding pending_on_def by auto
qed

theorem updates_numbered_witness:
  "\<exists>us. length us = clientSequence (joined ReadWrite) \<and> filter is_source (map snd (sent (joined ReadWrite)))
     = map2 source_frame [1..<Suc (clientSequence (joined ReadWrite))] us"
  using updates_numbered [OF joined_reach [of ReadWrite]] by blast

text \<open>
  C3. A session that is only ever granted read access sends nothing at all: no update, whatever is
  edited, and no flush.
\<close>

theorem read_only_sends_nothing:
  assumes "collab_run y cfg es (start session_init) = Some s" "\<forall>e\<in>set es. \<not> grants_write e"
  shows "sent s = [] \<and> access s = ReadOnly"
proof -
  show ?thesis using read_only_run [OF assms(1) _ assms(2)] by (simp add: eval_defs)
qed

theorem read_only_sends_nothing_witness: "sent (joined ReadOnly) = []"
  using read_only_sends_nothing [OF joined_run [of ReadOnly]] by (simp add: joined_events_def)

text \<open>
  C9. A session keeps to one document epoch: once known it never changes, the local database it opens
  is that epoch's, and no other epoch shares the database.
\<close>

theorem one_epoch:
  assumes "collab_reach y cfg s" "collab_step y cfg s e s'" "documentEpoch s = Some k"
  shows "documentEpoch s' = Some k
    \<and> (\<forall>key. persistence s' \<in> {Loading key, Loaded key} \<longrightarrow> key = persistence_key cfg k)
    \<and> (\<forall>k'. persistence_key cfg k' = persistence_key cfg k \<longrightarrow> k' = k)"
proof -
  have "documentEpoch s' = Some k"
    using assms(2) by (rule collab_stepE) (simp add: epoch_step [OF assms(3)])
  moreover have "epoch_ok cfg (metadata s') (documentEpoch s') (persistence s')"
    using collab_inv_step [OF collab_inv_reach [OF assms(1)] assms(2)] by (simp add: collab_inv_def)
  ultimately show ?thesis by (auto simp: epoch_ok_def nat_str_key)
qed

theorem one_epoch_witness:
  "documentEpoch (destroy (joined ReadWrite)) = Some 1"
proof -
  have "documentEpoch (joined ReadWrite) = Some 1" by (simp add: joined_def eval_defs)
  moreover have "collab_step log_yjs example_config (joined ReadWrite) CallDestroy (destroy (joined ReadWrite))"
    using collab_step.event [of log_yjs CallDestroy "joined ReadWrite" example_config] by simp
  ultimately show ?thesis using one_epoch [OF joined_reach] by blast
qed

text \<open>
  When a reconnection finds the paper restored to another epoch, the session keeps the text of its
  document for recovery, merges and sends nothing, and is over, with every waiting flush rejected.
\<close>

theorem epoch_change_preserves_text:
  assumes "collab_reach y cfg s" "documentEpoch s = Some k" "k' \<noteq> k" "ydoc s = Some d"
  shows "let s' = receiveControl y cfg (JoinAccepted k' mode) s
    in recoveryText s' = Some (sourceText y d) \<and> (copyRecoveryHidden s' \<longleftrightarrow> sourceText y d = [])
       \<and> ydoc s' = ydoc s \<and> sent s' = sent s \<and> destroyed s' \<and> conflict s' \<and> saveStatus s' = Conflict
       \<and> (\<forall>p<length (promises s). promises s' ! p \<noteq> None)"
proof -
  have "flushes_wait (promises s) (flushWaiters s) (timers s)"
    using collab_inv_reach [OF assms(1)] by (simp add: collab_inv_def)
  then show ?thesis
    using assms(2-4) settle_list_all by (fastforce simp: preserveOldEpoch_eq destroy_eq Let_def)
qed

theorem epoch_change_preserves_text_witness:
  "recoveryText (receiveControl log_yjs example_config (JoinAccepted 2 ReadWrite) (joined ReadWrite))
     = Some [char_of (7 :: nat)]"
proof -
  have "documentEpoch (joined ReadWrite) = Some 1" "ydoc (joined ReadWrite) = Some [7]"
    "sourceText log_yjs [7] = [char_of (7 :: nat)]"
    by (simp_all add: joined_def eval_defs)
  with epoch_change_preserves_text [OF joined_reach [of ReadWrite], of 1 2 "[7]" ReadWrite]
  show ?thesis by (simp add: Let_def)
qed

text \<open>
  C10. A destroyed session stays so: it sends nothing more, opens no socket, leaves its document alone
  and calls nothing but the reopening of the paper.
\<close>

theorem destroyed_is_final:
  assumes "collab_reach y cfg s" "destroyed s" "collab_step y cfg s e s'"
  shows "destroyed s' \<and> sent s' = sent s \<and> ydoc s' = ydoc s \<and> length (sockets s') = length (sockets s)
    \<and> set (app_calls s') \<subseteq> insert OpenPaper (set (app_calls s))"
  by (rule destroyed_step [OF collab_inv_reach [OF assms(1)] assms(2,3)])

theorem destroyed_is_final_witness:
  "sent (flush (destroy (joined ReadWrite))) = sent (destroy (joined ReadWrite))"
proof -
  let ?s = "destroy (joined ReadWrite)"
  have "collab_step log_yjs example_config (joined ReadWrite) CallDestroy ?s"
    using collab_step.event [of log_yjs CallDestroy "joined ReadWrite" example_config] by simp
  with joined_reach have "collab_reach log_yjs example_config ?s" by (rule collab_reach.step)
  moreover have "collab_step log_yjs example_config ?s CallFlush (flush ?s)"
    using collab_step.event [of log_yjs CallFlush ?s example_config] by simp
  moreover have "destroyed ?s" by (simp add: destroy_eq)
  ultimately show ?thesis using destroyed_is_final [of log_yjs example_config ?s] by blast
qed

text \<open>
  C11. A session never gets stuck offline and never holds two connections: until it is destroyed its
  socket is connecting or open, or a reconnection is due within five seconds; no other socket is in use.
\<close>

theorem always_reconnecting:
  assumes "collab_reach y cfg s" "\<not> destroyed s"
  shows "\<exists>i. socket s = Some i
    \<and> (sockets s ! i \<in> {CONNECTING, OPEN} \<or>
       (\<exists>h d. lookup_timer (timers s) h = Some (d, Reconnect) \<and> d \<le> now (timers s) + 5000))
    \<and> (\<forall>j<length (sockets s). sockets s ! j \<in> {CONNECTING, OPEN} \<longrightarrow> j = i)"
proof -
  have inv: "collab_inv cfg s" by (rule collab_inv_reach [OF assms(1)])
  then obtain i where i: "socket s = Some i" "sockets s ! i \<noteq> CLOSING" "i < length (sockets s)"
    using assms(2) collab_invD(2) [OF inv] by (auto simp: collab_inv_def cur_socket_def)
  have "\<forall>j<length (sockets s). sockets s ! j \<in> {CONNECTING, OPEN} \<longrightarrow> j = i"
    using collab_invD(8) [OF inv] i(1) by (simp add: socket_in_def)
  moreover have "\<exists>h d. lookup_timer (timers s) h = Some (d, Reconnect) \<and> d \<le> now (timers s) + 5000"
    if "sockets s ! i = CLOSED"
    using inv that i(1) unfolding collab_inv_def reconnects_def by auto
  moreover have "sockets s ! i \<in> {CONNECTING, OPEN} \<or> sockets s ! i = CLOSED"
    using i(2) by (cases "sockets s ! i") simp_all
  ultimately show ?thesis using i(1) by blast
qed

theorem always_reconnecting_witness: "\<exists>i. socket (joined ReadOnly) = Some i"
proof -
  have "\<not> destroyed (joined ReadOnly)" by (simp add: joined_def eval_defs)
  from always_reconnecting [OF joined_reach this] show ?thesis by blast
qed

text \<open>
  C12. No flush waits for ever: the timer that rejects an unsettled flush is armed and due within ten
  seconds, and when it fires the flush is settled.
\<close>

theorem flush_settles:
  assumes "collab_reach y cfg s" "p < length (promises s)" "promises s ! p = None"
  shows "\<exists>h d. lookup_timer (timers s) h = Some (d, FlushTimeout p) \<and> d \<le> now (timers s) + 10000
    \<and> promises (timerFires h s) ! p = Some (FlushError ''Durable flush timed out.'')"
proof -
  have "waits_for (flushWaiters s) (timers s) p"
    using collab_inv_reach [OF assms(1)] assms(2,3) by (simp add: collab_inv_def flushes_wait_def)
  then obtain h d where h: "lookup_timer (timers s) h = Some (d, FlushTimeout p)" "d \<le> now (timers s) + 10000"
    unfolding waits_for_def by blast
  then have "promises (timerFires h s) ! p = Some (FlushError ''Durable flush timed out.'')"
    using assms(2,3) by (simp add: timerFires_def settle_eq settle_at_def)
  with h show ?thesis by blast
qed

theorem flush_settles_witness:
  "\<exists>h d. lookup_timer (timers (flush (joined ReadWrite))) h = Some (d, FlushTimeout 0)"
proof -
  have "collab_step log_yjs example_config (joined ReadWrite) CallFlush (flush (joined ReadWrite))"
    using collab_step.event [of log_yjs CallFlush "joined ReadWrite" example_config] by simp
  with joined_reach have r: "collab_reach log_yjs example_config (flush (joined ReadWrite))"
    by (rule collab_reach.step)
  have "promises (flush (joined ReadWrite)) = [None]" by (simp add: joined_def eval_defs)
  with flush_settles [OF r, of 0] show ?thesis by auto
qed

text \<open>
  One \<open>FLUSHED\<close> reply resolves every flush that waits, with the sequence of the reply: also a
  flush that was sent after the one being answered, whose edits the reply does not cover.
\<close>

theorem flushed_resolves_all:
  assumes "collab_reach y cfg s" "p < length (promises s)" "promises s ! p = None"
  shows "promises (receiveControl y cfg (Flushed n) s) ! p = Some (FlushOk n)"
proof -
  have "waits_for (flushWaiters s) (timers s) p"
    using collab_inv_reach [OF assms(1)] assms(2,3) by (simp add: collab_inv_def flushes_wait_def)
  then have "p \<in> fst ` set (flushWaiters s)" unfolding waits_for_def by force
  with assms(2,3) show ?thesis
    by (simp add: syncedIfNothingPending_def page_defs resolveFlushes_def settleFlushes_eq settle_list_nth)
qed

theorem flushed_resolves_all_witness:
  "promises (receiveControl log_yjs example_config (Flushed 1)
     (flush (collab_handle log_yjs example_config (LocalEdit [8]) (flush (joined ReadWrite))))) ! 1
   = Some (FlushOk 1)"
proof (rule flushed_resolves_all)
  let ?es = "joined_events ReadWrite @ [CallFlush, LocalEdit [8], CallFlush]"
  let ?s = "flush (collab_handle log_yjs example_config (LocalEdit [8]) (flush (joined ReadWrite)))"
  have "collab_run log_yjs example_config ?es (start session_init) = Some ?s"
    by (simp add: joined_def eval_defs)
  then show "collab_reach log_yjs example_config ?s"
    by (rule collab_run_reach [OF collab_reach.start])
qed (simp_all add: joined_def eval_defs)

text \<open>
  A connection lost while the local database is still loading leaves a session that works against
  itself: there is a reachable state, joined on an open socket with its document live, from which no
  sequence of events ever mounts the editor, installs the update listener or resolves \<open>ready\<close>.
\<close>

theorem reconnect_while_loading_never_mounts:
  "\<exists>s. collab_reach y cfg s \<and> socketIsOpen s \<and> metadata s \<noteq> None \<and> doc_live s \<and> \<not> destroyed s
    \<and> (\<forall>es s'. collab_run y cfg es s = Some s' \<longrightarrow>
         \<not> ready s' \<and> \<not> listening s' \<and> (\<forall>b. MountEditor b \<notin> set (app_calls s')))"
proof -
  define s where "s = the (collab_run y cfg lost_while_loading (start session_init))"
  note eval = lost_while_loading_def eval_defs onClose_def rejectFlushes_def settleFlushes_def
    timerFires_def lookup_timer_def clearTimer_def
  have run: "collab_run y cfg lost_while_loading (start session_init) = Some s"
    unfolding s_def by (simp add: eval)
  have s: "socketIsOpen s" "metadata s \<noteq> None" "doc_live s" "\<not> destroyed s" "unmounted s"
    unfolding s_def unmounted_def by (simp_all add: eval)
  from run have r: "collab_reach y cfg s" by (rule collab_run_reach [OF collab_reach.start])
  have "unmounted s'" if "collab_run y cfg es s = Some s'" for es s'
    using that by (rule unmounted_run [OF collab_inv_reach [OF r] s(5)])
  then have all: "\<forall>es s'. collab_run y cfg es s = Some s' \<longrightarrow>
      \<not> ready s' \<and> \<not> listening s' \<and> (\<forall>b. MountEditor b \<notin> set (app_calls s'))"
    by (simp add: unmounted_def)
  show ?thesis by (intro exI [of _ s] conjI r s(1-4) all)
qed

theorem reconnect_while_loading_never_mounts_witness:
  "\<exists>s. collab_reach log_yjs example_config s \<and> socketIsOpen s \<and> \<not> ready s"
proof -
  obtain s where s: "collab_reach log_yjs example_config s" "socketIsOpen s"
    and never: "\<forall>es s'. collab_run log_yjs example_config es s = Some s' \<longrightarrow> \<not> ready s'"
    using reconnect_while_loading_never_mounts [of log_yjs example_config] by blast
  from never have "\<not> ready s" by (auto dest: spec [of _ "[]"])
  with s show ?thesis by blast
qed

text \<open>
  Reconnection backs off: each time the current socket closes without having opened, the wait
  before the next attempt doubles, from a quarter of a second up to five seconds; an open socket resets
  it.
\<close>

theorem reconnect_backs_off:
  assumes "collab_reach y cfg s" "socket s = Some i" "backoff s = backoff_after k"
  shows "let s' = onClose i (s\<lparr>sockets := (sockets s)[i := CLOSED]\<rparr>)
    in reconnectTimer s' \<noteq> None
       \<and> lookup_timer (timers s') (the (reconnectTimer s')) = Some (now (timers s) + backoff_after k, Reconnect)
       \<and> backoff s' = backoff_after (Suc k) \<and> backoff (onOpen s') = backoff_after 0"
proof -
  have inv: "collab_inv cfg s" by (rule collab_inv_reach [OF assms(1)])
  have "clock_wf (clear_timers (flushWaiters s) (timers s))"
    by (rule clear_timers_wf [OF collab_invD(1) [OF inv]])
  moreover have "\<not> destroyed s" using assms(2) collab_invD(2) [OF inv] by simp
  ultimately show ?thesis
    using assms(2,3) backoff_after_Suc [of k]
    by (simp add: onClose_eq Let_def setTimer_lookup onOpen_def page_defs) (simp add: backoff_after_def)
qed

theorem reconnect_backs_off_witness:
  "backoff (onClose 0 ((joined ReadOnly)\<lparr>sockets := [CLOSED]\<rparr>)) = 500"
proof -
  have "socket (joined ReadOnly) = Some 0" "backoff (joined ReadOnly) = backoff_after 0"
    "(sockets (joined ReadOnly))[0 := CLOSED] = [CLOSED]"
    by (simp_all add: joined_def eval_defs backoff_after_def)
  with reconnect_backs_off [OF joined_reach [of ReadOnly], of 0 0] show ?thesis
    by (simp add: Let_def backoff_after_def)
qed

end
