(* ===== verification/PaperApi.thy ===== *)
theory PaperApi
  imports JsString
begin

text \<open>
  The class \<open>PaperApi\<close> of \<^verbatim>\<open>services/server/frontend/writer.js\<close>: which HTTP request each method makes,
  and what \<open>request\<close> makes of the response. A call is a value of \<open>api_call\<close>, one constructor per method;
  the fetch itself is outside the model. Identifiers are put into paths as they are; free text goes
  through \<open>encodeURIComponent\<close>, which percent-encodes the UTF-8 bytes of a text.
\<close>

section \<open>Percent encoding\<close>

definition unreserved :: "nat \<Rightarrow> bool" where
  "unreserved n \<longleftrightarrow> 65 \<le> n \<and> n \<le> 90 \<or> 97 \<le> n \<and> n \<le> 122 \<or> 48 \<le> n \<and> n \<le> 57 \<or>
     n \<in> {45, 95, 46, 33, 126, 42, 39, 40, 41}"

definition utf8 :: "char \<Rightarrow> nat list" where
  "utf8 c = (let n = of_char c in if n < 128 then [n] else [192 + n div 64, 128 + n mod 64])"

definition hex_digit :: "nat \<Rightarrow> char" where
  "hex_digit n = char_of (if n < 10 then 48 + n else 55 + n)"

definition percent_byte :: "nat \<Rightarrow> jsstr" where
  "percent_byte b = (if unreserved b then [char_of b] else [CHR ''%'', hex_digit (b div 16), hex_digit (b mod 16)])"

definition encodeURIComponent :: "jsstr \<Rightarrow> jsstr" where
  "encodeURIComponent s = concat (map percent_byte (concat (map utf8 s)))"

section \<open>Requests\<close>

datatype json = JNull | JBool bool | JNat nat | JStr jsstr | JList "json list" | JObj "(jsstr \<times> json) list"

datatype http_body = NoBody | JsonBody json | FileBody

record http_request =
  rq_path :: jsstr
  rq_method :: jsstr
  rq_content_type :: "jsstr option"
  rq_body :: http_body

definition get_request :: "jsstr \<Rightarrow> http_request" where
  "get_request path = \<lparr>rq_path = path, rq_method = ''GET'', rq_content_type = None, rq_body = NoBody\<rparr>"

definition json_request :: "jsstr \<Rightarrow> jsstr \<Rightarrow> json \<Rightarrow> http_request" where
  "json_request path verb body = \<lparr>rq_path = path, rq_method = verb,
     rq_content_type = Some ''application/json'', rq_body = JsonBody body\<rparr>"

text \<open>\<open>reason || null\<close>.\<close>

definition str_or_null :: "jsstr \<Rightarrow> json" where
  "str_or_null s = (if s = [] then JNull else JStr s)"

datatype (plugins only: size) api_call =
    Me | Papers | CreatePaper jsstr | Paper jsstr | Files jsstr | FileContent jsstr jsstr
  | CreateFile jsstr json | RenameFile jsstr jsstr json | DeleteFile jsstr jsstr json
  | SetMain jsstr jsstr json | StructuralUndo jsstr | StructuralRedo jsstr | Intelligence jsstr
  | Search jsstr jsstr bool | UploadAsset jsstr jsstr nat jsstr | MapLocation jsstr json
  | Versions jsstr | Checkpoint jsstr jsstr | Compare jsstr jsstr jsstr | RestorationRequests jsstr
  | RequestRestoration jsstr jsstr jsstr | RejectRestoration jsstr jsstr | ApplyRestoration jsstr jsstr
  | RevertTeam jsstr jsstr | RestorePersonal jsstr jsstr | Build jsstr jsstr | BuildStatus jsstr
  | Reviews jsstr | ReviewRounds jsstr | SendForReview jsstr | EndReview jsstr jsstr
  | ReviewMessage jsstr jsstr jsstr | ReviewState jsstr jsstr jsstr | AcceptSuggestion jsstr jsstr nat
  | RejectSuggestion jsstr jsstr jsstr | DocumentDetails jsstr | SaveDocumentDetails jsstr json

abbreviation papers_path :: "jsstr \<Rightarrow> jsstr" where "papers_path i \<equiv> ''/api/v2/papers/'' @ i"
abbreviation reviews_path :: "jsstr \<Rightarrow> jsstr" where "reviews_path i \<equiv> ''/api/v2/reviews/papers/'' @ i"

primrec api_request :: "api_call \<Rightarrow> http_request" where
  "api_request Me = get_request ''/api/v2/me''"
| "api_request Papers = get_request ''/api/v2/writer/papers''"
| "api_request (CreatePaper name) =
     json_request ''/api/v2/writer/personal-papers'' ''POST'' (JObj [(''name'', JStr name)])"
| "api_request (Paper i) = get_request (papers_path i)"
| "api_request (Files i) = get_request (papers_path i @ ''/files'')"
| "api_request (FileContent i f) = get_request (papers_path i @ ''/files/'' @ f)"
| "api_request (CreateFile i body) = json_request (papers_path i @ ''/files'') ''POST'' body"
| "api_request (RenameFile i f body) =
     json_request (papers_path i @ ''/files/'' @ f @ ''/path'') ''PATCH'' body"
| "api_request (DeleteFile i f body) = json_request (papers_path i @ ''/files/'' @ f) ''DELETE'' body"
| "api_request (SetMain i f body) = json_request (papers_path i @ ''/main/'' @ f) ''POST'' body"
| "api_request (StructuralUndo i) = json_request (papers_path i @ ''/structural-undo'') ''POST'' (JObj [])"
| "api_request (StructuralRedo i) = json_request (papers_path i @ ''/structural-redo'') ''POST'' (JObj [])"
| "api_request (Intelligence i) = get_request (papers_path i @ ''/intelligence'')"
| "api_request (Search i query caseSensitive) =
     get_request (papers_path i @ ''/search?q='' @ encodeURIComponent query @ ''&case_sensitive=''
       @ (if caseSensitive then ''true'' else ''false''))"
| "api_request (UploadAsset i path version content_type) =
     \<lparr>rq_path = papers_path i @ ''/assets?path='' @ encodeURIComponent path @ ''&version='' @ nat_str version,
      rq_method = ''POST'', rq_content_type = Some content_type, rq_body = FileBody\<rparr>"
| "api_request (MapLocation i body) = json_request (reviews_path i @ ''/synctex'') ''POST'' body"
| "api_request (Versions i) = get_request (papers_path i @ ''/versions'')"
| "api_request (Checkpoint i name) =
     json_request (papers_path i @ ''/versions'') ''POST'' (JObj [(''name'', JStr name)])"
| "api_request (Compare i from to) =
     get_request (papers_path i @ ''/versions/compare?from='' @ from @ ''&to='' @ to)"
| "api_request (RestorationRequests i) = get_request (papers_path i @ ''/restoration-requests'')"
| "api_request (RequestRestoration i target reason) =
     json_request (papers_path i @ ''/restoration-requests'') ''POST''
       (JObj [(''target_version_id'', JStr target), (''reason'', str_or_null reason)])"
| "api_request (RejectRestoration r note) =
     json_request (''/api/v2/restoration-requests/'' @ r @ ''/reject'') ''POST'' (JObj [(''note'', str_or_null note)])"
| "api_request (ApplyRestoration r note) =
     json_request (''/api/v2/restoration-requests/'' @ r @ ''/apply'') ''POST'' (JObj [(''note'', str_or_null note)])"
| "api_request (RevertTeam i v) =
     json_request (papers_path i @ ''/versions/'' @ v @ ''/revert'') ''POST'' (JObj [(''confirmed'', JBool True)])"
| "api_request (RestorePersonal i v) =
     json_request (papers_path i @ ''/versions/'' @ v @ ''/restore'') ''POST'' (JObj [])"
| "api_request (Build i trigger) =
     json_request (papers_path i @ ''/builds'') ''POST'' (JObj [(''trigger_type'', JStr trigger)])"
| "api_request (BuildStatus i) = get_request (papers_path i @ ''/builds'')"
| "api_request (Reviews i) = get_request (reviews_path i @ ''/threads'')"
| "api_request (ReviewRounds i) = get_request (reviews_path i @ ''/rounds'')"
| "api_request (SendForReview i) = json_request (reviews_path i @ ''/rounds'') ''POST'' (JObj [])"
| "api_request (EndReview i r) = json_request (reviews_path i @ ''/rounds/'' @ r @ ''/close'') ''POST'' (JObj [])"
| "api_request (ReviewMessage i t body) =
     json_request (reviews_path i @ ''/threads/'' @ t @ ''/messages'') ''POST'' (JObj [(''body'', JStr body)])"
| "api_request (ReviewState i t state) =
     json_request (reviews_path i @ ''/threads/'' @ t @ ''/state'') ''POST'' (JObj [(''state'', JStr state)])"
| "api_request (AcceptSuggestion i t durable) =
     json_request (reviews_path i @ ''/threads/'' @ t @ ''/suggestion/accept'') ''POST''
       (JObj [(''durable_sequence'', JNat durable)])"
| "api_request (RejectSuggestion i t reason) =
     json_request (reviews_path i @ ''/threads/'' @ t @ ''/suggestion/reject'') ''POST''
       (JObj [(''rejection_reason'', str_or_null reason)])"
| "api_request (DocumentDetails i) = get_request (papers_path i @ ''/document-details'')"
| "api_request (SaveDocumentDetails i body) = json_request (papers_path i @ ''/document-details'') ''PUT'' body"

section \<open>Responses\<close>

text \<open>
  \<open>rs_json\<close> is what parsing the body gives, \<^const>\<open>None\<close> when that fails; the message of the parse error
  of a successful response is the platform's, here \<open>parse_error\<close>.
\<close>

record http_response =
  rs_ok :: bool
  rs_status :: nat
  rs_json :: "json option"

fun json_error :: "json option \<Rightarrow> jsstr option" where
  "json_error (Some (JObj kvs)) =
     (case map_of kvs ''error'' of Some (JStr e) \<Rightarrow> Some e | _ \<Rightarrow> None)"
| "json_error _ = None"

definition api_response :: "jsstr \<Rightarrow> http_response \<Rightarrow> json result" where
  "api_response parse_error r =
     (if \<not> rs_ok r
      then Inl \<lparr>err_message = js_or (json_error (rs_json r)) (''Request failed ('' @ nat_str (rs_status r) @ '')''),
                err_status = rs_status r\<rparr>
      else if rs_status r = 204 then Inr JNull
      else case rs_json r of None \<Rightarrow> Inl \<lparr>err_message = parse_error, err_status = 0\<rparr> | Some j \<Rightarrow> Inr j)"

section \<open>What the server reads\<close>

definition hex_val :: "char \<Rightarrow> nat" where
  "hex_val c = (let n = of_char c in if n < 58 then n - 48 else n - 55)"

fun percent_decode :: "jsstr \<Rightarrow> nat list" where
  "percent_decode [] = []"
| "percent_decode (c # s) =
     (if c = CHR ''%'' then
        (case s of h # l # s' \<Rightarrow> (16 * hex_val h + hex_val l) # percent_decode s' | _ \<Rightarrow> [])
      else of_char c # percent_decode s)"

text \<open>The parameters of a path: what follows the question mark, cut at ampersands and equality signs.\<close>

definition query_params :: "jsstr \<Rightarrow> (jsstr \<times> nat list) list" where
  "query_params p =
     map (\<lambda>kv. (takeWhile (\<lambda>c. c \<noteq> CHR ''='') kv, percent_decode (tl (dropWhile (\<lambda>c. c \<noteq> CHR ''='') kv))))
       (js_split CHR ''&'' (tl (dropWhile (\<lambda>c. c \<noteq> CHR ''?'') p)))"

definition utf8_bytes :: "jsstr \<Rightarrow> nat list" where
  "utf8_bytes s = concat (map utf8 s)"

lemma utf8_byte:
  assumes "b \<in> set (utf8 c)"
  shows "b < 256"
proof -
  have "(of_char c :: nat) < 256" by simp
  then have "(of_char c :: nat) div 64 < 4" by (simp add: div_less_iff_less_mult)
  moreover have "(of_char c :: nat) mod 64 < 64" by simp
  ultimately show ?thesis using assms by (auto simp: utf8_def Let_def split: if_splits)
qed

lemma hex_digit_val: "n < 16 \<Longrightarrow> hex_val (hex_digit n) = n"
  by (simp add: hex_val_def hex_digit_def Let_def)

lemma percent_decode_byte: "b < 256 \<Longrightarrow> percent_decode (percent_byte b @ s) = b # percent_decode s"
proof (cases "unreserved b")
  case True
  moreover assume "b < 256"
  ultimately show ?thesis
    by (auto simp: percent_byte_def unreserved_def char_of_eq_char split: if_splits)
next
  case False
  moreover assume "b < 256"
  ultimately show ?thesis by (simp add: percent_byte_def hex_digit_val)
qed

lemma percent_decode_bytes:
  "\<forall>b\<in>set bs. b < 256 \<Longrightarrow> percent_decode (concat (map percent_byte bs)) = bs"
  by (induction bs) (simp_all add: percent_decode_byte)

lemma percent_decode_encode: "percent_decode (encodeURIComponent s) = utf8_bytes s"
  unfolding encodeURIComponent_def utf8_bytes_def
  by (rule percent_decode_bytes) (auto dest: utf8_byte)

lemma percent_byte_chars:
  assumes "b < 256" "c \<in> set (percent_byte b)"
  shows "unreserved (of_char c) \<or> c = CHR ''%''"
proof (cases "unreserved b")
  case True
  with assms show ?thesis by (simp add: percent_byte_def)
next
  case False
  have "unreserved (of_char (hex_digit n))" if "n < 16" for n
    using that by (auto simp: hex_digit_def unreserved_def)
  moreover have "b div 16 < 16" "b mod 16 < 16" using assms(1) by auto
  ultimately show ?thesis using False assms(2) by (auto simp: percent_byte_def)
qed

lemma encode_chars:
  assumes "c \<in> set (encodeURIComponent s)"
  shows "c \<notin> {CHR ''&'', CHR ''='', CHR ''?'', CHR ''#'', CHR ''/''}"
proof -
  obtain b where "b \<in> set (concat (map utf8 s))" "c \<in> set (percent_byte b)"
    using assms unfolding encodeURIComponent_def by auto
  then have "unreserved (of_char c) \<or> c = CHR ''%''"
    by (intro percent_byte_chars) (auto dest: utf8_byte)
  then show ?thesis by (auto simp: unreserved_def)
qed

section \<open>Property\<close>

text \<open>
  A search cannot be misread: whatever text is searched for, the server finds exactly the two
  parameters the client meant, with the UTF-8 bytes of the text and the flag.
\<close>

theorem search_params:
  assumes "CHR ''?'' \<notin> set i"
  shows "query_params (rq_path (api_request (Search i query cs)))
    = [(''q'', utf8_bytes query), (''case_sensitive'', map of_char (if cs then ''true'' else ''false''))]"
proof -
  have "dropWhile (\<lambda>c. c \<noteq> CHR ''?'') (i @ ''/search?'' @ r) = CHR ''?'' # r" for r
    using assms by (induction i) auto
  moreover have "CHR ''&'' \<notin> set (''q='' @ encodeURIComponent query)"
    using encode_chars [of "CHR ''&''" query] by auto
  ultimately show ?thesis
    using js_split_append [of "CHR ''&''" "''q='' @ encodeURIComponent query"]
    by (simp add: query_params_def get_request_def percent_decode_encode)
qed

theorem search_params_witness:
  "query_params (rq_path (api_request (Search ''p1'' ''a&q=b'' True)))
    = [(''q'', utf8_bytes ''a&q=b''), (''case_sensitive'', map of_char ''true'')]"
  using search_params [of "''p1''" "''a&q=b''" True] by simp

end
