(* ===== verification/Reviews.thy ===== *)
theory Reviews
  imports Dom ReviewHelpers WriterEditor
begin

text \<open>
  The review panel of \<^verbatim>\<open>services/server/frontend/writer.js\<close>: the threads of a paper, the counts, the
  filters and the cards of \<open>renderReviews\<close>, the marks of \<open>applyReviewHighlights\<close>, the state of an anchor
  and the place of the popover. What a click on a card does is a value of \<open>review_action\<close>; the handlers
  are in \<open>WorkspaceCalls\<close>. The date format of the browser and the resolution of Yjs positions are
  arguments.
\<close>

section \<open>Threads\<close>

record source_anchor =
  sa_file_id :: jsstr
  sa_file_deleted :: bool
  encoded_relative_start :: "jsstr option"
  encoded_relative_end :: "jsstr option"

record pdf_anchor =
  pa_page :: nat
  mapping_status :: "jsstr option"

record suggestion =
  sg_status :: jsstr
  replacement_text :: jsstr

record message =
  author_email :: jsstr
  msg_body :: jsstr

record review_thread =
  rt_id :: jsstr
  rt_state :: jsstr
  rt_severity :: jsstr
  rt_type :: jsstr
  rt_category :: jsstr
  mentor_email :: jsstr
  assigned_writer_email :: "jsstr option"
  due_at :: "jsstr option"
  rt_messages :: "message list"
  rt_source_anchor :: "source_anchor option"
  rt_pdf_anchor :: "pdf_anchor option"
  rt_suggestion :: "suggestion option"

definition open_state :: "jsstr \<Rightarrow> bool" where
  "open_state st \<longleftrightarrow> st \<in> set [''OPEN'', ''REOPENED'']"

definition pending_suggestion :: "review_thread \<Rightarrow> bool" where
  "pending_suggestion t \<longleftrightarrow> map_option sg_status (rt_suggestion t) = Some ''PENDING''"

definition blocking :: "review_thread \<Rightarrow> bool" where
  "blocking t \<longleftrightarrow> rt_severity t = ''BLOCKING'' \<and> rt_state t \<noteq> ''RESOLVED''"

text \<open>\<open>writerAnchorStatus\<close>.\<close>

definition writerAnchorStatus :: "review_thread \<Rightarrow> jsstr" where
  "writerAnchorStatus t =
     (if (case rt_source_anchor t of None \<Rightarrow> False | Some a \<Rightarrow> sa_file_deleted a) then ''SOURCE_DELETED''
      else js_or (Option.bind (rt_pdf_anchor t) mapping_status)
             (if rt_source_anchor t \<noteq> None then ''Source linked'' else ''PDF_ONLY''))"

section \<open>The panel\<close>

datatype review_action =
    Focus review_thread | Reply review_thread | Address review_thread
  | Accept review_thread | Reject review_thread

definition review_counts :: "review_thread list \<Rightarrow> nat \<times> nat \<times> nat \<times> nat" where
  "review_counts ts =
     (length (filter (open_state \<circ> rt_state) ts),
      length (filter (\<lambda>t. rt_state t = ''ADDRESSED'') ts),
      length (filter (\<lambda>t. rt_state t = ''RESOLVED'') ts),
      length (filter blocking ts))"

definition counts_text :: "review_thread list \<Rightarrow> jsstr" where
  "counts_text ts =
     (case review_counts ts of (active, addressed, resolved, block) \<Rightarrow>
        nat_str active @ '' open'' @ middot @ nat_str addressed @ '' addressed'' @ middot
        @ nat_str resolved @ '' resolved'' @ middot @ nat_str block @ '' blocking'')"

definition shown :: "jsstr \<Rightarrow> review_thread \<Rightarrow> bool" where
  "shown flt t \<longleftrightarrow>
     flt = ''all'' \<or>
     flt = ''active'' \<and> open_state (rt_state t) \<or>
     flt = ''blocking'' \<and> blocking t \<or>
     rt_state t = flt"

definition opt_text :: "jsstr \<Rightarrow> (jsstr \<Rightarrow> jsstr) \<Rightarrow> jsstr option \<Rightarrow> jsstr" where
  "opt_text pre f v = (if truthy v then pre @ f (the v) else [])"

definition thread_metadata :: "(jsstr \<Rightarrow> jsstr) \<Rightarrow> review_thread \<Rightarrow> jsstr" where
  "thread_metadata date t =
     rt_category t @ middot @ mentor_email t
     @ opt_text (middot @ ''assigned to '') id (assigned_writer_email t)
     @ opt_text (middot @ ''due '') date (due_at t) @ middot @ writerAnchorStatus t"

definition message_row :: "message \<Rightarrow> 'a dom" where
  "message_row m =
     Elem ''p'' [] None [Elem ''strong'' [] None [Txt (author_email m @ '': '')], Txt (msg_body m)]"

definition thread_actions :: "review_thread \<Rightarrow> review_action dom list" where
  "thread_actions t =
     [button ''Reply'' (Reply t) False]
     @ (if open_state (rt_state t) then [button ''Mark Addressed'' (Address t) False] else [])
     @ (if pending_suggestion t then [button ''Accept'' (Accept t) False, button ''Reject'' (Reject t) False]
        else [])"

definition thread_card :: "(jsstr \<Rightarrow> jsstr) \<Rightarrow> review_thread \<Rightarrow> review_action dom" where
  "thread_card date t =
     Elem ''article'' [(''class'', ''thread-card severity-'' @ js_lower (rt_severity t))] None
       [with_prop ''class'' ''thread-title''
          (button (underscores_to_spaces (rt_type t) @ middot @ rt_severity t @ middot @ rt_state t) (Focus t) False),
        Elem ''p'' [] None [Txt (thread_metadata date t)],
        Elem ''div'' [(''class'', ''discussion'')] None (map message_row (rt_messages t)),
        Elem ''div'' [(''class'', ''thread-actions'')] None (thread_actions t)]"

definition renderReviews ::
  "(jsstr \<Rightarrow> jsstr) \<Rightarrow> jsstr \<Rightarrow> review_thread list \<Rightarrow> jsstr \<times> review_action dom list" where
  "renderReviews date flt ts =
     (let visible = filter (shown flt) ts
      in (counts_text ts,
          if visible = [] then [empty_copy ''No matching review threads.''] else map (thread_card date) visible))"

section \<open>Marks in the text\<close>

record mark =
  mk_from :: nat
  mk_to :: nat
  mk_thread :: jsstr
  mk_kind :: jsstr
  mk_title :: jsstr

definition highlighted :: "jsstr \<Rightarrow> review_thread \<Rightarrow> source_anchor option" where
  "highlighted file_id t =
     (if open_state (rt_state t) \<or> rt_state t = ''ADDRESSED''
      then (case rt_source_anchor t of
              Some a \<Rightarrow> if sa_file_id a = file_id \<and> \<not> sa_file_deleted a then Some a else None
            | None \<Rightarrow> None)
      else None)"

definition first_body :: "review_thread \<Rightarrow> jsstr" where
  "first_body t = js_or (case rt_messages t of [] \<Rightarrow> None | m # _ \<Rightarrow> Some (msg_body m)) ''Review annotation''"

definition thread_mark :: "review_thread \<Rightarrow> source_range \<Rightarrow> mark" where
  "thread_mark t r =
     \<lparr>mk_from = range_from r, mk_to = range_to r, mk_thread = rt_id t, mk_kind = js_lower (rt_type t),
      mk_title = mentor_email t @ '': '' @ first_body t @ middot @ ''Done''\<rparr>"

text \<open>
  The range of an anchor; \<^term>\<open>Inl ()\<close> is the exception of \<open>atob\<close>, which \<open>decodeBase64\<close> lets through.
\<close>

definition decoded_bytes :: "decoded \<Rightarrow> unit + byte list option" where
  "decoded_bytes d = (case d of NullBytes \<Rightarrow> Inr None | Bytes bs \<Rightarrow> Inr (Some bs) | InvalidCharacter \<Rightarrow> Inl ())"

definition anchor_range ::
  "(byte list \<Rightarrow> 'd \<Rightarrow> 'ty resolution) \<Rightarrow> 'd \<Rightarrow> 'ty \<Rightarrow> source_anchor \<Rightarrow> unit + source_range option" where
  "anchor_range resolve doc ytext a =
     (case decoded_bytes (decodeBase64 (encoded_relative_start a)) of
        Inl u \<Rightarrow> Inl ()
      | Inr s \<Rightarrow>
          (case decoded_bytes (decodeBase64 (encoded_relative_end a)) of
             Inl u \<Rightarrow> Inl ()
           | Inr e \<Rightarrow> Inr (resolveSuggestionRange resolve doc ytext s e)))"

text \<open>\<open>applyReviewHighlights\<close>: the marks it sets, \<^const>\<open>None\<close> when an anchor does not decode and it throws.\<close>

fun review_marks ::
  "(byte list \<Rightarrow> 'd \<Rightarrow> 'ty resolution) \<Rightarrow> 'd \<Rightarrow> 'ty \<Rightarrow> jsstr \<Rightarrow> review_thread list \<Rightarrow> mark list option" where
  "review_marks resolve doc ytext file_id [] = Some []"
| "review_marks resolve doc ytext file_id (t # ts) =
     (case highlighted file_id t of
        None \<Rightarrow> review_marks resolve doc ytext file_id ts
      | Some a \<Rightarrow>
          (case anchor_range resolve doc ytext a of
             Inl u \<Rightarrow> None
           | Inr None \<Rightarrow> review_marks resolve doc ytext file_id ts
           | Inr (Some r) \<Rightarrow>
               (if range_to r \<le> range_from r then review_marks resolve doc ytext file_id ts
                else map_option ((#) (thread_mark t r)) (review_marks resolve doc ytext file_id ts))))"

section \<open>The popover\<close>

record rect =
  rc_left :: int
  rc_top :: int
  rc_bottom :: int

text \<open>Left and top of the popover, in pixels, for the bounds of the mark and the sizes of popover and window.\<close>

definition popover_position :: "rect \<Rightarrow> int \<Rightarrow> int \<Rightarrow> int \<Rightarrow> int \<Rightarrow> int \<times> int" where
  "popover_position bounds width height innerWidth innerHeight =
     (max 8 (min (rc_left bounds) (innerWidth - width - 8)),
      if rc_bottom bounds + height + 8 < innerHeight then rc_bottom bounds + 6
      else max 8 (rc_top bounds - height - 6))"

definition popover_body :: "review_thread \<Rightarrow> review_action dom list" where
  "popover_body t =
     [text_elem ''strong'' (mentor_email t),
      with_prop ''class'' ''review-kind'' (text_elem ''span'' (js_lower (rt_type t))),
      text_elem ''p'' (first_body t)]"

section \<open>Lemmas\<close>

lemma marks_nonempty_ranges:
  "review_marks resolve doc ytext file_id ts = Some ms \<Longrightarrow> \<forall>m\<in>set ms. mk_from m < mk_to m"
  by (induction ts arbitrary: ms) (auto simp: thread_mark_def split: option.splits sum.splits if_splits)

lemma clicks_message_rows [simp]: "clicks (message_row m) = []"
  by (simp add: message_row_def)

lemma clicks_card:
  "clicks (thread_card date t) = Focus t # concat (map clicks (thread_actions t))"
  by (simp add: thread_card_def comp_def)

lemma clicks_renderReviews:
  "concat (map clicks (snd (renderReviews date flt ts)))
    = concat (map (\<lambda>t. clicks (thread_card date t)) (filter (shown flt) ts))"
proof -
  have "concat (map clicks (map (thread_card date) us)) = concat (map (\<lambda>t. clicks (thread_card date t)) us)"
    for us by (induction us) simp_all
  then show ?thesis by (simp add: renderReviews_def Let_def)
qed

lemma count_partition:
  assumes "\<forall>t\<in>set ts. rt_state t \<in> {''OPEN'', ''REOPENED'', ''ADDRESSED'', ''RESOLVED''}"
  shows "(case review_counts ts of (a, d, r, b) \<Rightarrow> a + d + r = length ts \<and> b \<le> a + d)"
  using assms
  by (induction ts) (auto simp: review_counts_def open_state_def blocking_def)

section \<open>Properties\<close>

text \<open>
  The panel offers exactly what a thread's state allows: every shown thread can be focused and
  answered, an open one addressed, and a pending suggestion accepted or rejected, and the shown threads
  are those of the filter, in order.
\<close>

theorem review_panel_actions:
  "concat (map clicks (snd (renderReviews date flt ts)))
    = concat (map (\<lambda>t. [Focus t, Reply t]
          @ (if rt_state t = ''OPEN'' \<or> rt_state t = ''REOPENED'' then [Address t] else [])
          @ (if map_option sg_status (rt_suggestion t) = Some ''PENDING'' then [Accept t, Reject t] else []))
        (filter (\<lambda>t. flt = ''all'' \<or> flt = rt_state t
            \<or> (flt = ''active'' \<and> (rt_state t = ''OPEN'' \<or> rt_state t = ''REOPENED''))
            \<or> (flt = ''blocking'' \<and> rt_severity t = ''BLOCKING'' \<and> rt_state t \<noteq> ''RESOLVED'')) ts))"
proof -
  have "shown flt = (\<lambda>t. flt = ''all'' \<or> flt = rt_state t
      \<or> (flt = ''active'' \<and> (rt_state t = ''OPEN'' \<or> rt_state t = ''REOPENED''))
      \<or> (flt = ''blocking'' \<and> rt_severity t = ''BLOCKING'' \<and> rt_state t \<noteq> ''RESOLVED''))"
    by (rule ext) (auto simp: shown_def open_state_def blocking_def)
  moreover have "clicks (thread_card date t) = [Focus t, Reply t]
      @ (if rt_state t = ''OPEN'' \<or> rt_state t = ''REOPENED'' then [Address t] else [])
      @ (if map_option sg_status (rt_suggestion t) = Some ''PENDING'' then [Accept t, Reject t] else [])" for t
    by (auto simp: clicks_card thread_actions_def open_state_def pending_suggestion_def)
  ultimately show ?thesis by (simp add: clicks_renderReviews)
qed

end
