(* ===== verification/History.thy ===== *)
theory History
  imports FileTree
begin

text \<open>
  The history panel of \<^verbatim>\<open>services/server/frontend/writer.js\<close>: \<open>renderHistory\<close> with the actions it offers
  by role, and the selection of two versions to compare (\<open>compareSelectedVersions\<close>). The handlers behind
  the buttons are in \<open>WorkspaceCalls\<close>; the format of a time stamp is an argument.
\<close>

section \<open>Versions and requests\<close>

record paper_version =
  vr_id :: jsstr
  version_number :: nat
  vr_name :: "jsstr option"
  version_type :: jsstr
  vr_author :: jsstr
  created_at :: jsstr

record restoration_request =
  rr_id :: jsstr
  target_version_id :: jsstr
  rr_state :: jsstr
  rr_writer :: jsstr

datatype history_action =
    RejectRequest restoration_request
  | ApplyRequest restoration_request
  | RevertDirectly paper_version
  | RequestRevert paper_version
  | RestoreVersion paper_version

section \<open>The list\<close>

definition version_title :: "paper_version \<Rightarrow> jsstr" where
  "version_title v =
     ''#'' @ nat_str (version_number v) @ '' '' @ js_or (vr_name v) (underscores_to_spaces (version_type v))"

definition version_detail ::
  "(jsstr \<Rightarrow> jsstr) \<Rightarrow> restoration_request list \<Rightarrow> paper_version \<Rightarrow> history_action dom" where
  "version_detail datetime requests v =
     Elem ''span'' [] None
       ([text_elem ''strong'' (version_title v),
         text_elem ''small'' (vr_author v @ middot @ datetime (created_at v))]
        @ (if requests \<noteq> []
           then [text_elem ''small''
                  (''Revert: '' @ js_join '', '' (map (\<lambda>r. underscores_to_spaces (rr_state r)) requests))]
           else []))"

definition request_buttons :: "restoration_request \<Rightarrow> history_action dom list" where
  "request_buttons r =
     [button (''Reject request from '' @ rr_writer r) (RejectRequest r) False,
      button (''Revert for '' @ rr_writer r) (ApplyRequest r) False]"

definition version_buttons ::
  "paper \<Rightarrow> restoration_request list \<Rightarrow> paper_version \<Rightarrow> history_action dom list" where
  "version_buttons p requests v =
     (if paper_kind p = ''team''
      then if is_team_leader p
           then concat (map request_buttons (filter (\<lambda>r. rr_state r = ''REQUESTED'') requests))
                @ [button ''Revert'' (RevertDirectly v) False]
           else [button ''Request Revert'' (RequestRevert v) False]
      else [button ''Restore this personal version'' (RestoreVersion v) False])"

definition version_row ::
  "(jsstr \<Rightarrow> jsstr) \<Rightarrow> paper \<Rightarrow> restoration_request list \<Rightarrow> paper_version \<Rightarrow> history_action dom" where
  "version_row datetime p all_requests v =
     (let requests = filter (\<lambda>r. target_version_id r = vr_id v) all_requests
      in Elem ''label'' [(''class'', ''version-row'')] None
           ([Elem ''input'' [(''type'', ''checkbox''), (''value'', vr_id v)] None [],
             version_detail datetime requests v]
            @ version_buttons p requests v))"

definition renderHistory ::
  "(jsstr \<Rightarrow> jsstr) \<Rightarrow> paper \<Rightarrow> paper_version list \<Rightarrow> restoration_request list \<Rightarrow> history_action dom list" where
  "renderHistory datetime p vs requests =
     (if vs = [] then [empty_copy ''No checkpoints yet.''] else map (version_row datetime p requests) vs)"

section \<open>Comparing two versions\<close>

text \<open>The check boxes in document order, with the version each stands for.\<close>

type_synonym boxes = "(paper_version \<times> bool) list"

definition checked :: "boxes \<Rightarrow> paper_version list" where
  "checked bs = map fst (filter snd bs)"

datatype compare_outcome =
    Undone  \<comment> \<open>a third box is unchecked again\<close>
  | SelectTwo
  | CompareVersions jsstr jsstr

text \<open>
  A click on box \<open>i\<close>: the browser toggles it, then the \<open>change\<close> listener runs.
\<close>

definition toggle_box :: "nat \<Rightarrow> boxes \<Rightarrow> boxes" where
  "toggle_box i bs = (if i < length bs then bs[i := (fst (bs ! i), \<not> snd (bs ! i))] else bs)"

definition compareSelectedVersions :: "nat \<Rightarrow> boxes \<Rightarrow> boxes \<times> compare_outcome" where
  "compareSelectedVersions i bs =
     (let selected = checked bs
      in if length selected > 2 then (bs[i := (fst (bs ! i), False)], Undone)
         else case selected of
                [a, b] \<Rightarrow> (bs, CompareVersions (vr_id b) (vr_id a))
              | _ \<Rightarrow> (bs, SelectTwo))"

record comparison =
  files_added :: "jsstr list"
  files_removed :: "jsstr list"
  files_changed :: "jsstr list"
  text_diffs :: "jsstr list"

definition names_or_none :: "jsstr list \<Rightarrow> jsstr" where
  "names_or_none fs = js_or (Some (js_join '', '' fs)) ''none''"

definition comparison_text :: "comparison \<Rightarrow> jsstr" where
  "comparison_text c =
     js_join [CHR 0x0A]
       ([''Added: '' @ names_or_none (files_added c),
         ''Removed: '' @ names_or_none (files_removed c),
         ''Changed: '' @ names_or_none (files_changed c), []] @ text_diffs c)"

definition click_box :: "nat \<Rightarrow> boxes \<Rightarrow> boxes \<times> compare_outcome" where
  "click_box i bs = compareSelectedVersions i (toggle_box i bs)"

definition click_boxes :: "nat list \<Rightarrow> boxes \<Rightarrow> boxes" where
  "click_boxes is bs = foldl (\<lambda>b i. fst (click_box i b)) bs is"

section \<open>Lemmas\<close>

lemma clicks_version_detail [simp]: "clicks (version_detail f rs v) = []"
  by (simp add: version_detail_def)

lemma clicks_version_row:
  "clicks (version_row f p rs v)
    = concat (map clicks (version_buttons p (filter (\<lambda>r. target_version_id r = vr_id v) rs) v))"
  by (simp add: version_row_def Let_def)

lemma clicks_request_buttons:
  "concat (map clicks (concat (map request_buttons rs))) = concat (map (\<lambda>r. [RejectRequest r, ApplyRequest r]) rs)"
  by (induction rs) (simp_all add: request_buttons_def)

lemma checked_split:
  "i < length bs \<Longrightarrow> length (checked bs)
    = length (checked (take i bs)) + of_bool (snd (bs ! i)) + length (checked (drop (Suc i) bs))"
  by (subst (1) id_take_nth_drop [of i bs], assumption) (simp add: checked_def)

lemma checked_update:
  "i < length bs \<Longrightarrow> length (checked (bs[i := (v, b)]))
    = length (checked (take i bs)) + of_bool b + length (checked (drop (Suc i) bs))"
  by (subst upd_conv_take_nth_drop) (simp_all add: checked_def)

lemma map_fst_update [simp]: "map fst (bs[i := (fst (bs ! i), b)]) = map fst bs"
  by (induction bs arbitrary: i) (auto split: nat.splits)

lemma map_fst_toggle [simp]: "map fst (toggle_box i bs) = map fst bs"
  by (simp add: toggle_box_def)

lemma map_fst_click: "map fst (fst (click_box i bs)) = map fst bs"
  by (auto simp: click_box_def compareSelectedVersions_def Let_def split: list.splits)

lemma click_keeps_two: "length (checked bs) \<le> 2 \<Longrightarrow> length (checked (fst (click_box i bs))) \<le> 2"
proof -
  assume two: "length (checked bs) \<le> 2"
  show ?thesis
  proof (cases "i < length bs")
    case True
    let ?bs = "toggle_box i bs"
    have "length ?bs = length bs" by (simp add: toggle_box_def)
    moreover have "length (checked (?bs[i := (fst (?bs ! i), False)])) \<le> length (checked bs)"
      using True by (simp add: toggle_box_def checked_update checked_split [of i bs])
    ultimately show ?thesis using two
      by (auto simp: click_box_def compareSelectedVersions_def Let_def split: list.splits)
  next
    case False
    then have "toggle_box i bs = bs" by (simp add: toggle_box_def)
    with two show ?thesis
      by (auto simp: click_box_def compareSelectedVersions_def Let_def split: list.splits)
  qed
qed

lemma sorted_checked:
  "sorted_wrt (\<lambda>a b. version_number b < version_number a) (map fst bs)
    \<Longrightarrow> sorted_wrt (\<lambda>a b. version_number b < version_number a) (checked bs)"
  unfolding checked_def by (simp add: sorted_wrt_map sorted_wrt_filter)

lemma compare_order:
  assumes "sorted_wrt (\<lambda>a b. version_number b < version_number a) (map fst bs)"
    and "snd (click_box i bs) = CompareVersions x y"
  shows "\<exists>a b. checked (toggle_box i bs) = [a, b] \<and> x = vr_id b \<and> y = vr_id a
    \<and> version_number b < version_number a"
proof -
  have s: "sorted_wrt (\<lambda>a b. version_number b < version_number a) (checked (toggle_box i bs))"
    using assms(1) by (intro sorted_checked) simp
  from assms(2) obtain a b where "checked (toggle_box i bs) = [a, b]" "x = vr_id b" "y = vr_id a"
    by (auto simp: click_box_def compareSelectedVersions_def Let_def split: list.splits if_splits)
  with s show ?thesis by auto
qed

section \<open>Properties\<close>

text \<open>
  What the history offers for each version follows from the paper's kind and the role alone: a
  member of a team can only request a revert, its leader decides on exactly the requests still open
  for that version and can revert, and a personal paper is restored by its owner.
\<close>

theorem history_actions_by_role:
  "concat (map clicks (renderHistory datetime p vs requests))
    = concat (map (\<lambda>v.
        if paper_kind p \<noteq> ''team'' then [RestoreVersion v]
        else if \<not> is_team_leader p then [RequestRevert v]
        else concat (map (\<lambda>r. [RejectRequest r, ApplyRequest r])
               (filter (\<lambda>r. target_version_id r = vr_id v \<and> rr_state r = ''REQUESTED'') requests))
             @ [RevertDirectly v]) vs)"
proof -
  have "clicks (version_row datetime p requests v)
      = (if paper_kind p \<noteq> ''team'' then [RestoreVersion v]
         else if \<not> is_team_leader p then [RequestRevert v]
         else concat (map (\<lambda>r. [RejectRequest r, ApplyRequest r])
               (filter (\<lambda>r. target_version_id r = vr_id v \<and> rr_state r = ''REQUESTED'') requests))
             @ [RevertDirectly v])" for v
    by (simp add: clicks_version_row version_buttons_def clicks_request_buttons)
  then show ?thesis by (simp add: renderHistory_def comp_def)
qed

text \<open>
  However the boxes are clicked, at most two stay checked, and a comparison always goes from the
  older of the two checked versions to the newer.
\<close>

theorem comparison_older_to_newer:
  assumes "sorted_wrt (\<lambda>a b. version_number b < version_number a) vs"
  shows "length (checked (click_boxes is (map (\<lambda>v. (v, False)) vs))) \<le> 2 \<and>
    (snd (click_box i (click_boxes is (map (\<lambda>v. (v, False)) vs))) = CompareVersions x y \<longrightarrow>
      (\<exists>a\<in>set vs. \<exists>b\<in>set vs. x = vr_id b \<and> y = vr_id a \<and> version_number b < version_number a))"
proof -
  let ?bs = "click_boxes is (map (\<lambda>v. (v, False)) vs)"
  have run: "length (checked (click_boxes is bs)) \<le> 2 \<and> map fst (click_boxes is bs) = map fst bs"
    if "length (checked bs) \<le> 2" for bs
    using that unfolding click_boxes_def
    by (induction "is" arbitrary: bs) (auto simp: click_keeps_two map_fst_click)
  have "checked (map (\<lambda>v. (v, False)) vs) = []" by (simp add: checked_def)
  with run have two: "length (checked ?bs) \<le> 2" "map fst ?bs = vs" by (auto simp: comp_def)
  have sub: "set (checked (toggle_box i ?bs)) \<subseteq> set vs"
    using map_fst_toggle [of i ?bs] two(2) unfolding checked_def
    by (metis filter_is_subset image_mono list.set_map)
  then show ?thesis using two compare_order [of ?bs i x y] assms by fastforce
qed

definition sample_version :: "jsstr \<Rightarrow> nat \<Rightarrow> paper_version" where
  "sample_version i n = \<lparr>vr_id = i, version_number = n, vr_name = None, version_type = ''manual_checkpoint'',
     vr_author = ''a@x'', created_at = ''t''\<rparr>"

theorem comparison_older_to_newer_witness:
  "length (checked (click_boxes [1, 2] (map (\<lambda>v. (v, False))
      [sample_version ''c'' 3, sample_version ''b'' 2, sample_version ''a'' 1]))) \<le> 2"
  using comparison_older_to_newer
    [of "[sample_version ''c'' 3, sample_version ''b'' 2, sample_version ''a'' 1]" "[1, 2]" 0]
  by (simp add: sample_version_def)

end
