(* ===== verification/DocumentDetails.thy ===== *)
theory DocumentDetails
  imports PaperApi
begin

text \<open>
  The form of the document details of a team paper (\<open>openDocumentDetails\<close> of
  \<^verbatim>\<open>services/server/frontend/writer.js\<close>): what it shows of the server's answer, what the user can do to
  its controls, and the body its submission sends; with the checks that the server
  (\<open>resolve_and_render\<close> of \<^verbatim>\<open>services/server/src/front_matter.rs\<close>) makes of that body. The keys of the fields
  and of the sections are distinct, as \<open>validate_manifest\<close> sees to; so a control is the one of its name. The
  controls sanitize what is put into them as HTML says.
\<close>

section \<open>The answer\<close>

record dd_section =
  sec_key :: jsstr
  sec_label :: jsstr
  sec_required :: bool
  sec_default :: bool

record dd_field =
  fd_key :: jsstr
  fd_label :: jsstr
  fd_type :: jsstr
  fd_required :: bool
  fd_source :: "jsstr option"
  fd_default :: "json option"
  fd_override :: bool

record document_details =
  dd_pack_id :: "jsstr option"
  dd_pack_name :: "jsstr option"
  dd_status :: jsstr
  dd_missing :: "jsstr list"
  dd_values :: "(jsstr \<times> json) list"
  dd_sections :: "(jsstr \<times> bool) list"
  dd_manifest_sections :: "dd_section list"
  dd_manifest_fields :: "dd_field list"
  dd_can_edit :: bool

section \<open>Values as texts\<close>

text \<open>\<open>String(value)\<close>, \<open>Boolean(value)\<close>, and \<open>value.join(separator)\<close>, in which \<open>null\<close> is nothing.\<close>

fun js_text :: "json \<Rightarrow> jsstr" where
  "js_text JNull = ''null''"
| "js_text (JBool b) = (if b then ''true'' else ''false'')"
| "js_text (JNat n) = nat_str n"
| "js_text (JStr s) = s"
| "js_text (JList js) = js_join '','' (map (\<lambda>j. if j = JNull then [] else js_text j) js)"
| "js_text (JObj kvs) = ''[object Object]''"

definition join_texts :: "jsstr \<Rightarrow> json list \<Rightarrow> jsstr" where
  "join_texts sep js = js_join sep (map (\<lambda>j. if j = JNull then [] else js_text j) js)"

fun js_truthy :: "json option \<Rightarrow> bool" where
  "js_truthy None = False"
| "js_truthy (Some JNull) = False"
| "js_truthy (Some (JBool b)) = b"
| "js_truthy (Some (JNat n)) = (n \<noteq> 0)"
| "js_truthy (Some (JStr s)) = (s \<noteq> [])"
| "js_truthy (Some _) = True"

fun field_text :: "json option \<Rightarrow> jsstr" where
  "field_text None = []"
| "field_text (Some JNull) = []"
| "field_text (Some (JList js)) = join_texts [CHR 0x0A] js"
| "field_text (Some j) = js_text j"

section \<open>Controls\<close>

datatype control_kind = TextAreaBox | TextBox | DateBox | CheckBox

definition days_in_month :: "nat \<Rightarrow> nat \<Rightarrow> nat" where
  "days_in_month year month =
     (if month \<in> {1, 3, 5, 7, 8, 10, 12} then 31
      else if month \<in> {4, 6, 9, 11} then 30
      else if month = 2 then if year mod 4 = 0 \<and> (year mod 100 \<noteq> 0 \<or> year mod 400 = 0) then 29 else 28
      else 0)"

text \<open>A year of \<open>n\<close> digits, a month and a day of that month, with their hyphens.\<close>

definition date_of_digits :: "nat \<Rightarrow> jsstr \<Rightarrow> bool" where
  "date_of_digits n s \<longleftrightarrow>
     length s = n + 6 \<and> s ! n = CHR ''-'' \<and> s ! (n + 3) = CHR ''-''
     \<and> list_all js_digit (take n s) \<and> list_all js_digit (take 2 (drop (n + 1) s)) \<and> list_all js_digit (drop (n + 4) s)
     \<and> (let day = digits_val (drop (n + 4) s)
        in 1 \<le> day \<and> day \<le> days_in_month (digits_val (take n s)) (digits_val (take 2 (drop (n + 1) s))))"

text \<open>What a date control accepts: at least four digits of a positive year.\<close>

definition html_date :: "jsstr \<Rightarrow> bool" where
  "html_date s \<longleftrightarrow> 10 \<le> length s \<and> date_of_digits (length s - 6) s \<and> 0 < digits_val (take (length s - 6) s)"

fun one_newline :: "jsstr \<Rightarrow> jsstr" where
  "one_newline [] = []"
| "one_newline (c # s) =
     (if c = CHR 0x0D then CHR 0x0A # (case s of d # r \<Rightarrow> if d = CHR 0x0A then one_newline r else one_newline s | [] \<Rightarrow> [])
      else c # one_newline s)"

text \<open>What a control's \<open>value\<close> reads after a text has been put into it.\<close>

fun control_value :: "control_kind \<Rightarrow> jsstr \<Rightarrow> jsstr" where
  "control_value TextAreaBox s = one_newline s"
| "control_value TextBox s = filter (\<lambda>c. c \<noteq> CHR 0x0A \<and> c \<noteq> CHR 0x0D) s"
| "control_value DateBox s = (if html_date s then s else [])"
| "control_value CheckBox s = s"

record section_box =
  sb_key :: jsstr
  sb_checked :: bool
  sb_disabled :: bool
  sb_text :: jsstr

record field_box =
  fb_key :: jsstr
  fb_label :: jsstr
  fb_kind :: control_kind
  fb_value :: jsstr
  fb_checked :: bool
  fb_disabled :: bool
  fb_required :: bool
  fb_note :: "jsstr option"

record details_form =
  df_detail :: document_details
  df_sections :: "section_box list"
  df_fields :: "field_box list"
  df_save :: bool

section \<open>The form\<close>

text \<open>\<open>Object.fromEntries\<close>: the last of equal keys counts.\<close>

definition from_entries :: "('k \<times> 'v) list \<Rightarrow> 'k \<Rightarrow> 'v option" where
  "from_entries kvs = map_of (rev kvs)"

definition section_box_of :: "document_details \<Rightarrow> dd_section \<Rightarrow> section_box" where
  "section_box_of d x =
     \<lparr>sb_key = sec_key x,
      sb_checked = (sec_required x \<or> (case from_entries (dd_sections d) (sec_key x) of
         None \<Rightarrow> sec_default x | Some b \<Rightarrow> b)),
      sb_disabled = (sec_required x \<or> \<not> dd_can_edit d),
      sb_text = '' '' @ sec_label x @ (if sec_required x then middot @ ''Required'' else middot @ ''Optional'')\<rparr>"

text \<open>
  The control of a field; \<^const>\<open>None\<close> when its type is set on a text area, whose \<open>type\<close> cannot be assigned.
\<close>

definition field_kind :: "dd_field \<Rightarrow> json option \<Rightarrow> control_kind option" where
  "field_kind x v =
     (if fd_type x = ''MULTILINE'' \<or> (case v of Some (JList js) \<Rightarrow> True | _ \<Rightarrow> False)
      then if fd_type x \<in> {''DATE'', ''BOOLEAN''} then None else Some TextAreaBox
      else if fd_type x = ''DATE'' then Some DateBox
      else if fd_type x = ''BOOLEAN'' then Some CheckBox
      else Some TextBox)"

definition field_editable :: "document_details \<Rightarrow> dd_field \<Rightarrow> bool" where
  "field_editable d x \<longleftrightarrow> dd_can_edit d \<and> (\<not> truthy (fd_source x) \<or> fd_override x)"

definition field_box_of :: "document_details \<Rightarrow> dd_field \<Rightarrow> field_box option" where
  "field_box_of d x =
     (let v = from_entries (dd_values d) (fd_key x)
      in map_option (\<lambda>k.
        \<lparr>fb_key = fd_key x, fb_label = fd_label x, fb_kind = k,
         fb_value = (if fd_type x = ''BOOLEAN'' then [] else control_value k (field_text v)),
         fb_checked = (fd_type x = ''BOOLEAN'' \<and> js_truthy v),
         fb_disabled = (\<not> field_editable d x), fb_required = fd_required x,
         fb_note = (if truthy (fd_source x)
           then Some ('' Automatic: '' @ the (fd_source x) @ (if fd_override x then middot @ ''override permitted'' else []))
           else None)\<rparr>) (field_kind x v))"

text \<open>\<^const>\<open>None\<close> when building the form throws.\<close>

definition details_form_of :: "document_details \<Rightarrow> details_form option" where
  "details_form_of d =
     map_option (\<lambda>fs. \<lparr>df_detail = d, df_sections = map (section_box_of d) (dd_manifest_sections d), df_fields = fs,
                      df_save = dd_can_edit d\<rparr>)
       (those (map (field_box_of d) (dd_manifest_fields d)))"

datatype details_row =
    PackName jsstr | NoFrontMatter | StatusRow jsstr | NeedsInformation jsstr | DetailsForm nat

definition status_row :: "jsstr \<Rightarrow> jsstr" where
  "status_row st = ''Status: '' @ (if st = ''READY'' then ''Ready'' else underscores_to_spaces st)"

text \<open>What stands above the form. A form in the panel is its number in the list of the forms made.\<close>

definition details_rows :: "document_details \<Rightarrow> details_row list" where
  "details_rows d =
     PackName (''Front Matter Pack: '' @ js_or (dd_pack_name d) ''None'')
     # (if \<not> truthy (dd_pack_id d) then [NoFrontMatter]
        else StatusRow (status_row (dd_status d))
          # (if dd_missing d = [] then [] else [NeedsInformation (''Needs information: '' @ js_join '', '' (dd_missing d))]))"

section \<open>The user's edits and the submission\<close>

datatype details_edit = TypeInto jsstr jsstr | TickField jsstr bool | TickSection jsstr bool

fun edit_details :: "details_edit \<Rightarrow> details_form \<Rightarrow> details_form" where
  "edit_details (TypeInto k t) f = f\<lparr>df_fields := map (\<lambda>b.
     if fb_key b = k \<and> \<not> fb_disabled b \<and> fb_kind b \<noteq> CheckBox then b\<lparr>fb_value := control_value (fb_kind b) t\<rparr> else b)
     (df_fields f)\<rparr>"
| "edit_details (TickField k c) f = f\<lparr>df_fields := map (\<lambda>b.
     if fb_key b = k \<and> \<not> fb_disabled b \<and> fb_kind b = CheckBox then b\<lparr>fb_checked := c\<rparr> else b) (df_fields f)\<rparr>"
| "edit_details (TickSection k c) f = f\<lparr>df_sections := map (\<lambda>b.
     if sb_key b = k \<and> \<not> sb_disabled b then b\<lparr>sb_checked := c\<rparr> else b) (df_sections f)\<rparr>"

text \<open>The browser submits a form when its required controls are filled in.\<close>

definition field_filled :: "field_box \<Rightarrow> bool" where
  "field_filled b \<longleftrightarrow> fb_disabled b \<or> \<not> fb_required b \<or> (if fb_kind b = CheckBox then fb_checked b else fb_value b \<noteq> [])"

definition submittable :: "details_form \<Rightarrow> bool" where
  "submittable f \<longleftrightarrow> df_save f \<and> list_all field_filled (df_fields f)"

definition collect_values :: "details_form \<Rightarrow> (jsstr \<times> json) list" where
  "collect_values f =
     concat (map (\<lambda>x. case List.find (\<lambda>b. fb_key b = fd_key x) (df_fields f) of
        None \<Rightarrow> []
      | Some b \<Rightarrow> if fb_disabled b then []
          else [(fd_key x, if fd_type x = ''BOOLEAN'' then JBool (fb_checked b) else JStr (fb_value b))])
       (dd_manifest_fields (df_detail f)))"

definition collect_sections :: "details_form \<Rightarrow> (jsstr \<times> bool) list" where
  "collect_sections f =
     map (\<lambda>x. (sec_key x, sec_required x \<or> (case List.find (\<lambda>b. sb_key b = sec_key x) (df_sections f) of
        None \<Rightarrow> False | Some b \<Rightarrow> sb_checked b))) (dd_manifest_sections (df_detail f))"

definition details_body :: "details_form \<Rightarrow> json" where
  "details_body f =
     JObj [(''values'', JObj (collect_values f)),
           (''sections'', JObj (map (\<lambda>(k, b). (k, JBool b)) (collect_sections f)))]"

section \<open>What the server makes of it\<close>

definition rust_space :: "char \<Rightarrow> bool" where
  "rust_space c = (let n = (of_char c :: nat) in 9 \<le> n \<and> n \<le> 13 \<or> n \<in> {32, 133, 160})"

fun value_matches :: "jsstr \<Rightarrow> json \<Rightarrow> bool" where
  "value_matches ty (JBool b) = (ty = ''BOOLEAN'')"
| "value_matches ty (JStr s) = (ty = ''TEXT'' \<or> ty = ''MULTILINE'' \<or> ty = ''DATE'' \<and> date_of_digits 4 s)"
| "value_matches ty (JList js) = (ty = ''MULTILINE'' \<and> list_all (\<lambda>j. case j of JStr s \<Rightarrow> True | _ \<Rightarrow> False) js)"
| "value_matches ty _ = False"

fun empty_value :: "json \<Rightarrow> bool" where
  "empty_value (JStr s) = list_all rust_space s"
| "empty_value (JList js) = (js = [])"
| "empty_value _ = False"

definition selected_value ::
  "(jsstr \<Rightarrow> json option) \<Rightarrow> (jsstr \<Rightarrow> json option) \<Rightarrow> dd_field \<Rightarrow> json option" where
  "selected_value automatic overrides x =
     (case (if fd_override x then overrides (fd_key x) else None) of Some v \<Rightarrow> Some v
      | None \<Rightarrow> (case Option.bind (fd_source x) automatic of Some v \<Rightarrow> Some v | None \<Rightarrow> fd_default x))"

datatype details_error = InvalidDetails | MissingDetails "jsstr list"

text \<open>Which key an \<open>InvalidValue\<close> names is left out.\<close>

definition check_details ::
  "dd_field list \<Rightarrow> dd_section list \<Rightarrow> (jsstr \<Rightarrow> json option) \<Rightarrow> (jsstr \<times> json) list \<Rightarrow> (jsstr \<times> bool) list
     \<Rightarrow> details_error option" where
  "check_details flds sects automatic overrides choices =
     (let select = selected_value automatic (map_of overrides)
      in if list_ex (\<lambda>(k, v). case List.find (\<lambda>x. fd_key x = k) flds of None \<Rightarrow> True | Some x \<Rightarrow> \<not> fd_override x) overrides
           \<or> list_ex (\<lambda>(k, b). \<not> list_ex (\<lambda>x. sec_key x = k) sects) choices
           \<or> list_ex (\<lambda>x. case select x of None \<Rightarrow> False | Some v \<Rightarrow> \<not> value_matches (fd_type x) v) flds
         then Some InvalidDetails
         else let missing = map fd_label (filter (\<lambda>x. fd_required x \<and>
                (case select x of None \<Rightarrow> True | Some v \<Rightarrow> empty_value v)) flds)
              in if missing = [] then None else Some (MissingDetails missing))"

end
