(* ===== verification/Async.thy ===== *)
theory Async
  imports Prelude
begin

text \<open>
  Asynchronous functions of the client code. A JavaScript \<open>async\<close> function runs without interruption
  up to an \<open>await\<close> on a request; other handlers may run before the answer arrives. A \<open>thread\<close> is what
  is left of a call: its result, its rejection, a request together with the code that runs on the
  answer, or the members of a \<open>Promise.all\<close> together with the code that runs when they are done. Code
  that waits is a function of the state \<^emph>\<open>at the time the answer arrives\<close>, so interleavings are those
  of the browser.

  A call is written in continuation style: it receives what follows it and what its rejection does,
  and acts on the state. The rest of the theory is the run of a page, and two logics for calls: one for
  what every uninterrupted segment of a call does to the state, one for what a call achieves when the
  other handlers leave part of the state alone.
\<close>

section \<open>Threads\<close>

datatype ('s, 'q, 'a) thread =
    Done 'a
  | Failed api_error
  | Wait 'q "'a result \<Rightarrow> 's \<Rightarrow> 's \<times> ('s, 'q, 'a) thread"
  | All "('s, 'q, 'a) thread list" "'a list \<Rightarrow> 's \<Rightarrow> 's \<times> ('s, 'q, 'a) thread"
      "api_error \<Rightarrow> 's \<Rightarrow> 's \<times> ('s, 'q, 'a) thread"

type_synonym ('s, 'q, 'a) prog = "'s \<Rightarrow> 's \<times> ('s, 'q, 'a) thread"

type_synonym ('s, 'q, 'a, 'r) async =
  "('r \<Rightarrow> ('s, 'q, 'a) prog) \<Rightarrow> (api_error \<Rightarrow> ('s, 'q, 'a) prog) \<Rightarrow> ('s, 'q, 'a) prog"

named_theorems async_defs "the constructs of asynchronous code"

definition ret :: "'r \<Rightarrow> ('s, 'q, 'a, 'r) async" where
  [async_defs]: "ret x = (\<lambda>k h. k x)"

definition throw :: "api_error \<Rightarrow> ('s, 'q, 'a, 'r) async" where
  [async_defs]: "throw e = (\<lambda>k h. h e)"

definition bind :: "('s, 'q, 'a, 'x) async \<Rightarrow> ('x \<Rightarrow> ('s, 'q, 'a, 'r) async) \<Rightarrow> ('s, 'q, 'a, 'r) async" where
  [async_defs]: "bind m f = (\<lambda>k h. m (\<lambda>x. f x k h) h)"

text \<open>\<open>try { m } catch (error) { f }\<close>: what follows the statement is not guarded.\<close>

definition attempt ::
  "('s, 'q, 'a, 'r) async \<Rightarrow> (api_error \<Rightarrow> ('s, 'q, 'a, 'r) async) \<Rightarrow> ('s, 'q, 'a, 'r) async" where
  [async_defs]: "attempt m f = (\<lambda>k h. m k (\<lambda>e. f e k h))"

definition act :: "('s \<Rightarrow> 's) \<Rightarrow> ('s, 'q, 'a, unit) async" where
  [async_defs]: "act f = (\<lambda>k h s. k () (f s))"

text \<open>Code that depends on the state it starts in.\<close>

definition look :: "('s \<Rightarrow> ('s, 'q, 'a, 'r) async) \<Rightarrow> ('s, 'q, 'a, 'r) async" where
  [async_defs]: "look f = (\<lambda>k h s. f s k h s)"

definition request :: "'q \<Rightarrow> ('s, 'q, 'a, 'a) async" where
  [async_defs]: "request q = (\<lambda>k h s. (s, Wait q (\<lambda>v. case v of Inl e \<Rightarrow> h e | Inr x \<Rightarrow> k x)))"

fun steps :: "('s, 'q, 'a, unit) async list \<Rightarrow> ('s, 'q, 'a, unit) async" where
  "steps [] = ret ()"
| "steps (m # ms) = bind m (\<lambda>_. steps ms)"

text \<open>
  A request whose answer is read by \<open>f\<close>; reading a field of \<open>null\<close>, and an answer without the field that is
  read, is a rejection with a \<open>TypeError\<close>. \<open>need\<close> reads such a field of the page, \<open>try_act\<close> is a change that
  may throw before it has changed anything.
\<close>

definition type_error :: api_error where
  "type_error = \<lparr>err_message = ''TypeError'', err_status = 0\<rparr>"

definition fetch :: "'q \<Rightarrow> ('a \<Rightarrow> 'x option) \<Rightarrow> ('s, 'q, 'a, 'x) async" where
  "fetch q f = bind (request q) (\<lambda>v. case f v of None \<Rightarrow> throw type_error | Some x \<Rightarrow> ret x)"

definition post :: "'q \<Rightarrow> ('s, 'q, 'a, unit) async" where
  "post q = bind (request q) (\<lambda>_. ret ())"

definition need :: "('s \<Rightarrow> 'x option) \<Rightarrow> ('x \<Rightarrow> ('s, 'q, 'a, 'r) async) \<Rightarrow> ('s, 'q, 'a, 'r) async" where
  "need f g = look (\<lambda>s. case f s of None \<Rightarrow> throw type_error | Some x \<Rightarrow> g x)"

definition try_act :: "('s \<Rightarrow> 's option) \<Rightarrow> ('s, 'q, 'a, unit) async" where
  "try_act f = look (\<lambda>s. case f s of None \<Rightarrow> throw type_error | Some s' \<Rightarrow> act (\<lambda>_. s'))"

text \<open>A call on its own: nothing follows it, and its rejection is the rejection of its promise.\<close>

definition spawn :: "('r \<Rightarrow> 'a) \<Rightarrow> ('s, 'q, 'a, 'r) async \<Rightarrow> ('s, 'q, 'a) prog" where
  [async_defs]: "spawn v m = m (\<lambda>x s. (s, Done (v x))) (\<lambda>e s. (s, Failed e))"

section \<open>Promise.all\<close>

fun rejection :: "('s, 'q, 'a) thread list \<Rightarrow> api_error option" where
  "rejection [] = None"
| "rejection (Failed e # ts) = Some e"
| "rejection (t # ts) = rejection ts"

fun values_of :: "('s, 'q, 'a) thread list \<Rightarrow> 'a list option" where
  "values_of [] = Some []"
| "values_of (Done v # ts) = map_option ((#) v) (values_of ts)"
| "values_of (t # ts) = None"

text \<open>
  A rejected member rejects the whole; what the other members still do is dropped, which is exact for
  the members of the code: bare requests, and functions that catch their own errors.
\<close>

definition settle_all ::
  "('s, 'q, 'a) thread list \<Rightarrow> ('a list \<Rightarrow> ('s, 'q, 'a) prog) \<Rightarrow> (api_error \<Rightarrow> ('s, 'q, 'a) prog)
     \<Rightarrow> ('s, 'q, 'a) prog" where
  "settle_all ts k h s =
     (case rejection ts of Some e \<Rightarrow> h e s
      | None \<Rightarrow> (case values_of ts of Some vs \<Rightarrow> k vs s | None \<Rightarrow> (s, All ts k h)))"

fun start_all :: "('s, 'q, 'a) prog list \<Rightarrow> 's \<Rightarrow> 's \<times> ('s, 'q, 'a) thread list" where
  "start_all [] s = (s, [])"
| "start_all (p # ps) s = (let (s1, t) = p s; (s2, ts) = start_all ps s1 in (s2, t # ts))"

definition promise_all :: "('s, 'q, 'a) prog list \<Rightarrow> ('s, 'q, 'a, 'a list) async" where
  [async_defs]: "promise_all ps = (\<lambda>k h s. let (s', ts) = start_all ps s in settle_all ts k h s')"

section \<open>Answers\<close>

text \<open>The answer to the request at a position of a thread. A wrong position changes nothing.\<close>

fun deliver :: "nat list \<Rightarrow> 'a result \<Rightarrow> ('s, 'q, 'a) thread \<Rightarrow> ('s, 'q, 'a) prog" where
  "deliver [] v (Wait q k) s = k v s"
| "deliver (i # p) v (All ts k h) s =
     (if i < length ts
      then let (s', t) = deliver p v (ts ! i) s in settle_all (ts[i := t]) k h s'
      else (s, All ts k h))"
| "deliver _ v t s = (s, t)"

text \<open>The request that waits first, in the order of the source.\<close>

fun first_wait :: "('s, 'q, 'a) thread \<Rightarrow> (nat list \<times> 'q) option"
  and first_waits :: "nat \<Rightarrow> ('s, 'q, 'a) thread list \<Rightarrow> (nat list \<times> 'q) option" where
  "first_wait (Wait q k) = Some ([], q)"
| "first_wait (All ts k h) = first_waits 0 ts"
| "first_wait t = None"
| "first_waits i [] = None"
| "first_waits i (t # ts) =
     (case first_wait t of Some (p, q) \<Rightarrow> Some (i # p, q) | None \<Rightarrow> first_waits (Suc i) ts)"

text \<open>
  A call that nothing interrupts: a server answers its requests one after the other, at most \<open>n\<close> of
  them, knowing the requests it has had. The result has the requests made, the state and what is left.
\<close>

fun serve :: "nat \<Rightarrow> ('q list \<Rightarrow> 'q \<Rightarrow> 'a result) \<Rightarrow> 'q list \<Rightarrow> 's \<times> ('s, 'q, 'a) thread
    \<Rightarrow> 'q list \<times> 's \<times> ('s, 'q, 'a) thread" where
  "serve 0 srv log st = (log, st)"
| "serve (Suc n) srv log (s, t) =
     (case first_wait t of None \<Rightarrow> (log, s, t)
      | Some (p, q) \<Rightarrow> serve n srv (log @ [q]) (deliver p (srv log q) t s))"

text \<open>The page: its state and the calls under way.\<close>

type_synonym ('s, 'q, 'a) page = "'s \<times> ('s, 'q, 'a) thread list"

definition begin_call :: "('s, 'q, 'a) prog \<Rightarrow> ('s, 'q, 'a) page \<Rightarrow> ('s, 'q, 'a) page" where
  "begin_call p pg = (let (s, t) = p (fst pg) in (s, snd pg @ [t]))"

definition answer_call :: "nat \<Rightarrow> nat list \<Rightarrow> 'a result \<Rightarrow> ('s, 'q, 'a) page \<Rightarrow> ('s, 'q, 'a) page" where
  "answer_call i p v pg =
     (if i < length (snd pg)
      then let (s, t) = deliver p v (snd pg ! i) (fst pg) in (s, (snd pg)[i := t]) else pg)"

text \<open>Every state of a page whose tasks are the given ones, answered in any order and with anything.\<close>

inductive page_reach :: "('s, 'q, 'a) prog set \<Rightarrow> 's \<Rightarrow> ('s, 'q, 'a) page \<Rightarrow> bool"
  for tasks :: "('s, 'q, 'a) prog set" and s0 :: 's where
  at_load: "page_reach tasks s0 (s0, [])"
| begins: "page_reach tasks s0 pg \<Longrightarrow> p \<in> tasks \<Longrightarrow> page_reach tasks s0 (begin_call p pg)"
| answers: "page_reach tasks s0 pg \<Longrightarrow> page_reach tasks s0 (answer_call i p v pg)"

section \<open>What every segment does\<close>

inductive guarantees :: "('s \<Rightarrow> 's \<Rightarrow> bool) \<Rightarrow> ('s, 'q, 'a) thread \<Rightarrow> bool" for R where
  g_done: "guarantees R (Done v)"
| g_failed: "guarantees R (Failed e)"
| g_wait: "(\<And>v s. R s (fst (k v s)) \<and> guarantees R (snd (k v s))) \<Longrightarrow> guarantees R (Wait q k)"
| g_all: "(\<And>t. t \<in> set ts \<Longrightarrow> guarantees R t)
    \<Longrightarrow> (\<And>vs s. R s (fst (k vs s)) \<and> guarantees R (snd (k vs s)))
    \<Longrightarrow> (\<And>e s. R s (fst (h e s)) \<and> guarantees R (snd (h e s)))
    \<Longrightarrow> guarantees R (All ts k h)"

inductive_simps guarantees_simps [simp]: "guarantees R (Done v)" "guarantees R (Failed e)"
inductive_cases guarantees_waitE: "guarantees R (Wait q k)"
inductive_cases guarantees_allE: "guarantees R (All ts k h)"

definition segment :: "('s \<Rightarrow> 's \<Rightarrow> bool) \<Rightarrow> ('s, 'q, 'a) prog \<Rightarrow> bool" where
  "segment R p \<longleftrightarrow> (\<forall>s. R s (fst (p s)) \<and> guarantees R (snd (p s)))"

definition moves :: "('s \<Rightarrow> 's \<Rightarrow> bool) \<Rightarrow> ('s, 'q, 'a, 'r) async \<Rightarrow> bool" where
  "moves R m \<longleftrightarrow> (\<forall>k h. (\<forall>x. segment R (k x)) \<longrightarrow> (\<forall>e. segment R (h e)) \<longrightarrow> segment R (m k h))"

named_theorems moves_intros "how the constructs of asynchronous code move the state"

lemma moves_ret [moves_intros]: "moves R (ret x)"
  by (simp add: moves_def ret_def)

lemma moves_throw [moves_intros]: "moves R (throw e)"
  by (simp add: moves_def throw_def)

lemma moves_bind [moves_intros]: "moves R m \<Longrightarrow> (\<And>x. moves R (f x)) \<Longrightarrow> moves R (bind m f)"
  by (simp add: moves_def bind_def)

lemma moves_attempt [moves_intros]: "moves R m \<Longrightarrow> (\<And>e. moves R (f e)) \<Longrightarrow> moves R (attempt m f)"
  by (simp add: moves_def attempt_def)

lemma moves_look [moves_intros]: "(\<And>s. moves R (f s)) \<Longrightarrow> moves R (look f)"
  unfolding moves_def look_def segment_def by blast

lemma moves_steps [moves_intros]:
  "moves R (steps [])" "moves R m \<Longrightarrow> moves R (steps ms) \<Longrightarrow> moves R (steps (m # ms))"
  by (simp_all add: moves_intros)

lemma moves_if [moves_intros]: "moves R m \<Longrightarrow> moves R m' \<Longrightarrow> moves R (if b then m else m')"
  by simp

lemma moves_option [moves_intros]:
  "moves R m \<Longrightarrow> (\<And>x. moves R (f x)) \<Longrightarrow> moves R (case v of None \<Rightarrow> m | Some x \<Rightarrow> f x)"
  by (cases v) simp_all

lemma moves_prod [moves_intros]: "(\<And>x y. moves R (f x y)) \<Longrightarrow> moves R (case v of (x, y) \<Rightarrow> f x y)"
  by (cases v) simp

lemma moves_need [moves_intros]: "(\<And>x. moves R (g x)) \<Longrightarrow> moves R (need f g)"
  unfolding need_def by (intro moves_intros) auto

text \<open>The relations of interest are preorders: what a sequence of segments does is then one of them.\<close>

locale rely =
  fixes R :: "'s \<Rightarrow> 's \<Rightarrow> bool"
  assumes rely_refl: "R s s"
    and rely_trans: "R s t \<Longrightarrow> R t u \<Longrightarrow> R s u"
begin

lemma moves_act: "(\<And>s. R s (f s)) \<Longrightarrow> moves R (act f)"
  unfolding moves_def act_def segment_def by (blast intro: rely_trans)

text \<open>A change that keeps to the relation only in the states where the code makes it.\<close>

lemma moves_guarded:
  fixes m m' :: "('s, 'q, 'a, 'r) async"
  assumes "\<And>s. c s \<Longrightarrow> R s (f s)" "moves R m" "moves R m'"
  shows "moves R (look (\<lambda>s. if c s then bind (act f) (\<lambda>_. m) else m'))"
  unfolding moves_def
proof (intro allI impI)
  fix k :: "'r \<Rightarrow> ('s, 'q, 'a) prog" and h :: "api_error \<Rightarrow> ('s, 'q, 'a) prog"
  assume "\<forall>x. segment R (k x)" "\<forall>e. segment R (h e)"
  with assms(2,3) have "segment R (m k h)" "segment R (m' k h)" unfolding moves_def by blast+
  with assms(1) show "segment R (look (\<lambda>s. if c s then bind (act f) (\<lambda>_. m) else m') k h)"
    unfolding segment_def look_def bind_def act_def by (auto intro: rely_trans)
qed

lemma moves_guarded_act:
  assumes "\<And>s. c s \<Longrightarrow> R s (f s)"
  shows "moves R (look (\<lambda>s. if c s then act f else ret ()))"
  using assms unfolding moves_def look_def act_def ret_def segment_def
  by (auto intro: rely_trans)

lemma moves_request: "moves R (request q)"
  unfolding moves_def request_def segment_def
  by (auto intro!: rely_refl guarantees.intros split: sum.splits)

lemma moves_fetch: "moves R (fetch q f)"
  unfolding fetch_def by (intro moves_intros moves_request)

lemma moves_post: "moves R (post q)"
  unfolding post_def by (intro moves_intros moves_request)

lemma moves_try_act:
  assumes "\<And>s t. f s = Some t \<Longrightarrow> R s t"
  shows "moves R (try_act f)"
  unfolding try_act_def moves_def look_def act_def throw_def segment_def
  using assms by (auto split: option.split intro: rely_trans)

lemma segment_settle:
  assumes "\<And>t. t \<in> set ts \<Longrightarrow> guarantees R t" "\<And>vs. segment R (k vs)" "\<And>e. segment R (h e)"
  shows "segment R (settle_all ts k h)"
  using assms unfolding segment_def settle_all_def
  by (auto intro!: guarantees.intros rely_refl split: option.splits)

lemma segment_spawn: "moves R m \<Longrightarrow> segment R (spawn v m)"
  unfolding moves_def spawn_def segment_def by (simp add: rely_refl)

lemma start_all_moves:
  "(\<And>p. p \<in> set ps \<Longrightarrow> segment R p) \<Longrightarrow>
     R s (fst (start_all ps s)) \<and> (\<forall>t\<in>set (snd (start_all ps s)). guarantees R t)"
proof (induction ps arbitrary: s)
  case (Cons p ps)
  from Cons.prems have "R s (fst (p s))" "guarantees R (snd (p s))"
    by (simp_all add: segment_def)
  moreover from Cons.IH [of "fst (p s)"] Cons.prems
  have "R (fst (p s)) (fst (start_all ps (fst (p s))))"
    "\<forall>t\<in>set (snd (start_all ps (fst (p s)))). guarantees R t"
    by simp_all
  ultimately show ?case by (auto simp: split_beta Let_def intro: rely_trans)
qed (simp add: rely_refl)

lemma moves_promise_all:
  fixes ps :: "('s, 'q, 'a) prog list"
  assumes ps: "\<And>p. p \<in> set ps \<Longrightarrow> segment R p"
  shows "moves R (promise_all ps)"
  unfolding moves_def promise_all_def
proof (intro allI impI)
  fix k :: "'a list \<Rightarrow> ('s, 'q, 'a) prog" and h :: "api_error \<Rightarrow> ('s, 'q, 'a) prog"
  assume k: "\<forall>x. segment R (k x)" and h: "\<forall>e. segment R (h e)"
  have "R s (fst (start_all ps s))"
    "segment R (settle_all (snd (start_all ps s)) k h)" for s
    using start_all_moves [of ps s] ps k h by (auto intro: segment_settle)
  then show "segment R (\<lambda>s. let (s', ts) = start_all ps s in settle_all ts k h s')"
    unfolding segment_def by (auto simp: split_beta Let_def intro: rely_trans)
qed

lemma deliver_moves: "guarantees R t \<Longrightarrow> R s (fst (deliver p v t s)) \<and> guarantees R (snd (deliver p v t s))"
proof (induction p v t s rule: deliver.induct)
  case (1 v q k s)
  then show ?case by (auto elim: guarantees_waitE)
next
  case (2 i p v ts k h s)
  show ?case
  proof (cases "i < length ts")
    case True
    let ?d = "deliver p v (ts ! i) s"
    from 2(2) have ts: "\<And>t. t \<in> set ts \<Longrightarrow> guarantees R t"
      and k: "\<And>vs. segment R (k vs)" and h: "\<And>e. segment R (h e)"
      by (auto elim: guarantees_allE simp: segment_def)
    from 2(1) [OF True] ts True have d: "R s (fst ?d)" "guarantees R (snd ?d)" by simp_all
    then have "segment R (settle_all (ts[i := snd ?d]) k h)"
      using ts k h set_update_subset_insert by (intro segment_settle) fastforce+
    with d True show ?thesis
      unfolding segment_def by (auto simp: split_beta Let_def intro: rely_trans)
  qed (use 2(2) in \<open>simp add: rely_refl\<close>)
qed (simp_all add: rely_refl)

text \<open>Every run of a page of such tasks moves along the relation.\<close>

lemma page_moves:
  assumes "page_reach tasks s0 pg" and "\<And>p. p \<in> tasks \<Longrightarrow> segment R p"
  shows "R s0 (fst pg) \<and> (\<forall>t\<in>set (snd pg). guarantees R t)"
  using assms(1)
proof induction
  case (begins pg p)
  then show ?case
    using assms(2) [of p] unfolding segment_def begin_call_def
    by (auto simp: split_beta Let_def intro: rely_trans)
next
  case (answers pg i p v)
  show ?case
  proof (cases "i < length (snd pg)")
    case True
    then have "guarantees R (snd pg ! i)" using answers by simp
    from deliver_moves [OF this, of "fst pg" p v] answers(2) True show ?thesis
      by (auto simp: answer_call_def split_beta Let_def intro: rely_trans
          dest!: set_update_subset_insert [THEN subsetD])
  qed (use answers in \<open>simp add: answer_call_def\<close>)
qed (simp add: rely_refl)

end

text \<open>Preserving a predicate is such a relation: invariants of the page.\<close>

definition preserves :: "('s \<Rightarrow> bool) \<Rightarrow> 's \<Rightarrow> 's \<Rightarrow> bool" where
  "preserves I s t \<longleftrightarrow> (I s \<longrightarrow> I t)"

definition agrees :: "('s \<Rightarrow> 'v) \<Rightarrow> 's \<Rightarrow> 's \<Rightarrow> bool" where
  "agrees f s t \<longleftrightarrow> f t = f s"

interpretation preserving: rely "preserves I"
  by unfold_locales (auto simp: preserves_def)

interpretation agreeing: rely "agrees f"
  by unfold_locales (auto simp: agrees_def)

end
