(* ===== verification/AsyncLogic.thy ===== *)
theory AsyncLogic
  imports Async
begin

text \<open>
  Two more judgements on asynchronous calls: how many answers a call needs before it is settled
  (\<open>settles\<close>, \<open>costs\<close>), and what has been achieved when it ends (\<open>ends\<close>, \<open>achieves\<close>) while the rest of the
  page moves the state along a given relation at most.
\<close>

section \<open>How many answers a call needs\<close>

text \<open>\<open>settles n t\<close>: whatever the answers, in whatever state they arrive, \<open>t\<close> takes at most \<open>n\<close> of them.\<close>

inductive settles :: "nat \<Rightarrow> ('s, 'q, 'a) thread \<Rightarrow> bool" where
  s_done: "settles n (Done v)"
| s_failed: "settles n (Failed e)"
| s_wait: "(\<And>v s. settles n (snd (k v s))) \<Longrightarrow> settles (Suc n) (Wait q k)"
| s_all: "length ns = length ts \<Longrightarrow> rejection ts = None \<Longrightarrow> values_of ts = None
    \<Longrightarrow> (\<And>i. i < length ts \<Longrightarrow> settles (ns ! i) (ts ! i))
    \<Longrightarrow> (\<And>vs s. settles c (snd (k vs s))) \<Longrightarrow> (\<And>e s. settles c (snd (h e s)))
    \<Longrightarrow> settles (sum_list ns + c) (All ts k h)"

inductive_cases settles_waitE: "settles n (Wait q k)"
inductive_cases settles_allE: "settles n (All ts k h)"

lemma settles_mono: "settles n t \<Longrightarrow> n \<le> m \<Longrightarrow> settles m t"
proof (induction arbitrary: m rule: settles.induct)
  case (s_wait n k q)
  then obtain m' where "m = Suc m'" "n \<le> m'" by (cases m) auto
  then show ?case using s_wait.IH by (auto intro: settles.s_wait)
next
  case (s_all ns ts c k h)
  then obtain d where m: "m = sum_list ns + d" "c \<le> d" by (metis add.assoc le_add1 le_iff_add)
  show ?case unfolding m(1)
    using s_all.hyps(1-4) s_all.IH(2,3) m(2) by (intro settles.s_all) auto
qed (auto intro: settles.intros)

fun waits_at :: "nat list \<Rightarrow> ('s, 'q, 'a) thread \<Rightarrow> bool" where
  "waits_at [] (Wait q k) = True"
| "waits_at (i # p) (All ts k h) = (i < length ts \<and> waits_at p (ts ! i))"
| "waits_at p t = False"

definition settled :: "('s, 'q, 'a) thread \<Rightarrow> bool" where
  "settled t = (case t of Done v \<Rightarrow> True | Failed e \<Rightarrow> True | _ \<Rightarrow> False)"

lemma settled_simps [simp]:
  "settled (Done v)" "settled (Failed e)" "\<not> settled (Wait q f)" "\<not> settled (All ts k h)"
  by (simp_all add: settled_def)

lemma values_of_unsettled:
  "values_of ts = None \<Longrightarrow> rejection ts = None \<Longrightarrow> \<exists>i<length ts. \<not> settled (ts ! i)"
proof (induction ts)
  case (Cons t ts)
  show ?case
  proof (cases "settled t")
    case True
    then obtain v where t: "t = Done v" using Cons.prems by (cases t) auto
    with Cons obtain i where "i < length ts" "\<not> settled (ts ! i)" by auto
    then show ?thesis by (intro exI [of _ "Suc i"]) simp
  qed auto
qed simp

text \<open>A call that has no result yet waits for an answer: nothing else can hold it up.\<close>

lemma settles_progress: "settles n t \<Longrightarrow> settled t \<or> (\<exists>p. waits_at p t)"
proof (induction rule: settles.induct)
  case (s_wait n k q)
  show ?case by (rule disjI2, rule exI [of _ "[]"]) simp
next
  case (s_all ns ts c k h)
  then obtain i where i: "i < length ts" "\<not> settled (ts ! i)" using values_of_unsettled by blast
  with s_all.IH(1) obtain p where "waits_at p (ts ! i)" by blast
  with i show ?case by (intro disjI2 exI [of _ "i # p"]) simp
qed simp_all

lemma sum_list_update_less:
  "i < length ns \<Longrightarrow> ns ! i = Suc m \<Longrightarrow> sum_list ns = Suc (sum_list (ns[i := m]))"
  by (induction ns arbitrary: i) (auto split: nat.splits)

lemma settles_settle_all:
  assumes "length ns = length ts" "\<And>i. i < length ts \<Longrightarrow> settles (ns ! i) (ts ! i)"
    and "\<And>vs s. settles c (snd (k vs s))" "\<And>e s. settles c (snd (h e s))"
  shows "settles (sum_list ns + c) (snd (settle_all ts k h s))"
proof -
  have "settles (sum_list ns + c) (snd (k vs s))" "settles (sum_list ns + c) (snd (h e s))" for vs e s
    by (rule settles_mono [OF assms(3)] settles_mono [OF assms(4)], simp)+
  with assms show ?thesis
    by (auto simp: settle_all_def intro!: settles.s_all split: option.splits)
qed

lemma settles_deliver:
  "settles n t \<Longrightarrow> waits_at p t \<Longrightarrow> \<exists>m. n = Suc m \<and> settles m (snd (deliver p v t s))"
proof (induction p t arbitrary: n rule: waits_at.induct)
  case (1 q k)
  then show ?case by (auto elim: settles_waitE)
next
  case (2 i p ts k h)
  from 2(3) have i: "i < length ts" and p: "waits_at p (ts ! i)" by auto
  from 2(2) obtain ns c where n: "n = sum_list ns + c" "length ns = length ts"
    and ts: "\<And>j. j < length ts \<Longrightarrow> settles (ns ! j) (ts ! j)"
    and kh: "\<And>vs s. settles c (snd (k vs s))" "\<And>e s. settles c (snd (h e s))"
    by (auto elim: settles_allE)
  from 2(1) [OF ts [OF i] p] obtain m
    where m: "ns ! i = Suc m" "settles m (snd (deliver p v (ts ! i) s))" by auto
  have "settles (sum_list (ns[i := m]) + c)
      (snd (settle_all (ts[i := snd (deliver p v (ts ! i) s)]) k h s'))" for s'
    using n(2) ts m(2) kh i by (intro settles_settle_all) (auto simp: nth_list_update)
  moreover have "n = Suc (sum_list (ns[i := m]) + c)"
    using sum_list_update_less [of i ns m] i n m(1) by simp
  ultimately show ?case using i by (simp add: split_beta Let_def)
qed auto

text \<open>
  Answers at waiting requests, one after the other, each in whatever state the page is in then.
\<close>

fun answer_seq :: "(nat list \<times> 'a result \<times> 's) list \<Rightarrow> ('s, 'q, 'a) thread \<Rightarrow> ('s, 'q, 'a) thread option" where
  "answer_seq [] t = Some t"
| "answer_seq ((p, v, s) # xs) t =
     (if waits_at p t then answer_seq xs (snd (deliver p v t s)) else None)"

lemma settles_answers:
  "settles n t \<Longrightarrow> answer_seq xs t = Some t' \<Longrightarrow> length xs \<le> n \<and> (settled t' \<or> (\<exists>p. waits_at p t'))"
proof (induction xs t arbitrary: n rule: answer_seq.induct)
  case (2 p v s xs t)
  then have p: "waits_at p t" by (auto split: if_splits)
  with settles_deliver [OF 2(2)] obtain m where "n = Suc m" "settles m (snd (deliver p v t s))" by blast
  with 2(1) [OF p, of m] 2(3) p show ?case by simp
qed (auto dest: settles_progress)

definition costs :: "nat \<Rightarrow> ('s, 'q, 'a, 'r) async \<Rightarrow> bool" where
  "costs n m \<longleftrightarrow> (\<forall>k h c. (\<forall>x s. settles c (snd (k x s))) \<longrightarrow> (\<forall>e s. settles c (snd (h e s)))
     \<longrightarrow> (\<forall>s. settles (n + c) (snd (m k h s))))"

named_theorems costs_intros "what the constructs of asynchronous code cost"

lemma costs_weaken: "costs n m \<Longrightarrow> n \<le> n' \<Longrightarrow> costs n' m"
  unfolding costs_def by (meson add_le_mono1 settles_mono)

lemma costs_ret [costs_intros]: "costs 0 (ret x)"
  by (simp add: costs_def ret_def)

lemma costs_throw [costs_intros]: "costs 0 (throw e)"
  by (simp add: costs_def throw_def)

lemma costs_act [costs_intros]: "costs 0 (act f)"
  by (simp add: costs_def act_def)

lemma costs_request [costs_intros]: "costs 1 (request q)"
  by (auto simp: costs_def request_def intro!: settles.s_wait split: sum.splits)

lemma costs_look [costs_intros]: "(\<And>s. costs n (f s)) \<Longrightarrow> costs n (look f)"
  unfolding costs_def look_def by blast

lemma costs_bind [costs_intros]: "costs n m \<Longrightarrow> (\<And>x. costs n' (f x)) \<Longrightarrow> costs (n + n') (bind m f)"
  unfolding costs_def bind_def add.assoc by (meson settles_mono le_add2)

lemma costs_attempt [costs_intros]:
  assumes m: "costs n m" and f: "\<And>e. costs n' (f e)"
  shows "costs (n + n') (attempt m f)"
  unfolding costs_def attempt_def
proof (intro allI impI)
  fix k :: "'a \<Rightarrow> ('b, 'c, 'd) prog" and h :: "api_error \<Rightarrow> ('b, 'c, 'd) prog" and c s
  assume k: "\<forall>x s. settles c (snd (k x s))" and h: "\<forall>e s. settles c (snd (h e s))"
  have "\<forall>e s. settles (n' + c) (snd (f e k h s))" using f k h unfolding costs_def by blast
  moreover have "\<forall>x s. settles (n' + c) (snd (k x s))" using k settles_mono by (metis le_add2)
  ultimately show "settles (n + n' + c) (snd (m k (\<lambda>e. f e k h) s))"
    using m unfolding costs_def add.assoc by simp
qed

lemma costs_steps_Nil [costs_intros]: "costs 0 (steps [])"
  by (simp add: costs_ret)

lemma costs_steps [costs_intros]: "costs n m \<Longrightarrow> costs n' (steps ms) \<Longrightarrow> costs (n + n') (steps (m # ms))"
  by (simp add: costs_bind)

lemma costs_if [costs_intros]: "costs n m \<Longrightarrow> costs n' m' \<Longrightarrow> costs (max n n') (if b then m else m')"
  by (auto elim: costs_weaken)

lemma costs_option [costs_intros]:
  "costs n m \<Longrightarrow> (\<And>x. costs n' (f x)) \<Longrightarrow> costs (max n n') (case v of None \<Rightarrow> m | Some x \<Rightarrow> f x)"
  by (cases v) (auto intro: costs_weaken [of n] costs_weaken [of n'])

lemma costs_prod [costs_intros]: "(\<And>x y. costs n (f x y)) \<Longrightarrow> costs n (case v of (x, y) \<Rightarrow> f x y)"
  by (cases v) simp

lemma costs_fetch [costs_intros]: "costs 1 (fetch q f)"
  unfolding fetch_def by (rule costs_weaken, (rule costs_intros)+, simp)

lemma costs_post [costs_intros]: "costs 1 (post q)"
  unfolding post_def by (rule costs_weaken, (rule costs_intros)+, simp)

lemma costs_need [costs_intros]: "(\<And>x. costs n (g x)) \<Longrightarrow> costs n (need f g)"
  unfolding need_def by (rule costs_weaken, (rule costs_intros)+, assumption, simp)

lemma costs_try_act [costs_intros]: "costs 0 (try_act f)"
  unfolding try_act_def by (rule costs_weaken, (rule costs_intros)+, simp)

definition prog_costs :: "nat \<Rightarrow> ('s, 'q, 'a) prog \<Rightarrow> bool" where
  "prog_costs n p \<longleftrightarrow> (\<forall>s. settles n (snd (p s)))"

lemma costs_spawn [costs_intros]: "costs n m \<Longrightarrow> prog_costs n (spawn v m)"
  unfolding costs_def prog_costs_def spawn_def by (metis add_0_right s_done s_failed snd_conv)

lemma start_all_settles:
  "list_all2 prog_costs ns ps \<Longrightarrow> list_all2 settles ns (snd (start_all ps s))"
  by (induction ns ps arbitrary: s rule: list_all2_induct)
    (auto simp: prog_costs_def split_beta Let_def)

lemma costs_promise_all: "list_all2 prog_costs ns ps \<Longrightarrow> costs (sum_list ns) (promise_all ps)"
  unfolding costs_def promise_all_def
proof (intro allI impI)
  fix k :: "'c list \<Rightarrow> ('a, 'b, 'c) prog" and h :: "api_error \<Rightarrow> ('a, 'b, 'c) prog" and c s
  assume ps: "list_all2 prog_costs ns ps"
    and kh: "\<forall>x s. settles c (snd (k x s))" "\<forall>e s. settles c (snd (h e s))"
  from start_all_settles [OF ps, of s] have
    "length ns = length (snd (start_all ps s))"
    "\<And>i. i < length (snd (start_all ps s)) \<Longrightarrow> settles (ns ! i) (snd (start_all ps s) ! i)"
    by (auto simp: list_all2_conv_all_nth)
  then show "settles (sum_list ns + c) (snd (let (s', ts) = start_all ps s in settle_all ts k h s'))"
    using kh settles_settle_all [of ns "snd (start_all ps s)"] by (simp add: split_beta Let_def)
qed

section \<open>What a call achieves\<close>

text \<open>
  \<open>ends R F s t\<close>: if the rest of the page moves the state along \<open>R\<close> at most, then whenever \<open>t\<close>, held up in
  state \<open>s\<close>, comes to its end, \<open>F\<close> holds of the state and the outcome.
\<close>

inductive ends :: "('s \<Rightarrow> 's \<Rightarrow> bool) \<Rightarrow> ('s \<Rightarrow> ('s, 'q, 'a) thread \<Rightarrow> bool) \<Rightarrow> 's \<Rightarrow> ('s, 'q, 'a) thread \<Rightarrow> bool"
  for R F where
  e_done: "F s (Done v) \<Longrightarrow> ends R F s (Done v)"
| e_failed: "F s (Failed e) \<Longrightarrow> ends R F s (Failed e)"
| e_wait: "(\<And>v s'. R s s' \<Longrightarrow> ends R F (fst (k v s')) (snd (k v s'))) \<Longrightarrow> ends R F s (Wait q k)"
| e_all: "(\<And>t. t \<in> set ts \<Longrightarrow> guarantees R t)
    \<Longrightarrow> (\<And>vs s'. R s s' \<Longrightarrow> ends R F (fst (k vs s')) (snd (k vs s')))
    \<Longrightarrow> (\<And>e s'. R s s' \<Longrightarrow> ends R F (fst (h e s')) (snd (h e s')))
    \<Longrightarrow> ends R F s (All ts k h)"

inductive_simps ends_simps [simp]: "ends R F s (Done v)" "ends R F s (Failed e)"
inductive_cases ends_waitE: "ends R F s (Wait q k)"
inductive_cases ends_allE: "ends R F s (All ts k h)"

definition achieves :: "('s \<Rightarrow> 's \<Rightarrow> bool) \<Rightarrow> ('s \<Rightarrow> bool) \<Rightarrow> ('s, 'q, 'a, 'r) async
    \<Rightarrow> ('r \<Rightarrow> 's \<Rightarrow> bool) \<Rightarrow> (api_error \<Rightarrow> 's \<Rightarrow> bool) \<Rightarrow> bool" where
  "achieves R P m Q E \<longleftrightarrow> (\<forall>F k h.
     (\<forall>x s. Q x s \<longrightarrow> ends R F (fst (k x s)) (snd (k x s))) \<longrightarrow>
     (\<forall>e s. E e s \<longrightarrow> ends R F (fst (h e s)) (snd (h e s))) \<longrightarrow>
     (\<forall>s. P s \<longrightarrow> ends R F (fst (m k h s)) (snd (m k h s))))"

lemma achieves_ret: "(\<And>s. P s \<Longrightarrow> Q x s) \<Longrightarrow> achieves R P (ret x) Q E"
  by (simp add: achieves_def ret_def)

lemma achieves_throw: "(\<And>s. P s \<Longrightarrow> E e s) \<Longrightarrow> achieves R P (throw e) Q E"
  by (simp add: achieves_def throw_def)

lemma achieves_act: "(\<And>s. P s \<Longrightarrow> Q () (f s)) \<Longrightarrow> achieves R P (act f) Q E"
  by (simp add: achieves_def act_def)

lemma achieves_look: "(\<And>s. achieves R (\<lambda>s'. s' = s \<and> P s') (f s) Q E) \<Longrightarrow> achieves R P (look f) Q E"
  unfolding achieves_def look_def by blast

lemma achieves_bind:
  "achieves R P m A E \<Longrightarrow> (\<And>x. achieves R (A x) (f x) Q E) \<Longrightarrow> achieves R P (bind m f) Q E"
  by (simp add: achieves_def bind_def)

lemma achieves_attempt:
  "achieves R P m Q A \<Longrightarrow> (\<And>e. achieves R (A e) (f e) Q E) \<Longrightarrow> achieves R P (attempt m f) Q E"
  by (simp add: achieves_def attempt_def)

lemma achieves_pre: "achieves R P m Q E \<Longrightarrow> (\<And>s. P' s \<Longrightarrow> P s) \<Longrightarrow> achieves R P' m Q E"
  unfolding achieves_def by blast

lemma achieves_post: "achieves R P m Q E \<Longrightarrow> (\<And>x s. Q x s \<Longrightarrow> Q' x s) \<Longrightarrow> achieves R P m Q' E"
  unfolding achieves_def by blast

lemma achieves_request: "(\<And>v s s'. P s \<Longrightarrow> R s s' \<Longrightarrow> Q v s') \<Longrightarrow> (\<And>e s s'. P s \<Longrightarrow> R s s' \<Longrightarrow> E e s')
    \<Longrightarrow> achieves R P (request q) Q E"
  unfolding achieves_def request_def by (auto intro!: ends.e_wait split: sum.splits)

lemma achieves_if: "achieves R P m Q E \<Longrightarrow> achieves R P m' Q E \<Longrightarrow> achieves R P (if b then m else m') Q E"
  by simp

lemma achieves_option:
  "achieves R P m Q E \<Longrightarrow> (\<And>x. achieves R P (f x) Q E) \<Longrightarrow> achieves R P (case v of None \<Rightarrow> m | Some x \<Rightarrow> f x) Q E"
  by (simp split: option.split)

lemma achieves_prod:
  "(\<And>x y. achieves R P (f x y) Q E) \<Longrightarrow> achieves R P (case v of (x, y) \<Rightarrow> f x y) Q E"
  by (cases v) simp

lemma achieves_steps:
  "(\<And>s. P s \<Longrightarrow> Q () s) \<Longrightarrow> achieves R P (steps []) Q E"
  "achieves R P m (\<lambda>_. A) E \<Longrightarrow> achieves R A (steps ms) Q E \<Longrightarrow> achieves R P (steps (m # ms)) Q E"
  by (auto intro: achieves_ret achieves_bind)

context rely
begin

lemma ends_settle:
  assumes "\<And>t. t \<in> set ts \<Longrightarrow> guarantees R t" "R s s'"
    and k: "\<And>vs s'. R s s' \<Longrightarrow> ends R F (fst (k vs s')) (snd (k vs s'))"
    and h: "\<And>e s'. R s s' \<Longrightarrow> ends R F (fst (h e s')) (snd (h e s'))"
  shows "ends R F (fst (settle_all ts k h s')) (snd (settle_all ts k h s'))"
proof -
  have "ends R F s' (All ts k h)"
    by (rule ends.e_all) (use assms rely_trans in blast)+
  then show ?thesis using k h assms(2) by (auto simp: settle_all_def split: option.splits)
qed

text \<open>A call that moves the state along the relation keeps what is stable under it.\<close>

lemma achieves_promise_all:
  fixes ps :: "('s, 'q, 'a) prog list"
  assumes ps: "\<And>p. p \<in> set ps \<Longrightarrow> segment R p"
    and Q: "\<And>vs s s'. P s \<Longrightarrow> R s s' \<Longrightarrow> Q vs s'" and E: "\<And>e s s'. P s \<Longrightarrow> R s s' \<Longrightarrow> E e s'"
  shows "achieves R P (promise_all ps) Q E"
  unfolding achieves_def promise_all_def
proof (intro allI impI)
  fix F and k :: "'a list \<Rightarrow> ('s, 'q, 'a) prog" and h :: "api_error \<Rightarrow> ('s, 'q, 'a) prog" and s
  assume k: "\<forall>x s. Q x s \<longrightarrow> ends R F (fst (k x s)) (snd (k x s))"
    and h: "\<forall>e s. E e s \<longrightarrow> ends R F (fst (h e s)) (snd (h e s))" and s: "P s"
  have "ends R F (fst (settle_all (snd (start_all ps s)) k h (fst (start_all ps s))))
     (snd (settle_all (snd (start_all ps s)) k h (fst (start_all ps s))))"
    using start_all_moves [of ps s] ps k h Q [OF s] E [OF s] by (intro ends_settle [of _ s]) auto
  then show "ends R F (fst (let (s', ts) = start_all ps s in settle_all ts k h s'))
     (snd (let (s', ts) = start_all ps s in settle_all ts k h s'))"
    by (simp add: split_beta Let_def)
qed

lemma ends_stable: "ends R F s t \<Longrightarrow> \<not> settled t \<Longrightarrow> R s s' \<Longrightarrow> ends R F s' t"
proof (cases t)
  case (Wait q k)
  assume "ends R F s t" "R s s'"
  then show ?thesis using Wait rely_trans by (auto elim!: ends_waitE intro!: ends.e_wait)
next
  case (All ts k h)
  assume "ends R F s t" "R s s'"
  then show ?thesis unfolding All by (elim ends_allE, intro ends.e_all) (use rely_trans in blast)+
qed simp_all

lemma ends_deliver:
  assumes "ends R F s t" "waits_at p t" "R s s'"
  shows "ends R F (fst (deliver p v t s')) (snd (deliver p v t s'))"
proof (cases t)
  case (Wait q k)
  with assms show ?thesis by (cases p) (auto elim: ends_waitE)
next
  case (All ts k h)
  with assms(2) obtain i p' where p: "p = i # p'" "i < length ts" by (cases p) auto
  from assms(1) All have ts: "\<And>t. t \<in> set ts \<Longrightarrow> guarantees R t"
    and kh: "\<And>vs s'. R s s' \<Longrightarrow> ends R F (fst (k vs s')) (snd (k vs s'))"
      "\<And>e s'. R s s' \<Longrightarrow> ends R F (fst (h e s')) (snd (h e s'))"
    by (auto elim: ends_allE)
  let ?d = "deliver p' v (ts ! i) s'"
  from deliver_moves [of "ts ! i" s' p' v] ts p(2) have "R s' (fst ?d)" "guarantees R (snd ?d)" by auto
  then have "guarantees R u" if "u \<in> set (ts[i := snd ?d])" for u
    using that ts set_update_subset_insert by fastforce
  moreover have "R s (fst ?d)" using assms(3) \<open>R s' (fst ?d)\<close> by (rule rely_trans)
  ultimately have "ends R F (fst (settle_all (ts[i := snd ?d]) k h (fst ?d)))
      (snd (settle_all (ts[i := snd ?d]) k h (fst ?d)))"
    using kh by (rule ends_settle)
  with All p show ?thesis by (simp add: split_beta Let_def)
qed (use assms in auto)

text \<open>What is achieved when a server answers the call and nothing else runs.\<close>

lemma first_wait_at:
  fixes t :: "('x, 'q, 'a) thread" and ts :: "('x, 'q, 'a) thread list"
  shows "first_wait t = Some (p, q) \<Longrightarrow> waits_at p t"
  "first_waits n ts = Some (p, q) \<Longrightarrow> \<exists>i p'. p = i # p' \<and> n \<le> i \<and> i - n < length ts \<and> waits_at p' (ts ! (i - n))"
proof -
  have step: "\<exists>j p'. p = j # p' \<and> i \<le> j \<and> j - i < length (t # us) \<and> waits_at p' ((t # us) ! (j - i))"
    if "\<exists>j p'. p = j # p' \<and> Suc i \<le> j \<and> j - Suc i < length us \<and> waits_at p' (us ! (j - Suc i))"
    for p i and t :: "('x, 'q, 'a) thread" and us
  proof -
    from that obtain j p' where "p = j # p'" "Suc i \<le> j" "j - Suc i < length us"
      "waits_at p' (us ! (j - Suc i))" by blast
    then show ?thesis by (intro exI [of _ j] exI [of _ p']) (auto simp: nth_Cons')
  qed
  show "first_wait t = Some (p, q) \<Longrightarrow> waits_at p t"
    "first_waits n ts = Some (p, q) \<Longrightarrow> \<exists>i p'. p = i # p' \<and> n \<le> i \<and> i - n < length ts \<and> waits_at p' (ts ! (i - n))"
    by (induction t and n ts arbitrary: p and p rule: first_wait_first_waits.induct)
      (simp_all split: option.splits, fastforce, (use step in fastforce)+)
qed

lemma serve_ends:
  "ends R F (fst st) (snd st) \<Longrightarrow>
     ends R F (fst (snd (serve n srv log st))) (snd (snd (serve n srv log st)))"
proof (induction n arbitrary: log st)
  case (Suc n)
  obtain s t where st: "st = (s, t)" by (cases st)
  show ?case
  proof (cases "first_wait t")
    case (Some pq)
    obtain p q where pq: "pq = (p, q)" by (cases pq)
    then have "waits_at p t" using first_wait_at(1) Some by simp
    then have "ends R F (fst (deliver p (srv log q) t s)) (snd (deliver p (srv log q) t s))"
      using Suc.prems st by (intro ends_deliver [where s = s]) (simp_all add: rely_refl)
    from Suc.IH [OF this] show ?thesis using Some pq st by simp
  qed (use Suc.prems st in simp)
qed simp

end

section \<open>One call among others\<close>

text \<open>
  What can become of one call: the rest of the page moves the state along \<open>R\<close>, and its requests are
  answered in any order and with anything.
\<close>

inductive call_reach :: "('s \<Rightarrow> 's \<Rightarrow> bool) \<Rightarrow> 's \<times> ('s, 'q, 'a) thread \<Rightarrow> 's \<times> ('s, 'q, 'a) thread \<Rightarrow> bool"
  for R st where
  starts: "call_reach R st st"
| moved: "call_reach R st (s, t) \<Longrightarrow> R s s' \<Longrightarrow> call_reach R st (s', t)"
| answered: "call_reach R st (s, t) \<Longrightarrow> waits_at p t \<Longrightarrow> call_reach R st (deliver p v t s)"

context rely
begin

lemma ends_reach:
  "call_reach R st st' \<Longrightarrow> ends R F (fst st) (snd st)
     \<Longrightarrow> \<exists>s. ends R F s (snd st') \<and> R s (fst st')"
proof (induction rule: call_reach.induct)
  case starts
  then show ?case using rely_refl by blast
next
  case (moved s t s')
  then show ?case using rely_trans by fastforce
next
  case (answered s t p v)
  then obtain s0 where "ends R F s0 t" "R s0 s" by auto
  with answered.hyps(2) have "ends R F (fst (deliver p v t s)) (snd (deliver p v t s))"
    by (intro ends_deliver)
  then show ?case using rely_refl by blast
qed

lemma ends_result:
  assumes "call_reach R st (s, t)" "ends R F (fst st) (snd st)" "settled t"
  shows "\<exists>s0. F s0 t \<and> R s0 s"
  using ends_reach [OF assms(1,2)] assms(3) by (cases t) auto

end

section \<open>What a call asks for\<close>

definition asks :: "'s \<times> ('s, 'q, 'a) thread \<Rightarrow> 'q option" where
  "asks st = map_option snd (first_wait (snd st))"

text \<open>Answers to the requests that wait first, one after the other, with nothing in between.\<close>

fun replied :: "'a result list \<Rightarrow> 's \<times> ('s, 'q, 'a) thread \<Rightarrow> 's \<times> ('s, 'q, 'a) thread" where
  "replied [] st = st"
| "replied (v # vs) st =
     replied vs (case first_wait (snd st) of None \<Rightarrow> st | Some (p, q) \<Rightarrow> deliver p v (snd st) (fst st))"

section \<open>Calls that cannot reject\<close>

inductive quiet :: "('s, 'q, 'a) thread \<Rightarrow> bool" where
  q_done: "quiet (Done v)"
| q_wait: "(\<And>v s. quiet (snd (k v s))) \<Longrightarrow> quiet (Wait q k)"
| q_members: "(\<And>t. t \<in> set ts \<Longrightarrow> quiet t) \<Longrightarrow> (\<And>vs s. quiet (snd (k vs s))) \<Longrightarrow> quiet (All ts k h)"
| q_caught: "(\<And>vs s. quiet (snd (k vs s))) \<Longrightarrow> (\<And>e s. quiet (snd (h e s))) \<Longrightarrow> quiet (All ts k h)"

inductive_simps quiet_simps [simp]: "quiet (Done v)" "quiet (Failed e)"
inductive_cases quiet_waitE: "quiet (Wait q k)"
inductive_cases quiet_allE: "quiet (All ts k h)"

lemma quiet_no_rejection: "(\<And>t. t \<in> set ts \<Longrightarrow> quiet t) \<Longrightarrow> rejection ts = None"
proof (induction ts)
  case (Cons t ts)
  then have "quiet t" "rejection ts = None" by auto
  then show ?case by (cases t) auto
qed simp

lemma quiet_settle:
  "(\<And>t. t \<in> set ts \<Longrightarrow> quiet t) \<Longrightarrow> (\<And>vs s. quiet (snd (k vs s))) \<Longrightarrow> quiet (snd (settle_all ts k h s))"
  "(\<And>vs s. quiet (snd (k vs s))) \<Longrightarrow> (\<And>e s. quiet (snd (h e s))) \<Longrightarrow> quiet (snd (settle_all ts k h s))"
  using quiet_no_rejection [of ts]
  by (auto simp: settle_all_def intro: q_members q_caught split: option.splits)

lemma quiet_deliver: "quiet t \<Longrightarrow> quiet (snd (deliver p v t s))"
proof (induction p v t s rule: deliver.induct)
  case (1 v q k s)
  then show ?case by (auto elim: quiet_waitE)
next
  case (2 i p v ts k h s)
  show ?case
  proof (cases "i < length ts")
    case True
    let ?d = "deliver p v (ts ! i) s"
    from 2(2) consider "\<And>t. t \<in> set ts \<Longrightarrow> quiet t" "\<And>vs s. quiet (snd (k vs s))"
      | "\<And>vs s. quiet (snd (k vs s))" "\<And>e s. quiet (snd (h e s))" by (auto elim: quiet_allE)
    then have "quiet (snd (settle_all (ts[i := snd ?d]) k h (fst ?d)))"
    proof cases
      case 1
      with 2(1) [OF True] True have "quiet u" if "u \<in> set (ts[i := snd ?d])" for u
        using that set_update_subset_insert by fastforce
      then show ?thesis using 1(2) by (rule quiet_settle(1))
    next
      case 2
      then show ?thesis by (rule quiet_settle(2))
    qed
    with True show ?thesis by (simp add: split_beta Let_def)
  qed (use 2(2) in simp)
qed simp_all

lemma quiet_answers: "quiet t \<Longrightarrow> answer_seq xs t = Some t' \<Longrightarrow> quiet t'"
  by (induction xs t rule: answer_seq.induct) (auto simp: quiet_deliver split: if_splits)

text \<open>\<open>calm\<close>: the call rejects only by what is made of its rejection; \<open>quietly\<close>: it does not reject.\<close>

definition calm :: "('s, 'q, 'a, 'r) async \<Rightarrow> bool" where
  "calm m \<longleftrightarrow> (\<forall>k h. (\<forall>x s. quiet (snd (k x s))) \<longrightarrow> (\<forall>e s. quiet (snd (h e s)))
     \<longrightarrow> (\<forall>s. quiet (snd (m k h s))))"

definition quietly :: "('s, 'q, 'a, 'r) async \<Rightarrow> bool" where
  "quietly m \<longleftrightarrow> (\<forall>k h. (\<forall>x s. quiet (snd (k x s))) \<longrightarrow> (\<forall>s. quiet (snd (m k h s))))"

named_theorems quiet_intros "which constructs of asynchronous code cannot reject"

lemma quietly_ret [quiet_intros]: "quietly (ret x)"
  by (simp add: quietly_def ret_def)

lemma quietly_act [quiet_intros]: "quietly (act f)"
  by (simp add: quietly_def act_def)

lemma quietly_look [quiet_intros]: "(\<And>s. quietly (f s)) \<Longrightarrow> quietly (look f)"
  unfolding quietly_def look_def by blast

lemma quietly_bind [quiet_intros]: "quietly m \<Longrightarrow> (\<And>x. quietly (f x)) \<Longrightarrow> quietly (bind m f)"
  by (simp add: quietly_def bind_def)

lemma quietly_steps [quiet_intros]:
  "quietly (steps [])" "quietly m \<Longrightarrow> quietly (steps ms) \<Longrightarrow> quietly (steps (m # ms))"
  by (simp_all add: quiet_intros)

lemma quietly_if [quiet_intros]: "quietly m \<Longrightarrow> quietly m' \<Longrightarrow> quietly (if b then m else m')"
  by simp

lemma quietly_option [quiet_intros]:
  "quietly m \<Longrightarrow> (\<And>x. quietly (f x)) \<Longrightarrow> quietly (case v of None \<Rightarrow> m | Some x \<Rightarrow> f x)"
  by (cases v) simp_all

lemma quietly_attempt [quiet_intros]: "calm m \<Longrightarrow> (\<And>e. quietly (f e)) \<Longrightarrow> quietly (attempt m f)"
  by (simp add: quietly_def calm_def attempt_def)

lemma quietly_calm: "quietly m \<Longrightarrow> calm m"
  unfolding quietly_def calm_def by blast

lemma calm_ret [quiet_intros]: "calm (ret x)"
  by (simp add: calm_def ret_def)

lemma calm_throw [quiet_intros]: "calm (throw e)"
  by (simp add: calm_def throw_def)

lemma calm_act [quiet_intros]: "calm (act f)"
  by (simp add: calm_def act_def)

lemma calm_request [quiet_intros]: "calm (request q)"
  by (auto simp: calm_def request_def intro!: q_wait split: sum.splits)

lemma calm_look [quiet_intros]: "(\<And>s. calm (f s)) \<Longrightarrow> calm (look f)"
  unfolding calm_def look_def by blast

lemma calm_bind [quiet_intros]: "calm m \<Longrightarrow> (\<And>x. calm (f x)) \<Longrightarrow> calm (bind m f)"
  by (simp add: calm_def bind_def)

lemma calm_steps [quiet_intros]:
  "calm (steps [])" "calm m \<Longrightarrow> calm (steps ms) \<Longrightarrow> calm (steps (m # ms))"
  by (simp_all add: quiet_intros)

lemma calm_if [quiet_intros]: "calm m \<Longrightarrow> calm m' \<Longrightarrow> calm (if b then m else m')"
  by simp

lemma calm_option [quiet_intros]:
  "calm m \<Longrightarrow> (\<And>x. calm (f x)) \<Longrightarrow> calm (case v of None \<Rightarrow> m | Some x \<Rightarrow> f x)"
  by (cases v) simp_all

lemma calm_prod [quiet_intros]: "(\<And>x y. calm (f x y)) \<Longrightarrow> calm (case v of (x, y) \<Rightarrow> f x y)"
  by (cases v) simp

lemma calm_attempt [quiet_intros]: "calm m \<Longrightarrow> (\<And>e. calm (f e)) \<Longrightarrow> calm (attempt m f)"
  by (simp add: calm_def attempt_def)

lemma calm_requests [quiet_intros]:
  "calm (fetch q x)" "calm (post q)" "(\<And>v. calm (g v)) \<Longrightarrow> calm (need f g)" "calm (try_act y)"
  unfolding fetch_def post_def need_def try_act_def by (intro quiet_intros; assumption?)+

lemma calm_promise_all [quiet_intros]: "calm (promise_all ps)"
  by (auto simp: calm_def promise_all_def split_beta Let_def intro!: quiet_settle(2))

lemma start_all_quiet:
  "(\<And>p s. p \<in> set ps \<Longrightarrow> quiet (snd (p s))) \<Longrightarrow> t \<in> set (snd (start_all ps s)) \<Longrightarrow> quiet t"
  by (induction ps arbitrary: s) (auto simp: split_beta Let_def)

lemma quietly_promise_all:
  "(\<And>p s. p \<in> set ps \<Longrightarrow> quiet (snd (p s))) \<Longrightarrow> quietly (promise_all ps)"
  unfolding quietly_def promise_all_def split_beta Let_def
  by (intro allI impI quiet_settle(1)) (rule start_all_quiet, blast+)

lemma quiet_spawn: "quietly m \<Longrightarrow> quiet (snd (spawn v m s))"
  by (simp add: quietly_def spawn_def)

end
