(* ===== verification/Workspace.thy ===== *)
theory Workspace
  imports PageStatus AutoBuild PdfPreview FileTree Reviews History PaperApi DocumentDetails MathEntries AsyncLogic
begin

text \<open>
  The page of \<^verbatim>\<open>services/server/frontend/writer.js\<close>: the object \<open>model\<close>, the controls \<open>ui\<close>, and the
  functions on them that do not wait (rendering, the life of the editor view, what a response does to
  the page). The asynchronous functions are in \<open>WorkspaceCalls\<close>.

  Of an editing session the page sees what \<open>editor_session\<close> holds; \<open>CollabSession\<close> models the class
  itself. The document of a session is its text. The browser's collation, its date formats, the
  resolution of Yjs positions and the symbols of the mathematics palette are fields of the state that nothing changes. In texts three full stops
  stand for an ellipsis and two hyphens for a dash.
\<close>

section \<open>Data from the server\<close>

record detail =
  dt_paper :: paper
  dt_version :: nat
  dt_editable :: bool
  main_file :: "jsstr option"

record file_payload =
  fp_file :: pfile
  fp_version :: nat
  fp_main :: bool
  fp_editable :: bool

record build_info = build_record +
  source_sequence :: "nat option"
  current_source_sequence :: "nat option"
  latest_error_message :: "jsstr option"

record build_payload =
  bp_build :: build_info
  pdf_url :: jsstr

record rounds_payload =
  rounds :: "jsstr list"
  review_open :: bool
  current_review_round :: "jsstr option"

record intelligence =
  in_outline :: "(jsstr \<times> jsstr \<times> location) outline_entry list"
  in_labels :: "label_entry list"
  in_bibliography :: "bib_entry list"
  in_diagnostics :: "diagnostic list"
  in_environments :: "jsstr list"
  in_packages :: "jsstr list"

record search_hit =
  hit_path :: jsstr
  hit_line :: nat
  hit_preview :: "jsstr option"
  hit_match :: jsstr
  hit_file_id :: jsstr

section \<open>Controls and state\<close>

datatype ctl =
    Ui_newFile | Ui_renameFile | Ui_deleteFile | Ui_setMain | Ui_saveFile | Ui_currentPaper | Ui_currentFile
  | Ui_mainBadge | Ui_compilePaper | Ui_sendReview | Ui_endReview | Ui_buildStatus | Ui_pdfRelation
  | Ui_pdfEmpty | Ui_pdfFrame | Ui_createCheckpoint | Ui_versionDiff | Ui_uploadImage | Ui_refreshIntelligence
  | Ui_projectSearch | Ui_insertMenu | Ui_symbolPalette | Ui_showInPdf | Ui_structuralUndo | Ui_structuralRedo
  | Ui_reviewStateBadge | Ui_undoText | Ui_redoText | Ui_mathPalette | Ui_tableBuilder | Ui_figureBuilder
  | Ui_plotBuilder | Ui_fileActionsToggle | Ui_fileActionsMenu | Ui_workspaceDrawer | Ui_drawerTitle
  | Ui_problems | Ui_reviews | Ui_history | Ui_documentDetails | Ui_documentDetailsPanel | Ui_reviewCounts

text \<open>What is in \<open>editorMount\<close>: the notice while a session opens, the preview of an asset, or the editor.\<close>

datatype mount = EmptyMount | OpeningNotice | BinaryPreview bool pfile | EditorMount nat

record editor_session =
  es_paper :: paper
  es_file :: pfile
  es_editable :: bool
  es_latex :: bool
  es_alive :: bool  \<comment> \<open>not destroyed\<close>
  es_loaded :: bool  \<comment> \<open>\<open>doc\<close> is not \<open>null\<close>\<close>
  es_writable :: bool  \<comment> \<open>\<open>access\<close> is \<open>read_write\<close>\<close>
  es_open :: bool  \<comment> \<open>the socket is open\<close>
  es_text :: jsstr

record view =
  vw_session :: nat
  vw_editable :: bool
  vw_latex :: bool
  vw_anchor :: nat
  vw_head :: nat
  vw_marks :: "mark list"

datatype page_timer = IntelligenceTimer | SearchTimer jsstr

text \<open>
  What the one dialog shows: a palette, Quick Open, or a builder with its kind, its controls, and the note and preview
  of its last refresh.
\<close>

datatype page_dialog =
    Palette "writer_action palette" | QuickPalette "quick_file palette" | Builder jsstr "control list" "jsstr \<times> jsstr \<times> jsstr"

record workspace = page_status +
  papers :: "paper list"
  cur_paper :: "paper option"
  paperDetail :: "detail option"
  files :: "pfile list"
  cur_file :: "pfile option"
  version :: nat
  view :: "view option"
  collaboration :: "nat option"
  sessions :: "editor_session list"
  currentBuildId :: "jsstr option"
  versions :: "paper_version list"
  restorationRequests :: "restoration_request list"
  reviewRounds :: "jsstr list"
  reviewOpen :: bool
  currentReviewRound :: "jsstr option"
  reviews :: "review_thread list"
  reviewFilter :: jsstr
  intel :: intelligence
  compileDiagnostic :: "diagnostic option"
  autoBuild :: scheduler
  page_timers :: "page_timer clock"
  intelligenceTimer :: "nat option"
  searchTimer :: "nat option"
  disabled :: "ctl \<Rightarrow> bool"
  hidden :: "ctl \<Rightarrow> bool"
  label :: "ctl \<Rightarrow> jsstr"
  pdfSrc :: "jsstr option"
  mounted :: mount
  myPapers :: "paper dom list"
  teamPapers :: "paper dom list"
  fileTree :: "pfile dom list"
  outlineTree :: "(jsstr \<times> jsstr \<times> location) outline_entry dom list"
  problemsCount :: nat
  problemsList :: "diagnostic dom list"
  versionHistory :: "history_action dom list"
  writerReviewList :: "review_action dom list"
  searchResults :: "search_hit dom list"
  dialog :: "page_dialog option"  \<comment> \<open>while it is open\<close>
  detailsBody :: "details_row list"
  detailsForms :: "details_form list"  \<comment> \<open>every form made, for the listeners that hold them\<close>
  collate :: "jsstr \<Rightarrow> jsstr \<Rightarrow> int"
  datetime :: "jsstr \<Rightarrow> jsstr"
  date :: "jsstr \<Rightarrow> jsstr"
  glyph :: "nat list \<Rightarrow> jsstr"
  resolver :: "byte list \<Rightarrow> nat \<times> jsstr \<Rightarrow> nat resolution"

definition intelligence_init :: intelligence where
  "intelligence_init = \<lparr>in_outline = [], in_labels = [], in_bibliography = [], in_diagnostics = [],
     in_environments = [], in_packages = []\<rparr>"

text \<open>
  The page when the script starts: \<open>model\<close>, and the controls with the attributes of
  \<^verbatim>\<open>services/server/src/write.html\<close>; the texts of the static page are left out.
\<close>

definition initially_disabled :: "ctl list" where
  "initially_disabled =
     [Ui_saveFile, Ui_undoText, Ui_redoText, Ui_compilePaper, Ui_sendReview, Ui_endReview, Ui_insertMenu,
      Ui_mathPalette, Ui_tableBuilder, Ui_figureBuilder, Ui_plotBuilder, Ui_documentDetails, Ui_showInPdf,
      Ui_newFile, Ui_uploadImage, Ui_fileActionsToggle, Ui_refreshIntelligence, Ui_projectSearch, Ui_renameFile,
      Ui_deleteFile, Ui_setMain, Ui_structuralUndo, Ui_structuralRedo, Ui_createCheckpoint]"

definition initially_hidden :: "ctl list" where
  "initially_hidden =
     [Ui_sendReview, Ui_endReview, Ui_mainBadge, Ui_pdfFrame, Ui_fileActionsMenu, Ui_workspaceDrawer, Ui_problems,
      Ui_reviews, Ui_history, Ui_documentDetailsPanel, Ui_symbolPalette]"

definition page_init ::
  "(jsstr \<Rightarrow> jsstr \<Rightarrow> int) \<Rightarrow> (jsstr \<Rightarrow> jsstr) \<Rightarrow> (jsstr \<Rightarrow> jsstr) \<Rightarrow> (byte list \<Rightarrow> nat \<times> jsstr \<Rightarrow> nat resolution)
     \<Rightarrow> (nat list \<Rightarrow> jsstr) \<Rightarrow> workspace" where
  "page_init col dtm dat res gly =
     \<lparr>saveStatus = LocalSave, conflict = False, recoveryText = None, copyRecoveryHidden = True, writerNotice = None,
      papers = [], cur_paper = None, paperDetail = None, files = [], cur_file = None, version = 0, view = None,
      collaboration = None, sessions = [], currentBuildId = None, versions = [], restorationRequests = [],
      reviewRounds = [], reviewOpen = False, currentReviewRound = None, reviews = [], reviewFilter = ''active'',
      intel = intelligence_init, compileDiagnostic = None, autoBuild = sched_init, page_timers = clock_init,
      intelligenceTimer = None, searchTimer = None, disabled = (\<lambda>c. c \<in> set initially_disabled),
      hidden = (\<lambda>c. c \<in> set initially_hidden), label = (\<lambda>_. []), pdfSrc = None, mounted = EmptyMount,
      myPapers = [], teamPapers = [], fileTree = [], outlineTree = [], problemsCount = 0, problemsList = [],
      versionHistory = [], writerReviewList = [], searchResults = [], dialog = None,
      detailsBody = [], detailsForms = [], collate = col, datetime = dtm, date = dat, glyph = gly, resolver = res\<rparr>"

definition disable :: "ctl \<Rightarrow> bool \<Rightarrow> workspace \<Rightarrow> workspace" where
  "disable c b s = s\<lparr>disabled := (disabled s)(c := b)\<rparr>"

definition hide :: "ctl \<Rightarrow> bool \<Rightarrow> workspace \<Rightarrow> workspace" where
  "hide c b s = s\<lparr>hidden := (hidden s)(c := b)\<rparr>"

definition write_label :: "ctl \<Rightarrow> jsstr \<Rightarrow> workspace \<Rightarrow> workspace" where
  "write_label c t s = s\<lparr>label := (label s)(c := t)\<rparr>"

definition disable_all :: "(ctl \<times> bool) list \<Rightarrow> workspace \<Rightarrow> workspace" where
  "disable_all xs s = s\<lparr>disabled := foldl (\<lambda>f (c, b). f(c := b)) (disabled s) xs\<rparr>"

definition hide_all :: "(ctl \<times> bool) list \<Rightarrow> workspace \<Rightarrow> workspace" where
  "hide_all xs s = s\<lparr>hidden := foldl (\<lambda>f (c, b). f(c := b)) (hidden s) xs\<rparr>"

definition current_session :: "workspace \<Rightarrow> editor_session option" where
  "current_session s =
     (case collaboration s of None \<Rightarrow> None
      | Some i \<Rightarrow> if i < length (sessions s) then Some (sessions s ! i) else None)"

definition upd_session :: "nat \<Rightarrow> (editor_session \<Rightarrow> editor_session) \<Rightarrow> workspace \<Rightarrow> workspace" where
  "upd_session i f s =
     (if i < length (sessions s) then s\<lparr>sessions := (sessions s)[i := f (sessions s ! i)]\<rparr> else s)"

definition team_paper :: "workspace \<Rightarrow> bool" where
  "team_paper s = (case cur_paper s of None \<Rightarrow> False | Some p \<Rightarrow> paper_kind p = ''team'')"

definition detail_editable :: "workspace \<Rightarrow> bool" where
  "detail_editable s = (case paperDetail s of None \<Rightarrow> False | Some d \<Rightarrow> dt_editable d)"

definition main_path :: "workspace \<Rightarrow> jsstr option" where
  "main_path s = Option.bind (paperDetail s) main_file"

section \<open>Rendering\<close>

definition show_papers :: "workspace \<Rightarrow> workspace" where
  "show_papers s =
     (let (mine, team) = renderPapers (map_option paper_id (cur_paper s)) (papers s)
      in s\<lparr>myPapers := mine, teamPapers := team\<rparr>)"

definition show_files :: "workspace \<Rightarrow> workspace" where
  "show_files s =
     s\<lparr>fileTree := renderFiles (collate s) (cur_paper s \<noteq> None) (map_option fl_id (cur_file s)) (main_path s) (files s)\<rparr>"

definition show_outline :: "workspace \<Rightarrow> workspace" where
  "show_outline s = s\<lparr>outlineTree := renderOutline (in_outline (intel s))\<rparr>"

definition show_problems :: "workspace \<Rightarrow> workspace" where
  "show_problems s =
     (let (n, rows) = renderProblems (in_diagnostics (intel s)) (compileDiagnostic s)
      in s\<lparr>problemsCount := n, problemsList := rows\<rparr>)"

text \<open>Without a paper the list is emptied before the kind of the paper is read for its first row.\<close>

definition show_history :: "workspace \<Rightarrow> workspace" where
  "show_history s = s\<lparr>versionHistory :=
     (if versions s = [] then [empty_copy ''No checkpoints yet.'']
      else case cur_paper s of None \<Rightarrow> []
        | Some p \<Rightarrow> renderHistory (datetime s) p (versions s) (restorationRequests s))\<rparr>"

definition show_reviews :: "workspace \<Rightarrow> workspace" where
  "show_reviews s =
     (let (counts, cards) = renderReviews (date s) (reviewFilter s) (reviews s)
      in (write_label Ui_reviewCounts counts s)\<lparr>writerReviewList := cards\<rparr>)"

section \<open>The editor view\<close>

definition destroyEditorView :: "workspace \<Rightarrow> workspace" where
  "destroyEditorView s = disable_all [(Ui_undoText, True), (Ui_redoText, True)] (s\<lparr>view := None\<rparr>)"

definition destroy_session :: "nat \<Rightarrow> workspace \<Rightarrow> workspace" where
  "destroy_session i = upd_session i (\<lambda>e. e\<lparr>es_alive := False, es_loaded := False, es_open := False\<rparr>)"

definition closeEditor :: "workspace \<Rightarrow> workspace" where
  "closeEditor s =
     (let s1 = destroyEditorView s
      in (case collaboration s1 of None \<Rightarrow> s1 | Some i \<Rightarrow> destroy_session i s1)\<lparr>collaboration := None\<rparr>)"

text \<open>\<^const>\<open>None\<close> when an anchor does not decode and the function throws.\<close>

definition applyReviewHighlights :: "workspace \<Rightarrow> workspace option" where
  "applyReviewHighlights s =
     (case (view s, collaboration s, current_session s, cur_file s) of
        (Some v, Some i, Some e, Some f) \<Rightarrow>
          if \<not> es_loaded e then Some s
          else map_option (\<lambda>ms. s\<lparr>view := Some (v\<lparr>vw_marks := ms\<rparr>)\<rparr>)
                 (review_marks (resolver s) (i, es_text e) i (fl_id f) (reviews s))
      | _ \<Rightarrow> Some s)"

definition new_view :: "nat \<Rightarrow> bool \<Rightarrow> bool \<Rightarrow> view" where
  "new_view i editable latex =
     \<lparr>vw_session = i, vw_editable = editable, vw_latex = latex, vw_anchor = 0, vw_head = 0, vw_marks = []\<rparr>"

definition mount_view :: "nat \<Rightarrow> bool \<Rightarrow> bool \<Rightarrow> workspace \<Rightarrow> workspace" where
  "mount_view i editable latex s =
     disable_all [(Ui_undoText, \<not> editable), (Ui_redoText, \<not> editable)]
       ((destroyEditorView s)\<lparr>mounted := EditorMount i, view := Some (new_view i editable latex)\<rparr>)"

definition updateFileActions :: "bool \<Rightarrow> workspace \<Rightarrow> workspace" where
  "updateFileActions editable s =
     (let selected = cur_file s \<noteq> None; off = (\<not> selected \<or> \<not> editable)
      in disable_all
           [(Ui_renameFile, off), (Ui_deleteFile, off),
            (Ui_setMain, off \<or> \<not> hidden s Ui_mainBadge),
            (Ui_saveFile, off), (Ui_insertMenu, off), (Ui_symbolPalette, off), (Ui_mathPalette, off),
            (Ui_tableBuilder, off), (Ui_figureBuilder, off), (Ui_plotBuilder, off),
            (Ui_fileActionsToggle, \<not> selected),
            (Ui_showInPdf, \<not> selected \<or> \<not> truthy (currentBuildId s))] s)"

definition scheduleIntelligence :: "workspace \<Rightarrow> workspace" where
  "scheduleIntelligence s =
     (let c = (case intelligenceTimer s of None \<Rightarrow> page_timers s | Some h \<Rightarrow> clearTimer h (page_timers s));
          (h, c') = setTimer IntelligenceTimer 650 c
      in s\<lparr>page_timers := c', intelligenceTimer := Some h\<rparr>)"

definition cancelAutoBuild :: "workspace \<Rightarrow> workspace" where
  "cancelAutoBuild s = s\<lparr>autoBuild := sched_step AUTO_BUILD_IDLE_MS (autoBuild s) Cancel\<rparr>"

section \<open>Opening a paper and a file\<close>

text \<open>\<open>openPaper\<close> up to its first request.\<close>

definition leave_paper :: "paper option \<Rightarrow> workspace \<Rightarrow> workspace" where
  "leave_paper p s =
     hide_all [(Ui_pdfFrame, True), (Ui_pdfEmpty, False)]
       ((closeEditor (cancelAutoBuild s))\<lparr>currentBuildId := None, pdfSrc := None, cur_paper := p, cur_file := None\<rparr>)"

definition paper_title :: "paper \<Rightarrow> jsstr" where
  "paper_title p =
     paper_name p @ (if is_team_leader p then '' -- Team Leader'' else [])
     @ (if paper_status p = ''active'' then [] else '' -- '' @ paper_status p @ '' (read-only)'')"

definition take_detail :: "detail \<Rightarrow> workspace \<Rightarrow> workspace" where
  "take_detail d s = s\<lparr>paperDetail := Some d, version := dt_version d\<rparr>"

text \<open>What \<open>openPaper\<close> shows once detail and files are there.\<close>

definition show_paper :: "paper \<Rightarrow> workspace \<Rightarrow> workspace" where
  "show_paper p s =
     (let editable = detail_editable s;
          team = paper_kind p = ''team'';
          teamLeader = team \<and> is_team_leader p
      in show_files (show_papers (write_label Ui_reviewStateBadge ''Draft''
           (disable_all
              [(Ui_newFile, \<not> editable), (Ui_uploadImage, \<not> editable), (Ui_refreshIntelligence, False),
               (Ui_projectSearch, False), (Ui_structuralUndo, \<not> editable), (Ui_structuralRedo, \<not> editable),
               (Ui_compilePaper, \<not> editable), (Ui_fileActionsToggle, False), (Ui_documentDetails, \<not> team),
               (Ui_createCheckpoint, \<not> editable \<or> team \<and> \<not> is_team_leader p),
               (Ui_sendReview, \<not> team \<or> \<not> is_team_leader p \<or> \<not> editable), (Ui_endReview, True)]
              (hide_all
                 [(Ui_createCheckpoint, team \<and> \<not> teamLeader), (Ui_sendReview, \<not> teamLeader),
                  (Ui_endReview, \<not> teamLeader)]
                 (write_label Ui_currentPaper (paper_title p) s))))))"

definition initial_file :: "workspace \<Rightarrow> pfile option" where
  "initial_file s =
     (case List.find (\<lambda>f. Some (fl_path f) = main_path s) (files s) of
        Some f \<Rightarrow> Some f
      | None \<Rightarrow> (case files s of [] \<Rightarrow> None | f # _ \<Rightarrow> Some f))"

text \<open>\<open>openFile\<close> on its response, up to the new session.\<close>

definition show_file :: "file_payload \<Rightarrow> workspace \<Rightarrow> workspace" where
  "show_file pl s =
     (hide Ui_mainBadge (\<not> fp_main pl) (write_label Ui_currentFile (fl_path (fp_file pl))
        (s\<lparr>cur_file := Some (fp_file pl), version := fp_version pl, conflict := False\<rparr>)))\<lparr>mounted := OpeningNotice\<rparr>"

definition new_session :: "paper \<Rightarrow> file_payload \<Rightarrow> editor_session" where
  "new_session p pl =
     \<lparr>es_paper = p, es_file = fp_file pl, es_editable = fp_editable pl,
      es_latex = js_endsWith (fl_path (fp_file pl)) ''.tex'', es_alive = True, es_loaded = False,
      es_writable = False, es_open = False, es_text = []\<rparr>"

definition start_session :: "paper \<Rightarrow> file_payload \<Rightarrow> workspace \<Rightarrow> workspace" where
  "start_session p pl s =
     show_files (updateFileActions (fp_editable pl)
       (saveState LocalSave
         (s\<lparr>sessions := sessions s @ [new_session p pl], collaboration := Some (length (sessions s))\<rparr>)))"

text \<open>\<open>/\\.(png|jpe?g)$/i\<close>.\<close>

definition is_raster :: "jsstr \<Rightarrow> bool" where
  "is_raster path = list_ex (js_endsWith (js_lower path)) [''.png'', ''.jpg'', ''.jpeg'']"

text \<open>What the refusal of a text (415) shows, and how far it gets with the preview of an image and no paper.\<close>

definition clear_mount :: "workspace \<Rightarrow> workspace" where
  "clear_mount s = (closeEditor s)\<lparr>mounted := EmptyMount\<rparr>"

definition show_binary :: "pfile \<Rightarrow> workspace \<Rightarrow> workspace" where
  "show_binary f s =
     updateFileActions False
       ((closeEditor s)\<lparr>mounted := BinaryPreview (is_raster (fl_path f)) f, cur_file := Some f\<rparr>)"

section \<open>What other responses show\<close>

definition relation_text :: "build_info \<Rightarrow> jsstr" where
  "relation_text b =
     (let source = source_sequence b; pdf = current_source_sequence b;
          rebuilding = (truthy (active_build_id b) \<or> (source \<noteq> None \<and> pdf \<noteq> None \<and> source \<noteq> pdf))
      in case source of
           None \<Rightarrow> ''No exact source state submitted yet''
         | Some n \<Rightarrow>
             (case pdf of
                None \<Rightarrow> ''Source version '' @ nat_str n @ middot @ ''No PDF yet''
              | Some m \<Rightarrow> ''Source version '' @ nat_str n @ middot @ ''PDF version '' @ nat_str m
                         @ (if rebuilding then middot @ ''Rebuilding...'' else [])))"

definition build_failed :: "build_info \<Rightarrow> bool" where
  "build_failed b \<longleftrightarrow>
     \<not> truthy (active_build_id b) \<and> latest_status b = Some ''failed'' \<and> source_sequence b \<noteq> current_source_sequence b"

definition status_text :: "build_info \<Rightarrow> jsstr" where
  "status_text b =
     (if truthy (active_build_id b)
      then if truthy (current_build_id b) then ''Rebuilding...'' else ''Building...''
      else if build_failed b
      then if truthy (current_build_id b) then ''Build failed -- showing last successful PDF'' else ''Build failed''
      else if truthy (current_build_id b) then ''Current''
      else ''No PDF yet'')"

definition compile_diagnostic :: "build_info \<Rightarrow> diagnostic option" where
  "compile_diagnostic b =
     (if latest_status b = Some ''failed'' \<and> truthy (latest_error_message b)
      then Some \<lparr>dg_message = the (latest_error_message b), dg_severity = Some ''error'', dg_code = Some ''compile'',
                 dg_path = None, dg_file_id = None, dg_line = None\<rparr>
      else None)"

definition take_build :: "build_payload \<Rightarrow> workspace \<Rightarrow> workspace" where
  "take_build pl s =
     (let b = bp_build pl
      in if truthy (current_build_id b) \<and> current_build_id b \<noteq> currentBuildId s
         then s\<lparr>currentBuildId := current_build_id b,
                pdfSrc := Some (pdf_url pl @ ''?build='' @ the (current_build_id b))\<rparr>
         else s)"

definition show_build :: "build_payload \<Rightarrow> workspace \<Rightarrow> workspace" where
  "show_build pl s =
     (let b = bp_build pl; preview = pdfPreviewState (build_record.truncate b);
          s1 = take_build pl (s\<lparr>compileDiagnostic := compile_diagnostic b\<rparr>)
      in show_problems (disable Ui_showInPdf (view s = None \<or> \<not> truthy (current_build_id b))
           (write_label Ui_buildStatus (status_text b)
             (write_label Ui_pdfRelation
               (relation_text b @ (if build_failed b \<and> truthy (latest_error_message b)
                                   then middot @ the (latest_error_message b) else []))
               (hide_all [(Ui_pdfFrame, \<not> pv_viewer preview), (Ui_pdfEmpty, \<not> pv_empty preview)] s1)))))"

definition no_rounds :: "workspace \<Rightarrow> workspace" where
  "no_rounds s =
     disable_all [(Ui_sendReview, True), (Ui_endReview, True)]
       (s\<lparr>reviewRounds := [], reviewOpen := False, currentReviewRound := None\<rparr>)"

definition note_rounds :: "rounds_payload \<Rightarrow> workspace \<Rightarrow> workspace" where
  "note_rounds pl s =
     s\<lparr>reviewRounds := rounds pl, reviewOpen := review_open pl, currentReviewRound := current_review_round pl\<rparr>"

definition show_rounds :: "paper \<Rightarrow> workspace \<Rightarrow> workspace" where
  "show_rounds p s =
     (let leader = is_team_leader p \<and> detail_editable s
      in write_label Ui_reviewStateBadge (if reviewOpen s then ''In Review'' else ''Draft'')
           (disable_all [(Ui_sendReview, \<not> leader \<or> reviewOpen s), (Ui_endReview, \<not> leader \<or> \<not> reviewOpen s)] s))"

text \<open>The results of a search, a heading before each run of hits in one file.\<close>

fun search_rows :: "jsstr option \<Rightarrow> search_hit list \<Rightarrow> search_hit dom list" where
  "search_rows current [] = []"
| "search_rows current (r # rs) =
     (if current = Some (hit_path r) then []
      else [with_prop ''class'' ''directory'' (text_elem ''strong'' (hit_path r))])
     @ with_child (text_elem ''small'' (hit_path r @ '':'' @ nat_str (hit_line r)))
         (with_prop ''class'' ''search-result'' (button (js_or (hit_preview r) (hit_match r)) r False))
     # search_rows (Some (hit_path r)) rs"

definition show_search :: "search_hit list \<Rightarrow> workspace \<Rightarrow> workspace" where
  "show_search rs s = s\<lparr>searchResults := if rs = [] then [empty_copy ''No matches.''] else search_rows None rs\<rparr>"

section \<open>Drawers and menus\<close>

datatype drawer = Problems | Comments | HistoryDrawer | DocumentDetailsDrawer

fun drawer_panel :: "drawer \<Rightarrow> ctl" where
  "drawer_panel Problems = Ui_problems"
| "drawer_panel Comments = Ui_reviews"
| "drawer_panel HistoryDrawer = Ui_history"
| "drawer_panel DocumentDetailsDrawer = Ui_documentDetailsPanel"

fun drawer_title :: "drawer \<Rightarrow> jsstr" where
  "drawer_title Problems = ''Problems''"
| "drawer_title Comments = ''Comments''"
| "drawer_title HistoryDrawer = ''History''"
| "drawer_title DocumentDetailsDrawer = ''Document details''"

definition drawers :: "drawer list" where
  "drawers = [Problems, Comments, HistoryDrawer, DocumentDetailsDrawer]"

definition closeDrawer :: "workspace \<Rightarrow> workspace" where
  "closeDrawer s = hide_all ((Ui_workspaceDrawer, True) # map (\<lambda>d. (drawer_panel d, True)) drawers) s"

definition openDrawer :: "drawer \<Rightarrow> workspace \<Rightarrow> workspace" where
  "openDrawer d s =
     hide Ui_workspaceDrawer False (write_label Ui_drawerTitle (drawer_title d)
       (hide_all (map (\<lambda>d'. (drawer_panel d', drawer_panel d' \<noteq> drawer_panel d)) drawers) s))"

definition closeTransientMenus :: "workspace \<Rightarrow> workspace" where
  "closeTransientMenus s = hide Ui_fileActionsMenu True s"

end
