(* ===== verification/WorkspaceCalls.thy ===== *)
theory WorkspaceCalls
  imports Workspace
begin

text \<open>
  The asynchronous functions and the event listeners of \<^verbatim>\<open>services/server/frontend/writer.js\<close>, one
  definition each, over the state of \<open>Workspace\<close>. What the user answers in a dialog (\<open>prompt\<close>, \<open>confirm\<close>)
  is an argument, since a dialog blocks the page. Reading a field of \<open>null\<close>, and an answer without the
  field that is read, is a rejection with a \<open>TypeError\<close>. \<open>ui_event\<close> lists what can start a call, and
  \<open>handler\<close> says which.
\<close>

section \<open>Requests and answers\<close>

datatype req = Api api_call | ReadySession nat | FlushSession nat | WriteClipboard jsstr

record mapping =
  mp_page :: "nat option"
  mp_status :: jsstr

datatype (plugins only: size) answer =
    AUnit | APapers "paper list" | ACreated paper | ADetail detail | AFiles "pfile list" | AFile file_payload
  | AChanged nat pfile | AVersion nat | AOperation nat jsstr | AIntelligence intelligence | AHits "search_hit list"
  | AMapping mapping | AVersions "paper_version list" | ARequests "restoration_request list"
  | AComparison comparison | ABuild build_payload | ARounds rounds_payload | AThreads "review_thread list"
  | ASequence nat | ADetails document_details | ASavedDetails nat bool

type_synonym 'r call = "(workspace, req, answer, 'r) async"

definition as_papers where "as_papers v = (case v of APapers x \<Rightarrow> Some x | _ \<Rightarrow> None)"
definition as_created where "as_created v = (case v of ACreated x \<Rightarrow> Some x | _ \<Rightarrow> None)"
definition as_detail where "as_detail v = (case v of ADetail x \<Rightarrow> Some x | _ \<Rightarrow> None)"
definition as_files where "as_files v = (case v of AFiles x \<Rightarrow> Some x | _ \<Rightarrow> None)"
definition as_file where "as_file v = (case v of AFile x \<Rightarrow> Some x | _ \<Rightarrow> None)"
definition as_changed where "as_changed v = (case v of AChanged n f \<Rightarrow> Some (n, f) | _ \<Rightarrow> None)"
definition as_version where "as_version v = (case v of AVersion n \<Rightarrow> Some n | _ \<Rightarrow> None)"
definition as_operation where "as_operation v = (case v of AOperation n t \<Rightarrow> Some (n, t) | _ \<Rightarrow> None)"
definition as_intelligence where "as_intelligence v = (case v of AIntelligence x \<Rightarrow> Some x | _ \<Rightarrow> None)"
definition as_hits where "as_hits v = (case v of AHits x \<Rightarrow> Some x | _ \<Rightarrow> None)"
definition as_mapping where "as_mapping v = (case v of AMapping x \<Rightarrow> Some x | _ \<Rightarrow> None)"
definition as_versions where "as_versions v = (case v of AVersions x \<Rightarrow> Some x | _ \<Rightarrow> None)"
definition as_requests where "as_requests v = (case v of ARequests x \<Rightarrow> Some x | _ \<Rightarrow> None)"
definition as_comparison where "as_comparison v = (case v of AComparison x \<Rightarrow> Some x | _ \<Rightarrow> None)"
definition as_build where "as_build v = (case v of ABuild x \<Rightarrow> Some x | _ \<Rightarrow> None)"
definition as_rounds where "as_rounds v = (case v of ARounds x \<Rightarrow> Some x | _ \<Rightarrow> None)"
definition as_threads where "as_threads v = (case v of AThreads x \<Rightarrow> Some x | _ \<Rightarrow> None)"
definition as_sequence where "as_sequence v = (case v of ASequence n \<Rightarrow> Some n | _ \<Rightarrow> None)"
definition as_details where "as_details v = (case v of ADetails x \<Rightarrow> Some x | _ \<Rightarrow> None)"
definition as_saved_details where "as_saved_details v = (case v of ASavedDetails n b \<Rightarrow> Some (n, b) | _ \<Rightarrow> None)"

lemmas answer_defs =
  as_papers_def as_created_def as_detail_def as_files_def as_file_def as_changed_def as_version_def
  as_operation_def as_intelligence_def as_hits_def as_mapping_def as_versions_def as_requests_def
  as_comparison_def as_build_def as_rounds_def as_threads_def as_sequence_def as_details_def
  as_saved_details_def

definition with_paper :: "(paper \<Rightarrow> 'r call) \<Rightarrow> 'r call" where
  "with_paper f = look (\<lambda>s. case cur_paper s of None \<Rightarrow> throw type_error | Some p \<Rightarrow> f p)"

definition with_file :: "(pfile \<Rightarrow> 'r call) \<Rightarrow> 'r call" where
  "with_file f = look (\<lambda>s. case cur_file s of None \<Rightarrow> throw type_error | Some x \<Rightarrow> f x)"

definition say :: "jsstr \<Rightarrow> unit call" where
  "say m = act (notice m False)"

definition complain :: "api_error \<Rightarrow> unit call" where
  "complain e = act (notice (err_message e) True)"

definition warn :: "jsstr \<Rightarrow> unit call" where
  "warn m = act (notice m True)"

definition in_parallel :: "unit call list \<Rightarrow> unit call" where
  "in_parallel ms = bind (promise_all (map (spawn (\<lambda>_. AUnit)) ms)) (\<lambda>_. ret ())"

section \<open>Refreshing\<close>

definition refreshPapers :: "unit call" where
  "refreshPapers = bind (fetch (Api Papers) as_papers) (\<lambda>ps. act (\<lambda>s. show_papers (s\<lparr>papers := ps\<rparr>)))"

definition refreshIntelligence :: "unit call" where
  "refreshIntelligence = look (\<lambda>s. case cur_paper s of None \<Rightarrow> ret ()
     | Some p \<Rightarrow> attempt (bind (fetch (Api (Intelligence (paper_id p))) as_intelligence)
                  (\<lambda>i. act (\<lambda>s. show_problems (show_outline (s\<lparr>intel := i\<rparr>))))) complain)"

definition refreshBuildStatus :: "unit call" where
  "refreshBuildStatus = look (\<lambda>s. case cur_paper s of None \<Rightarrow> ret ()
     | Some p \<Rightarrow> attempt (bind (fetch (Api (BuildStatus (paper_id p))) as_build) (\<lambda>pl. act (show_build pl))) complain)"

text \<open>The kind of the paper is read for the first row: without a paper the rows are cut short by a \<open>TypeError\<close>.\<close>

definition show_versions :: "paper_version list \<Rightarrow> restoration_request list \<Rightarrow> unit call" where
  "show_versions v r = steps
     [act (\<lambda>s. show_history (s\<lparr>versions := v, restorationRequests := r\<rparr>)),
      if v = [] then ret () else with_paper (\<lambda>_. ret ())]"

definition take_history :: "answer list \<Rightarrow> unit call" where
  "take_history vs =
     (case vs of
        [a, b] \<Rightarrow>
          (case (as_versions a, as_requests b) of
             (Some v, Some r) \<Rightarrow> show_versions v r
           | _ \<Rightarrow> throw type_error)
      | _ \<Rightarrow> throw type_error)"

definition refreshHistory :: "unit call" where
  "refreshHistory = look (\<lambda>s. case cur_paper s of None \<Rightarrow> ret ()
     | Some p \<Rightarrow> attempt
         (bind (promise_all [spawn id (request (Api (Versions (paper_id p)))),
                             spawn id (request (Api (RestorationRequests (paper_id p))))]) take_history)
         complain)"

definition refreshReviewRounds :: "unit call" where
  "refreshReviewRounds = look (\<lambda>s.
     if \<not> team_paper s then act no_rounds
     else attempt (with_paper (\<lambda>p. bind (fetch (Api (ReviewRounds (paper_id p))) as_rounds)
                     (\<lambda>pl. steps [act (note_rounds pl), with_paper (\<lambda>p'. act (show_rounds p'))]))) complain)"

definition highlight :: "unit call" where
  "highlight = try_act applyReviewHighlights"

definition render_reviews :: "unit call" where
  "render_reviews = steps
     [act (\<lambda>s. write_label Ui_reviewCounts (counts_text (reviews s)) s), highlight, act show_reviews]"

definition no_reviews :: "workspace \<Rightarrow> workspace" where
  "no_reviews s =
     (write_label Ui_reviewCounts [] s)
       \<lparr>reviews := [], writerReviewList := [empty_copy ''Mentor review applies to assigned Team Papers.'']\<rparr>"

definition refreshReviews :: "unit call" where
  "refreshReviews = look (\<lambda>s.
     if \<not> team_paper s then act no_reviews
     else attempt
       (with_paper (\<lambda>p. bind (fetch (Api (Reviews (paper_id p))) as_threads)
          (\<lambda>ts. steps [act (\<lambda>s. s\<lparr>reviews := ts\<rparr>), render_reviews])))
       (\<lambda>e. act (\<lambda>s. s\<lparr>writerReviewList := [empty_copy (err_message e)]\<rparr>)))"

section \<open>Opening\<close>

text \<open>The address of an image is made from the identifier of the paper that is open by then.\<close>

definition preview_file :: "pfile \<Rightarrow> unit call" where
  "preview_file f = look (\<lambda>s.
     if is_raster (fl_path f) \<and> cur_paper s = None then steps [act clear_mount, throw type_error]
     else act (show_binary f))"

definition openFile :: "pfile \<Rightarrow> bool \<Rightarrow> unit call" where
  "openFile f force =
     bind (if force then ret () else act closeEditor) (\<lambda>_.
       attempt
         (with_paper (\<lambda>p. bind (fetch (Api (FileContent (paper_id p) (fl_id f))) as_file) (\<lambda>pl.
            steps [act (show_file pl),
                   look (\<lambda>s. case paperDetail s of None \<Rightarrow> throw type_error
                              | Some d \<Rightarrow> act (start_session (dt_paper d) pl))])))
         (\<lambda>e. steps [if err_status e = 415 then preview_file f else ret (), complain e]))"

definition fetch_detail :: "unit call" where
  "fetch_detail = with_paper (\<lambda>p. bind (fetch (Api (Paper (paper_id p))) as_detail)
     (\<lambda>d. act (take_detail d)))"

definition openPaper :: "paper option \<Rightarrow> unit call" where
  "openPaper po = bind (act (leave_paper po)) (\<lambda>_.
     case po of None \<Rightarrow> throw type_error
     | Some p \<Rightarrow> steps
         [bind (fetch (Api (Paper (paper_id p))) as_detail)
            (\<lambda>d. act (take_detail d)),
          bind (fetch (Api (Files (paper_id p))) as_files) (\<lambda>fs. act (\<lambda>s. s\<lparr>files := fs\<rparr>)),
          act (show_paper p),
          look (\<lambda>s. case initial_file s of None \<Rightarrow> ret () | Some f \<Rightarrow> openFile f True),
          in_parallel [refreshBuildStatus, refreshHistory, refreshReviews, refreshReviewRounds, refreshIntelligence]])"

definition reopenPaper :: "unit call" where
  "reopenPaper = look (\<lambda>s. openPaper (cur_paper s))"

definition open_unless_current :: "pfile \<Rightarrow> unit call" where
  "open_unless_current f = look (\<lambda>s.
     if map_option fl_id (cur_file s) \<noteq> Some (fl_id f) then openFile f False else ret ())"

definition find_file :: "jsstr \<Rightarrow> workspace \<Rightarrow> pfile option" where
  "find_file i s = List.find (\<lambda>f. fl_id f = i) (files s)"

definition viewed_text :: "workspace \<Rightarrow> view \<Rightarrow> jsstr" where
  "viewed_text s v = (if vw_session v < length (sessions s) then es_text (sessions s ! vw_session v) else [])"

definition select_in_view :: "nat \<Rightarrow> nat \<Rightarrow> workspace \<Rightarrow> workspace option" where
  "select_in_view a h s = map_option (\<lambda>v. s\<lparr>view := Some (v\<lparr>vw_anchor := a, vw_head := h\<rparr>)\<rparr>) (view s)"

definition select_location :: "location \<Rightarrow> workspace \<Rightarrow> workspace option" where
  "select_location l s =
     Option.bind (view s) (\<lambda>v. let (a, h) = location_selection (viewed_text s v) l in select_in_view a h s)"

definition openLocation :: "jsstr \<Rightarrow> location \<Rightarrow> unit call" where
  "openLocation file_id l = look (\<lambda>s. case find_file file_id s of None \<Rightarrow> ret ()
     | Some f \<Rightarrow> bind (open_unless_current f) (\<lambda>_.
         look (\<lambda>s. case collaboration s of None \<Rightarrow> ret ()
           | Some i \<Rightarrow> steps [post (ReadySession i), try_act (select_location l)])))"

definition reloadPaperAndFile :: "jsstr \<Rightarrow> unit call" where
  "reloadPaperAndFile i = steps
     [act closeEditor,
      fetch_detail,
      with_paper (\<lambda>p. bind (fetch (Api (Files (paper_id p))) as_files)
        (\<lambda>fs. act (\<lambda>s. show_files (s\<lparr>files := fs\<rparr>)))),
      look (\<lambda>s. case find_file i s of None \<Rightarrow> ret () | Some f \<Rightarrow> openFile f True)]"

section \<open>Saving and building\<close>

definition offline_error :: api_error where
  "offline_error = \<lparr>err_message =
     ''Offline edits are safely stored locally; reconnect before this structural operation.'', err_status = 0\<rparr>"

text \<open>\<open>model.collaboration.flush()\<close>.\<close>

definition flush_session :: "nat \<Rightarrow> nat call" where
  "flush_session i = look (\<lambda>s.
     if \<not> (i < length (sessions s) \<and> es_writable (sessions s ! i)) then ret 0
     else if \<not> es_open (sessions s ! i) then bind (act (saveState Offline)) (\<lambda>_. throw offline_error)
     else bind (act (saveState Syncing)) (\<lambda>_. fetch (FlushSession i) as_sequence))"

definition syncCurrent :: "bool \<Rightarrow> bool call" where
  "syncCurrent showNotice = look (\<lambda>s. case collaboration s of None \<Rightarrow> ret False
     | Some i \<Rightarrow>
         if conflict s then ret False
         else attempt
           (bind (flush_session i) (\<lambda>_.
              bind (steps [act scheduleIntelligence,
                           if showNotice then with_file (\<lambda>f. say (''Saved '' @ fl_path f)) else ret ()])
                (\<lambda>_. ret True)))
           (\<lambda>e. bind (steps [act (saveState Offline), complain e]) (\<lambda>_. ret False)))"

definition requireDurableFlush :: "bool call" where
  "requireDurableFlush = bind (syncCurrent False) (\<lambda>ok.
     if \<not> ok then ret False
     else attempt (bind fetch_detail (\<lambda>_. ret True)) (\<lambda>e. bind (complain e) (\<lambda>_. ret False)))"

definition requestBuild :: "trigger \<Rightarrow> unit call" where
  "requestBuild trigger = look (\<lambda>s. case cur_paper s of None \<Rightarrow> ret ()
     | Some p \<Rightarrow> attempt
         (steps [act (\<lambda>s. write_label Ui_buildStatus
                   (if truthy (currentBuildId s) then ''Rebuilding...'' else ''Building...'') s),
                 post (Api (Build (paper_id p) (case trigger of Auto \<Rightarrow> ''auto'' | Manual \<Rightarrow> ''manual''))),
                 in_parallel [refreshBuildStatus, refreshHistory]])
         (\<lambda>e. steps [act (\<lambda>s. write_label Ui_buildStatus
                   (if truthy (currentBuildId s) then ''Build failed -- showing last successful PDF''
                    else ''Build failed'') s), complain e]))"

definition manualCompile :: "unit call" where
  "manualCompile = look (\<lambda>s.
     if cur_paper s = None \<or> \<not> detail_editable s then ret ()
     else bind (act cancelAutoBuild) (\<lambda>_.
       bind (syncCurrent False) (\<lambda>ok. if ok then requestBuild Manual else ret ())))"

section \<open>Papers and files\<close>

definition newPaper :: "jsstr \<Rightarrow> unit call" where
  "newPaper name =
     (if name = [] then ret ()
      else attempt (bind (fetch (Api (CreatePaper name)) as_created) (\<lambda>p.
             steps [refreshPapers,
                    look (\<lambda>s. openPaper (List.find (\<lambda>q. paper_id q = paper_id p) (papers s)))])) complain)"

definition take_version :: "nat \<Rightarrow> unit call" where
  "take_version n = act (\<lambda>s. s\<lparr>version := n\<rparr>)"

definition newFile :: "jsstr \<Rightarrow> unit call" where
  "newFile path =
     (if path = [] then ret ()
      else attempt
        (with_paper (\<lambda>p. look (\<lambda>s.
           bind (fetch (Api (CreateFile (paper_id p)
                   (JObj [(''path'', JStr path), (''content'', JStr []), (''version'', JNat (version s))]))) as_changed)
             (\<lambda>(n, f). steps [take_version n, reloadPaperAndFile (fl_id f)])))) complain)"

definition renameFile :: "jsstr option \<Rightarrow> unit call" where
  "renameFile reply = bind requireDurableFlush (\<lambda>ok.
     if \<not> ok then ret ()
     else with_file (\<lambda>f.
       if \<not> truthy reply \<or> reply = Some (fl_path f) then ret ()
       else attempt
         (with_paper (\<lambda>p. look (\<lambda>s.
            bind (fetch (Api (RenameFile (paper_id p) (fl_id f)
                    (JObj [(''path'', JStr (the reply)), (''version'', JNat (version s))]))) as_changed)
              (\<lambda>(n, f'). steps [take_version n, reloadPaperAndFile (fl_id f')])))) complain))"

definition deleteFile :: "bool \<Rightarrow> unit call" where
  "deleteFile confirmed = with_file (\<lambda>_.
     if \<not> confirmed then ret ()
     else bind requireDurableFlush (\<lambda>ok.
       if \<not> ok then ret ()
       else attempt
         (with_file (\<lambda>f. with_paper (\<lambda>p. look (\<lambda>s.
            bind (fetch (Api (DeleteFile (paper_id p) (fl_id f) (JObj [(''version'', JNat (version s))]))) as_version)
              (\<lambda>n. steps [act (\<lambda>s. closeEditor (s\<lparr>version := n, cur_file := None, conflict := False\<rparr>)),
                           reopenPaper]))))) complain))"

definition setMain :: "unit call" where
  "setMain = bind requireDurableFlush (\<lambda>ok.
     if \<not> ok then ret ()
     else attempt
       (with_paper (\<lambda>p. with_file (\<lambda>f. look (\<lambda>s.
          bind (fetch (Api (SetMain (paper_id p) (fl_id f) (JObj [(''version'', JNat (version s))]))) as_version)
            (\<lambda>n. steps [take_version n, with_file (\<lambda>f. reloadPaperAndFile (fl_id f))]))))) complain)"

text \<open>A chosen file: its size and type, and the path that the user gives.\<close>

definition uploadAsset :: "nat \<Rightarrow> jsstr \<Rightarrow> jsstr \<Rightarrow> unit call" where
  "uploadAsset bytes content_type path =
     (if bytes > 1024 * 1024 then warn ''Assets are limited to 1 MiB.''
      else if path = [] then ret ()
      else attempt
        (look (\<lambda>s. bind (if collaboration s \<noteq> None then requireDurableFlush else ret True) (\<lambda>ok.
           if \<not> ok then ret ()
           else with_paper (\<lambda>p. look (\<lambda>s.
             bind (fetch (Api (UploadAsset (paper_id p) path (version s) content_type)) as_changed)
               (\<lambda>(n, f). steps [take_version n, reloadPaperAndFile (fl_id f),
                                say (''Uploaded '' @ fl_path f @ ''.'')])))))) complain)"

definition operation_notice :: "bool \<Rightarrow> jsstr \<Rightarrow> jsstr" where
  "operation_notice redo ty =
     (if redo then ''Redid '' else ''Undid '') @ underscores_to_spaces (js_lower ty) @ ''.''"

definition runStructural :: "bool \<Rightarrow> unit call" where
  "runStructural redo = look (\<lambda>s.
     if cur_paper s = None then ret ()
     else bind (if collaboration s \<noteq> None then syncCurrent False else ret True) (\<lambda>ok.
       if \<not> ok then ret ()
       else attempt
         (with_paper (\<lambda>p.
            bind (fetch (Api (if redo then StructuralRedo (paper_id p) else StructuralUndo (paper_id p))) as_operation)
              (\<lambda>(n, ty). steps [take_version n, reopenPaper, say (operation_notice redo ty)]))) complain))"

section \<open>Searching and the PDF\<close>

text \<open>The \<open>input\<close> listener of the search field, and its timer.\<close>

definition search_input :: "jsstr \<Rightarrow> workspace \<Rightarrow> workspace" where
  "search_input text s =
     (let c = (case searchTimer s of None \<Rightarrow> page_timers s | Some h \<Rightarrow> clearTimer h (page_timers s));
          query = js_trim text
      in if query = [] then s\<lparr>page_timers := c, searchResults := []\<rparr>
         else let (h, c') = setTimer (SearchTimer query) 350 c in s\<lparr>page_timers := c', searchTimer := Some h\<rparr>)"

definition runSearch :: "jsstr \<Rightarrow> bool \<Rightarrow> unit call" where
  "runSearch query caseSensitive =
     attempt (with_paper (\<lambda>p. bind (fetch (Api (Search (paper_id p) query caseSensitive)) as_hits)
       (\<lambda>hits. act (show_search hits)))) complain"

definition pdf_page_src :: "jsstr \<Rightarrow> jsstr \<Rightarrow> nat \<Rightarrow> jsstr" where
  "pdf_page_src paper build page =
     papers_path paper @ ''/artifacts/pdf?build='' @ build @ ''#page='' @ nat_str page"

definition show_mapping :: "mapping \<Rightarrow> unit call" where
  "show_mapping m =
     (case mp_page m of
        None \<Rightarrow> warn ''No SyncTeX location is available for this source position.''
      | Some page \<Rightarrow>
          if page = 0 then warn ''No SyncTeX location is available for this source position.''
          else with_paper (\<lambda>p. steps
            [act (\<lambda>s. s\<lparr>pdfSrc := Some (pdf_page_src (paper_id p) (js_or (currentBuildId s) ''null'') page)\<rparr>),
             say (''Showing PDF page '' @ nat_str page @ '' ('' @ js_lower (mp_status m) @ '').'')]))"

definition showInPdf :: "unit call" where
  "showInPdf = look (\<lambda>s. case (view s, cur_file s) of
       (Some v, Some f) \<Rightarrow>
         if \<not> truthy (currentBuildId s) then ret ()
         else let (line, column) = line_at (viewed_text s v) (vw_head v)
              in attempt (with_paper (\<lambda>p. bind (fetch (Api (MapLocation (paper_id p)
                   (JObj [(''direction'', JStr ''FORWARD''), (''file_id'', JStr (fl_id f)),
                          (''line'', JNat line), (''column'', JNat column)]))) as_mapping)
                   show_mapping)) complain
     | _ \<Rightarrow> ret ())"

end
