(* ===== verification/WorkspaceEvents.thy ===== *)
theory WorkspaceEvents
  imports WorkspaceCalls
begin

text \<open>
  The rest of the listeners of \<^verbatim>\<open>services/server/frontend/writer.js\<close>: reviews and suggestions, history and
  restoration, checkpoints and review rounds, the preview of an asset; what an editing session does to the
  page; and the events of the page with the call that each starts.
\<close>

section \<open>Reviews\<close>

definition writerReply :: "review_thread \<Rightarrow> jsstr \<Rightarrow> unit call" where
  "writerReply t body =
     (if body = [] then ret ()
      else attempt (steps [with_paper (\<lambda>p. post (Api (ReviewMessage (paper_id p) (rt_id t) body))), refreshReviews])
             complain)"

definition set_review_state :: "review_thread \<Rightarrow> jsstr \<Rightarrow> unit call" where
  "set_review_state t st =
     attempt (steps [with_paper (\<lambda>p. post (Api (ReviewState (paper_id p) (rt_id t) st))), refreshReviews]) complain"

definition writerAddress :: "review_thread \<Rightarrow> unit call" where
  "writerAddress t = set_review_state t ''ADDRESSED''"

text \<open>The popover's \<open>Done\<close>.\<close>

definition popoverDone :: "review_thread \<Rightarrow> unit call" where
  "popoverDone t = set_review_state t ''RESOLVED''"

text \<open>
  The range of an anchor in the document of \<open>model.collaboration\<close>: \<^const>\<open>None\<close> when reading it throws,
  \<^term>\<open>Some None\<close> when it does not resolve.
\<close>

definition collaboration_range :: "source_anchor \<Rightarrow> workspace \<Rightarrow> (nat \<times> source_range option) option" where
  "collaboration_range a s =
     (case (collaboration s, current_session s) of
        (Some i, Some e) \<Rightarrow>
          (case anchor_range (resolver s) (i, es_text e) i a of
             Inl u \<Rightarrow> None
           | Inr r \<Rightarrow> Some (i, if es_loaded e then r else None))
      | _ \<Rightarrow> None)"

definition with_ready_range ::
  "pfile \<Rightarrow> source_anchor \<Rightarrow> (nat \<Rightarrow> source_range option \<Rightarrow> unit call) \<Rightarrow> unit call" where
  "with_ready_range f a g = bind (open_unless_current f) (\<lambda>_.
     look (\<lambda>s. case collaboration s of None \<Rightarrow> throw type_error
       | Some i \<Rightarrow> bind (post (ReadySession i)) (\<lambda>_.
           look (\<lambda>s. case collaboration_range a s of None \<Rightarrow> throw type_error
             | Some (j, r) \<Rightarrow> g j r))))"

definition live_anchor :: "review_thread \<Rightarrow> source_anchor option" where
  "live_anchor t =
     (case rt_source_anchor t of None \<Rightarrow> None | Some a \<Rightarrow> if sa_file_deleted a then None else Some a)"

definition focus_pdf :: "review_thread \<Rightarrow> unit call" where
  "focus_pdf t = look (\<lambda>s. case rt_pdf_anchor t of None \<Rightarrow> ret ()
     | Some a \<Rightarrow>
         if \<not> truthy (currentBuildId s) then ret ()
         else with_paper (\<lambda>p. steps
           [act (\<lambda>s. s\<lparr>pdfSrc := Some (pdf_page_src (paper_id p) (js_or (currentBuildId s) []) (pa_page a))\<rparr>),
            say (''PDF-only review on page '' @ nat_str (pa_page a) @ ''.'')]))"

definition focusWriterReview :: "review_thread \<Rightarrow> unit call" where
  "focusWriterReview t = look (\<lambda>s.
     case live_anchor t of None \<Rightarrow> focus_pdf t
     | Some a \<Rightarrow>
         (case find_file (sa_file_id a) s of None \<Rightarrow> focus_pdf t
          | Some f \<Rightarrow> with_ready_range f a (\<lambda>i r.
              case r of None \<Rightarrow> warn ''The source anchor no longer resolves; re-anchoring is required.''
              | Some r \<Rightarrow> try_act (select_in_view (range_from r) (range_to r)))))"

definition edit_session :: "nat \<Rightarrow> (jsstr \<Rightarrow> jsstr) \<Rightarrow> workspace \<Rightarrow> workspace" where
  "edit_session i f = upd_session i (\<lambda>e. e\<lparr>es_text := f (es_text e)\<rparr>)"

text \<open>The transaction: the deletion runs before \<open>thread.suggestion\<close> is read.\<close>

definition replace_range :: "nat \<Rightarrow> source_range \<Rightarrow> suggestion option \<Rightarrow> unit call" where
  "replace_range i r sg =
     (case sg of
        None \<Rightarrow> steps [act (edit_session i (text_delete (range_from r) (range_to r - range_from r))),
                       throw type_error]
      | Some g \<Rightarrow> act (edit_session i (apply_suggestion r (replacement_text g))))"

definition writerAcceptSuggestion :: "review_thread \<Rightarrow> unit call" where
  "writerAcceptSuggestion t =
     (case live_anchor t of
        None \<Rightarrow> warn ''Suggestion source is unavailable; re-anchor before accepting.''
      | Some a \<Rightarrow> look (\<lambda>s. case find_file (sa_file_id a) s of
            None \<Rightarrow> warn ''Suggestion file no longer exists; nothing was changed.''
          | Some f \<Rightarrow> attempt
              (with_ready_range f a (\<lambda>i r.
                 case r of None \<Rightarrow> warn ''Suggestion anchor is stale or unresolved; nothing was changed.''
                 | Some r \<Rightarrow> steps
                     [replace_range i r (rt_suggestion t),
                      bind (flush_session i) (\<lambda>n. with_paper (\<lambda>p.
                        post (Api (AcceptSuggestion (paper_id p) (rt_id t) n)))),
                      refreshReviews,
                      say ''Suggestion accepted as your durable Writer edit.'']))
              complain))"

definition writerRejectSuggestion :: "review_thread \<Rightarrow> jsstr \<Rightarrow> unit call" where
  "writerRejectSuggestion t reason =
     attempt (steps [with_paper (\<lambda>p. post (Api (RejectSuggestion (paper_id p) (rt_id t) reason))),
                     refreshReviews, say ''Suggestion rejected.'']) complain"

definition setReviewFilter :: "jsstr \<Rightarrow> unit call" where
  "setReviewFilter flt =
     (if flt = [] then ret () else steps [act (\<lambda>s. s\<lparr>reviewFilter := flt\<rparr>), render_reviews])"

section \<open>History\<close>

text \<open>\<^const>\<open>None\<close> is a cancelled prompt.\<close>

definition rejectRequest :: "restoration_request \<Rightarrow> jsstr option \<Rightarrow> unit call" where
  "rejectRequest r note =
     (case note of None \<Rightarrow> ret ()
      | Some n \<Rightarrow> attempt (steps [post (Api (RejectRestoration (rr_id r) n)), refreshHistory,
                                  say ''Revert request rejected.'']) complain)"

definition applyRequest :: "restoration_request \<Rightarrow> bool \<Rightarrow> jsstr option \<Rightarrow> unit call" where
  "applyRequest r confirmed note =
     (if \<not> confirmed then ret ()
      else case note of None \<Rightarrow> ret ()
      | Some n \<Rightarrow> attempt (steps [post (Api (ApplyRestoration (rr_id r) n)), reopenPaper,
                                  say ''Team Paper reverted as a new current version.'']) complain)"

definition revertTeam :: "paper_version \<Rightarrow> bool \<Rightarrow> unit call" where
  "revertTeam v confirmed =
     (if \<not> confirmed then ret ()
      else attempt (steps [with_paper (\<lambda>p. post (Api (RevertTeam (paper_id p) (vr_id v)))), reopenPaper,
                           say ''Team Paper reverted as a new current version.'']) complain)"

definition requestRevert :: "paper_version \<Rightarrow> jsstr option \<Rightarrow> unit call" where
  "requestRevert v reason =
     (case reason of None \<Rightarrow> ret ()
      | Some r \<Rightarrow> attempt (steps [with_paper (\<lambda>p. post (Api (RequestRestoration (paper_id p) (vr_id v) r))),
                                  refreshHistory, say ''Revert request sent to the Team Leader.'']) complain)"

definition restoreVersion :: "paper_version \<Rightarrow> bool \<Rightarrow> unit call" where
  "restoreVersion v confirmed =
     (if \<not> confirmed then ret ()
      else attempt (steps [with_paper (\<lambda>p. post (Api (RestorePersonal (paper_id p) (vr_id v)))), reopenPaper,
                           say ''Personal paper restored as a new current version.'']) complain)"

definition compareVersions :: "compare_outcome \<Rightarrow> unit call" where
  "compareVersions oc =
     (case oc of
        Undone \<Rightarrow> ret ()
      | SelectTwo \<Rightarrow> act (write_label Ui_versionDiff ''Select two versions to compare.'')
      | CompareVersions a b \<Rightarrow>
          attempt (with_paper (\<lambda>p. bind (fetch (Api (Compare (paper_id p) a b)) as_comparison)
                     (\<lambda>c. act (write_label Ui_versionDiff (comparison_text c)))))
            (\<lambda>e. act (write_label Ui_versionDiff (err_message e))))"

definition createCheckpoint :: "jsstr \<Rightarrow> unit call" where
  "createCheckpoint name = look (\<lambda>s.
     if cur_paper s = None then ret ()
     else bind (syncCurrent False) (\<lambda>ok.
       if \<not> ok \<or> name = [] then ret ()
       else attempt (steps [with_paper (\<lambda>p. post (Api (Checkpoint (paper_id p) name))), refreshHistory,
                            say (''Checkpoint \"'' @ name @ ''\" created'')]) complain))"

section \<open>Review rounds\<close>

definition sendReview :: "unit call" where
  "sendReview = look (\<lambda>s.
     if (case cur_paper s of None \<Rightarrow> True | Some p \<Rightarrow> \<not> is_team_leader p) then ret ()
     else bind (syncCurrent False) (\<lambda>ok.
       if \<not> ok then ret ()
       else attempt (steps [with_paper (\<lambda>p. post (Api (SendForReview (paper_id p)))), refreshReviewRounds,
                            say ''Current paper sent for Mentor review.'']) complain))"

definition endReview :: "bool \<Rightarrow> unit call" where
  "endReview confirmed = look (\<lambda>s. case currentReviewRound s of None \<Rightarrow> ret ()
     | Some r \<Rightarrow>
         if \<not> confirmed then ret ()
         else attempt (steps [with_paper (\<lambda>p. post (Api (EndReview (paper_id p) r))), refreshReviewRounds,
                              say ''Review ended.'']) complain)"

section \<open>The rest of the page\<close>

definition copyRecovery :: "unit call" where
  "copyRecovery = look (\<lambda>s.
     if \<not> truthy (recoveryText s) then ret ()
     else attempt (steps [post (WriteClipboard (the (recoveryText s))),
                          say ''Previous-version recovery text copied.'']) (\<lambda>e. ret ()))"

text \<open>
  \<^const>\<open>None\<close> when it throws: a session that was destroyed, or that has not loaded, has no document to insert into,
  but its \<open>access\<close> is still \<open>read_write\<close>.
\<close>

definition insert_text :: "jsstr \<Rightarrow> workspace \<Rightarrow> workspace option" where
  "insert_text source s =
     (case (view s, collaboration s, current_session s) of
        (Some v, Some i, Some e) \<Rightarrow>
          (case insertLatex source \<lparr>ed_mounted = True, ed_writable = es_writable e, ed_text = es_text e,
                 sel_from = min (vw_anchor v) (vw_head v), sel_to = max (vw_anchor v) (vw_head v)\<rparr> of
             None \<Rightarrow> Some (notice ''Open an editable text file before inserting LaTeX.'' True s)
           | Some ed \<Rightarrow>
               if es_loaded e then Some (scheduleIntelligence (edit_session i (\<lambda>_. ed_text ed) s)) else None)
      | _ \<Rightarrow> Some (notice ''Open an editable text file before inserting LaTeX.'' True s))"

text \<open>The interval of 1.5 seconds; neither call is awaited, and neither rejects.\<close>

definition tick :: "unit call" where
  "tick = look (\<lambda>s.
     if cur_paper s = None then ret ()
     else in_parallel (refreshBuildStatus # (if team_paper s then [refreshReviews] else [])))"

section \<open>What a session does to the page\<close>

definition mountEditor :: "nat \<Rightarrow> bool \<Rightarrow> bool \<Rightarrow> unit call" where
  "mountEditor i editable latex = steps [act (mount_view i editable latex), highlight]"

text \<open>
  The local database of a live session has loaded (end of \<open>initializeOrMerge\<close>); the session joins, loses
  its socket or gets text from others; it finds its paper restored (\<open>preserveOldEpoch\<close>); the server refuses it,
  for good when its file was deleted or its policy has changed. The time between the creation of a document and the
  loading of its database is not distinguished here; \<open>CollabSession\<close> does.
\<close>

definition session_mounts :: "nat \<Rightarrow> unit call" where
  "session_mounts i = look (\<lambda>s.
     if i < length (sessions s) \<and> es_alive (sessions s ! i) \<and> \<not> es_loaded (sessions s ! i)
     then bind (act (upd_session i (\<lambda>e. e\<lparr>es_loaded := True\<rparr>))) (\<lambda>_.
       mountEditor i (es_editable (sessions s ! i) \<and> es_writable (sessions s ! i)) (es_latex (sessions s ! i)))
     else ret ())"

definition session_connection :: "nat \<Rightarrow> bool \<Rightarrow> bool \<Rightarrow> workspace \<Rightarrow> workspace" where
  "session_connection i writable opened =
     upd_session i (\<lambda>e. if es_alive e then e\<lparr>es_writable := writable, es_open := opened\<rparr> else e)"

definition session_text :: "nat \<Rightarrow> jsstr \<Rightarrow> workspace \<Rightarrow> workspace" where
  "session_text i t = upd_session i (\<lambda>e. if es_alive e then e\<lparr>es_text := t\<rparr> else e)"

definition session_superseded :: "nat \<Rightarrow> workspace \<Rightarrow> workspace" where
  "session_superseded i s =
     (if i < length (sessions s) \<and> es_alive (sessions s ! i)
      then let t = es_text (sessions s ! i)
           in destroy_session i
                (notice ''Offline changes from the previous paper version were preserved locally and were not merged after restoration.'' True
                  (saveState Conflict (s\<lparr>recoveryText := Some t, copyRecoveryHidden := (t = []), conflict := True\<rparr>)))
      else s)"

definition session_refused :: "nat \<Rightarrow> jsstr \<Rightarrow> bool \<Rightarrow> workspace \<Rightarrow> workspace" where
  "session_refused i message for_good s =
     (if i < length (sessions s) \<and> es_alive (sessions s ! i)
      then let u = notice message True (saveState Conflict (s\<lparr>conflict := True\<rparr>))
           in if for_good then destroy_session i u else u
      else s)"

end
