(* ===== verification/WorkspaceDialogs.thy ===== *)
theory WorkspaceDialogs
  imports WorkspaceEvents
begin

text \<open>
  The document details, the one dialog of the page with its palettes and builders, and the keyboard
  shortcuts of \<^verbatim>\<open>services/server/frontend/writer.js\<close>, wired to the calls they start; then the events of the
  page with the call that each starts. What the user answers in a prompt that an action opens comes with the
  event that runs the action.
\<close>

section \<open>Document details\<close>

definition show_form :: "document_details \<Rightarrow> details_form \<Rightarrow> workspace \<Rightarrow> workspace" where
  "show_form d f s =
     openDrawer DocumentDetailsDrawer
       (s\<lparr>detailsForms := detailsForms s @ [f],
          detailsBody := details_rows d @ [DetailsForm (length (detailsForms s))]\<rparr>)"

definition take_details :: "document_details \<Rightarrow> unit call" where
  "take_details d = bind (act (\<lambda>s. s\<lparr>detailsBody := details_rows d\<rparr>)) (\<lambda>_.
     if \<not> truthy (dd_pack_id d) then act (openDrawer DocumentDetailsDrawer)
     else case details_form_of d of None \<Rightarrow> throw type_error | Some f \<Rightarrow> act (show_form d f))"

definition openDocumentDetails :: "unit call" where
  "openDocumentDetails = look (\<lambda>s.
     if \<not> team_paper s then ret ()
     else attempt (with_paper (\<lambda>p. bind (fetch (Api (DocumentDetails (paper_id p))) as_details) take_details)) complain)"

text \<open>The form in the open panel.\<close>

definition shown_form :: "workspace \<Rightarrow> nat option" where
  "shown_form s =
     (if hidden s Ui_workspaceDrawer \<or> hidden s Ui_documentDetailsPanel then None
      else case rev (detailsBody s) of
        DetailsForm i # r \<Rightarrow> if i < length (detailsForms s) then Some i else None
      | _ \<Rightarrow> None)"

definition editDetails :: "details_edit \<Rightarrow> workspace \<Rightarrow> workspace" where
  "editDetails e s =
     (case shown_form s of None \<Rightarrow> s
      | Some i \<Rightarrow> s\<lparr>detailsForms := (detailsForms s)[i := edit_details e (detailsForms s ! i)]\<rparr>)"

text \<open>The listener of a form's submission: the controls are read once the edits are durable.\<close>

definition saveDetails :: "nat \<Rightarrow> unit call" where
  "saveDetails i =
     attempt
       (bind (look (\<lambda>s. if collaboration s = None then ret True else syncCurrent False)) (\<lambda>ok.
          if \<not> ok then ret ()
          else look (\<lambda>s. with_paper (\<lambda>p.
            bind (fetch (Api (SaveDocumentDetails (paper_id p) (details_body (detailsForms s ! i)))) as_saved_details)
              (\<lambda>(n, auto_build). steps
                 [take_version n, reopenPaper, if auto_build then requestBuild Auto else ret (),
                  say ''Document details saved. Front Matter was rebuilt.''])))))
       complain"

definition submitDetails :: "unit call" where
  "submitDetails = look (\<lambda>s. case shown_form s of None \<Rightarrow> ret ()
     | Some i \<Rightarrow> if submittable (detailsForms s ! i) then saveDetails i else ret ())"

section \<open>The dialog\<close>

definition open_palette :: "writer_action palette \<Rightarrow> workspace \<Rightarrow> workspace" where
  "open_palette p s = s\<lparr>dialog := Some (Palette p)\<rparr>"

definition command_palette :: "jsstr \<Rightarrow> workspace \<Rightarrow> workspace" where
  "command_palette title s =
     open_palette (showPalette title
       (map (\<lambda>(l, a). plain_item l a) (commandItems (cur_paper s) (disabled s Ui_sendReview)))) s"

definition quick_files :: "workspace \<Rightarrow> quick_file list" where
  "quick_files s = map (\<lambda>f. \<lparr>qf_path = fl_path f, file_rest = f\<rparr>) (files s)"

definition open_quick :: "workspace \<Rightarrow> workspace" where
  "open_quick s = s\<lparr>dialog := Some (QuickPalette (quickOpen (collate s) (quick_files s)))\<rparr>"

definition builder_shown :: "jsstr \<Rightarrow> control list \<Rightarrow> workspace \<Rightarrow> jsstr \<times> jsstr \<times> jsstr" where
  "builder_shown kind controls s =
     builder_refresh (in_packages (intel s)) (in_environments (intel s)) kind (control_values controls)"

definition show_builder :: "(jsstr \<rightharpoonup> bvalue) \<Rightarrow> jsstr \<Rightarrow> workspace \<Rightarrow> workspace" where
  "show_builder defaults kind s =
     (let controls = openBuilder defaults (files s) kind
      in s\<lparr>dialog := Some (Builder kind controls (builder_shown kind controls s))\<rparr>)"

section \<open>Builders\<close>

definition builder_edit :: "(control list \<Rightarrow> control list) \<Rightarrow> workspace \<Rightarrow> workspace" where
  "builder_edit f s =
     (case dialog s of
        Some (Builder kind controls sh) \<Rightarrow>
          s\<lparr>dialog := Some (Builder kind (f controls) (builder_shown kind (f controls) s))\<rparr>
      | _ \<Rightarrow> s)"

text \<open>What the user enters: one of a list's options, a text, or a tick.\<close>

definition user_value :: "control \<Rightarrow> bvalue \<Rightarrow> bvalue" where
  "user_value c v =
     (case (ct_choices c, ct_value c, v) of
        (Some options, u, BText t) \<Rightarrow> if t \<in> set options then v else u
      | (None, BText u, BText t) \<Rightarrow> v
      | (None, BBool u, BBool b) \<Rightarrow> v
      | (x, u, y) \<Rightarrow> u)"

definition set_control :: "jsstr \<Rightarrow> bvalue \<Rightarrow> control list \<Rightarrow> control list" where
  "set_control name v controls =
     map (\<lambda>c. if ct_name c = name then c\<lparr>ct_value := user_value c v\<rparr> else c) controls"

definition equation_helpers :: "(jsstr \<times> jsstr) list" where
  "equation_helpers =
     [(''Fraction'', cs ''frac{}{}''), (''Root'', cs ''sqrt{}''), (''Superscript'', ''^{}''), (''Subscript'', ''_{}''),
      (''Sum'', cs ''sum_{}^{}''), (''Integral'', cs ''int_{}^{}''), (''Greek'', cs ''alpha'')]"

definition append_body :: "jsstr \<Rightarrow> control list \<Rightarrow> control list" where
  "append_body source controls =
     map (\<lambda>c. if ct_name c = ''body''
              then c\<lparr>ct_value := (case ct_value c of BText t \<Rightarrow> BText (t @ source) | v \<Rightarrow> v)\<rparr> else c) controls"

definition builder_helper :: "nat \<Rightarrow> workspace \<Rightarrow> workspace" where
  "builder_helper k s =
     (case dialog s of
        Some (Builder kind controls sh) \<Rightarrow>
          if kind = ''equation'' \<and> k < length equation_helpers
          then builder_edit (append_body (snd (equation_helpers ! k))) s else s
      | _ \<Rightarrow> s)"

definition select_end :: "workspace \<Rightarrow> workspace" where
  "select_end s =
     (case view s of None \<Rightarrow> s
      | Some v \<Rightarrow> s\<lparr>view := Some (v\<lparr>vw_anchor := length (viewed_text s v), vw_head := length (viewed_text s v)\<rparr>)\<rparr>)"

definition goto_bibliography :: "jsstr \<Rightarrow> unit call" where
  "goto_bibliography target = look (\<lambda>s. steps
     [case List.find (\<lambda>f. fl_path f = target) (files s) of None \<Rightarrow> ret () | Some f \<Rightarrow> open_unless_current f,
      look (\<lambda>s. case collaboration s of None \<Rightarrow> ret () | Some i \<Rightarrow> post (ReadySession i)),
      act select_end])"

text \<open>\<open>if (insertLatex(..)) closeDialog()\<close>.\<close>

definition can_insert :: "workspace \<Rightarrow> bool" where
  "can_insert s \<longleftrightarrow> view s \<noteq> None \<and> (case current_session s of None \<Rightarrow> False | Some e \<Rightarrow> es_writable e)"

definition insert_and_close :: "jsstr \<Rightarrow> workspace \<Rightarrow> workspace option" where
  "insert_and_close source s =
     map_option (\<lambda>t. if can_insert s then t\<lparr>dialog := None\<rparr> else t) (insert_text source s)"

primrec insert_from :: "page_dialog \<Rightarrow> unit call" where
  "insert_from (Builder kind controls sh) =
     (let current = control_values controls; target = js_or (text_value current ''target'') []
      in bind (if kind = ''bibliography'' \<and> target \<noteq> [] then goto_bibliography target else ret ())
           (\<lambda>_. try_act (insert_and_close (fst (builder_insertion kind current)))))"
| "insert_from (Palette p) = ret ()"
| "insert_from (QuickPalette p) = ret ()"

definition builder_insert :: "unit call" where
  "builder_insert = look (\<lambda>s. case dialog s of None \<Rightarrow> ret () | Some d \<Rightarrow> insert_from d)"

text \<open>\<open>Insert Figure\<close> on the preview of an image.\<close>

definition insertPreviewFigure :: "pfile \<Rightarrow> unit call" where
  "insertPreviewFigure f = look (\<lambda>s.
     if paperDetail s = None \<and> files s \<noteq> [] then throw type_error
     else case opt_or (List.find (\<lambda>c. Some (fl_path c) = main_path s \<and> fl_id c \<noteq> fl_id f) (files s))
            (List.find (\<lambda>c. js_endsWith (fl_path c) ''.tex'') (files s)) of
       None \<Rightarrow> warn ''Open a LaTeX source file before inserting a figure.''
     | Some target \<Rightarrow> steps [openFile target False, act (show_builder [''asset'' \<mapsto> BText (fl_path f)] ''figure'')])"

section \<open>What an item of a palette runs\<close>

text \<open>\<open>ui.control.click()\<close> does nothing on a disabled control.\<close>

definition click :: "ctl \<Rightarrow> unit call \<Rightarrow> unit call" where
  "click c m = look (\<lambda>s. if disabled s c then ret () else m)"

definition click_control :: "jsstr \<Rightarrow> jsstr option \<Rightarrow> bool \<Rightarrow> unit call" where
  "click_control name reply confirmed =
     (if name = ''newFile'' then click Ui_newFile (newFile (js_or reply []))
      else if name = ''renameFile'' then click Ui_renameFile (renameFile reply)
      else if name = ''deleteFile'' then click Ui_deleteFile (deleteFile confirmed)
      else if name = ''setMain'' then click Ui_setMain setMain
      else if name = ''saveFile'' then click Ui_saveFile (bind (syncCurrent True) (\<lambda>_. ret ()))
      else if name = ''createCheckpoint'' then click Ui_createCheckpoint (createCheckpoint (js_or reply []))
      else if name = ''sendReview'' then click Ui_sendReview sendReview
      else ret ())"

definition drawer_named :: "jsstr \<Rightarrow> drawer" where
  "drawer_named d = (if d = ''problems'' then Problems else if d = ''history'' then HistoryDrawer else Comments)"

primrec run_action :: "writer_action \<Rightarrow> jsstr option \<Rightarrow> bool \<Rightarrow> unit call" where
  "run_action (OpenBuilder kind) reply confirmed = act (show_builder (\<lambda>_. None) kind)"
| "run_action OpenCitationPalette reply confirmed =
     act (\<lambda>s. open_palette (openCitationPalette (in_bibliography (intel s))) s)"
| "run_action OpenReferencePalette reply confirmed =
     act (\<lambda>s. open_palette (openReferencePalette (in_labels (intel s))) s)"
| "run_action OpenMathPalette reply confirmed =
     act (\<lambda>s. open_palette (openMathPalette (MATH_CATALOG (glyph s))) s)"
| "run_action (InsertLatex source origin) reply confirmed = try_act (insert_text source)"
| "run_action (ClickControl name) reply confirmed = click_control name reply confirmed"
| "run_action ManualCompile reply confirmed = manualCompile"
| "run_action (RunStructural redo) reply confirmed = runStructural redo"
| "run_action (writer_action.OpenDrawer d) reply confirmed = act (openDrawer (drawer_named d))"
| "run_action OpenDocumentDetails reply confirmed = openDocumentDetails"
| "run_action ShowInPdf reply confirmed = showInPdf"

section \<open>Keys and clicks\<close>

definition escape_page :: "workspace \<Rightarrow> workspace" where
  "escape_page s = closeTransientMenus (closeDrawer s)"

primrec shown_event :: "page_dialog \<Rightarrow> palette_event \<Rightarrow> jsstr option \<Rightarrow> bool \<Rightarrow> unit call" where
  "shown_event (Palette p) e reply confirmed =
     (let (p', chosen) = palette_event e p
      in bind (act (\<lambda>s. s\<lparr>dialog := if pl_open p' then Some (Palette p') else None\<rparr>))
           (\<lambda>_. case chosen of None \<Rightarrow> ret () | Some a \<Rightarrow> run_action a reply confirmed))"
| "shown_event (QuickPalette p) e reply confirmed = look (\<lambda>s.
     let (p', chosen) = quick_event (collate s) (quick_files s) e p
     in bind (act (\<lambda>s. s\<lparr>dialog := if pl_open p' then Some (QuickPalette p') else None\<rparr>))
          (\<lambda>_. case chosen of None \<Rightarrow> ret () | Some f \<Rightarrow> openFile (file_rest f) False))"
| "shown_event (Builder kind controls sh) e reply confirmed = ret ()"

text \<open>An event in the dialog. \<open>Escape\<close> closes it, whatever it shows, and is then seen by the document.\<close>

definition in_dialog :: "palette_event \<Rightarrow> jsstr option \<Rightarrow> bool \<Rightarrow> unit call" where
  "in_dialog e reply confirmed = look (\<lambda>s. case dialog s of None \<Rightarrow> ret ()
     | Some d \<Rightarrow> if e = Escape then act (\<lambda>s. escape_page (s\<lparr>dialog := None\<rparr>)) else shown_event d e reply confirmed)"

definition open_from :: "ctl \<Rightarrow> workspace \<Rightarrow> workspace" where
  "open_from c s =
     (case c of
        Ui_insertMenu \<Rightarrow> open_palette openInsertMenu s
      | Ui_symbolPalette \<Rightarrow> open_palette openSymbols s
      | Ui_mathPalette \<Rightarrow> open_palette (openMathPalette (MATH_CATALOG (glyph s))) s
      | Ui_tableBuilder \<Rightarrow> show_builder (\<lambda>_. None) ''table'' s
      | Ui_figureBuilder \<Rightarrow> show_builder (\<lambda>_. None) ''figure'' s
      | Ui_plotBuilder \<Rightarrow> show_builder (\<lambda>_. None) ''plot'' s
      | _ \<Rightarrow> s)"

definition keydown :: "jsstr \<Rightarrow> bool \<Rightarrow> bool \<Rightarrow> unit call" where
  "keydown key ctrl shift =
     (if key = ''Escape'' then act escape_page
      else if \<not> ctrl then ret ()
      else steps
        [if js_lower key = ''p'' then act open_quick else ret (),
         if js_lower key = ''k'' then act (command_palette ''Command Palette'') else ret (),
         look (\<lambda>s. if shift \<and> js_lower key = ''r'' \<and> (case cur_paper s of None \<Rightarrow> False | Some p \<Rightarrow> is_team_leader p)
                    \<and> \<not> disabled s Ui_sendReview then sendReview else ret ())])"

section \<open>Events\<close>

text \<open>\<open>ClickCloseDialog\<close> is also what the return key does in a field of a builder: it submits the dialog's form.\<close>

datatype (plugins only: size) ui_event =
    Load | Tick | ClickPaper paper | ReopenTimer | ClickFile pfile | GoTo jsstr location | ClickSave | ClickCompile
  | IdleBuild | ClickNewPaper jsstr | ClickNewFile jsstr | ClickRename "jsstr option" | ClickDelete bool | ClickSetMain
  | ChooseAsset nat jsstr jsstr | ClickStructural bool | SearchInput jsstr | SearchFires jsstr bool | ClickShowInPdf
  | IntelligenceFires | ClickReply review_thread jsstr | ClickAddress review_thread | ClickDone review_thread
  | ClickFocus review_thread | ClickAccept review_thread | ClickReject review_thread jsstr | ClickFilter jsstr
  | ClickRejectRequest restoration_request "jsstr option" | ClickApplyRequest restoration_request bool "jsstr option"
  | ClickRevert paper_version bool | ClickRequestRevert paper_version "jsstr option" | ClickRestore paper_version bool
  | ClickVersionBox compare_outcome | ClickCheckpoint jsstr | ClickSendReview | ClickEndReview bool
  | ClickInsertFigure pfile | ClickCopyRecovery | InsertText jsstr | OpenDrawer drawer | CloseDrawer | CloseMenus
  | OpenDetails | EditDetails details_edit | SubmitDetails | KeyDown jsstr bool bool
  | DialogEvent palette_event "jsstr option" bool | ClickQuickOpen | ClickCommands jsstr | ClickPalette ctl
  | BuilderInput jsstr bvalue | BuilderHelper nat | BuilderInsert | ClickCloseDialog | ToggleFileMenu
  | SessionMounts nat | SessionConnection nat bool bool | SessionText nat jsstr | SessionSuperseded nat
  | SessionRefused nat jsstr bool | FileMenu pfile

primrec handler :: "ui_event \<Rightarrow> unit call" where
  "handler Load = attempt refreshPapers complain"
| "handler Tick = tick"
| "handler (ClickPaper p) = openPaper (Some p)"
| "handler ReopenTimer = reopenPaper"
| "handler (ClickFile f) = openFile f False"
| "handler (GoTo i l) = openLocation i l"
| "handler ClickSave = bind (syncCurrent True) (\<lambda>_. ret ())"
| "handler ClickCompile = manualCompile"
| "handler IdleBuild = requestBuild Auto"
| "handler (ClickNewPaper name) = newPaper name"
| "handler (ClickNewFile path) = newFile path"
| "handler (ClickRename reply) = renameFile reply"
| "handler (ClickDelete confirmed) = deleteFile confirmed"
| "handler ClickSetMain = setMain"
| "handler (ChooseAsset n ty path) = uploadAsset n ty path"
| "handler (ClickStructural redo) = runStructural redo"
| "handler (SearchInput t) = act (search_input t)"
| "handler (SearchFires q c) = runSearch q c"
| "handler ClickShowInPdf = showInPdf"
| "handler IntelligenceFires = refreshIntelligence"
| "handler (ClickReply t body) = writerReply t body"
| "handler (ClickAddress t) = writerAddress t"
| "handler (ClickDone t) = popoverDone t"
| "handler (ClickFocus t) = focusWriterReview t"
| "handler (ClickAccept t) = writerAcceptSuggestion t"
| "handler (ClickReject t reason) = writerRejectSuggestion t reason"
| "handler (ClickFilter flt) = setReviewFilter flt"
| "handler (ClickRejectRequest r n) = rejectRequest r n"
| "handler (ClickApplyRequest r c n) = applyRequest r c n"
| "handler (ClickRevert v c) = revertTeam v c"
| "handler (ClickRequestRevert v r) = requestRevert v r"
| "handler (ClickRestore v c) = restoreVersion v c"
| "handler (ClickVersionBox oc) = compareVersions oc"
| "handler (ClickCheckpoint name) = createCheckpoint name"
| "handler ClickSendReview = sendReview"
| "handler (ClickEndReview c) = endReview c"
| "handler (ClickInsertFigure f) = insertPreviewFigure f"
| "handler ClickCopyRecovery = copyRecovery"
| "handler (InsertText t) = try_act (insert_text t)"
| "handler (OpenDrawer d) = act (openDrawer d)"
| "handler CloseDrawer = act closeDrawer"
| "handler CloseMenus = act closeTransientMenus"
| "handler OpenDetails = click Ui_documentDetails openDocumentDetails"
| "handler (EditDetails e) = act (editDetails e)"
| "handler SubmitDetails = submitDetails"
| "handler (KeyDown key ctrl shift) = keydown key ctrl shift"
| "handler (DialogEvent e reply confirmed) = in_dialog e reply confirmed"
| "handler ClickQuickOpen = act open_quick"
| "handler (ClickCommands title) = act (command_palette title)"
| "handler (ClickPalette c) = click c (act (open_from c))"
| "handler (BuilderInput name v) = act (builder_edit (set_control name v))"
| "handler (BuilderHelper k) = act (builder_helper k)"
| "handler BuilderInsert = builder_insert"
| "handler ClickCloseDialog = act (\<lambda>s. s\<lparr>dialog := None\<rparr>)"
| "handler ToggleFileMenu = click Ui_fileActionsToggle (act (\<lambda>s. hide Ui_fileActionsMenu (\<not> hidden s Ui_fileActionsMenu) s))"
| "handler (SessionMounts i) = session_mounts i"
| "handler (SessionConnection i w b) = act (session_connection i w b)"
| "handler (SessionText i t) = act (session_text i t)"
| "handler (SessionSuperseded i) = act (session_superseded i)"
| "handler (SessionRefused i m b) = act (session_refused i m b)"
| "handler (FileMenu f) = steps [open_unless_current f, act (hide Ui_fileActionsMenu False)]"

definition run :: "ui_event \<Rightarrow> (workspace, req, answer) prog" where
  "run e = spawn (\<lambda>_. AUnit) (handler e)"

end
