(* ===== verification/WorkspaceLemmas.thy ===== *)
theory WorkspaceLemmas
  imports WorkspaceDialogs
begin

text \<open>
  What the calls of the page share: the fields that the functions of \<open>Workspace\<close> leave alone, how the
  calls move the state, how many answers they need and which of them can reject.
\<close>

section \<open>The core of the page\<close>

text \<open>The editor and its sessions, as opposed to what is only shown.\<close>

definition core ::
  "workspace \<Rightarrow> nat option \<times> editor_session list \<times> pfile option \<times> view option \<times> bool \<times> bool \<times> bool" where
  "core s = (collaboration s, sessions s, cur_file s, view s, disabled s Ui_undoText, disabled s Ui_redoText,
     paperDetail s = None)"

lemmas small_defs = write_label_def disable_def hide_def disable_all_def hide_all_def

lemma core_small [simp]:
  "core (write_label c t s) = core s" "core (hide c b s) = core s" "core (hide_all xs s) = core s"
  "core (saveState st s) = core s" "core (notice m b s) = core s" "core (cancelAutoBuild s) = core s"
  "core (s\<lparr>currentBuildId := uu1\<rparr>) = core s" "core (s\<lparr>pdfSrc := uu2\<rparr>) = core s" "core (s\<lparr>cur_paper := uu3\<rparr>) = core s"
  "core (s\<lparr>version := uu5\<rparr>) = core s" "core (s\<lparr>files := uu6\<rparr>) = core s"
  "core (s\<lparr>conflict := uu7\<rparr>) = core s" "core (s\<lparr>papers := uu8\<rparr>) = core s" "core (s\<lparr>intel := uu9\<rparr>) = core s"
  "core (s\<lparr>versions := vv1\<rparr>) = core s" "core (s\<lparr>restorationRequests := vv2\<rparr>) = core s"
  "core (s\<lparr>reviews := vv3\<rparr>) = core s" "core (s\<lparr>writerReviewList := vv4\<rparr>) = core s"
  "core (s\<lparr>reviewRounds := vv5\<rparr>) = core s" "core (s\<lparr>reviewOpen := vv6\<rparr>) = core s"
  "core (s\<lparr>currentReviewRound := vv7\<rparr>) = core s" "core (s\<lparr>compileDiagnostic := vv8\<rparr>) = core s"
  "core (s\<lparr>reviewFilter := vv9\<rparr>) = core s" "core (s\<lparr>mounted := tt1\<rparr>) = core s"
  "core (s\<lparr>dialog := tt2\<rparr>) = core s" "core (s\<lparr>detailsBody := rr7\<rparr>) = core s"
  "core (s\<lparr>detailsForms := rr8\<rparr>) = core s" "core (s\<lparr>searchResults := tt3\<rparr>) = core s"
  "core (s\<lparr>page_timers := tt4\<rparr>) = core s" "core (s\<lparr>searchTimer := tt5\<rparr>) = core s"
  "core (s\<lparr>intelligenceTimer := tt6\<rparr>) = core s" "core (s\<lparr>recoveryText := tt7\<rparr>) = core s"
  "core (s\<lparr>copyRecoveryHidden := tt8\<rparr>) = core s" "core (s\<lparr>problemsCount := tt9\<rparr>) = core s"
  "core (s\<lparr>problemsList := rr1\<rparr>) = core s" "core (s\<lparr>outlineTree := rr2\<rparr>) = core s"
  "core (s\<lparr>versionHistory := rr3\<rparr>) = core s" "core (s\<lparr>myPapers := rr4\<rparr>) = core s"
  "core (s\<lparr>teamPapers := rr5\<rparr>) = core s" "core (s\<lparr>fileTree := rr6\<rparr>) = core s"
  by (simp_all add: core_def small_defs saveState_def notice_def cancelAutoBuild_def)

lemma core_disable [simp]:
  "Ui_undoText \<notin> fst ` set xs \<Longrightarrow> Ui_redoText \<notin> fst ` set xs \<Longrightarrow> core (disable_all xs s) = core s"
proof -
  have "foldl (\<lambda>f (c, b). f(c := b)) f xs c = f c" if "c \<notin> fst ` set xs" for f :: "ctl \<Rightarrow> bool" and c
    using that by (induction xs arbitrary: f) auto
  then show "Ui_undoText \<notin> fst ` set xs \<Longrightarrow> Ui_redoText \<notin> fst ` set xs \<Longrightarrow> core (disable_all xs s) = core s"
    by (simp add: core_def disable_all_def)
qed

lemma core_disable1 [simp]: "c \<noteq> Ui_undoText \<Longrightarrow> c \<noteq> Ui_redoText \<Longrightarrow> core (disable c b s) = core s"
  by (simp add: core_def disable_def)

lemma core_shows [simp]:
  "core (show_papers s) = core s" "core (show_files s) = core s" "core (show_outline s) = core s"
  "core (show_problems s) = core s" "core (show_history s) = core s" "core (show_reviews s) = core s"
  "core (updateFileActions b s) = core s" "core (scheduleIntelligence s) = core s"
  "core (show_paper p s) = core s" "core (take_build pl s) = core s" "core (show_build pl s) = core s"
  "core (no_rounds s) = core s" "core (note_rounds r s) = core s" "core (show_rounds p s) = core s" "core (show_search h s) = core s"
  "core (closeDrawer s) = core s" "core (openDrawer d s) = core s" "core (closeTransientMenus s) = core s"
  "core (no_reviews s) = core s" "core (search_input t s) = core s"
  by (simp_all add: show_papers_def show_files_def show_outline_def show_problems_def show_history_def
      show_reviews_def updateFileActions_def scheduleIntelligence_def show_paper_def take_build_def
      show_build_def no_rounds_def note_rounds_def show_rounds_def show_search_def closeDrawer_def openDrawer_def
      closeTransientMenus_def no_reviews_def search_input_def Let_def
      split: prod.split option.split)

lemma core_dialogs [simp]:
  "core (open_palette p s) = core s" "core (command_palette ti s) = core s" "core (open_quick s) = core s"
  "core (show_builder d kind s) = core s" "core (open_from c s) = core s" "core (builder_edit f s) = core s"
  "core (builder_helper k s) = core s" "core (editDetails ed s) = core s" "core (show_form dt x s) = core s"
  "core (escape_page s) = core s"
  by (simp_all add: open_palette_def command_palette_def open_quick_def show_builder_def open_from_def builder_edit_def
      builder_helper_def editDetails_def show_form_def escape_page_def Let_def
      split: option.split page_dialog.split ctl.split)

section \<open>How the refreshes move the state\<close>

text \<open>What a relation has to allow for the refreshes to move the state along it.\<close>

locale refresh_rely = rely R for R :: "workspace \<Rightarrow> workspace \<Rightarrow> bool" +
  assumes r_notice: "R s (notice m b s)"
    and r_papers: "R s (show_papers (s\<lparr>papers := ps\<rparr>))"
    and r_intelligence: "R s (show_problems (show_outline (s\<lparr>intel := i\<rparr>)))"
    and r_build: "R s (show_build pl s)"
    and r_history: "R s (show_history (s\<lparr>versions := v, restorationRequests := q\<rparr>))"
    and r_rounds: "R s (no_rounds s)" "R s (note_rounds rp s)" "R s (show_rounds p s)"
    and r_reviews: "R s (no_reviews s)" "R s (s\<lparr>reviews := ts\<rparr>)" "R s (s\<lparr>writerReviewList := l\<rparr>)"
      "R s (write_label Ui_reviewCounts c s)" "R s (show_reviews s)"
    and r_highlights: "applyReviewHighlights s = Some t \<Longrightarrow> R s t"
begin

lemma moves_with_paper: "(\<And>p. moves R (f p)) \<Longrightarrow> moves R (with_paper f)"
  unfolding with_paper_def by (intro moves_intros) auto

lemma moves_with_file: "(\<And>p. moves R (f p)) \<Longrightarrow> moves R (with_file f)"
  unfolding with_file_def by (intro moves_intros) auto

lemma moves_notices: "moves R (say m)" "moves R (complain e)" "moves R (warn m)"
  unfolding say_def complain_def warn_def by (intro moves_act r_notice)+

lemma moves_in_parallel: "(\<And>m. m \<in> set ms \<Longrightarrow> moves R m) \<Longrightarrow> moves R (in_parallel ms)"
  unfolding in_parallel_def by (intro moves_intros moves_promise_all) (auto intro: segment_spawn)

lemmas call_moves = moves_intros moves_fetch moves_post moves_with_paper moves_with_file moves_notices
  moves_request

lemma moves_refreshes:
  "moves R refreshPapers" "moves R refreshIntelligence" "moves R refreshBuildStatus" "moves R refreshReviewRounds"
  unfolding refreshPapers_def refreshIntelligence_def refreshBuildStatus_def refreshReviewRounds_def
  by (intro call_moves moves_act r_papers r_intelligence r_build r_rounds)+

lemma moves_refreshHistory: "moves R refreshHistory"
proof -
  have "moves R (show_versions v r)" for v r
    unfolding show_versions_def by (intro call_moves moves_act r_history)
  then show ?thesis
    unfolding refreshHistory_def take_history_def
    by (intro call_moves moves_promise_all; (auto intro!: segment_spawn moves_request)?)
      (auto split: list.split option.split intro!: moves_throw)
qed

lemma moves_render_reviews: "moves R render_reviews"
  unfolding render_reviews_def highlight_def
  by (intro call_moves moves_act moves_try_act r_reviews r_highlights)

lemma moves_refreshReviews: "moves R refreshReviews"
  unfolding refreshReviews_def by (intro call_moves moves_render_reviews moves_act r_reviews)

end

text \<open>A relation that looks at the core of the page only allows them, but for the marks of the view.\<close>

locale core_rely = rely R for R :: "workspace \<Rightarrow> workspace \<Rightarrow> bool" +
  assumes core_same: "core t = core s \<Longrightarrow> R s t"
    and highlights: "applyReviewHighlights s = Some t \<Longrightarrow> R s t"
begin

lemma moves_shown: "(\<And>s. core (f s) = core s) \<Longrightarrow> moves R (act f)"
  by (rule moves_act) (simp add: core_same)

end

sublocale core_rely \<subseteq> refresh_rely
  by unfold_locales (rule core_same, simp | erule highlights)+

section \<open>A well-formed page\<close>

text \<open>
  The current session exists and edits the current file, whose paper is known; only live sessions have a document or
  an open socket; a mounted view shows an existing session, is editable only if that session's file is, and the undo
  buttons follow it.
\<close>

fun core_ok ::
  "nat option \<times> editor_session list \<times> pfile option \<times> view option \<times> bool \<times> bool \<times> bool \<Rightarrow> bool" where
  "core_ok (c, ss, f, v, u, r, d) \<longleftrightarrow>
     (case c of None \<Rightarrow> True | Some i \<Rightarrow> i < length ss \<and> f = Some (es_file (ss ! i)) \<and> \<not> d) \<and>
     (\<forall>i<length ss. es_loaded (ss ! i) \<or> es_open (ss ! i) \<longrightarrow> es_alive (ss ! i)) \<and>
     (case v of None \<Rightarrow> u \<and> r
      | Some w \<Rightarrow> vw_session w < length ss \<and> (vw_editable w \<longrightarrow> es_editable (ss ! vw_session w)) \<and>
          vw_latex w = es_latex (ss ! vw_session w) \<and>
          u = (\<not> vw_editable w) \<and> r = (\<not> vw_editable w))"

definition page_ok :: "workspace \<Rightarrow> bool" where
  "page_ok s = core_ok (core s)"

lemma page_ok_core: "core t = core s \<Longrightarrow> page_ok t = page_ok s"
  by (simp add: page_ok_def)

lemma page_ok_view:
  "view s = Some v \<Longrightarrow> page_ok s \<Longrightarrow> vw_session w = vw_session v \<Longrightarrow> vw_editable w = vw_editable v \<Longrightarrow>
     vw_latex w = vw_latex v \<Longrightarrow> page_ok (s\<lparr>view := Some w\<rparr>)"
  by (simp add: page_ok_def core_def)

lemma page_ok_highlights: "applyReviewHighlights s = Some t \<Longrightarrow> page_ok s \<Longrightarrow> page_ok t"
  by (auto simp: applyReviewHighlights_def intro: page_ok_view split: option.splits if_splits)

interpretation okr: core_rely "preserves page_ok"
proof
  show "preserves page_ok s t" if "core t = core s" for s t
    using page_ok_core [OF that] by (simp add: preserves_def)
  show "preserves page_ok s t" if "applyReviewHighlights s = Some t" for s t
    using page_ok_highlights [OF that] by (simp add: preserves_def)
qed

text \<open>What a change of a session leaves as it was.\<close>

definition keeps_session :: "(editor_session \<Rightarrow> editor_session) \<Rightarrow> bool" where
  "keeps_session f \<longleftrightarrow> (\<forall>e. es_file (f e) = es_file e \<and> es_editable (f e) = es_editable e \<and> es_latex (f e) = es_latex e \<and>
     ((es_loaded e \<or> es_open e \<longrightarrow> es_alive e) \<longrightarrow> es_loaded (f e) \<or> es_open (f e) \<longrightarrow> es_alive (f e)))"

lemma page_ok_upd_session: "keeps_session f \<Longrightarrow> page_ok s \<Longrightarrow> page_ok (upd_session i f s)"
  by (auto simp: keeps_session_def upd_session_def page_ok_def core_def nth_list_update split: option.splits)

lemma page_ok_loads:
  "page_ok s \<Longrightarrow> es_alive (sessions s ! i) \<Longrightarrow> page_ok (upd_session i (\<lambda>e. e\<lparr>es_loaded := True\<rparr>) s)"
  by (auto simp: upd_session_def page_ok_def core_def nth_list_update split: option.splits)

lemma page_ok_destroyView: "page_ok s \<Longrightarrow> page_ok (destroyEditorView s)"
  by (auto simp: destroyEditorView_def disable_all_def page_ok_def core_def split: option.splits)

lemma page_ok_closeEditor: "page_ok s \<Longrightarrow> page_ok (closeEditor s) \<and> collaboration (closeEditor s) = None"
proof -
  assume "page_ok s"
  then have "page_ok (destroyEditorView s)" by (rule page_ok_destroyView)
  moreover have "page_ok t \<Longrightarrow> page_ok (destroy_session i t)" for i t
    unfolding destroy_session_def by (rule page_ok_upd_session) (simp add: keeps_session_def)
  moreover have "page_ok t \<Longrightarrow> page_ok (t\<lparr>collaboration := None\<rparr>)" for t
    by (simp add: page_ok_def core_def)
  ultimately show ?thesis by (auto simp: closeEditor_def Let_def split: option.split)
qed

lemma page_ok_file:
  "page_ok s \<Longrightarrow> collaboration s = None \<Longrightarrow> page_ok (s\<lparr>cur_file := f\<rparr>)"
  "page_ok s \<Longrightarrow> page_ok (take_detail d s)"
  by (auto simp: page_ok_def core_def take_detail_def split: option.splits)

lemma page_ok_leave: "page_ok s \<Longrightarrow> page_ok (leave_paper p s)"
proof -
  assume "page_ok s"
  then have "page_ok (closeEditor (cancelAutoBuild s))" "collaboration (closeEditor (cancelAutoBuild s)) = None"
    using page_ok_closeEditor [of "cancelAutoBuild s"] by (simp_all add: page_ok_def)
  then show ?thesis by (auto simp: leave_paper_def page_ok_def core_def hide_all_def)
qed

lemma page_ok_show_file: "page_ok s \<Longrightarrow> paperDetail s = None \<Longrightarrow> page_ok (show_file pl s)"
  using page_ok_file(1) [of s "Some (fp_file pl)"]
  by (auto simp: show_file_def page_ok_def core_def hide_def write_label_def split: option.splits)

lemma page_ok_start_session:
  "page_ok s \<Longrightarrow> paperDetail s \<noteq> None \<Longrightarrow> page_ok (start_session p pl (show_file pl s))"
  by (auto simp: start_session_def page_ok_def show_file_def hide_def write_label_def split: option.splits)
    (auto simp: core_def nth_append less_Suc_eq new_session_def split: option.splits)

lemma page_ok_show_binary: "page_ok s \<Longrightarrow> page_ok (show_binary f s)"
proof -
  assume "page_ok s"
  then have "page_ok ((closeEditor s)\<lparr>cur_file := Some f\<rparr>)"
    using page_ok_closeEditor page_ok_file(1) by blast
  moreover have "core (show_binary f s) = core ((closeEditor s)\<lparr>cur_file := Some f\<rparr>)"
    unfolding show_binary_def core_shows by (simp add: core_def)
  ultimately show ?thesis using page_ok_core by blast
qed

lemma page_ok_preview: "moves (preserves page_ok) (preview_file f)"
proof -
  have "page_ok (clear_mount s)" if "page_ok s" for s
    using page_ok_closeEditor [OF that] by (simp add: clear_mount_def page_ok_def)
  then show ?thesis
    unfolding preview_file_def
    by (intro okr.call_moves okr.moves_shown preserving.moves_act) (simp_all add: preserves_def page_ok_show_binary)
qed

lemma page_ok_mount:
  "page_ok s \<Longrightarrow> i < length (sessions s) \<Longrightarrow> (b \<longrightarrow> es_editable (sessions s ! i)) \<Longrightarrow> l = es_latex (sessions s ! i)
     \<Longrightarrow> page_ok (mount_view i b l s)"
  by (auto simp: mount_view_def new_view_def destroyEditorView_def disable_all_def page_ok_def core_def
      split: option.splits)

lemma page_ok_select:
  "select_in_view a h s = Some t \<Longrightarrow> page_ok s \<Longrightarrow> page_ok t"
  "select_location l s = Some t \<Longrightarrow> page_ok s \<Longrightarrow> page_ok t"
  by (auto simp: select_in_view_def select_location_def intro: page_ok_view split: prod.splits option.splits bind_splits)

text \<open>The calls, from the inside out.\<close>

lemma preserves_page_ok: "(\<And>s. page_ok s \<Longrightarrow> page_ok (f s)) \<Longrightarrow> moves (preserves page_ok) (act f)"
  by (rule preserving.moves_act) (simp add: preserves_def)

lemmas ok_moves = okr.call_moves okr.moves_refreshes okr.moves_refreshHistory okr.moves_refreshReviews
  okr.moves_render_reviews okr.moves_in_parallel

lemma moves_show_file:
  "moves (preserves page_ok) (steps [act (show_file pl),
     look (\<lambda>s. case paperDetail s of None \<Rightarrow> throw e | Some d \<Rightarrow> act (start_session (dt_paper d) pl))])"
proof -
  have "paperDetail (show_file pl s) = paperDetail s" for s
    by (simp add: show_file_def hide_def write_label_def)
  then show ?thesis
    by (auto simp: moves_def segment_def async_defs preserves_def page_ok_show_file page_ok_start_session
        split: option.split)
qed

lemma moves_openFile: "moves (preserves page_ok) (openFile f b)"
  unfolding openFile_def
  by (intro ok_moves moves_show_file preserves_page_ok page_ok_preview)
    (use page_ok_closeEditor in blast)

lemma moves_take_detail: "moves (preserves page_ok) (act (take_detail d))"
  by (rule preserves_page_ok) (rule page_ok_file)

lemma moves_openPaper: "moves (preserves page_ok) (openPaper p)"
  unfolding openPaper_def
  by (intro ok_moves moves_openFile moves_take_detail preserves_page_ok page_ok_leave okr.moves_shown;
      (auto intro: ok_moves)?)

lemma moves_reopenPaper: "moves (preserves page_ok) reopenPaper"
  unfolding reopenPaper_def by (intro ok_moves moves_openPaper)

lemma moves_open_unless_current: "moves (preserves page_ok) (open_unless_current f)"
  unfolding open_unless_current_def by (intro ok_moves moves_openFile)

lemma moves_fetch_detail: "moves (preserves page_ok) fetch_detail"
  unfolding fetch_detail_def by (intro ok_moves moves_take_detail)

lemma moves_closeEditor: "moves (preserves page_ok) (act closeEditor)"
  by (rule preserves_page_ok) (use page_ok_closeEditor in blast)

lemma moves_reload: "moves (preserves page_ok) (reloadPaperAndFile i)"
  unfolding reloadPaperAndFile_def
  by (intro ok_moves moves_openFile moves_fetch_detail moves_closeEditor okr.moves_shown) simp

lemma moves_flush: "moves (preserves page_ok) (flush_session i)"
  unfolding flush_session_def by (intro ok_moves okr.moves_shown) simp_all

lemma moves_syncCurrent: "moves (preserves page_ok) (syncCurrent b)"
  unfolding syncCurrent_def by (intro ok_moves moves_flush okr.moves_shown) simp_all

lemma moves_requireDurableFlush: "moves (preserves page_ok) requireDurableFlush"
  unfolding requireDurableFlush_def by (intro ok_moves moves_syncCurrent moves_fetch_detail)

lemma moves_requestBuild: "moves (preserves page_ok) (requestBuild tr)"
  unfolding requestBuild_def
  by (intro ok_moves okr.moves_shown; (auto intro: ok_moves)?)

lemma moves_take_version: "moves (preserves page_ok) (take_version n)"
  unfolding take_version_def by (rule okr.moves_shown) simp

lemmas ok_calls = moves_openFile moves_openPaper moves_reopenPaper moves_open_unless_current moves_reload
  moves_flush moves_syncCurrent moves_requireDurableFlush moves_requestBuild moves_take_version

lemma moves_openLocation: "moves (preserves page_ok) (openLocation i l)"
  unfolding openLocation_def
  by (intro ok_moves ok_calls preserving.moves_try_act) (simp add: preserves_def page_ok_select)

lemma moves_manualCompile: "moves (preserves page_ok) manualCompile"
  unfolding manualCompile_def by (intro ok_moves ok_calls okr.moves_shown) simp

lemma page_ok_delete: "page_ok s \<Longrightarrow> page_ok (closeEditor (s\<lparr>version := n, cur_file := None, conflict := False\<rparr>))"
proof -
  assume s: "page_ok s"
  have "core (closeEditor (s\<lparr>version := n, cur_file := None, conflict := False\<rparr>))
      = core ((closeEditor s)\<lparr>cur_file := None\<rparr>)"
    by (auto simp: core_def closeEditor_def destroyEditorView_def disable_all_def destroy_session_def
        upd_session_def Let_def split: option.split)
  moreover have "page_ok ((closeEditor s)\<lparr>cur_file := None\<rparr>)"
    using page_ok_closeEditor [OF s] page_ok_file(1) by blast
  ultimately show ?thesis using page_ok_core by blast
qed

lemma moves_files:
  "moves (preserves page_ok) (newPaper n)" "moves (preserves page_ok) (newFile n)"
  "moves (preserves page_ok) (renameFile r)" "moves (preserves page_ok) (deleteFile c)"
  "moves (preserves page_ok) setMain" "moves (preserves page_ok) (uploadAsset k ty path)"
  "moves (preserves page_ok) (runStructural redo)"
  unfolding newPaper_def newFile_def renameFile_def deleteFile_def setMain_def uploadAsset_def runStructural_def
  by (intro ok_moves ok_calls preserves_page_ok page_ok_delete; assumption?)+

lemma moves_pdf:
  "moves (preserves page_ok) (runSearch q c)" "moves (preserves page_ok) showInPdf"
  unfolding runSearch_def showInPdf_def show_mapping_def Let_def
  by (intro ok_moves okr.moves_shown; simp)+

lemma moves_posts:
  "moves (preserves page_ok) (writerReply t b)" "moves (preserves page_ok) (set_review_state t st)"
  "moves (preserves page_ok) (writerRejectSuggestion t r)" "moves (preserves page_ok) (rejectRequest q n)"
  "moves (preserves page_ok) (applyRequest q c n)" "moves (preserves page_ok) (revertTeam v c)"
  "moves (preserves page_ok) (requestRevert v n)" "moves (preserves page_ok) (restoreVersion v c)"
  "moves (preserves page_ok) (createCheckpoint name)" "moves (preserves page_ok) sendReview"
  "moves (preserves page_ok) (endReview c)" "moves (preserves page_ok) copyRecovery"
  unfolding writerReply_def set_review_state_def writerRejectSuggestion_def rejectRequest_def applyRequest_def
    revertTeam_def requestRevert_def restoreVersion_def createCheckpoint_def sendReview_def endReview_def
    copyRecovery_def
  by (intro ok_moves ok_calls)+

lemma moves_shown_events:
  "moves (preserves page_ok) (setReviewFilter flt)" "moves (preserves page_ok) (focus_pdf t)"
  "moves (preserves page_ok) (insertPreviewFigure f)"
  unfolding setReviewFilter_def focus_pdf_def insertPreviewFigure_def
  by (intro ok_moves ok_calls okr.moves_shown; simp)+

lemma moves_compareVersions: "moves (preserves page_ok) (compareVersions oc)"
  unfolding compareVersions_def by (cases oc; simp; intro ok_moves okr.moves_shown; simp)

lemma moves_tick: "moves (preserves page_ok) tick"
  unfolding tick_def by (intro ok_moves) (auto intro: ok_moves split: if_splits)

lemma moves_with_ready_range:
  "(\<And>i r. moves (preserves page_ok) (g i r)) \<Longrightarrow> moves (preserves page_ok) (with_ready_range f a g)"
  unfolding with_ready_range_def by (intro ok_moves ok_calls)

lemma moves_focus: "moves (preserves page_ok) (focusWriterReview t)"
  unfolding focusWriterReview_def
  by (intro ok_moves ok_calls moves_shown_events moves_with_ready_range preserving.moves_try_act)
    (simp add: preserves_def page_ok_select)

lemma moves_edit: "moves (preserves page_ok) (act (edit_session i f))"
  unfolding edit_session_def by (intro preserves_page_ok page_ok_upd_session) (simp_all add: keeps_session_def)

lemma moves_accept: "moves (preserves page_ok) (writerAcceptSuggestion t)"
  unfolding writerAcceptSuggestion_def replace_range_def
  by (intro ok_moves ok_calls moves_with_ready_range moves_edit)

lemma page_ok_insert: "page_ok s \<Longrightarrow> insert_text t s = Some u \<Longrightarrow> page_ok u"
proof -
  assume s: "page_ok s" and u: "insert_text t s = Some u"
  have "page_ok (edit_session i f s)" for i f
    unfolding edit_session_def using s by (intro page_ok_upd_session) (simp_all add: keeps_session_def)
  with s u show ?thesis by (auto simp: insert_text_def page_ok_def split: option.splits if_splits)
qed

lemma moves_session_mounts: "moves (preserves page_ok) (session_mounts i)"
proof -
  let ?up = "upd_session i (\<lambda>e. e\<lparr>es_loaded := True\<rparr>)"
  have mount: "page_ok (mount_view i (es_editable (sessions s ! i) \<and> b) (es_latex (sessions s ! i)) (?up s))"
    if "page_ok s" "i < length (sessions s)" "es_alive (sessions s ! i)" for s b
    using that by (intro page_ok_mount page_ok_loads) (simp_all add: upd_session_def)
  then show ?thesis
    using page_ok_highlights [OF _ mount]
    unfolding session_mounts_def mountEditor_def highlight_def try_act_def moves_def segment_def async_defs preserves_def
    by (auto simp: async_defs split: option.split)
qed

lemma page_ok_sessions:
  "page_ok s \<Longrightarrow> page_ok (session_connection i w b s)" "page_ok s \<Longrightarrow> page_ok (session_text i t s)"
  "page_ok s \<Longrightarrow> page_ok (session_superseded i s)" "page_ok s \<Longrightarrow> page_ok (session_refused i m b s)"
proof -
  assume s: "page_ok s"
  then show "page_ok (session_connection i w b s)" "page_ok (session_text i t s)"
    unfolding session_connection_def session_text_def by (intro page_ok_upd_session; simp add: keeps_session_def)+
  have "page_ok (destroy_session i u)" if "page_ok u" for u
    unfolding destroy_session_def using that by (intro page_ok_upd_session) (simp_all add: keeps_session_def)
  then show "page_ok (session_superseded i s)" "page_ok (session_refused i m b s)"
    using s by (simp_all add: session_superseded_def session_refused_def Let_def page_ok_def)
qed

lemma moves_session_acts:
  "moves (preserves page_ok) (try_act (insert_text t))" "moves (preserves page_ok) (act (session_connection i w b))"
  "moves (preserves page_ok) (act (session_text i t))" "moves (preserves page_ok) (act (session_superseded i))"
  "moves (preserves page_ok) (act (session_refused i m b'))"
  by (rule preserving.moves_try_act, simp add: preserves_def page_ok_insert,
      (rule preserves_page_ok, simp add: page_ok_sessions)+)

lemma moves_click: "moves (preserves page_ok) m \<Longrightarrow> moves (preserves page_ok) (click c m)"
  unfolding click_def by (intro ok_moves)

lemma moves_details:
  "moves (preserves page_ok) openDocumentDetails" "moves (preserves page_ok) submitDetails"
  unfolding openDocumentDetails_def take_details_def submitDetails_def saveDetails_def
  by (intro ok_moves ok_calls okr.moves_shown; simp)+

lemma moves_click_control: "moves (preserves page_ok) (click_control name reply confirmed)"
  unfolding click_control_def by (intro ok_moves ok_calls moves_click moves_files moves_posts)

lemma moves_run_action: "moves (preserves page_ok) (run_action a reply confirmed)"
  by (cases a; simp)
    (intro okr.moves_shown moves_session_acts moves_click_control moves_manualCompile moves_files moves_details
      moves_pdf; simp)+

lemma moves_in_dialog: "moves (preserves page_ok) (in_dialog e reply confirmed)"
proof -
  have "moves (preserves page_ok) (shown_event d e reply confirmed)" for d
    by (cases d; simp; intro ok_moves ok_calls moves_run_action okr.moves_shown; simp)
  then show ?thesis unfolding in_dialog_def by (intro ok_moves okr.moves_shown; simp)
qed

lemma moves_builder_insert: "moves (preserves page_ok) builder_insert"
proof -
  have at_end: "page_ok (select_end s)" if "page_ok s" for s
    using that by (auto simp: select_end_def intro: page_ok_view split: option.split)
  have "page_ok u" if s: "page_ok s" and "insert_and_close t s = Some u" for s t u
  proof -
    from that(2) obtain x where "insert_text t s = Some x" "core u = core x"
      by (auto simp: insert_and_close_def split: if_splits)
    then show ?thesis using page_ok_insert [OF s] page_ok_core by blast
  qed
  then have inserted: "moves (preserves page_ok) (try_act (insert_and_close t))" for t
    by (intro preserving.moves_try_act) (simp add: preserves_def)
  have "moves (preserves page_ok) (goto_bibliography t)" for t
    unfolding goto_bibliography_def by (intro ok_moves ok_calls preserves_page_ok at_end)
  then have "moves (preserves page_ok) (insert_from d)" for d
    by (cases d) (auto simp: Let_def intro!: ok_moves inserted)
  then show ?thesis unfolding builder_insert_def by (intro ok_moves)
qed

lemma moves_keydown: "moves (preserves page_ok) (keydown key ctrl shift)"
  unfolding keydown_def by (intro ok_moves okr.moves_shown moves_posts; simp)

lemma handler_page_ok: "moves (preserves page_ok) (handler e)"
  by (cases e)
    (auto simp: writerAddress_def popoverDone_def
      intro!: ok_moves ok_calls moves_openLocation moves_manualCompile moves_files moves_pdf moves_posts
        moves_shown_events moves_compareVersions moves_tick moves_focus moves_accept moves_session_mounts
        moves_session_acts moves_click moves_details moves_in_dialog moves_builder_insert moves_keydown
      intro: okr.moves_shown)

end
