(* ===== verification/WorkspaceCosts.thy ===== *)
theory WorkspaceCosts
  imports WorkspaceLemmas
begin

text \<open>
  How many answers each call of the page needs at most, and which calls cannot reject.
\<close>

section \<open>Answers\<close>

lemma costs_with_paper [costs_intros]: "(\<And>p. costs n (f p)) \<Longrightarrow> costs n (with_paper f)"
  unfolding with_paper_def by (rule costs_weaken, (rule costs_intros)+, assumption, simp)

lemma costs_with_file [costs_intros]: "(\<And>p. costs n (f p)) \<Longrightarrow> costs n (with_file f)"
  unfolding with_file_def by (rule costs_weaken, (rule costs_intros)+, assumption, simp)

lemma costs_notices [costs_intros]: "costs 0 (say m)" "costs 0 (complain e)" "costs 0 (warn m)"
  unfolding say_def complain_def warn_def by (rule costs_intros)+

lemma costs_in_parallel: "list_all2 costs ns ms \<Longrightarrow> costs (sum_list ns) (in_parallel ms)"
proof -
  assume "list_all2 costs ns ms"
  then have "list_all2 prog_costs ns (map (spawn (\<lambda>_. AUnit)) ms)"
    by (induction ns ms rule: list_all2_induct) (simp_all add: costs_spawn)
  from costs_promise_all [OF this] show ?thesis
    unfolding in_parallel_def by - (rule costs_weaken, rule costs_bind, assumption, rule costs_ret, simp)
qed

lemma costs_refreshes [costs_intros]:
  "costs 1 refreshPapers" "costs 1 refreshIntelligence" "costs 1 refreshBuildStatus" "costs 1 refreshReviewRounds"
  "costs 1 refreshReviews" "costs 0 render_reviews"
  unfolding refreshPapers_def refreshIntelligence_def refreshBuildStatus_def refreshReviewRounds_def
    refreshReviews_def render_reviews_def highlight_def
  by (rule costs_weaken, (rule costs_intros)+, simp)+

lemma costs_refreshHistory [costs_intros]: "costs 2 refreshHistory"
proof -
  have "costs (sum_list [1, 1]) (promise_all [spawn id (request a), spawn id (request b)] :: answer list call)" for a b
    by (intro costs_promise_all) (simp add: costs_intros del: One_nat_def)
  moreover have "costs 0 (take_history vs)" for vs
  proof -
    have "costs 0 (show_versions v r)" for v r
      unfolding show_versions_def by (rule costs_weaken, (rule costs_intros)+, simp)
    then show ?thesis
      unfolding take_history_def by (auto intro: costs_intros split: list.split option.split)
  qed
  ultimately show ?thesis
    unfolding refreshHistory_def
    by - (rule costs_weaken, (rule costs_intros | assumption)+, simp)
qed

lemma costs_preview [costs_intros]: "costs 0 (preview_file f)"
  unfolding preview_file_def by (rule costs_weaken, (rule costs_intros)+, simp)

lemma costs_openFile [costs_intros]: "costs 1 (openFile f b)"
  unfolding openFile_def by (rule costs_weaken, (rule costs_intros)+, simp)

lemma costs_openPaper [costs_intros]: "costs 9 (openPaper p)"
proof -
  have "costs (sum_list [1, 2, 1, 1, 1])
      (in_parallel [refreshBuildStatus, refreshHistory, refreshReviews, refreshReviewRounds, refreshIntelligence])"
    by (intro costs_in_parallel) (simp add: costs_intros del: One_nat_def)
  then show ?thesis
    unfolding openPaper_def by - (rule costs_weaken, (rule costs_intros | assumption)+, simp)
qed

lemma costs_openers [costs_intros]:
  "costs 9 reopenPaper" "costs 1 (open_unless_current f)" "costs 1 fetch_detail"
  unfolding reopenPaper_def open_unless_current_def fetch_detail_def
  by (rule costs_weaken, (rule costs_intros)+, simp)+

lemma costs_reload [costs_intros]: "costs 3 (reloadPaperAndFile i)"
  unfolding reloadPaperAndFile_def by (rule costs_weaken, (rule costs_intros)+, simp)

lemma costs_flush [costs_intros]: "costs 1 (flush_session i)"
  unfolding flush_session_def by (rule costs_weaken, (rule costs_intros)+, simp)

lemma costs_sync [costs_intros]: "costs 1 (syncCurrent b)"
  unfolding syncCurrent_def by (rule costs_weaken, (rule costs_intros)+, simp)

lemma costs_durable [costs_intros]: "costs 2 requireDurableFlush"
  unfolding requireDurableFlush_def by (rule costs_weaken, (rule costs_intros)+, simp)

lemma costs_requestBuild [costs_intros]: "costs 4 (requestBuild tr)"
proof -
  have "costs (sum_list [1, 2]) (in_parallel [refreshBuildStatus, refreshHistory])"
    by (intro costs_in_parallel) (simp add: costs_intros del: One_nat_def)
  then show ?thesis
    unfolding requestBuild_def by - (rule costs_weaken, (rule costs_intros | assumption)+, simp)
qed

lemma costs_take_version [costs_intros]: "costs 0 (take_version n)"
  unfolding take_version_def by (rule costs_intros)

lemma costs_openLocation [costs_intros]: "costs 2 (openLocation i l)"
  unfolding openLocation_def by (rule costs_weaken, (rule costs_intros)+, simp)

lemma costs_manualCompile [costs_intros]: "costs 5 manualCompile"
  unfolding manualCompile_def by (rule costs_weaken, (rule costs_intros)+, simp)

lemma costs_files [costs_intros]:
  "costs 11 (newPaper n)" "costs 4 (newFile n)" "costs 6 (renameFile r)" "costs 12 (deleteFile c)"
  "costs 6 setMain" "costs 6 (uploadAsset k ty path)" "costs 11 (runStructural redo)"
  unfolding newPaper_def newFile_def renameFile_def deleteFile_def setMain_def uploadAsset_def runStructural_def
  by (rule costs_weaken, (rule costs_intros)+, simp)+

lemma costs_pdf [costs_intros]: "costs 1 (runSearch q c)" "costs 1 showInPdf"
proof -
  show "costs 1 (runSearch q c)"
    unfolding runSearch_def by (rule costs_weaken, (rule costs_intros)+, simp)
  have "costs 0 (show_mapping m)" for m
    unfolding show_mapping_def by (rule costs_weaken, (rule costs_intros)+, simp)
  then have "costs 1 (let (line, column) = lc in attempt (with_paper (\<lambda>p. bind (fetch (q p line column) as_mapping)
      show_mapping)) complain)" for q and lc :: "nat \<times> nat"
    unfolding Let_def by - (rule costs_weaken, (rule costs_intros | assumption)+, simp)
  then show "costs 1 showInPdf"
    unfolding showInPdf_def
    by (intro costs_look) (auto intro: costs_weaken [OF costs_ret] split: option.split)
qed

lemma costs_posts [costs_intros]:
  "costs 2 (writerReply t b)" "costs 2 (set_review_state t st)" "costs 2 (writerRejectSuggestion t r)"
  "costs 3 (rejectRequest q n)" "costs 10 (applyRequest q c n)" "costs 10 (revertTeam v c)"
  "costs 3 (requestRevert v n)" "costs 10 (restoreVersion v c)" "costs 4 (createCheckpoint name)"
  "costs 3 sendReview" "costs 2 (endReview c)" "costs 1 copyRecovery"
  unfolding writerReply_def set_review_state_def writerRejectSuggestion_def rejectRequest_def applyRequest_def
    revertTeam_def requestRevert_def restoreVersion_def createCheckpoint_def sendReview_def endReview_def
    copyRecovery_def
  by (rule costs_weaken, (rule costs_intros)+, simp)+

lemma costs_shown [costs_intros]:
  "costs 0 (setReviewFilter flt)" "costs 0 (focus_pdf t)" "costs 1 (insertPreviewFigure f)"
  "costs 0 (session_mounts i)"
  unfolding setReviewFilter_def focus_pdf_def insertPreviewFigure_def session_mounts_def mountEditor_def highlight_def
  by (rule costs_weaken, (rule costs_intros)+, simp)+

lemma costs_compareVersions [costs_intros]: "costs 1 (compareVersions oc)"
proof (cases oc)
  case (CompareVersions a b)
  then show ?thesis
    unfolding compareVersions_def by simp (rule costs_weaken, (rule costs_intros)+, simp)
qed (auto simp: compareVersions_def intro: costs_weaken [OF costs_ret] costs_weaken [OF costs_act])

lemma costs_tick [costs_intros]: "costs 2 tick"
proof -
  have "costs (sum_list [1, 1]) (in_parallel [refreshBuildStatus, refreshReviews])"
    "costs (sum_list [1]) (in_parallel [refreshBuildStatus])"
    by (intro costs_in_parallel; simp add: costs_intros del: One_nat_def)+
  then show ?thesis
    unfolding tick_def
    by (intro costs_look) (auto intro: costs_weaken [OF costs_ret] elim: costs_weaken)
qed

lemma costs_with_ready_range [costs_intros]:
  "(\<And>i r. costs n (g i r)) \<Longrightarrow> costs (2 + n) (with_ready_range f a g)"
  unfolding with_ready_range_def by (rule costs_weaken, (rule costs_intros | assumption)+, simp)

lemma costs_focus [costs_intros]: "costs 2 (focusWriterReview t)"
  unfolding focusWriterReview_def by (rule costs_weaken, (rule costs_intros)+, simp)

lemma costs_accept [costs_intros]: "costs 5 (writerAcceptSuggestion t)"
  unfolding writerAcceptSuggestion_def replace_range_def by (rule costs_weaken, (rule costs_intros)+, simp)

lemma costs_click [costs_intros]: "costs n m \<Longrightarrow> costs n (click c m)"
  unfolding click_def by (rule costs_weaken, (rule costs_intros | assumption)+, simp)

lemma costs_details [costs_intros]: "costs 1 openDocumentDetails" "costs 15 submitDetails"
  unfolding openDocumentDetails_def take_details_def submitDetails_def saveDetails_def
  by (rule costs_weaken, (rule costs_intros)+, simp)+

lemma costs_click_control [costs_intros]: "costs 12 (click_control name reply confirmed)"
  unfolding click_control_def by (rule costs_weaken, (rule costs_intros)+, simp)

lemma costs_run_action [costs_intros]: "costs 12 (run_action a reply confirmed)"
  by (cases a; simp only: run_action.simps; rule costs_weaken, (rule costs_intros)+, simp)

lemma costs_in_dialog [costs_intros]: "costs 12 (in_dialog e reply confirmed)"
proof -
  have "costs 12 (shown_event d e reply confirmed)" for d
    by (cases d; simp only: shown_event.simps Let_def; rule costs_weaken, (rule costs_intros)+, simp)
  then show ?thesis
    unfolding in_dialog_def by - (rule costs_weaken, (rule costs_intros | assumption)+, simp)
qed

lemma costs_builder_insert [costs_intros]: "costs 2 builder_insert"
proof -
  have goto: "costs 2 (goto_bibliography t)" for t
    unfolding goto_bibliography_def by (rule costs_weaken, (rule costs_intros)+, simp)
  have "costs 2 (insert_from d)" for d
    by (cases d; simp only: insert_from.simps Let_def; rule costs_weaken, (rule costs_intros goto)+, simp)
  then show ?thesis
    unfolding builder_insert_def by - (rule costs_weaken, (rule costs_intros | assumption)+, simp)
qed

lemma costs_keydown [costs_intros]: "costs 3 (keydown key ctrl shift)"
  unfolding keydown_def by (rule costs_weaken, (rule costs_intros)+, simp)

lemma handler_costs: "costs 15 (handler e)"
  by (cases e; simp only: handler.simps writerAddress_def popoverDone_def;
      rule costs_weaken, (rule costs_intros)+, simp)

section \<open>Rejections\<close>

lemma quiet_basics [quiet_intros]:
  "(\<And>p. calm (f p)) \<Longrightarrow> calm (with_paper f)" "(\<And>p. calm (g p)) \<Longrightarrow> calm (with_file g)"
  "calm (say m)" "calm (complain e)" "calm (warn m)"
  "quietly (say m)" "quietly (complain e)" "quietly (warn m)" "calm (in_parallel ms)"
  unfolding with_paper_def with_file_def say_def complain_def warn_def in_parallel_def
  by (intro quiet_intros; assumption?)+

lemma quietly_in_parallel: "(\<And>m. m \<in> set ms \<Longrightarrow> quietly m) \<Longrightarrow> quietly (in_parallel ms)"
  unfolding in_parallel_def by (intro quiet_intros quietly_promise_all) (auto intro: quiet_spawn)

lemma calm_render_reviews [quiet_intros]: "calm render_reviews"
  unfolding render_reviews_def highlight_def by (intro quiet_intros)

lemma quietly_refreshes:
  "quietly refreshIntelligence" "quietly refreshBuildStatus" "quietly refreshReviewRounds"
  "quietly refreshReviews"
  unfolding refreshIntelligence_def refreshBuildStatus_def refreshReviewRounds_def refreshReviews_def
  by (intro quiet_intros)+

lemma quietly_refreshHistory: "quietly refreshHistory"
proof -
  have "calm (show_versions v r)" for v r
    unfolding show_versions_def by (intro quiet_intros)
  then show ?thesis
    unfolding refreshHistory_def take_history_def
    by (intro quiet_intros) (auto intro: quiet_intros split: list.split option.split)
qed

lemma calm_openFile [quiet_intros]: "calm (openFile f b)"
  unfolding openFile_def preview_file_def by (intro quiet_intros)

lemma calm_openers [quiet_intros]:
  "calm refreshPapers" "calm (openPaper p)" "calm reopenPaper" "calm (open_unless_current f)" "calm fetch_detail"
  "calm (reloadPaperAndFile i)" "calm refreshReviews" "calm refreshReviewRounds" "calm refreshHistory"
  "calm (take_version n)"
  unfolding refreshPapers_def openPaper_def reopenPaper_def open_unless_current_def fetch_detail_def
    reloadPaperAndFile_def take_version_def
  by (intro quiet_intros quietly_refreshes [THEN quietly_calm]
      quietly_refreshHistory [THEN quietly_calm])+

lemma calm_flush [quiet_intros]: "calm (flush_session i)"
  unfolding flush_session_def by (intro quiet_intros)

text \<open>Opening a file reports what goes wrong, unless the file is shown as an image.\<close>

lemma quietly_openFile:
  assumes "\<not> is_raster (fl_path f)"
  shows "quietly (openFile f b)"
proof -
  have "quietly (preview_file f)" unfolding preview_file_def using assms by (simp add: quiet_intros)
  then show ?thesis unfolding openFile_def by (intro quiet_intros)
qed

lemma quietly_open_unless_current: "\<not> is_raster (fl_path f) \<Longrightarrow> quietly (open_unless_current f)"
  unfolding open_unless_current_def by (intro quiet_intros quietly_openFile)

lemma quietly_sync: "quietly (syncCurrent b)"
  unfolding syncCurrent_def by (intro quiet_intros)

lemma quietly_durable: "quietly requireDurableFlush"
  unfolding requireDurableFlush_def by (intro quiet_intros quietly_sync)

lemma quietly_requestBuild: "quietly (requestBuild tr)"
  unfolding requestBuild_def by (intro quiet_intros)

lemma quietly_manualCompile: "quietly manualCompile"
  unfolding manualCompile_def by (intro quiet_intros quietly_sync quietly_requestBuild)

lemma quietly_files:
  "quietly (newPaper n)" "quietly (newFile n)" "quietly setMain" "quietly (uploadAsset k ty path)"
  "quietly (runStructural redo)"
  unfolding newPaper_def newFile_def setMain_def uploadAsset_def runStructural_def
  by (intro quiet_intros quietly_durable quietly_sync quietly_durable [THEN quietly_calm])+

lemma quietly_pdf: "quietly (runSearch q c)" "quietly showInPdf"
proof -
  have m: "calm (show_mapping m)" for m
    unfolding show_mapping_def by (intro quiet_intros)
  show "quietly (runSearch q c)" unfolding runSearch_def by (intro quiet_intros)
  show "quietly showInPdf"
    unfolding showInPdf_def Let_def by (intro quiet_intros m) (auto intro!: quiet_intros m split: option.split prod.split)
qed

lemma quietly_posts:
  "quietly (writerReply t b)" "quietly (set_review_state t st)" "quietly (writerRejectSuggestion t r)"
  "quietly (rejectRequest q n)" "quietly (applyRequest q c n)" "quietly (revertTeam v c)"
  "quietly (requestRevert v n)" "quietly (restoreVersion v c)" "quietly (createCheckpoint name)"
  "quietly sendReview" "quietly (endReview c)" "quietly copyRecovery"
  unfolding writerReply_def set_review_state_def writerRejectSuggestion_def rejectRequest_def applyRequest_def
    revertTeam_def requestRevert_def restoreVersion_def createCheckpoint_def sendReview_def endReview_def
    copyRecovery_def
  by (intro quiet_intros quietly_sync)+

lemma quietly_compare: "quietly (compareVersions oc)"
  unfolding compareVersions_def by (cases oc; simp; intro quiet_intros)

lemma quietly_tick: "quietly tick"
  unfolding tick_def
  by (intro quiet_intros quietly_in_parallel) (auto intro: quietly_refreshes split: if_splits)

lemma quietly_accept: "quietly (writerAcceptSuggestion t)"
  unfolding writerAcceptSuggestion_def replace_range_def with_ready_range_def
  by (intro quiet_intros)

lemma quietly_click: "quietly m \<Longrightarrow> quietly (click c m)"
  unfolding click_def by (intro quiet_intros)

lemma calm_take_details [quiet_intros]: "calm (take_details d)"
  unfolding take_details_def by (intro quiet_intros)

lemma quietly_details: "quietly openDocumentDetails" "quietly submitDetails"
  unfolding openDocumentDetails_def submitDetails_def saveDetails_def
  by (intro quiet_intros quietly_sync [THEN quietly_calm] quietly_requestBuild [THEN quietly_calm])+

lemma quietly_keydown: "quietly (keydown key ctrl shift)"
  unfolding keydown_def by (intro quiet_intros quietly_posts)

text \<open>Only the return key and a click choose an item of a palette.\<close>

definition chooses :: "palette_event \<Rightarrow> bool" where
  "chooses e = (case e of Enter \<Rightarrow> True | ClickItem k \<Rightarrow> True | _ \<Rightarrow> False)"

lemma nothing_chosen:
  assumes "\<not> chooses e"
  shows "snd (palette_event e p) = None" "snd (quick_event loc fs e q) = None"
  using assms by (cases e; simp add: chooses_def palette_event_def quick_event_def)+

lemma quietly_dialog: "\<not> chooses e \<Longrightarrow> quietly (in_dialog e reply confirmed)"
proof -
  assume e: "\<not> chooses e"
  have "quietly (shown_event d e reply confirmed)" for d
    by (cases d) (auto simp: Let_def split_beta nothing_chosen [OF e] intro!: quiet_intros)
  then show ?thesis unfolding in_dialog_def by (intro quiet_intros)
qed

text \<open>
  The events whose call may end in a rejection that nothing catches: opening a paper; opening a file as an image;
  inserting a figure of a preview; going to a place of a file; renaming and deleting when no file is current; highlights
  that do not decode, after a filter of reviews or when an editor is mounted; items of palettes, which run all of these;
  and insertions.
\<close>

fun may_reject :: "ui_event \<Rightarrow> bool" where
  "may_reject (ClickPaper p) = True"
| "may_reject ReopenTimer = True"
| "may_reject (ClickFile f) = is_raster (fl_path f)"
| "may_reject (ClickInsertFigure f) = True"
| "may_reject (GoTo i l) = True"
| "may_reject (ClickRename r) = True"
| "may_reject (ClickDelete c) = True"
| "may_reject (ClickFocus t) = True"
| "may_reject (ClickFilter f) = (f \<noteq> [])"
| "may_reject (SessionMounts i) = True"
| "may_reject (DialogEvent e reply confirmed) = chooses e"
| "may_reject (InsertText t) = True"
| "may_reject BuilderInsert = True"
| "may_reject (FileMenu f) = is_raster (fl_path f)"
| "may_reject e = False"

lemma handler_quiet: "\<not> may_reject e \<Longrightarrow> quietly (handler e)"
  by (cases e)
    (auto simp: writerAddress_def popoverDone_def setReviewFilter_def
      intro!: quiet_intros quietly_refreshes quietly_sync quietly_manualCompile quietly_requestBuild
        quietly_files quietly_pdf quietly_posts quietly_compare quietly_tick quietly_accept
        quietly_click quietly_details quietly_keydown quietly_openFile quietly_open_unless_current quietly_dialog)

end
