(* ===== verification/WorkspaceSessions.thy ===== *)
theory WorkspaceSessions
  imports WorkspaceCosts
begin

text \<open>
  Which editing sessions are alive. A call on its own leaves no live session but the current one, whatever
  the server answers and whatever the sessions and the refreshes do meanwhile; two calls that overlap can.
\<close>

section \<open>Live sessions\<close>

definition liveness :: "workspace \<Rightarrow> nat option \<times> bool list" where
  "liveness s = (collaboration s, map es_alive (sessions s))"

definition only_current :: "workspace \<Rightarrow> bool" where
  "only_current s \<longleftrightarrow> (\<forall>i<length (sessions s). es_alive (sessions s ! i) \<longrightarrow> collaboration s = Some i)"

definition none_alive :: "workspace \<Rightarrow> bool" where
  "none_alive s \<longleftrightarrow> collaboration s = None \<and> (\<forall>e\<in>set (sessions s). \<not> es_alive e)"

lemma liveness_core: "core t = core s \<Longrightarrow> liveness t = liveness s"
  by (simp add: core_def liveness_def)

lemma only_current_by_liveness:
  "only_current s \<longleftrightarrow> (\<forall>i<length (snd (liveness s)). snd (liveness s) ! i \<longrightarrow> fst (liveness s) = Some i)"
  by (simp add: only_current_def liveness_def)

lemma only_current_liveness: "liveness t = liveness s \<Longrightarrow> only_current t = only_current s"
  by (simp add: only_current_by_liveness)

lemma none_alive_liveness: "liveness t = liveness s \<Longrightarrow> none_alive t = none_alive s"
proof -
  have "none_alive u \<longleftrightarrow> fst (liveness u) = None \<and> True \<notin> set (snd (liveness u))" for u
    by (auto simp: none_alive_def liveness_def)
  then show "liveness t = liveness s \<Longrightarrow> none_alive t = none_alive s" by simp
qed

lemma none_only: "none_alive s \<Longrightarrow> only_current s"
  by (simp add: none_alive_def only_current_def)

lemma liveness_highlights: "applyReviewHighlights s = Some t \<Longrightarrow> liveness t = liveness s"
  by (auto simp: applyReviewHighlights_def liveness_def split: option.splits if_splits)

lemma liveness_data [simp]:
  "liveness (take_detail d s) = liveness s" "liveness (s\<lparr>files := fs\<rparr>) = liveness s"
  "liveness (show_files s) = liveness s"
  by (simp_all add: liveness_def take_detail_def show_files_def)

interpretation live: core_rely "agrees liveness"
proof
  show "agrees liveness s t" if "core t = core s" for s t
    using liveness_core [OF that] by (simp add: agrees_def)
  show "agrees liveness s t" if "applyReviewHighlights s = Some t" for s t
    using liveness_highlights [OF that] by (simp add: agrees_def)
qed

lemma liveness_upd_session:
  "(\<And>e. es_alive (f e) = es_alive e) \<Longrightarrow> liveness (upd_session i f s) = liveness s"
  by (auto simp: upd_session_def liveness_def intro!: nth_equalityI simp: nth_list_update split: if_split_asm)

lemma none_alive_close: "only_current s \<Longrightarrow> none_alive (closeEditor s)"
  by (auto simp: only_current_def none_alive_def all_set_conv_all_nth closeEditor_def destroyEditorView_def
      disable_all_def destroy_session_def upd_session_def Let_def nth_list_update split: option.split)

lemma none_alive_core: "none_alive s \<Longrightarrow> core t = core s \<Longrightarrow> none_alive t"
  using none_alive_liveness liveness_core by blast

lemma only_current_core: "only_current s \<Longrightarrow> core t = core s \<Longrightarrow> only_current t"
  using only_current_liveness liveness_core by blast

lemma none_alive_leave: "only_current s \<Longrightarrow> none_alive (leave_paper p s)"
proof -
  assume "only_current s"
  then have "none_alive (closeEditor (cancelAutoBuild s))"
    by (intro none_alive_close) (rule only_current_core, simp_all)
  then show ?thesis by (simp add: leave_paper_def none_alive_def hide_all_def)
qed

lemma only_current_start: "none_alive s \<Longrightarrow> only_current (start_session p pl s)"
proof -
  assume *: "none_alive s"
  have "core (start_session p pl s)
      = core (s\<lparr>sessions := sessions s @ [new_session p pl], collaboration := Some (length (sessions s))\<rparr>)"
    by (simp add: start_session_def)
  moreover have "only_current (s\<lparr>sessions := sessions s @ [new_session p pl],
      collaboration := Some (length (sessions s))\<rparr>)"
    using * by (auto simp: none_alive_def only_current_def nth_append less_Suc_eq_le)
  ultimately show ?thesis using only_current_core by metis
qed

section \<open>What one call leaves\<close>

abbreviation while_others ::
  "(workspace \<Rightarrow> bool) \<Rightarrow> 'r call \<Rightarrow> ('r \<Rightarrow> workspace \<Rightarrow> bool) \<Rightarrow> (api_error \<Rightarrow> workspace \<Rightarrow> bool) \<Rightarrow> bool" where
  "while_others \<equiv> achieves (agrees liveness)"

definition keeps :: "'r call \<Rightarrow> bool" where
  "keeps m \<longleftrightarrow> while_others only_current m (\<lambda>_. only_current) (\<lambda>_. only_current)"

named_theorems keeps_intros "calls that leave only the current session alive"

lemma keeps_ret [keeps_intros]: "keeps (ret x)"
  unfolding keeps_def by (rule achieves_ret)

lemma keeps_throw [keeps_intros]: "keeps (throw e)"
  unfolding keeps_def by (rule achieves_throw)

lemma keeps_act: "(\<And>s. only_current s \<Longrightarrow> only_current (f s)) \<Longrightarrow> keeps (act f)"
  unfolding keeps_def by (rule achieves_act)

lemma keeps_same: "(\<And>s. liveness (f s) = liveness s) \<Longrightarrow> keeps (act f)"
  by (rule keeps_act) (use only_current_liveness in blast)

lemma keeps_shown: "(\<And>s. core (f s) = core s) \<Longrightarrow> keeps (act f)"
  by (rule keeps_same) (rule liveness_core)

lemma keeps_request [keeps_intros]: "keeps (request q)"
  unfolding keeps_def by (rule achieves_request) (auto simp: agrees_def dest: only_current_liveness)

lemma keeps_bind [keeps_intros]: "keeps m \<Longrightarrow> (\<And>x. keeps (f x)) \<Longrightarrow> keeps (bind m f)"
  unfolding keeps_def by (rule achieves_bind)

lemma keeps_attempt [keeps_intros]: "keeps m \<Longrightarrow> (\<And>e. keeps (f e)) \<Longrightarrow> keeps (attempt m f)"
  unfolding keeps_def by (rule achieves_attempt)

lemma keeps_look [keeps_intros]: "(\<And>s. keeps (f s)) \<Longrightarrow> keeps (look f)"
  unfolding keeps_def by (rule achieves_look) (auto intro: achieves_pre)

lemma keeps_if [keeps_intros]: "keeps m \<Longrightarrow> keeps m' \<Longrightarrow> keeps (if b then m else m')"
  by simp

lemma keeps_option [keeps_intros]:
  "keeps m \<Longrightarrow> (\<And>x. keeps (f x)) \<Longrightarrow> keeps (case v of None \<Rightarrow> m | Some x \<Rightarrow> f x)"
  by (cases v) simp_all

lemma keeps_prod [keeps_intros]: "(\<And>x y. keeps (f x y)) \<Longrightarrow> keeps (case v of (x, y) \<Rightarrow> f x y)"
  by (cases v) simp

lemma keeps_steps [keeps_intros]: "keeps (steps [])" "keeps m \<Longrightarrow> keeps (steps ms) \<Longrightarrow> keeps (steps (m # ms))"
  unfolding keeps_def by (rule achieves_steps; simp)+

lemma keeps_promise_all:
  "(\<And>p. p \<in> set ps \<Longrightarrow> segment (agrees liveness) p) \<Longrightarrow> keeps (promise_all ps)"
  unfolding keeps_def
  by (rule agreeing.achieves_promise_all) (auto simp: agrees_def dest: only_current_liveness)

text \<open>What moves no session keeps them.\<close>

lemma keeps_try_act: "(\<And>s t. f s = Some t \<Longrightarrow> liveness t = liveness s) \<Longrightarrow> keeps (try_act f)"
  unfolding try_act_def keeps_def
  by (rule achieves_look)
    (auto intro!: achieves_throw achieves_act split: option.split dest: only_current_liveness)

lemma keeps_basics [keeps_intros]:
  "keeps (fetch q x)" "keeps (post q)" "keeps (say m)" "keeps (complain e)" "keeps (warn m)" "keeps (take_version n)"
  unfolding fetch_def post_def say_def complain_def warn_def take_version_def
  by (intro keeps_intros keeps_shown; simp)+

lemma keeps_with [keeps_intros]:
  "(\<And>p. keeps (f p)) \<Longrightarrow> keeps (with_paper f)" "(\<And>x. keeps (g x)) \<Longrightarrow> keeps (with_file g)"
  unfolding with_paper_def with_file_def by (intro keeps_intros; assumption)+

lemma keeps_in_parallel:
  "(\<And>m. m \<in> set ms \<Longrightarrow> moves (agrees liveness) m) \<Longrightarrow> keeps (in_parallel ms)"
  unfolding in_parallel_def
  by (intro keeps_intros keeps_promise_all) (auto intro: agreeing.segment_spawn)

lemma keeps_refreshes [keeps_intros]:
  "keeps refreshPapers" "keeps refreshIntelligence" "keeps refreshBuildStatus" "keeps refreshReviewRounds"
  unfolding refreshPapers_def refreshIntelligence_def refreshBuildStatus_def refreshReviewRounds_def
  by (intro keeps_intros keeps_shown; simp)+

lemma keeps_refreshHistory [keeps_intros]: "keeps refreshHistory"
proof -
  have "keeps (show_versions v r)" for v r
    unfolding show_versions_def by (intro keeps_intros keeps_shown; simp)
  then show ?thesis
    unfolding refreshHistory_def take_history_def
    by (intro keeps_intros keeps_promise_all)
      (auto intro!: agreeing.segment_spawn agreeing.moves_request keeps_intros split: list.split option.split)
qed

lemma keeps_render_reviews [keeps_intros]: "keeps render_reviews"
  unfolding render_reviews_def highlight_def
  by (intro keeps_intros keeps_shown keeps_try_act) (simp_all add: liveness_highlights)

lemma keeps_refreshReviews [keeps_intros]: "keeps refreshReviews"
  unfolding refreshReviews_def by (intro keeps_intros keeps_shown) simp_all

text \<open>Opening a file starts from a page with no live session: after \<open>closeEditor\<close>.\<close>

lemma none_alive_request: "while_others none_alive (request q) (\<lambda>_. none_alive) (\<lambda>_. none_alive)"
  by (rule achieves_request) (auto simp: agrees_def dest: none_alive_liveness)

lemma none_alive_fetch: "while_others none_alive (fetch q x) (\<lambda>_. none_alive) (\<lambda>_. none_alive)"
  unfolding fetch_def
  by (rule achieves_bind [OF none_alive_request]) (auto intro: achieves_ret achieves_throw split: option.split)

lemma none_alive_same: "(\<And>s. liveness (f s) = liveness s) \<Longrightarrow> while_others none_alive (act f) (\<lambda>_. none_alive) E"
  by (rule achieves_act) (use none_alive_liveness in blast)

lemma none_alive_shown: "(\<And>s. core (f s) = core s) \<Longrightarrow> while_others none_alive (act f) (\<lambda>_. none_alive) E"
  by (rule none_alive_same) (rule liveness_core)

lemma none_alive_with_paper:
  "(\<And>p. while_others none_alive (f p) Q (\<lambda>_. none_alive)) \<Longrightarrow> while_others none_alive (with_paper f) Q (\<lambda>_. none_alive)"
  unfolding with_paper_def
  by (rule achieves_look, rule achieves_option) (auto intro: achieves_throw achieves_pre)

lemma none_alive_weaken: "while_others none_alive m Q (\<lambda>_. none_alive) \<Longrightarrow> while_others none_alive m Q (\<lambda>_. only_current)"
  unfolding achieves_def using none_only by blast

lemma none_alive_preview: "while_others none_alive (preview_file f) (\<lambda>_. none_alive) (\<lambda>_. none_alive)"
proof -
  have "none_alive (clear_mount s)" "none_alive (show_binary f s)" if "none_alive s" for s
  proof -
    have close: "none_alive (closeEditor s)" using none_alive_close none_only that by blast
    then show "none_alive (clear_mount s)" by (simp add: clear_mount_def none_alive_def)
    from close have "none_alive ((closeEditor s)\<lparr>cur_file := Some f\<rparr>)" by (simp add: none_alive_def)
    moreover have "core (show_binary f s) = core ((closeEditor s)\<lparr>cur_file := Some f\<rparr>)"
      unfolding show_binary_def core_shows by (simp add: core_def)
    ultimately show "none_alive (show_binary f s)" by (rule none_alive_core)
  qed
  moreover have "while_others none_alive (throw type_error) (\<lambda>_. none_alive) (\<lambda>_. none_alive)"
    by (rule achieves_throw) assumption
  ultimately have "while_others none_alive (act (show_binary f)) (\<lambda>_. none_alive) (\<lambda>_. none_alive)"
    "while_others none_alive (steps [act clear_mount, throw type_error]) (\<lambda>_. none_alive) (\<lambda>_. none_alive)"
    by (blast intro: achieves_act, blast intro: achieves_act achieves_steps)
  then show ?thesis
    unfolding preview_file_def by - (rule achieves_look, auto intro: achieves_pre)
qed

lemma opened_file: "while_others none_alive (openFile f True) (\<lambda>_. only_current) (\<lambda>_. only_current)"
proof -
  have start: "while_others none_alive (look (\<lambda>s. case paperDetail s of None \<Rightarrow> throw e
      | Some d \<Rightarrow> act (start_session (dt_paper d) pl))) (\<lambda>_. only_current) (\<lambda>_. none_alive)" for e pl
    by (rule achieves_look, rule achieves_option)
      (auto intro!: achieves_throw achieves_act simp: only_current_start)
  have show_f: "while_others none_alive (act (show_file pl)) (\<lambda>_. none_alive) E" for pl E
    by (rule achieves_act)
      (auto simp: none_alive_def show_file_def hide_def write_label_def)
  have "while_others none_alive (with_paper (\<lambda>p. bind (fetch (Api (FileContent (paper_id p) (fl_id f))) as_file) (\<lambda>pl.
      steps [act (show_file pl), look (\<lambda>s. case paperDetail s of None \<Rightarrow> throw type_error
        | Some d \<Rightarrow> act (start_session (dt_paper d) pl))]))) (\<lambda>_. only_current) (\<lambda>_. none_alive)"
    by (intro none_alive_with_paper achieves_bind [OF none_alive_fetch] achieves_steps(2) [OF show_f]
        achieves_steps(2) [OF start] achieves_steps(1))
  moreover have "while_others none_alive (steps [if b then preview_file f else ret (), complain e])
      (\<lambda>_. only_current) (\<lambda>_. only_current)" for b e
  proof -
    have "while_others none_alive (if b then preview_file f else ret ()) (\<lambda>_. none_alive) (\<lambda>_. only_current)"
      using none_alive_weaken [OF none_alive_preview] by (auto intro: achieves_ret)
    moreover have "while_others none_alive (complain e) (\<lambda>_. only_current) E" for E
      unfolding complain_def by (rule achieves_act) (auto dest!: none_only intro: only_current_core)
    ultimately show ?thesis by (intro achieves_steps(2) achieves_steps(1); assumption?)
  qed
  ultimately have main: "while_others none_alive (attempt
      (with_paper (\<lambda>p. bind (fetch (Api (FileContent (paper_id p) (fl_id f))) as_file) (\<lambda>pl.
         steps [act (show_file pl), look (\<lambda>s. case paperDetail s of None \<Rightarrow> throw type_error
           | Some d \<Rightarrow> act (start_session (dt_paper d) pl))])))
      (\<lambda>e. steps [if err_status e = 415 then preview_file f else ret (), complain e]))
      (\<lambda>_. only_current) (\<lambda>_. only_current)"
    by (rule achieves_attempt)
  show ?thesis
    unfolding openFile_def if_True
  proof (rule achieves_bind [where A = "\<lambda>_. none_alive"])
    show "while_others none_alive (ret ()) (\<lambda>_. none_alive) (\<lambda>_. only_current)" by (rule achieves_ret)
  qed (rule main)
qed

lemma keeps_openFile [keeps_intros]: "keeps (openFile f False)"
proof -
  have "openFile f False = bind (act closeEditor) (\<lambda>_. openFile f True)"
    by (simp add: openFile_def bind_def ret_def)
  moreover have "while_others only_current (act closeEditor) (\<lambda>_. none_alive) E" for E
    by (rule achieves_act) (rule none_alive_close)
  ultimately show ?thesis
    unfolding keeps_def by (auto intro: achieves_bind opened_file)
qed

lemma keeps_initial: "while_others none_alive
    (look (\<lambda>s. case h s of None \<Rightarrow> ret () | Some f \<Rightarrow> openFile f True)) (\<lambda>_. only_current) (\<lambda>_. only_current)"
  by (rule achieves_look, rule achieves_option)
    (auto intro!: achieves_ret achieves_pre [OF opened_file] simp: none_only)

lemma keeps_openPaper [keeps_intros]: "keeps (openPaper po)"
proof -
  have leave: "while_others only_current (act (leave_paper po)) (\<lambda>_. none_alive) E" for E
    by (rule achieves_act) (rule none_alive_leave)
  have data: "while_others none_alive (bind (fetch q x) (\<lambda>d. act (f d))) (\<lambda>_. none_alive) (\<lambda>_. only_current)"
    if "\<And>d s. liveness (f d s) = liveness s" for q and x :: "answer \<Rightarrow> 'x option" and f
    by (rule none_alive_weaken, rule achieves_bind [OF none_alive_fetch], rule none_alive_same, rule that)
  have refreshes: "while_others only_current
      (in_parallel [refreshBuildStatus, refreshHistory, refreshReviews, refreshReviewRounds, refreshIntelligence])
      (\<lambda>_. only_current) (\<lambda>_. only_current)"
    using keeps_in_parallel live.moves_refreshes live.moves_refreshHistory live.moves_refreshReviews
    unfolding keeps_def by (metis (no_types, lifting) empty_iff empty_set set_ConsD)
  have rest: "while_others none_alive (steps
     [bind (fetch (Api (Paper (paper_id p))) as_detail)
        (\<lambda>d. act (take_detail d)),
      bind (fetch (Api (Files (paper_id p))) as_files) (\<lambda>fs. act (\<lambda>s. s\<lparr>files := fs\<rparr>)),
      act (show_paper p),
      look (\<lambda>s. case initial_file s of None \<Rightarrow> ret () | Some f \<Rightarrow> openFile f True),
      in_parallel [refreshBuildStatus, refreshHistory, refreshReviews, refreshReviewRounds, refreshIntelligence]])
     (\<lambda>_. only_current) (\<lambda>_. only_current)" for p
    by (rule achieves_steps(2) [OF data] achieves_steps(2) [OF none_alive_shown]
        achieves_steps(2) [OF keeps_initial] achieves_steps(2) [OF refreshes] achieves_steps(1) | simp)+
  have "while_others none_alive (throw e) (\<lambda>_. only_current) (\<lambda>_. only_current)" for e
    by (rule achieves_throw) (rule none_only)
  with rest show ?thesis
    unfolding keeps_def openPaper_def by (intro achieves_bind [OF leave] achieves_option; assumption?)
qed

lemma keeps_closeEditor [keeps_intros]: "keeps (act closeEditor)"
  by (rule keeps_act) (rule none_only [OF none_alive_close])

lemma keeps_openers [keeps_intros]:
  "keeps reopenPaper" "keeps (open_unless_current f)" "keeps fetch_detail"
  unfolding reopenPaper_def open_unless_current_def fetch_detail_def
  by (intro keeps_intros keeps_same; simp)+

text \<open>After \<open>closeEditor\<close> no session is alive until \<open>openFile\<close> has its answer.\<close>

lemma keeps_reload [keeps_intros]: "keeps (reloadPaperAndFile i)"
proof -
  have close: "while_others only_current (act closeEditor) (\<lambda>_. none_alive) E" for E
    by (rule achieves_act) (rule none_alive_close)
  have data: "while_others none_alive (with_paper (\<lambda>p. bind (fetch (q p) x) (\<lambda>d. act (f d))))
      (\<lambda>_. none_alive) (\<lambda>_. only_current)"
    if "\<And>d s. liveness (f d s) = liveness s" for q and x :: "answer \<Rightarrow> 'x option" and f
    by (rule none_alive_weaken, rule none_alive_with_paper, rule achieves_bind [OF none_alive_fetch],
        rule none_alive_same, rule that)
  show ?thesis
    unfolding keeps_def reloadPaperAndFile_def fetch_detail_def
    by (rule achieves_steps(2) [OF close] achieves_steps(2) [OF data] achieves_steps(2) [OF keeps_initial]
        achieves_steps(1) | simp)+
qed

lemma keeps_saving [keeps_intros]:
  "keeps (flush_session i)" "keeps (syncCurrent b)" "keeps requireDurableFlush"
proof -
  show f: "keeps (flush_session i)" for i
    unfolding flush_session_def by (intro keeps_intros keeps_shown; simp)
  show s: "keeps (syncCurrent b)" for b
    unfolding syncCurrent_def by (intro keeps_intros keeps_shown f; simp)
  show "keeps requireDurableFlush"
    unfolding requireDurableFlush_def by (intro keeps_intros s)
qed

lemma keeps_requestBuild [keeps_intros]: "keeps (requestBuild tr)"
  unfolding requestBuild_def
  by (intro keeps_intros keeps_shown keeps_in_parallel;
      (auto intro: live.moves_refreshes live.moves_refreshHistory)?)

lemma keeps_try_select:
  "keeps (try_act (select_in_view a h))" "keeps (try_act (select_location l))"
  by (rule keeps_try_act, auto simp: select_in_view_def select_location_def liveness_def
      split: prod.splits bind_splits)+

lemma keeps_delete: "keeps (act (\<lambda>s. closeEditor (s\<lparr>version := n, cur_file := None, conflict := False\<rparr>)))"
  by (rule keeps_act, rule none_only, rule none_alive_close) (simp add: only_current_def)

lemma keeps_files [keeps_intros]:
  "keeps (openLocation i l)" "keeps manualCompile"
  "keeps (newPaper n)" "keeps (newFile n)" "keeps (renameFile r)" "keeps (deleteFile c)" "keeps setMain"
  "keeps (uploadAsset k ty path)" "keeps (runStructural redo)" "keeps (runSearch q c)"
  unfolding openLocation_def manualCompile_def newPaper_def newFile_def renameFile_def deleteFile_def setMain_def
    uploadAsset_def runStructural_def runSearch_def
  by (intro keeps_intros keeps_delete keeps_try_select keeps_shown; simp)+

lemma keeps_showInPdf [keeps_intros]: "keeps showInPdf"
  unfolding showInPdf_def show_mapping_def Let_def by (intro keeps_intros keeps_shown; simp)

lemma keeps_posts [keeps_intros]:
  "keeps (writerReply t b)" "keeps (set_review_state t st)" "keeps (writerRejectSuggestion t r)"
  "keeps (rejectRequest q n)" "keeps (applyRequest q c n)" "keeps (revertTeam v c)" "keeps (requestRevert v n)"
  "keeps (restoreVersion v c)" "keeps (createCheckpoint name)" "keeps sendReview" "keeps (endReview c)"
  "keeps copyRecovery" "keeps (setReviewFilter flt)" "keeps (focus_pdf t)" "keeps (insertPreviewFigure f)"
  unfolding writerReply_def set_review_state_def writerRejectSuggestion_def rejectRequest_def applyRequest_def
    revertTeam_def requestRevert_def restoreVersion_def createCheckpoint_def sendReview_def endReview_def
    copyRecovery_def setReviewFilter_def focus_pdf_def insertPreviewFigure_def
  by (intro keeps_intros keeps_shown; simp)+

lemma keeps_compare [keeps_intros]: "keeps (compareVersions oc)"
  unfolding compareVersions_def by (cases oc; simp; intro keeps_intros keeps_shown; simp)

lemma keeps_tick [keeps_intros]: "keeps tick"
  unfolding tick_def
  by (intro keeps_intros keeps_in_parallel)
    (auto intro: live.moves_refreshes live.moves_refreshReviews split: if_splits)

lemma keeps_session_edit: "(\<And>e. es_alive (f e) = es_alive e) \<Longrightarrow> keeps (act (upd_session i f))"
  by (rule keeps_act) (use only_current_liveness liveness_upd_session in blast)

lemma keeps_reviews [keeps_intros]: "keeps (focusWriterReview t)" "keeps (writerAcceptSuggestion t)"
proof -
  have "keeps (act (edit_session i f))" for i f
    unfolding edit_session_def by (rule keeps_session_edit) simp
  then show "keeps (focusWriterReview t)" "keeps (writerAcceptSuggestion t)"
    unfolding focusWriterReview_def writerAcceptSuggestion_def with_ready_range_def replace_range_def
    by (intro keeps_intros keeps_try_select; assumption?)+
qed

lemma keeps_session_mounts [keeps_intros]: "keeps (session_mounts i)"
proof -
  have "liveness (mount_view i b l s) = liveness s" for s b l
    by (simp add: mount_view_def destroyEditorView_def disable_all_def liveness_def)
  then have "keeps (mountEditor i b l)" for b l
    unfolding mountEditor_def highlight_def
    by (intro keeps_intros keeps_same keeps_try_act) (simp_all add: liveness_highlights)
  then show ?thesis
    unfolding session_mounts_def by (intro keeps_intros keeps_session_edit) simp_all
qed

lemma liveness_insert: "insert_text t s = Some u \<Longrightarrow> liveness u = liveness s"
proof -
  assume u: "insert_text t s = Some u"
  have "liveness (edit_session i f s) = liveness s" for i f s
    unfolding edit_session_def by (rule liveness_upd_session) simp
  moreover have "liveness (scheduleIntelligence s) = liveness s" "liveness (notice m b s) = liveness s" for s m b
    by (rule liveness_core, simp)+
  ultimately show ?thesis
    using u unfolding insert_text_def by (auto split: option.splits if_splits)
qed

lemma keeps_session_acts:
  "keeps (try_act (insert_text t))" "keeps (act (session_connection i w b))" "keeps (act (session_text i t))"
  "keeps (act (session_superseded i))" "keeps (act (session_refused i m b'))"
proof -
  show "keeps (act (session_connection i w b))" "keeps (act (session_text i t))"
    unfolding session_connection_def session_text_def by (rule keeps_session_edit; simp)+
  show "keeps (try_act (insert_text t))"
    by (intro keeps_try_act) (rule liveness_insert)
  have "only_current (destroy_session i s)" if "only_current s" for s
    using that by (auto simp: only_current_def destroy_session_def upd_session_def nth_list_update
        split: if_split_asm)
  moreover have "only_current (notice m True (saveState Conflict
      (s\<lparr>recoveryText := r, copyRecoveryHidden := h, conflict := True\<rparr>)))" if "only_current s" for s m r h
    using that by (rule only_current_core) simp
  moreover have "only_current (notice m True (saveState Conflict (s\<lparr>conflict := True\<rparr>)))" if "only_current s" for s m
    using that by (rule only_current_core) simp
  ultimately show "keeps (act (session_superseded i))" "keeps (act (session_refused i m b'))"
    by (intro keeps_act; simp add: session_superseded_def session_refused_def Let_def)+
qed

lemma keeps_click [keeps_intros]: "keeps m \<Longrightarrow> keeps (click c m)"
  unfolding click_def by (intro keeps_intros)

lemma keeps_details [keeps_intros]: "keeps openDocumentDetails" "keeps submitDetails"
proof -
  have "keeps (take_details d)" for d
    unfolding take_details_def by (intro keeps_intros keeps_shown; simp)
  then show "keeps openDocumentDetails" "keeps submitDetails"
    unfolding openDocumentDetails_def submitDetails_def saveDetails_def take_version_def
    by (intro keeps_intros keeps_shown; simp)+
qed

lemma keeps_click_control [keeps_intros]: "keeps (click_control name reply confirmed)"
  unfolding click_control_def by (intro keeps_intros)

lemma keeps_run_action [keeps_intros]: "keeps (run_action a reply confirmed)"
  by (cases a; simp only: run_action.simps; intro keeps_intros keeps_session_acts keeps_shown; simp)

lemma keeps_in_dialog [keeps_intros]: "keeps (in_dialog e reply confirmed)"
proof -
  have "keeps (shown_event d e reply confirmed)" for d
    by (cases d; simp only: shown_event.simps Let_def; intro keeps_intros keeps_shown; simp)
  then show ?thesis unfolding in_dialog_def by (intro keeps_intros keeps_shown; simp)
qed

lemma keeps_builder_insert [keeps_intros]: "keeps builder_insert"
proof -
  have "liveness (select_end s) = liveness s" for s
    by (simp add: select_end_def liveness_def split: option.split)
  then have "keeps (act select_end)"
    by (intro keeps_act) (use only_current_liveness in blast)
  moreover have "liveness (s\<lparr>dialog := x\<rparr>) = liveness s" for s x
    by (rule liveness_core) simp
  then have "liveness u = liveness s" if "insert_and_close t s = Some u" for t s u
    using that by (auto simp: insert_and_close_def dest!: liveness_insert split: if_splits)
  then have "keeps (try_act (insert_and_close t))" for t
    by (intro keeps_try_act)
  ultimately have "keeps (insert_from d)" for d
    by (cases d) (auto simp: Let_def goto_bibliography_def intro!: keeps_intros)
  then show ?thesis unfolding builder_insert_def by (intro keeps_intros)
qed

lemma keeps_keydown [keeps_intros]: "keeps (keydown key ctrl shift)"
  unfolding keydown_def by (intro keeps_intros keeps_shown; simp)

lemma handler_keeps: "keeps (handler e)"
  by (cases e; simp only: handler.simps writerAddress_def popoverDone_def)
    (intro keeps_intros keeps_session_acts keeps_shown; simp)+

end
