(* ===== verification/WorkspaceProperties.thy ===== *)
theory WorkspaceProperties
  imports WorkspaceSessions
begin

text \<open>
  The properties of the page: what holds of every interleaving of its calls, what a call does on its own,
  and where interleavings go wrong.
\<close>

section \<open>Fields\<close>

text \<open>What an opened paper and file consist of, which the refreshes leave alone.\<close>

definition opened ::
  "workspace \<Rightarrow> (paper option \<times> detail option \<times> pfile list \<times> nat) \<times> pfile option \<times> nat option \<times> editor_session list
     \<times> jsstr" where
  "opened s = ((cur_paper s, paperDetail s, files s, version s), cur_file s, collaboration s, sessions s,
     label s Ui_currentPaper)"

lemma opened_shows [simp]:
  "opened (notice m b s) = opened s" "opened (show_papers s) = opened s" "opened (show_files s) = opened s"
  "opened (show_outline s) = opened s"
  "opened (show_problems s) = opened s" "opened (show_history s) = opened s" "opened (show_reviews s) = opened s"
  "opened (no_rounds s) = opened s" "opened (note_rounds rp s) = opened s" "opened (show_rounds p s) = opened s" "opened (no_reviews s) = opened s"
  "opened (write_label Ui_reviewCounts c s) = opened s" "opened (show_build pl s) = opened s"
  "opened (updateFileActions b s) = opened s" "opened (saveState st s) = opened s"
  by (auto simp: opened_def notice_def saveState_def show_papers_def show_files_def show_outline_def
      show_problems_def show_history_def show_reviews_def no_rounds_def note_rounds_def show_rounds_def no_reviews_def
      show_build_def take_build_def updateFileActions_def small_defs Let_def split: prod.split option.split)

lemma opened_highlights: "applyReviewHighlights s = Some t \<Longrightarrow> opened t = opened s"
  by (auto simp: applyReviewHighlights_def opened_def split: option.splits if_splits)

lemma opened_fields [simp]:
  "opened (s\<lparr>papers := x\<rparr>) = opened s" "opened (s\<lparr>intel := i\<rparr>) = opened s"
  "opened (s\<lparr>versions := v, restorationRequests := q\<rparr>) = opened s" "opened (s\<lparr>reviews := ts\<rparr>) = opened s"
  "opened (s\<lparr>writerReviewList := l\<rparr>) = opened s"
  by (simp_all add: opened_def)

interpretation opn: refresh_rely "agrees opened"
  by unfold_locales (simp_all add: agrees_def opened_highlights)

abbreviation refreshes :: "unit call list" where
  "refreshes \<equiv> [refreshBuildStatus, refreshHistory, refreshReviews, refreshReviewRounds, refreshIntelligence]"

lemma opened_refreshes [simp]:
  "opened (fst (in_parallel refreshes (\<lambda>_ s. (s, Done v)) (\<lambda>e s. (s, Failed e)) s)) = opened s"
proof -
  have "moves (agrees opened) (in_parallel refreshes)"
    by (intro opn.moves_in_parallel)
      (auto intro: opn.moves_refreshes opn.moves_refreshHistory opn.moves_refreshReviews)
  then have "segment (agrees opened) (in_parallel refreshes (\<lambda>_ s. (s, Done v)) (\<lambda>e s. (s, Failed e)))"
    unfolding moves_def by (auto simp: segment_def agrees_def)
  then show ?thesis by (simp add: segment_def agrees_def)
qed

lemma closeEditor_fields [simp]:
  "cur_paper (closeEditor s) = cur_paper s" "paperDetail (closeEditor s) = paperDetail s"
  "files (closeEditor s) = files s" "length (sessions (closeEditor s)) = length (sessions s)"
  "reviews (closeEditor s) = reviews s" "writerNotice (closeEditor s) = writerNotice s"
  "fileTree (closeEditor s) = fileTree s"
  by (auto simp: closeEditor_def destroyEditorView_def disable_all_def destroy_session_def upd_session_def Let_def
      split: option.split)

lemma leave_fields [simp]:
  "cur_paper (leave_paper p s) = p" "paperDetail (leave_paper p s) = paperDetail s"
  "files (leave_paper p s) = files s" "length (sessions (leave_paper p s)) = length (sessions s)"
  "writerNotice (leave_paper p s) = writerNotice s" "fileTree (leave_paper p s) = fileTree s"
  "currentBuildId (leave_paper p s) = None"
  by (simp_all add: leave_paper_def hide_all_def cancelAutoBuild_def)

lemma show_file_fields [simp]:
  "cur_paper (show_file pl s) = cur_paper s" "paperDetail (show_file pl s) = paperDetail s"
  "sessions (show_file pl s) = sessions s" "reviews (show_file pl s) = reviews s"
  "cur_file (show_file pl s) = Some (fp_file pl)" "files (show_file pl s) = files s"
  "version (show_file pl s) = fp_version pl"
  by (simp_all add: show_file_def hide_def write_label_def)

lemma opened_start_session:
  "opened (start_session p pl s) = opened (s\<lparr>sessions := sessions s @ [new_session p pl],
     collaboration := Some (length (sessions s))\<rparr>)"
  by (simp add: start_session_def)

lemma opened_show_paper: "opened (show_paper p s) = opened (write_label Ui_currentPaper (paper_title p) s)"
  by (simp add: show_paper_def Let_def) (simp add: opened_def small_defs)

lemmas run_defs = run_def spawn_def bind_def ret_def throw_def act_def look_def attempt_def request_def
  fetch_def post_def with_paper_def with_file_def answer_defs take_detail_def

text \<open>Successful answers, one after the other, with nothing in between.\<close>

fun answered :: "'a list \<Rightarrow> 's \<times> ('s, 'q, 'a) thread \<Rightarrow> 's \<times> ('s, 'q, 'a) thread" where
  "answered [] st = st"
| "answered (v # vs) st = answered vs (deliver [] (Inr v) (snd st) (fst st))"

section \<open>A sample page\<close>

definition demo_paper :: paper where
  "demo_paper = \<lparr>paper_id = ''p1'', paper_name = ''Draft'', paper_kind = ''personal'', paper_status = ''active'',
     is_team_leader = False\<rparr>"

definition demo_file :: pfile where
  "demo_file = \<lparr>fl_id = ''f1'', fl_path = ''main.tex''\<rparr>"

definition demo_detail :: detail where
  "demo_detail = \<lparr>dt_paper = demo_paper, dt_version = 7, dt_editable = True, main_file = Some ''main.tex''\<rparr>"

definition demo_payload :: file_payload where
  "demo_payload = \<lparr>fp_file = demo_file, fp_version = 7, fp_main = True, fp_editable = True\<rparr>"

definition demo_start :: workspace where
  "demo_start = page_init (\<lambda>_ _. 0) id id (\<lambda>bs doc. Position (fst doc) (case bs of [b] \<Rightarrow> unat b | _ \<Rightarrow> 0)) (\<lambda>_. [])"

definition demo_page :: workspace where
  "demo_page = demo_start\<lparr>cur_paper := Some demo_paper, paperDetail := Some demo_detail, files := [demo_file]\<rparr>"

definition demo_session :: editor_session where
  "demo_session = (new_session demo_paper demo_payload)\<lparr>es_loaded := True, es_writable := True, es_open := True,
     es_text := ''abcdef''\<rparr>"

definition demo_editing :: workspace where
  "demo_editing = demo_page\<lparr>cur_file := Some demo_file, sessions := [demo_session], collaboration := Some 0\<rparr>"

definition demo_anchor :: source_anchor where
  "demo_anchor = \<lparr>sa_file_id = ''f1'', sa_file_deleted = False, encoded_relative_start = Some ''AQ=='',
     encoded_relative_end = Some ''Aw==''\<rparr>"

definition demo_thread :: review_thread where
  "demo_thread = \<lparr>rt_id = ''t1'', rt_state = ''OPEN'', rt_severity = ''MINOR'', rt_type = ''SUGGESTION'',
     rt_category = ''STYLE'', mentor_email = ''m@x'', assigned_writer_email = None, due_at = None, rt_messages = [],
     rt_source_anchor = Some demo_anchor, rt_pdf_anchor = None,
     rt_suggestion = Some \<lparr>sg_status = ''PENDING'', replacement_text = ''XY''\<rparr>\<rparr>"

definition demo_error :: api_error where
  "demo_error = \<lparr>err_message = ''Request failed (500)'', err_status = 500\<rparr>"

lemmas demo_defs = demo_paper_def demo_file_def demo_detail_def demo_payload_def demo_start_def demo_page_def
  demo_session_def demo_editing_def demo_anchor_def demo_thread_def demo_error_def page_init_def

section \<open>Every interleaving\<close>



text \<open>
  C4. A call on its own leaves no session alive but the current one: whatever the server answers, and
  whatever sessions and refreshes do to the page meanwhile, as long as no other call opens or closes a
  session before it is finished.
\<close>

theorem one_live_session:
  assumes "\<forall>i<length (sessions s). es_alive (sessions s ! i) \<longrightarrow> collaboration s = Some i"
    and "call_reach (agrees liveness) (run e s) (s', t)" "settled t"
  shows "\<forall>i<length (sessions s'). es_alive (sessions s' ! i) \<longrightarrow> collaboration s' = Some i"
proof -
  have "ends (agrees liveness) (\<lambda>s _. only_current s) (fst (run e s)) (snd (run e s))"
    using handler_keeps [of e] assms(1)
    unfolding keeps_def achieves_def run_def spawn_def only_current_def by simp
  from agreeing.ends_result [OF assms(2) this assms(3)] obtain s0 where
    "only_current s0" "liveness s' = liveness s0" by (auto simp: agrees_def)
  then show ?thesis using only_current_liveness [of s' s0] by (simp add: only_current_def)
qed

theorem one_live_session_witness:
  "only_current (fst (answered [AFile demo_payload] (run (ClickFile demo_file) demo_page)))"
proof -
  let ?st = "answered [AFile demo_payload] (run (ClickFile demo_file) demo_page)"
  have w: "waits_at [] (snd (run (ClickFile demo_file) demo_page))"
    by (simp add: run_defs openFile_def demo_page_def)
  have "call_reach (agrees liveness) (run (ClickFile demo_file) demo_page)
      (deliver [] (Inr (AFile demo_payload)) (snd (run (ClickFile demo_file) demo_page))
        (fst (run (ClickFile demo_file) demo_page)))"
    by (rule call_reach.answered) (simp_all add: call_reach.starts w)
  then have reach: "call_reach (agrees liveness) (run (ClickFile demo_file) demo_page) (fst ?st, snd ?st)" by simp
  have settled: "settled (snd ?st)" by (simp add: run_defs openFile_def demo_page_def)
  have "\<forall>i<length (sessions demo_page). es_alive (sessions demo_page ! i) \<longrightarrow> collaboration demo_page = Some i"
    by (simp add: demo_page_def demo_start_def page_init_def)
  from one_live_session [OF this reach settled] show ?thesis
    unfolding only_current_def .
qed

text \<open>
  C13. Every call comes to its end: whatever it is answered, and whatever happens in between, after at most
  fifteen answers it has settled, and before that it is always waiting for an answer and for nothing else.
\<close>

theorem calls_settle:
  assumes "answer_seq xs (snd (run e s)) = Some t"
  shows "length xs \<le> 15 \<and> ((\<exists>v. t = Done v) \<or> (\<exists>err. t = Failed err) \<or> (\<exists>p. waits_at p t))"
proof -
  have "settles 15 (snd (run e s))"
    using costs_spawn [OF handler_costs [of e]] unfolding prog_costs_def run_def by blast
  from settles_answers [OF this assms] show ?thesis by (cases t) auto
qed

theorem calls_settle_witness:
  "length [([], Inr (AFile demo_payload), demo_page) :: nat list \<times> answer result \<times> workspace] \<le> 15 \<and>
     ((\<exists>v. (Done AUnit :: (workspace, req, answer) thread) = Done v) \<or> (\<exists>err. (Done AUnit :: (workspace, req, answer) thread) = Failed err)
      \<or> (\<exists>p. waits_at p (Done AUnit :: (workspace, req, answer) thread)))"
  by (rule calls_settle [where e = "ClickFile demo_file" and s = demo_page])
    (simp add: run_defs openFile_def demo_page_def)

text \<open>
  C14. The listeners report their failures: no call but those of \<open>may_reject\<close> ever ends in a rejection, whatever
  requests fail, in whatever state of the page.
\<close>

theorem listeners_do_not_reject:
  assumes "\<not> may_reject e" "answer_seq xs (snd (run e s)) = Some t"
  shows "t \<noteq> Failed err"
proof -
  have "quiet (snd (run e s))"
    unfolding run_def by (rule quiet_spawn) (rule handler_quiet [OF assms(1)])
  from quiet_answers [OF this assms(2)] show ?thesis by auto
qed

theorem listeners_do_not_reject_witness:
  "snd (deliver [] (Inl demo_error) (snd (run (ClickNewFile ''a.tex'') demo_page)) demo_page) \<noteq> Failed demo_error"
  by (rule listeners_do_not_reject [where e = "ClickNewFile ''a.tex''" and xs = "[([], Inl demo_error, demo_page)]"
        and s = demo_page])
    (simp_all add: run_defs newFile_def demo_page_def)

text \<open>
  Two of the exceptions. When a paper is restored, or the server refuses a session for good, its view stays and so does
  its write access, but there is no document any more: every insertion from a palette or a builder ends in a rejection,
  changes nothing and says nothing. And an image that is refused as a text when no paper is open any more (a new paper
  that the list does not have leaves none) rejects after the editor was closed and its place emptied.
\<close>

theorem insertion_rejects_after_restoration:
  assumes "view s = Some v" "collaboration s = Some i" "i < length (sessions s)" "es_alive (sessions s ! i)"
    and "es_writable (sessions s ! i)" "e = SessionSuperseded i \<or> e = SessionRefused i m True"
  shows "let u = fst (run e s) in run (InsertText t) u = (u, Failed type_error)"
  using assms
  by (auto simp: Let_def run_defs try_act_def insert_text_def session_superseded_def session_refused_def
      destroy_session_def upd_session_def current_session_def insertLatex_def saveState_def notice_def)

theorem image_without_paper_rejects:
  assumes "cur_paper s = Some p" "is_raster (fl_path f)" "err_status err = 415" "cur_paper u = None"
  shows "asks (run (ClickFile f) s) = Some (Api (FileContent (paper_id p) (fl_id f))) \<and>
    deliver [] (Inl err) (snd (run (ClickFile f) s)) u = (clear_mount u, Failed type_error)"
  using assms by (simp add: asks_def run_defs openFile_def preview_file_def)

section \<open>Overlapping calls\<close>

lemma start_session_fields [simp]:
  "collaboration (start_session p pl s) = Some (length (sessions s))"
  "sessions (start_session p pl s) = sessions s @ [new_session p pl]"
  "cur_file (start_session p pl s) = cur_file s" "cur_paper (start_session p pl s) = cur_paper s"
  "paperDetail (start_session p pl s) = paperDetail s" "files (start_session p pl s) = files s"
  "version (start_session p pl s) = version s" "label (start_session p pl s) Ui_currentPaper = label s Ui_currentPaper"
  using opened_start_session [of p pl s] by (simp_all add: opened_def)

lemma highlights_without_reviews:
  "reviews s = [] \<Longrightarrow> \<exists>u. applyReviewHighlights s = Some u \<and>
     (u = s \<or> (\<exists>v. view s = Some v \<and> u = s\<lparr>view := Some (v\<lparr>vw_marks := []\<rparr>)\<rparr>))"
  by (auto simp: applyReviewHighlights_def split: option.split)

lemma session_mounts_runs:
  assumes "reviews s = []" "i < length (sessions s)" "es_alive (sessions s ! i)" "\<not> es_loaded (sessions s ! i)"
  obtains u where "run (SessionMounts i) s = (u, Done AUnit)" "map_option vw_session (view u) = Some i"
    "collaboration u = collaboration s" "cur_file u = cur_file s" "reviews u = []"
    "length (sessions u) = length (sessions s)" "\<And>j. j \<noteq> i \<Longrightarrow> sessions u ! j = sessions s ! j"
    "sessions u ! i = (sessions s ! i)\<lparr>es_loaded := True\<rparr>"
proof -
  let ?s = "upd_session i (\<lambda>e. e\<lparr>es_loaded := True\<rparr>) s"
  let ?m = "mount_view i (es_editable (sessions s ! i) \<and> es_writable (sessions s ! i)) (es_latex (sessions s ! i)) ?s"
  have m: "map_option vw_session (view ?m) = Some i" "collaboration ?m = collaboration s"
    "cur_file ?m = cur_file s" "reviews ?m = []" "length (sessions ?m) = length (sessions s)"
    "\<And>j. j \<noteq> i \<Longrightarrow> sessions ?m ! j = sessions s ! j" "sessions ?m ! i = (sessions s ! i)\<lparr>es_loaded := True\<rparr>"
    using assms(1,2) by (auto simp: mount_view_def new_view_def destroyEditorView_def disable_all_def upd_session_def)
  from highlights_without_reviews [OF m(4)] obtain u where u: "applyReviewHighlights ?m = Some u"
    "u = ?m \<or> (\<exists>v. view ?m = Some v \<and> u = ?m\<lparr>view := Some (v\<lparr>vw_marks := []\<rparr>)\<rparr>)" by blast
  then have "run (SessionMounts i) s = (u, Done AUnit)"
    using assms by (simp add: run_defs session_mounts_def try_act_def mountEditor_def highlight_def)
  moreover from u(2) m have "map_option vw_session (view u) = Some i" "collaboration u = collaboration s"
    "cur_file u = cur_file s" "reviews u = []" "length (sessions u) = length (sessions s)"
    "\<And>j. j \<noteq> i \<Longrightarrow> sessions u ! j = sessions s ! j" "sessions u ! i = (sessions s ! i)\<lparr>es_loaded := True\<rparr>"
    by auto
  ultimately show ?thesis by (rule that)
qed

lemma start_session_reviews [simp]: "reviews (start_session p pl s) = reviews s"
  by (simp add: start_session_def show_files_def updateFileActions_def saveState_def disable_all_def Let_def)

text \<open>
  C32. Two files clicked before the first has arrived leave two live sessions, of which the page knows the
  second only; nothing destroys the first. When its local database has loaded it mounts its editor over the
  other one, so that the text on screen is the first file's while saving and inserting act on the second.
\<close>

theorem overlapping_opens_leak:
  "let s = s0\<lparr>cur_paper := Some p, paperDetail := Some d, reviews := []\<rparr>; n = length (sessions s0);
       pg = answer_call 1 [] (Inr (AFile b)) (answer_call 0 [] (Inr (AFile a))
              (begin_call (run (ClickFile g)) (begin_call (run (ClickFile f)) (s, []))));
       late = begin_call (run (SessionMounts n)) (begin_call (run (SessionMounts (Suc n))) pg)
   in collaboration (fst pg) = Some (Suc n) \<and> cur_file (fst pg) = Some (fp_file b) \<and>
      sessions (fst pg) ! n = new_session (dt_paper d) a \<and> sessions (fst pg) ! Suc n = new_session (dt_paper d) b \<and>
      es_alive (new_session (dt_paper d) a) \<and> es_alive (new_session (dt_paper d) b) \<and>
      map_option vw_session (view (fst late)) = Some n \<and> collaboration (fst late) = Some (Suc n) \<and>
      cur_file (fst late) = Some (fp_file b)"
proof -
  let ?s = "s0\<lparr>cur_paper := Some p, paperDetail := Some d, reviews := []\<rparr>"
  let ?n = "length (sessions s0)"
  let ?pg = "answer_call 1 [] (Inr (AFile b)) (answer_call 0 [] (Inr (AFile a))
    (begin_call (run (ClickFile g)) (begin_call (run (ClickFile f)) (?s, []))))"
  define t where "t = start_session (dt_paper d) b (show_file b (start_session (dt_paper d) a (show_file a
    (closeEditor (closeEditor ?s)))))"
  have pg: "fst ?pg = t"
    by (simp add: t_def begin_call_def answer_call_def split_beta run_defs openFile_def)
  have t: "sessions t ! ?n = new_session (dt_paper d) a" "sessions t ! Suc ?n = new_session (dt_paper d) b"
    "length (sessions t) = ?n + 2" "reviews t = []" "collaboration t = Some (Suc ?n)"
    "cur_file t = Some (fp_file b)"
    by (simp_all add: t_def nth_append)
  have new: "es_alive (new_session q pl)" "\<not> es_loaded (new_session q pl)" for q pl
    by (simp_all add: new_session_def)
  obtain u where u: "run (SessionMounts (Suc ?n)) t = (u, Done AUnit)" "collaboration u = collaboration t"
    "cur_file u = cur_file t" "reviews u = []" "length (sessions u) = length (sessions t)"
    "sessions u ! ?n = sessions t ! ?n"
    by (rule session_mounts_runs [of t "Suc ?n"]) (auto simp: t new)
  obtain w where "run (SessionMounts ?n) u = (w, Done AUnit)" "map_option vw_session (view w) = Some ?n"
    "collaboration w = collaboration u" "cur_file w = cur_file u"
    by (rule session_mounts_runs [of u ?n]) (use u t new in auto)
  then show ?thesis
    using u t new pg by (simp add: Let_def begin_call_def split_beta)
qed

lemma show_build_fields:
  "cur_paper (show_build pl s) = cur_paper s"
  "currentBuildId (show_build pl s) = currentBuildId (take_build pl s)"
  "pdfSrc (show_build pl s) = pdfSrc (take_build pl s)"
  by (simp_all add: show_build_def take_build_def show_problems_def small_defs Let_def split: prod.split)

text \<open>
  An answer is taken for the paper that is open when it arrives, not for the one it was asked for: the
  status of the first paper's build, arriving after the second was opened, makes the first paper's PDF the
  second's, and the second paper's own status does not undo it when it has no PDF yet.
\<close>

theorem stale_build_crosses_papers:
  "let pg = answer_call 0 [0] (Inr (ABuild pl))
         (begin_call (run (ClickPaper q)) (begin_call (run Tick) (s0\<lparr>cur_paper := Some p\<rparr>, [])))
   in cur_paper (fst pg) = Some q \<and>
      (if truthy (current_build_id (bp_build pl))
       then currentBuildId (fst pg) = current_build_id (bp_build pl) \<and>
            pdfSrc (fst pg) = Some (pdf_url pl @ ''?build='' @ the (current_build_id (bp_build pl))) \<and>
            (if truthy (current_build_id (bp_build pl'))
             then True
             else currentBuildId (show_build pl' (fst pg)) = current_build_id (bp_build pl))
       else True)"
  by (auto simp: Let_def begin_call_def answer_call_def split_beta run_defs tick_def in_parallel_def
      promise_all_def settle_all_def refreshBuildStatus_def refreshReviews_def team_paper_def openPaper_def
      show_build_fields take_build_def)

section \<open>Calls on their own\<close>

text \<open>
  A paper that cannot be loaded is opened all the same: the page is on the new paper with the detail and
  the files of the old one, the file list still shows them, and nothing is reported.
\<close>

theorem failed_openPaper_keeps_old_files:
  "let (s1, t1) = run (ClickPaper p) s; (s2, t2) = deliver [] (Inl e) t1 s1
   in first_wait t1 = Some ([], Api (Paper (paper_id p))) \<and> t2 = Failed e \<and> cur_paper s2 = Some p \<and>
      paperDetail s2 = paperDetail s \<and> files s2 = files s \<and> fileTree s2 = fileTree s \<and>
      writerNotice s2 = writerNotice s"
  by (simp add: Let_def split_beta run_defs openPaper_def)

text \<open>
  Without an editing session - while an asset is shown, or when a file could not be opened - compiling,
  sending for review and making a checkpoint do nothing at all: no request and no notice.
\<close>

theorem nothing_without_session:
  "list_all (\<lambda>e. settled (snd (run e (s\<lparr>collaboration := None\<rparr>))) \<and>
       writerNotice (fst (run e (s\<lparr>collaboration := None\<rparr>))) = writerNotice s)
     [ClickCompile, ClickSendReview, ClickCheckpoint name, ClickSave]"
  by (auto simp: run_defs manualCompile_def sendReview_def createCheckpoint_def syncCurrent_def cancelAutoBuild_def
      split: option.split)

text \<open>
  C16. A paper that loads is opened at its main file: the detail, the files and the main file's content are
  asked for in this order, and then the page shows the paper, its files and a new live session on the main file
  with the server's word on whether it may be edited.
\<close>

theorem openPaper_opens_main_file:
  assumes "List.find (\<lambda>f. Some (fl_path f) = main_file d) fs = Some f"
  shows "asks (run (ClickPaper p) s) = Some (Api (Paper (paper_id p))) \<and>
    asks (answered [ADetail d] (run (ClickPaper p) s)) = Some (Api (Files (paper_id p))) \<and>
    asks (answered [ADetail d, AFiles fs] (run (ClickPaper p) s)) = Some (Api (FileContent (paper_id p) (fl_id f))) \<and>
    (let s' = fst (answered [ADetail d, AFiles fs, AFile pl] (run (ClickPaper p) s)); n = length (sessions s)
     in cur_paper s' = Some p \<and> paperDetail s' = Some d \<and> files s' = fs \<and> cur_file s' = Some (fp_file pl) \<and>
        version s' = fp_version pl \<and> label s' Ui_currentPaper = paper_title p \<and> collaboration s' = Some n \<and>
        length (sessions s') = Suc n \<and> sessions s' ! n = new_session (dt_paper d) pl)"
proof -
  define s3 where "s3 = show_paper p ((leave_paper (Some p) s)\<lparr>paperDetail := Some d, version := dt_version d,
    files := fs\<rparr>)"
  have "opened s3 = ((Some p, Some d, fs, dt_version d), None, None, sessions (leave_paper (Some p) s), paper_title p)"
    unfolding s3_def opened_show_paper
    by (simp add: opened_def write_label_def) (simp add: leave_paper_def hide_all_def closeEditor_def Let_def)
  then have s3: "cur_paper s3 = Some p" "paperDetail s3 = Some d" "files s3 = fs"
    "length (sessions s3) = length (sessions s)" "label s3 Ui_currentPaper = paper_title p"
    by (simp_all add: opened_def)
  then have f: "initial_file s3 = Some f" using assms by (simp add: initial_file_def main_path_def)
  have label: "label (show_file pl s3) Ui_currentPaper = label s3 Ui_currentPaper"
    by (simp add: show_file_def hide_def write_label_def)
  let ?s4 = "start_session (dt_paper d) pl (show_file pl s3)"
  let ?st = "answered [ADetail d, AFiles fs, AFile pl] (run (ClickPaper p) s)"
  have "fst ?st = fst (in_parallel refreshes (\<lambda>_ s. (s, Done AUnit)) (\<lambda>e s. (s, Failed e)) ?s4)"
    using f s3 by (simp add: run_defs openPaper_def openFile_def s3_def)
  then have "opened (fst ?st) = opened ?s4" by simp
  moreover have "asks (run (ClickPaper p) s) = Some (Api (Paper (paper_id p)))"
    "asks (answered [ADetail d] (run (ClickPaper p) s)) = Some (Api (Files (paper_id p)))"
    "asks (answered [ADetail d, AFiles fs] (run (ClickPaper p) s)) = Some (Api (FileContent (paper_id p) (fl_id f)))"
    using f s3 by (simp_all add: asks_def run_defs openPaper_def openFile_def s3_def)
  ultimately show ?thesis
    using s3 label by (simp add: opened_def Let_def nth_append del: answered.simps)
qed

theorem openPaper_opens_main_file_witness:
  "asks (answered [ADetail demo_detail, AFiles [demo_file]] (run (ClickPaper demo_paper) demo_start))
    = Some (Api (FileContent ''p1'' ''f1''))"
  using openPaper_opens_main_file [of demo_detail "[demo_file]" demo_file demo_paper demo_start demo_payload]
  by (simp add: demo_detail_def demo_file_def demo_paper_def)

text \<open>The request of a file operation, with the file and the version it is about.\<close>

fun structural_request :: "ui_event \<Rightarrow> jsstr \<Rightarrow> jsstr \<Rightarrow> nat \<Rightarrow> api_call" where
  "structural_request (ClickRename (Some path)) p f n =
     RenameFile p f (JObj [(''path'', JStr path), (''version'', JNat n)])"
| "structural_request (ClickDelete c) p f n = DeleteFile p f (JObj [(''version'', JNat n)])"
| "structural_request ClickSetMain p f n = SetMain p f (JObj [(''version'', JNat n)])"
| "structural_request e p f n = Me"

lemma flush_frame_fields [simp]:
  "cur_paper (saveState st s) = cur_paper s" "cur_file (saveState st s) = cur_file s"
  "cur_paper (scheduleIntelligence s) = cur_paper s" "cur_file (scheduleIntelligence s) = cur_file s"
  "writerNotice (notice m b s) = Some (m, b)" "cur_paper (notice m b s) = cur_paper s"
  by (simp_all add: saveState_def scheduleIntelligence_def notice_def Let_def split: prod.split)

text \<open>
  C15. Renaming, deleting and choosing the main file first make the edits durable, then ask for the paper, and
  then make their request with the version of that answer; a flush or a paper that fails is reported and
  ends the operation with no such request.
\<close>

theorem structural_requests_are_guarded:
  assumes "e = ClickRename (Some path) \<or> e = ClickDelete True \<or> e = ClickSetMain"
    and "collaboration s = Some i" "i < length (sessions s)" "es_writable (sessions s ! i)" "es_open (sessions s ! i)"
    and "\<not> conflict s" "cur_paper s = Some p" "cur_file s = Some f" "path \<noteq> []" "path \<noteq> fl_path f"
  shows "asks (run e s) = Some (FlushSession i) \<and>
    asks (answered [ASequence n] (run e s)) = Some (Api (Paper (paper_id p))) \<and>
    asks (answered [ASequence n, ADetail d] (run e s))
      = Some (Api (structural_request e (paper_id p) (fl_id f) (dt_version d))) \<and>
    (let (s1, t1) = deliver [] (Inl err) (snd (run e s)) (fst (run e s))
     in settled t1 \<and> writerNotice s1 = Some (err_message err, True)) \<and>
    (let (s2, t2) = answered [ASequence n] (run e s); (s3, t3) = deliver [] (Inl err) t2 s2
     in settled t3 \<and> writerNotice s3 = Some (err_message err, True))"
  using assms
  by (elim disjE)
    (simp_all add: Let_def split_beta asks_def run_defs renameFile_def deleteFile_def setMain_def
      requireDurableFlush_def syncCurrent_def flush_session_def fetch_detail_def complain_def)

theorem structural_requests_are_guarded_witness:
  "asks (answered [ASequence 3, ADetail demo_detail] (run (ClickRename (Some ''a.tex'')) demo_editing))
    = Some (Api (RenameFile ''p1'' ''f1'' (JObj [(''path'', JStr ''a.tex''), (''version'', JNat 7)])))"
  using structural_requests_are_guarded [of "ClickRename (Some ''a.tex'')" "''a.tex''" demo_editing 0 demo_paper
      demo_file 3 demo_detail demo_error]
  by (simp add: demo_defs)

lemma edit_session_fields [simp]:
  "cur_paper (edit_session i f s) = cur_paper s"
  "length (sessions (edit_session i f s)) = length (sessions s)"
  by (simp_all add: edit_session_def upd_session_def)

lemma edited_session:
  "i < length (sessions s) \<Longrightarrow> sessions (edit_session i f s) ! i = (sessions s ! i)\<lparr>es_text := f (es_text (sessions s ! i))\<rparr>"
  by (simp add: edit_session_def upd_session_def)

lemma sessions_kept [simp]:
  "sessions (saveState st s) = sessions s" "sessions (notice m b s) = sessions s"
  by (simp_all add: saveState_def notice_def)

text \<open>
  C17. Accepting a suggestion replaces exactly its range in the shared text, and the server is told only after
  the flush has made that durable, with the flush's sequence number. But the text is edited first: offline the
  edit stays although the acceptance fails and the suggestion stays pending, and in a session without
  write access the edit is local and the server is told of an acceptance at sequence 0.
\<close>

theorem accept_edits_then_flushes:
  assumes "live_anchor t = Some a" "find_file (sa_file_id a) s = Some f" "cur_file s = Some f0" "fl_id f0 = fl_id f"
    and "collaboration s = Some i" "i < length (sessions s)" "collaboration_range a s = Some (i, Some r)"
    and "rt_suggestion t = Some g" "cur_paper s = Some p"
  shows "asks (run (ClickAccept t) s) = Some (ReadySession i) \<and>
    (let (s1, t1) = deliver [] (Inr AUnit) (snd (run (ClickAccept t) s)) s;
         e = sessions s ! i
     in es_text (sessions s1 ! i) = apply_suggestion r (replacement_text g) (es_text e) \<and>
        (if \<not> es_writable e then asks (s1, t1) = Some (Api (AcceptSuggestion (paper_id p) (rt_id t) 0))
         else if es_open e
         then asks (s1, t1) = Some (FlushSession i) \<and>
              asks (answered [ASequence n] (s1, t1)) = Some (Api (AcceptSuggestion (paper_id p) (rt_id t) n))
         else settled t1 \<and> writerNotice s1 = Some (err_message offline_error, True)))"
  using assms
  by (simp add: Let_def split_beta asks_def run_defs writerAcceptSuggestion_def with_ready_range_def
      open_unless_current_def replace_range_def flush_session_def edited_session complain_def)

theorem accept_edits_then_flushes_witness:
  "asks (run (ClickAccept demo_thread) demo_editing) = Some (ReadySession 0)"
proof -
  have d: "decodeBase64 (Some ''AQ=='') = Bytes [1]" "decodeBase64 (Some ''Aw=='') = Bytes [3]"
    by code_simp+
  then have "collaboration_range demo_anchor demo_editing = Some (0, Some \<lparr>range_from = 1, range_to = 3\<rparr>)"
    by (simp add: collaboration_range_def current_session_def anchor_range_def decoded_bytes_def
        resolveSuggestionRange_def demo_defs)
  then show ?thesis
    using accept_edits_then_flushes [of demo_thread demo_anchor demo_editing demo_file demo_file 0
        "\<lparr>range_from = 1, range_to = 3\<rparr>" "\<lparr>sg_status = ''PENDING'', replacement_text = ''XY''\<rparr>" demo_paper]
    by (simp add: live_anchor_def find_file_def demo_defs)
qed

end
