(* ===== verification/DetailsProperties.thy ===== *)
theory DetailsProperties
  imports DocumentDetails
begin

text \<open>
  The document details between the client and the server: which submissions of the form the server accepts, and
  what a submission does to values the user has not touched.
\<close>

section \<open>The controls of a form\<close>

definition field_for :: "document_details \<Rightarrow> dd_field \<Rightarrow> field_box \<Rightarrow> bool" where
  "field_for d x b \<longleftrightarrow>
     fb_key b = fd_key x \<and> fb_disabled b = (\<not> field_editable d x) \<and> fb_required b = fd_required x
     \<and> field_kind x (from_entries (dd_values d) (fd_key x)) = Some (fb_kind b)
     \<and> (fb_kind b \<noteq> CheckBox \<longrightarrow> (\<exists>t. fb_value b = control_value (fb_kind b) t))"

definition form_for :: "document_details \<Rightarrow> details_form \<Rightarrow> bool" where
  "form_for d f \<longleftrightarrow> df_detail f = d \<and> df_save f = dd_can_edit d
     \<and> list_all2 (field_for d) (dd_manifest_fields d) (df_fields f)"

abbreviation edited :: "details_edit list \<Rightarrow> details_form \<Rightarrow> details_form" where
  "edited es f \<equiv> fold edit_details es f"

lemma kind_boolean: "field_kind x v = Some k \<Longrightarrow> (k = CheckBox) = (fd_type x = ''BOOLEAN'')"
  by (auto simp: field_kind_def split: if_splits)

lemma kind_date: "field_kind x v = Some k \<Longrightarrow> fd_type x = ''DATE'' \<Longrightarrow> k = DateBox"
  by (auto simp: field_kind_def split: if_splits)

lemma field_for_new: "field_box_of d x = Some b \<Longrightarrow> field_for d x b"
  using kind_boolean by (auto simp: field_box_of_def field_for_def Let_def)

lemma form_for_new: "details_form_of d = Some f \<Longrightarrow> form_for d f"
proof -
  assume "details_form_of d = Some f"
  then obtain bs where "those (map (field_box_of d) (dd_manifest_fields d)) = Some bs"
    "f = \<lparr>df_detail = d, df_sections = map (section_box_of d) (dd_manifest_sections d), df_fields = bs,
          df_save = dd_can_edit d\<rparr>"
    unfolding details_form_of_def by blast
  moreover have "those (map (field_box_of d) xs) = Some bs \<Longrightarrow> list_all2 (field_for d) xs bs" for xs bs
    by (induction xs arbitrary: bs) (auto split: option.splits intro: field_for_new)
  ultimately show ?thesis by (simp add: form_for_def)
qed

lemma form_for_edit: "form_for d f \<Longrightarrow> form_for d (edit_details e f)"
  by (cases e) (auto simp: form_for_def list_all2_map2 elim!: list_all2_mono simp: field_for_def)

lemma form_for_edited: "form_for d f \<Longrightarrow> form_for d (edited es f)"
  by (induction es arbitrary: f) (simp_all add: form_for_edit)

section \<open>What is collected\<close>

definition box_of :: "details_form \<Rightarrow> dd_field \<Rightarrow> field_box option" where
  "box_of f x = List.find (\<lambda>b. fb_key b = fd_key x) (df_fields f)"

definition control_json :: "dd_field \<Rightarrow> field_box \<Rightarrow> json" where
  "control_json x b = (if fd_type x = ''BOOLEAN'' then JBool (fb_checked b) else JStr (fb_value b))"

lemma box_of_field:
  assumes "form_for d f" "distinct (map fd_key (dd_manifest_fields d))" "x \<in> set (dd_manifest_fields d)"
  obtains b where "box_of f x = Some b" "field_for d x b"
proof -
  have "list_all2 (field_for d) xs bs \<Longrightarrow> distinct (map fd_key xs) \<Longrightarrow> x \<in> set xs
    \<Longrightarrow> \<exists>b. List.find (\<lambda>b. fb_key b = fd_key x) bs = Some b \<and> field_for d x b" for xs bs
    by (induction xs bs rule: list_all2_induct) (auto simp: field_for_def image_iff)
  with assms that show ?thesis unfolding form_for_def box_of_def by blast
qed

lemma map_of_collected:
  "distinct (map fd_key xs) \<Longrightarrow> x \<in> set xs \<Longrightarrow>
     map_of (concat (map (\<lambda>x. if P x then [(fd_key x, g x)] else []) xs)) (fd_key x) = (if P x then Some (g x) else None)"
proof (induction xs)
  case (Cons y xs)
  have "map_of (concat (map (\<lambda>x. if P x then [(fd_key x, g x)] else []) xs)) k = None" if "k \<notin> fd_key ` set xs" for k
    using that by (induction xs) auto
  moreover have "fd_key x \<noteq> fd_key y" if "x \<noteq> y"
  proof -
    from that Cons.prems have "fd_key x \<in> fd_key ` set xs" by simp
    with Cons.prems(1) show ?thesis by auto
  qed
  ultimately show ?case using Cons by (cases "x = y") (auto simp: map_add_def split: option.split)
qed simp

lemma find_key: "distinct (map fd_key xs) \<Longrightarrow> x \<in> set xs \<Longrightarrow> List.find (\<lambda>y. fd_key y = fd_key x) xs = Some x"
  by (induction xs) force+

lemma collect_values_editable:
  assumes "form_for d f" "distinct (map fd_key (dd_manifest_fields d))"
  shows "collect_values f = concat (map (\<lambda>x. if field_editable d x then [(fd_key x, control_json x (the (box_of f x)))] else [])
           (dd_manifest_fields d))"
proof -
  have "df_detail f = d" using assms(1) by (simp add: form_for_def)
  moreover have "(case box_of f x of None \<Rightarrow> [] | Some b \<Rightarrow> if fb_disabled b then [] else [(fd_key x, control_json x b)])
      = (if field_editable d x then [(fd_key x, control_json x (the (box_of f x)))] else [])"
    if x: "x \<in> set (dd_manifest_fields d)" for x
  proof -
    obtain b where "box_of f x = Some b" "field_for d x b" using box_of_field [OF assms x] .
    then show ?thesis by (simp add: field_for_def)
  qed
  ultimately show ?thesis
    unfolding collect_values_def box_of_def [symmetric] control_json_def [symmetric]
    by (intro arg_cong [where f = concat] map_cong) auto
qed

lemma collected_value:
  assumes "form_for d f" "distinct (map fd_key (dd_manifest_fields d))" "x \<in> set (dd_manifest_fields d)"
  shows "map_of (collect_values f) (fd_key x) = (if field_editable d x then map_option (control_json x) (box_of f x) else None)"
proof -
  obtain b where "box_of f x = Some b" using box_of_field [OF assms] .
  then show ?thesis
    using map_of_collected [OF assms(2,3), of "field_editable d" "\<lambda>x. control_json x (the (box_of f x))"]
    by (simp add: collect_values_editable [OF assms(1,2)])
qed

section \<open>What the server accepts\<close>

text \<open>
  A field that has no automatic source and that a team may not override is open for editing and is sent with every
  submission, and the server refuses the whole of it, whatever the user has entered anywhere.
\<close>

theorem details_always_refused:
  assumes "details_form_of d = Some f" "dd_can_edit d" "distinct (map fd_key (dd_manifest_fields d))"
    and "x \<in> set (dd_manifest_fields d)" "fd_source x = None" "\<not> fd_override x"
  shows "check_details (dd_manifest_fields d) (dd_manifest_sections d) automatic
      (collect_values (edited es f)) (collect_sections (edited es f)) = Some InvalidDetails"
proof -
  let ?f = "edited es f"
  have f: "form_for d ?f" using form_for_edited [OF form_for_new [OF assms(1)]] .
  have "field_editable d x" using assms by (simp add: field_editable_def)
  then have "(fd_key x, control_json x (the (box_of ?f x))) \<in> set (collect_values ?f)"
    using assms(4) by (auto simp: collect_values_editable [OF f assms(3)])
  moreover have "List.find (\<lambda>y. fd_key y = fd_key x) (dd_manifest_fields d) = Some x"
    using assms(3,4) by (rule find_key)
  ultimately show ?thesis
    using assms(6) by (force simp: check_details_def Let_def list_ex_iff)
qed

lemma html_date_length: "html_date s \<Longrightarrow> date_of_digits 4 s = (length s = 10)"
  by (auto simp: html_date_def date_of_digits_def)

lemma matches_date:
  assumes "x \<in> set xs" "field_for d x b"
    and "\<forall>x\<in>set xs. fd_override x \<and> fd_type x \<in> {''TEXT'', ''MULTILINE'', ''DATE'', ''BOOLEAN''}"
  shows "value_matches (fd_type x) (control_json x b) = (fd_type x = ''DATE'' \<longrightarrow> length (fb_value b) = 10)"
proof (cases "fd_type x = ''DATE''")
  case True
  have "fb_kind b = DateBox" using assms(2) kind_date [OF _ True] unfolding field_for_def by blast
  moreover from this obtain t where "fb_value b = control_value DateBox t" using assms(2) by (auto simp: field_for_def)
  ultimately show ?thesis using True html_date_length [of t] by (auto simp: control_json_def date_of_digits_def)
qed (use assms in \<open>auto simp: control_json_def\<close>)

text \<open>
  C21. When every field may be overridden the server accepts a submission exactly if every date is there, with a year of four
  digits, and every required text has more than white space: an optional date that is left empty makes it refuse.
\<close>

theorem details_accepted_iff:
  assumes "details_form_of d = Some f" "dd_can_edit d" "distinct (map fd_key (dd_manifest_fields d))"
    and "\<forall>x\<in>set (dd_manifest_fields d). fd_override x \<and> fd_type x \<in> {''TEXT'', ''MULTILINE'', ''DATE'', ''BOOLEAN''}"
  shows "check_details (dd_manifest_fields d) (dd_manifest_sections d) automatic
      (collect_values (edited es f)) (collect_sections (edited es f)) = None
    \<longleftrightarrow> list_all (\<lambda>x. case box_of (edited es f) x of None \<Rightarrow> False
         | Some b \<Rightarrow> (fd_type x = ''DATE'' \<longrightarrow> length (fb_value b) = 10)
             \<and> (fd_required x \<and> fd_type x \<noteq> ''BOOLEAN'' \<longrightarrow> \<not> list_all rust_space (fb_value b))) (dd_manifest_fields d)"
proof -
  let ?f = "edited es f" and ?xs = "dd_manifest_fields d"
  have f: "form_for d ?f" using form_for_edited [OF form_for_new [OF assms(1)]] .
  have editable: "field_editable d x" if "x \<in> set ?xs" for x
    using assms(2,4) that by (simp add: field_editable_def)
  have selected: "\<exists>b. box_of ?f x = Some b \<and> field_for d x b
      \<and> selected_value automatic (map_of (collect_values ?f)) x = Some (control_json x b)" if x: "x \<in> set ?xs" for x
  proof -
    obtain b where "box_of ?f x = Some b" "field_for d x b" using box_of_field [OF f assms(3) x] .
    then show ?thesis
      using collected_value [OF f assms(3) x] editable [OF x] assms(4) x by (simp add: selected_value_def)
  qed
  have known: "\<not> list_ex (\<lambda>(k, v). case List.find (\<lambda>x. fd_key x = k) ?xs of None \<Rightarrow> True | Some x \<Rightarrow> \<not> fd_override x)
      (collect_values ?f)"
    using assms(4) find_key [OF assms(3)] by (auto simp: collect_values_editable [OF f assms(3)] list_ex_iff)
  have sections: "\<not> list_ex (\<lambda>(k, b). \<not> list_ex (\<lambda>x. sec_key x = k) (dd_manifest_sections d)) (collect_sections ?f)"
    using f by (auto simp: collect_sections_def form_for_def list_ex_iff)
  have date: "value_matches (fd_type x) (control_json x b) = (fd_type x = ''DATE'' \<longrightarrow> length (fb_value b) = 10)"
    if "x \<in> set ?xs" "field_for d x b" for x b
    using that assms(4) by (rule matches_date)
  have empty: "empty_value (control_json x b) = (fd_type x \<noteq> ''BOOLEAN'' \<and> list_all rust_space (fb_value b))" for x b
    by (simp add: control_json_def)
  have "(check_details ?xs (dd_manifest_sections d) automatic (collect_values ?f) (collect_sections ?f) = None)
      = (\<forall>x\<in>set ?xs. (case selected_value automatic (map_of (collect_values ?f)) x of None \<Rightarrow> \<not> fd_required x
          | Some v \<Rightarrow> value_matches (fd_type x) v \<and> \<not> (fd_required x \<and> empty_value v)))"
    using known sections
    by (auto simp: check_details_def Let_def list_ex_iff filter_empty_conv split: option.splits)
  also have "\<dots> = (\<forall>x\<in>set ?xs. case box_of ?f x of None \<Rightarrow> False
         | Some b \<Rightarrow> (fd_type x = ''DATE'' \<longrightarrow> length (fb_value b) = 10)
             \<and> (fd_required x \<and> fd_type x \<noteq> ''BOOLEAN'' \<longrightarrow> \<not> list_all rust_space (fb_value b)))"
    using selected date empty by (intro ball_cong refl) fastforce
  finally show ?thesis by (simp add: list_all_iff)
qed

text \<open>The conditions at concrete inputs: one field that is optional, of each kind in turn.\<close>

definition demo_field :: dd_field where
  "demo_field = \<lparr>fd_key = ''k'', fd_label = ''K'', fd_type = ''TEXT'', fd_required = False, fd_source = None,
     fd_default = None, fd_override = False\<rparr>"

definition demo_details :: "dd_field \<Rightarrow> (jsstr \<times> json) list \<Rightarrow> document_details" where
  "demo_details x vs = \<lparr>dd_pack_id = Some ''p'', dd_pack_name = None, dd_status = ''READY'', dd_missing = [],
     dd_values = vs, dd_sections = [], dd_manifest_sections = [], dd_manifest_fields = [x], dd_can_edit = True\<rparr>"

definition demo_form :: "dd_field \<Rightarrow> (jsstr \<times> json) list \<Rightarrow> details_form" where
  "demo_form x vs = the (details_form_of (demo_details x vs))"

lemma demo_form_made: "field_box_of (demo_details x vs) x \<noteq> None \<Longrightarrow> details_form_of (demo_details x vs) = Some (demo_form x vs)"
  by (auto simp: demo_form_def details_form_of_def demo_details_def)

theorem details_always_refused_witness:
  "check_details [demo_field] [] (\<lambda>_. None) (collect_values (edited [TypeInto ''k'' ''v''] (demo_form demo_field [])))
     (collect_sections (edited [TypeInto ''k'' ''v''] (demo_form demo_field []))) = Some InvalidDetails"
proof -
  have "field_box_of (demo_details demo_field []) demo_field \<noteq> None" by code_simp
  from details_always_refused [OF demo_form_made [OF this], of demo_field "\<lambda>_. None" "[TypeInto ''k'' ''v'']"]
  show ?thesis by (simp add: demo_details_def demo_field_def)
qed

theorem details_accepted_iff_witness:
  "check_details [demo_field\<lparr>fd_type := ''DATE'', fd_override := True\<rparr>] [] (\<lambda>_. None)
     (collect_values (demo_form (demo_field\<lparr>fd_type := ''DATE'', fd_override := True\<rparr>) []))
     (collect_sections (demo_form (demo_field\<lparr>fd_type := ''DATE'', fd_override := True\<rparr>) [])) \<noteq> None"
proof -
  let ?x = "demo_field\<lparr>fd_type := ''DATE'', fd_override := True\<rparr>"
  have "field_box_of (demo_details ?x []) ?x \<noteq> None" by code_simp
  note iff = details_accepted_iff [OF demo_form_made [OF this], of "\<lambda>_. None" "[]"]
  have "\<not> list_all (\<lambda>x. case box_of (edited [] (demo_form ?x [])) x of None \<Rightarrow> False
         | Some b \<Rightarrow> (fd_type x = ''DATE'' \<longrightarrow> length (fb_value b) = 10)
             \<and> (fd_required x \<and> fd_type x \<noteq> ''BOOLEAN'' \<longrightarrow> \<not> list_all rust_space (fb_value b)))
      (dd_manifest_fields (demo_details ?x []))"
    by code_simp
  with iff show ?thesis by (simp add: demo_details_def demo_field_def)
qed

section \<open>Values the user has not touched\<close>

lemma untouched_box:
  assumes "details_form_of d = Some f" "distinct (map fd_key (dd_manifest_fields d))" "x \<in> set (dd_manifest_fields d)"
  shows "\<exists>b. box_of f x = Some b \<and> field_box_of d x = Some b"
proof -
  have key: "field_box_of d y = Some b \<Longrightarrow> fb_key b = fd_key y" for y b
    by (auto simp: field_box_of_def Let_def)
  have "those (map (field_box_of d) xs) = Some bs \<Longrightarrow> distinct (map fd_key xs) \<Longrightarrow> x \<in> set xs
    \<Longrightarrow> \<exists>b. List.find (\<lambda>b. fb_key b = fd_key x) bs = Some b \<and> field_box_of d x = Some b" for xs bs
    by (induction xs arbitrary: bs) (auto split: option.splits simp: image_iff dest: key)
  with assms show ?thesis by (auto simp: details_form_of_def box_of_def)
qed

text \<open>
  A submission fixes every field that a team may override, touched or not: what the server selects for it afterwards
  is what its control held, whatever its automatic source says then. A text is fixed as it was; of a list the entries are
  joined into one text, which is no list any more.
\<close>

theorem details_fix_automatic_values:
  assumes "details_form_of d = Some f" "dd_can_edit d" "distinct (map fd_key (dd_manifest_fields d))"
    and "x \<in> set (dd_manifest_fields d)" "fd_override x" "fd_type x \<in> {''TEXT'', ''MULTILINE''}"
    and "from_entries (dd_values d) (fd_key x) = Some v"
    and "v = JStr s \<and> (fd_type x = ''TEXT'' \<longrightarrow> CHR 0x0A \<notin> set s) \<or> v = JList (map JStr ls) \<and> s = js_join [CHR 0x0A] ls"
    and "CHR 0x0D \<notin> set s"
  shows "selected_value automatic (map_of (collect_values f)) x = Some (JStr s)"
proof -
  have f: "form_for d f" using form_for_new [OF assms(1)] .
  have editable: "field_editable d x" using assms(2,5) by (simp add: field_editable_def)
  obtain b where b: "box_of f x = Some b" "field_box_of d x = Some b"
    using untouched_box [OF assms(1,3,4)] by blast
  have "field_text v' = s" if "v' = Some v" for v'
    using assms(8) that by (auto simp: join_texts_def comp_def)
  moreover have "one_newline s = s" using assms(9) by (induction s) auto
  ultimately have "fb_value b = s"
    using b(2) assms(6-9) by (auto simp: field_box_of_def Let_def field_kind_def filter_id_conv split: if_splits)
  then show ?thesis
    using collected_value [OF f assms(3,4)] editable b(1) assms(5,6) by (auto simp: selected_value_def control_json_def)
qed

theorem details_fix_automatic_values_witness:
  "selected_value (\<lambda>_. Some (JStr ''new'')) (map_of (collect_values (demo_form
      (demo_field\<lparr>fd_type := ''MULTILINE'', fd_source := Some ''team.name'', fd_override := True\<rparr>)
      [(''k'', JList [JStr ''a'', JStr ''b''])])))
     (demo_field\<lparr>fd_type := ''MULTILINE'', fd_source := Some ''team.name'', fd_override := True\<rparr>)
   = Some (JStr (''a'' @ [CHR 0x0A] @ ''b''))"
proof -
  let ?x = "demo_field\<lparr>fd_type := ''MULTILINE'', fd_source := Some ''team.name'', fd_override := True\<rparr>"
  let ?vs = "[(''k'', JList [JStr ''a'', JStr ''b''])]"
  have "field_box_of (demo_details ?x ?vs) ?x \<noteq> None" by code_simp
  from details_fix_automatic_values [OF demo_form_made [OF this], of ?x "JList [JStr ''a'', JStr ''b'']"
      "''a'' @ [CHR 0x0A] @ ''b''" "[''a'', ''b'']" "\<lambda>_. Some (JStr ''new'')"]
  show ?thesis by (simp add: demo_details_def demo_field_def from_entries_def)
qed

end
