(* ===== verification/DialogProperties.thy ===== *)
theory DialogProperties
  imports WorkspaceProperties DetailsProperties
begin

text \<open>
  The dialogs and the document details on the page: what is sent for a form and for which paper, what choosing an
  item of the command palette does, and where the entry of the bibliography builder goes.
\<close>

section \<open>Document details\<close>

lemma form_left [simp]:
  "detailsBody (leave_paper p s) = detailsBody s" "detailsForms (leave_paper p s) = detailsForms s"
  "hidden (leave_paper p s) Ui_workspaceDrawer = hidden s Ui_workspaceDrawer"
  "hidden (leave_paper p s) Ui_documentDetailsPanel = hidden s Ui_documentDetailsPanel"
  "collaboration (leave_paper p s) = None"
  by (simp_all add: leave_paper_def hide_all_def closeEditor_def destroyEditorView_def disable_all_def
      destroy_session_def upd_session_def cancelAutoBuild_def Let_def split: option.split)

lemma shown_form_left [simp]: "shown_form (leave_paper p s) = shown_form s"
  by (auto simp: shown_form_def split: list.split details_row.split)

lemma shown_form_small [simp]:
  "shown_form (saveState st s) = shown_form s" "detailsForms (saveState st s) = detailsForms s"
  "detailsBody (saveState st s) = detailsBody s" "detailsForms (notice m b s) = detailsForms s"
  "detailsBody (notice m b s) = detailsBody s" "version (leave_paper p s) = version s"
  "detailsForms (scheduleIntelligence s) = detailsForms s"
  by (auto simp: shown_form_def saveState_def notice_def leave_paper_def hide_all_def closeEditor_def
      destroyEditorView_def disable_all_def destroy_session_def upd_session_def cancelAutoBuild_def
      scheduleIntelligence_def Let_def split: option.split list.split details_row.split prod.split)

text \<open>
  C20. The document details of one paper are saved to another: a form that is still in the drawer when another paper
  is opened is sent as it is, with the values and the sections of the paper it was made for, to the paper that is
  open by then.
\<close>

theorem details_sent_to_other_paper:
  assumes "shown_form s = Some i" "submittable (detailsForms s ! i)"
  shows "asks (run SubmitDetails (fst (run (ClickPaper q) s)))
    = Some (Api (SaveDocumentDetails (paper_id q) (details_body (detailsForms s ! i))))"
  using assms
  by (simp add: asks_def run_defs openPaper_def submitDetails_def saveDetails_def)

text \<open>
  C38. In an editing session the details are sent only once the edits are durable, and with what the form holds then; the
  answer's version is taken and the paper is opened again. A flush or a save that fails is reported, and the form is
  left as it was.
\<close>

theorem details_saved_after_flush:
  assumes "shown_form s = Some i" "submittable (detailsForms s ! i)" "cur_paper s = Some p"
    and "collaboration s = Some j" "j < length (sessions s)" "es_writable (sessions s ! j)" "es_open (sessions s ! j)"
    and "\<not> conflict s"
  shows "asks (run SubmitDetails s) = Some (FlushSession j) \<and>
    (let (s1, t1) = run SubmitDetails s; u = s1\<lparr>detailsForms := fs\<rparr>;
         (s2, t2) = deliver [] (Inr (ASequence n)) t1 u
     in asks (s2, t2) = Some (Api (SaveDocumentDetails (paper_id p) (details_body (fs ! i)))) \<and>
        asks (deliver [] (Inr (ASavedDetails m b)) t2 s2) = Some (Api (Paper (paper_id p))) \<and>
        version (fst (deliver [] (Inr (ASavedDetails m b)) t2 s2)) = m) \<and>
    (let (s1, t1) = run SubmitDetails s; (s2, t2) = deliver [] (Inl err) t1 s1
     in settled t2 \<and> detailsForms s2 = detailsForms s \<and> detailsBody s2 = detailsBody s
        \<and> writerNotice s2 = Some (err_message err, True))"
  using assms
  by (simp add: Let_def split_beta asks_def run_defs submitDetails_def saveDetails_def syncCurrent_def flush_session_def
      take_version_def reopenPaper_def openPaper_def complain_def)

lemma shown_form_show [simp]:
  "shown_form (show_form d f s) = Some (length (detailsForms s))"
  "detailsForms (show_form d f s) = detailsForms s @ [f]"
  by (simp_all add: show_form_def shown_form_def openDrawer_def hide_def write_label_def hide_all_def drawers_def)

lemma show_form_fields [simp]:
  "cur_paper (show_form d f s) = cur_paper s" "collaboration (show_form d f s) = collaboration s"
  "sessions (show_form d f s) = sessions s" "conflict (show_form d f s) = conflict s"
  by (simp_all add: show_form_def openDrawer_def hide_def write_label_def hide_all_def)

theorem details_sent_to_other_paper_witness:
  "asks (run SubmitDetails (fst (run (ClickPaper (demo_paper\<lparr>paper_id := ''p2''\<rparr>))
       (show_form (demo_details demo_field []) (demo_form demo_field []) demo_page))))
    = Some (Api (SaveDocumentDetails ''p2'' (JObj [(''values'', JObj [(''k'', JStr [])]), (''sections'', JObj [])])))"
proof -
  have "submittable (demo_form demo_field [])" by code_simp
  moreover have "details_body (demo_form demo_field []) = JObj [(''values'', JObj [(''k'', JStr [])]), (''sections'', JObj [])]"
    by code_simp
  ultimately show ?thesis
    using details_sent_to_other_paper [of "show_form (demo_details demo_field []) (demo_form demo_field []) demo_page"
        "length (detailsForms demo_page)" "demo_paper\<lparr>paper_id := ''p2''\<rparr>"]
    by simp
qed

theorem details_saved_after_flush_witness:
  "asks (run SubmitDetails (show_form (demo_details demo_field []) (demo_form demo_field []) demo_editing)) = Some (FlushSession 0)"
proof -
  have "submittable (demo_form demo_field [])" by code_simp
  then show ?thesis
    using details_saved_after_flush [of "show_form (demo_details demo_field []) (demo_form demo_field []) demo_editing"
        "length (detailsForms demo_editing)" demo_paper 0]
    by (simp add: demo_defs)
qed

section \<open>Palettes\<close>

text \<open>
  C22. The command palette does what it lists: after a query has been typed into it, the return key closes it and
  runs the first command whose label contains the query, and with no such command it does nothing.
\<close>

theorem command_palette_runs:
  "let s1 = fst (run (ClickCommands title) s); s2 = fst (run (DialogEvent (Input q) r c) s1)
   in run (DialogEvent Enter reply confirmed) s2 =
      (case visible_items q (map (\<lambda>(l, a). plain_item l a) (commandItems (cur_paper s) (disabled s Ui_sendReview))) of
         [] \<Rightarrow> (s2, Done AUnit)
       | item # _ \<Rightarrow> spawn (\<lambda>_. AUnit) (run_action (pi_run item) reply confirmed) (s2\<lparr>dialog := None\<rparr>))"
  by (simp add: Let_def run_defs command_palette_def open_palette_def in_dialog_def palette_event_def showPalette_def
      palette_render_def palette_click_def palette_button_of_def WriterPalette.closeDialog_def split: list.split)

text \<open>
  Choosing a command whose control is disabled does nothing but close the palette: no request, no notice.
\<close>

theorem disabled_command_does_nothing:
  assumes "dialog s = Some (Palette p)" "e \<noteq> Escape" "palette_event e p = (p', Some (ClickControl name))" "\<not> pl_open p'"
    and "\<forall>c\<in>{Ui_newFile, Ui_renameFile, Ui_deleteFile, Ui_setMain, Ui_saveFile, Ui_createCheckpoint, Ui_sendReview}. disabled s c"
  shows "run (DialogEvent e reply confirmed) s = (s\<lparr>dialog := None\<rparr>, Done AUnit)"
  using assms
  by (simp add: run_defs in_dialog_def click_control_def click_def)

section \<open>Where the entry of the bibliography builder goes\<close>

lemma dialog_closeEditor [simp]: "dialog (closeEditor s) = dialog s"
  by (auto simp: closeEditor_def destroyEditorView_def disable_all_def destroy_session_def upd_session_def Let_def
      split: option.split)

lemma builder_thread:
  assumes "dialog s = Some (Builder ''bibliography'' controls sh)"
    and "text_value (control_values controls) ''target'' = Some target" "target \<noteq> []"
    and "List.find (\<lambda>f. fl_path f = target) (files s) = Some f" "map_option fl_id (cur_file s) \<noteq> Some (fl_id f)"
    and "cur_paper s = Some p"
  shows "\<exists>t0. run BuilderInsert s = (closeEditor s, t0) \<and>
    (\<forall>u. cur_paper u = Some p \<longrightarrow> paperDetail u = Some d \<longrightarrow>
      (\<exists>t1. deliver [] (Inr (AFile a)) t0 u = (start_session (dt_paper d) a (show_file a u), t1)
        \<and> (\<forall>w. deliver [] (Inr AUnit) t1 w
             = (case insert_and_close (fst (builder_insertion ''bibliography'' (control_values controls))) (select_end w) of
                  None \<Rightarrow> (select_end w, Failed type_error) | Some x \<Rightarrow> (x, Done AUnit)))))"
  using assms
  by (simp add: run_defs builder_insert_def goto_bibliography_def open_unless_current_def openFile_def Let_def js_or_def)
    (auto simp: try_act_def run_defs split: option.split)

text \<open>
  While the file of a bibliography is being opened for a new entry, the dialog can be left and another file clicked. If
  the answers arrive in that order, the entry is put at the end of the other file, which was never chosen for it.
\<close>

theorem bib_entry_in_wrong_file:
  assumes "dialog s0 = Some (Builder ''bibliography'' controls sh)"
    and "text_value (control_values controls) ''target'' = Some target" "target \<noteq> []"
    and "List.find (\<lambda>f. fl_path f = target) (files s0) = Some f" "map_option fl_id (cur_file s0) \<noteq> Some (fl_id f)"
  shows "let s = s0\<lparr>cur_paper := Some p, paperDetail := Some d, reviews := []\<rparr>; n = length (sessions s0);
       pg = answer_call 2 [] (Inr (AFile b)) (answer_call 0 [] (Inr (AFile a))
              (begin_call (run (ClickFile g)) (begin_call (run (DialogEvent Escape r c))
                (begin_call (run BuilderInsert) (s, [])))));
       ready = begin_call (run (SessionMounts (Suc n))) (begin_call (run (SessionText (Suc n) t))
         (begin_call (run (SessionConnection (Suc n) True True)) pg));
       final = answer_call 0 [] (Inr AUnit) ready
   in cur_file (fst final) = Some (fp_file b) \<and>
      es_file (sessions (fst final) ! Suc n) = fp_file b \<and>
      es_text (sessions (fst final) ! Suc n) = t @ fst (builder_insertion ''bibliography'' (control_values controls))"
proof -
  define s where "s = s0\<lparr>cur_paper := Some p, paperDetail := Some d, reviews := []\<rparr>"
  define n where "n = length (sessions s0)"
  define src where "src = fst (builder_insertion ''bibliography'' (control_values controls))"
  have s: "dialog s = dialog s0" "files s = files s0" "cur_file s = cur_file s0" "cur_paper s = Some p"
    "paperDetail s = Some d" "length (sessions s) = n" "reviews s = []"
    by (simp_all add: s_def n_def)
  obtain t0 where t0: "run BuilderInsert s = (closeEditor s, t0)"
    and opened: "\<And>u. cur_paper u = Some p \<Longrightarrow> paperDetail u = Some d \<Longrightarrow>
      \<exists>t1. deliver [] (Inr (AFile a)) t0 u = (start_session (dt_paper d) a (show_file a u), t1)
        \<and> (\<forall>w. deliver [] (Inr AUnit) t1 w = (case insert_and_close src (select_end w) of
             None \<Rightarrow> (select_end w, Failed type_error) | Some x \<Rightarrow> (x, Done AUnit)))"
    using builder_thread [of s controls sh target f p d] assms s src_def by metis
  define s3 where "s3 = closeEditor (escape_page ((closeEditor s)\<lparr>dialog := None\<rparr>))"
  have s3: "cur_paper s3 = Some p" "paperDetail s3 = Some d" "length (sessions s3) = n" "reviews s3 = []"
    using s by (simp_all add: s3_def escape_page_def closeDrawer_def closeTransientMenus_def hide_all_def hide_def)
  from opened [OF s3(1,2)] obtain t1 where t1: "deliver [] (Inr (AFile a)) t0 s3 = (start_session (dt_paper d) a (show_file a s3), t1)"
    and fin: "\<And>w. deliver [] (Inr AUnit) t1 w = (case insert_and_close src (select_end w) of
      None \<Rightarrow> (select_end w, Failed type_error) | Some x \<Rightarrow> (x, Done AUnit))" by blast
  define s5 where "s5 = start_session (dt_paper d) b (show_file b (start_session (dt_paper d) a (show_file a s3)))"
  have pg: "answer_call 2 [] (Inr (AFile b)) (answer_call 0 [] (Inr (AFile a))
      (begin_call (run (ClickFile g)) (begin_call (run (DialogEvent Escape r c)) (begin_call (run BuilderInsert) (s, [])))))
      = (s5, [t1, Done AUnit, Done AUnit])"
    using t0 t1 s s3 assms(1)
    by (simp add: begin_call_def answer_call_def split_beta)
      (simp add: run_defs in_dialog_def openFile_def s3_def s5_def)
  define s7 where "s7 = session_text (Suc n) t (session_connection (Suc n) True True s5)"
  have s5: "sessions s5 ! Suc n = new_session (dt_paper d) b" "length (sessions s5) = n + 2" "reviews s5 = []"
    "collaboration s5 = Some (Suc n)" "cur_file s5 = Some (fp_file b)"
    using s3 by (simp_all add: s5_def nth_append)
  then have s7: "sessions s7 ! Suc n = (new_session (dt_paper d) b)\<lparr>es_writable := True, es_open := True, es_text := t\<rparr>"
    "length (sessions s7) = n + 2" "reviews s7 = []" "collaboration s7 = Some (Suc n)" "cur_file s7 = Some (fp_file b)"
    by (simp_all add: s7_def session_text_def session_connection_def upd_session_def new_session_def)
  obtain u where u: "run (SessionMounts (Suc n)) s7 = (u, Done AUnit)" "map_option vw_session (view u) = Some (Suc n)"
    "collaboration u = Some (Suc n)" "cur_file u = Some (fp_file b)" "length (sessions u) = n + 2"
    "sessions u ! Suc n = (sessions s7 ! Suc n)\<lparr>es_loaded := True\<rparr>"
    by (rule session_mounts_runs [of s7 "Suc n"]) (auto simp: s7 new_session_def)
  obtain v where v: "view u = Some v" "vw_session v = Suc n" using u(2) by auto
  have "\<exists>x. insert_and_close src (select_end u) = Some x \<and>
      sessions x ! Suc n = (sessions u ! Suc n)\<lparr>es_text := t @ src\<rparr> \<and> cur_file x = cur_file u"
    using u v s7(1)
    by (simp add: insert_and_close_def can_insert_def insert_text_def select_end_def viewed_text_def current_session_def
        insertLatex_def text_insert_def edit_session_def upd_session_def scheduleIntelligence_def split: prod.split)
  moreover have "run (SessionText (Suc n) t) (session_connection (Suc n) True True s5) = (s7, Done AUnit)"
    "run (SessionConnection (Suc n) True True) s5 = (session_connection (Suc n) True True s5, Done AUnit)"
    by (simp_all add: run_defs s7_def)
  ultimately show ?thesis
    using u s7(1) fin
    unfolding Let_def s_def [symmetric] n_def [symmetric] pg src_def [symmetric]
    by (auto simp: begin_call_def answer_call_def split_beta new_session_def)
qed

end
