(* ===== verification/MentorData.thy ===== *)
theory MentorData
  imports Reviews PaperApi PdfPreview
begin

text \<open>
  The mentor's page, \<^verbatim>\<open>services/server/frontend/review.js\<close>: the data it exchanges with the server, the
  requests of the class \<open>ReviewApi\<close>, and the functions of that data alone: what a card of the thread list
  says and offers, and the highlights over a page of the PDF. The response of a request is read as in
  \<open>PaperApi\<close>. Coordinates are \<^typ>\<open>rat\<close>, rounded as in \<open>ReviewHelpers\<close>.
\<close>

section \<open>Data\<close>

record assigned =
  as_id :: jsstr
  as_name :: jsstr
  as_status :: jsstr
  open_review_count :: nat
  blocking_review_count :: nat
  current_version_id :: jsstr

record paper_detail =
  pd_paper :: jsstr  \<comment> \<open>the identifier of \<open>detail.paper\<close>\<close>
  pd_version :: nat
  pd_main :: "jsstr option"

record mentor_anchor = source_anchor +
  quoted_text :: jsstr

record placement =
  pl_page :: nat
  normalized_rectangles :: "rectangle list"
  pl_status :: jsstr

record mentor_thread =
  mt_id :: jsstr
  mt_type :: jsstr
  mt_state :: jsstr
  approved_workspace_version :: "nat option"
  mt_messages :: "message list"
  mt_source :: "mentor_anchor option"
  mt_pdf :: "placement option"

record round =
  round_number :: nat
  round_status :: jsstr

record round_list =
  rl_rounds :: "round list"
  rl_open :: bool
  rl_current :: "jsstr option"

record build_state =
  bs_build :: build_record
  bs_url :: jsstr

text \<open>What the server maps a position to; an \<open>x\<close> that is no finite number is \<^const>\<open>None\<close>.\<close>

record mapped =
  mapped_page :: "nat option"
  mapped_x :: "rat option"
  mapped_y :: rat
  mapped_width :: rat
  mapped_height :: rat
  mapped_status :: jsstr
  mapped_file_id :: "jsstr option"
  mapped_line :: "nat option"
  mapped_column :: "nat option"

text \<open>The anchors of an annotation that is being written.\<close>

record new_source =
  ns_file :: jsstr
  ns_start :: "byte list"
  ns_end :: "byte list"
  ns_quoted :: jsstr
  ns_hash :: jsstr
  ns_sequence :: nat
  ns_version :: jsstr
  ns_epoch :: nat

record new_placement = placement +
  np_file :: "jsstr option"
  np_line :: "nat option"
  np_column :: "nat option"

record pending_anchor =
  pn_source :: "new_source option"
  pn_pdf :: "new_placement option"

section \<open>Requests\<close>

datatype body = BNull | BNum rat | BStr jsstr | BList "body list" | BObj "(jsstr \<times> body) list"

definition body_opt :: "('x \<Rightarrow> body) \<Rightarrow> 'x option \<Rightarrow> body" where
  "body_opt f v = (case v of None \<Rightarrow> BNull | Some x \<Rightarrow> f x)"

definition body_nat :: "nat \<Rightarrow> body" where
  "body_nat n = BNum (of_nat n)"

definition body_bytes :: "byte list \<Rightarrow> body" where
  "body_bytes bs = BList (map (\<lambda>b. body_nat (unat b)) bs)"

definition source_body :: "new_source \<Rightarrow> body" where
  "source_body a = BObj
     [(''file_id'', BStr (ns_file a)), (''encoded_relative_start'', body_bytes (ns_start a)),
      (''encoded_relative_end'', body_bytes (ns_end a)), (''quoted_text'', BStr (ns_quoted a)),
      (''context_hash'', BStr (ns_hash a)), (''source_sequence'', body_nat (ns_sequence a)),
      (''source_version_id'', BStr (ns_version a)), (''document_epoch'', body_nat (ns_epoch a))]"

definition rectangle_body :: "rectangle \<Rightarrow> body" where
  "rectangle_body r = BObj
     [(''x'', BNum (rx r)), (''y'', BNum (ry r)), (''width'', BNum (rwidth r)), (''height'', BNum (rheight r))]"

definition placement_body :: "new_placement \<Rightarrow> body" where
  "placement_body p = BObj
     [(''page'', body_nat (pl_page p)),
      (''normalized_rectangles'', BList (map rectangle_body (normalized_rectangles p))),
      (''mapping_status'', BStr (pl_status p)), (''mapped_file_id'', body_opt BStr (np_file p)),
      (''mapped_line'', body_opt body_nat (np_line p)), (''mapped_column'', body_opt body_nat (np_column p))]"

text \<open>The body of \<open>createAnnotation\<close>.\<close>

definition annotation_body :: "jsstr \<Rightarrow> jsstr \<Rightarrow> pending_anchor option \<Rightarrow> body" where
  "annotation_body type message anchor = BObj
     [(''thread_type'', BStr type), (''message'', BStr message), (''severity'', BStr ''NOTE''),
      (''category'', BStr ''WRITING''), (''assigned_writer_user_id'', BNull), (''due_at'', BNull),
      (''source_anchor'', body_opt source_body (Option.bind anchor pn_source)),
      (''pdf_anchor'', body_opt placement_body (Option.bind anchor pn_pdf)),
      (''suggested_replacement'', if type = ''SUGGESTION'' then BStr message else BNull),
      (''section_label'', BNull)]"

definition forward_body :: "jsstr \<Rightarrow> nat \<Rightarrow> nat \<Rightarrow> body" where
  "forward_body file_id line column = BObj
     [(''direction'', BStr ''FORWARD''), (''file_id'', BStr file_id), (''line'', body_nat line),
      (''column'', body_nat column)]"

definition inverse_body :: "nat \<Rightarrow> rat \<Rightarrow> rat \<Rightarrow> body" where
  "inverse_body page x y = BObj
     [(''direction'', BStr ''INVERSE''), (''page'', body_nat page), (''x'', BNum x), (''y'', BNum y)]"

datatype mentor_api =
    MPapers | MPaper jsstr | MFiles jsstr | MFile jsstr jsstr | MWriters jsstr | MRounds jsstr | MThreads jsstr
  | MCreateThread jsstr body | MMessage jsstr jsstr jsstr | MTransition jsstr jsstr jsstr | MMap jsstr body
  | MBuild jsstr | MBuildStatus jsstr

record mentor_request =
  mr_path :: jsstr
  mr_method :: jsstr
  mr_body :: "body option"

definition m_get :: "jsstr \<Rightarrow> mentor_request" where
  "m_get path = \<lparr>mr_path = path, mr_method = ''GET'', mr_body = None\<rparr>"

definition m_post :: "jsstr \<Rightarrow> body \<Rightarrow> mentor_request" where
  "m_post path b = \<lparr>mr_path = path, mr_method = ''POST'', mr_body = Some b\<rparr>"

primrec mentor_http :: "mentor_api \<Rightarrow> mentor_request" where
  "mentor_http MPapers = m_get ''/api/v2/mentor/papers''"
| "mentor_http (MPaper i) = m_get (reviews_path i)"
| "mentor_http (MFiles i) = m_get (reviews_path i @ ''/files'')"
| "mentor_http (MFile i f) = m_get (reviews_path i @ ''/files/'' @ f)"
| "mentor_http (MWriters i) = m_get (reviews_path i @ ''/writers'')"
| "mentor_http (MRounds i) = m_get (reviews_path i @ ''/rounds'')"
| "mentor_http (MThreads i) = m_get (reviews_path i @ ''/threads'')"
| "mentor_http (MCreateThread i b) = m_post (reviews_path i @ ''/threads'') b"
| "mentor_http (MMessage i t text) =
     m_post (reviews_path i @ ''/threads/'' @ t @ ''/messages'') (BObj [(''body'', BStr text)])"
| "mentor_http (MTransition i t st) =
     m_post (reviews_path i @ ''/threads/'' @ t @ ''/state'') (BObj [(''state'', BStr st)])"
| "mentor_http (MMap i b) = m_post (reviews_path i @ ''/synctex'') b"
| "mentor_http (MBuild i) = m_post (papers_path i @ ''/builds'') (BObj [(''trigger_type'', BStr ''manual'')])"
| "mentor_http (MBuildStatus i) = m_get (papers_path i @ ''/builds'')"

section \<open>The state of a thread's anchor\<close>

text \<open>
  \<open>mappingStatus\<close>. \<open>ranges\<close> is what \<open>resolveSuggestionRange\<close> and the text of the live document give for an
  anchor: the exception of \<open>atob\<close>, no range, or the text in the range; \<^const>\<open>None\<close> stands for a
  document that is not loaded. The result is \<^const>\<open>None\<close> when the function throws.
\<close>

datatype quoted = Undecodable | NoRange | Quoted jsstr

definition mappingStatus ::
  "nat option \<Rightarrow> jsstr option \<Rightarrow> (mentor_anchor \<Rightarrow> quoted) option \<Rightarrow> mentor_thread \<Rightarrow> jsstr option" where
  "mappingStatus version file_id ranges t =
     (if mt_type t = ''PAPER_APPROVAL''
      then Some (if version \<noteq> None \<and> approved_workspace_version t = version
                 then ''EXACT'' @ middot @ ''current version''
                 else ''SOURCE_CHANGED'' @ middot @ ''historical approval'')
      else if (case mt_source t of None \<Rightarrow> False | Some a \<Rightarrow> sa_file_deleted a) then Some ''SOURCE_DELETED''
      else
        (let linked = Some (case mt_pdf t of Some p \<Rightarrow> pl_status p
                            | None \<Rightarrow> if mt_source t \<noteq> None then ''Source linked'' else ''PDF_ONLY'')
         in case (mt_source t, ranges) of
              (Some a, Some quote) \<Rightarrow>
                if file_id \<noteq> Some (sa_file_id a) then linked
                else (case quote a of
                        Undecodable \<Rightarrow> None
                      | NoRange \<Rightarrow> Some ''SOURCE_CHANGED''
                      | Quoted q \<Rightarrow> if q \<noteq> quoted_text a then Some ''SOURCE_CHANGED'' else linked)
            | _ \<Rightarrow> linked))"

section \<open>The list of threads\<close>

datatype thread_action =
    FocusThread mentor_thread | ReplyTo mentor_thread | TransitionTo mentor_thread jsstr

definition mentor_shown :: "jsstr \<Rightarrow> mentor_thread \<Rightarrow> bool" where
  "mentor_shown flt t \<longleftrightarrow>
     flt = ''all'' \<or>
     flt = ''active'' \<and> mt_state t \<in> set [''OPEN'', ''REOPENED'', ''ADDRESSED''] \<or>
     mt_state t = flt"

definition mentor_actions :: "bool \<Rightarrow> mentor_thread \<Rightarrow> thread_action dom list" where
  "mentor_actions review_open t =
     (if review_open then [button ''Reply'' (ReplyTo t) False] else [])
     @ (if mt_state t = ''ADDRESSED''
        then [button ''Done'' (TransitionTo t ''RESOLVED'') False,
              button ''Reopen'' (TransitionTo t ''REOPENED'') False]
        else if mt_state t = ''RESOLVED'' \<and> review_open
        then [button ''Reopen'' (TransitionTo t ''REOPENED'') False] else [])"

definition mentor_card :: "bool \<Rightarrow> jsstr \<Rightarrow> mentor_thread \<Rightarrow> thread_action dom" where
  "mentor_card review_open status t =
     Elem ''article'' [(''class'', ''thread-card'')] None
       [with_prop ''class'' ''thread-title''
          (button (underscores_to_spaces (mt_type t) @ middot @ mt_state t) (FocusThread t) False),
        text_elem ''p'' status,
        Elem ''div'' [(''class'', ''discussion'')] None (map message_row (mt_messages t)),
        Elem ''div'' [(''class'', ''thread-actions'')] None (mentor_actions review_open t)]"

text \<open>The cards up to the first that throws, and whether none did.\<close>

fun mentor_cards ::
  "bool \<Rightarrow> (mentor_thread \<Rightarrow> jsstr option) \<Rightarrow> mentor_thread list \<Rightarrow> thread_action dom list \<times> bool" where
  "mentor_cards gate status [] = ([], True)"
| "mentor_cards gate status (t # ts) =
     (case status t of None \<Rightarrow> ([], False)
      | Some st \<Rightarrow> (let (cards, ok) = mentor_cards gate status ts in (mentor_card gate st t # cards, ok)))"

definition thread_list ::
  "jsstr \<Rightarrow> bool \<Rightarrow> (mentor_thread \<Rightarrow> jsstr option) \<Rightarrow> mentor_thread list \<Rightarrow> thread_action dom list \<times> bool" where
  "thread_list flt gate status ts =
     (let selected = filter (mentor_shown flt) ts
      in if selected = [] then ([empty_copy ''No matching comments.''], True) else mentor_cards gate status selected)"

section \<open>Highlights over the PDF\<close>

record overlay =
  ov_pixels :: rectangle
  ov_class :: jsstr
  ov_thread :: "mentor_thread option"

definition addOverlay ::
  "(rat \<Rightarrow> rat) \<Rightarrow> rat \<times> rat \<Rightarrow> jsstr \<Rightarrow> mentor_thread option \<Rightarrow> rectangle \<Rightarrow> overlay" where
  "addOverlay rnd size_px cls handler r =
     \<lparr>ov_pixels = denormalizeRectangle rnd r (fst size_px) (snd size_px), ov_class = ''pdf-highlight '' @ cls,
      ov_thread = handler\<rparr>"

definition renderOverlays ::
  "(rat \<Rightarrow> rat) \<Rightarrow> (rat \<times> rat) option \<Rightarrow> nat \<Rightarrow> mentor_thread list \<Rightarrow> pending_anchor option \<Rightarrow> overlay list" where
  "renderOverlays rnd viewport page ts anchor =
     (case viewport of None \<Rightarrow> []
      | Some sz \<Rightarrow>
          concat (map (\<lambda>t. case mt_pdf t of None \<Rightarrow> []
              | Some p \<Rightarrow> if pl_page p = page
                  then map (addOverlay rnd sz (''persisted '' @ pl_status p) (Some t)) (normalized_rectangles p)
                  else []) ts)
          @ (case Option.bind anchor pn_pdf of None \<Rightarrow> []
             | Some p \<Rightarrow> if pl_page p = page
                 then map (addOverlay rnd sz ''pending'' None) (normalized_rectangles p) else []))"

section \<open>Hashes and positions\<close>

text \<open>\<open>sha256\<close> of a digest: two lower-case hexadecimal digits per byte.\<close>

definition hex_lower :: "nat \<Rightarrow> char" where
  "hex_lower n = char_of (if n < 10 then 48 + n else 87 + n)"

definition hex_text :: "byte list \<Rightarrow> jsstr" where
  "hex_text bs = concat (map (\<lambda>b. [hex_lower (unat b div 16), hex_lower (unat b mod 16)]) bs)"

definition js_slice :: "nat \<Rightarrow> nat \<Rightarrow> jsstr \<Rightarrow> jsstr" where
  "js_slice from to s = take (to - from) (drop from s)"

text \<open>The text around a range that its hash is taken of.\<close>

definition hash_context :: "nat \<Rightarrow> nat \<Rightarrow> jsstr \<Rightarrow> jsstr" where
  "hash_context from to s = js_slice (from - 80) (min (length s) (to + 80)) s"

text \<open>The rectangle of a position that the server mapped, on a page of the given size in points.\<close>

definition projected_rectangle :: "(rat \<Rightarrow> rat) \<Rightarrow> rat \<Rightarrow> rat \<Rightarrow> mapped \<Rightarrow> rat \<Rightarrow> rectangle" where
  "projected_rectangle rnd baseWidth baseHeight m x =
     \<lparr>rx = rnd (x / baseWidth), ry = rnd (max 0 (rnd (mapped_y m - mapped_height m)) / baseHeight),
      rwidth = rnd (max (mapped_width m) 8 / baseWidth), rheight = rnd (max (mapped_height m) 8 / baseHeight)\<rparr>"

section \<open>Lemmas\<close>

lemma clicks_mentor_card:
  "clicks (mentor_card gate st t) = FocusThread t # concat (map clicks (mentor_actions gate t))"
  by (simp add: mentor_card_def comp_def)

lemma clicks_mentor_actions:
  "concat (map clicks (mentor_actions gate t)) =
     (if gate then [ReplyTo t] else [])
     @ (if mt_state t = ''ADDRESSED'' then [TransitionTo t ''RESOLVED'', TransitionTo t ''REOPENED'']
        else if mt_state t = ''RESOLVED'' \<and> gate then [TransitionTo t ''REOPENED''] else [])"
  by (simp add: mentor_actions_def)

lemma mentor_cards_clicks:
  "snd (mentor_cards gate status ts) \<Longrightarrow>
     concat (map clicks (fst (mentor_cards gate status ts)))
       = concat (map (\<lambda>t. FocusThread t # concat (map clicks (mentor_actions gate t))) ts)"
  by (induction ts) (auto simp: clicks_mentor_card Let_def split_beta split: option.splits)

lemma length_hex_text: "length (hex_text bs) = 2 * length bs"
  by (induction bs) (simp_all add: hex_text_def)

section \<open>Properties\<close>

text \<open>
  The thread list offers exactly what state and gate allow: every shown thread can be focused; it can be
  answered while the review is open; an addressed one can be closed or reopened at any time, a resolved one
  reopened while the review is open.
\<close>

theorem mentor_thread_actions:
  assumes "\<And>t. t \<in> set ts \<Longrightarrow> status t \<noteq> None"
  shows "concat (map clicks (fst (thread_list flt review_open status ts)))
    = concat (map (\<lambda>t. FocusThread t
          # (if review_open then [ReplyTo t] else [])
          @ (if mt_state t = ''ADDRESSED'' then [TransitionTo t ''RESOLVED'', TransitionTo t ''REOPENED'']
             else if mt_state t = ''RESOLVED'' \<and> review_open then [TransitionTo t ''REOPENED''] else []))
        (filter (\<lambda>t. flt = ''all'' \<or> mt_state t = flt
            \<or> flt = ''active'' \<and> mt_state t \<in> {''OPEN'', ''REOPENED'', ''ADDRESSED''}) ts))"
proof -
  have "snd (mentor_cards review_open status us)" if "set us \<subseteq> set ts" for us
    using that
  proof (induction us)
    case (Cons u us)
    then obtain st where "status u = Some st" using assms [of u] by auto
    with Cons show ?case by (simp add: Let_def split_beta)
  qed simp
  then have "snd (mentor_cards review_open status (filter (mentor_shown flt) ts))" by simp
  from mentor_cards_clicks [OF this] have "concat (map clicks (fst (thread_list flt review_open status ts)))
      = concat (map (\<lambda>t. FocusThread t # concat (map clicks (mentor_actions review_open t)))
          (filter (mentor_shown flt) ts))"
    by (simp add: thread_list_def Let_def)
  moreover have "mentor_shown flt = (\<lambda>t. flt = ''all'' \<or> mt_state t = flt
      \<or> flt = ''active'' \<and> mt_state t \<in> {''OPEN'', ''REOPENED'', ''ADDRESSED''})"
    by (rule ext) (auto simp: mentor_shown_def)
  ultimately show ?thesis by (simp only: clicks_mentor_actions)
qed

definition demo_mentor_thread :: mentor_thread where
  "demo_mentor_thread = \<lparr>mt_id = ''t1'', mt_type = ''COMMENT'', mt_state = ''ADDRESSED'',
     approved_workspace_version = None, mt_messages = [],
     mt_source = Some \<lparr>sa_file_id = ''f1'', sa_file_deleted = False, encoded_relative_start = Some ''AQ=='',
       encoded_relative_end = Some ''Aw=='', quoted_text = ''bc''\<rparr>,
     mt_pdf = None\<rparr>"

theorem mentor_thread_actions_witness:
  "concat (map clicks (fst (thread_list ''active'' False (\<lambda>_. Some []) [demo_mentor_thread])))
    = [FocusThread demo_mentor_thread, TransitionTo demo_mentor_thread ''RESOLVED'',
       TransitionTo demo_mentor_thread ''REOPENED'']"
  by (subst mentor_thread_actions) (simp_all add: demo_mentor_thread_def)

text \<open>
  A thread on the open file whose document is loaded is shown as unchanged only if its range still carries
  the text that was quoted.
\<close>

theorem mappingStatus_truthful:
  assumes "mappingStatus version (Some f) (Some quote) t = Some st" "st \<noteq> ''SOURCE_CHANGED''"
    and "mt_source t = Some a" "sa_file_id a = f" "\<not> sa_file_deleted a" "mt_type t \<noteq> ''PAPER_APPROVAL''"
  shows "quote a = Quoted (quoted_text a)"
  using assms by (auto simp: mappingStatus_def Let_def split: quoted.splits if_splits)

theorem mappingStatus_truthful_witness:
  "mappingStatus None (Some ''f1'') (Some (\<lambda>_. Quoted ''bc'')) demo_mentor_thread = Some ''Source linked'' \<and>
     (\<lambda>_. Quoted ''bc'') (the (mt_source demo_mentor_thread)) = Quoted (quoted_text (the (mt_source demo_mentor_thread)))"
proof
  show st: "mappingStatus None (Some ''f1'') (Some (\<lambda>_. Quoted ''bc'')) demo_mentor_thread = Some ''Source linked''"
    by (simp add: mappingStatus_def demo_mentor_thread_def)
  show "(\<lambda>_. Quoted ''bc'') (the (mt_source demo_mentor_thread)) = Quoted (quoted_text (the (mt_source demo_mentor_thread)))"
    by (rule mappingStatus_truthful [OF st]) (simp_all add: demo_mentor_thread_def)
qed

end
