(* ===== verification/MentorPage.thy ===== *)
theory MentorPage
  imports MentorData FileTree AsyncLogic
begin

text \<open>
  The state of the mentor's page (\<^verbatim>\<open>services/server/frontend/review.js\<close>): the object \<open>model\<close>, the controls, the
  sessions of the class \<open>ReadOnlySession\<close>, and the functions that do not wait.

  A Yjs document is determined by the updates applied to it, so a document is that list; its text, the
  encoding of a position and the resolution of an encoded one are fields that nothing changes, and so is the
  rounding of the platform's numbers. In texts three full stops stand for an ellipsis and plain quotes for
  curly ones. The identity of the object \<open>pendingAnchor\<close>, which the code compares, is a number.
\<close>

section \<open>Sessions\<close>

record join =
  jn_access :: jsstr
  jn_epoch :: nat

text \<open>
  \<open>rd_open\<close>: the socket still delivers messages. \<open>rd_updates\<close> is the shared text, once there is one;
  \<open>rd_loaded\<close> says that \<open>doc\<close> is not \<open>null\<close>.
\<close>

record reader =
  rd_paper :: jsstr
  rd_file :: pfile
  rd_open :: bool
  rd_metadata :: "join option"
  rd_initial :: "byte list option"
  rd_buffer :: "byte list list"
  rd_updates :: "byte list list option"
  rd_loaded :: bool
  rd_destroyed :: bool
  rd_ready :: bool

definition new_reader :: "jsstr \<Rightarrow> pfile \<Rightarrow> reader" where
  "new_reader p f = \<lparr>rd_paper = p, rd_file = f, rd_open = True, rd_metadata = None, rd_initial = None,
     rd_buffer = [], rd_updates = None, rd_loaded = False, rd_destroyed = False, rd_ready = False\<rparr>"

definition destroy_reader :: "reader \<Rightarrow> reader" where
  "destroy_reader r = r\<lparr>rd_destroyed := True, rd_open := False, rd_loaded := False\<rparr>"

text \<open>What \<open>initialize\<close> does to a session that may load, and a frame with a remote update.\<close>

definition load_reader :: "byte list \<Rightarrow> reader \<Rightarrow> reader" where
  "load_reader first r =
     r\<lparr>rd_updates := Some (first # rd_buffer r), rd_loaded := True, rd_buffer := [], rd_ready := True\<rparr>"

definition remote_frame :: "byte list \<Rightarrow> reader \<Rightarrow> reader" where
  "remote_frame u r =
     (if rd_loaded r then r\<lparr>rd_updates := map_option (\<lambda>us. us @ [u]) (rd_updates r)\<rparr>
      else r\<lparr>rd_buffer := rd_buffer r @ [u]\<rparr>)"

section \<open>The page\<close>

datatype mctl =
    Rv_reviewContext | Rv_liveStatus | Rv_reviewTitle | Rv_reviewSummary | Rv_buildStatus | Rv_compileReview
  | Rv_csvExport | Rv_printExport | Rv_sourceSelection | Rv_reviewSelection | Rv_previousPage | Rv_pageLabel
  | Rv_nextPage | Rv_zoomOut | Rv_zoomLabel | Rv_zoomIn | Rv_pdfState | Rv_reviewPopover | Rv_anchorSummary
  | Rv_createSuggestion | Rv_reviewGateBadge | Rv_mentorReviewDrawer

datatype pane = EmptyPane | OpeningPane | EditorPane nat

record reader_view =
  rv_reader :: nat
  rv_latex :: bool
  rv_from :: nat
  rv_to :: nat

record loaded_pdf =
  lp_build :: jsstr
  lp_pages :: nat

record mentor =
  papers :: "assigned list"
  paper :: "assigned option"
  detail :: "paper_detail option"
  files :: "pfile list"
  file_shown :: "pfile option"
  rounds :: "round list"
  threads :: "mentor_thread list"
  reviewOpen :: bool
  currentReviewRound :: "jsstr option"
  threadFilter :: jsstr
  collaboration :: "nat option"
  readers :: "reader list"
  view :: "reader_view option"
  pendingAnchor :: "(nat \<times> pending_anchor) option"
  anchor_count :: nat
  pendingAnchorSummary :: "jsstr option"
  pdf :: "loaded_pdf option"
  pdfBuildId :: "jsstr option"
  page :: nat
  scale :: rat
  viewport :: "(rat \<times> rat) option"
  renderTask :: "nat option"
  render_count :: nat
  dragStart :: "(rat \<times> rat) option"
  suppressSelection :: bool
  text_of :: "mctl \<Rightarrow> jsstr"
  is_off :: "mctl \<Rightarrow> bool"
  is_hidden :: "mctl \<Rightarrow> bool"
  live_state :: jsstr
  reviewNotice :: "(jsstr \<times> bool) option"
  reviewEditor :: pane
  assignedPapers :: "assigned dom list"
  reviewFiles :: "pfile dom list"
  threadList :: "thread_action dom list"
  roundList :: "unit dom list"
  pdfOverlay :: "overlay list"
  pdfCanvas :: "int \<times> int"
  drawn :: "nat option"  \<comment> \<open>the page that was last put on the canvas\<close>
  threadMessage :: jsstr
  popoverAt :: "rat \<times> rat"
  due_papers :: nat  \<comment> \<open>calls of \<open>renderPapers\<close> that have not run yet\<close>
  y_text :: "byte list list \<Rightarrow> jsstr"
  y_position :: "byte list list \<Rightarrow> nat \<Rightarrow> byte list"
  y_resolve :: "byte list \<Rightarrow> nat \<times> byte list list \<Rightarrow> nat resolution"
  rounding :: "rat \<Rightarrow> rat"

text \<open>The page when the script starts, with the attributes of \<^verbatim>\<open>services/server/src/review.html\<close>.\<close>

definition mentor_init ::
  "(byte list list \<Rightarrow> jsstr) \<Rightarrow> (byte list list \<Rightarrow> nat \<Rightarrow> byte list)
     \<Rightarrow> (byte list \<Rightarrow> nat \<times> byte list list \<Rightarrow> nat resolution) \<Rightarrow> (rat \<Rightarrow> rat) \<Rightarrow> mentor" where
  "mentor_init yt yp yr rnd =
     \<lparr>papers = [], paper = None, detail = None, files = [], file_shown = None, rounds = [], threads = [],
      reviewOpen = False, currentReviewRound = None, threadFilter = ''active'', collaboration = None, readers = [],
      view = None, pendingAnchor = None, anchor_count = 0, pendingAnchorSummary = None, pdf = None,
      pdfBuildId = None, page = 1, scale = 1, viewport = None, renderTask = None, render_count = 0,
      dragStart = None, suppressSelection = False, text_of = (\<lambda>_. []),
      is_off = (\<lambda>c. c \<in> {Rv_compileReview, Rv_reviewSelection, Rv_csvExport, Rv_printExport, Rv_previousPage,
        Rv_nextPage, Rv_zoomOut, Rv_zoomIn}),
      is_hidden = (\<lambda>c. c \<in> {Rv_reviewPopover, Rv_mentorReviewDrawer}),
      live_state = ''synced'', reviewNotice = None, reviewEditor = EmptyPane, assignedPapers = [], reviewFiles = [],
      threadList = [], roundList = [], pdfOverlay = [], pdfCanvas = (0, 0), drawn = None, threadMessage = [],
      popoverAt = (0, 0), due_papers = 0, y_text = yt, y_position = yp, y_resolve = yr, rounding = rnd\<rparr>"

definition set_text :: "mctl \<Rightarrow> jsstr \<Rightarrow> mentor \<Rightarrow> mentor" where
  "set_text c t s = s\<lparr>text_of := (text_of s)(c := t)\<rparr>"

definition set_off :: "(mctl \<times> bool) list \<Rightarrow> mentor \<Rightarrow> mentor" where
  "set_off xs s = s\<lparr>is_off := foldl (\<lambda>f (c, b). f(c := b)) (is_off s) xs\<rparr>"

definition set_hidden :: "mctl \<Rightarrow> bool \<Rightarrow> mentor \<Rightarrow> mentor" where
  "set_hidden c b s = s\<lparr>is_hidden := (is_hidden s)(c := b)\<rparr>"

definition mentor_notice :: "jsstr \<Rightarrow> bool \<Rightarrow> mentor \<Rightarrow> mentor" where
  "mentor_notice m failed s = s\<lparr>reviewNotice := Some (m, failed)\<rparr>"

definition clearNode :: "jsstr \<Rightarrow> 'a dom list" where
  "clearNode m = [empty_copy m]"

definition upd_reader :: "nat \<Rightarrow> (reader \<Rightarrow> reader) \<Rightarrow> mentor \<Rightarrow> mentor" where
  "upd_reader i f s =
     (if i < length (readers s) then s\<lparr>readers := (readers s)[i := f (readers s ! i)]\<rparr> else s)"

definition current_reader :: "mentor \<Rightarrow> (nat \<times> reader) option" where
  "current_reader s =
     (case collaboration s of None \<Rightarrow> None
      | Some i \<Rightarrow> if i < length (readers s) then Some (i, readers s ! i) else None)"

text \<open>The text that a view shows.\<close>

definition reader_text :: "mentor \<Rightarrow> nat \<Rightarrow> jsstr" where
  "reader_text s i =
     (if i < length (readers s) then case rd_updates (readers s ! i) of None \<Rightarrow> [] | Some us \<Rightarrow> y_text s us else [])"

section \<open>Papers, files and the source\<close>

definition paper_button :: "jsstr option \<Rightarrow> assigned \<Rightarrow> assigned dom" where
  "paper_button current p =
     with_child (text_elem ''small'' (nat_str (open_review_count p) @ '' open''))
       (button (as_name p) p (current = Some (as_id p)))"

text \<open>\<open>refreshPapers\<close> on its response.\<close>

definition show_assigned :: "assigned list \<Rightarrow> mentor \<Rightarrow> mentor" where
  "show_assigned ps s =
     (let p = map_option (\<lambda>p. case List.find (\<lambda>q. as_id q = as_id p) ps of Some q \<Rightarrow> q | None \<Rightarrow> p) (paper s)
      in s\<lparr>papers := ps, paper := p,
           assignedPapers := if ps = [] then clearNode ''No assigned Team Papers.''
             else [Elem ''div'' [(''class'', ''paper-list'')] None (map (paper_button (map_option as_id p)) ps)]\<rparr>)"

definition renderReviewFiles :: "mentor \<Rightarrow> mentor" where
  "renderReviewFiles s =
     s\<lparr>reviewFiles := if files s = [] then clearNode ''No live files.''
         else [Elem ''ul'' [(''class'', ''file-tree'')] None
           (map (\<lambda>f. Elem ''li'' [] None
              [button (fl_path f) f (map_option fl_id (file_shown s) = Some (fl_id f))]) (files s))]\<rparr>"

definition disposeSource :: "mentor \<Rightarrow> mentor" where
  "disposeSource s =
     (case collaboration s of None \<Rightarrow> s | Some i \<Rightarrow> upd_reader i destroy_reader s)\<lparr>view := None, collaboration := None\<rparr>"

definition disposePdf :: "mentor \<Rightarrow> mentor" where
  "disposePdf s =
     s\<lparr>pdf := None, renderTask := None, viewport := None, pdfCanvas := (0, 0), drawn := None, pdfOverlay := []\<rparr>"

definition review_summary :: "assigned \<Rightarrow> jsstr" where
  "review_summary p =
     as_status p @ middot @ nat_str (open_review_count p) @ '' open'' @ middot
     @ nat_str (blocking_review_count p) @ '' blocking''"

text \<open>\<open>openPaper\<close> up to its requests.\<close>

definition show_opening :: "assigned \<Rightarrow> mentor \<Rightarrow> mentor" where
  "show_opening p s =
     set_off [(Rv_compileReview, as_status p \<noteq> ''active''), (Rv_csvExport, False), (Rv_printExport, False)]
       (set_text Rv_csvExport (reviews_path (as_id p) @ ''/report.csv'')
         (set_text Rv_printExport (reviews_path (as_id p) @ ''/report.html'')
           (set_text Rv_reviewSummary (review_summary p)
             (set_text Rv_reviewTitle (as_name p) (set_text Rv_reviewContext (as_name p) s)))))"

definition leave_source :: "assigned option \<Rightarrow> mentor \<Rightarrow> mentor" where
  "leave_source p s = (disposePdf (disposeSource s))\<lparr>paper := p, file_shown := None, pendingAnchor := None\<rparr>"

definition first_file :: "mentor \<Rightarrow> pfile option" where
  "first_file s =
     opt_or (List.find (\<lambda>f. Some (fl_path f) = Option.bind (detail s) pd_main) (files s))
       (case files s of [] \<Rightarrow> None | f # _ \<Rightarrow> Some f)"

text \<open>\<open>openFile\<close> on its response, up to the new session.\<close>

definition show_source :: "pfile \<Rightarrow> mentor \<Rightarrow> mentor" where
  "show_source f s = (renderReviewFiles (s\<lparr>file_shown := Some f\<rparr>))\<lparr>reviewEditor := OpeningPane\<rparr>"

definition start_reader :: "jsstr \<Rightarrow> pfile \<Rightarrow> mentor \<Rightarrow> mentor" where
  "start_reader p f s =
     set_text Rv_liveStatus ''Connecting...''
       (s\<lparr>readers := readers s @ [new_reader p f], collaboration := Some (length (readers s))\<rparr>)"

definition mountReadOnlyEditor :: "nat \<Rightarrow> bool \<Rightarrow> mentor \<Rightarrow> mentor" where
  "mountReadOnlyEditor i latex s =
     s\<lparr>reviewEditor := EditorPane i,
       view := Some \<lparr>rv_reader = i, rv_latex = latex, rv_from = 0, rv_to = 0\<rparr>\<rparr>"

definition live :: "mentor \<Rightarrow> mentor" where
  "live s = (set_text Rv_liveStatus (''Live'' @ middot @ ''read only'') s)\<lparr>live_state := ''synced''\<rparr>"

definition initialize :: "nat \<Rightarrow> mentor \<Rightarrow> mentor" where
  "initialize i s =
     (if i < length (readers s) then
        (let r = readers s ! i
         in case (rd_metadata r, rd_initial r) of
              (Some j, Some first) \<Rightarrow>
                if rd_loaded r then s
                else if jn_access j \<noteq> ''read_only''
                then upd_reader i destroy_reader
                       (mentor_notice ''Mentor transport did not enforce read-only access.'' True s)
                else live (mountReadOnlyEditor i (js_endsWith (fl_path (rd_file r)) ''.tex'')
                       (upd_reader i (load_reader first) s))
            | _ \<Rightarrow> s)
      else s)"

text \<open>The \<open>close\<close> and \<open>error\<close> listeners of a socket.\<close>

definition socket_closes :: "nat \<Rightarrow> mentor \<Rightarrow> mentor" where
  "socket_closes i s =
     (if i < length (readers s) \<and> \<not> rd_destroyed (readers s ! i)
      then (set_text Rv_liveStatus ''Disconnected'' (upd_reader i (\<lambda>r. r\<lparr>rd_open := False\<rparr>) s))\<lparr>live_state := ''error''\<rparr>
      else s)"

definition socket_fails :: "mentor \<Rightarrow> mentor" where
  "socket_fails s = (set_text Rv_liveStatus ''Read-only connection failed'' s)\<lparr>live_state := ''error''\<rparr>"

section \<open>Threads and rounds\<close>

definition reader_quote :: "mentor \<Rightarrow> (mentor_anchor \<Rightarrow> quoted) option" where
  "reader_quote s =
     (case current_reader s of None \<Rightarrow> None
      | Some (i, r) \<Rightarrow>
          (case rd_updates r of None \<Rightarrow> None
           | Some us \<Rightarrow>
               if \<not> rd_loaded r then None
               else Some (\<lambda>a. case anchor_range (y_resolve s) (i, us) i (source_anchor.truncate a) of
                      Inl u \<Rightarrow> Undecodable
                    | Inr None \<Rightarrow> NoRange
                    | Inr (Some g) \<Rightarrow> Quoted (js_slice (range_from g) (range_to g) (y_text s us)))))"

definition status_of :: "mentor \<Rightarrow> mentor_thread \<Rightarrow> jsstr option" where
  "status_of s = mappingStatus (map_option pd_version (detail s)) (map_option fl_id (file_shown s)) (reader_quote s)"

text \<open>\<open>renderThreads\<close>, and whether it ran to its end.\<close>

definition renderThreads :: "mentor \<Rightarrow> mentor \<times> bool" where
  "renderThreads s =
     (let (cards, ok) = thread_list (threadFilter s) (reviewOpen s) (status_of s) (threads s)
      in (s\<lparr>threadList := cards\<rparr>, ok))"

definition show_overlays :: "mentor \<Rightarrow> mentor" where
  "show_overlays s =
     s\<lparr>pdfOverlay := renderOverlays (rounding s) (viewport s) (page s) (threads s) (map_option snd (pendingAnchor s))\<rparr>"

text \<open>The popover is placed for the sizes of popover and window.\<close>

definition showReviewPopover :: "rat \<Rightarrow> rat \<Rightarrow> jsstr \<Rightarrow> rat \<times> rat \<Rightarrow> rat \<times> rat \<Rightarrow> mentor \<Rightarrow> mentor" where
  "showReviewPopover x y summary popover window s =
     (case pendingAnchor s of None \<Rightarrow> s
      | Some (k, a) \<Rightarrow>
          if \<not> reviewOpen s then s
          else (set_hidden Rv_reviewPopover False (set_hidden Rv_createSuggestion (pn_source a = None)
                  (set_text Rv_anchorSummary summary s)))
                 \<lparr>popoverAt := (max 8 (min x (fst window - fst popover - 8)),
                                max 8 (min y (snd window - snd popover - 8)))\<rparr>)"

definition hideComposer :: "bool \<Rightarrow> mentor \<Rightarrow> mentor" where
  "hideComposer clearAnchor s =
     (let s1 = (set_hidden Rv_reviewPopover True s)\<lparr>threadMessage := []\<rparr>
      in if clearAnchor
         then show_overlays (set_off [(Rv_reviewSelection, True)]
                (s1\<lparr>pendingAnchor := None, pendingAnchorSummary := None\<rparr>))
         else s1)"

definition round_row :: "round \<Rightarrow> unit dom" where
  "round_row r = Elem ''div'' [(''class'', ''round-row'')] None
     [text_elem ''span'' (''Round '' @ nat_str (round_number r) @ middot @ underscores_to_spaces (round_status r))]"

definition renderRounds :: "mentor \<Rightarrow> mentor" where
  "renderRounds s =
     (let s1 = (set_text Rv_reviewGateBadge (if reviewOpen s then ''Review open'' else ''Waiting for Team Review'') s)
            \<lparr>roundList := if rounds s = [] then clearNode ''This paper has not been sent for review.''
               else map round_row (rounds s)\<rparr>
      in if reviewOpen s then s1 else hideComposer True s1)"

definition take_rounds :: "round_list \<Rightarrow> mentor \<Rightarrow> mentor" where
  "take_rounds rl s =
     renderRounds (s\<lparr>rounds := rl_rounds rl, reviewOpen := rl_open rl, currentReviewRound := rl_current rl\<rparr>)"

section \<open>The PDF\<close>

definition build_label :: "build_record \<Rightarrow> jsstr" where
  "build_label b =
     (let has_pdf = truthy (current_build_id b)
      in if truthy (active_build_id b) then if has_pdf then ''Rebuilding...'' else ''Building...''
         else if latest_status b = Some ''failed''
         then if has_pdf then ''Failed'' @ middot @ ''showing last good'' else ''Failed''
         else if has_pdf then ''Current'' else ''No PDF yet'')"

definition setPdfControls :: "bool \<Rightarrow> mentor \<Rightarrow> mentor" where
  "setPdfControls enabled =
     set_off [(Rv_previousPage, \<not> enabled), (Rv_nextPage, \<not> enabled), (Rv_zoomOut, \<not> enabled), (Rv_zoomIn, \<not> enabled)]"

text \<open>\<open>renderPage\<close>: once the page is there, and once it is drawn; the latter throws without a document.\<close>

definition start_render :: "nat \<Rightarrow> (rat \<Rightarrow> rat \<times> rat) \<Rightarrow> mentor \<Rightarrow> mentor" where
  "start_render n getViewport s =
     (let sz = getViewport (scale s)
      in s\<lparr>viewport := Some sz, pdfCanvas := (ceiling (fst sz), ceiling (snd sz)), drawn := Some n,
           renderTask := Some (render_count s), render_count := render_count s + 1\<rparr>)"

definition percent :: "rat \<Rightarrow> jsstr" where
  "percent x = nat_str (nat (floor (x * 100 + 1 / 2))) @ ''%''"

definition show_page :: "mentor \<Rightarrow> mentor option" where
  "show_page s = map_option (\<lambda>d.
     show_overlays (set_off [(Rv_previousPage, page s \<le> 1), (Rv_nextPage, lp_pages d \<le> page s)]
       (set_text Rv_zoomLabel (percent (scale s))
         (set_text Rv_pageLabel (nat_str (page s) @ '' / '' @ nat_str (lp_pages d)) s)))) (pdf s)"

definition set_anchor :: "pending_anchor \<Rightarrow> mentor \<Rightarrow> mentor" where
  "set_anchor a s = s\<lparr>pendingAnchor := Some (anchor_count s, a), anchor_count := anchor_count s + 1\<rparr>"

section \<open>Lemmas\<close>

text \<open>The popover stays in the window, as far as the window has room for it.\<close>

lemma popover_in_window:
  assumes "fst popover + 16 \<le> fst window" "snd popover + 16 \<le> snd window"
    and "s' = showReviewPopover x y t popover window s" "is_hidden s Rv_reviewPopover" "\<not> is_hidden s' Rv_reviewPopover"
  shows "8 \<le> fst (popoverAt s') \<and> fst (popoverAt s') + fst popover + 8 \<le> fst window \<and>
    8 \<le> snd (popoverAt s') \<and> snd (popoverAt s') + snd popover + 8 \<le> snd window"
  using assms by (auto simp: showReviewPopover_def set_hidden_def set_text_def split: option.splits if_splits)

end
