(* ===== verification/MentorCalls.thy ===== *)
theory MentorCalls
  imports MentorPage
begin

text \<open>
  The asynchronous functions and the listeners of \<^verbatim>\<open>services/server/frontend/review.js\<close>, over \<open>MentorPage\<close>.
  Requests go to the server, to pdf.js (a document, one of its pages, a rendering), to the browser's digest, and
  to the promise \<open>ready\<close> of a session. A rendering that is cancelled rejects with an error of its own name, which
  the code sorts out; here it is the answer \<open>BCancelled\<close>. A call of \<open>renderPapers\<close>, which nothing waits for, is
  noted in \<open>due_papers\<close> and runs as the event \<open>PapersDue\<close>.
\<close>

section \<open>Requests and answers\<close>

datatype mreq =
    MApi mentor_api | ReaderReady nat | Digest jsstr | GetDocument jsstr | GetPage jsstr nat | Render nat

datatype (plugins only: size) manswer =
    BUnit | BPapers "assigned list" | BDetail paper_detail | BFiles "pfile list" | BFile pfile | BRounds round_list
  | BThreads "mentor_thread list" | BMapped mapped | BBuild build_state | BDigest "byte list" | BPages nat
  | BPage "rat \<Rightarrow> rat \<times> rat" | BCancelled | BRejected api_error

type_synonym 'r mcall = "(mentor, mreq, manswer, 'r) async"

definition bs_papers where "bs_papers v = (case v of BPapers x \<Rightarrow> Some x | _ \<Rightarrow> None)"
definition bs_detail where "bs_detail v = (case v of BDetail x \<Rightarrow> Some x | _ \<Rightarrow> None)"
definition bs_files where "bs_files v = (case v of BFiles x \<Rightarrow> Some x | _ \<Rightarrow> None)"
definition bs_file where "bs_file v = (case v of BFile x \<Rightarrow> Some x | _ \<Rightarrow> None)"
definition bs_rounds where "bs_rounds v = (case v of BRounds x \<Rightarrow> Some x | _ \<Rightarrow> None)"
definition bs_threads where "bs_threads v = (case v of BThreads x \<Rightarrow> Some x | _ \<Rightarrow> None)"
definition bs_mapped where "bs_mapped v = (case v of BMapped x \<Rightarrow> Some x | _ \<Rightarrow> None)"
definition bs_build_of where "bs_build_of v = (case v of BBuild x \<Rightarrow> Some x | _ \<Rightarrow> None)"
definition bs_digest where "bs_digest v = (case v of BDigest x \<Rightarrow> Some x | _ \<Rightarrow> None)"
definition bs_pages where "bs_pages v = (case v of BPages x \<Rightarrow> Some x | _ \<Rightarrow> None)"
definition bs_page where "bs_page v = (case v of BPage x \<Rightarrow> Some x | _ \<Rightarrow> None)"

lemmas manswer_defs = bs_papers_def bs_detail_def bs_files_def bs_file_def bs_rounds_def bs_threads_def
  bs_mapped_def bs_build_of_def bs_digest_def bs_pages_def bs_page_def

definition m_say :: "jsstr \<Rightarrow> unit mcall" where
  "m_say m = act (mentor_notice m False)"

definition m_complain :: "api_error \<Rightarrow> unit mcall" where
  "m_complain e = act (mentor_notice (err_message e) True)"

definition m_warn :: "jsstr \<Rightarrow> unit mcall" where
  "m_warn m = act (mentor_notice m True)"

text \<open>
  \<open>await Promise.all(ms)\<close>. A member that rejects does not stop the others, which go on changing the page; the
  whole rejects with the first rejection, in the order of the members, when all are settled.
\<close>

fun first_rejected :: "manswer list \<Rightarrow> api_error option" where
  "first_rejected [] = None"
| "first_rejected (BRejected e # vs) = Some e"
| "first_rejected (v # vs) = first_rejected vs"

definition member :: "unit mcall \<Rightarrow> (mentor, mreq, manswer) prog" where
  "member m = spawn id (attempt (bind m (\<lambda>_. ret BUnit)) (\<lambda>e. ret (BRejected e)))"

definition await_all :: "unit mcall list \<Rightarrow> unit mcall" where
  "await_all ms = bind (promise_all (map member ms))
     (\<lambda>vs. case first_rejected vs of None \<Rightarrow> ret () | Some e \<Rightarrow> throw e)"

text \<open>Calls of which none rejects, started together.\<close>

definition together :: "unit mcall list \<Rightarrow> unit mcall" where
  "together ms = bind (promise_all (map (spawn (\<lambda>_. BUnit)) ms)) (\<lambda>_. ret ())"

section \<open>Papers\<close>

definition refreshAssigned :: "unit mcall" where
  "refreshAssigned = bind (fetch (MApi MPapers) bs_papers) (\<lambda>ps. act (show_assigned ps))"

definition renderAssigned :: "mentor \<Rightarrow> mentor" where
  "renderAssigned s = s\<lparr>due_papers := due_papers s + 1\<rparr>"

definition papers_due :: "unit mcall" where
  "papers_due = look (\<lambda>s. if due_papers s = 0 then ret ()
     else bind (act (\<lambda>s. s\<lparr>due_papers := due_papers s - 1\<rparr>)) (\<lambda>_. attempt refreshAssigned m_complain))"

section \<open>Threads and rounds\<close>

definition render_threads :: "unit mcall" where
  "render_threads = look (\<lambda>s. bind (act (\<lambda>s. fst (renderThreads s)))
     (\<lambda>_. if snd (renderThreads s) then ret () else throw type_error))"

definition refreshThreads :: "unit mcall" where
  "refreshThreads = need paper (\<lambda>p. bind (fetch (MApi (MThreads (as_id p))) bs_threads)
     (\<lambda>ts. steps [act (\<lambda>s. s\<lparr>threads := ts\<rparr>), render_threads, act show_overlays]))"

definition refreshRounds :: "unit mcall" where
  "refreshRounds = need paper (\<lambda>p. bind (fetch (MApi (MRounds (as_id p))) bs_rounds) (\<lambda>rl. act (take_rounds rl)))"

definition refreshPaperDetail :: "unit mcall" where
  "refreshPaperDetail = look (\<lambda>s. case paper s of None \<Rightarrow> ret ()
     | Some p \<Rightarrow> attempt (bind (fetch (MApi (MPaper (as_id p))) bs_detail)
         (\<lambda>d. steps [act (\<lambda>s. s\<lparr>detail := Some d\<rparr>), render_threads])) (\<lambda>e. ret ()))"

section \<open>The PDF\<close>

definition renderPage :: "unit mcall" where
  "renderPage = look (\<lambda>s. case pdf s of None \<Rightarrow> ret ()
     | Some d \<Rightarrow> bind (fetch (GetPage (lp_build d) (page s)) bs_page) (\<lambda>getViewport.
         bind (act (start_render (page s) getViewport)) (\<lambda>_.
           look (\<lambda>s1. steps
             [attempt (post (Render (render_count s1 - 1)))
                (\<lambda>e. bind (act (\<lambda>s. s\<lparr>renderTask := None\<rparr>)) (\<lambda>_. throw e)),
              act (\<lambda>s. s\<lparr>renderTask := None\<rparr>),
              try_act show_page]))))"

definition take_pdf :: "jsstr \<Rightarrow> nat \<Rightarrow> mentor \<Rightarrow> mentor" where
  "take_pdf b n s =
     setPdfControls True (set_text Rv_pdfState (''Current exact build '' @ b)
       (s\<lparr>pdf := Some \<lparr>lp_build = b, lp_pages = n\<rparr>, page := 1\<rparr>))"

definition loadPdf :: "jsstr \<Rightarrow> jsstr \<Rightarrow> unit mcall" where
  "loadPdf url b =
     bind (act (\<lambda>s. set_text Rv_pdfState ''Loading current PDF...'' ((disposePdf s)\<lparr>pdfBuildId := Some b\<rparr>))) (\<lambda>_.
       attempt
         (bind (fetch (GetDocument (url @ ''?build='' @ b)) bs_pages)
            (\<lambda>n. steps [act (take_pdf b n), renderPage]))
         (\<lambda>e. act (\<lambda>s. setPdfControls False (set_text Rv_pdfState (''PDF failed: '' @ err_message e) s))))"

definition refreshBuild :: "unit mcall" where
  "refreshBuild = look (\<lambda>s. case paper s of None \<Rightarrow> ret ()
     | Some p \<Rightarrow> bind (fetch (MApi (MBuildStatus (as_id p))) bs_build_of) (\<lambda>st.
         bind (act (set_text Rv_buildStatus (build_label (bs_build st)))) (\<lambda>_.
           look (\<lambda>s. if truthy (current_build_id (bs_build st)) \<and> current_build_id (bs_build st) \<noteq> pdfBuildId s
                      then loadPdf (bs_url st) (the (current_build_id (bs_build st))) else ret ()))))"

definition new_place :: "mapped \<Rightarrow> jsstr \<Rightarrow> nat \<Rightarrow> rectangle \<Rightarrow> new_placement" where
  "new_place m file_id n r =
     \<lparr>pl_page = n, normalized_rectangles = [r], pl_status = mapped_status m, np_file = Some file_id,
      np_line = mapped_line m, np_column = mapped_column m\<rparr>"

definition pdfAnchorFromMapping :: "mapped \<Rightarrow> new_placement option mcall" where
  "pdfAnchorFromMapping m = look (\<lambda>s.
     case (pdf s, mapped_page m, mapped_x m) of
       (Some d, Some n, Some x) \<Rightarrow>
         if n = 0 then ret None
         else bind (if page s \<noteq> n then bind (act (\<lambda>s. s\<lparr>page := n\<rparr>)) (\<lambda>_. renderPage) else ret ()) (\<lambda>_.
           need viewport (\<lambda>sz. look (\<lambda>s.
             let rnd = rounding s; baseWidth = rnd (fst sz / scale s); baseHeight = rnd (snd sz / scale s)
             in need file_shown (\<lambda>f.
                  ret (Some (new_place m (fl_id f) n (projected_rectangle rnd baseWidth baseHeight m x)))))))
     | _ \<Rightarrow> ret None)"

section \<open>Opening\<close>

definition openReviewFile :: "pfile \<Rightarrow> unit mcall" where
  "openReviewFile f = bind (act disposeSource) (\<lambda>_. need paper (\<lambda>p.
     bind (fetch (MApi (MFile (as_id p) (fl_id f))) bs_file) (\<lambda>g.
       bind (act (show_source g)) (\<lambda>_.
         need detail (\<lambda>d. bind (act (start_reader (pd_paper d) g)) (\<lambda>_.
           need collaboration (\<lambda>i. post (ReaderReady i))))))))"

definition paper_and_files :: "manswer list \<Rightarrow> unit mcall" where
  "paper_and_files vs =
     (case vs of
        [a, b] \<Rightarrow>
          (case bs_detail a of None \<Rightarrow> throw type_error
           | Some d \<Rightarrow> bind (act (\<lambda>s. s\<lparr>detail := Some d\<rparr>)) (\<lambda>_.
               case bs_files b of None \<Rightarrow> throw type_error
               | Some fs \<Rightarrow> act (\<lambda>s. renderReviewFiles (renderAssigned (s\<lparr>files := fs\<rparr>)))))
      | _ \<Rightarrow> throw type_error)"

definition openReviewPaper :: "assigned option \<Rightarrow> unit mcall" where
  "openReviewPaper po = bind (act (leave_source po)) (\<lambda>_.
     case po of None \<Rightarrow> throw type_error
     | Some p \<Rightarrow> steps
         [act (show_opening p),
          bind (promise_all [spawn id (request (MApi (MPaper (as_id p)))),
                             spawn id (request (MApi (MFiles (as_id p))))]) paper_and_files,
          look (\<lambda>s. case first_file s of None \<Rightarrow> ret () | Some f \<Rightarrow> openReviewFile f),
          await_all [refreshThreads, refreshRounds, refreshBuild]])"

definition reopenReviewPaper :: "unit mcall" where
  "reopenReviewPaper = look (\<lambda>s. openReviewPaper (paper s))"

section \<open>Messages of a session\<close>

datatype server_message =
    JoinAccepted join | RemoteDurable | ReloadRequired | PaperEpochChanged | PolicyChanged "jsstr option"
  | ServerError "jsstr option" | OtherText | Binary "byte list"

definition INITIAL_FRAME :: byte where "INITIAL_FRAME = 0x10"
definition REMOTE_FRAME :: byte where "REMOTE_FRAME = 0x11"

definition receive_binary :: "nat \<Rightarrow> byte list \<Rightarrow> mentor \<Rightarrow> mentor" where
  "receive_binary i bytes s =
     (case bytes of [] \<Rightarrow> s
      | b # bs \<Rightarrow>
          if b = INITIAL_FRAME then initialize i (upd_reader i (\<lambda>r. r\<lparr>rd_initial := Some bs\<rparr>) s)
          else if b = REMOTE_FRAME then upd_reader i (remote_frame bs) s else s)"

fun on_message :: "nat \<Rightarrow> server_message \<Rightarrow> unit mcall" where
  "on_message i (JoinAccepted j) = act (\<lambda>s. initialize i (upd_reader i (\<lambda>r. r\<lparr>rd_metadata := Some j\<rparr>) s))"
| "on_message i RemoteDurable = bind (act (set_text Rv_liveStatus (''Live'' @ middot @ ''read only''))) (\<lambda>_. refreshPaperDetail)"
| "on_message i ReloadRequired = m_warn ''The selected file was removed.''"
| "on_message i PaperEpochChanged =
     bind (m_warn ''The Team Leader changed the paper version; reloading.'') (\<lambda>_. reopenReviewPaper)"
| "on_message i (PolicyChanged m) = bind (m_warn (js_or m ''File policy changed; reload.'')) (\<lambda>_. reopenReviewPaper)"
| "on_message i (ServerError m) = m_warn (js_or m ''Read-only collaboration failed.'')"
| "on_message i OtherText = ret ()"
| "on_message i (Binary bytes) = act (receive_binary i bytes)"

text \<open>A socket delivers messages until it is closed.\<close>

definition receiveMessage :: "nat \<Rightarrow> server_message \<Rightarrow> unit mcall" where
  "receiveMessage i m = look (\<lambda>s. if i < length (readers s) \<and> rd_open (readers s ! i) then on_message i m else ret ())"

section \<open>Selecting source\<close>

definition join_epoch :: "mentor \<Rightarrow> nat option" where
  "join_epoch s = Option.bind (current_reader s) (\<lambda>(i, r). map_option jn_epoch (rd_metadata r))"

definition shared_text :: "mentor \<Rightarrow> byte list list option" where
  "shared_text s = Option.bind (current_reader s) (\<lambda>(i, r). rd_updates r)"

text \<open>
  The anchor of a range of \<open>text\<close> in the file \<open>f\<close>: the part before the hash is awaited and the part after, which
  reads the page again.
\<close>

definition anchor_of :: "jsstr \<Rightarrow> nat \<Rightarrow> nat \<Rightarrow> jsstr \<Rightarrow> new_source mcall" where
  "anchor_of file_id from to text = need shared_text (\<lambda>us. look (\<lambda>s0.
     bind (fetch (Digest (hash_context from to text)) bs_digest) (\<lambda>h.
       need detail (\<lambda>d. need paper (\<lambda>p. need join_epoch (\<lambda>epoch.
         ret \<lparr>ns_file = file_id, ns_start = y_position s0 us from, ns_end = y_position s0 us to,
              ns_quoted = js_slice from to text, ns_hash = hex_text h, ns_sequence = pd_version d,
              ns_version = current_version_id p, ns_epoch = epoch\<rparr>))))))"

definition nothing_selected :: "mentor \<Rightarrow> mentor" where
  "nothing_selected s =
     set_off [(Rv_reviewSelection, True)] (set_text Rv_sourceSelection ''Select text, then right-click to review'' s)"

definition gate_closed :: "mentor \<Rightarrow> mentor" where
  "gate_closed s =
     set_off [(Rv_reviewSelection, True)] (set_text Rv_sourceSelection ''Waiting for Team Review'' s)"

definition source_summary :: "pfile \<Rightarrow> jsstr \<Rightarrow> jsstr" where
  "source_summary f quote = ''Source: '' @ fl_path f @ middot @ ''\"'' @ take 80 quote @ ''\"''"

definition take_source :: "new_source \<Rightarrow> mentor \<Rightarrow> mentor" where
  "take_source a s =
     set_text Rv_sourceSelection (nat_str (length (ns_quoted a)) @ '' characters selected'')
       (set_anchor \<lparr>pn_source = Some a, pn_pdf = None\<rparr> s)"

definition source_selected :: "new_source \<Rightarrow> unit mcall" where
  "source_selected a = bind (act (take_source a)) (\<lambda>_. need file_shown (\<lambda>f.
     act (\<lambda>s. set_off [(Rv_reviewSelection, False)] (s\<lparr>pendingAnchorSummary := Some (source_summary f (ns_quoted a))\<rparr>))))"

text \<open>A projection is added to the anchor that it was asked for, if that is still the pending one.\<close>

definition add_projection :: "nat \<Rightarrow> new_placement option \<Rightarrow> mentor \<Rightarrow> mentor" where
  "add_projection k p s =
     (case pendingAnchor s of None \<Rightarrow> s
      | Some (k', a) \<Rightarrow> if k' = k then show_overlays (s\<lparr>pendingAnchor := Some (k', a\<lparr>pn_pdf := p\<rparr>)\<rparr>) else s)"

definition project_source :: "nat \<Rightarrow> nat \<Rightarrow> jsstr \<Rightarrow> unit mcall" where
  "project_source k from text =
     attempt (need paper (\<lambda>p. need file_shown (\<lambda>f.
       let (line, column) = line_at text from
       in bind (fetch (MApi (MMap (as_id p) (forward_body (fl_id f) line column))) bs_mapped)
            (\<lambda>m. bind (pdfAnchorFromMapping m) (\<lambda>q. act (add_projection k q))))))
       (\<lambda>e. ret ())"

text \<open>The selection is from \<open>from\<close> to \<open>to\<close> in \<open>text\<close>, the text of the view.\<close>

definition sourceSelected :: "nat \<Rightarrow> nat \<Rightarrow> jsstr \<Rightarrow> unit mcall" where
  "sourceSelected from to text = look (\<lambda>s.
     if from = to \<or> shared_text s = None then act nothing_selected
     else if \<not> reviewOpen s then act gate_closed
     else need file_shown (\<lambda>f. bind (anchor_of (fl_id f) from to text) (\<lambda>a.
       look (\<lambda>s. bind (source_selected a) (\<lambda>_. project_source (anchor_count s) from text)))))"

text \<open>The user selects, or CodeMirror moves the selection along with a remote change.\<close>

definition select_range :: "nat \<Rightarrow> nat \<Rightarrow> mentor \<Rightarrow> mentor" where
  "select_range from to s = s\<lparr>view := map_option (\<lambda>v. v\<lparr>rv_from := from, rv_to := to\<rparr>) (view s)\<rparr>"

definition user_selects :: "nat \<Rightarrow> nat \<Rightarrow> unit mcall" where
  "user_selects from to = look (\<lambda>s. case view s of None \<Rightarrow> ret ()
     | Some v \<Rightarrow> bind (act (select_range from to)) (\<lambda>_.
         if suppressSelection s then ret () else sourceSelected from to (reader_text s (rv_reader v))))"

section \<open>Selecting a region of the PDF\<close>

text \<open>\<open>anchorMappedLine\<close>.\<close>

definition mapped_range :: "nat \<Rightarrow> nat option \<Rightarrow> jsstr \<Rightarrow> nat \<times> nat" where
  "mapped_range number column text =
     (let ls = doc_lines text; n = min (max number 1) (length ls);
          line = ls ! (n - 1)
      in (min (ln_to line) (ln_from line + num_or column 0), ln_to line))"

definition open_if_other :: "pfile \<Rightarrow> unit mcall" where
  "open_if_other f = look (\<lambda>s. if map_option fl_id (file_shown s) \<noteq> Some (fl_id f) then openReviewFile f else ret ())"

definition anchorMappedLine :: "jsstr \<Rightarrow> mapped \<Rightarrow> new_source option mcall" where
  "anchorMappedLine file_id m = look (\<lambda>s. case List.find (\<lambda>f. fl_id f = file_id) (files s) of None \<Rightarrow> ret None
     | Some target \<Rightarrow> bind (open_if_other target) (\<lambda>_. need view (\<lambda>v. look (\<lambda>s.
         let text = reader_text s (rv_reader v);
             (from, to) = mapped_range (num_or (mapped_line m) 0) (mapped_column m) text
         in bind (anchor_of (fl_id target) from to text) (\<lambda>a. ret (Some a))))))"

definition unmapped :: mapped where
  "unmapped = \<lparr>mapped_page = None, mapped_x = None, mapped_y = 0, mapped_width = 0, mapped_height = 0,
     mapped_status = ''PDF_ONLY'', mapped_file_id = None, mapped_line = None, mapped_column = None\<rparr>"

definition nonzero :: "nat option \<Rightarrow> nat option" where
  "nonzero v = (if v = Some 0 then None else v)"

definition region_anchor :: "new_source option \<Rightarrow> rectangle \<Rightarrow> mapped \<Rightarrow> mentor \<Rightarrow> mentor" where
  "region_anchor a r m s =
     show_overlays ((set_anchor
       \<lparr>pn_source = a,
        pn_pdf = Some \<lparr>pl_page = page s, normalized_rectangles = [r], pl_status = mapped_status m,
          np_file = (if truthy (mapped_file_id m) then mapped_file_id m else None), np_line = nonzero (mapped_line m),
          np_column = mapped_column m\<rparr>\<rparr> s)
       \<lparr>pendingAnchorSummary := Some (''PDF page '' @ nat_str (page s) @ middot @ mapped_status m)\<rparr>)"

text \<open>The point that is mapped: the middle of the region, in points of the page.\<close>

definition region_middle :: "(rat \<Rightarrow> rat) \<Rightarrow> rat \<Rightarrow> rat \<Rightarrow> rat \<Rightarrow> rat \<Rightarrow> rat" where
  "region_middle rnd start extent pixels zoom = rnd (rnd (rnd (start + rnd (extent / 2)) * pixels) / zoom)"

text \<open>The \<open>pointerup\<close> listener, at a point of the overlay.\<close>

definition pointer_up :: "rat \<Rightarrow> rat \<Rightarrow> unit mcall" where
  "pointer_up x y = look (\<lambda>s. case (dragStart s, viewport s) of
       (Some (x0, y0), Some (w, h)) \<Rightarrow>
         (case normalizeRectangle (rounding s) \<lparr>x1 = x0, y1 = y0, x2 = x, y2 = y\<rparr> w h of
            Inl e \<Rightarrow> throw \<lparr>err_message = e, err_status = 0\<rparr>
          | Inr r \<Rightarrow> bind (act (\<lambda>s. s\<lparr>dragStart := None\<rparr>)) (\<lambda>_.
              if rwidth r < rounding s (5 / 1000) \<or> rheight r < rounding s (5 / 1000) then ret ()
              else if \<not> reviewOpen s then ret ()
              else bind
                (attempt (need paper (\<lambda>p. fetch (MApi (MMap (as_id p) (inverse_body (page s)
                    (region_middle (rounding s) (rx r) (rwidth r) w (scale s))
                    (region_middle (rounding s) (ry r) (rheight r) h (scale s))))) bs_mapped))
                  (\<lambda>e. ret unmapped)) (\<lambda>m.
                bind (if truthy (mapped_file_id m) then anchorMappedLine (the (mapped_file_id m)) m else ret None)
                  (\<lambda>a. act (region_anchor a r m)))))
     | _ \<Rightarrow> ret ())"

text \<open>The \<open>pointerdown\<close> listener.\<close>

definition pointer_down :: "rat \<Rightarrow> rat \<Rightarrow> mentor \<Rightarrow> mentor" where
  "pointer_down x y s = (if viewport s = None then s else s\<lparr>dragStart := Some (x, y)\<rparr>)"

section \<open>Annotations\<close>

definition refusal :: "jsstr \<Rightarrow> api_error" where
  "refusal m = \<lparr>err_message = m, err_status = 0\<rparr>"

definition createAnnotation :: "jsstr \<Rightarrow> unit mcall" where
  "createAnnotation type = look (\<lambda>s.
     let message = js_trim (threadMessage s); anchor = map_option snd (pendingAnchor s)
     in if \<not> reviewOpen s then throw (refusal ''This paper has not been sent for review.'')
        else if message = []
        then throw (refusal (if type = ''SUGGESTION'' then ''Suggestion text is required.'' else ''Comment text is required.''))
        else if type = ''SUGGESTION'' \<and> Option.bind anchor pn_source = None
        then throw (refusal ''Suggestions require a source selection.'')
        else need paper (\<lambda>p. steps
          [post (MApi (MCreateThread (as_id p) (annotation_body type message anchor))),
           act (hideComposer True),
           await_all [refreshThreads, refreshRounds],
           m_say ''Review annotation created.'']))"

text \<open>\<^const>\<open>None\<close> is a cancelled prompt.\<close>

definition reply :: "mentor_thread \<Rightarrow> jsstr option \<Rightarrow> unit mcall" where
  "reply t text =
     (if \<not> truthy text then ret ()
      else need paper (\<lambda>p. steps [post (MApi (MMessage (as_id p) (mt_id t) (the text))), refreshThreads]))"

definition transition :: "mentor_thread \<Rightarrow> jsstr \<Rightarrow> unit mcall" where
  "transition t st = need paper (\<lambda>p. steps
     [post (MApi (MTransition (as_id p) (mt_id t) st)), await_all [refreshThreads, refreshRounds]])"

section \<open>Going to a thread\<close>

text \<open>The dispatch throws without a view and for a range beyond its text, and then selections stay suppressed.\<close>

definition dispatch_selection :: "source_range \<Rightarrow> unit mcall" where
  "dispatch_selection r = bind (act (\<lambda>s. s\<lparr>suppressSelection := True\<rparr>)) (\<lambda>_. need view (\<lambda>v. look (\<lambda>s.
     if length (reader_text s (rv_reader v)) < range_to r then throw type_error
     else act (\<lambda>s. (select_range (range_from r) (range_to r) s)\<lparr>suppressSelection := False\<rparr>))))"

text \<open>The range of an anchor in the current session: \<^const>\<open>None\<close> when reading it throws.\<close>

definition thread_range :: "mentor_anchor \<Rightarrow> mentor \<Rightarrow> source_range option option" where
  "thread_range a s =
     (case current_reader s of None \<Rightarrow> None
      | Some (i, r) \<Rightarrow>
          (case anchor_range (y_resolve s) (i, case rd_updates r of None \<Rightarrow> [] | Some us \<Rightarrow> us) i (source_anchor.truncate a) of
             Inl u \<Rightarrow> None
           | Inr g \<Rightarrow> Some (if rd_loaded r then g else None)))"

definition project_thread :: "pfile \<Rightarrow> source_range \<Rightarrow> jsstr \<Rightarrow> unit mcall" where
  "project_thread f r text =
     (let (line, column) = line_at text (range_from r)
      in attempt (need paper (\<lambda>p.
           bind (fetch (MApi (MMap (as_id p) (forward_body (fl_id f) line column))) bs_mapped)
             (\<lambda>m. bind (pdfAnchorFromMapping m) (\<lambda>q. case q of None \<Rightarrow> ret ()
                | Some pl \<Rightarrow> act (\<lambda>s. show_overlays (set_anchor \<lparr>pn_source = None, pn_pdf = Some pl\<rparr> s))))))
           (\<lambda>e. ret ()))"

definition show_range :: "mentor_anchor \<Rightarrow> pfile \<Rightarrow> source_range \<Rightarrow> unit mcall" where
  "show_range a f r = bind (dispatch_selection r) (\<lambda>_. need view (\<lambda>v. look (\<lambda>s.
     let text = reader_text s (rv_reader v)
     in steps
       [if js_slice (range_from r) (range_to r) text \<noteq> quoted_text a
        then m_warn ''Source changed materially; historical context is retained.'' else ret (),
        project_thread f r text])))"

definition focus_source :: "mentor_anchor \<Rightarrow> unit mcall" where
  "focus_source a = look (\<lambda>s. case List.find (\<lambda>f. fl_id f = sa_file_id a) (files s) of None \<Rightarrow> ret ()
     | Some f \<Rightarrow> bind (open_if_other f) (\<lambda>_. need (thread_range a) (\<lambda>g. case g of
           None \<Rightarrow> m_warn ''Source anchor no longer resolves.''
         | Some r \<Rightarrow> show_range a f r)))"

definition focusThread :: "mentor_thread \<Rightarrow> unit mcall" where
  "focusThread t = steps
     [case mt_pdf t of None \<Rightarrow> ret ()
      | Some p \<Rightarrow> if pl_page p = 0 then ret ()
          else bind (act (\<lambda>s. s\<lparr>page := pl_page p\<rparr>)) (\<lambda>_. renderPage),
      case mt_source t of None \<Rightarrow> ret ()
      | Some a \<Rightarrow> if sa_file_deleted a then ret () else focus_source a]"

section \<open>Buttons and timers\<close>

text \<open>The context menu of the editor at a position of the text, and that of the overlay.\<close>

definition editor_menu :: "nat option \<Rightarrow> rat \<Rightarrow> rat \<Rightarrow> rat \<times> rat \<Rightarrow> rat \<times> rat \<Rightarrow> mentor \<Rightarrow> mentor" where
  "editor_menu pos x y popover window s =
     (case (pendingAnchor s, view s, pos) of
        (Some (k, a), Some v, Some n) \<Rightarrow>
          if reviewOpen s \<and> pn_source a \<noteq> None \<and> rv_from v \<noteq> rv_to v \<and> rv_from v \<le> n \<and> n \<le> rv_to v
          then showReviewPopover x y (case pendingAnchorSummary s of None \<Rightarrow> [] | Some t \<Rightarrow> t) popover window s else s
      | _ \<Rightarrow> s)"

definition overlay_menu :: "bool \<Rightarrow> rat \<Rightarrow> rat \<Rightarrow> rat \<times> rat \<Rightarrow> rat \<times> rat \<Rightarrow> mentor \<Rightarrow> mentor" where
  "overlay_menu on_pending x y popover window s =
     (if \<not> on_pending \<or> \<not> reviewOpen s then s
      else showReviewPopover x y (js_or (pendingAnchorSummary s) (''PDF page '' @ nat_str (page s))) popover window s)"

definition rat_or :: "rat option \<Rightarrow> rat \<Rightarrow> rat" where
  "rat_or v d = (case v of None \<Rightarrow> d | Some x \<Rightarrow> if x = 0 then d else x)"

definition review_selection ::
  "(rat \<times> rat) option \<Rightarrow> rat \<times> rat \<Rightarrow> rat \<times> rat \<Rightarrow> mentor \<Rightarrow> mentor" where
  "review_selection coordinates popover window s =
     (if pendingAnchor s = None \<or> \<not> truthy (pendingAnchorSummary s) \<or> view s = None then s
      else showReviewPopover (rat_or (map_option fst coordinates) (fst window / 2))
             (rat_or (map_option snd coordinates) 100) (the (pendingAnchorSummary s)) popover window s)"

definition escape :: "mentor \<Rightarrow> mentor" where
  "escape s = set_hidden Rv_mentorReviewDrawer True (hideComposer False s)"

definition pointer_outside :: "mentor \<Rightarrow> mentor" where
  "pointer_outside s = (if is_hidden s Rv_reviewPopover then s else hideComposer False s)"

definition compileReview :: "unit mcall" where
  "compileReview = attempt (steps
     [act (set_text Rv_buildStatus ''Building...''),
      need paper (\<lambda>p. post (MApi (MBuild (as_id p)))), refreshBuild]) m_complain"

definition previousPage :: "unit mcall" where
  "previousPage = look (\<lambda>s. if 1 < page s then bind (act (\<lambda>s. s\<lparr>page := page s - 1\<rparr>)) (\<lambda>_. renderPage) else ret ())"

definition nextPage :: "unit mcall" where
  "nextPage = need pdf (\<lambda>d. look (\<lambda>s.
     if page s < lp_pages d then bind (act (\<lambda>s. s\<lparr>page := page s + 1\<rparr>)) (\<lambda>_. renderPage) else ret ()))"

definition zoomOut :: "unit mcall" where
  "zoomOut = bind (act (\<lambda>s. s\<lparr>scale := max (1 / 2) (scale s - 1 / 4)\<rparr>)) (\<lambda>_. renderPage)"

definition zoomIn :: "unit mcall" where
  "zoomIn = bind (act (\<lambda>s. s\<lparr>scale := min 3 (scale s + 1 / 4)\<rparr>)) (\<lambda>_. renderPage)"

definition setThreadFilter :: "jsstr \<Rightarrow> unit mcall" where
  "setThreadFilter flt =
     (if flt = [] then ret () else bind (act (\<lambda>s. s\<lparr>threadFilter := flt\<rparr>)) (\<lambda>_. render_threads))"

text \<open>The interval of two seconds.\<close>

definition mentor_tick :: "unit mcall" where
  "mentor_tick = look (\<lambda>s. if paper s = None then ret ()
     else together [attempt refreshBuild (\<lambda>e. ret ()), attempt refreshAssigned (\<lambda>e. ret ())])"

section \<open>Events\<close>

datatype (plugins only: size) mentor_event =
    Loads | Ticks | PapersDue | ClickAssigned assigned | ClickReviewFile pfile | Message nat server_message
  | SocketCloses nat | SocketFails nat | Selects nat nat | SelectionMoves nat nat
  | EditorMenu "nat option" rat rat "rat \<times> rat" "rat \<times> rat" | OverlayMenu bool rat rat "rat \<times> rat" "rat \<times> rat"
  | ClickReviewSelection "(rat \<times> rat) option" "rat \<times> rat" "rat \<times> rat" | PointerDown rat rat | PointerUp rat rat
  | TypeMessage jsstr | ClickCancel | ClickCreate jsstr | ClickThread mentor_thread
  | ClickReplyTo mentor_thread "jsstr option" | ClickTransition mentor_thread jsstr | ClickThreadFilter jsstr
  | ToggleDrawer bool | PressEscape | PointerOutside | ClickCompileReview | ClickPreviousPage | ClickNextPage
  | ClickZoomOut | ClickZoomIn

primrec mentor_handler :: "mentor_event \<Rightarrow> unit mcall" where
  "mentor_handler Loads = attempt refreshAssigned m_complain"
| "mentor_handler Ticks = mentor_tick"
| "mentor_handler PapersDue = papers_due"
| "mentor_handler (ClickAssigned p) = openReviewPaper (Some p)"
| "mentor_handler (ClickReviewFile f) = openReviewFile f"
| "mentor_handler (Message i m) = receiveMessage i m"
| "mentor_handler (SocketCloses i) = act (socket_closes i)"
| "mentor_handler (SocketFails i) = act socket_fails"
| "mentor_handler (Selects from to) = user_selects from to"
| "mentor_handler (SelectionMoves from to) = act (select_range from to)"
| "mentor_handler (EditorMenu n x y p w) = act (editor_menu n x y p w)"
| "mentor_handler (OverlayMenu b x y p w) = act (overlay_menu b x y p w)"
| "mentor_handler (ClickReviewSelection c p w) = act (review_selection c p w)"
| "mentor_handler (PointerDown x y) = act (pointer_down x y)"
| "mentor_handler (PointerUp x y) = pointer_up x y"
| "mentor_handler (TypeMessage t) = act (\<lambda>s. s\<lparr>threadMessage := t\<rparr>)"
| "mentor_handler ClickCancel = act (hideComposer True)"
| "mentor_handler (ClickCreate type) = attempt (createAnnotation type) m_complain"
| "mentor_handler (ClickThread t) = focusThread t"
| "mentor_handler (ClickReplyTo t b) = reply t b"
| "mentor_handler (ClickTransition t st) = transition t st"
| "mentor_handler (ClickThreadFilter flt) = setThreadFilter flt"
| "mentor_handler (ToggleDrawer b) = act (set_hidden Rv_mentorReviewDrawer b)"
| "mentor_handler PressEscape = act escape"
| "mentor_handler PointerOutside = act pointer_outside"
| "mentor_handler ClickCompileReview = compileReview"
| "mentor_handler ClickPreviousPage = previousPage"
| "mentor_handler ClickNextPage = nextPage"
| "mentor_handler ClickZoomOut = zoomOut"
| "mentor_handler ClickZoomIn = zoomIn"

definition mentor_run :: "mentor_event \<Rightarrow> (mentor, mreq, manswer) prog" where
  "mentor_run e = spawn (\<lambda>_. BUnit) (mentor_handler e)"

end
