(* ===== verification/MentorLemmas.thy ===== *)
theory MentorLemmas
  imports MentorCalls
begin

text \<open>
  What the calls of the mentor's page share: the part of the state that the invariants are about, how every call
  moves the state along a relation that allows a few elementary changes of it (an interface, used for two
  relations), and how many answers every call needs.
\<close>

section \<open>The core of the page\<close>

definition mcore ::
  "mentor \<Rightarrow> nat option \<times> reader list \<times> reader_view option \<times> nat \<times> rat \<times> bool \<times> bool \<times> pfile option \<times> bool" where
  "mcore s = (collaboration s, readers s, view s, page s, scale s, reviewOpen s, is_hidden s Rv_reviewPopover,
     file_shown s, detail s = None)"

lemmas mentor_small_defs = set_text_def set_off_def mentor_notice_def

lemma mcore_small [simp]:
  "mcore (set_text c t s) = mcore s" "mcore (set_off xs s) = mcore s" "mcore (mentor_notice m b s) = mcore s"
  "c \<noteq> Rv_reviewPopover \<Longrightarrow> mcore (set_hidden c b s) = mcore s"
  by (simp_all add: mcore_def mentor_small_defs set_hidden_def)

lemma mcore_fields [simp]:
  "mcore (s\<lparr>papers := a1\<rparr>) = mcore s" "mcore (s\<lparr>paper := a2\<rparr>) = mcore s"
  "mcore (s\<lparr>files := a4\<rparr>) = mcore s" "mcore (s\<lparr>threads := a6\<rparr>) = mcore s"
  "mcore (s\<lparr>threadFilter := a7\<rparr>) = mcore s" "mcore (s\<lparr>pendingAnchor := a8\<rparr>) = mcore s"
  "mcore (s\<lparr>anchor_count := a9\<rparr>) = mcore s" "mcore (s\<lparr>pendingAnchorSummary := b1\<rparr>) = mcore s"
  "mcore (s\<lparr>pdf := b2\<rparr>) = mcore s" "mcore (s\<lparr>pdfBuildId := b3\<rparr>) = mcore s" "mcore (s\<lparr>viewport := b4\<rparr>) = mcore s"
  "mcore (s\<lparr>renderTask := b5\<rparr>) = mcore s" "mcore (s\<lparr>render_count := b6\<rparr>) = mcore s"
  "mcore (s\<lparr>dragStart := b7\<rparr>) = mcore s" "mcore (s\<lparr>suppressSelection := b8\<rparr>) = mcore s"
  "mcore (s\<lparr>live_state := b9\<rparr>) = mcore s" "mcore (s\<lparr>reviewEditor := c1\<rparr>) = mcore s"
  "mcore (s\<lparr>assignedPapers := c2\<rparr>) = mcore s" "mcore (s\<lparr>reviewFiles := c3\<rparr>) = mcore s"
  "mcore (s\<lparr>threadList := c4\<rparr>) = mcore s" "mcore (s\<lparr>roundList := c5\<rparr>) = mcore s"
  "mcore (s\<lparr>pdfOverlay := c6\<rparr>) = mcore s" "mcore (s\<lparr>pdfCanvas := c7\<rparr>) = mcore s" "mcore (s\<lparr>drawn := c8\<rparr>) = mcore s"
  "mcore (s\<lparr>threadMessage := c9\<rparr>) = mcore s" "mcore (s\<lparr>popoverAt := d1\<rparr>) = mcore s"
  "mcore (s\<lparr>due_papers := d2\<rparr>) = mcore s"
  by (simp_all add: mcore_def)

lemma mcore_shows [simp]:
  "mcore (show_assigned ps s) = mcore s" "mcore (renderReviewFiles s) = mcore s" "mcore (renderAssigned s) = mcore s"
  "mcore (fst (renderThreads s)) = mcore s" "mcore (show_overlays s) = mcore s" "mcore (disposePdf s) = mcore s"
  "mcore (show_opening p s) = mcore s" "mcore (setPdfControls b s) = mcore s" "mcore (start_render n g s) = mcore s"
  "mcore (set_anchor a s) = mcore s" "mcore (socket_fails s) = mcore s" "mcore (nothing_selected s) = mcore s"
  "mcore (gate_closed s) = mcore s" "mcore (take_source ns s) = mcore s" "mcore (region_anchor na r m s) = mcore s"
  "mcore (add_projection k p' s) = mcore s" "mcore (pointer_down x y s) = mcore s"
  by (simp_all add: show_assigned_def renderReviewFiles_def renderAssigned_def renderThreads_def show_overlays_def
      disposePdf_def show_opening_def setPdfControls_def start_render_def set_anchor_def socket_fails_def
      nothing_selected_def gate_closed_def take_source_def region_anchor_def add_projection_def pointer_down_def
      Let_def split_beta split: option.split)

lemma mcore_show_page: "show_page s = Some t \<Longrightarrow> mcore t = mcore s"
  by (auto simp: show_page_def)

section \<open>How the calls move the state\<close>

lemma moves_sum:
  "(\<And>x. moves R (f x)) \<Longrightarrow> (\<And>y. moves R (g y)) \<Longrightarrow> moves R (case v of Inl x \<Rightarrow> f x | Inr y \<Rightarrow> g y)"
  by (cases v) simp_all

text \<open>What a relation has to allow for every call of the page to move the state along it.\<close>

locale mentor_rely = rely R for R :: "mentor \<Rightarrow> mentor \<Rightarrow> bool" +
  assumes same_core: "mcore t = mcore s \<Longrightarrow> R s t"
    and r_page: "n \<noteq> 0 \<Longrightarrow> R s (s\<lparr>page := n\<rparr>)"
    and r_scale: "R s (s\<lparr>scale := max (1 / 2) (scale s - 1 / 4)\<rparr>)" "R s (s\<lparr>scale := min 3 (scale s + 1 / 4)\<rparr>)"
    and r_select: "R s (select_range from to s)"
    and r_dispose: "R s (disposeSource s)"
    and r_leave: "R s (leave_source q s)"
    and r_detail: "R s (s\<lparr>detail := Some d\<rparr>)"
    and r_source: "detail s = None \<Longrightarrow> R s (show_source f s)"
    and r_start: "detail s \<noteq> None \<Longrightarrow> R s (start_reader p f (show_source f s))"
    and r_rounds: "R s (take_rounds rl s)"
    and r_compose: "R s (hideComposer b s)"
    and r_popover: "R s (showReviewPopover x y summary popover window s)"
    and r_closes: "R s (socket_closes i s)"
    and r_message: "i < length (readers s) \<Longrightarrow> rd_open (readers s ! i) \<Longrightarrow>
      R s (initialize i (upd_reader i (\<lambda>r. r\<lparr>rd_metadata := Some j\<rparr>) s))"
      "i < length (readers s) \<Longrightarrow> rd_open (readers s ! i) \<Longrightarrow> R s (receive_binary i bytes s)"
begin

lemma moves_same: "(\<And>s. mcore (f s) = mcore s) \<Longrightarrow> moves R (act f)"
  by (rule moves_act) (simp add: same_core)

lemma moves_prog: "moves R m \<Longrightarrow> segment R (member m)"
  unfolding member_def by (intro segment_spawn moves_intros)

lemma moves_await_all: "(\<And>m. m \<in> set ms \<Longrightarrow> moves R m) \<Longrightarrow> moves R (await_all ms)"
  unfolding await_all_def by (intro moves_intros moves_promise_all) (auto intro: moves_prog)

lemma moves_together: "(\<And>m. m \<in> set ms \<Longrightarrow> moves R m) \<Longrightarrow> moves R (together ms)"
  unfolding together_def by (intro moves_intros moves_promise_all) (auto intro: segment_spawn)

lemma moves_m_notices: "moves R (m_say m)" "moves R (m_warn m)" "moves R (m_complain e)"
  unfolding m_say_def m_warn_def m_complain_def by (intro moves_same; simp)+

lemmas m_moves = moves_intros moves_request moves_fetch moves_post moves_m_notices

lemma moves_page: "0 < n \<Longrightarrow> moves R (act (\<lambda>s. s\<lparr>page := n\<rparr>))"
  by (rule moves_act) (rule r_page, simp)

lemma moves_papers: "moves R refreshAssigned" "moves R papers_due"
  unfolding refreshAssigned_def papers_due_def by (intro m_moves moves_same; simp)+

lemma moves_render_threads: "moves R render_threads"
  unfolding render_threads_def by (intro m_moves moves_same) simp

lemma moves_refreshThreads: "moves R refreshThreads"
  unfolding refreshThreads_def by (intro m_moves moves_render_threads moves_same; simp)

lemma moves_refreshRounds: "moves R refreshRounds"
  unfolding refreshRounds_def by (intro m_moves moves_act r_rounds)

lemma moves_refreshDetail: "moves R refreshPaperDetail"
  unfolding refreshPaperDetail_def by (intro m_moves moves_render_threads moves_act r_detail)

lemma moves_renderPage: "moves R renderPage"
proof -
  have "moves R (try_act show_page)" by (intro moves_try_act same_core mcore_show_page)
  note shown = this
  show ?thesis unfolding renderPage_def by (intro m_moves shown moves_same; simp)
qed

lemma moves_take_pdf: "moves R (act (take_pdf b n))"
proof (rule moves_act)
  fix s :: mentor
  let ?t = "s\<lparr>pdf := Some \<lparr>lp_build = b, lp_pages = n\<rparr>\<rparr>"
  have "R s ?t" by (rule same_core) simp
  moreover have "R ?t (?t\<lparr>page := 1\<rparr>)" by (rule r_page) simp
  moreover have "R (?t\<lparr>page := 1\<rparr>) (take_pdf b n s)" by (rule same_core) (simp add: take_pdf_def)
  ultimately show "R s (take_pdf b n s)" by (blast intro: rely_trans)
qed

lemma moves_loadPdf: "moves R (loadPdf url b)"
  unfolding loadPdf_def by (intro m_moves moves_take_pdf moves_renderPage moves_same; simp)

lemma moves_refreshBuild: "moves R refreshBuild"
  unfolding refreshBuild_def by (intro m_moves moves_loadPdf moves_same; simp)

lemma moves_projection: "moves R (pdfAnchorFromMapping m)"
proof (cases "mapped_page m = None \<or> mapped_page m = Some 0")
  case True
  then show ?thesis
    unfolding pdfAnchorFromMapping_def by (intro moves_look) (auto intro: moves_ret split: option.split)
next
  case False
  then obtain n where n: "mapped_page m = Some n" "0 < n" by auto
  show ?thesis
    unfolding pdfAnchorFromMapping_def Let_def n(1) using n(2)
    by (intro moves_look) (auto intro!: m_moves moves_page moves_renderPage split: option.split)
qed

lemma moves_show_start:
  fixes m :: "unit mcall"
  assumes "moves R m"
  shows "moves R (bind (act (show_source g)) (\<lambda>_. need detail (\<lambda>d. bind (act (start_reader (pd_paper d) g)) (\<lambda>_. m))))"
  unfolding moves_def
proof (intro allI impI)
  fix k :: "unit \<Rightarrow> (mentor, mreq, manswer) prog" and h :: "api_error \<Rightarrow> (mentor, mreq, manswer) prog"
  assume kh: "\<forall>x. segment R (k x)" "\<forall>e. segment R (h e)"
  with assms have mk: "segment R (m k h)" unfolding moves_def by blast
  have "R s (fst (h e (show_source g s)))" if "detail s = None" for e s
    using rely_trans [OF r_source [OF that]] kh(2) unfolding segment_def by blast
  moreover have "R s (fst (m k h (start_reader p g (show_source g s))))" if "detail s \<noteq> None" for p s
    using rely_trans [OF r_start [OF that]] mk unfolding segment_def by blast
  moreover have "detail (show_source g s) = detail s" for s by (simp add: show_source_def renderReviewFiles_def)
  ultimately show "segment R (bind (act (show_source g)) (\<lambda>_. need detail (\<lambda>d.
      bind (act (start_reader (pd_paper d) g)) (\<lambda>_. m))) k h)"
    using kh(2) mk unfolding segment_def bind_def act_def need_def look_def throw_def
    by (auto split: option.split)
qed

lemma moves_openReviewFile: "moves R (openReviewFile f)"
proof -
  have a: "moves R (act disposeSource)" by (intro moves_act r_dispose)
  show ?thesis
    unfolding openReviewFile_def by (intro moves_show_start m_moves a)
qed

lemma moves_leave: "moves R (act (leave_source p))"
  by (intro moves_act r_leave)

lemma moves_paper_and_files: "moves R (paper_and_files vs)"
  unfolding paper_and_files_def
  by (auto intro!: m_moves moves_same moves_act [OF r_detail] split: list.split option.split)

lemma moves_openReviewPaper: "moves R (openReviewPaper p)"
  unfolding openReviewPaper_def
  by (intro m_moves moves_leave moves_openReviewFile moves_paper_and_files moves_promise_all moves_await_all moves_same;
      (auto intro!: segment_spawn moves_request moves_refreshThreads moves_refreshRounds moves_refreshBuild)?)

lemma moves_reopenReviewPaper: "moves R reopenReviewPaper"
  unfolding reopenReviewPaper_def by (intro m_moves moves_openReviewPaper)

lemma moves_receive: "moves R (receiveMessage i m)"
proof (cases m)
  case (JoinAccepted j)
  show ?thesis
    unfolding receiveMessage_def JoinAccepted on_message.simps by (intro moves_guarded_act r_message) simp_all
next
  case (Binary bytes)
  show ?thesis
    unfolding receiveMessage_def Binary on_message.simps by (intro moves_guarded_act r_message) simp_all
qed (simp only: receiveMessage_def on_message.simps;
  intro m_moves moves_refreshDetail moves_reopenReviewPaper moves_same; simp)+

lemma moves_anchor_of: "moves R (anchor_of f a b t)"
  unfolding anchor_of_def by (intro m_moves)

lemma moves_project_source: "moves R (project_source k from t)"
  unfolding project_source_def Let_def by (intro m_moves moves_projection moves_same) simp

lemma moves_sourceSelected: "moves R (sourceSelected a b t)"
  unfolding sourceSelected_def source_selected_def
  by (intro m_moves moves_anchor_of moves_project_source moves_same; simp)

lemma moves_user_selects: "moves R (user_selects a b)"
  unfolding user_selects_def by (intro m_moves moves_sourceSelected moves_act r_select)

lemma moves_open_if_other: "moves R (open_if_other f)"
  unfolding open_if_other_def by (intro m_moves moves_openReviewFile)

lemma moves_anchorMappedLine: "moves R (anchorMappedLine i m)"
  unfolding anchorMappedLine_def Let_def by (intro m_moves moves_open_if_other moves_anchor_of)

lemma moves_pointer_up: "moves R (pointer_up x y)"
  unfolding pointer_up_def
  by (intro m_moves moves_sum moves_anchorMappedLine moves_same; simp)

lemma moves_createAnnotation: "moves R (createAnnotation ty)"
  unfolding createAnnotation_def Let_def
  by (intro m_moves moves_await_all moves_act r_compose) (auto intro: moves_refreshThreads moves_refreshRounds)

lemma moves_replies: "moves R (reply t b)" "moves R (transition t st)"
  unfolding reply_def transition_def
  by (intro m_moves moves_await_all moves_refreshThreads; (auto intro: moves_refreshThreads moves_refreshRounds)?)+

lemma moves_dispatch: "moves R (dispatch_selection r)"
proof -
  have a: "moves R (act (\<lambda>s. s\<lparr>suppressSelection := True\<rparr>))" by (rule moves_same) simp
  have "R s ((select_range a b s)\<lparr>suppressSelection := c\<rparr>)" for s a b c
    using rely_trans [OF r_select same_core] by simp
  then have b: "moves R (act (\<lambda>s. (select_range (range_from r) (range_to r) s)\<lparr>suppressSelection := False\<rparr>))"
    by (rule moves_act)
  show ?thesis unfolding dispatch_selection_def by (intro m_moves a b)
qed

lemma moves_focusThread: "moves R (focusThread t)"
proof -
  have a: "moves R (project_thread f r w)" for f r w
    unfolding project_thread_def Let_def by (intro m_moves moves_projection moves_same) simp
  have b: "moves R (show_range a f r)" for a f r
    unfolding show_range_def Let_def by (intro m_moves moves_dispatch a)
  have c: "moves R (focus_source a)" for a
    unfolding focus_source_def by (intro m_moves moves_open_if_other b)
  have d: "moves R (if pl_page p = 0 then ret () else bind (act (\<lambda>s. s\<lparr>page := pl_page p\<rparr>)) (\<lambda>_. renderPage))"
    for p :: placement
    by (cases "pl_page p = 0") (simp_all add: m_moves moves_page moves_renderPage)
  show ?thesis unfolding focusThread_def by (intro moves_steps moves_option moves_ret d) (intro m_moves c)
qed

lemma moves_menus:
  "moves R (act (editor_menu n x y p w))" "moves R (act (overlay_menu b x y p w))"
  "moves R (act (review_selection c p w))" "moves R (act escape)" "moves R (act pointer_outside)"
proof -
  have "R s (escape s)" for s
    unfolding escape_def by (rule rely_trans [OF r_compose same_core]) simp
  then show "moves R (act escape)" by (rule moves_act)
qed (rule moves_act; auto simp: editor_menu_def overlay_menu_def review_selection_def pointer_outside_def
    intro: r_popover r_compose rely_refl split: option.split)+

lemma moves_paging: "moves R previousPage" "moves R nextPage" "moves R zoomOut" "moves R zoomIn"
proof -
  have "moves R (look (\<lambda>s. if 1 < page s then bind (act (\<lambda>s. s\<lparr>page := page s - 1\<rparr>)) (\<lambda>_. renderPage) else ret ()))"
    by (intro moves_guarded m_moves moves_renderPage r_page) simp
  then show "moves R previousPage" unfolding previousPage_def by simp
  show "moves R nextPage"
    unfolding nextPage_def by (intro m_moves moves_renderPage moves_act r_page) simp
  show "moves R zoomOut" "moves R zoomIn"
    unfolding zoomOut_def zoomIn_def by (intro m_moves moves_renderPage moves_act r_scale)+
qed

lemma moves_others: "moves R compileReview" "moves R (setThreadFilter flt)" "moves R mentor_tick"
proof -
  show "moves R compileReview" "moves R (setThreadFilter flt)"
    unfolding compileReview_def setThreadFilter_def
    by (intro m_moves moves_refreshBuild moves_render_threads moves_same; simp)+
  show "moves R mentor_tick"
    unfolding mentor_tick_def
    by (intro m_moves moves_together) (auto intro!: m_moves moves_refreshBuild moves_papers)
qed

lemma moves_handler: "moves R (mentor_handler e)"
  by (cases e)
    (auto intro!: m_moves moves_papers moves_openReviewPaper moves_openReviewFile moves_receive moves_user_selects moves_menus
      moves_pointer_up moves_createAnnotation moves_focusThread moves_replies moves_paging moves_others
      intro: moves_act [OF r_closes] moves_act [OF r_select] moves_act [OF r_compose] moves_same)

lemma page_run: "page_reach (range mentor_run) s0 pg \<Longrightarrow> R s0 (fst pg)"
proof -
  have "segment R p" if "p \<in> range mentor_run" for p
    using that unfolding mentor_run_def by (auto intro: segment_spawn moves_handler)
  then show "page_reach (range mentor_run) s0 pg \<Longrightarrow> R s0 (fst pg)" using page_moves by blast
qed

end

section \<open>A well-formed page\<close>

text \<open>
  The current session exists and reads the file that is shown; a view shows a session that has been ready, in the
  mode of its file; the page of the PDF is at least the first and the zoom within its bounds; the composer is open only
  while the review is. Of a session: it is ready once it has a text, which it has only after it was let in and got the
  initial state; it is loaded only then, with no update left in its buffer; and once destroyed it is neither loaded nor
  connected.
\<close>

definition reader_ok :: "reader \<Rightarrow> bool" where
  "reader_ok r \<longleftrightarrow> rd_ready r = (rd_updates r \<noteq> None) \<and> (rd_loaded r \<longrightarrow> rd_ready r \<and> rd_buffer r = [])
     \<and> (rd_ready r \<longrightarrow> rd_metadata r \<noteq> None \<and> rd_initial r \<noteq> None) \<and> (rd_destroyed r \<longrightarrow> \<not> rd_loaded r \<and> \<not> rd_open r)"

fun mcore_ok ::
  "nat option \<times> reader list \<times> reader_view option \<times> nat \<times> rat \<times> bool \<times> bool \<times> pfile option \<times> bool \<Rightarrow> bool" where
  "mcore_ok (c, rs, v, p, z, gate, hid, f, d) \<longleftrightarrow>
     (case c of None \<Rightarrow> True | Some i \<Rightarrow> i < length rs \<and> f = Some (rd_file (rs ! i)) \<and> \<not> d) \<and>
     (case v of None \<Rightarrow> True | Some w \<Rightarrow> rv_reader w < length rs \<and> rd_ready (rs ! rv_reader w) \<and>
        rv_latex w = js_endsWith (fl_path (rd_file (rs ! rv_reader w))) ''.tex'') \<and>
     (\<forall>r\<in>set rs. reader_ok r) \<and> 1 \<le> p \<and> 1 / 2 \<le> z \<and> z \<le> 3 \<and> (hid \<or> gate)"

definition mentor_ok :: "mentor \<Rightarrow> bool" where
  "mentor_ok s = mcore_ok (mcore s)"

lemma mentor_ok_core: "mcore t = mcore s \<Longrightarrow> mentor_ok t = mentor_ok s"
  by (simp add: mentor_ok_def)

lemma mentor_ok_upd:
  assumes "mentor_ok s"
    and "i < length (readers s) \<Longrightarrow> reader_ok (readers s ! i) \<Longrightarrow> reader_ok (f (readers s ! i))"
    and "i < length (readers s) \<Longrightarrow> rd_ready (readers s ! i) \<Longrightarrow> rd_ready (f (readers s ! i))"
    and "rd_file (f (readers s ! i)) = rd_file (readers s ! i)"
  shows "mentor_ok (upd_reader i f s)"
proof (cases "i < length (readers s)")
  case True
  have "\<forall>r\<in>set (readers s). reader_ok r" using assms(1) by (simp add: mentor_ok_def mcore_def)
  with True assms(2) have "\<forall>r\<in>set ((readers s)[i := f (readers s ! i)]). reader_ok r"
    using set_update_subset_insert [of "readers s" i "f (readers s ! i)"] by auto
  with True assms(1,3,4) show ?thesis
    by (auto simp: mentor_ok_def mcore_def upd_reader_def nth_list_update split: option.splits)
qed (use assms(1) in \<open>simp add: upd_reader_def\<close>)

lemma reader_ok_destroy: "reader_ok r \<Longrightarrow> reader_ok (destroy_reader r)"
  by (simp add: reader_ok_def destroy_reader_def)

lemma mentor_ok_destroy: "mentor_ok s \<Longrightarrow> mentor_ok (upd_reader i destroy_reader s)"
  by (rule mentor_ok_upd) (simp_all add: reader_ok_destroy, simp_all add: destroy_reader_def)

lemma mentor_ok_dispose: "mentor_ok s \<Longrightarrow> mentor_ok (disposeSource s)"
proof -
  assume "mentor_ok s"
  then have "mentor_ok (case collaboration s of None \<Rightarrow> s | Some i \<Rightarrow> upd_reader i destroy_reader s)"
    by (auto simp: mentor_ok_destroy split: option.split)
  then show ?thesis by (simp add: disposeSource_def mentor_ok_def mcore_def)
qed

lemma mentor_ok_source:
  "mentor_ok s \<Longrightarrow> detail s = None \<Longrightarrow> mentor_ok (show_source f s)"
  "mentor_ok s \<Longrightarrow> detail s \<noteq> None \<Longrightarrow> mentor_ok (start_reader p f (show_source f s))"
  "mentor_ok s \<Longrightarrow> mentor_ok (s\<lparr>detail := Some d\<rparr>)"
  by (auto simp: show_source_def renderReviewFiles_def start_reader_def mentor_ok_def set_text_def mcore_def nth_append
      new_reader_def reader_ok_def split: option.splits)

lemma mentor_ok_leave: "mentor_ok s \<Longrightarrow> mentor_ok (leave_source q s)"
  using mentor_ok_dispose [of s] by (simp add: leave_source_def disposePdf_def mentor_ok_def mcore_def disposeSource_def)

lemma mentor_ok_compose: "mentor_ok s \<Longrightarrow> mentor_ok (hideComposer b s)"
  by (auto simp: hideComposer_def Let_def mentor_ok_def) (auto simp: mcore_def set_hidden_def)

lemma mentor_ok_rounds: "mentor_ok s \<Longrightarrow> mentor_ok (take_rounds rl s)"
  by (auto simp: take_rounds_def renderRounds_def hideComposer_def Let_def mentor_ok_def)
    (auto simp: mcore_def set_hidden_def set_text_def)

lemma mentor_ok_popover: "mentor_ok s \<Longrightarrow> mentor_ok (showReviewPopover x y t p w s)"
  by (auto simp: showReviewPopover_def mentor_ok_def split: option.split)
    (auto simp: mcore_def set_hidden_def set_text_def)

lemma mentor_ok_mount:
  "mentor_ok s \<Longrightarrow> i < length (readers s) \<Longrightarrow> rd_ready (readers s ! i) \<Longrightarrow>
     b = js_endsWith (fl_path (rd_file (readers s ! i))) ''.tex'' \<Longrightarrow> mentor_ok (live (mountReadOnlyEditor i b s))"
  by (auto simp: live_def mountReadOnlyEditor_def mentor_ok_def) (auto simp: mcore_def)

lemma mentor_ok_initialize:
  assumes "mentor_ok s" "i < length (readers s)" "rd_open (readers s ! i)"
  shows "mentor_ok (initialize i s)"
proof -
  have "reader_ok (readers s ! i)" using assms(1,2) by (simp add: mentor_ok_def mcore_def)
  then have "mentor_ok (upd_reader i (load_reader first) s)"
    if "rd_metadata (readers s ! i) = Some j" "rd_initial (readers s ! i) = Some first" for j first
    using assms that by (intro mentor_ok_upd) (auto simp: reader_ok_def load_reader_def)
  then have load: "mentor_ok (live (mountReadOnlyEditor i (js_endsWith (fl_path (rd_file (readers s ! i))) ''.tex'')
      (upd_reader i (load_reader first) s)))"
    if "rd_metadata (readers s ! i) = Some j" "rd_initial (readers s ! i) = Some first" for j first
    using assms(2) that by (intro mentor_ok_mount) (simp_all add: upd_reader_def load_reader_def)
  have "mentor_ok (upd_reader i destroy_reader (mentor_notice m b s))" for m b
    using assms(1) mentor_ok_core [of "mentor_notice m b s" s] by (intro mentor_ok_destroy) simp
  with load assms show ?thesis by (simp add: initialize_def Let_def split: option.split)
qed

lemma mentor_ok_message:
  assumes "mentor_ok s" "i < length (readers s)" "rd_open (readers s ! i)"
  shows "mentor_ok (initialize i (upd_reader i (\<lambda>r. r\<lparr>rd_metadata := Some j\<rparr>) s))"
    and "mentor_ok (receive_binary i bytes s)"
proof -
  have "reader_ok (readers s ! i)" using assms(1,2) by (simp add: mentor_ok_def mcore_def)
  then have upd: "mentor_ok (upd_reader i (\<lambda>r. r\<lparr>rd_metadata := Some j\<rparr>) s)"
    "mentor_ok (upd_reader i (\<lambda>r. r\<lparr>rd_initial := Some u\<rparr>) s)" "mentor_ok (upd_reader i (remote_frame u) s)" for u
    using assms(1) by (intro mentor_ok_upd; auto simp: reader_ok_def remote_frame_def)+
  show "mentor_ok (initialize i (upd_reader i (\<lambda>r. r\<lparr>rd_metadata := Some j\<rparr>) s))"
    by (intro mentor_ok_initialize upd(1)) (simp_all add: upd_reader_def assms(2,3))
  have "mentor_ok (initialize i (upd_reader i (\<lambda>r. r\<lparr>rd_initial := Some u\<rparr>) s))" for u
    by (intro mentor_ok_initialize upd(2)) (simp_all add: upd_reader_def assms(2,3))
  then show "mentor_ok (receive_binary i bytes s)"
    using assms(1) upd(3) by (simp add: receive_binary_def split: list.split)
qed

interpretation mok: mentor_rely "preserves mentor_ok"
proof
  fix s t :: mentor and i j bytes
  show "preserves mentor_ok s t" if "mcore t = mcore s"
    using mentor_ok_core [OF that] by (simp add: preserves_def)
  show "preserves mentor_ok s (s\<lparr>page := n\<rparr>)" if "n \<noteq> 0" for n
    using that by (simp add: preserves_def mentor_ok_def mcore_def)
  show "preserves mentor_ok s (s\<lparr>scale := max (1 / 2) (scale s - 1 / 4)\<rparr>)"
    "preserves mentor_ok s (s\<lparr>scale := min 3 (scale s + 1 / 4)\<rparr>)"
    by (auto simp: preserves_def mentor_ok_def mcore_def max_def min_def)
  show "preserves mentor_ok s (select_range a b s)" for a b
    by (auto simp: preserves_def select_range_def mentor_ok_def mcore_def split: option.splits)
  show "preserves mentor_ok s (socket_closes i s)"
    unfolding preserves_def socket_closes_def
    by (auto simp: mentor_ok_core [OF mcore_fields(16)] mentor_ok_core [OF mcore_small(1)] reader_ok_def
        intro!: mentor_ok_upd)
  show "preserves mentor_ok s (initialize i (upd_reader i (\<lambda>r. r\<lparr>rd_metadata := Some j\<rparr>) s))"
    "preserves mentor_ok s (receive_binary i bytes s)" if "i < length (readers s)" "rd_open (readers s ! i)"
    using mentor_ok_message [OF _ that] by (simp_all add: preserves_def)
qed (simp_all add: preserves_def mentor_ok_dispose mentor_ok_source mentor_ok_leave mentor_ok_rounds mentor_ok_compose mentor_ok_popover)

section \<open>A session that will never be ready\<close>

definition never_ready :: "nat \<Rightarrow> mentor \<Rightarrow> bool" where
  "never_ready i s \<longleftrightarrow> i < length (readers s) \<and> rd_destroyed (readers s ! i) \<and> \<not> rd_open (readers s ! i)
     \<and> \<not> rd_ready (readers s ! i)"

lemma never_ready_core: "mcore t = mcore s \<Longrightarrow> never_ready i t = never_ready i s"
  by (simp add: never_ready_def mcore_def)

lemma never_ready_readers: "readers t = readers s \<Longrightarrow> never_ready i t = never_ready i s"
  by (simp add: never_ready_def)

lemma never_ready_upd:
  assumes "never_ready i s" "\<And>r. \<lbrakk>rd_destroyed r; \<not> rd_open r; \<not> rd_ready r\<rbrakk>
      \<Longrightarrow> rd_destroyed (f r) \<and> \<not> rd_open (f r) \<and> \<not> rd_ready (f r)"
  shows "never_ready i (upd_reader j f s)"
  using assms by (auto simp: never_ready_def upd_reader_def nth_list_update)

lemma never_ready_other: "never_ready i s \<Longrightarrow> j \<noteq> i \<Longrightarrow> never_ready i (upd_reader j f s)"
  by (auto simp: never_ready_def upd_reader_def nth_list_update)

lemma readers_initialize:
  "readers (initialize j s) = readers s \<or> (\<exists>f. readers (initialize j s) = readers (upd_reader j f s))"
  by (auto simp: initialize_def Let_def live_def mountReadOnlyEditor_def set_text_def mentor_notice_def upd_reader_def
      split: option.split)

lemma never_ready_message:
  assumes "never_ready i s" "j \<noteq> i"
  shows "never_ready i (initialize j s)"
  using readers_initialize [of j s] never_ready_readers never_ready_other [OF assms] assms(1) by metis

interpretation dead: mentor_rely "preserves (never_ready i)"
proof
  fix s t :: mentor and k j bytes
  show "preserves (never_ready i) s t" if "mcore t = mcore s"
    using never_ready_core [OF that] by (simp add: preserves_def)
  show "preserves (never_ready i) s (disposeSource s)"
    by (auto simp: preserves_def disposeSource_def never_ready_readers [of "_\<lparr>view := None, collaboration := None\<rparr>"]
        destroy_reader_def split: option.split intro!: never_ready_upd)
  show "preserves (never_ready i) s (start_reader p f (show_source f s))" for p f
    by (auto simp: preserves_def start_reader_def show_source_def renderReviewFiles_def never_ready_def set_text_def
        nth_append)
  show "preserves (never_ready i) s (show_source f s)" "preserves (never_ready i) s (s\<lparr>detail := Some d\<rparr>)" for f d
    by (simp_all add: preserves_def show_source_def renderReviewFiles_def never_ready_def)
  show "preserves (never_ready i) s (leave_source q s)" for q
    by (auto simp: preserves_def leave_source_def disposePdf_def disposeSource_def never_ready_def upd_reader_def
        destroy_reader_def nth_list_update split: option.split)
  show "preserves (never_ready i) s (socket_closes k s)"
    by (auto simp: preserves_def socket_closes_def never_ready_readers [of "_\<lparr>live_state := _\<rparr>"]
        never_ready_readers [of "set_text c x u" u for c x u] set_text_def intro!: never_ready_upd)
  show "preserves (never_ready i) s (initialize k (upd_reader k (\<lambda>r. r\<lparr>rd_metadata := Some j\<rparr>) s))"
    "preserves (never_ready i) s (receive_binary k bytes s)" if "k < length (readers s)" "rd_open (readers s ! k)"
  proof -
    have "k \<noteq> i" if "never_ready i s" using that \<open>rd_open (readers s ! k)\<close> by (auto simp: never_ready_def)
    then show "preserves (never_ready i) s (initialize k (upd_reader k (\<lambda>r. r\<lparr>rd_metadata := Some j\<rparr>) s))"
      "preserves (never_ready i) s (receive_binary k bytes s)"
      by (auto simp: preserves_def receive_binary_def split: list.split
          intro!: never_ready_message never_ready_other)
  qed
qed (simp_all add: preserves_def never_ready_def select_range_def take_rounds_def renderRounds_def hideComposer_def
    show_overlays_def set_hidden_def set_text_def set_off_def showReviewPopover_def Let_def split: option.split)

section \<open>Answers\<close>

lemma costs_await_all: "list_all2 costs ns ms \<Longrightarrow> costs (sum_list ns) (await_all ms)"
proof -
  assume "list_all2 costs ns ms"
  moreover have "prog_costs n (member m)" if "costs n m" for n m
    unfolding member_def
    by (rule costs_spawn, rule costs_weaken, (rule costs_intros)+, rule that, (rule costs_intros)+, simp)
  ultimately have "list_all2 prog_costs ns (map member ms)"
    by (induction ns ms rule: list_all2_induct) simp_all
  from costs_promise_all [OF this] show ?thesis
    unfolding await_all_def by - (rule costs_weaken, rule costs_bind, assumption, (rule costs_intros)+, simp)
qed

lemma costs_together: "list_all2 costs ns ms \<Longrightarrow> costs (sum_list ns) (together ms)"
proof -
  assume "list_all2 costs ns ms"
  then have "list_all2 prog_costs ns (map (spawn (\<lambda>_. BUnit)) ms)"
    by (induction ns ms rule: list_all2_induct) (simp_all add: costs_spawn)
  from costs_promise_all [OF this] show ?thesis
    unfolding together_def by - (rule costs_weaken, rule costs_bind, assumption, rule costs_ret, simp)
qed

lemma costs_m_notices [costs_intros]: "costs 0 (m_say m)" "costs 0 (m_warn m)" "costs 0 (m_complain e)"
  unfolding m_say_def m_warn_def m_complain_def by (rule costs_intros)+

lemma costs_renderPage [costs_intros]: "costs 2 renderPage"
  unfolding renderPage_def by (rule costs_weaken, (rule costs_intros)+, simp)

lemma costs_loadPdf [costs_intros]: "costs 3 (loadPdf url b)"
  unfolding loadPdf_def by (rule costs_weaken, (rule costs_intros)+, simp)

lemma costs_m_refreshes [costs_intros]:
  "costs 1 refreshAssigned" "costs 1 papers_due" "costs 0 render_threads" "costs 1 refreshThreads"
  "costs 1 refreshRounds" "costs 1 refreshPaperDetail" "costs 4 refreshBuild"
  unfolding refreshAssigned_def papers_due_def render_threads_def refreshThreads_def refreshRounds_def
    refreshPaperDetail_def refreshBuild_def
  by (rule costs_weaken, (rule costs_intros)+, simp)+

lemma costs_projection [costs_intros]: "costs 2 (pdfAnchorFromMapping m)"
  unfolding pdfAnchorFromMapping_def Let_def by (rule costs_weaken, (rule costs_intros)+, simp)

lemma costs_m_openFile [costs_intros]: "costs 2 (openReviewFile f)" "costs 2 (open_if_other f)"
  unfolding open_if_other_def openReviewFile_def by (rule costs_weaken, (rule costs_intros)+, simp)+

lemma costs_paper_and_files [costs_intros]: "costs 0 (paper_and_files vs)"
  unfolding paper_and_files_def by (auto intro!: costs_ret costs_throw costs_act
      costs_bind [where n = 0 and n' = 0, simplified] split: list.split option.split)

lemma costs_m_openPaper [costs_intros]: "costs 10 (openReviewPaper p)" "costs 10 reopenReviewPaper"
proof -
  have a: "costs (sum_list [1, 1]) (promise_all [spawn id (request q), spawn id (request r)] :: manswer list mcall)"
    for q r by (intro costs_promise_all) (simp add: costs_intros del: One_nat_def)
  have b: "costs (sum_list [1, 1, 4]) (await_all [refreshThreads, refreshRounds, refreshBuild])"
    by (intro costs_await_all) (simp add: costs_intros del: One_nat_def)
  have c: "costs 10 (openReviewPaper q)" for q
    unfolding openReviewPaper_def by (rule costs_weaken, (rule costs_intros a b)+, simp)
  show "costs 10 (openReviewPaper p)" "costs 10 reopenReviewPaper"
    unfolding reopenReviewPaper_def by (rule c, rule costs_weaken, (rule costs_look c)+, simp)
qed

lemma costs_receive [costs_intros]: "costs 10 (receiveMessage i m)"
  unfolding receiveMessage_def
  by (cases m; simp only: on_message.simps) (rule costs_weaken, (rule costs_intros)+, simp)+

lemma costs_sources [costs_intros]:
  "costs 1 (anchor_of f a b w)" "costs 3 (project_source k a w)" "costs 0 (source_selected na)"
  unfolding anchor_of_def project_source_def source_selected_def Let_def
  by (rule costs_weaken, (rule costs_intros)+, simp)+

lemma costs_selections [costs_intros]:
  "costs 4 (sourceSelected a b w)" "costs 4 (user_selects a b)" "costs 3 (anchorMappedLine i m)"
proof -
  have c: "costs 4 (sourceSelected a b w)" for a b w
    unfolding sourceSelected_def by (rule costs_weaken, (rule costs_intros)+, simp)
  show "costs 4 (sourceSelected a b w)" by (rule c)
  show "costs 4 (user_selects a b)"
    unfolding user_selects_def by (rule costs_weaken, (rule costs_intros c)+, simp)
  show "costs 3 (anchorMappedLine i m)"
    unfolding anchorMappedLine_def Let_def by (rule costs_weaken, (rule costs_intros)+, simp)
qed

lemma costs_sum [costs_intros]:
  "(\<And>x. costs n (f x)) \<Longrightarrow> (\<And>y. costs n' (g y)) \<Longrightarrow> costs (max n n') (case v of Inl x \<Rightarrow> f x | Inr y \<Rightarrow> g y)"
  by (cases v) (auto intro: costs_weaken [of n] costs_weaken [of n'])

lemma costs_pointer_up [costs_intros]: "costs 4 (pointer_up x y)"
  unfolding pointer_up_def by (rule costs_weaken, (rule costs_intros)+, simp)

lemma costs_annotations [costs_intros]:
  "costs 3 (createAnnotation ty)" "costs 2 (reply t b)" "costs 3 (transition t st)"
proof -
  have a: "costs (sum_list [1, 1]) (await_all [refreshThreads, refreshRounds])"
    by (intro costs_await_all) (simp add: costs_intros del: One_nat_def)
  show "costs 3 (createAnnotation ty)" "costs 2 (reply t b)" "costs 3 (transition t st)"
    unfolding createAnnotation_def reply_def transition_def Let_def
    by (rule costs_weaken, (rule costs_intros a)+, simp)+
qed

lemma costs_focusThread [costs_intros]: "costs 7 (focusThread t)"
proof -
  have a: "costs 0 (dispatch_selection r)" for r
    unfolding dispatch_selection_def by (rule costs_weaken, (rule costs_intros)+, simp)
  have b: "costs 3 (project_thread f r w)" for f r w
    unfolding project_thread_def Let_def by (rule costs_weaken, (rule costs_intros)+, simp)
  have c: "costs 3 (show_range q f r)" for q f r
    unfolding show_range_def Let_def by (rule costs_weaken, (rule costs_intros a b)+, simp)
  have d: "costs 5 (focus_source q)" for q
    unfolding focus_source_def by (rule costs_weaken, (rule costs_intros c)+, simp)
  show ?thesis unfolding focusThread_def by (rule costs_weaken, (rule costs_intros d)+, simp)
qed

lemma costs_buttons [costs_intros]:
  "costs 5 compileReview" "costs 2 previousPage" "costs 2 nextPage" "costs 2 zoomOut" "costs 2 zoomIn"
  "costs 0 (setThreadFilter flt)"
  unfolding compileReview_def previousPage_def nextPage_def zoomOut_def zoomIn_def setThreadFilter_def
  by (rule costs_weaken, (rule costs_intros)+, simp)+

lemma costs_mentor_tick [costs_intros]: "costs 5 mentor_tick"
proof -
  have "costs (4 + 0) (attempt refreshBuild (\<lambda>e. ret ()))" "costs (1 + 0) (attempt refreshAssigned (\<lambda>e. ret ()))"
    by (rule costs_intros)+
  then have "costs (sum_list [4, 1]) (together [attempt refreshBuild (\<lambda>e. ret ()), attempt refreshAssigned (\<lambda>e. ret ())])"
    by (intro costs_together) (simp del: One_nat_def)
  note a = this
  show ?thesis unfolding mentor_tick_def by (rule costs_weaken, (rule costs_intros a)+, simp)
qed

lemma mentor_handler_costs: "costs 10 (mentor_handler e)"
  by (cases e; simp only: mentor_handler.simps; rule costs_weaken, (rule costs_intros)+, simp)

end
