(* ===== verification/MentorProperties.thy ===== *)
theory MentorProperties
  imports MentorLemmas
begin

text \<open>
  The properties of the mentor's page: what holds of every interleaving of its calls, what an annotation sends,
  and where events that cross go wrong.
\<close>

lemmas mentor_run_defs = mentor_run_def spawn_def bind_def ret_def throw_def act_def look_def attempt_def request_def
  fetch_def post_def need_def try_act_def manswer_defs m_say_def m_warn_def m_complain_def
  show_source_def

section \<open>A sample page\<close>

definition demo_assigned :: assigned where
  "demo_assigned = \<lparr>as_id = ''p1'', as_name = ''Draft'', as_status = ''active'', open_review_count = 0,
     blocking_review_count = 0, current_version_id = ''v1''\<rparr>"

definition demo_rfile :: pfile where
  "demo_rfile = \<lparr>fl_id = ''f1'', fl_path = ''main.tex''\<rparr>"

definition demo_rdetail :: paper_detail where
  "demo_rdetail = \<lparr>pd_paper = ''p1'', pd_version = 3, pd_main = Some ''main.tex''\<rparr>"

definition demo_mentor :: mentor where
  "demo_mentor = mentor_init (\<lambda>_. ''abcdef'') (\<lambda>_ n. [of_nat n])
     (\<lambda>bs d. Position (fst d) (case bs of [b] \<Rightarrow> unat b | _ \<Rightarrow> 0)) id"

definition demo_build :: build_state where
  "demo_build = \<lparr>bs_build = \<lparr>current_build_id = Some ''b1'', active_build_id = None, latest_status = None\<rparr>, bs_url = ''/pdf''\<rparr>"

lemmas demo_mentor_defs = demo_assigned_def demo_rfile_def demo_rdetail_def demo_mentor_def demo_build_def
  mentor_init_def

section \<open>Every interleaving\<close>

text \<open>
  C6. Whatever the mentor does, whatever the sessions receive and in whatever order requests are answered: the current
  session exists and reads the file that is shown. The editor shows a session, which need not be the current one, that
  has a text, in the mode of that session's file. A session has a text only after it was let in and got the initial
  state; while its document is there no update waits in its buffer; once destroyed it has no document and hears
  nothing more. The zoom stays between 50 and 300 per cent, the page number is positive, and the composer is open only
  while the review is open.
\<close>

theorem mentor_page_well_formed:
  assumes "page_reach (range mentor_run) (mentor_init yt yp yr rnd) pg"
  shows "(case collaboration (fst pg) of None \<Rightarrow> True
      | Some i \<Rightarrow> i < length (readers (fst pg)) \<and> file_shown (fst pg) = Some (rd_file (readers (fst pg) ! i))) \<and>
    (case view (fst pg) of None \<Rightarrow> True
      | Some v \<Rightarrow> rv_reader v < length (readers (fst pg)) \<and> rd_updates (readers (fst pg) ! rv_reader v) \<noteq> None \<and>
          rv_latex v = js_endsWith (fl_path (rd_file (readers (fst pg) ! rv_reader v))) ''.tex'') \<and>
    (\<forall>r\<in>set (readers (fst pg)).
       (rd_updates r \<noteq> None \<longrightarrow> rd_metadata r \<noteq> None \<and> rd_initial r \<noteq> None) \<and>
       (rd_loaded r \<longrightarrow> rd_updates r \<noteq> None \<and> rd_buffer r = []) \<and>
       (rd_destroyed r \<longrightarrow> \<not> rd_loaded r \<and> \<not> rd_open r)) \<and>
    1 / 2 \<le> scale (fst pg) \<and> scale (fst pg) \<le> 3 \<and> 1 \<le> page (fst pg) \<and>
    (is_hidden (fst pg) Rv_reviewPopover \<or> reviewOpen (fst pg))"
proof -
  have "mentor_ok (mentor_init yt yp yr rnd)" by (simp add: mentor_ok_def mcore_def mentor_init_def)
  with mok.page_run [OF assms] have ok: "mentor_ok (fst pg)" by (simp add: preserves_def)
  then have readers: "\<forall>r\<in>set (readers (fst pg)). reader_ok r" by (simp add: mentor_ok_def mcore_def)
  then have "rd_updates r \<noteq> None" if "r \<in> set (readers (fst pg))" "rd_ready r" for r
    using that by (auto simp: reader_ok_def)
  with ok have "case view (fst pg) of None \<Rightarrow> True
      | Some v \<Rightarrow> rv_reader v < length (readers (fst pg)) \<and> rd_updates (readers (fst pg) ! rv_reader v) \<noteq> None \<and>
          rv_latex v = js_endsWith (fl_path (rd_file (readers (fst pg) ! rv_reader v))) ''.tex''"
    by (auto simp: mentor_ok_def mcore_def split: option.splits)
  moreover have "\<forall>r\<in>set (readers (fst pg)).
       (rd_updates r \<noteq> None \<longrightarrow> rd_metadata r \<noteq> None \<and> rd_initial r \<noteq> None) \<and>
       (rd_loaded r \<longrightarrow> rd_updates r \<noteq> None \<and> rd_buffer r = []) \<and>
       (rd_destroyed r \<longrightarrow> \<not> rd_loaded r \<and> \<not> rd_open r)"
    using readers by (auto simp: reader_ok_def)
  ultimately show ?thesis using ok by (auto simp: mentor_ok_def mcore_def split: option.splits)
qed

theorem mentor_page_well_formed_witness:
  "1 / 2 \<le> scale (fst (begin_call (mentor_run ClickZoomOut) (demo_mentor, []))) \<and>
     scale (fst (begin_call (mentor_run ClickZoomOut) (demo_mentor, []))) \<le> 3"
proof -
  have "page_reach (range mentor_run) demo_mentor (begin_call (mentor_run ClickZoomOut) (demo_mentor, []))"
    by (intro page_reach.begins page_reach.at_load) simp
  from mentor_page_well_formed [OF this [unfolded demo_mentor_def]] show ?thesis
    unfolding demo_mentor_def by blast
qed

text \<open>
  Every call of the mentor's page settles after at most ten answers, and until then waits for an answer and for
  nothing else. (One of the requests it can wait for is the \<open>ready\<close> of a session.)
\<close>

theorem mentor_calls_settle:
  assumes "answer_seq xs (snd (mentor_run e s)) = Some t"
  shows "length xs \<le> 10 \<and> ((\<exists>v. t = Done v) \<or> (\<exists>err. t = Failed err) \<or> (\<exists>p. waits_at p t))"
proof -
  have "settles 10 (snd (mentor_run e s))"
    using costs_spawn [OF mentor_handler_costs [of e]] unfolding prog_costs_def mentor_run_def by blast
  from settles_answers [OF this assms] show ?thesis by (cases t) auto
qed

theorem mentor_calls_settle_witness:
  "length [([], Inr (BPapers []), demo_mentor) :: nat list \<times> manswer result \<times> mentor] \<le> 10 \<and>
     ((\<exists>v. (Done BUnit :: (mentor, mreq, manswer) thread) = Done v)
      \<or> (\<exists>err. (Done BUnit :: (mentor, mreq, manswer) thread) = Failed err)
      \<or> (\<exists>p. waits_at p (Done BUnit :: (mentor, mreq, manswer) thread)))"
  by (rule mentor_calls_settle [where e = Loads and s = demo_mentor])
    (simp add: mentor_run_defs refreshAssigned_def)

section \<open>Fields\<close>

lemma dispose_fields [simp]:
  "threads (disposeSource s) = threads s" "rounds (disposeSource s) = rounds s" "reviewOpen (disposeSource s) = reviewOpen s"
  "paper (disposeSource s) = paper s" "detail (disposeSource s) = detail s" "pdf (disposeSource s) = pdf s"
  "pdfBuildId (disposeSource s) = pdfBuildId s" "length (readers (disposeSource s)) = length (readers s)"
  "threadMessage (disposeSource s) = threadMessage s" "is_hidden (disposeSource s) = is_hidden s"
  "text_of (disposeSource s) = text_of s" "reviewNotice (disposeSource s) = reviewNotice s"
  "collaboration (disposeSource s) = None"
  by (auto simp: disposeSource_def upd_reader_def split: option.split)

lemma leave_source_fields [simp]:
  "threads (leave_source q s) = threads s" "rounds (leave_source q s) = rounds s"
  "reviewOpen (leave_source q s) = reviewOpen s" "paper (leave_source q s) = q" "detail (leave_source q s) = detail s"
  "pdf (leave_source q s) = None" "pdfBuildId (leave_source q s) = pdfBuildId s"
  "length (readers (leave_source q s)) = length (readers s)" "threadMessage (leave_source q s) = threadMessage s"
  "is_hidden (leave_source q s) = is_hidden s" "text_of (leave_source q s) = text_of s"
  "pendingAnchor (leave_source q s) = None" "reviewNotice (leave_source q s) = reviewNotice s"
  by (simp_all add: leave_source_def disposePdf_def)

lemma opening_fields [simp]:
  "threads (show_opening p s) = threads s" "rounds (show_opening p s) = rounds s"
  "reviewOpen (show_opening p s) = reviewOpen s" "paper (show_opening p s) = paper s" "detail (show_opening p s) = detail s"
  "pdf (show_opening p s) = pdf s" "pdfBuildId (show_opening p s) = pdfBuildId s" "readers (show_opening p s) = readers s"
  "threadMessage (show_opening p s) = threadMessage s" "is_hidden (show_opening p s) = is_hidden s"
  "pendingAnchor (show_opening p s) = pendingAnchor s" "text_of (show_opening p s) Rv_anchorSummary = text_of s Rv_anchorSummary"
  "reviewNotice (show_opening p s) = reviewNotice s"
  by (simp_all add: show_opening_def set_off_def set_text_def)

lemma files_fields [simp]:
  "threads (renderReviewFiles s) = threads s" "rounds (renderReviewFiles s) = rounds s" "reviewOpen (renderReviewFiles s) = reviewOpen s"
  "paper (renderReviewFiles s) = paper s" "detail (renderReviewFiles s) = detail s" "files (renderReviewFiles s) = files s"
  "readers (renderReviewFiles s) = readers s" "collaboration (renderReviewFiles s) = collaboration s"
  by (simp_all add: renderReviewFiles_def)

lemma papers_fields [simp]:
  "threads (renderAssigned s) = threads s" "rounds (renderAssigned s) = rounds s" "reviewOpen (renderAssigned s) = reviewOpen s"
  "paper (renderAssigned s) = paper s" "detail (renderAssigned s) = detail s" "files (renderAssigned s) = files s"
  "readers (renderAssigned s) = readers s"
  by (simp_all add: renderAssigned_def)

lemma start_reader_fields [simp]:
  "threads (start_reader q f s) = threads s" "rounds (start_reader q f s) = rounds s"
  "reviewOpen (start_reader q f s) = reviewOpen s" "readers (start_reader q f s) = readers s @ [new_reader q f]"
  "collaboration (start_reader q f s) = Some (length (readers s))" "paper (start_reader q f s) = paper s"
  by (simp_all add: start_reader_def set_text_def)

lemma composer_fields [simp]:
  "paper (hideComposer b s) = paper s" "threadMessage (hideComposer b s) = []"
  "is_hidden (hideComposer b s) Rv_reviewPopover" "pendingAnchor (hideComposer True s) = None"
  by (simp_all add: hideComposer_def show_overlays_def set_off_def set_hidden_def Let_def)

lemma refresh_after:
  assumes "paper s = Some p"
  shows "fst (await_all [refreshThreads, refreshRounds] k h s) = s"
    "first_wait (snd (await_all [refreshThreads, refreshRounds] k h s)) = Some ([0], MApi (MThreads (as_id p)))"
  using assms
  by (simp_all add: await_all_def promise_all_def member_def refreshThreads_def refreshRounds_def settle_all_def
      mentor_run_defs)

section \<open>Annotations\<close>

text \<open>
  C18. An annotation is sent only while the review is open, with a message, and as a suggestion only with a source
  selection; what is sent is the trimmed message with the pending anchor, a suggestion's message being its
  replacement. Otherwise nothing is sent and the reason is shown. A server that refuses leaves composer and
  anchor as they are; when it accepts, both are cleared.
\<close>

theorem annotation_is_guarded:
  assumes "paper s = Some p"
  shows "let st = mentor_run (ClickCreate type) s; message = js_trim (threadMessage s);
             anchor = map_option snd (pendingAnchor s);
             refused = (\<not> reviewOpen s \<or> message = [] \<or> type = ''SUGGESTION'' \<and> Option.bind anchor pn_source = None)
         in asks st = (if refused then None else Some (MApi (MCreateThread (as_id p) (annotation_body type message anchor)))) \<and>
            (if refused then settled (snd st) \<and> map_option snd (reviewNotice (fst st)) = Some True
             else (let failed = replied [Inl e] st; ok = replied [Inr BUnit] st
                   in settled (snd failed) \<and> reviewNotice (fst failed) = Some (err_message e, True) \<and>
                      pendingAnchor (fst failed) = pendingAnchor s \<and> threadMessage (fst failed) = threadMessage s \<and>
                      pendingAnchor (fst ok) = None \<and> threadMessage (fst ok) = [] \<and>
                      is_hidden (fst ok) Rv_reviewPopover \<and> asks ok = Some (MApi (MThreads (as_id p)))))"
  using assms
  by (auto simp: Let_def asks_def mentor_run_defs createAnnotation_def refusal_def mentor_notice_def refresh_after)

section \<open>Events that cross\<close>

text \<open>
  C31. Opening a paper asks for its threads, rounds and build only once the live source is ready. A file that is
  clicked before that destroys the session being waited for, which is then never ready, whatever happens: the
  opening never goes on, and threads, rounds and the review gate remain those of the paper before.
\<close>

theorem opening_hangs_when_superseded:
  assumes "List.find (\<lambda>f. Some (fl_path f) = pd_main d) fs = Some f"
  shows "let st = replied [Inr (BDetail d), Inr (BFiles fs), Inr (BFile f)] (mentor_run (ClickAssigned p) s);
             i = length (readers s)
         in asks st = Some (ReaderReady i) \<and> threads (fst st) = threads s \<and> rounds (fst st) = rounds s \<and>
            reviewOpen (fst st) = reviewOpen s \<and> paper (fst st) = Some p \<and>
            (\<forall>pg. page_reach (range mentor_run) (fst (mentor_run (ClickReviewFile g) (fst st))) pg
               \<longrightarrow> \<not> rd_ready (readers (fst pg) ! i))"
proof -
  define st where "st = replied [Inr (BDetail d), Inr (BFiles fs), Inr (BFile f)] (mentor_run (ClickAssigned p) s)"
  have st: "asks st = Some (ReaderReady (length (readers s)))" "threads (fst st) = threads s"
    "rounds (fst st) = rounds s" "reviewOpen (fst st) = reviewOpen s" "paper (fst st) = Some p"
    "collaboration (fst st) = Some (length (readers s))"
    "\<exists>rs. readers (fst st) = rs @ [new_reader (pd_paper d) f] \<and> length rs = length (readers s)"
    using assms
    by (simp_all add: st_def asks_def mentor_run_defs openReviewPaper_def promise_all_def settle_all_def
        paper_and_files_def openReviewFile_def first_file_def)
  define s1 where "s1 = fst (mentor_run (ClickReviewFile g) (fst st))"
  have "s1 = disposeSource (fst st)"
    using st(5) by (simp add: s1_def mentor_run_defs openReviewFile_def)
  then have "never_ready (length (readers s)) s1"
    using st(6,7) by (auto simp: never_ready_def disposeSource_def upd_reader_def destroy_reader_def new_reader_def
        nth_append)
  then have "never_ready (length (readers s)) (fst pg)" if "page_reach (range mentor_run) s1 pg" for pg
    using dead.page_run [OF that] by (simp add: preserves_def)
  then have "\<forall>pg. page_reach (range mentor_run) s1 pg \<longrightarrow> \<not> rd_ready (readers (fst pg) ! length (readers s))"
    by (simp add: never_ready_def)
  with st(1-5) show ?thesis unfolding Let_def st_def [symmetric] s1_def [symmetric] by blast
qed

theorem opening_hangs_when_superseded_witness:
  "asks (replied [Inr (BDetail demo_rdetail), Inr (BFiles [demo_rfile]), Inr (BFile demo_rfile)]
     (mentor_run (ClickAssigned demo_assigned) demo_mentor)) = Some (ReaderReady 0)"
  using opening_hangs_when_superseded [of demo_rdetail "[demo_rfile]" demo_rfile demo_assigned demo_mentor demo_rfile]
  by (simp add: Let_def demo_rdetail_def demo_rfile_def demo_mentor_def mentor_init_def)

theorem annotation_is_guarded_witness:
  "asks (mentor_run (ClickCreate ''COMMENT'')
      (demo_mentor\<lparr>paper := Some demo_assigned, reviewOpen := True, threadMessage := ''ok''\<rparr>))
    = Some (MApi (MCreateThread ''p1'' (annotation_body ''COMMENT'' ''ok'' None)))"
proof -
  have "js_trim ''ok'' = ''ok''" by code_simp
  then show ?thesis
    using annotation_is_guarded [of "demo_mentor\<lparr>paper := Some demo_assigned, reviewOpen := True, threadMessage := ''ok''\<rparr>"
        demo_assigned "''COMMENT''" "refusal []"]
    by (simp add: Let_def demo_mentor_defs)
qed

text \<open>
  Opening a paper drops the PDF but not the note of which build it was: a paper that is opened again (by a click,
  a restoration or a change of policy) while the same build is current has no PDF, and no refresh loads one.
\<close>

theorem reopened_paper_loses_pdf:
  assumes "current_build_id (bs_build b) = pdfBuildId s"
  shows "let s1 = fst (mentor_run (ClickAssigned p) s); refresh = mentor_run Ticks s1;
             st = replied [Inr (BBuild b)] refresh
         in pdf s1 = None \<and> asks refresh = Some (MApi (MBuildStatus (as_id p))) \<and>
            asks st = Some (MApi MPapers) \<and> pdf (fst st) = None \<and>
            settled (snd (replied [Inr (BPapers ps)] st)) \<and> pdf (fst (replied [Inr (BPapers ps)] st)) = None"
proof -
  have "pdf (show_assigned ps u) = pdf u" "pdf (set_text c x u) = pdf u" "pdfBuildId (set_text c x u) = pdfBuildId u"
    for u c x by (simp_all add: show_assigned_def set_text_def Let_def)
  then show ?thesis
    using assms
    by (simp add: Let_def asks_def mentor_run_defs openReviewPaper_def promise_all_def settle_all_def mentor_tick_def
        together_def refreshBuild_def refreshAssigned_def)
qed

theorem reopened_paper_loses_pdf_witness:
  "pdf (fst (replied [Inr (BBuild demo_build)]
     (mentor_run Ticks (fst (mentor_run (ClickAssigned demo_assigned) (demo_mentor\<lparr>pdfBuildId := Some ''b1''\<rparr>)))))) = None"
  using reopened_paper_loses_pdf [of demo_build "demo_mentor\<lparr>pdfBuildId := Some ''b1''\<rparr>" demo_assigned]
  by (simp add: Let_def demo_build_def)

text \<open>
  A change of the paper's version, or of its policy, that arrives while the composer is open discards the pending
  anchor and leaves the composer as it is, with the anchor's summary and the text: the comment that is then created
  has no anchor at all.
\<close>

theorem reload_drops_anchor:
  assumes "m = PaperEpochChanged \<or> m = PolicyChanged reason"
    and "i < length (readers s)" "rd_open (readers s ! i)" "paper s = Some p" "reviewOpen s"
    and "js_trim (threadMessage s) \<noteq> []" "\<not> is_hidden s Rv_reviewPopover"
  shows "let s1 = fst (mentor_run (Message i m) s)
         in \<not> is_hidden s1 Rv_reviewPopover \<and> text_of s1 Rv_anchorSummary = text_of s Rv_anchorSummary \<and>
            threadMessage s1 = threadMessage s \<and>
            asks (mentor_run (ClickCreate ''COMMENT'') s1)
              = Some (MApi (MCreateThread (as_id p) (annotation_body ''COMMENT'' (js_trim (threadMessage s)) None)))"
  using assms
  by (elim disjE) (simp_all add: Let_def asks_def mentor_run_defs receiveMessage_def reopenReviewPaper_def
      openReviewPaper_def promise_all_def settle_all_def createAnnotation_def mentor_notice_def)

definition demo_composing :: mentor where
  "demo_composing = demo_mentor\<lparr>paper := Some demo_assigned, reviewOpen := True, threadMessage := ''ok'',
     readers := [new_reader ''p1'' demo_rfile], collaboration := Some 0,
     is_hidden := (is_hidden demo_mentor)(Rv_reviewPopover := False)\<rparr>"

theorem reload_drops_anchor_witness:
  "asks (mentor_run (ClickCreate ''COMMENT'') (fst (mentor_run (Message 0 PaperEpochChanged) demo_composing)))
    = Some (MApi (MCreateThread ''p1'' (annotation_body ''COMMENT'' ''ok'' None)))"
proof -
  have "js_trim ''ok'' = ''ok''" by code_simp
  then show ?thesis
    using reload_drops_anchor [of PaperEpochChanged None 0 demo_composing demo_assigned]
    by (simp add: Let_def demo_composing_def new_reader_def demo_mentor_defs)
qed

text \<open>
  A region of the PDF is mapped for the page it was drawn on, but its anchor takes the page that is shown when
  the answer arrives.
\<close>

theorem region_takes_later_page:
  assumes "dragStart s = Some (x0, y0)" "viewport s = Some (w, h)" "paper s = Some p" "reviewOpen s"
    and "normalizeRectangle (rounding s) \<lparr>x1 = x0, y1 = y0, x2 = x, y2 = y\<rparr> w h = Inr r"
    and "rounding s (5 / 1000) \<le> rwidth r" "rounding s (5 / 1000) \<le> rheight r" "mapped_file_id m = None"
  shows "asks (mentor_run (PointerUp x y) s) = Some (MApi (MMap (as_id p) (inverse_body (page s)
      (region_middle (rounding s) (rx r) (rwidth r) w (scale s)) (region_middle (rounding s) (ry r) (rheight r) h (scale s)))))
    \<and> (let s2 = fst (deliver [] (Inr (BMapped m)) (snd (mentor_run (PointerUp x y) s)) s')
       in \<exists>k a q. pendingAnchor s2 = Some (k, a) \<and> pn_pdf a = Some q \<and> pl_page q = page s' \<and>
            normalized_rectangles q = [r])"
  using assms
  by (simp add: Let_def asks_def mentor_run_defs pointer_up_def region_anchor_def show_overlays_def set_anchor_def)

theorem region_takes_later_page_witness:
  "\<exists>k a q. pendingAnchor (fst (deliver [] (Inr (BMapped unmapped))
      (snd (mentor_run (PointerUp 50 100) (demo_mentor\<lparr>dragStart := Some (0, 0), viewport := Some (100, 200),
         paper := Some demo_assigned, reviewOpen := True\<rparr>))) (demo_mentor\<lparr>page := 4\<rparr>))) = Some (k, a)
     \<and> pn_pdf a = Some q \<and> pl_page q = 4"
proof -
  let ?s = "demo_mentor\<lparr>dragStart := Some (0, 0), viewport := Some (100, 200), paper := Some demo_assigned,
     reviewOpen := True\<rparr>"
  have r: "normalizeRectangle (rounding ?s) \<lparr>x1 = 0, y1 = 0, x2 = 50, y2 = 100\<rparr> 100 200
      = Inr \<lparr>rx = 0, ry = 0, rwidth = 1 / 2, rheight = 1 / 2\<rparr>"
    by (simp add: normalizeRectangle_def demo_mentor_def mentor_init_def Let_def max_def min_def)
  show ?thesis
    using region_takes_later_page [OF _ _ _ _ r, where m = unmapped and p = demo_assigned
        and s' = "demo_mentor\<lparr>page := 4\<rparr>"]
    by (simp add: Let_def unmapped_def demo_mentor_def mentor_init_def) blast
qed

text \<open>
  Going to a thread replaces the pending source selection by the thread's place in the PDF, but leaves its summary
  and the button that opens the composer: the annotation then created has no source, and the place of the thread.
\<close>

theorem focus_replaces_selection:
  assumes "mt_pdf t = None" "mt_source t = Some a" "\<not> sa_file_deleted a" "paper s = Some p"
    and "List.find (\<lambda>f. fl_id f = sa_file_id a) (files s) = Some f" "file_shown s = Some f0" "fl_id f0 = fl_id f"
    and "thread_range a s = Some (Some r)" "view s = Some v" "range_to r \<le> length (reader_text s (rv_reader v))"
    and "pdf s = Some d" "viewport s = Some sz" "mapped_page m = Some (page s)" "page s \<noteq> 0" "mapped_x m = Some x"
  shows "let st = replied [Inr (BMapped m)] (mentor_run (ClickThread t) s)
         in settled (snd st) \<and>
            (\<exists>k q. pendingAnchor (fst st) = Some (k, \<lparr>pn_source = None, pn_pdf = Some q\<rparr>) \<and> pl_page q = page s) \<and>
            pendingAnchorSummary (fst st) = pendingAnchorSummary s \<and>
            is_off (fst st) Rv_reviewSelection = is_off s Rv_reviewSelection"
proof -
  have shown: "reader_text (select_range b c u) i = reader_text u i"
    "reader_text (u\<lparr>suppressSelection := g\<rparr>) i = reader_text u i"
    "view (select_range b c u) = map_option (\<lambda>v. v\<lparr>rv_from := b, rv_to := c\<rparr>) (view u)"
    "paper (select_range b c u) = paper u" "pdf (select_range b c u) = pdf u" "page (select_range b c u) = page u"
    "viewport (select_range b c u) = viewport u" "file_shown (select_range b c u) = file_shown u"
    "is_off (select_range b c u) = is_off u" "pendingAnchorSummary (select_range b c u) = pendingAnchorSummary u"
    for b c u i g by (simp_all add: reader_text_def select_range_def split: option.split)
  have notice: "mentor_notice w g u = u\<lparr>reviewNotice := Some (w, g)\<rparr>" for w g u by (simp add: mentor_notice_def)
  show ?thesis
    using assms
    by (simp add: Let_def split_beta mentor_run_defs focusThread_def focus_source_def open_if_other_def show_range_def
        dispatch_selection_def project_thread_def pdfAnchorFromMapping_def new_place_def show_overlays_def
        set_anchor_def shown notice)
qed

section \<open>Failures\<close>

text \<open>
  A reply, a change of state, an opening or a change of page that the server or the PDF fails is not reported: the
  call rejects, and the notice is the one from before.
\<close>

theorem mentor_failures_unreported:
  assumes "paper s = Some p" "pdf s = Some d" "truthy text"
    and "e \<in> {ClickReplyTo t text, ClickTransition t st, ClickReviewFile f, ClickZoomIn, ClickZoomOut}"
  shows "let (s1, t1) = replied [Inl err] (mentor_run e s) in t1 = Failed err \<and> reviewNotice s1 = reviewNotice s"
  using assms
  by (auto simp: Let_def mentor_run_defs reply_def transition_def openReviewFile_def zoomIn_def zoomOut_def renderPage_def)

end
