(* ===== verification/AdminText.thy ===== *)
theory AdminText
  imports PaperApi JsSort
begin

text \<open>
  The administration page, \<^verbatim>\<open>services/server/static/admin.js\<close>: its functions on text alone. Labels
  (\<open>humanLabel\<close>, \<open>datasetLabel\<close>), the CSV file of generated credentials (\<open>csvCell\<close>, \<open>credentialsCsv\<close>), query strings,
  and the recognition of the dataset that a CSV file holds. Capitals are those of the code units below 256;
  the capital of a sharp s is two letters.
\<close>

section \<open>Labels\<close>

definition js_upper_char :: "char \<Rightarrow> jsstr" where
  "js_upper_char c =
     (let n = (of_char c :: nat)
      in if 97 \<le> n \<and> n \<le> 122 \<or> 224 \<le> n \<and> n \<le> 254 \<and> n \<noteq> 247 then [char_of (n - 32)]
         else if n = 223 then ''SS'' else [c])"

text \<open>\<open>replace(/(^|\s)\S/g, toUpperCase)\<close>: a visible character at the start or after a space. \<open>start\<close> tells which.\<close>

fun capitalize :: "bool \<Rightarrow> jsstr \<Rightarrow> jsstr" where
  "capitalize start [] = []"
| "capitalize start (c # s) =
     (if js_space c then c # capitalize True s
      else (if start then js_upper_char c else [c]) @ capitalize False s)"

definition humanLabel :: "jsstr option \<Rightarrow> jsstr" where
  "humanLabel value = capitalize True (js_lower (underscores_to_spaces (case value of None \<Rightarrow> [] | Some s \<Rightarrow> s)))"

definition adminReviewRoundLabel :: "bool \<Rightarrow> jsstr option \<Rightarrow> jsstr" where
  "adminReviewRoundLabel reviewOpen roundStatus =
     (if reviewOpen \<or> roundStatus = Some ''OPEN_FOR_REVIEW'' then ''In review'' else ''Review closed'')"

definition word_char :: "char \<Rightarrow> bool" where
  "word_char c \<longleftrightarrow> (let n = (of_char c :: nat)
     in 65 \<le> n \<and> n \<le> 90 \<or> 97 \<le> n \<and> n \<le> 122 \<or> 48 \<le> n \<and> n \<le> 57 \<or> n = 95)"

text \<open>\<open>replace(/\b\w/g, toUpperCase)\<close>.\<close>

fun title_case :: "bool \<Rightarrow> jsstr \<Rightarrow> jsstr" where
  "title_case start [] = []"
| "title_case start (c # s) =
     (if word_char c then (if start then js_upper_char c else [c]) @ title_case False s else c # title_case True s)"

definition datasetLabel :: "jsstr \<Rightarrow> jsstr" where
  "datasetLabel value =
     (if value = ''paper_teams'' then ''Paper Assignments'' else title_case True (underscores_to_spaces value))"

section \<open>The credentials file\<close>

record credential =
  cred_email :: "jsstr option"
  temporary_password :: "jsstr option"
  credential_role :: "jsstr option"

abbreviation quote_mark :: char where "quote_mark \<equiv> CHR 0x22"
abbreviation CR :: char where "CR \<equiv> CHR 0x0D"
abbreviation LF :: char where "LF \<equiv> CHR 0x0A"

definition csv_special :: "char \<Rightarrow> bool" where
  "csv_special c \<longleftrightarrow> c \<in> {quote_mark, CHR '','', LF, CR}"

definition csvCell :: "jsstr option \<Rightarrow> jsstr" where
  "csvCell value =
     (let s = (case value of None \<Rightarrow> [] | Some s \<Rightarrow> s)
      in if \<exists>c\<in>set s. csv_special c
         then quote_mark # concat (map (\<lambda>c. if c = quote_mark then [c, c] else [c]) s) @ [quote_mark]
         else s)"

definition credential_line :: "credential \<Rightarrow> jsstr" where
  "credential_line i = js_join '','' (map csvCell [cred_email i, temporary_password i, credential_role i])"

definition credentialsCsv :: "credential list \<Rightarrow> jsstr" where
  "credentialsCsv credentials =
     js_join [CR, LF] (''email,password,role'' # map credential_line credentials) @ [CR, LF]"

text \<open>
  What a reader of CSV (RFC 4180) finds in a file: a machine over the characters, with the rows read, the cells
  of the current row, and the current cell. \<^const>\<open>None\<close> is a malformed file.
\<close>

datatype csv_mode = CellStart | Plain | Quoted | AfterQuote | AfterCr

type_synonym csv_state = "jsstr list list \<times> jsstr list \<times> jsstr \<times> csv_mode"

fun csv_end :: "char \<Rightarrow> jsstr list list \<times> jsstr list \<times> jsstr \<Rightarrow> csv_state option" where
  "csv_end c (rows, row, cell) =
     (if c = CHR '','' then Some (rows, row @ [cell], [], CellStart)
      else if c = CR then Some (rows, row @ [cell], [], AfterCr) else None)"

fun csv_char :: "char \<Rightarrow> csv_state \<Rightarrow> csv_state option" where
  "csv_char c (rows, row, cell, CellStart) =
     (if c = quote_mark then Some (rows, row, [], Quoted)
      else if csv_special c then csv_end c (rows, row, []) else Some (rows, row, [c], Plain))"
| "csv_char c (rows, row, cell, Plain) =
     (if csv_special c then csv_end c (rows, row, cell) else Some (rows, row, cell @ [c], Plain))"
| "csv_char c (rows, row, cell, Quoted) =
     (if c = quote_mark then Some (rows, row, cell, AfterQuote) else Some (rows, row, cell @ [c], Quoted))"
| "csv_char c (rows, row, cell, AfterQuote) =
     (if c = quote_mark then Some (rows, row, cell @ [c], Quoted) else csv_end c (rows, row, cell))"
| "csv_char c (rows, row, cell, AfterCr) = (if c = LF then Some (rows @ [row], [], [], CellStart) else None)"

definition csv_run :: "csv_state option \<Rightarrow> jsstr \<Rightarrow> csv_state option" where
  "csv_run st s = foldl (\<lambda>st c. Option.bind st (csv_char c)) st s"

definition read_csv :: "jsstr \<Rightarrow> jsstr list list option" where
  "read_csv s = (case csv_run (Some ([], [], [], CellStart)) s of
       Some (rows, [], [], CellStart) \<Rightarrow> Some rows | _ \<Rightarrow> None)"

section \<open>Query strings\<close>

text \<open>The serializer of \<open>URLSearchParams\<close> (the urlencoded form of the URL standard). The keys of an object differ.\<close>

definition form_byte :: "nat \<Rightarrow> jsstr" where
  "form_byte b =
     (if b = 32 then ''+''
      else if b \<in> {42, 45, 46, 95} \<or> 48 \<le> b \<and> b \<le> 57 \<or> 65 \<le> b \<and> b \<le> 90 \<or> 97 \<le> b \<and> b \<le> 122 then [char_of b]
      else [CHR ''%'', hex_digit (b div 16), hex_digit (b mod 16)])"

definition form_encode :: "jsstr \<Rightarrow> jsstr" where
  "form_encode s = concat (map form_byte (utf8_bytes s))"

definition query_values :: "(jsstr \<times> jsstr option) list \<Rightarrow> (jsstr \<times> jsstr) list" where
  "query_values values = List.map_filter (\<lambda>(k, v). if truthy v then Some (k, the v) else None) values"

definition queryString :: "(jsstr \<times> jsstr option) list \<Rightarrow> jsstr" where
  "queryString values =
     js_join ''&'' (map (\<lambda>(k, v). form_encode k @ ''='' @ form_encode v) (query_values values))"

section \<open>Datasets\<close>

definition institutionTargets :: "jsstr list" where
  "institutionTargets = [''departments'', ''admins'', ''faculty'', ''programmes'', ''schools'', ''students'',
     ''student_course_registrations'', ''faculty_guide_capacity'', ''department_roles'', ''faculty_roles'',
     ''paper_teams'', ''paper_team_writers'', ''paper_team_mentors'']"

definition columns_table :: "(jsstr \<times> jsstr list) list" where
  "columns_table =
     [(''departments'', [''department_id'']),
      (''admins'', [''admin_id'', ''email'', ''name'', ''pfp'']),
      (''faculty'', [''faculty_id'', ''name'', ''email'', ''dept_id'', ''honorific'', ''designation'', ''status'']),
      (''programmes'', [''programme_code'', ''hod_id'']),
      (''schools'', [''school_id'']),
      (''students'', [''reg_no'', ''name'', ''email'', ''programme_code'']),
      (''student_course_registrations'',
         [''student_reg_no'', ''course_id'', ''academic_year'', ''semester'', ''registration_status'']),
      (''faculty_guide_capacity'', [''capacity_id'', ''faculty_id'', ''academic_year'', ''ug_max_projects'',
         ''pg_max_projects'', ''integrated_pg_max_projects'', ''status'']),
      (''department_roles'', [''id'', ''dept_id'', ''role_type'', ''faculty_id'']),
      (''faculty_roles'', [''role_id'', ''faculty_id'', ''role_type'', ''school_id'', ''department_id'',
         ''programme_code'', ''status'']),
      (''paper_teams'', [''external_team_key'', ''team_name'', ''academic_year'', ''semester'', ''status'']),
      (''paper_team_writers'', [''external_team_key'', ''student_reg_no'', ''writer_order'', ''is_leader'']),
      (''paper_team_mentors'', [''external_team_key'', ''faculty_id''])]"

definition targetColumns :: "jsstr \<Rightarrow> jsstr list" where
  "targetColumns t = (case map_of columns_table t of None \<Rightarrow> [] | Some cs \<Rightarrow> cs)"

text \<open>\<open>name.replace(/\.csv$/i, '').toLowerCase().replace(/[^a-z0-9]+/g, '_')\<close>.\<close>

definition drop_csv :: "jsstr \<Rightarrow> jsstr" where
  "drop_csv s = (if js_endsWith (js_lower s) ''.csv'' then take (length s - 4) s else s)"

definition plain_char :: "char \<Rightarrow> bool" where
  "plain_char c \<longleftrightarrow> (let n = (of_char c :: nat) in 97 \<le> n \<and> n \<le> 122 \<or> 48 \<le> n \<and> n \<le> 57)"

fun squeeze :: "bool \<Rightarrow> jsstr \<Rightarrow> jsstr" where
  "squeeze after [] = []"
| "squeeze after (c # s) =
     (if plain_char c then c # squeeze False s
      else if after then squeeze True s else CHR ''_'' # squeeze True s)"

definition normalized_name :: "jsstr \<Rightarrow> jsstr" where
  "normalized_name s = squeeze False (js_lower (drop_csv s))"

definition names_target :: "jsstr \<Rightarrow> jsstr \<Rightarrow> bool" where
  "names_target normalized t \<longleftrightarrow>
     js_startsWith normalized (t @ ''_'') \<or> js_endsWith normalized (''_'' @ t) \<or>
     js_includes normalized (''_'' @ t @ ''_'')"

definition named_dataset :: "jsstr \<Rightarrow> jsstr option" where
  "named_dataset normalized =
     opt_or (List.find (\<lambda>t. normalized = t) institutionTargets)
       (case js_sort (\<lambda>l r. int (length r) - int (length l)) (filter (names_target normalized) institutionTargets) of
          [] \<Rightarrow> None | t # _ \<Rightarrow> Some t)"

text \<open>\<open>split(/\r?\n/, 1)[0]\<close>.\<close>

definition first_line :: "jsstr \<Rightarrow> jsstr" where
  "first_line s =
     (let l = takeWhile (\<lambda>c. c \<noteq> LF) s
      in if length l < length s \<and> l \<noteq> [] \<and> last l = CR then butlast l else l)"

text \<open>\<open>trim().replace(/^"|"$/g, '')\<close>.\<close>

definition header_cell :: "jsstr \<Rightarrow> jsstr" where
  "header_cell s =
     (let t = js_trim s; u = (if t \<noteq> [] \<and> hd t = quote_mark then tl t else t)
      in if u \<noteq> [] \<and> last u = quote_mark then butlast u else u)"

definition header_candidates :: "jsstr \<Rightarrow> jsstr list" where
  "header_candidates line =
     (let headers = map header_cell (js_split CHR '','' line)
      in filter (\<lambda>t. (\<forall>h\<in>set headers. h \<in> set (targetColumns t)) \<and> hd (targetColumns t) = hd headers)
           institutionTargets)"

record detected =
  dt_dataset :: jsstr
  dt_candidates :: "jsstr list"
  dt_status :: jsstr

definition is_xlsx :: "jsstr \<Rightarrow> bool" where
  "is_xlsx name = js_endsWith (js_lower name) ''.xlsx''"

text \<open>\<open>content\<close> is the text of the first 65536 bytes of the file.\<close>

definition detectInstitutionDataset :: "jsstr \<Rightarrow> jsstr \<Rightarrow> detected" where
  "detectInstitutionDataset name content =
     (if is_xlsx name
      then \<lparr>dt_dataset = [], dt_candidates = [], dt_status = ''Sheets detected by server''\<rparr>
      else let candidates = header_candidates (first_line content);
               dataset = (case named_dataset (normalized_name name) of Some t \<Rightarrow> t
                          | None \<Rightarrow> (case candidates of [t] \<Rightarrow> t | _ \<Rightarrow> []))
           in \<lparr>dt_dataset = dataset, dt_candidates = candidates,
               dt_status = (if dataset \<noteq> [] then ''Ready'' else if 1 < length candidates then ''What data is this?''
                            else ''Choose dataset'')\<rparr>)"

section \<open>Lemmas\<close>

lemma csv_run_append: "csv_run st (s @ t) = csv_run (csv_run st s) t"
  by (simp add: csv_run_def)

lemma csv_run_simps [simp]:
  "csv_run u [] = u" "csv_run (Some st) (c # s) = csv_run (csv_char c st) s"
  by (simp_all add: csv_run_def)

lemma csv_run_plain:
  "\<forall>c\<in>set s. \<not> csv_special c \<Longrightarrow> csv_run (Some (rows, row, cell, Plain)) s = Some (rows, row, cell @ s, Plain)"
  by (induction s arbitrary: cell) simp_all

lemma csv_run_quoted:
  "csv_run (Some (rows, row, cell, Quoted)) (concat (map (\<lambda>c. if c = quote_mark then [c, c] else [c]) s))
     = Some (rows, row, cell @ s, Quoted)"
  by (induction s arbitrary: cell) simp_all

text \<open>A written cell, followed by a separator, is read as its text.\<close>

lemma csv_run_cell:
  assumes "c \<in> {CHR '','', CR}"
  shows "csv_run (Some (rows, row, [], CellStart)) (csvCell v @ [c])
    = csv_end c (rows, row, case v of None \<Rightarrow> [] | Some s \<Rightarrow> s)"
proof -
  define s where "s = (case v of None \<Rightarrow> [] | Some s \<Rightarrow> s)"
  have sep: "csv_special c" "c \<noteq> quote_mark" using assms by (auto simp: csv_special_def)
  show ?thesis
  proof (cases "\<exists>c\<in>set s. csv_special c")
    case True
    then show ?thesis
      using sep by (simp add: csvCell_def s_def [symmetric] Let_def csv_run_append csv_run_quoted)
  next
    case False
    then have "csvCell v = s" by (simp add: csvCell_def s_def [symmetric] Let_def)
    moreover have "csv_run (Some (rows, row, [], CellStart)) (s @ [c]) = csv_end c (rows, row, s)"
    proof (cases s)
      case (Cons d t)
      with False have "\<not> csv_special d" "\<forall>c\<in>set t. \<not> csv_special c" by auto
      moreover from this(1) have "d \<noteq> quote_mark" by (auto simp: csv_special_def)
      ultimately show ?thesis using sep by (simp add: Cons csv_run_append csv_run_plain)
    qed (use sep in simp)
    ultimately show ?thesis by (simp add: s_def)
  qed
qed

definition csv_row :: "credential \<Rightarrow> jsstr list" where
  "csv_row i = map (\<lambda>v. case v of None \<Rightarrow> [] | Some s \<Rightarrow> s) [cred_email i, temporary_password i, credential_role i]"

lemma csv_run_row:
  "csv_run (Some (rows, [], [], CellStart)) (credential_line i @ CR # LF # s)
     = csv_run (Some (rows @ [csv_row i], [], [], CellStart)) s"
proof -
  have cell: "csv_run (Some (rows, row, [], CellStart)) (csvCell v @ CHR '','' # t)
      = csv_run (Some (rows, row @ [case v of None \<Rightarrow> [] | Some s \<Rightarrow> s], [], CellStart)) t" for row v t
    using csv_run_cell [of "CHR '',''" rows row v] csv_run_append [of _ "csvCell v @ '',''" t] by simp
  have last: "csv_run (Some (rows, row, [], CellStart)) (csvCell v @ CR # LF # t)
      = csv_run (Some (rows @ [row @ [case v of None \<Rightarrow> [] | Some s \<Rightarrow> s]], [], [], CellStart)) t" for row v t
    using csv_run_cell [of CR rows row v] csv_run_append [of _ "csvCell v @ [CR]" "LF # t"] by simp
  show ?thesis by (simp add: cell last csv_row_def credential_line_def)
qed

lemma csv_run_rows:
  "csv_run (Some (rows, [], [], CellStart)) (concat (map (\<lambda>i. credential_line i @ [CR, LF]) cs))
     = Some (rows @ map csv_row cs, [], [], CellStart)"
  by (induction cs arbitrary: rows) (simp_all add: csv_run_row)

lemma js_join_lines: "xs \<noteq> [] \<Longrightarrow> js_join sep xs @ sep = concat (map (\<lambda>x. x @ sep) xs)"
proof (induction xs)
  case (Cons x xs)
  then show ?case by (cases "xs = []") (simp_all add: js_join_Cons)
qed simp

text \<open>The urlencoded form is read back byte by byte.\<close>

definition form_read :: "jsstr \<Rightarrow> nat list" where
  "form_read s = percent_decode (map (\<lambda>c. if c = CHR ''+'' then CHR '' '' else c) s)"

definition form_parse :: "jsstr \<Rightarrow> (nat list \<times> nat list) list" where
  "form_parse s = map (\<lambda>kv. (form_read (takeWhile (\<lambda>c. c \<noteq> CHR ''='') kv),
       form_read (tl (dropWhile (\<lambda>c. c \<noteq> CHR ''='') kv)))) (filter (\<lambda>kv. kv \<noteq> []) (js_split CHR ''&'' s))"

lemma form_byte_chars:
  assumes "b < 256" "c \<in> set (form_byte b)"
  shows "c \<notin> {CHR ''&'', CHR ''=''}"
proof -
  have "hex_digit n \<notin> {CHR ''&'', CHR ''=''}" if "n < 16" for n
    using that by (auto simp: hex_digit_def char_of_eq_char)
  moreover have "b div 16 < 16" "b mod 16 < 16" using assms(1) by auto
  ultimately show ?thesis
    using assms by (auto simp: form_byte_def char_of_eq_char char_eq_char_of split: if_splits)
qed

lemma form_encode_chars: "c \<in> set (form_encode s) \<Longrightarrow> c \<notin> {CHR ''&'', CHR ''=''}"
  unfolding form_encode_def utf8_bytes_def using form_byte_chars by (auto dest!: utf8_byte)

lemma form_read_byte:
  assumes "b < 256"
  shows "percent_decode (map (\<lambda>c. if c = CHR ''+'' then CHR '' '' else c) (form_byte b) @ s) = b # percent_decode s"
proof -
  have "hex_digit n \<noteq> CHR ''+''" if "n < 16" for n
    using that by (auto simp: hex_digit_def char_of_eq_char)
  moreover have "b div 16 < 16" "b mod 16 < 16" using assms by auto
  ultimately show ?thesis
    using assms by (auto simp: form_byte_def char_of_eq_char hex_digit_val)
qed

lemma form_read_encode: "form_read (form_encode s) = utf8_bytes s"
proof -
  have "percent_decode (map (\<lambda>c. if c = CHR ''+'' then CHR '' '' else c) (concat (map form_byte bs))) = bs"
    if "\<forall>b\<in>set bs. b < 256" for bs
    using that by (induction bs) (simp_all add: form_read_byte)
  moreover have "\<forall>b\<in>set (utf8_bytes s). b < 256" by (auto simp: utf8_bytes_def dest: utf8_byte)
  ultimately show ?thesis unfolding form_read_def form_encode_def by blast
qed

lemma split_query:
  assumes "\<forall>w\<in>set ws. w \<noteq> [] \<and> d \<notin> set w"
  shows "filter (\<lambda>w. w \<noteq> []) (js_split d (js_join [d] ws)) = ws"
proof (cases "ws = []")
  case False
  with assms have "js_split d (js_join [d] ws) = ws" by (simp add: js_split_join)
  with assms show ?thesis by simp
qed simp

lemma first_line_header:
  assumes "LF \<notin> set h" "h \<noteq> [] \<Longrightarrow> last h \<noteq> CR"
  shows "first_line h = h" "first_line (h @ LF # r) = h" "first_line (h @ CR # LF # r) = h"
proof -
  have upto: "takeWhile (\<lambda>c. c \<noteq> LF) (w @ LF # r) = w" if "LF \<notin> set w" for w
    using that by (induction w) auto
  have "takeWhile (\<lambda>c. c \<noteq> LF) h = h" using assms(1) by (induction h) auto
  then show "first_line h = h" unfolding first_line_def Let_def by (metis less_irrefl)
  show "first_line (h @ LF # r) = h"
    using assms by (auto simp: first_line_def Let_def upto)
  show "first_line (h @ CR # LF # r) = h"
    using assms upto [of "h @ [CR]"] by (simp add: first_line_def Let_def)
qed

lemma every_header:
  "\<forall>t\<in>set institutionTargets. let h = js_join '','' (targetColumns t)
     in header_candidates h = [t] \<and> LF \<notin> set h \<and> h \<noteq> [] \<and> last h \<noteq> CR"
  by code_simp

lemma named_dataset_target: "named_dataset n = Some t \<Longrightarrow> t \<in> set institutionTargets"
  unfolding named_dataset_def
  by (auto simp: find_Some_iff opt_or_def split: option.splits list.splits
      dest!: arg_cong [where f = set])

lemma detected_dataset:
  assumes "\<not> is_xlsx name" "d = detectInstitutionDataset name content"
  shows "dt_dataset d \<in> insert [] (set institutionTargets)" "dt_status d = ''Ready'' \<longleftrightarrow> dt_dataset d \<noteq> []"
  using assms
  by (auto simp: detectInstitutionDataset_def Let_def header_candidates_def dest: named_dataset_target
      split: option.splits list.splits dest!: arg_cong [where f = set])

section \<open>Properties\<close>

text \<open>
  A CSV file whose first line is the header of a dataset, with any line ending and anything after it, is recognized
  as that dataset and no other, unless its name says otherwise: a name that contains the name of a dataset wins.
\<close>

theorem template_header_recognized:
  assumes "t \<in> set institutionTargets" "\<not> is_xlsx name"
    and "content \<in> {h, h @ LF # rest, h @ CR # LF # rest}" "h = js_join '','' (targetColumns t)"
  shows "detectInstitutionDataset name content
    = \<lparr>dt_dataset = (case named_dataset (normalized_name name) of None \<Rightarrow> t | Some u \<Rightarrow> u),
       dt_candidates = [t], dt_status = ''Ready''\<rparr>"
proof -
  have h: "header_candidates h = [t]" "LF \<notin> set h" "last h \<noteq> CR" and t: "t \<noteq> []"
    using every_header assms(1,4) by (auto simp: Let_def institutionTargets_def)
  from first_line_header [OF h(2)] h(3) assms(3) have "first_line content = h" by auto
  moreover have "named_dataset n = Some u \<Longrightarrow> u \<noteq> []" for n u
    by (drule named_dataset_target) (auto simp: institutionTargets_def)
  ultimately show ?thesis
    using h(1) t assms(2) by (auto simp: detectInstitutionDataset_def Let_def split: option.split)
qed

theorem template_header_recognized_witness:
  "dt_dataset (detectInstitutionDataset ''upload.csv'' (''external_team_key,faculty_id'' @ [CR, LF] @ ''t1,f1''))
    = ''paper_team_mentors''"
proof -
  have c: "''paper_team_mentors'' \<in> set institutionTargets" "\<not> is_xlsx ''upload.csv''"
    "''external_team_key,faculty_id'' = js_join '','' (targetColumns ''paper_team_mentors'')"
    "named_dataset (normalized_name ''upload.csv'') = None"
    by code_simp+
  show ?thesis
    using template_header_recognized [OF c(1,2) _ c(3),
        of "''external_team_key,faculty_id'' @ [CR, LF] @ ''t1,f1''" "''t1,f1''"] c(4) by simp
qed

text \<open>
  Whatever characters the addresses, passwords and roles have, a reader of CSV finds in the credentials file the
  header and then exactly the credentials, in order.
\<close>

theorem credentialsCsv_read_back:
  "read_csv (credentialsCsv cs) = Some ([''email'', ''password'', ''role''] # map csv_row cs)"
proof -
  have header: "''email,password,role'' = credential_line
      \<lparr>cred_email = Some ''email'', temporary_password = Some ''password'', credential_role = Some ''role''\<rparr>"
    by (simp add: credential_line_def csvCell_def csv_special_def Let_def)
  show ?thesis
    unfolding read_csv_def credentialsCsv_def header list.map(2) [symmetric]
    by (subst js_join_lines) (simp_all add: comp_def csv_run_rows csv_run_row csv_row_def)
qed

text \<open>
  The server reads from a query string exactly the values that are not empty, each whatever its characters, under
  their names.
\<close>

theorem queryString_read_back:
  "form_parse (queryString values) = map (\<lambda>(k, v). (utf8_bytes k, utf8_bytes v)) (query_values values)"
proof -
  let ?w = "\<lambda>(k, v). form_encode k @ ''='' @ form_encode v"
  have amp: "CHR ''&'' \<notin> set (form_encode s)" "CHR ''='' \<notin> set (form_encode s)" for s
    using form_encode_chars by blast+
  then have "\<forall>w\<in>set (map ?w (query_values values)). w \<noteq> [] \<and> CHR ''&'' \<notin> set w" by auto
  from split_query [OF this]
  have "form_parse (queryString values) = map (\<lambda>kv. (form_read (takeWhile (\<lambda>c. c \<noteq> CHR ''='') kv),
       form_read (tl (dropWhile (\<lambda>c. c \<noteq> CHR ''='') kv)))) (map ?w (query_values values))"
    by (simp only: form_parse_def queryString_def)
  moreover have "takeWhile (\<lambda>c. c \<noteq> CHR ''='') (form_encode k @ CHR ''='' # v) = form_encode k"
    "dropWhile (\<lambda>c. c \<noteq> CHR ''='') (form_encode k @ CHR ''='' # v) = CHR ''='' # v" for k v
    using amp(2) [of k] by (auto simp: takeWhile_tail dropWhile_append3 takeWhile_eq_all_conv)
  ultimately show ?thesis by (auto simp: form_read_encode comp_def)
qed

end
