(* ===== verification/AdminData.thy ===== *)
theory AdminData
  imports AdminText
begin

text \<open>
  What the administration page, \<^verbatim>\<open>services/server/static/admin.js\<close>, exchanges with the server: the data of its
  sections, its requests, and the wrapper \<open>api\<close> of \<^verbatim>\<open>services/server/static/api.js\<close> that makes them. A missing or
  \<open>null\<close> field is \<^const>\<open>None\<close>. A chosen file is a value of \<open>upload\<close>.
\<close>

section \<open>Data\<close>

record upload =
  up_name :: jsstr
  up_size :: nat
  up_modified :: nat
  up_content :: jsstr

record named_item =
  ni_id :: jsstr
  ni_name :: jsstr

record overview_data =
  counts :: "jsstr \<Rightarrow> nat option"
  latest_import_status :: "jsstr option"
  mail_delivery_enabled :: bool

record admin_review =
  ar_paper :: jsstr
  ar_name :: jsstr
  ar_open :: bool
  ar_round_status :: "jsstr option"
  ar_mentor :: jsstr
  ar_round :: "jsstr option"
  ar_current_round :: "jsstr option"
  ar_state :: jsstr
  ar_severity :: jsstr
  ar_created :: jsstr
  ar_updated :: "jsstr option"

record team_version =
  tv_paper :: jsstr
  tv_type :: jsstr
  tv_author :: jsstr
  tv_created :: jsstr

record build_job =
  bj_workspace :: jsstr
  bj_requester :: "jsstr option"
  bj_state :: jsstr
  bj_created :: jsstr
  bj_started :: "jsstr option"
  bj_finished :: "jsstr option"

record audit_event =
  ae_event :: jsstr
  ae_resource :: "jsstr option"
  ae_resource_id :: "jsstr option"
  ae_actor :: "jsstr option"
  ae_created :: jsstr

record system_data =
  sy_version :: jsstr
  sy_database :: jsstr
  sy_queue :: jsstr
  sy_compiler :: jsstr

record template =
  tp_id :: jsstr
  tp_name :: jsstr
  tp_description :: "jsstr option"
  tp_tex_files :: "jsstr list"
  tp_main_file :: jsstr
  tp_compatible :: bool
  tp_created :: jsstr
  tp_pinned :: bool
  tp_usage :: nat

record archive_entry =
  ent_path :: jsstr
  ent_size :: nat
  ent_is_tex :: bool
  ent_compatible :: bool

record archive_preview =
  pv_files :: "archive_entry list"
  pv_detected_main :: "jsstr option"

record v2_user =
  us_id :: jsstr
  us_email :: jsstr
  us_role :: "jsstr option"
  us_enabled :: bool
  us_must_change :: bool
  us_delivery_status :: "jsstr option"
  us_delivery_expired :: bool
  us_delivery_id :: "jsstr option"
  us_created :: jsstr
  us_legacy :: "jsstr option"
  us_migration :: "jsstr option"

record reset_result =
  rr_email :: jsstr
  rr_password :: "jsstr option"
  rr_role :: jsstr
  rr_user :: jsstr
  rr_queued :: bool

record provisioning =
  pr_created :: nat
  pr_queued :: nat
  pr_reused :: nat
  pr_attention :: nat
  pr_credentials :: "credential list"

record person =
  pe_id :: jsstr
  pe_email :: jsstr

record team_member = person +
  mb_role :: jsstr
  mb_order :: nat
  mb_leader :: bool

record team_row =
  tr_id :: "jsstr option"
  tr_name :: jsstr
  tr_unresolved :: bool
  tr_job :: "jsstr option"

record team_detail =
  td_name :: jsstr
  td_members :: "team_member list"
  td_template :: "jsstr option"
  td_template_name :: "jsstr option"
  td_pack :: "jsstr option"

record 'i page_of =
  pg_items :: "'i list"
  pg_page :: nat
  pg_total :: nat
  pg_has_more :: bool

record template_conflict =
  tc_path :: jsstr
  tc_reason :: jsstr

record template_change =
  ch_token :: jsstr
  ch_conflicts :: "template_conflict list"
  ch_main_changed :: bool
  ch_main_from :: jsstr
  ch_main_to :: jsstr
  ch_updates :: nat
  ch_adds :: nat

record bulk_result =
  bk_succeeded :: nat
  bk_failed :: nat

record import_batch =
  ib_id :: jsstr
  ib_operation :: jsstr
  ib_status :: jsstr
  ib_error_rows :: nat
  ib_total_rows :: nat
  ib_total_files :: nat

record batch_issue =
  bi_dataset :: jsstr
  bi_row :: nat
  bi_problem :: "jsstr option"
  bi_code :: jsstr

record batch_detail =
  bd_batch :: import_batch
  bd_issues :: "batch_issue list"
  bd_provisioning :: "provisioning option"

record import_job =
  ij_id :: jsstr
  ij_mode :: jsstr
  ij_status :: jsstr
  ij_error_rows :: nat
  ij_filename :: jsstr

record apply_result =
  ap_created :: nat
  ap_merged :: nat
  ap_unresolved :: nat
  ap_total_rows :: nat
  ap_provisioning :: "provisioning option"

record imported =
  imp_name :: jsstr
  imp_files :: nat
  imp_identity :: jsstr

record pack_section =
  ps_label :: jsstr
  ps_required :: bool
  ps_file :: jsstr

record pack_field =
  pf_label :: jsstr
  pf_type :: jsstr
  pf_source :: "jsstr option"
  pf_default :: bool  \<comment> \<open>whether the field has a default\<close>

record pack_preview =
  pk_entry_file :: jsstr
  pk_sections :: "pack_section list"
  pk_fields :: "pack_field list"
  pk_files :: "(jsstr \<times> nat) list"

record resolved =
  rs_method :: jsstr
  rs_programme :: jsstr
  rs_template :: jsstr
  rs_pack :: "jsstr option"

record default_mapping =
  dm_programme :: jsstr
  dm_template :: "jsstr option"
  dm_pack :: "jsstr option"

record identity_link =
  il_type :: jsstr
  il_external :: jsstr
  il_status :: jsstr

record file_policy =
  fp_file :: jsstr
  fp_path :: jsstr
  fp_policy :: jsstr

section \<open>Requests\<close>

datatype form_value = FText jsstr | FFile upload

datatype admin_body = ANone | AJson json | AForm "(jsstr \<times> form_value) list"

record admin_request =
  aq_path :: jsstr
  aq_method :: jsstr
  aq_body :: admin_body

datatype (plugins only: size) admin_api =
    Overview | Templates | Packs | V2Users | TeamVersions | AdminReviews | Jobs | Audit | System
  | PreviewTemplate upload | ImportTemplate jsstr jsstr jsstr upload | EditTemplate jsstr jsstr jsstr jsstr
  | RemoveTemplate jsstr | PreviewPack upload | ImportPack jsstr jsstr upload | ViewPack jsstr
  | EditPack jsstr jsstr jsstr | RemovePack jsstr
  | CreateUser jsstr "jsstr option" jsstr bool | SetEnabled jsstr bool | SetRole jsstr jsstr | ResetPassword jsstr
  | RetryEmail jsstr | SearchPeople jsstr jsstr | ResolveDefaults "jsstr list"
  | CreateTeam json | TeamDetail jsstr | SaveTeam jsstr json | SetTeamStatus jsstr jsstr
  | PreviewChange jsstr jsstr bool | ApplyChange jsstr jsstr jsstr bool | SetFrontMatter jsstr "jsstr option"
  | QueryTeams "(jsstr \<times> jsstr option) list" | BulkLifecycle "jsstr list" jsstr
  | ImportJob jsstr | ApplyJob jsstr | RetryTeams jsstr | BatchDetail jsstr | ApplyBatch jsstr
  | ValidateBatch "(jsstr \<times> form_value) list" | ListBatches "(jsstr \<times> jsstr option) list"
  | ValidateRecord jsstr jsstr "(jsstr \<times> jsstr) list" | DataPage jsstr "(jsstr \<times> jsstr option) list"
  | TeamsForPolicies | FilePolicies jsstr | SetPolicy jsstr jsstr jsstr
  | ProgrammeDefaults | GlobalFallback | SaveFallback jsstr | SaveGlobalFront "jsstr option"
  | SaveProgramme jsstr jsstr | SaveProgrammeFront jsstr "jsstr option" | RemoveMapping jsstr
  | IdentityLinks "(jsstr \<times> jsstr option) list" | Unlink jsstr jsstr | LinkAccount jsstr jsstr jsstr

definition a_get :: "jsstr \<Rightarrow> admin_request" where
  "a_get path = \<lparr>aq_path = path, aq_method = ''GET'', aq_body = ANone\<rparr>"

definition a_json :: "jsstr \<Rightarrow> jsstr \<Rightarrow> json \<Rightarrow> admin_request" where
  "a_json path verb body = \<lparr>aq_path = path, aq_method = verb, aq_body = AJson body\<rparr>"

definition a_form :: "jsstr \<Rightarrow> (jsstr \<times> form_value) list \<Rightarrow> admin_request" where
  "a_form path body = \<lparr>aq_path = path, aq_method = ''POST'', aq_body = AForm body\<rparr>"

definition a_delete :: "jsstr \<Rightarrow> admin_request" where
  "a_delete path = \<lparr>aq_path = path, aq_method = ''DELETE'', aq_body = ANone\<rparr>"

abbreviation v2_path :: "jsstr \<Rightarrow> jsstr" where "v2_path p \<equiv> ''/api/admin/v2/'' @ p"
abbreviation inst_path :: "jsstr \<Rightarrow> jsstr" where "inst_path p \<equiv> ''/api/admin/v2/institution/'' @ p"

definition json_opt :: "jsstr option \<Rightarrow> json" where
  "json_opt v = (case v of None \<Rightarrow> JNull | Some s \<Rightarrow> JStr s)"

text \<open>\<open>payload[key] = value === '' ? null : value\<close>.\<close>

definition record_payload :: "(jsstr \<times> jsstr) list \<Rightarrow> json" where
  "record_payload values = JObj (map (\<lambda>(k, v). (k, str_or_null v)) values)"

primrec admin_http :: "admin_api \<Rightarrow> admin_request" where
  "admin_http Overview = a_get ''/api/admin/overview''"
| "admin_http Templates = a_get ''/api/admin/templates''"
| "admin_http Packs = a_get (v2_path ''front-matter-packs'')"
| "admin_http V2Users = a_get (v2_path ''users'')"
| "admin_http TeamVersions = a_get (v2_path ''versions'')"
| "admin_http AdminReviews = a_get (v2_path ''reviews'')"
| "admin_http Jobs = a_get ''/api/admin/jobs''"
| "admin_http Audit = a_get ''/api/admin/audit''"
| "admin_http System = a_get ''/api/admin/system''"
| "admin_http (PreviewTemplate f) = a_form (v2_path ''templates/preview'') [(''archive'', FFile f)]"
| "admin_http (ImportTemplate name description main f) = a_form (v2_path ''templates/import'')
     [(''name'', FText name), (''description'', FText description), (''main'', FText main), (''archive'', FFile f)]"
| "admin_http (EditTemplate i name description main) = a_json (v2_path (''templates/'' @ i)) ''PATCH''
     (JObj [(''name'', JStr name), (''description'', str_or_null description), (''main_file'', JStr main)])"
| "admin_http (RemoveTemplate i) = a_delete (v2_path (''templates/'' @ i))"
| "admin_http (PreviewPack f) = a_form (v2_path ''front-matter-packs/preview'') [(''archive'', FFile f)]"
| "admin_http (ImportPack name description f) = a_form (v2_path ''front-matter-packs/import'')
     [(''name'', FText name), (''description'', FText description), (''archive'', FFile f)]"
| "admin_http (ViewPack i) = a_get (v2_path (''front-matter-packs/'' @ i))"
| "admin_http (EditPack i name description) = a_json (v2_path (''front-matter-packs/'' @ i)) ''PATCH''
     (JObj [(''name'', JStr name), (''description'', str_or_null description)])"
| "admin_http (RemovePack i) = a_delete (v2_path (''front-matter-packs/'' @ i))"
| "admin_http (CreateUser email password role generated) = a_json (v2_path ''users'') ''POST''
     (JObj ([(''email'', JStr email)] @ (case password of None \<Rightarrow> [] | Some p \<Rightarrow> [(''password'', JStr p)])
        @ [(''role'', JStr role), (''generate_temporary_password'', JBool generated)]))"
| "admin_http (SetEnabled email b) = a_json (''/api/admin/users/'' @ encodeURIComponent email) ''PATCH''
     (JObj [(''enabled'', JBool b)])"
| "admin_http (SetRole i role) = a_json (v2_path (''users/'' @ encodeURIComponent i @ ''/role'')) ''PATCH''
     (JObj [(''role'', JStr role)])"
| "admin_http (ResetPassword i) =
     a_json (v2_path (''users/'' @ encodeURIComponent i @ ''/temporary-password'')) ''POST'' (JObj [])"
| "admin_http (RetryEmail i) =
     a_json (v2_path (''credential-emails/'' @ encodeURIComponent i @ ''/retry'')) ''POST'' (JObj [])"
| "admin_http (SearchPeople role q) = a_get (inst_path (''users/search?''
     @ queryString [(''q'', Some q), (''role'', Some role), (''limit'', Some ''20'')]))"
| "admin_http (ResolveDefaults ids) = a_json (inst_path ''template-defaults/resolve-preview'') ''POST''
     (JObj [(''ordered_writer_user_ids'', JList (map JStr ids))])"
| "admin_http (CreateTeam b) = a_json (v2_path ''paper-teams'') ''POST'' b"
| "admin_http (TeamDetail i) = a_get (v2_path (''paper-teams/'' @ i))"
| "admin_http (SaveTeam i b) = a_json (v2_path (''paper-teams/'' @ i)) ''PUT'' b"
| "admin_http (SetTeamStatus i st) = a_json (v2_path (''paper-teams/'' @ i @ ''/status'')) ''PATCH''
     (JObj [(''status'', JStr st)])"
| "admin_http (PreviewChange i t b) = a_json (v2_path (''paper-teams/'' @ i @ ''/template-change/preview'')) ''POST''
     (JObj [(''new_template_id'', JStr t), (''confirm_main_file_change'', JBool b)])"
| "admin_http (ApplyChange i t token b) = a_json (v2_path (''paper-teams/'' @ i @ ''/template-change/apply'')) ''POST''
     (JObj [(''new_template_id'', JStr t), (''preview_token'', JStr token), (''confirm_main_file_change'', JBool b)])"
| "admin_http (SetFrontMatter i p) = a_json (v2_path (''paper-teams/'' @ i @ ''/front-matter'')) ''PUT''
     (JObj [(''front_matter_pack_id'', json_opt p)])"
| "admin_http (QueryTeams st) = a_get (v2_path (''paper-teams/query?'' @ queryString st))"
| "admin_http (BulkLifecycle ids st) = a_json (v2_path ''paper-teams/bulk-lifecycle'') ''POST''
     (JObj [(''team_ids'', JList (map JStr ids)), (''status'', JStr st), (''confirmed'', JBool True)])"
| "admin_http (ImportJob i) = a_get (inst_path (''imports/'' @ i))"
| "admin_http (ApplyJob i) = a_json (inst_path (''imports/'' @ i @ ''/apply'')) ''POST'' (JObj [])"
| "admin_http (RetryTeams i) = a_json (inst_path (''imports/'' @ i @ ''/retry-teams'')) ''POST'' (JObj [])"
| "admin_http (BatchDetail i) = a_get (inst_path (''import-batches/'' @ i))"
| "admin_http (ApplyBatch i) = a_json (inst_path (''import-batches/'' @ i @ ''/apply'')) ''POST'' (JObj [])"
| "admin_http (ValidateBatch body) = a_form (inst_path ''import-batches/validate'') body"
| "admin_http (ListBatches st) = a_get (inst_path (''import-batches?'' @ queryString st))"
| "admin_http (ValidateRecord dataset operation values) =
     a_json (inst_path (''data/'' @ dataset @ ''/validate'')) ''POST''
       (JObj [(''operation'', JStr operation), (''payload'', record_payload values)])"
| "admin_http (DataPage dataset st) = a_get (inst_path (''data/'' @ dataset @ ''?'' @ queryString st))"
| "admin_http TeamsForPolicies = a_get (v2_path ''paper-teams/query?page=1&limit=25'')"
| "admin_http (FilePolicies i) = a_get (v2_path (''paper-teams/'' @ i @ ''/file-policies''))"
| "admin_http (SetPolicy i f p) = a_json (v2_path (''paper-teams/'' @ i @ ''/file-policies/'' @ f)) ''PATCH''
     (JObj [(''policy'', JStr p)])"
| "admin_http ProgrammeDefaults = a_get (inst_path ''template-defaults/programmes'')"
| "admin_http GlobalFallback = a_get (inst_path ''template-defaults/global-fallback'')"
| "admin_http (SaveFallback t) = a_json (inst_path ''template-defaults/global-fallback'') ''PUT''
     (JObj [(''template_id'', JStr t)])"
| "admin_http (SaveGlobalFront p) = a_json (inst_path ''template-defaults/global-front-matter'') ''PUT''
     (JObj [(''front_matter_pack_id'', json_opt p)])"
| "admin_http (SaveProgramme c t) = a_json (inst_path (''template-defaults/programmes/'' @ encodeURIComponent c)) ''PUT''
     (JObj [(''template_id'', JStr t)])"
| "admin_http (SaveProgrammeFront c p) =
     a_json (inst_path (''template-defaults/programmes/'' @ encodeURIComponent c @ ''/front-matter'')) ''PUT''
       (JObj [(''front_matter_pack_id'', json_opt p)])"
| "admin_http (RemoveMapping c) = a_delete (inst_path (''template-defaults/programmes/'' @ encodeURIComponent c))"
| "admin_http (IdentityLinks st) = a_get (inst_path (''identity-links?'' @ queryString st))"
| "admin_http (Unlink t e) =
     a_delete (inst_path (''identity-links/'' @ encodeURIComponent t @ ''/'' @ encodeURIComponent e))"
| "admin_http (LinkAccount t e u) = a_json (inst_path ''identity-links'') ''PUT''
     (JObj [(''external_type'', JStr t), (''external_id'', JStr e), (''user_id'', JStr u)])"

section \<open>Responses\<close>

text \<open>
  \<open>api\<close>. A response that cannot be fetched is \<^const>\<open>None\<close>; \<open>ar_json\<close> is what parsing the body gives, and of a successful
  response that is not JSON the text is returned.
\<close>

record admin_response =
  as_ok :: bool
  as_status_code :: nat
  as_status_text :: jsstr
  as_is_json :: bool
  as_json :: "json option"
  as_text :: jsstr

definition admin_response ::
  "jsstr \<Rightarrow> admin_response option \<Rightarrow> json result" where
  "admin_response parse_error r =
     (case r of None \<Rightarrow> Inl \<lparr>err_message = ''Offline -- changes not saved'', err_status = 0\<rparr>
      | Some r \<Rightarrow>
          if \<not> as_ok r
          then Inl \<lparr>err_message = js_or (json_error (as_json r)) (js_or (Some (as_status_text r)) ''Request failed''),
                    err_status = as_status_code r\<rparr>
          else if as_is_json r
          then (case as_json r of None \<Rightarrow> Inl \<lparr>err_message = parse_error, err_status = 0\<rparr> | Some j \<Rightarrow> Inr j)
          else Inr (JStr (as_text r)))"

end
