(* ===== verification/AdminTables.thy ===== *)
theory AdminTables
  imports AdminData FileTree
begin

text \<open>
  The read-only sections of the administration page (\<^verbatim>\<open>services/server/static/admin.js\<close>) as functions from
  their data to documents: overview, reviews, versions, builds, audit and system. \<open>num\<close> is the number format of the
  locale, \<open>time\<close> its date format, \<open>instant\<close> what a time stamp denotes in milliseconds, if it denotes anything, and
  \<open>now\<close> the current time; arrows and dashes of captions are written in two characters.
\<close>

section \<open>Lists and elements\<close>

text \<open>\<open>[...new Set(xs)]\<close>: what occurs, in the order of its first occurrence.\<close>

definition first_seen :: "'a list \<Rightarrow> 'a list" where
  "first_seen xs = rev (remdups (rev xs))"

definition class_of :: "jsstr \<Rightarrow> (jsstr \<times> jsstr) list" where
  "class_of c = (if c = [] then [] else [(''class'', c)])"

definition element :: "jsstr \<Rightarrow> jsstr \<Rightarrow> jsstr \<Rightarrow> 'a dom" where
  "element tag c s = Elem tag (class_of c) None [Txt s]"

text \<open>An element made without text, with the children that are appended to it.\<close>

definition parent :: "jsstr \<Rightarrow> jsstr \<Rightarrow> 'a dom list \<Rightarrow> 'a dom" where
  "parent tag c ds = Elem tag (class_of c) None ds"

definition cell :: "jsstr \<Rightarrow> 'a dom" where
  "cell s = element ''td'' [] s"

definition admin_table :: "jsstr list \<Rightarrow> 'a dom list list \<Rightarrow> 'a dom" where
  "admin_table heads rows =
     parent ''div'' ''admin-table-wrap'' [parent ''table'' ''admin-table''
       [parent ''thead'' [] [parent ''tr'' [] (map (element ''th'' []) heads)],
        parent ''tbody'' [] (map (parent ''tr'' []) rows)]]"

definition buttonAction :: "jsstr \<Rightarrow> 'a \<Rightarrow> jsstr \<Rightarrow> 'a dom" where
  "buttonAction label handler c = Elem ''button'' (class_of c @ [(''type'', ''button'')]) (Some handler) [Txt label]"

definition statusChip :: "jsstr \<Rightarrow> jsstr \<Rightarrow> 'a dom" where
  "statusChip label tone = element ''span'' (js_trim (''status-chip '' @ tone)) label"

section \<open>Overview\<close>

definition count_of :: "overview_data \<Rightarrow> jsstr \<Rightarrow> nat" where
  "count_of d k = (case counts d k of None \<Rightarrow> 0 | Some n \<Rightarrow> n)"

definition overview_metrics :: "(nat \<Rightarrow> jsstr) \<Rightarrow> overview_data \<Rightarrow> (jsstr \<times> jsstr) list" where
  "overview_metrics num d =
     [(num (count_of d ''active_paper_teams''), ''Paper Teams''),
      (num (count_of d ''teams_in_review''), ''Teams in Review''),
      (num (count_of d ''writers''), ''Writers''),
      (num (count_of d ''mentors''), ''Mentors''),
      (num (count_of d ''institutional_students''), ''Institutional Students''),
      (num (count_of d ''institutional_faculty''), ''Institutional Faculty''),
      (num (count_of d ''unlinked_students'' + count_of d ''unlinked_faculty''
          + count_of d ''unresolved_imported_teams''), ''Unlinked / needs attention''),
      (num (count_of d ''pending_email_count'') @ '' / '' @ num (count_of d ''failed_email_count''),
         ''Pending / failed emails''),
      (num (count_of d ''queued_builds'') @ '' / '' @ num (count_of d ''running_builds''), ''Queued / running builds'')]"

definition import_trouble :: "jsstr option \<Rightarrow> bool" where
  "import_trouble st = (case st of None \<Rightarrow> False
     | Some s \<Rightarrow> list_ex (js_includes (js_lower s)) [''fail'', ''partial'', ''error''])"

text \<open>What needs attention, with the section that shows it.\<close>

definition attention :: "overview_data \<Rightarrow> (jsstr \<times> jsstr) list" where
  "attention d =
     (if count_of d ''unresolved_imported_teams'' \<noteq> 0
      then [(nat_str (count_of d ''unresolved_imported_teams'') @ '' imported Teams need resolution'', ''Paper Teams'')]
      else [])
     @ (if count_of d ''failed_email_count'' \<noteq> 0
        then [(nat_str (count_of d ''failed_email_count'') @ '' credential emails failed'', ''V2 Users'')] else [])
     @ (if import_trouble (latest_import_status d)
        then [(''Latest import: '' @ humanLabel (latest_import_status d), ''Imports'')] else [])"

text \<open>The click of an item shows its section.\<close>

definition renderOverview :: "(nat \<Rightarrow> jsstr) \<Rightarrow> overview_data \<Rightarrow> jsstr dom list" where
  "renderOverview num d =
     [parent ''div'' ''admin-metrics'' (map (\<lambda>(value, label).
        parent ''div'' ''admin-metric'' [element ''strong'' [] value, element ''span'' [] label]) (overview_metrics num d))]
     @ (if attention d = [] then []
        else [element ''h2'' [] ''Needs attention'',
              parent ''ul'' ''admin-attention'' (map (\<lambda>(label, target).
                parent ''li'' [] [with_child (element ''span'' [] ''->'') (buttonAction label target [])]) (attention d))])"

section \<open>Reviews\<close>

record review_group =
  rg_review :: admin_review
  rg_open :: nat
  rg_blocking :: nat
  rg_last :: jsstr

definition activity :: "admin_review \<Rightarrow> jsstr" where
  "activity r = js_or (ar_updated r) (ar_created r)"

definition later :: "(jsstr \<Rightarrow> int option) \<Rightarrow> jsstr \<Rightarrow> jsstr \<Rightarrow> bool" where
  "later instant a b = (case (instant a, instant b) of (Some x, Some y) \<Rightarrow> y < x | _ \<Rightarrow> False)"

definition unresolved_now :: "admin_review \<Rightarrow> bool" where
  "unresolved_now r \<longleftrightarrow> ar_round r = ar_current_round r \<and> ar_state r \<noteq> ''RESOLVED''"

definition group_review ::
  "(jsstr \<Rightarrow> int option) \<Rightarrow> (jsstr \<times> review_group) list \<Rightarrow> admin_review \<Rightarrow> (jsstr \<times> review_group) list" where
  "group_review instant gs r =
     (let item = (case map_of gs (ar_paper r) of Some g \<Rightarrow> g
                  | None \<Rightarrow> \<lparr>rg_review = r, rg_open = 0, rg_blocking = 0, rg_last = activity r\<rparr>)
      in map_set (ar_paper r)
           (item\<lparr>rg_open := rg_open item + (if unresolved_now r then 1 else 0),
                 rg_blocking := rg_blocking item + (if unresolved_now r \<and> ar_severity r = ''BLOCKING'' then 1 else 0),
                 rg_last := if later instant (activity r) (rg_last item) then activity r else rg_last item\<rparr>) gs)"

definition review_row :: "(jsstr \<Rightarrow> jsstr) \<Rightarrow> review_group \<Rightarrow> 'a dom list" where
  "review_row time g =
     map cell [ar_name (rg_review g), adminReviewRoundLabel (ar_open (rg_review g)) (ar_round_status (rg_review g)),
       ar_mentor (rg_review g), nat_str (rg_open g), nat_str (rg_blocking g), time (ar_created (rg_review g)),
       time (rg_last g)]"

definition renderAdminReviews ::
  "(jsstr \<Rightarrow> jsstr) \<Rightarrow> (jsstr \<Rightarrow> int option) \<Rightarrow> admin_review list \<Rightarrow> 'a dom list" where
  "renderAdminReviews time instant reviews =
     (if reviews = [] then [element ''p'' ''empty-copy'' ''No Team reviews have been submitted yet.'']
      else [admin_table [''Team'', ''Review state'', ''Mentor'', ''Open comments'', ''Blocking comments'', ''Submitted'',
              ''Last activity''] (map (\<lambda>(k, g). review_row time g) (foldl (group_review instant) [] reviews))])"

section \<open>Versions and builds\<close>

text \<open>What \<open>draw\<close> shows for the values of the filters.\<close>

definition version_shown :: "jsstr \<Rightarrow> jsstr \<Rightarrow> team_version \<Rightarrow> bool" where
  "version_shown search kind v \<longleftrightarrow>
     (kind = [] \<or> tv_type v = kind) \<and>
     (search = [] \<or> js_includes (js_lower (tv_paper v @ '' '' @ tv_author v)) (js_lower search))"

definition draw_versions :: "(jsstr \<Rightarrow> jsstr) \<Rightarrow> team_version list \<Rightarrow> jsstr \<Rightarrow> jsstr \<Rightarrow> 'a dom list" where
  "draw_versions time vs search kind =
     (let visible = filter (version_shown search kind) vs
      in if visible = [] then [element ''p'' ''empty-copy'' ''No Team versions match these filters.'']
         else [admin_table [''Team'', ''Version type'', ''Actor'', ''Created'']
                (map (\<lambda>v. map cell [tv_paper v, humanLabel (Some (tv_type v)), tv_author v, time (tv_created v)]) visible)])"

text \<open>The choices of the filter: the version types in the order they first occur.\<close>

definition version_types :: "team_version list \<Rightarrow> (jsstr \<times> jsstr) list" where
  "version_types vs = map (\<lambda>t. (humanLabel (Some t), t)) (first_seen (map tv_type vs))"

definition job_shown :: "jsstr \<Rightarrow> build_job \<Rightarrow> bool" where
  "job_shown st j \<longleftrightarrow> st = [] \<or> bj_state j = st \<or> st = ''running'' \<and> bj_state j = ''claimed''"

text \<open>\<open>Math.max(0, Math.round((end - start) / 1000))\<close>; a time stamp that denotes nothing gives \<open>NaN\<close>.\<close>

definition duration :: "(jsstr \<Rightarrow> int option) \<Rightarrow> int \<Rightarrow> build_job \<Rightarrow> jsstr" where
  "duration instant now j =
     (case bj_started j of None \<Rightarrow> ''--''
      | Some start \<Rightarrow> if start = [] then ''--''
          else (case (instant start, case bj_finished j of None \<Rightarrow> Some now
                       | Some f \<Rightarrow> if f = [] then Some now else instant f) of
              (Some a, Some b) \<Rightarrow> nat_str (nat ((b - a + 500) div 1000)) @ ''s''
            | _ \<Rightarrow> ''NaNs''))"

definition job_row :: "(jsstr \<Rightarrow> jsstr) \<Rightarrow> (jsstr \<Rightarrow> int option) \<Rightarrow> int \<Rightarrow> build_job \<Rightarrow> 'a dom list" where
  "job_row time instant now j =
     map cell [bj_workspace j, js_or (bj_requester j) ''System'', humanLabel (Some (bj_state j)), time (bj_created j),
       if truthy (bj_started j) then time (the (bj_started j)) else ''--'', duration instant now j]"

definition draw_jobs :: "(jsstr \<Rightarrow> jsstr) \<Rightarrow> (jsstr \<Rightarrow> int option) \<Rightarrow> int \<Rightarrow> build_job list \<Rightarrow> jsstr \<Rightarrow> 'a dom list" where
  "draw_jobs time instant now jobs st =
     (let visible = filter (job_shown st) jobs
      in if visible = []
         then [element ''p'' ''empty-copy'' (if st \<noteq> [] then ''No '' @ st @ '' builds.'' else ''No builds have been queued yet.'')]
         else [admin_table [''Team / workspace'', ''Trigger'', ''State'', ''Queued'', ''Started'', ''Duration'']
                (map (job_row time instant now) visible)])"

section \<open>Audit and system\<close>

definition auditLabels :: "(jsstr \<times> jsstr) list" where
  "auditLabels = [(''account.credential_email.sent'', ''Credential email sent''),
     (''paper_team.member.changed'', ''Team membership changed'')]"

definition audit_label :: "jsstr \<Rightarrow> jsstr" where
  "audit_label e = (case map_of auditLabels e of Some l \<Rightarrow> l
     | None \<Rightarrow> humanLabel (Some (map (\<lambda>c. if c = CHR ''.'' then CHR '' '' else c) e)))"

definition audit_row :: "(jsstr \<Rightarrow> jsstr) \<Rightarrow> audit_event \<Rightarrow> 'a dom list" where
  "audit_row time e =
     map cell [time (ae_created e), js_or (ae_actor e) ''System'', audit_label (ae_event e), humanLabel (ae_resource e)]
     @ [parent ''td'' [] [parent ''details'' []
          [element ''summary'' [] ''View'', element ''p'' ''muted-note'' (''Event type: '' @ ae_event e),
           element ''p'' ''muted-note'' (''Object ID: '' @ js_or (ae_resource_id e) ''Not recorded'')]]]"

definition renderAudit :: "(jsstr \<Rightarrow> jsstr) \<Rightarrow> audit_event list \<Rightarrow> 'a dom list" where
  "renderAudit time es =
     element ''p'' [] ''Audit records important administrative and security actions: who did what, when, and to which object.''
     # (if es = [] then [element ''p'' ''empty-copy'' ''No administrative or security actions have been recorded yet.'']
        else [admin_table [''Time'', ''Actor'', ''Action'', ''Target'', ''Details''] (map (audit_row time) es)])"

definition systems :: "system_data \<Rightarrow> overview_data \<Rightarrow> (jsstr \<times> jsstr \<times> jsstr) list" where
  "systems d o' =
     [(''API'', ''Healthy'', sy_version d), (''PostgreSQL'', ''Healthy'', sy_database d),
      (''Blob storage'', ''Healthy'', ''Content-addressed storage configured''),
      (''Worker'', ''Healthy'', sy_queue d), (''Compiler M7'', ''Healthy'', sy_compiler d),
      (if mail_delivery_enabled o' then (''Mail delivery'', ''Healthy'', ''Credential delivery enabled'')
       else (''Mail delivery'', ''Disabled'', ''Disabled in this environment''))]"

definition chip_tone :: "jsstr \<Rightarrow> jsstr" where
  "chip_tone st = (if st = ''Healthy'' then ''good'' else if st = ''Disabled'' then [] else ''warning'')"

definition renderSystem :: "system_data \<Rightarrow> overview_data \<Rightarrow> 'a dom list" where
  "renderSystem d o' =
     [element ''p'' ''muted-note'' ''Read-only operational summary. Administrative actions remain in the operator service.'',
      parent ''div'' ''system-grid'' (map (\<lambda>(name, st, detail). parent ''article'' ''system-card''
        [element ''strong'' [] name, statusChip st (chip_tone st), element ''span'' [] detail]) (systems d o'))]"

section \<open>Accounts\<close>

definition email_delivery :: "v2_user \<Rightarrow> jsstr" where
  "email_delivery u =
     (if \<not> us_must_change u then ''Not required''
      else case us_delivery_status u of
          None \<Rightarrow> ''Unavailable''
        | Some st \<Rightarrow>
            if st = ''SENT'' then ''Email sent'' else if st = ''SENDING'' then ''Sending''
            else if st = ''PENDING'' then ''Pending''
            else if st = ''FAILED'' then (if us_delivery_expired u then ''Expired'' else ''Failed'')
            else if st = ''EXPIRED'' then ''Expired'' else ''Unavailable'')"

definition may_reset :: "v2_user \<Rightarrow> bool" where
  "may_reset u \<longleftrightarrow> us_role u = Some ''writer'' \<or> us_role u = Some ''mentor''"

definition may_retry :: "v2_user \<Rightarrow> bool" where
  "may_retry u \<longleftrightarrow>
     us_delivery_status u = Some ''FAILED'' \<and> \<not> us_delivery_expired u \<and> truthy (us_delivery_id u)"

section \<open>Reviews grouped by paper\<close>

text \<open>What the page should say of one paper's reviews, which are not empty.\<close>

definition paper_summary :: "(jsstr \<Rightarrow> int option) \<Rightarrow> admin_review list \<Rightarrow> review_group" where
  "paper_summary instant rs =
     \<lparr>rg_review = hd rs, rg_open = length (filter unresolved_now rs),
      rg_blocking = length (filter (\<lambda>r. unresolved_now r \<and> ar_severity r = ''BLOCKING'') rs),
      rg_last = foldl (\<lambda>l r. if later instant (activity r) l then activity r else l) (activity (hd rs)) rs\<rparr>"

definition of_paper :: "jsstr \<Rightarrow> admin_review list \<Rightarrow> admin_review list" where
  "of_paper p = filter (\<lambda>r. ar_paper r = p)"

lemma first_seen_simps [simp]:
  "first_seen [] = []" "first_seen (xs @ [x]) = first_seen xs @ (if x \<in> set xs then [] else [x])"
  "set (first_seen xs) = set xs" "distinct (first_seen xs)"
  by (simp_all add: first_seen_def)

lemma map_set_map:
  assumes "distinct ks"
  shows "map_set k v (map (\<lambda>p. (p, f p)) ks)
    = map (\<lambda>p. (p, if p = k then v else f p)) (ks @ (if k \<in> set ks then [] else [k]))"
proof -
  have "map (\<lambda>p. (p, f p)) ks = map (\<lambda>p. (p, if p = k then v else f p)) ks" if "k \<notin> set ks" for ks
    using that by auto
  with assms show ?thesis by (induction ks) (auto split: if_splits)
qed

lemma map_of_keyed: "map_of (map (\<lambda>p. (p, f p)) ks) k = (if k \<in> set ks then Some (f k) else None)"
  by (induction ks) auto

lemma paper_summary_snoc:
  assumes "rs \<noteq> []"
  shows "paper_summary instant (rs @ [r]) = (let g = paper_summary instant rs in
    g\<lparr>rg_open := rg_open g + (if unresolved_now r then 1 else 0),
      rg_blocking := rg_blocking g + (if unresolved_now r \<and> ar_severity r = ''BLOCKING'' then 1 else 0),
      rg_last := if later instant (activity r) (rg_last g) then activity r else rg_last g\<rparr>)"
  using assms by (simp add: paper_summary_def Let_def)

lemma not_later_self: "\<not> later instant a a"
  by (auto simp: later_def split: option.split)

lemma grouped_reviews:
  "foldl (group_review instant) [] reviews
     = map (\<lambda>p. (p, paper_summary instant (of_paper p reviews))) (first_seen (map ar_paper reviews))"
proof (induction reviews rule: rev_induct)
  case (snoc r rs)
  let ?g = "\<lambda>p. paper_summary instant (of_paper p rs)" and ?p = "ar_paper r"
  let ?v = "paper_summary instant (of_paper ?p (rs @ [r]))"
  have "foldl (group_review instant) [] (rs @ [r])
      = map_set ?p ?v (map (\<lambda>p. (p, ?g p)) (first_seen (map ar_paper rs)))"
  proof (cases "?p \<in> set (map ar_paper rs)")
    case True
    then have "of_paper ?p rs \<noteq> []" by (auto simp: of_paper_def filter_empty_conv)
    with True paper_summary_snoc [OF this, of instant r] show ?thesis
      by (simp add: snoc group_review_def map_of_keyed Let_def of_paper_def)
  next
    case False
    then have "of_paper ?p rs = []" unfolding of_paper_def filter_empty_conv by (metis image_eqI list.set_map)
    with False show ?thesis
      by (simp add: snoc group_review_def map_of_keyed Let_def of_paper_def paper_summary_def not_later_self)
  qed
  also have "\<dots> = map (\<lambda>p. (p, if p = ?p then ?v else ?g p)) (first_seen (map ar_paper (rs @ [r])))"
    by (simp add: map_set_map)
  also have "\<dots> = map (\<lambda>p. (p, paper_summary instant (of_paper p (rs @ [r])))) (first_seen (map ar_paper (rs @ [r])))"
    by (auto simp: of_paper_def)
  finally show ?case .
qed simp

text \<open>
  The reviews section has one row per paper, in the order in which the papers first occur. Of a paper it counts
  exactly the threads of the current round that are not resolved, and the blocking ones among them, names the
  mentor and the submission of the paper's first thread, and shows the latest activity.
\<close>

theorem reviews_summarized_per_paper:
  "renderAdminReviews time instant reviews =
     (if reviews = [] then [element ''p'' ''empty-copy'' ''No Team reviews have been submitted yet.'']
      else [admin_table [''Team'', ''Review state'', ''Mentor'', ''Open comments'', ''Blocking comments'', ''Submitted'',
              ''Last activity'']
             (map (\<lambda>p. review_row time (paper_summary instant (of_paper p reviews))) (first_seen (map ar_paper reviews)))])"
  by (simp add: renderAdminReviews_def grouped_reviews comp_def)

text \<open>The last activity is one of the paper's, and none is later, as far as the time stamps denote anything.\<close>

lemma rg_last_latest:
  assumes "rs \<noteq> []" "\<forall>r\<in>set rs. instant (activity r) \<noteq> None"
  shows "rg_last (paper_summary instant rs) \<in> activity ` set rs \<and>
    (\<forall>r\<in>set rs. \<not> later instant (activity r) (rg_last (paper_summary instant rs)))"
  using assms
proof (induction rs rule: rev_induct)
  case (snoc r rs)
  show ?case
  proof (cases "rs = []")
    case False
    with snoc have ih: "rg_last (paper_summary instant rs) \<in> activity ` set rs"
      "\<forall>q\<in>set rs. \<not> later instant (activity q) (rg_last (paper_summary instant rs))" by auto
    with False snoc.prems show ?thesis
      by (auto simp: paper_summary_snoc Let_def later_def split: option.splits)
  qed (simp add: paper_summary_def not_later_self)
qed simp

end
