(* ===== verification/AdminForms.thy ===== *)
theory AdminForms
  imports AdminTables
begin

text \<open>
  The forms of the administration page (\<^verbatim>\<open>services/server/static/admin.js\<close>) that keep state of their own: the people of a
  team (\<open>peopleBuilder\<close>) with the choice of its leader, the import of an archive, and the files of an institutional
  import. Fields that are only read when a form is submitted are parameters of the submission.
\<close>

section \<open>People of a team\<close>

text \<open>The results of a search are the options after the first, which has no value; \<open>pb_choice\<close> is the value chosen.\<close>

record people =
  pb_selected :: "person list"
  pb_results :: "person list"
  pb_choice :: jsstr

definition new_people :: "person list \<Rightarrow> people" where
  "new_people ps = \<lparr>pb_selected = ps, pb_results = [], pb_choice = []\<rparr>"

definition show_results :: "person list \<Rightarrow> people \<Rightarrow> people" where
  "show_results ps p = p\<lparr>pb_results := ps, pb_choice := []\<rparr>"

definition addable :: "people \<Rightarrow> person option" where
  "addable p =
     (case List.find (\<lambda>u. pe_id u = pb_choice p) (pb_results p) of None \<Rightarrow> None
      | Some u \<Rightarrow> if pe_id u = [] \<or> list_ex (\<lambda>q. pe_id q = pe_id u) (pb_selected p) then None else Some u)"

definition add_person :: "people \<Rightarrow> people" where
  "add_person p = (case addable p of None \<Rightarrow> p | Some u \<Rightarrow> p\<lparr>pb_selected := pb_selected p @ [u]\<rparr>)"

definition swap :: "nat \<Rightarrow> nat \<Rightarrow> 'a list \<Rightarrow> 'a list" where
  "swap i j xs = xs[i := xs ! j, j := xs ! i]"

definition move_up :: "nat \<Rightarrow> people \<Rightarrow> people" where
  "move_up i p = (if i = 0 \<or> length (pb_selected p) \<le> i then p
     else p\<lparr>pb_selected := swap (i - 1) i (pb_selected p)\<rparr>)"

definition move_down :: "nat \<Rightarrow> people \<Rightarrow> people" where
  "move_down i p = (if length (pb_selected p) \<le> i + 1 then p
     else p\<lparr>pb_selected := swap i (i + 1) (pb_selected p)\<rparr>)"

definition remove_person :: "nat \<Rightarrow> people \<Rightarrow> people" where
  "remove_person i p = p\<lparr>pb_selected := take i (pb_selected p) @ drop (i + 1) (pb_selected p)\<rparr>"

datatype people_event = AddPerson jsstr | MoveUp nat | MoveDown nat | RemovePerson nat

fun people_step :: "people_event \<Rightarrow> people \<Rightarrow> people" where
  "people_step (AddPerson choice) p = add_person (p\<lparr>pb_choice := choice\<rparr>)"
| "people_step (MoveUp i) p = move_up i p"
| "people_step (MoveDown i) p = move_down i p"
| "people_step (RemovePerson i) p = remove_person i p"

definition people_ids :: "people \<Rightarrow> jsstr list" where
  "people_ids p = map pe_id (pb_selected p)"

text \<open>The rows as \<open>draw\<close> builds them; a disabled button offers no click.\<close>

definition disable :: "bool \<Rightarrow> 'a dom \<Rightarrow> 'a dom" where
  "disable b d = (case d of Elem t ps a cs \<Rightarrow> if b then Elem t (ps @ [(''disabled'', [])]) None cs else d | Txt s \<Rightarrow> d)"

definition person_row :: "bool \<Rightarrow> nat \<Rightarrow> nat \<times> person \<Rightarrow> people_event dom" where
  "person_row ordered n ip = (case ip of (i, person) \<Rightarrow>
     parent ''div'' ''ordered-person''
       [element ''strong'' [] (if ordered then nat_str (i + 1) @ ''.'' else ''-''), element ''span'' [] (pe_email person),
        disable (\<not> ordered \<or> i = 0) (buttonAction ''Up'' (MoveUp i) []),
        disable (\<not> ordered \<or> i + 1 = n) (buttonAction ''Down'' (MoveDown i) []),
        buttonAction ''Remove'' (RemovePerson i) ''danger''])"

definition draw_people :: "bool \<Rightarrow> people \<Rightarrow> people_event dom list" where
  "draw_people ordered p = map (person_row ordered (length (pb_selected p))) (List.enumerate 0 (pb_selected p))"

section \<open>Teams\<close>

text \<open>The form that creates a team, and with \<open>tm_original\<close> the leader of the team the form that edits one.\<close>

record team_form =
  tm_writers :: people
  tm_mentors :: people
  tm_leader :: jsstr
  tm_original :: "jsstr option"
  tm_suggestion :: jsstr

definition update_leader :: "team_form \<Rightarrow> team_form" where
  "update_leader f =
     (let previous = (if tm_leader f \<noteq> [] then tm_leader f else case tm_original f of None \<Rightarrow> [] | Some i \<Rightarrow> i)
      in f\<lparr>tm_leader := if list_ex (\<lambda>p. pe_id p = previous) (pb_selected (tm_writers f)) then previous else []\<rparr>)"

definition new_team_form :: "person list \<Rightarrow> person list \<Rightarrow> jsstr option \<Rightarrow> team_form" where
  "new_team_form writers mentors original =
     update_leader \<lparr>tm_writers = new_people writers, tm_mentors = new_people mentors, tm_leader = [],
       tm_original = original, tm_suggestion = ''Add Writers to resolve the programme default.''\<rparr>"

text \<open>Every event of the writers' rows, and a choice of the leader among the options.\<close>

definition change_writers :: "people_event \<Rightarrow> team_form \<Rightarrow> team_form" where
  "change_writers e f =
     (let f' = f\<lparr>tm_writers := people_step e (tm_writers f)\<rparr>
      in case e of AddPerson c \<Rightarrow> if addable ((tm_writers f)\<lparr>pb_choice := c\<rparr>) = None then f' else update_leader f'
         | _ \<Rightarrow> update_leader f')"

definition change_mentors :: "people_event \<Rightarrow> team_form \<Rightarrow> team_form" where
  "change_mentors e f = f\<lparr>tm_mentors := people_step e (tm_mentors f)\<rparr>"

definition choose_leader :: "jsstr \<Rightarrow> team_form \<Rightarrow> team_form" where
  "choose_leader i f = (if i = [] \<or> i \<in> set (people_ids (tm_writers f)) then f\<lparr>tm_leader := i\<rparr> else f)"

definition leader_chosen :: "team_form \<Rightarrow> bool" where
  "leader_chosen f = list_ex (\<lambda>p. pe_id p = tm_leader f) (pb_selected (tm_writers f))"

definition id_list :: "people \<Rightarrow> json" where
  "id_list p = JList (map JStr (people_ids p))"

text \<open>\<open>front\<close> is \<open>automatic\<close>, \<open>none\<close> or the identifier of a pack; an empty \<open>template_id\<close> is the suggestion.\<close>

definition create_body :: "jsstr \<Rightarrow> jsstr \<Rightarrow> jsstr \<Rightarrow> team_form \<Rightarrow> json" where
  "create_body name template_id front f = JObj
     [(''name'', JStr name), (''writer_ids'', id_list (tm_writers f)), (''leader_writer_id'', JStr (tm_leader f)),
      (''mentor_ids'', id_list (tm_mentors f)), (''template_id'', str_or_null template_id),
      (''front_matter_pack_id'', if front \<notin> set [''automatic'', ''none''] then JStr front else JNull),
      (''use_front_matter_default'', JBool (front = ''automatic''))]"

definition save_body :: "jsstr \<Rightarrow> team_form \<Rightarrow> json" where
  "save_body name f = JObj
     [(''name'', JStr name), (''writer_ids'', id_list (tm_writers f)), (''leader_writer_id'', JStr (tm_leader f)),
      (''mentor_ids'', id_list (tm_mentors f))]"

text \<open>The forms that \<open>openTeamDetail\<close> makes of a team.\<close>

definition plain_person :: "team_member \<Rightarrow> person" where
  "plain_person m = \<lparr>pe_id = pe_id m, pe_email = pe_email m\<rparr>"

definition edit_form :: "team_detail \<Rightarrow> team_form" where
  "edit_form d = new_team_form
     (map plain_person (filter (\<lambda>m. mb_role m = ''writer'') (td_members d)))
     (map plain_person (filter (\<lambda>m. mb_role m = ''mentor'') (td_members d)))
     (map_option pe_id (List.find mb_leader (td_members d)))"

section \<open>Archives\<close>

record archive_form =
  af_file :: "upload option"
  af_preview :: "archive_preview option"
  af_options :: "jsstr list"
  af_main :: jsstr
  af_main_off :: bool
  af_submit_off :: bool
  af_shown :: "unit dom list"

definition new_archive_form :: archive_form where
  "new_archive_form = \<lparr>af_file = None, af_preview = None, af_options = [[]], af_main = [], af_main_off = True,
     af_submit_off = True, af_shown = []\<rparr>"

text \<open>The listener of the file input.\<close>

definition choose_archive :: "upload option \<Rightarrow> archive_form \<Rightarrow> archive_form" where
  "choose_archive u f = f\<lparr>af_file := u, af_preview := None, af_main_off := True, af_submit_off := True, af_shown := []\<rparr>"

definition preview_hint :: "archive_preview \<Rightarrow> jsstr \<Rightarrow> jsstr" where
  "preview_hint pv main =
     (if truthy (pv_detected_main pv) then ''Detected Main: '' @ the (pv_detected_main pv)
      else ''Main is ambiguous; choose one TeX file.'')
     @ '' '' @ (if (case List.find (\<lambda>e. ent_path e = main) (pv_files pv) of None \<Rightarrow> False | Some e \<Rightarrow> ent_compatible e)
               then ''Front Matter compatible.'' else ''Front Matter not enabled.'')"

text \<open>
  \<open>previewArchive\<close> on the response. A \<open>select\<close> takes a value only when an option has it, and is empty otherwise.
\<close>

definition take_preview :: "archive_preview \<Rightarrow> archive_form \<Rightarrow> archive_form" where
  "take_preview pv f =
     (let options = [] # map ent_path (filter ent_is_tex (pv_files pv)); wanted = js_or (pv_detected_main pv) [];
          main = (if wanted \<in> set options then wanted else [])
      in f\<lparr>af_preview := Some pv, af_options := options, af_main := main, af_main_off := False, af_submit_off := main = [],
           af_shown := [element ''strong'' [] (nat_str (length (pv_files pv)) @ '' safe files''),
             element ''p'' ''empty-copy'' (preview_hint pv main),
             parent ''ul'' ''template-file-tree'' (map (\<lambda>e. element ''li'' []
               (ent_path e @ middot @ nat_str (ent_size e) @ '' bytes'')) (pv_files pv))]\<rparr>)"

definition choose_main :: "jsstr \<Rightarrow> archive_form \<Rightarrow> archive_form" where
  "choose_main m f =
     (if m \<in> set (af_options f) \<and> \<not> af_main_off f then f\<lparr>af_main := m, af_submit_off := af_preview f = None \<or> m = []\<rparr> else f)"

text \<open>The form of a front matter pack.\<close>

record pack_form =
  pa_file :: "upload option"
  pa_preview :: "pack_preview option"
  pa_submit_off :: bool
  pa_shown :: "unit dom list"

definition new_pack_form :: pack_form where
  "new_pack_form = \<lparr>pa_file = None, pa_preview = None, pa_submit_off = True, pa_shown = []\<rparr>"

definition choose_pack :: "upload option \<Rightarrow> pack_form \<Rightarrow> pack_form" where
  "choose_pack u f = f\<lparr>pa_file := u, pa_preview := None, pa_submit_off := True, pa_shown := []\<rparr>"

definition section_line :: "pack_section \<Rightarrow> jsstr" where
  "section_line x = ps_label x @ middot @ (if ps_required x then ''Required'' else ''Optional'') @ middot @ ps_file x"

definition field_line :: "pack_field \<Rightarrow> jsstr" where
  "field_line x = pf_label x @ middot @ pf_type x
     @ (if truthy (pf_source x) then middot @ the (pf_source x)
        else if pf_default x then middot @ ''Pack default'' else middot @ ''Team value'')"

definition text_list :: "jsstr \<Rightarrow> jsstr list \<Rightarrow> 'a dom" where
  "text_list c ts = parent ''ul'' c (map (element ''li'' []) ts)"

definition take_pack_preview :: "pack_preview \<Rightarrow> pack_form \<Rightarrow> pack_form" where
  "take_pack_preview pv f = f\<lparr>pa_preview := Some pv, pa_submit_off := False,
     pa_shown := [element ''strong'' [] (''Entry: '' @ pk_entry_file pv), element ''h3'' [] ''Sections'',
       text_list ''compact-list'' (map section_line (pk_sections pv)), element ''h3'' [] ''Fields'',
       text_list ''compact-list'' (map field_line (pk_fields pv)), element ''h3'' [] ''Files'',
       text_list ''template-file-tree'' (map (\<lambda>(p, n). p @ middot @ nat_str n @ '' bytes'') (pk_files pv))]\<rparr>"

section \<open>Files of an import\<close>

record import_entry =
  ie_file :: upload
  ie_dataset :: jsstr
  ie_status :: jsstr

record import_form =
  im_entries :: "import_entry list"
  im_drawn :: nat  \<comment> \<open>how many of the entries are on the page\<close>
  im_submit_off :: bool

definition new_import_form :: import_form where
  "new_import_form = \<lparr>im_entries = [], im_drawn = 0, im_submit_off = True\<rparr>"

definition unlabelled :: "import_entry \<Rightarrow> bool" where
  "unlabelled e \<longleftrightarrow> \<not> is_xlsx (up_name (ie_file e)) \<and> ie_dataset e = []"

definition drawFiles :: "import_form \<Rightarrow> import_form" where
  "drawFiles f = f\<lparr>im_drawn := length (im_entries f),
     im_submit_off := im_entries f = [] \<or> list_ex unlabelled (im_entries f)\<rparr>"

text \<open>\<open>/\.(csv|xlsx)$/i\<close>, and whether the file is among the entries.\<close>

definition importable :: "upload \<Rightarrow> bool" where
  "importable u \<longleftrightarrow> js_endsWith (js_lower (up_name u)) ''.csv'' \<or> is_xlsx (up_name u)"

definition already_in :: "upload \<Rightarrow> import_form \<Rightarrow> bool" where
  "already_in u f = list_ex (\<lambda>e. js_lower (up_name (ie_file e)) = js_lower (up_name u) \<and>
     up_size (ie_file e) = up_size u \<and> up_modified (ie_file e) = up_modified u) (im_entries f)"

definition push_entry :: "upload \<Rightarrow> detected \<Rightarrow> import_form \<Rightarrow> import_form" where
  "push_entry u d f =
     f\<lparr>im_entries := im_entries f @ [\<lparr>ie_file = u, ie_dataset = dt_dataset d, ie_status = dt_status d\<rparr>]\<rparr>"

definition remove_entry :: "nat \<Rightarrow> import_form \<Rightarrow> import_form" where
  "remove_entry i f = drawFiles (f\<lparr>im_entries := take i (im_entries f) @ drop (i + 1) (im_entries f)\<rparr>)"

definition choose_dataset :: "nat \<Rightarrow> jsstr \<Rightarrow> import_form \<Rightarrow> import_form" where
  "choose_dataset i d f =
     (if i < length (im_entries f)
      then drawFiles (f\<lparr>im_entries := (im_entries f)[i := (im_entries f ! i)
             \<lparr>ie_dataset := d, ie_status := if d \<noteq> [] then ''Ready'' else ''Choose dataset''\<rparr>]\<rparr>)
      else f)"

definition entry_fields :: "import_entry \<Rightarrow> (jsstr \<times> form_value) list" where
  "entry_fields e =
     (''files[]'', FFile (ie_file e))
     # (if ie_dataset e \<noteq> [] \<and> \<not> is_xlsx (up_name (ie_file e)) then [(''target_table'', FText (ie_dataset e))] else [])"

definition batch_fields :: "jsstr \<Rightarrow> import_form \<Rightarrow> (jsstr \<times> form_value) list" where
  "batch_fields operation f = (''operation'', FText operation) # concat (map entry_fields (im_entries f))"

section \<open>What the server makes of the fields\<close>

text \<open>
  \<open>institution_batch_upload_fields\<close> of \<^verbatim>\<open>services/server/src/main.rs\<close>: the operation, and the uploads, of which a
  \<open>target_table\<close> names the last; \<^const>\<open>None\<close> is an invalid upload.
\<close>

fun read_field ::
  "jsstr \<times> form_value \<Rightarrow> jsstr option \<times> (upload \<times> jsstr option) list
     \<Rightarrow> (jsstr option \<times> (upload \<times> jsstr option) list) option" where
  "read_field (name, FFile u) (oper, ups) =
     (if name = ''files[]'' \<or> name = ''file'' then Some (oper, ups @ [(u, None)]) else Some (oper, ups))"
| "read_field (name, FText t) (oper, ups) =
     (if name = ''operation'' then Some (Some t, ups)
      else if name = ''target_table''
      then (if ups = [] then None else Some (oper, butlast ups @ [(fst (last ups), Some t)]))
      else if name = ''files[]'' \<or> name = ''file'' then None
      else Some (oper, ups))"

definition read_batch ::
  "(jsstr \<times> form_value) list \<Rightarrow> (jsstr option \<times> (upload \<times> jsstr option) list) option" where
  "read_batch form_data =
     Option.bind (foldl (\<lambda>st field. Option.bind st (read_field field)) (Some (None, [])) form_data)
       (\<lambda>(oper, ups). if ups = [] then None else Some (oper, ups))"

section \<open>Lemmas\<close>

lemma swap_mset: "i < length xs \<Longrightarrow> j < length xs \<Longrightarrow> mset (swap i j xs) = mset xs"
  by (simp add: swap_def mset_swap)

lemma list_ex_id [simp]: "list_ex (\<lambda>p. pe_id p = i) ps \<longleftrightarrow> i \<in> set (map pe_id ps)"
  by (induction ps) auto

lemma distinct_remove: "distinct xs \<Longrightarrow> distinct (take i xs @ drop (i + 1) xs)"
proof (induction xs arbitrary: i)
  case (Cons x xs)
  then show ?case by (cases i) (auto dest: in_set_takeD in_set_dropD)
qed simp

definition ids_ok :: "people \<Rightarrow> bool" where
  "ids_ok p \<longleftrightarrow> distinct (people_ids p) \<and> [] \<notin> set (people_ids p)"

lemma ids_ok_mset:
  assumes "ids_ok p" "mset (pb_selected q) = mset (pb_selected p)"
  shows "ids_ok q"
proof -
  have m: "mset (people_ids q) = mset (people_ids p)" using assms(2) by (simp add: people_ids_def)
  from mset_eq_setD [OF m] mset_eq_imp_distinct_iff [OF m] assms(1) show ?thesis by (simp add: ids_ok_def)
qed

lemma ids_ok_step:
  assumes "ids_ok p"
  shows "ids_ok (people_step e p)"
proof (cases e)
  case (AddPerson c)
  with assms show ?thesis
    by (auto simp: ids_ok_def people_ids_def add_person_def addable_def split: option.splits if_splits)
next
  case (MoveUp i)
  have "mset (pb_selected (move_up i p)) = mset (pb_selected p)" by (auto simp: move_up_def swap_mset)
  then show ?thesis using ids_ok_mset [OF assms, of "people_step e p"] MoveUp by simp
next
  case (MoveDown i)
  have "mset (pb_selected (move_down i p)) = mset (pb_selected p)" by (auto simp: move_down_def swap_mset)
  then show ?thesis using ids_ok_mset [OF assms, of "people_step e p"] MoveDown by simp
next
  case (RemovePerson i)
  let ?xs = "people_ids p"
  have ids: "people_ids (people_step e p) = take i ?xs @ drop (i + 1) ?xs"
    by (simp add: RemovePerson people_ids_def remove_person_def take_map drop_map)
  have "distinct (take i ?xs @ drop (i + 1) ?xs)"
    using assms distinct_remove unfolding ids_ok_def by blast
  moreover have "set (take i ?xs @ drop (i + 1) ?xs) \<subseteq> set ?xs"
    by (auto dest: in_set_takeD in_set_dropD)
  ultimately show ?thesis using assms by (auto simp: ids_ok_def ids)
qed

text \<open>The events of a team's form.\<close>

datatype team_event =
    Writers people_event | Mentors people_event | ChooseLeader jsstr | FoundWriters "person list" | FoundMentors "person list"

fun team_step :: "team_event \<Rightarrow> team_form \<Rightarrow> team_form" where
  "team_step (Writers e) f = change_writers e f"
| "team_step (Mentors e) f = change_mentors e f"
| "team_step (ChooseLeader i) f = choose_leader i f"
| "team_step (FoundWriters ps) f = f\<lparr>tm_writers := show_results ps (tm_writers f)\<rparr>"
| "team_step (FoundMentors ps) f = f\<lparr>tm_mentors := show_results ps (tm_mentors f)\<rparr>"

definition team_ok :: "team_form \<Rightarrow> bool" where
  "team_ok f \<longleftrightarrow> ids_ok (tm_writers f) \<and> ids_ok (tm_mentors f) \<and>
     (tm_leader f = [] \<or> tm_leader f \<in> set (people_ids (tm_writers f)))"

lemma team_ok_update:
  "ids_ok (tm_writers f) \<Longrightarrow> ids_ok (tm_mentors f) \<Longrightarrow> team_ok (update_leader f)"
  by (simp add: team_ok_def update_leader_def Let_def people_ids_def)

lemma team_ok_step: "team_ok f \<Longrightarrow> team_ok (team_step e f)"
proof (cases e)
  case (Writers w)
  assume ok: "team_ok f"
  then have ids: "ids_ok (people_step w (tm_writers f))" "ids_ok (tm_mentors f)"
    by (simp_all add: team_ok_def ids_ok_step)
  show ?thesis
  proof (cases w)
    case (AddPerson c)
    have "people_ids (add_person p) = people_ids p" if "addable p = None" for p
      using that by (simp add: add_person_def)
    then show ?thesis
      using ids ok AddPerson Writers
      by (auto simp: change_writers_def Let_def team_ok_update) (auto simp: team_ok_def people_ids_def)
  qed (use ids Writers in \<open>simp_all add: change_writers_def Let_def team_ok_update\<close>)
next
  case (Mentors w)
  assume "team_ok f"
  with Mentors show ?thesis by (simp add: team_ok_def change_mentors_def ids_ok_step)
qed (simp_all add: team_ok_def choose_leader_def show_results_def ids_ok_def people_ids_def)

lemma team_ok_edit:
  assumes "distinct (map pe_id (td_members d))" "[] \<notin> set (map pe_id (td_members d))"
  shows "team_ok (edit_form d)"
proof -
  have "ids_ok (new_people (map plain_person (filter P (td_members d))))" for P
    using assms by (auto simp: ids_ok_def people_ids_def new_people_def plain_person_def comp_def distinct_map
        inj_on_def)
  then show ?thesis unfolding edit_form_def new_team_form_def by (intro team_ok_update) simp_all
qed

text \<open>Archives: a submission is possible only with a preview, of which the main file is one of the TeX files.\<close>

datatype archive_event = ChooseArchive "upload option" | Previewed archive_preview | ChooseMain jsstr

fun archive_step :: "archive_event \<Rightarrow> archive_form \<Rightarrow> archive_form" where
  "archive_step (ChooseArchive u) f = choose_archive u f"
| "archive_step (Previewed pv) f = take_preview pv f"
| "archive_step (ChooseMain m) f = choose_main m f"

definition archive_ok :: "archive_form \<Rightarrow> bool" where
  "archive_ok f \<longleftrightarrow>
     (\<not> af_main_off f \<longrightarrow> (\<exists>pv. af_preview f = Some pv \<and> af_options f = [] # map ent_path (filter ent_is_tex (pv_files pv)))) \<and>
     af_main f \<in> set (af_options f) \<and> (\<not> af_submit_off f \<longrightarrow> \<not> af_main_off f \<and> af_main f \<noteq> [])"

lemma archive_ok_step: "archive_ok f \<Longrightarrow> archive_ok (archive_step e f)"
  by (cases e) (auto simp: archive_ok_def choose_archive_def take_preview_def choose_main_def Let_def)

lemma archive_ok_new: "archive_ok new_archive_form"
  by (simp add: archive_ok_def new_archive_form_def)

lemma foldl_bind_None: "foldl (\<lambda>st x. Option.bind st (f x)) None xs = None"
  by (induction xs) simp_all

lemma read_entries:
  "foldl (\<lambda>st field. Option.bind st (read_field field)) (Some (oper, ups)) (concat (map entry_fields es))
     = Some (oper, ups @ map (\<lambda>e. (ie_file e, if ie_dataset e \<noteq> [] \<and> \<not> is_xlsx (up_name (ie_file e))
                                             then Some (ie_dataset e) else None)) es)"
  by (induction es arbitrary: ups) (simp_all add: entry_fields_def)

section \<open>Properties\<close>

text \<open>
  A team's form keeps its people apart, whatever is found, added, moved, removed and chosen: no account is twice
  among the writers or among the mentors, and the leader is one of the writers or not chosen. A form that has a
  leader thus submits distinct writers with the leader among them.
\<close>

theorem team_form_consistent:
  assumes "distinct (map pe_id (td_members d))" "[] \<notin> set (map pe_id (td_members d))"
    and "f = fold team_step events (edit_form d)"
  shows "distinct (people_ids (tm_writers f)) \<and> distinct (people_ids (tm_mentors f)) \<and>
    (leader_chosen f \<longleftrightarrow> tm_leader f \<noteq> [])"
proof -
  have "team_ok (fold team_step es g)" if "team_ok g" for es g
    using that by (induction es arbitrary: g) (simp_all add: team_ok_step)
  then have ok: "team_ok f" using team_ok_edit [OF assms(1,2)] assms(3) by simp
  moreover have "leader_chosen f \<longleftrightarrow> tm_leader f \<in> set (people_ids (tm_writers f))"
    by (simp add: leader_chosen_def people_ids_def)
  ultimately show ?thesis by (auto simp: team_ok_def ids_ok_def)
qed

definition demo_team :: team_detail where
  "demo_team = \<lparr>td_name = ''T'', td_members =
     [\<lparr>pe_id = ''u1'', pe_email = ''a@x'', mb_role = ''writer'', mb_order = 1, mb_leader = True\<rparr>,
      \<lparr>pe_id = ''u2'', pe_email = ''b@x'', mb_role = ''writer'', mb_order = 2, mb_leader = False\<rparr>],
     td_template = None, td_template_name = None, td_pack = None\<rparr>"

theorem team_form_consistent_witness:
  "let f = fold team_step [Writers (MoveUp 1), FoundWriters [\<lparr>pe_id = ''u3'', pe_email = ''c@x''\<rparr>],
       Writers (AddPerson ''u3''), Writers (AddPerson ''u3''), Writers (RemovePerson 1)] (edit_form demo_team)
   in people_ids (tm_writers f) = [''u2'', ''u3''] \<and> tm_leader f = [] \<and> \<not> leader_chosen f"
proof -
  let ?es = "[Writers (MoveUp 1), FoundWriters [\<lparr>pe_id = ''u3'', pe_email = ''c@x''\<rparr>],
       Writers (AddPerson ''u3''), Writers (AddPerson ''u3''), Writers (RemovePerson 1)]"
  have "people_ids (tm_writers (fold team_step ?es (edit_form demo_team))) = [''u2'', ''u3'']"
    "tm_leader (fold team_step ?es (edit_form demo_team)) = []" by code_simp+
  then show ?thesis
    using team_form_consistent [of demo_team _ ?es] by (simp add: demo_team_def Let_def)
qed

text \<open>
  C34. The server reads from the submitted fields exactly the operation and the files of the batch, each with the dataset
  that the page has for it: a \<open>target_table\<close> never reaches another file, with workbooks and CSV files in any order.
\<close>

theorem batch_fields_read_back:
  "read_batch (batch_fields operation f) =
     (if im_entries f = [] then None
      else Some (Some operation, map (\<lambda>e. (ie_file e,
             if unlabelled e \<or> is_xlsx (up_name (ie_file e)) then None else Some (ie_dataset e))) (im_entries f)))"
proof -
  have "(if ie_dataset e \<noteq> [] \<and> \<not> is_xlsx (up_name (ie_file e)) then Some (ie_dataset e) else None)
      = (if unlabelled e \<or> is_xlsx (up_name (ie_file e)) then None else Some (ie_dataset e))" for e
    by (auto simp: unlabelled_def)
  then show ?thesis
    using read_entries [of "Some operation" "[]" "im_entries f"] by (simp add: read_batch_def batch_fields_def)
qed

text \<open>
  Whatever is chosen, validated and selected, an archive can be submitted only with a preview, and its main file is
  then one of the TeX files of that preview.
\<close>

theorem archive_submission_validated:
  assumes "f = fold archive_step events new_archive_form" "\<not> af_submit_off f"
  shows "\<exists>pv. af_preview f = Some pv \<and> af_main f \<in> ent_path ` {e \<in> set (pv_files pv). ent_is_tex e}"
proof -
  have "archive_ok (fold archive_step es g)" if "archive_ok g" for es g
    using that by (induction es arbitrary: g) (simp_all add: archive_ok_step)
  then have "archive_ok f" using archive_ok_new assms(1) by simp
  with assms(2) show ?thesis by (auto simp: archive_ok_def)
qed

theorem archive_submission_validated_witness:
  "let pv = \<lparr>pv_files = [\<lparr>ent_path = ''main.tex'', ent_size = 9, ent_is_tex = True, ent_compatible = False\<rparr>],
             pv_detected_main = None\<rparr>;
       f = fold archive_step [ChooseArchive None, Previewed pv, ChooseMain ''main.tex''] new_archive_form
   in \<not> af_submit_off f \<and> (\<exists>pv. af_preview f = Some pv \<and> af_main f \<in> ent_path ` {e \<in> set (pv_files pv). ent_is_tex e})"
proof -
  let ?pv = "\<lparr>pv_files = [\<lparr>ent_path = ''main.tex'', ent_size = 9, ent_is_tex = True, ent_compatible = False\<rparr>],
             pv_detected_main = None\<rparr>"
  have "\<not> af_submit_off (fold archive_step [ChooseArchive None, Previewed ?pv, ChooseMain ''main.tex''] new_archive_form)"
    by (simp add: new_archive_form_def choose_archive_def take_preview_def choose_main_def Let_def)
  then show ?thesis
    unfolding Let_def using archive_submission_validated [OF refl] by blast
qed

end
