(* ===== verification/AdminPage.thy ===== *)
theory AdminPage
  imports AdminForms
begin

text \<open>
  The state of the administration page (\<^verbatim>\<open>services/server/static/admin.js\<close>) and its synchronous functions. The page
  is one region of content, which a section replaces and which the functions of a section append to, a status line
  and one dialog. A form or table with state of its own is an entry of a store, and the content refers to it by its
  position, since a function that waits goes on with its entry when the content has been replaced.
\<close>

section \<open>Sections\<close>

datatype admin_section =
    SOverview | SUsers | SInstitution | SImports | STeams | STemplates | SPolicies | SVersions | SReviews | SBuilds
  | SAudit | SSystem

fun section_name :: "admin_section \<Rightarrow> jsstr" where
  "section_name SOverview = ''Overview''"
| "section_name SUsers = ''V2 Users''"
| "section_name SInstitution = ''Institution Data''"
| "section_name SImports = ''Imports''"
| "section_name STeams = ''Paper Teams''"
| "section_name STemplates = ''Templates''"
| "section_name SPolicies = ''File Policies''"
| "section_name SVersions = ''Versions''"
| "section_name SReviews = ''Reviews''"
| "section_name SBuilds = ''Build Queue''"
| "section_name SAudit = ''Audit''"
| "section_name SSystem = ''System''"

record section_options =
  so_batch :: "jsstr option"
  so_job :: "jsstr option"
  so_tab :: "jsstr option"

definition no_options :: section_options where
  "no_options = \<lparr>so_batch = None, so_job = None, so_tab = None\<rparr>"

section \<open>Institution data\<close>

record dataset_config =
  dc_label :: jsstr
  dc_dataset :: jsstr
  dc_keys :: "jsstr list"
  dc_fields :: "jsstr list"
  dc_columns :: "jsstr list"

definition config ::
  "jsstr \<Rightarrow> jsstr \<Rightarrow> jsstr list \<Rightarrow> jsstr list \<Rightarrow> jsstr list \<Rightarrow> dataset_config" where
  "config l d ks fs cs = \<lparr>dc_label = l, dc_dataset = d, dc_keys = ks, dc_fields = fs, dc_columns = cs\<rparr>"

definition institutionDatasets :: "dataset_config list" where
  "institutionDatasets =
     [config ''Students'' ''students'' [''reg_no''] [''reg_no'', ''name'', ''email'', ''programme_code'']
        [''reg_no'', ''name'', ''email'', ''programme_code'', ''link_status''],
      config ''Faculty'' ''faculty'' [''faculty_id'']
        [''faculty_id'', ''name'', ''email'', ''dept_id'', ''honorific'', ''designation'', ''status'']
        [''faculty_id'', ''name'', ''email'', ''dept_id'', ''designation'', ''link_status''],
      config ''Programmes'' ''programmes'' [''programme_code''] [''programme_code'', ''hod_id'']
        [''programme_code'', ''hod_id'', ''template_name''],
      config ''Departments'' ''departments'' [''department_id''] [''department_id''] [''department_id''],
      config ''Schools'' ''schools'' [''school_id''] [''school_id''] [''school_id''],
      config ''Course Registrations'' ''student_course_registrations''
        [''student_reg_no'', ''course_id'', ''academic_year'', ''semester'']
        [''student_reg_no'', ''course_id'', ''academic_year'', ''semester'', ''registration_status'']
        [''student_reg_no'', ''course_id'', ''academic_year'', ''semester'', ''registration_status''],
      config ''Guide Capacity'' ''faculty_guide_capacity'' [''capacity_id'']
        [''capacity_id'', ''faculty_id'', ''academic_year'', ''ug_max_projects'', ''pg_max_projects'',
         ''integrated_pg_max_projects'', ''status'']
        [''faculty_id'', ''academic_year'', ''ug_max_projects'', ''pg_max_projects'', ''status''],
      config ''Department Roles'' ''department_roles'' [''id''] [''id'', ''dept_id'', ''role_type'', ''faculty_id'']
        [''id'', ''dept_id'', ''role_type'', ''faculty_id''],
      config ''Faculty Roles'' ''faculty_roles'' [''role_id'']
        [''role_id'', ''faculty_id'', ''role_type'', ''school_id'', ''department_id'', ''programme_code'', ''status'']
        [''faculty_id'', ''role_type'', ''programme_code'', ''status''],
      config ''Paper Assignments'' ''paper_teams'' [''external_team_key'']
        [''external_team_key'', ''team_name'', ''academic_year'', ''semester'', ''status'']
        [''external_team_key'', ''team_name'', ''academic_year'', ''semester'', ''status'',
         ''materialized_paper_team_id'']]"

type_synonym row_values = "(jsstr \<times> jsstr option) list"

definition canonicalRecord :: "dataset_config \<Rightarrow> row_values \<Rightarrow> row_values" where
  "canonicalRecord c item = List.map_filter (\<lambda>f. map_option (Pair f) (map_of item f)) (dc_fields c)"

text \<open>The fields of the form of one record, with the values they start with and whether they are read-only.\<close>

definition record_fields :: "dataset_config \<Rightarrow> jsstr \<Rightarrow> row_values \<Rightarrow> (jsstr \<times> jsstr \<times> bool) list" where
  "record_fields c operation item =
     map (\<lambda>f. (f, (case map_of (canonicalRecord c item) f of Some (Some v) \<Rightarrow> v | _ \<Rightarrow> []),
               operation \<noteq> ''ADD'' \<and> f \<in> set (dc_keys c)))
       (if operation = ''DELETE'' then dc_keys c else dc_fields c)"

text \<open>\<open>label.replace(/s$/, '')\<close>, and \<open>Add\<close> of \<open>ADD\<close>.\<close>

definition singular :: "jsstr \<Rightarrow> jsstr" where
  "singular l = (if l \<noteq> [] \<and> last l = CHR ''s'' then butlast l else l)"

definition operation_label :: "jsstr \<Rightarrow> jsstr" where
  "operation_label oper = take 1 oper @ js_lower (drop 1 oper)"

definition record_title :: "dataset_config \<Rightarrow> jsstr \<Rightarrow> jsstr" where
  "record_title c operation = operation_label operation @ '' '' @ singular (dc_label c)"

section \<open>Tables that are paged\<close>

text \<open>The filters are an object whose keys keep their order; \<open>page\<close> and \<open>limit\<close> are its numbers.\<close>

record 'i paged =
  pp_page :: nat
  pp_limit :: nat
  pp_filters :: "(jsstr \<times> jsstr) list"
  pp_shown :: "'i page_of option"
  pp_loading :: bool

definition new_paged :: "nat \<Rightarrow> jsstr list \<Rightarrow> 'i paged" where
  "new_paged limit keys = \<lparr>pp_page = 1, pp_limit = limit, pp_filters = map (\<lambda>k. (k, [])) keys, pp_shown = None,
     pp_loading = False\<rparr>"

definition paged_query :: "'i paged \<Rightarrow> (jsstr \<times> jsstr option) list" where
  "paged_query p = [(''page'', Some (nat_str (pp_page p))), (''limit'', Some (nat_str (pp_limit p)))]
     @ map (\<lambda>(k, v). (k, Some v)) (pp_filters p)"

text \<open>\<open>Object.assign(state, values, { page: 1 })\<close>.\<close>

definition assign_filters :: "(jsstr \<times> jsstr) list \<Rightarrow> 'i paged \<Rightarrow> 'i paged" where
  "assign_filters values p = p\<lparr>pp_filters := foldl (\<lambda>m (k, v). map_set k v m) (pp_filters p) values, pp_page := 1\<rparr>"

text \<open>The pages that the pager's buttons load, when they are enabled.\<close>

definition pager_previous :: "'i page_of \<Rightarrow> nat option" where
  "pager_previous g = (if pg_page g \<le> 1 then None else Some (max 1 (pg_page g - 1)))"

definition pager_next :: "'i page_of \<Rightarrow> nat option" where
  "pager_next g = (if pg_has_more g then Some (pg_page g + 1) else None)"

definition pager_label :: "'i page_of \<Rightarrow> jsstr" where
  "pager_label g = ''Page '' @ nat_str (pg_page g) @ middot @ nat_str (pg_total g) @ '' records''"

section \<open>Teams\<close>

text \<open>\<open>tg_selected\<close> is the set that the check boxes of the last page shown change, and the bulk buttons read.\<close>

record team_grid =
  tg_paged :: "team_row paged"
  tg_selected :: "jsstr list"

definition new_grid :: team_grid where
  "new_grid = \<lparr>tg_paged = new_paged 25 [''search'', ''status'', ''programme_code'', ''mentor_user_id'', ''leader_user_id'',
     ''template_id'', ''review_state'', ''source'', ''unresolved''], tg_selected = []\<rparr>"

definition row_ids :: "team_row page_of \<Rightarrow> jsstr set" where
  "row_ids g = {i. \<exists>r\<in>set (pg_items g). tr_id r = Some i}"

definition show_teams :: "team_row page_of \<Rightarrow> team_grid \<Rightarrow> team_grid" where
  "show_teams g t = t\<lparr>tg_selected := [], tg_paged := (tg_paged t)\<lparr>pp_shown := Some g, pp_loading := False\<rparr>\<rparr>"

text \<open>The listener of a row's check box: the row must be on the page, and its team must have an identifier.\<close>

definition check_row :: "jsstr \<Rightarrow> bool \<Rightarrow> team_grid \<Rightarrow> team_grid" where
  "check_row i b t =
     (case pp_shown (tg_paged t) of None \<Rightarrow> t
      | Some g \<Rightarrow>
          if pp_loading (tg_paged t) \<or> list_all (\<lambda>r. tr_id r \<noteq> Some i) (pg_items g) then t
          else t\<lparr>tg_selected := (if \<not> b then removeAll i (tg_selected t)
                   else if i \<in> set (tg_selected t) then tg_selected t else tg_selected t @ [i])\<rparr>)"

datatype change_box =
    NoBox
  | Conflicts "jsstr list"
  | ConfirmBox template_change "jsstr option" bool  \<comment> \<open>the preview, the name shown, and the check box\<close>

record team_dialog =
  dg_team :: jsstr
  dg_detail :: team_detail
  dg_templates :: "template list"
  dg_form :: team_form
  dg_template :: jsstr
  dg_box :: change_box

text \<open>The first option of the select is chosen.\<close>

definition alternatives :: "team_detail \<Rightarrow> template list \<Rightarrow> template list" where
  "alternatives d ts = filter (\<lambda>t. Some (tp_id t) \<noteq> td_template d) ts"

definition new_dialog :: "jsstr \<Rightarrow> team_detail \<Rightarrow> template list \<Rightarrow> team_dialog" where
  "new_dialog i d ts = \<lparr>dg_team = i, dg_detail = d, dg_templates = ts, dg_form = edit_form d,
     dg_template = (case alternatives d ts of [] \<Rightarrow> [] | t # _ \<Rightarrow> tp_id t), dg_box = NoBox\<rparr>"

definition choose_template :: "jsstr \<Rightarrow> team_dialog \<Rightarrow> team_dialog" where
  "choose_template t g =
     (if list_ex (\<lambda>x. tp_id x = t) (alternatives (dg_detail g) (dg_templates g)) then g\<lparr>dg_template := t\<rparr> else g)"

definition template_name :: "team_dialog \<Rightarrow> jsstr option" where
  "template_name g = map_option tp_name (List.find (\<lambda>t. tp_id t = dg_template g) (dg_templates g))"

definition file_conflicts :: "template_change \<Rightarrow> template_conflict list" where
  "file_conflicts ch = filter (\<lambda>c. \<not> js_startsWith (tc_reason c) ''Main file change'') (ch_conflicts ch)"

text \<open>The confirmation that a preview gives; the name in it is read when the preview has come.\<close>

definition show_change :: "template_change \<Rightarrow> team_dialog \<Rightarrow> team_dialog" where
  "show_change ch g =
     (let cs = file_conflicts ch
      in g\<lparr>dg_box := if cs \<noteq> [] then Conflicts (map tc_path cs) else ConfirmBox ch (template_name g) False\<rparr>)"

definition tick_main :: "bool \<Rightarrow> team_dialog \<Rightarrow> team_dialog" where
  "tick_main b g = (case dg_box g of ConfirmBox ch n c \<Rightarrow> if ch_main_changed ch then g\<lparr>dg_box := ConfirmBox ch n b\<rparr> else g
     | _ \<Rightarrow> g)"

section \<open>File policies\<close>

record policy_panel =
  po_teams :: "team_row list"
  po_team :: "jsstr option"
  po_files :: "file_policy list"

definition show_policies :: "file_policy list \<Rightarrow> policy_panel \<Rightarrow> policy_panel" where
  "show_policies fs p = p\<lparr>po_files := filter (\<lambda>f. fp_policy f \<noteq> ''HIDDEN_SYSTEM'') fs\<rparr>"

section \<open>The institution section and its records\<close>

text \<open>The data panel that the section shows, and its identity links once they have been opened.\<close>

record institution =
  it_panel :: nat
  it_links :: "nat option"

text \<open>\<open>rf_panel\<close> is the panel that is loaded again when the record has been applied.\<close>

record record_form =
  rf_config :: dataset_config
  rf_operation :: jsstr
  rf_fields :: "(jsstr \<times> jsstr \<times> bool) list"
  rf_panel :: nat
  rf_result :: jsstr
  rf_submit_off :: bool

definition new_record_form :: "dataset_config \<Rightarrow> jsstr \<Rightarrow> row_values \<Rightarrow> nat \<Rightarrow> record_form" where
  "new_record_form c operation item k = \<lparr>rf_config = c, rf_operation = operation,
     rf_fields = record_fields c operation item, rf_panel = k, rf_result = [], rf_submit_off = False\<rparr>"

section \<open>The page\<close>

text \<open>
  What is in the content region. The numbers are positions in the stores of the page.
\<close>

datatype (plugins only: size) part =
    Heading admin_section | LoadingNote admin_section | Failure jsstr admin_section section_options
  | Markup "jsstr dom list" | VersionsPanel "team_version list" | BuildsPanel "build_job list"
  | UsersPanel "v2_user list" | CreateTeamForm nat "template list" | TeamGrid nat "template list"
  | ImportForm nat | BatchPanel batch_detail | JobPanel import_job | HistoryPanel nat
  | TemplateForm nat | TemplatesPanel "template list" | PacksPanel "named_item list"
  | PackForm nat | DefaultsPanel "default_mapping list" default_mapping | DataPanel nat
  | PolicyPart nat | Empty jsstr

datatype dialog_body =
    NoDialog | Handoff provisioning jsstr | UserDetails v2_user | UnresolvedTeam team_row | TeamDialog nat
  | RecordDialog nat | PackDetails pack_preview

record admin =
  active :: admin_section
  content :: "part list"
  status_line :: "jsstr \<times> bool"
  dialog :: "(jsstr \<times> dialog_body) option"
  downloads :: "(jsstr \<times> jsstr) list"
  create_forms :: "team_form list"
  grids :: "team_grid list"
  team_dialogs :: "team_dialog list"
  import_forms :: "import_form list"
  histories :: "import_batch paged list"
  archive_forms :: "archive_form list"
  data_panels :: "(dataset_config \<times> row_values paged) list"
  institutions :: "institution list"
  policy_panels :: "policy_panel list"
  pack_forms :: "pack_form list"
  record_forms :: "record_form list"
  link_panels :: "identity_link paged list"

definition admin_init :: admin where
  "admin_init = \<lparr>active = SOverview, content = [], status_line = ([], False), dialog = None, downloads = [],
     create_forms = [], grids = [], team_dialogs = [], import_forms = [], histories = [], archive_forms = [],
     data_panels = [], institutions = [], policy_panels = [], pack_forms = [], record_forms = [], link_panels = []\<rparr>"

definition announce_admin :: "jsstr \<Rightarrow> bool \<Rightarrow> admin \<Rightarrow> admin" where
  "announce_admin m failed s = s\<lparr>status_line := (m, failed)\<rparr>"

definition showError :: "api_error \<Rightarrow> admin \<Rightarrow> admin" where
  "showError e = announce_admin (js_or (Some (err_message e)) ''The administrative request failed.'') True"

definition openAdminDialog :: "jsstr \<Rightarrow> dialog_body \<Rightarrow> admin \<Rightarrow> admin" where
  "openAdminDialog title b s = s\<lparr>dialog := Some (title, b)\<rparr>"

definition closeDialog :: "admin \<Rightarrow> admin" where
  "closeDialog s = s\<lparr>dialog := None\<rparr>"

definition append_part :: "part \<Rightarrow> admin \<Rightarrow> admin" where
  "append_part p s = s\<lparr>content := content s @ [p]\<rparr>"

definition replace_content :: "part list \<Rightarrow> admin \<Rightarrow> admin" where
  "replace_content ps s = s\<lparr>content := ps\<rparr>"

definition downloadCredentials :: "credential list \<Rightarrow> jsstr \<Rightarrow> admin \<Rightarrow> admin" where
  "downloadCredentials cs batchId s =
     s\<lparr>downloads := downloads s @ [(''latex-core-generated-credentials-'' @ batchId @ ''.csv'', credentialsCsv cs)]\<rparr>"

definition showCredentialHandoff :: "provisioning option \<Rightarrow> jsstr \<Rightarrow> admin \<Rightarrow> admin" where
  "showCredentialHandoff p batchId s =
     (case p of None \<Rightarrow> s
      | Some p \<Rightarrow>
          (let s1 = openAdminDialog ''Account setup'' (Handoff p batchId) s
           in if pr_credentials p = [] then s1 else downloadCredentials (pr_credentials p) batchId s1))"

text \<open>\<open>setActive\<close>, and the note that a section is loading.\<close>

definition start_section :: "admin_section \<Rightarrow> admin \<Rightarrow> admin" where
  "start_section c s = s\<lparr>active := c, content := [Heading c, LoadingNote c]\<rparr>"

definition show_failure :: "admin_section \<Rightarrow> section_options \<Rightarrow> api_error \<Rightarrow> admin \<Rightarrow> admin" where
  "show_failure c opts e = replace_content [Heading c, Failure (js_or (Some (err_message e))
     (''Unable to load '' @ section_name c @ ''. Retry or check System status.'')) c opts]"

text \<open>Updates of an entry of a store.\<close>

definition upd_nth :: "nat \<Rightarrow> ('a \<Rightarrow> 'a) \<Rightarrow> 'a list \<Rightarrow> 'a list" where
  "upd_nth i f xs = (if i < length xs then xs[i := f (xs ! i)] else xs)"

definition entry :: "nat \<Rightarrow> 'a list \<Rightarrow> 'a option" where
  "entry i xs = (if i < length xs then Some (xs ! i) else None)"

lemma length_upd_nth [simp]: "length (upd_nth i f xs) = length xs"
  by (simp add: upd_nth_def)

lemma entry_upd_nth [simp]: "entry j (upd_nth i f xs) = (if i = j then map_option f (entry j xs) else entry j xs)"
  by (auto simp: entry_def upd_nth_def)

lemma entry_append [simp]: "entry j (xs @ [x]) = (if j = length xs then Some x else entry j xs)"
  by (auto simp: entry_def nth_append)

definition upd_grid :: "nat \<Rightarrow> (team_grid \<Rightarrow> team_grid) \<Rightarrow> admin \<Rightarrow> admin" where
  "upd_grid i f s = s\<lparr>grids := upd_nth i f (grids s)\<rparr>"

definition upd_dialog :: "nat \<Rightarrow> (team_dialog \<Rightarrow> team_dialog) \<Rightarrow> admin \<Rightarrow> admin" where
  "upd_dialog i f s = s\<lparr>team_dialogs := upd_nth i f (team_dialogs s)\<rparr>"

definition upd_create :: "nat \<Rightarrow> (team_form \<Rightarrow> team_form) \<Rightarrow> admin \<Rightarrow> admin" where
  "upd_create i f s = s\<lparr>create_forms := upd_nth i f (create_forms s)\<rparr>"

definition upd_import :: "nat \<Rightarrow> (import_form \<Rightarrow> import_form) \<Rightarrow> admin \<Rightarrow> admin" where
  "upd_import i f s = s\<lparr>import_forms := upd_nth i f (import_forms s)\<rparr>"

definition upd_history :: "nat \<Rightarrow> (import_batch paged \<Rightarrow> import_batch paged) \<Rightarrow> admin \<Rightarrow> admin" where
  "upd_history i f s = s\<lparr>histories := upd_nth i f (histories s)\<rparr>"

definition upd_archive :: "nat \<Rightarrow> (archive_form \<Rightarrow> archive_form) \<Rightarrow> admin \<Rightarrow> admin" where
  "upd_archive i f s = s\<lparr>archive_forms := upd_nth i f (archive_forms s)\<rparr>"

definition upd_data :: "nat \<Rightarrow> (dataset_config \<times> row_values paged \<Rightarrow> dataset_config \<times> row_values paged) \<Rightarrow> admin \<Rightarrow> admin" where
  "upd_data i f s = s\<lparr>data_panels := upd_nth i f (data_panels s)\<rparr>"

definition upd_policy :: "nat \<Rightarrow> (policy_panel \<Rightarrow> policy_panel) \<Rightarrow> admin \<Rightarrow> admin" where
  "upd_policy i f s = s\<lparr>policy_panels := upd_nth i f (policy_panels s)\<rparr>"

definition upd_pack :: "nat \<Rightarrow> (pack_form \<Rightarrow> pack_form) \<Rightarrow> admin \<Rightarrow> admin" where
  "upd_pack i f s = s\<lparr>pack_forms := upd_nth i f (pack_forms s)\<rparr>"

definition upd_record :: "nat \<Rightarrow> (record_form \<Rightarrow> record_form) \<Rightarrow> admin \<Rightarrow> admin" where
  "upd_record i f s = s\<lparr>record_forms := upd_nth i f (record_forms s)\<rparr>"

definition upd_links :: "nat \<Rightarrow> (identity_link paged \<Rightarrow> identity_link paged) \<Rightarrow> admin \<Rightarrow> admin" where
  "upd_links i f s = s\<lparr>link_panels := upd_nth i f (link_panels s)\<rparr>"

text \<open>A new entry of a store, with its part appended to the content.\<close>

definition add_create :: "template list \<Rightarrow> admin \<Rightarrow> admin" where
  "add_create ts s = append_part (CreateTeamForm (length (create_forms s)) ts)
     (s\<lparr>create_forms := create_forms s @ [new_team_form [] [] None]\<rparr>)"

definition add_grid :: "template list \<Rightarrow> admin \<Rightarrow> admin" where
  "add_grid ts s = append_part (TeamGrid (length (grids s)) ts) (s\<lparr>grids := grids s @ [new_grid]\<rparr>)"

definition add_import :: "admin \<Rightarrow> admin" where
  "add_import s = append_part (ImportForm (length (import_forms s)))
     (s\<lparr>import_forms := import_forms s @ [new_import_form]\<rparr>)"

definition add_history :: "admin \<Rightarrow> admin" where
  "add_history s = append_part (HistoryPanel (length (histories s)))
     (s\<lparr>histories := histories s @ [new_paged 25 [''search'', ''status'', ''mode'']]\<rparr>)"

definition add_archive :: "admin \<Rightarrow> admin" where
  "add_archive s = append_part (TemplateForm (length (archive_forms s)))
     (s\<lparr>archive_forms := archive_forms s @ [new_archive_form]\<rparr>)"

definition data_filters :: "row_values paged" where
  "data_filters = new_paged 50 [''search'', ''programme_code'', ''department_id'', ''link_status'']"

text \<open>\<open>load(config)\<close> of the institution section: every tab shown has a panel of its own.\<close>

definition add_data :: "nat \<Rightarrow> dataset_config \<Rightarrow> admin \<Rightarrow> admin" where
  "add_data k c s = s\<lparr>data_panels := data_panels s @ [(c, data_filters)],
     institutions := upd_nth k (\<lambda>t. t\<lparr>it_panel := length (data_panels s)\<rparr>) (institutions s)\<rparr>"

definition add_institution :: "admin \<Rightarrow> admin" where
  "add_institution s = append_part (DataPanel (length (institutions s)))
     (s\<lparr>institutions := institutions s @ [\<lparr>it_panel = 0, it_links = None\<rparr>]\<rparr>)"

text \<open>The value of a team's option: a team without an identifier has the text \<open>null\<close>.\<close>

definition option_value :: "team_row \<Rightarrow> jsstr" where
  "option_value t = (case tr_id t of None \<Rightarrow> ''null'' | Some i \<Rightarrow> i)"

definition add_policies :: "team_row list \<Rightarrow> admin \<Rightarrow> admin" where
  "add_policies ts s = append_part (PolicyPart (length (policy_panels s)))
     (s\<lparr>policy_panels := policy_panels s @
        [\<lparr>po_teams = ts, po_team = (case ts of [] \<Rightarrow> None | t # _ \<Rightarrow> Some (option_value t)), po_files = []\<rparr>]\<rparr>)"

definition add_pack :: "admin \<Rightarrow> admin" where
  "add_pack s = append_part (PackForm (length (pack_forms s))) (s\<lparr>pack_forms := pack_forms s @ [new_pack_form]\<rparr>)"

definition open_record :: "dataset_config \<Rightarrow> jsstr \<Rightarrow> row_values \<Rightarrow> nat \<Rightarrow> admin \<Rightarrow> admin" where
  "open_record c operation item k s =
     openAdminDialog (record_title c operation) (RecordDialog (length (record_forms s)))
       (s\<lparr>record_forms := record_forms s @ [new_record_form c operation item k]\<rparr>)"

definition open_team :: "jsstr \<Rightarrow> team_detail \<Rightarrow> template list \<Rightarrow> admin \<Rightarrow> admin" where
  "open_team i d ts s =
     openAdminDialog (td_name d) (TeamDialog (length (team_dialogs s)))
       (s\<lparr>team_dialogs := team_dialogs s @ [new_dialog i d ts]\<rparr>)"

text \<open>\<open>renderIdentityLinkManager\<close>, in the place that the section has for it.\<close>

definition add_links :: "nat \<Rightarrow> admin \<Rightarrow> admin" where
  "add_links k s = s\<lparr>link_panels := link_panels s @ [new_paged 50 [''search'', ''external_type'']],
     institutions := upd_nth k (\<lambda>t. t\<lparr>it_links := Some (length (link_panels s))\<rparr>) (institutions s)\<rparr>"

end
