(* ===== verification/AdminCalls.thy ===== *)
theory AdminCalls
  imports AdminPage Async
begin

text \<open>
  The asynchronous functions and the listeners of the administration page, \<^verbatim>\<open>services/server/static/admin.js\<close>, as calls
  over the state of \<open>AdminPage\<close>. A click that asks for confirmation carries the answer, a submission the values of the
  fields that have no state of their own. Events may name any entry of a store, also one that is not on the page any
  more. Timers that delay a search are left out: a search is an event of its own.
\<close>

section \<open>Requests and answers\<close>

datatype (plugins only: size) areq = AApi admin_api | ReadFile upload

datatype (plugins only: size) aanswer =
    VUnit | VOverview overview_data | VTemplates "template list" | VPacks "named_item list" | VUsers "v2_user list"
  | VVersions "team_version list" | VReviews "admin_review list" | VJobs "build_job list" | VAudit "audit_event list"
  | VSystem system_data | VPreview archive_preview | VImported imported | VReset reset_result | VPeople "person list"
  | VResolved resolved | VTeam team_detail | VChange template_change | VTeams "team_row page_of" | VBulk bulk_result
  | VJob import_job | VApplied apply_result | VBatch batch_detail
  | VBatches "import_batch page_of" | VRows "row_values page_of" | VPolicies "file_policy list"
  | VContent jsstr | VPack pack_preview | VPackDetail jsstr pack_preview | VMappings "default_mapping list"
  | VFallback default_mapping | VLinks "identity_link page_of"

type_synonym 'r acall = "(admin, areq, aanswer, 'r) async"

definition v_overview where "v_overview v = (case v of VOverview x \<Rightarrow> Some x | _ \<Rightarrow> None)"
definition v_templates where "v_templates v = (case v of VTemplates x \<Rightarrow> Some x | _ \<Rightarrow> None)"
definition v_packs where "v_packs v = (case v of VPacks x \<Rightarrow> Some x | _ \<Rightarrow> None)"
definition v_users where "v_users v = (case v of VUsers x \<Rightarrow> Some x | _ \<Rightarrow> None)"
definition v_versions where "v_versions v = (case v of VVersions x \<Rightarrow> Some x | _ \<Rightarrow> None)"
definition v_reviews where "v_reviews v = (case v of VReviews x \<Rightarrow> Some x | _ \<Rightarrow> None)"
definition v_jobs where "v_jobs v = (case v of VJobs x \<Rightarrow> Some x | _ \<Rightarrow> None)"
definition v_audit where "v_audit v = (case v of VAudit x \<Rightarrow> Some x | _ \<Rightarrow> None)"
definition v_system where "v_system v = (case v of VSystem x \<Rightarrow> Some x | _ \<Rightarrow> None)"
definition v_preview where "v_preview v = (case v of VPreview x \<Rightarrow> Some x | _ \<Rightarrow> None)"
definition v_imported where "v_imported v = (case v of VImported x \<Rightarrow> Some x | _ \<Rightarrow> None)"
definition v_reset where "v_reset v = (case v of VReset x \<Rightarrow> Some x | _ \<Rightarrow> None)"
definition v_people where "v_people v = (case v of VPeople x \<Rightarrow> Some x | _ \<Rightarrow> None)"
definition v_resolved where "v_resolved v = (case v of VResolved x \<Rightarrow> Some x | _ \<Rightarrow> None)"
definition v_team where "v_team v = (case v of VTeam x \<Rightarrow> Some x | _ \<Rightarrow> None)"
definition v_change where "v_change v = (case v of VChange x \<Rightarrow> Some x | _ \<Rightarrow> None)"
definition v_teams where "v_teams v = (case v of VTeams x \<Rightarrow> Some x | _ \<Rightarrow> None)"
definition v_bulk where "v_bulk v = (case v of VBulk x \<Rightarrow> Some x | _ \<Rightarrow> None)"
definition v_job where "v_job v = (case v of VJob x \<Rightarrow> Some x | _ \<Rightarrow> None)"
definition v_applied where "v_applied v = (case v of VApplied x \<Rightarrow> Some x | _ \<Rightarrow> None)"
definition v_batch where "v_batch v = (case v of VBatch x \<Rightarrow> Some x | _ \<Rightarrow> None)"
definition v_batches where "v_batches v = (case v of VBatches x \<Rightarrow> Some x | _ \<Rightarrow> None)"
definition v_rows where "v_rows v = (case v of VRows x \<Rightarrow> Some x | _ \<Rightarrow> None)"
definition v_policies where "v_policies v = (case v of VPolicies x \<Rightarrow> Some x | _ \<Rightarrow> None)"
definition v_content where "v_content v = (case v of VContent x \<Rightarrow> Some x | _ \<Rightarrow> None)"
definition v_pack where "v_pack v = (case v of VPack x \<Rightarrow> Some x | _ \<Rightarrow> None)"
definition v_mappings where "v_mappings v = (case v of VMappings x \<Rightarrow> Some x | _ \<Rightarrow> None)"
definition v_fallback where "v_fallback v = (case v of VFallback x \<Rightarrow> Some x | _ \<Rightarrow> None)"
definition v_links where "v_links v = (case v of VLinks x \<Rightarrow> Some x | _ \<Rightarrow> None)"
definition v_pack_detail where "v_pack_detail v = (case v of VPackDetail n x \<Rightarrow> Some (n, x) | _ \<Rightarrow> None)"

lemmas aanswer_defs = v_overview_def v_templates_def v_packs_def v_users_def v_versions_def v_reviews_def v_jobs_def
  v_audit_def v_system_def v_preview_def v_imported_def v_reset_def v_people_def v_resolved_def
  v_team_def v_change_def v_teams_def v_bulk_def v_job_def v_applied_def v_batch_def
  v_batches_def v_rows_def v_policies_def v_content_def v_pack_def v_mappings_def v_fallback_def
  v_links_def v_pack_detail_def

definition a_say :: "jsstr \<Rightarrow> unit acall" where
  "a_say m = act (announce_admin m False)"

definition say_or_warn :: "jsstr \<Rightarrow> bool \<Rightarrow> unit acall" where
  "say_or_warn m failed = act (announce_admin m failed)"

definition a_fail :: "jsstr \<Rightarrow> 'r acall" where
  "a_fail m = throw \<lparr>err_message = m, err_status = 0\<rparr>"

text \<open>What \<open>buttonAction\<close> makes of a handler, and \<open>catch(showError)\<close> elsewhere.\<close>

definition guarded :: "unit acall \<Rightarrow> unit acall" where
  "guarded m = attempt m (\<lambda>e. act (showError e))"

text \<open>\<open>Promise.all\<close> of two requests.\<close>

definition fetch_both ::
  "admin_api \<Rightarrow> (aanswer \<Rightarrow> 'x option) \<Rightarrow> admin_api \<Rightarrow> (aanswer \<Rightarrow> 'y option) \<Rightarrow> ('x \<times> 'y) acall" where
  "fetch_both p f q g = bind (promise_all [spawn id (request (AApi p)), spawn id (request (AApi q))])
     (\<lambda>vs. case vs of [a, b] \<Rightarrow>
         (case (f a, g b) of (Some x, Some y) \<Rightarrow> ret (x, y) | _ \<Rightarrow> throw type_error)
       | _ \<Rightarrow> throw type_error)"

section \<open>Pages of tables\<close>

text \<open>
  \<open>load(page)\<close>: the page is noted, and what it asks for is what the state says then; the answer is shown whatever the
  state says by the time it comes. \<^const>\<open>None\<close> is \<open>load()\<close>.
\<close>

definition set_page :: "nat option \<Rightarrow> 'i paged \<Rightarrow> 'i paged" where
  "set_page n p = (case n of None \<Rightarrow> p | Some k \<Rightarrow> p\<lparr>pp_page := k\<rparr>)"

definition show_rows :: "'i page_of \<Rightarrow> 'i paged \<Rightarrow> 'i paged" where
  "show_rows g p = p\<lparr>pp_shown := Some g, pp_loading := False\<rparr>"

definition loadTeams :: "nat \<Rightarrow> nat option \<Rightarrow> unit acall" where
  "loadTeams i n =
     bind (act (upd_grid i (\<lambda>t. t\<lparr>tg_paged := (set_page n (tg_paged t))\<lparr>pp_loading := True\<rparr>\<rparr>))) (\<lambda>_.
       need (\<lambda>s. entry i (grids s)) (\<lambda>t.
         bind (fetch (AApi (QueryTeams (paged_query (tg_paged t)))) v_teams) (\<lambda>g. act (upd_grid i (show_teams g)))))"

definition loadHistory :: "nat \<Rightarrow> nat option \<Rightarrow> unit acall" where
  "loadHistory i n =
     bind (act (upd_history i (set_page n))) (\<lambda>_. need (\<lambda>s. entry i (histories s)) (\<lambda>p.
       bind (fetch (AApi (ListBatches (paged_query p))) v_batches) (\<lambda>g. act (upd_history i (show_rows g)))))"

definition loadRows :: "nat \<Rightarrow> nat option \<Rightarrow> unit acall" where
  "loadRows i n =
     bind (act (upd_data i (apsnd (set_page n)))) (\<lambda>_. need (\<lambda>s. entry i (data_panels s)) (\<lambda>(c, p).
       bind (fetch (AApi (DataPage (dc_dataset c) (paged_query p))) v_rows)
         (\<lambda>g. act (upd_data i (apsnd (show_rows g))))))"

section \<open>Teams\<close>

definition renderPaperTeamGrid :: "unit acall" where
  "renderPaperTeamGrid = bind (fetch_both Templates v_templates Packs v_packs) (\<lambda>(ts, ps).
     steps [act (add_create ts), act (add_grid ts), look (\<lambda>s. loadTeams (length (grids s) - 1) None)])"

section \<open>Imports\<close>

definition renderBatchDetail :: "jsstr \<Rightarrow> unit acall" where
  "renderBatchDetail i = bind (fetch (AApi (BatchDetail i)) v_batch) (\<lambda>d. act (append_part (BatchPanel d)))"

definition renderImportDetail :: "jsstr \<Rightarrow> unit acall" where
  "renderImportDetail i = bind (fetch (AApi (ImportJob i)) v_job) (\<lambda>j. act (append_part (JobPanel j)))"

definition renderImports :: "section_options \<Rightarrow> unit acall" where
  "renderImports opts = steps
     [act add_import,
      if truthy (so_batch opts) then renderBatchDetail (the (so_batch opts)) else ret (),
      if truthy (so_job opts) then renderImportDetail (the (so_job opts)) else ret (),
      act add_history,
      look (\<lambda>s. loadHistory (length (histories s) - 1) None)]"

section \<open>Institution data\<close>

definition first_config :: "section_options \<Rightarrow> dataset_config" where
  "first_config opts =
     (case List.find (\<lambda>c. Some (dc_label c) = so_tab opts) institutionDatasets of Some c \<Rightarrow> c
      | None \<Rightarrow> hd institutionDatasets)"

definition loadTab :: "nat \<Rightarrow> dataset_config \<Rightarrow> unit acall" where
  "loadTab k c = bind (act (add_data k c)) (\<lambda>_. look (\<lambda>s. loadRows (length (data_panels s) - 1) None))"

definition renderInstitutionData :: "section_options \<Rightarrow> unit acall" where
  "renderInstitutionData opts = bind (act add_institution)
     (\<lambda>_. look (\<lambda>s. loadTab (length (institutions s) - 1) (first_config opts)))"

section \<open>File policies\<close>

definition loadPolicies :: "nat \<Rightarrow> unit acall" where
  "loadPolicies i = need (\<lambda>s. Option.bind (entry i (policy_panels s)) po_team) (\<lambda>t.
     bind (fetch (AApi (FilePolicies t)) v_policies) (\<lambda>fs. act (upd_policy i (show_policies fs))))"

definition renderFilePolicies :: "team_row list \<Rightarrow> unit acall" where
  "renderFilePolicies ts =
     (if ts = [] then act (append_part (Empty ''No Paper Teams yet.''))
      else bind (act (add_policies ts)) (\<lambda>_. look (\<lambda>s. loadPolicies (length (policy_panels s) - 1))))"

section \<open>Templates\<close>

definition renderAutomaticDefaults :: "unit acall" where
  "renderAutomaticDefaults = bind (fetch_both ProgrammeDefaults v_mappings GlobalFallback v_fallback)
     (\<lambda>(ms, fb). act (append_part (DefaultsPanel ms fb)))"

definition renderFrontMatterPacks :: "named_item list \<Rightarrow> unit acall" where
  "renderFrontMatterPacks ps = steps
     [act add_pack,
      act (append_part (if ps = [] then Empty ''No Front Matter Packs yet.'' else PacksPanel ps))]"

definition renderTemplates :: "template list \<Rightarrow> named_item list \<Rightarrow> unit acall" where
  "renderTemplates ts ps = steps
     [act add_archive,
      act (append_part (if ts = [] then Empty ''No templates yet.'' else TemplatesPanel ts)),
      renderFrontMatterPacks ps, renderAutomaticDefaults]"

section \<open>Showing a section\<close>

definition show_parts :: "admin_section \<Rightarrow> part list \<Rightarrow> unit acall" where
  "show_parts c ps = act (replace_content (Heading c # ps))"

text \<open>The formats of the page's locale.\<close>

record locale_formats =
  lf_num :: "nat \<Rightarrow> jsstr"
  lf_time :: "jsstr \<Rightarrow> jsstr"
  lf_instant :: "jsstr \<Rightarrow> int option"

definition renderVersions :: "team_version list \<Rightarrow> part" where
  "renderVersions vs =
     (if vs = [] then Markup [element ''p'' ''empty-copy'' ''No Team versions have been recorded yet.'']
      else VersionsPanel vs)"

fun section_body :: "locale_formats \<Rightarrow> admin_section \<Rightarrow> section_options \<Rightarrow> unit acall" where
  "section_body lf SUsers opts = bind (fetch (AApi V2Users) v_users) (\<lambda>us. show_parts SUsers [UsersPanel us])"
| "section_body lf STeams opts = bind (show_parts STeams []) (\<lambda>_. renderPaperTeamGrid)"
| "section_body lf SImports opts = bind (show_parts SImports []) (\<lambda>_. renderImports opts)"
| "section_body lf SInstitution opts = bind (show_parts SInstitution []) (\<lambda>_. renderInstitutionData opts)"
| "section_body lf STemplates opts = bind (fetch_both Templates v_templates Packs v_packs) (\<lambda>(ts, ps).
     bind (show_parts STemplates []) (\<lambda>_. renderTemplates ts ps))"
| "section_body lf SPolicies opts = bind (fetch (AApi TeamsForPolicies) v_teams) (\<lambda>g.
     bind (show_parts SPolicies []) (\<lambda>_. renderFilePolicies (pg_items g)))"
| "section_body lf SSystem opts = bind (fetch_both System v_system Overview v_overview)
     (\<lambda>(d, o'). show_parts SSystem [Markup (renderSystem d o')])"
| "section_body lf SOverview opts = bind (fetch (AApi Overview) v_overview)
     (\<lambda>d. show_parts SOverview [Markup (renderOverview (lf_num lf) d)])"
| "section_body lf SReviews opts = bind (fetch (AApi AdminReviews) v_reviews)
     (\<lambda>rs. show_parts SReviews [Markup (renderAdminReviews (lf_time lf) (lf_instant lf) rs)])"
| "section_body lf SVersions opts = bind (fetch (AApi TeamVersions) v_versions)
     (\<lambda>vs. show_parts SVersions [renderVersions vs])"
| "section_body lf SBuilds opts = bind (fetch (AApi Jobs) v_jobs) (\<lambda>js. show_parts SBuilds [BuildsPanel js])"
| "section_body lf SAudit opts = bind (fetch (AApi Audit) v_audit)
     (\<lambda>es. show_parts SAudit [Markup (renderAudit (lf_time lf) es)])"

definition showSection :: "locale_formats \<Rightarrow> admin_section \<Rightarrow> section_options \<Rightarrow> unit acall" where
  "showSection lf c opts = bind (act (start_section c))
     (\<lambda>_. attempt (section_body lf c opts) (\<lambda>e. act (show_failure c opts e)))"

end
