(* ===== verification/AdminEvents.thy ===== *)
theory AdminEvents
  imports AdminCalls
begin

text \<open>
  The listeners of the administration page, \<^verbatim>\<open>services/server/static/admin.js\<close>: what each button, form and field
  does, over the sections of \<open>AdminCalls\<close>, and \<open>admin_handler\<close>, which maps the events of the page to them.
\<close>

section \<open>Accounts\<close>

definition one_account :: "bool \<Rightarrow> jsstr \<Rightarrow> jsstr option \<Rightarrow> jsstr \<Rightarrow> provisioning" where
  "one_account queued email password role =
     \<lparr>pr_created = 1, pr_queued = (if queued then 1 else 0), pr_reused = 0, pr_attention = 0,
      pr_credentials = [\<lparr>cred_email = Some email, temporary_password = password, credential_role = Some role\<rparr>]\<rparr>"

definition createUser :: "locale_formats \<Rightarrow> jsstr \<Rightarrow> jsstr \<Rightarrow> jsstr \<Rightarrow> bool \<Rightarrow> unit acall" where
  "createUser lf email password role generated = guarded
     (bind (fetch (AApi (CreateUser email (if generated then None else Some password) role generated)) v_reset) (\<lambda>r. steps
        [if truthy (rr_password r)
         then act (showCredentialHandoff (Some (one_account (rr_queued r) (rr_email r) (rr_password r)
                (if rr_role r = ''writer'' then ''student'' else ''mentor''))) (rr_user r))
         else ret (),
         a_say ''V2 user created.'', showSection lf SUsers no_options]))"

definition patchV2Role :: "locale_formats \<Rightarrow> v2_user \<Rightarrow> jsstr \<Rightarrow> unit acall" where
  "patchV2Role lf u role = guarded (steps
     [post (AApi (SetRole (us_id u) role)),
      a_say (us_email u @ '' is now an exclusive V2 '' @ role @ ''.''),
      showSection lf SUsers no_options])"

definition toggleUser :: "locale_formats \<Rightarrow> v2_user \<Rightarrow> unit acall" where
  "toggleUser lf u = guarded (steps
     [post (AApi (SetEnabled (us_email u) (\<not> us_enabled u))), showSection lf SUsers no_options])"

definition resetPassword :: "locale_formats \<Rightarrow> v2_user \<Rightarrow> bool \<Rightarrow> unit acall" where
  "resetPassword lf u confirmed = guarded
     (if \<not> confirmed then ret ()
      else bind (fetch (AApi (ResetPassword (us_id u))) v_reset) (\<lambda>r. steps
        [act (showCredentialHandoff (Some (one_account (rr_queued r) (rr_email r) (rr_password r)
           (if us_role u = Some ''writer'' then ''student'' else ''mentor''))) (''reset-'' @ us_id u)),
         showSection lf SUsers no_options]))"

definition retryEmail :: "locale_formats \<Rightarrow> v2_user \<Rightarrow> unit acall" where
  "retryEmail lf u = guarded (steps
     [post (AApi (RetryEmail (js_or (us_delivery_id u) []))),
      a_say (''Credential email retry queued for '' @ us_email u @ ''.''), showSection lf SUsers no_options])"

text \<open>The actions of a user's row: those that \<open>renderV2Users\<close> offers.\<close>

datatype user_action = ResetAction | RetryAction | ToggleAction | DetailsAction

definition user_actions :: "v2_user \<Rightarrow> user_action list" where
  "user_actions u = (if may_reset u then [ResetAction] else []) @ (if may_retry u then [RetryAction] else [])
     @ [ToggleAction, DetailsAction]"

fun run_user_action :: "locale_formats \<Rightarrow> v2_user \<Rightarrow> bool \<Rightarrow> user_action \<Rightarrow> unit acall" where
  "run_user_action lf u confirmed ResetAction = resetPassword lf u confirmed"
| "run_user_action lf u confirmed RetryAction = retryEmail lf u"
| "run_user_action lf u confirmed ToggleAction = toggleUser lf u"
| "run_user_action lf u confirmed DetailsAction = act (openAdminDialog ''User details'' (UserDetails u))"

section \<open>The form of a team\<close>

definition searchPeople :: "jsstr \<Rightarrow> jsstr \<Rightarrow> (person list \<Rightarrow> admin \<Rightarrow> admin) \<Rightarrow> unit acall" where
  "searchPeople role q show = guarded (bind (fetch (AApi (SearchPeople role q)) v_people) (\<lambda>ps. act (show ps)))"

definition suggestion_text :: "template list \<Rightarrow> named_item list \<Rightarrow> resolved \<Rightarrow> jsstr" where
  "suggestion_text ts ps r =
     (let found = List.find (\<lambda>t. tp_id t = rs_template r) ts; front = List.find (\<lambda>p. Some (ni_id p) = rs_pack r) ps;
          why = (if rs_method r = ''TIE_FIRST_WRITER''
                 then ''Selected using Writer-order tie-break ('' @ rs_programme r @ '')''
                 else if rs_method r = ''GLOBAL_FALLBACK'' then ''Automatically selected from Global fallback''
                 else ''Automatically selected from '' @ rs_programme r)
      in ''Main template: '' @ js_or (map_option tp_name found) (rs_template r) @ middot @ why @ ''. Front Matter: ''
         @ js_or (map_option ni_name front) ''None'' @ ''.'')"

text \<open>The timer that a change of the writers sets.\<close>

definition suggestTemplate :: "nat \<Rightarrow> template list \<Rightarrow> named_item list \<Rightarrow> unit acall" where
  "suggestTemplate i ts ps = look (\<lambda>s. case entry i (create_forms s) of None \<Rightarrow> ret ()
     | Some f \<Rightarrow>
         if people_ids (tm_writers f) = [] then ret ()
         else attempt (bind (fetch (AApi (ResolveDefaults (people_ids (tm_writers f)))) v_resolved)
                 (\<lambda>r. act (upd_create i (\<lambda>f. f\<lparr>tm_suggestion := suggestion_text ts ps r\<rparr>))))
                (\<lambda>e. act (upd_create i (\<lambda>f. f\<lparr>tm_suggestion := err_message e\<rparr>))))"

definition submitTeam :: "locale_formats \<Rightarrow> nat \<Rightarrow> jsstr \<Rightarrow> jsstr \<Rightarrow> jsstr \<Rightarrow> unit acall" where
  "submitTeam lf i name template_id front = look (\<lambda>s. case entry i (create_forms s) of None \<Rightarrow> ret () | Some f \<Rightarrow>
     if \<not> leader_chosen f
     then act (showError \<lparr>err_message = ''Leader must be one of the selected Writers.'', err_status = 0\<rparr>)
     else guarded (steps
       [post (AApi (CreateTeam (create_body name template_id front f))),
        a_say (''Paper Team created with '' @ (if template_id \<noteq> [] then ''an Admin template override''
          else ''automatic template selection'') @ ''.''),
        showSection lf STeams no_options]))"

section \<open>The dialog of a team\<close>

definition openTeamDetail :: "team_row \<Rightarrow> template list \<Rightarrow> unit acall" where
  "openTeamDetail r ts = guarded
     (if tr_unresolved r then act (openAdminDialog (tr_name r) (UnresolvedTeam r))
      else let i = js_or (tr_id r) ''null''
           in bind (fetch (AApi (TeamDetail i)) v_team) (\<lambda>d. act (open_team i d ts)))"

definition with_dialog :: "nat \<Rightarrow> (team_dialog \<Rightarrow> unit acall) \<Rightarrow> unit acall" where
  "with_dialog k f = guarded (need (\<lambda>s. entry k (team_dialogs s)) f)"

definition saveTeam :: "locale_formats \<Rightarrow> nat \<Rightarrow> jsstr \<Rightarrow> unit acall" where
  "saveTeam lf k name = with_dialog k (\<lambda>g.
     if people_ids (tm_writers (dg_form g)) = [] then a_fail ''Team must retain at least one Writer.''
     else if \<not> leader_chosen (dg_form g) then a_fail ''Leader must be a selected Writer.''
     else steps
       [post (AApi (SaveTeam (dg_team g) (save_body name (dg_form g)))), a_say (''Saved '' @ name @ ''.''),
        act closeDialog, showSection lf STeams no_options])"

definition setTeamStatus :: "locale_formats \<Rightarrow> nat \<Rightarrow> jsstr \<Rightarrow> unit acall" where
  "setTeamStatus lf k st = with_dialog k (\<lambda>g. steps
     [post (AApi (SetTeamStatus (dg_team g) st)), act closeDialog, showSection lf STeams no_options])"

definition changeTemplate :: "nat \<Rightarrow> unit acall" where
  "changeTemplate k = with_dialog k (\<lambda>g.
     if dg_template g = [] then a_fail ''No alternative template is available.''
     else bind (fetch (AApi (PreviewChange (dg_team g) (dg_template g) False)) v_change)
            (\<lambda>ch. act (upd_dialog k (show_change ch))))"

text \<open>
  The button \<open>Change\<close> of a confirmation. The select is read again for every request, after what was waited for.
\<close>

definition applyChange :: "locale_formats \<Rightarrow> nat \<Rightarrow> unit acall" where
  "applyChange lf k = with_dialog k (\<lambda>g. case dg_box g of
       ConfirmBox ch n c \<Rightarrow>
         if ch_main_changed ch \<and> \<not> c then ret ()
         else bind (if ch_main_changed ch
                    then bind (fetch (AApi (PreviewChange (dg_team g) (dg_template g) True)) v_change)
                           (\<lambda>again. ret (ch_token again))
                    else ret (ch_token ch)) (\<lambda>token.
           need (\<lambda>s. entry k (team_dialogs s)) (\<lambda>g1. steps
             [post (AApi (ApplyChange (dg_team g1) (dg_template g1) token (ch_main_changed ch \<and> c))),
              a_say ''Template changed. Paper history was preserved.'',
              act closeDialog, showSection lf STeams no_options]))
     | _ \<Rightarrow> ret ())"

definition changeFrontMatter :: "locale_formats \<Rightarrow> nat \<Rightarrow> jsstr \<Rightarrow> bool \<Rightarrow> unit acall" where
  "changeFrontMatter lf k pack confirmed = with_dialog k (\<lambda>g.
     if \<not> confirmed then ret ()
     else steps
       [post (AApi (SetFrontMatter (dg_team g) (if pack = [] then None else Some pack))),
        a_say ''Front Matter changed. A safety checkpoint preserved paper history.'',
        act closeDialog, showSection lf STeams no_options])"

section \<open>The grid of teams\<close>

definition filterTeams :: "nat \<Rightarrow> (jsstr \<times> jsstr) list \<Rightarrow> unit acall" where
  "filterTeams i values = bind (act (upd_grid i (\<lambda>t. t\<lparr>tg_paged := assign_filters values (tg_paged t)\<rparr>)))
     (\<lambda>_. loadTeams i None)"

definition sizeTeams :: "nat \<Rightarrow> nat \<Rightarrow> unit acall" where
  "sizeTeams i n = bind (act (upd_grid i (\<lambda>t. t\<lparr>tg_paged := (tg_paged t)\<lparr>pp_limit := n, pp_page := 1\<rparr>\<rparr>)))
     (\<lambda>_. loadTeams i None)"

definition runBulk :: "nat \<Rightarrow> jsstr \<Rightarrow> bool \<Rightarrow> unit acall" where
  "runBulk i st confirmed = guarded (need (\<lambda>s. entry i (grids s)) (\<lambda>t.
     if tg_selected t = [] \<or> \<not> confirmed then ret ()
     else bind (fetch (AApi (BulkLifecycle (tg_selected t) st)) v_bulk) (\<lambda>r. steps
       [say_or_warn (''Bulk lifecycle: '' @ nat_str (bk_succeeded r) @ '' succeeded, '' @ nat_str (bk_failed r)
          @ '' failed.'') (0 < bk_failed r),
        loadTeams i None])))"

section \<open>Imports\<close>

text \<open>\<open>addFiles\<close>: one file after the other; what is on the page is drawn again at the end.\<close>

fun addFiles :: "nat \<Rightarrow> upload list \<Rightarrow> unit acall" where
  "addFiles i [] = act (upd_import i drawFiles)"
| "addFiles i (u # us) =
     (if \<not> importable u
      then bind (act (announce_admin (up_name u @ '' is not a supported CSV or XLSX file.'') True)) (\<lambda>_. addFiles i us)
      else need (\<lambda>s. entry i (import_forms s)) (\<lambda>f.
        if already_in u f
        then bind (act (announce_admin (up_name u @ '' is already in this batch.'') True)) (\<lambda>_. addFiles i us)
        else bind (if is_xlsx (up_name u) then ret [] else fetch (ReadFile u) v_content) (\<lambda>content.
          bind (act (upd_import i (push_entry u (detectInstitutionDataset (up_name u) content))))
            (\<lambda>_. addFiles i us))))"

definition submitBatch :: "locale_formats \<Rightarrow> nat \<Rightarrow> jsstr \<Rightarrow> unit acall" where
  "submitBatch lf i operation = guarded (need (\<lambda>s. entry i (import_forms s)) (\<lambda>f.
     bind (fetch (AApi (ValidateBatch (batch_fields operation f))) v_batch) (\<lambda>d.
       let n = ib_error_rows (bd_batch d)
       in steps
         [say_or_warn (if n \<noteq> 0 then nat_str n @ '' records need attention.'' else ''Batch is ready to apply.'') (0 < n),
          showSection lf SImports (no_options\<lparr>so_batch := Some (ib_id (bd_batch d))\<rparr>)])))"

definition action_label :: "jsstr \<Rightarrow> jsstr" where
  "action_label operation = (if operation = ''ADD'' then ''Add records'' else if operation = ''EDIT'' then ''Edit records''
     else ''Delete records'')"

definition batch_ready :: "import_batch \<Rightarrow> bool" where
  "batch_ready b \<longleftrightarrow> ib_status b = ''VALIDATED'' \<and> ib_error_rows b = 0"

text \<open>The button of a batch is disabled unless the batch is ready, that of a job unless it was validated to be applied.\<close>

definition applyBatch :: "locale_formats \<Rightarrow> import_batch \<Rightarrow> bool \<Rightarrow> unit acall" where
  "applyBatch lf b confirmed = guarded
     (if \<not> batch_ready b \<or> \<not> confirmed then ret ()
      else bind (fetch (AApi (ApplyBatch (ib_id b))) v_applied) (\<lambda>r. steps
        [a_say (action_label (ib_operation b) @ '': '' @ lf_num lf (ap_total_rows r) @ '' records processed.''),
         showSection lf SImports (no_options\<lparr>so_batch := Some (ib_id b)\<rparr>),
         if ib_operation b = ''ADD'' then act (showCredentialHandoff (ap_provisioning r) (ib_id b)) else ret ()]))"

definition job_ready :: "import_job \<Rightarrow> bool" where
  "job_ready j \<longleftrightarrow> ij_mode j \<noteq> ''VALIDATE_ONLY'' \<and> ij_status j = ''VALIDATED'' \<and> ij_error_rows j = 0"

definition applyJob :: "locale_formats \<Rightarrow> import_job \<Rightarrow> bool \<Rightarrow> unit acall" where
  "applyJob lf j confirmed = guarded
     (if \<not> job_ready j \<or> \<not> confirmed then ret ()
      else bind (fetch (AApi (ApplyJob (ij_id j))) v_applied) (\<lambda>r. steps
        [a_say (''Import applied: '' @ nat_str (ap_created r) @ '' Teams created, '' @ nat_str (ap_merged r)
           @ '' merged, '' @ nat_str (ap_unresolved r) @ '' unresolved.''),
         showSection lf SImports (no_options\<lparr>so_job := Some (ij_id j)\<rparr>),
         act (showCredentialHandoff (ap_provisioning r) (ij_id j))]))"

definition retryTeams :: "locale_formats \<Rightarrow> import_job \<Rightarrow> unit acall" where
  "retryTeams lf j = guarded
     (if ij_status j \<noteq> ''PARTIAL'' then ret ()
      else bind (fetch (AApi (RetryTeams (ij_id j))) v_bulk) (\<lambda>r. steps
        [say_or_warn (''Retry: '' @ nat_str (bk_succeeded r) @ '' succeeded, '' @ nat_str (bk_failed r)
           @ '' remain unresolved.'') (0 < bk_failed r),
         showSection lf SImports (no_options\<lparr>so_job := Some (ij_id j)\<rparr>)]))"

definition filterHistory :: "nat \<Rightarrow> (jsstr \<times> jsstr) list \<Rightarrow> unit acall" where
  "filterHistory i values = bind (act (upd_history i (assign_filters values))) (\<lambda>_. loadHistory i None)"

section \<open>Institution data\<close>

definition filterRows :: "nat \<Rightarrow> (jsstr \<times> jsstr) list \<Rightarrow> unit acall" where
  "filterRows i values = bind (act (upd_data i (apsnd (assign_filters values)))) (\<lambda>_. loadRows i None)"

text \<open>The submission of the form of one record. A record that has errors leaves the button disabled.\<close>

definition submitRecord :: "nat \<Rightarrow> (jsstr \<times> jsstr) list \<Rightarrow> bool \<Rightarrow> unit acall" where
  "submitRecord k values confirmed = look (\<lambda>s. case entry k (record_forms s) of None \<Rightarrow> ret () | Some f \<Rightarrow>
     if rf_submit_off f then ret ()
     else attempt
       (bind (fetch (AApi (ValidateRecord (dc_dataset (rf_config f)) (rf_operation f) values)) v_batch) (\<lambda>d.
          if ib_error_rows (bd_batch d) \<noteq> 0
          then act (upd_record k (\<lambda>f. f\<lparr>rf_submit_off := True,
                 rf_result := js_join ''; '' (map (\<lambda>x. js_or (bi_problem x) []) (bd_issues d))\<rparr>))
          else if \<not> confirmed then ret ()
          else bind (fetch (AApi (ApplyBatch (ib_id (bd_batch d)))) v_applied) (\<lambda>r. steps
            [act closeDialog,
             a_say (record_title (rf_config f) (rf_operation f) @ '' complete.''),
             loadRows (rf_panel f) None,
             if rf_operation f = ''ADD''
             then act (showCredentialHandoff (ap_provisioning r) (ib_id (bd_batch d))) else ret ()])))
       (\<lambda>e. act (upd_record k (\<lambda>f. f\<lparr>rf_result := err_message e\<rparr>))))"

definition loadLinks :: "nat \<Rightarrow> nat option \<Rightarrow> unit acall" where
  "loadLinks i n =
     bind (act (upd_links i (set_page n))) (\<lambda>_. need (\<lambda>s. entry i (link_panels s)) (\<lambda>p.
       bind (fetch (AApi (IdentityLinks (paged_query p))) v_links) (\<lambda>g. act (upd_links i (show_rows g)))))"

text \<open>The identity links are loaded when they are opened for the first time.\<close>

definition openLinks :: "nat \<Rightarrow> unit acall" where
  "openLinks k = look (\<lambda>s. case entry k (institutions s) of None \<Rightarrow> ret ()
     | Some t \<Rightarrow> if it_links t \<noteq> None then ret ()
         else guarded (bind (act (add_links k)) (\<lambda>_. look (\<lambda>s. loadLinks (length (link_panels s) - 1) None))))"

definition filterLinks :: "nat \<Rightarrow> (jsstr \<times> jsstr) list \<Rightarrow> unit acall" where
  "filterLinks i values = bind (act (upd_links i (assign_filters values))) (\<lambda>_. loadLinks i None)"

definition unlink :: "nat \<Rightarrow> identity_link \<Rightarrow> bool \<Rightarrow> unit acall" where
  "unlink i l confirmed = guarded
     (if \<not> confirmed then ret ()
      else steps [post (AApi (Unlink (il_type l) (il_external l))), loadLinks i None])"

definition link_role :: "jsstr \<Rightarrow> jsstr" where
  "link_role t = (if t = ''STUDENT'' then ''writer'' else if t = ''FACULTY'' then ''mentor'' else [])"

text \<open>\<open>q\<close> is the answer of the prompt.\<close>

definition manualLink :: "nat \<Rightarrow> identity_link \<Rightarrow> jsstr option \<Rightarrow> unit acall" where
  "manualLink i l q = guarded
     (if \<not> truthy q then ret ()
      else bind (fetch (AApi (SearchPeople (link_role (il_type l)) (the q))) v_people) (\<lambda>us.
        case us of [] \<Rightarrow> a_fail ''No compatible V2 account found.''
        | u # _ \<Rightarrow> steps
            [post (AApi (LinkAccount (il_type l) (il_external l) (pe_id u))), loadLinks i None]))"

section \<open>Templates and defaults\<close>

definition previewArchive :: "nat \<Rightarrow> unit acall" where
  "previewArchive i = need (\<lambda>s. entry i (archive_forms s)) (\<lambda>f. case af_file f of
       None \<Rightarrow> a_fail ''Choose a local template ZIP.''
     | Some u \<Rightarrow> bind (fetch (AApi (PreviewTemplate u)) v_preview) (\<lambda>pv. act (upd_archive i (take_preview pv))))"

definition importTemplate :: "locale_formats \<Rightarrow> nat \<Rightarrow> jsstr \<Rightarrow> jsstr \<Rightarrow> unit acall" where
  "importTemplate lf i name description = guarded
     (need (\<lambda>s. entry i (archive_forms s)) (\<lambda>f.
        bind (if af_preview f = None then previewArchive i else ret ()) (\<lambda>_.
          need (\<lambda>s. entry i (archive_forms s)) (\<lambda>f1.
            if af_main f1 = [] then a_fail ''Select the Main TeX file.''
            else need (\<lambda>s. Option.bind (entry i (archive_forms s)) af_file) (\<lambda>u.
              bind (fetch (AApi (ImportTemplate name description (af_main f1) u)) v_imported) (\<lambda>r. steps
                [a_say (''Imported '' @ imp_name r @ '': '' @ nat_str (imp_files r) @ '' immutable files'' @ middot
                   @ imp_identity r),
                 showSection lf STemplates no_options]))))))"

definition editTemplate :: "locale_formats \<Rightarrow> template \<Rightarrow> jsstr \<Rightarrow> jsstr \<Rightarrow> jsstr \<Rightarrow> unit acall" where
  "editTemplate lf t name description main = guarded (steps
     [post (AApi (EditTemplate (tp_id t) name description main)),
      a_say (''Updated '' @ name @ ''. Existing Paper Team sources were not changed.''),
      showSection lf STemplates no_options])"

definition removeTemplate :: "locale_formats \<Rightarrow> template \<Rightarrow> bool \<Rightarrow> unit acall" where
  "removeTemplate lf t confirmed = guarded
     (if \<not> confirmed then ret ()
      else steps [post (AApi (RemoveTemplate (tp_id t))), a_say (''Removed '' @ tp_name t @ ''.''),
        showSection lf STemplates no_options])"

definition validatePack :: "nat \<Rightarrow> unit acall" where
  "validatePack i = need (\<lambda>s. entry i (pack_forms s)) (\<lambda>f. case pa_file f of
       None \<Rightarrow> a_fail ''Choose a Front Matter ZIP.''
     | Some u \<Rightarrow> bind (fetch (AApi (PreviewPack u)) v_pack) (\<lambda>pv. act (upd_pack i (take_pack_preview pv))))"

definition importPack :: "locale_formats \<Rightarrow> nat \<Rightarrow> jsstr \<Rightarrow> jsstr \<Rightarrow> unit acall" where
  "importPack lf i name description = guarded
     (need (\<lambda>s. entry i (pack_forms s)) (\<lambda>f.
        bind (if pa_preview f = None then validatePack i else ret ()) (\<lambda>_.
          need (\<lambda>s. Option.bind (entry i (pack_forms s)) pa_file) (\<lambda>u.
            bind (fetch (AApi (ImportPack name description u)) v_imported) (\<lambda>r. steps
              [a_say (''Imported '' @ imp_name r @ '': immutable Front Matter Pack '' @ imp_identity r @ ''.''),
               showSection lf STemplates no_options])))))"

definition viewPack :: "named_item \<Rightarrow> unit acall" where
  "viewPack p = guarded (bind (fetch (AApi (ViewPack (ni_id p))) v_pack_detail)
     (\<lambda>(n, d). act (openAdminDialog n (PackDetails d))))"

definition editPack :: "locale_formats \<Rightarrow> named_item \<Rightarrow> jsstr \<Rightarrow> jsstr \<Rightarrow> unit acall" where
  "editPack lf p name description = guarded (steps
     [post (AApi (EditPack (ni_id p) name description)),
      a_say (''Updated '' @ name @ ''. Pack content was not changed.''), showSection lf STemplates no_options])"

definition removePack :: "locale_formats \<Rightarrow> named_item \<Rightarrow> bool \<Rightarrow> unit acall" where
  "removePack lf p confirmed = guarded
     (if \<not> confirmed then ret ()
      else steps [post (AApi (RemovePack (ni_id p))), showSection lf STemplates no_options])"

definition saveFallback :: "locale_formats \<Rightarrow> jsstr \<Rightarrow> unit acall" where
  "saveFallback lf t = guarded
     (if t = [] then a_fail ''Select a template.''
      else steps [post (AApi (SaveFallback t)), a_say ''Global Main template fallback saved for future Teams.'',
        showSection lf STemplates no_options])"

definition opt_value :: "jsstr \<Rightarrow> jsstr option" where
  "opt_value v = (if v = [] then None else Some v)"

definition saveGlobalFront :: "locale_formats \<Rightarrow> jsstr \<Rightarrow> unit acall" where
  "saveGlobalFront lf p = guarded (steps
     [post (AApi (SaveGlobalFront (opt_value p))), a_say ''Global Front Matter fallback saved for future Teams.'',
      showSection lf STemplates no_options])"

text \<open>The values of the two selects of a programme's row; the first has an option for no default, whose value is empty.\<close>

definition saveProgramme :: "locale_formats \<Rightarrow> default_mapping \<Rightarrow> jsstr \<Rightarrow> jsstr \<Rightarrow> unit acall" where
  "saveProgramme lf m t p = guarded (steps
     [if t \<noteq> [] then post (AApi (SaveProgramme (dm_programme m) t)) else ret (),
      post (AApi (SaveProgrammeFront (dm_programme m) (opt_value p))),
      a_say (dm_programme m @ '' defaults saved for future Teams.''), showSection lf STemplates no_options])"

definition removeMapping :: "locale_formats \<Rightarrow> default_mapping \<Rightarrow> bool \<Rightarrow> unit acall" where
  "removeMapping lf m confirmed = guarded
     (if \<not> truthy (dm_template m) \<and> \<not> truthy (dm_pack m) \<or> \<not> confirmed then ret ()
      else steps [post (AApi (RemoveMapping (dm_programme m))), showSection lf STemplates no_options])"

section \<open>File policies\<close>

definition choosePolicyTeam :: "nat \<Rightarrow> jsstr \<Rightarrow> unit acall" where
  "choosePolicyTeam i t = guarded (bind (act (upd_policy i (\<lambda>p. p\<lparr>po_team := Some t\<rparr>))) (\<lambda>_. loadPolicies i))"

text \<open>The select of a file's row: the team of the request is the one chosen at the time.\<close>

definition setPolicy :: "nat \<Rightarrow> file_policy \<Rightarrow> jsstr \<Rightarrow> unit acall" where
  "setPolicy i f policy = guarded (need (\<lambda>s. Option.bind (entry i (policy_panels s)) po_team) (\<lambda>t. steps
     [post (AApi (SetPolicy t (fp_file f) policy)),
      a_say (''Policy updated for '' @ fp_path f @ ''. Active rooms were revalidated.'')]))"

section \<open>Events\<close>

datatype (plugins only: size) admin_event =
    ShowSection admin_section section_options | CloseDialog
  | SubmitUser jsstr jsstr jsstr bool | ChooseRole v2_user jsstr | UserAction v2_user bool user_action
  | TeamFormEvent nat team_event | SearchWriters nat jsstr | SearchMentors nat jsstr
  | SuggestDue nat "template list" "named_item list" | SubmitCreateTeam nat jsstr jsstr jsstr
  | OpenTeam team_row "template list" | EditFormEvent nat team_event | SearchEditWriters nat jsstr
  | SearchEditMentors nat jsstr | SubmitSaveTeam nat jsstr | SetStatus nat jsstr | ChooseTemplate nat jsstr
  | ClickChangeTemplate nat | TickMain nat bool | CancelChange nat | ClickApplyChange nat
  | ClickFrontMatter nat jsstr bool
  | CheckRow nat jsstr bool | FilterTeams nat "(jsstr \<times> jsstr) list" | SizeTeams nat nat | PageTeams nat nat
  | ClickBulk nat jsstr bool
  | AddFiles nat "upload list" | RemoveFile nat nat | ChooseDataset nat nat jsstr | SubmitBatch nat jsstr
  | ClickApplyBatch import_batch bool | ClickApplyJob import_job bool | ClickRetryTeams import_job
  | FilterHistory nat "(jsstr \<times> jsstr) list" | PageHistory nat nat
  | ClickTab nat dataset_config | FilterRows nat "(jsstr \<times> jsstr) list" | PageRows nat nat
  | OpenRecord dataset_config jsstr row_values nat | SubmitRecord nat "(jsstr \<times> jsstr) list" bool
  | OpenLinks nat | FilterLinks nat "(jsstr \<times> jsstr) list" | PageLinks nat nat | ClickUnlink nat identity_link bool
  | ClickLink nat identity_link "jsstr option"
  | ArchiveChosen nat "upload option" | ClickValidate nat | MainChosen nat jsstr | SubmitTemplate nat jsstr jsstr
  | ClickEditTemplate template jsstr jsstr jsstr | ClickRemoveTemplate template bool
  | PackChosen nat "upload option" | ClickValidatePack nat | SubmitPack nat jsstr jsstr | ClickViewPack named_item
  | ClickEditPack named_item jsstr jsstr | ClickRemovePack named_item bool
  | ClickFallback jsstr | ClickGlobalFront jsstr | ClickSaveProgramme default_mapping jsstr jsstr
  | ClickRemoveMapping default_mapping bool
  | PolicyTeam nat jsstr | ChoosePolicy nat file_policy jsstr

primrec admin_handler :: "locale_formats \<Rightarrow> admin_event \<Rightarrow> unit acall" where
  "admin_handler lf (ShowSection c opts) = showSection lf c opts"
| "admin_handler lf CloseDialog = act closeDialog"
| "admin_handler lf (SubmitUser e p r g) = createUser lf e p r g"
| "admin_handler lf (ChooseRole u r) = patchV2Role lf u r"
| "admin_handler lf (UserAction u c a) = run_user_action lf u c a"
| "admin_handler lf (TeamFormEvent i e) = act (upd_create i (team_step e))"
| "admin_handler lf (SearchWriters i q) = searchPeople ''writer'' q (\<lambda>ps. upd_create i (team_step (FoundWriters ps)))"
| "admin_handler lf (SearchMentors i q) = searchPeople ''mentor'' q (\<lambda>ps. upd_create i (team_step (FoundMentors ps)))"
| "admin_handler lf (SuggestDue i ts ps) = suggestTemplate i ts ps"
| "admin_handler lf (SubmitCreateTeam i n t f) = submitTeam lf i n t f"
| "admin_handler lf (OpenTeam r ts) = openTeamDetail r ts"
| "admin_handler lf (EditFormEvent k e) = act (upd_dialog k (\<lambda>g. g\<lparr>dg_form := team_step e (dg_form g)\<rparr>))"
| "admin_handler lf (SearchEditWriters k q) = searchPeople ''writer'' q
     (\<lambda>ps. upd_dialog k (\<lambda>g. g\<lparr>dg_form := team_step (FoundWriters ps) (dg_form g)\<rparr>))"
| "admin_handler lf (SearchEditMentors k q) = searchPeople ''mentor'' q
     (\<lambda>ps. upd_dialog k (\<lambda>g. g\<lparr>dg_form := team_step (FoundMentors ps) (dg_form g)\<rparr>))"
| "admin_handler lf (SubmitSaveTeam k n) = saveTeam lf k n"
| "admin_handler lf (SetStatus k st) = setTeamStatus lf k st"
| "admin_handler lf (ChooseTemplate k t) = act (upd_dialog k (choose_template t))"
| "admin_handler lf (ClickChangeTemplate k) = changeTemplate k"
| "admin_handler lf (TickMain k b) = act (upd_dialog k (tick_main b))"
| "admin_handler lf (CancelChange k) = act (upd_dialog k (\<lambda>g. g\<lparr>dg_box := NoBox\<rparr>))"
| "admin_handler lf (ClickApplyChange k) = applyChange lf k"
| "admin_handler lf (ClickFrontMatter k p c) = changeFrontMatter lf k p c"
| "admin_handler lf (CheckRow i t b) = act (upd_grid i (check_row t b))"
| "admin_handler lf (FilterTeams i vs) = filterTeams i vs"
| "admin_handler lf (SizeTeams i n) = sizeTeams i n"
| "admin_handler lf (PageTeams i n) = guarded (loadTeams i (Some n))"
| "admin_handler lf (ClickBulk i st c) = runBulk i st c"
| "admin_handler lf (AddFiles i us) = guarded (addFiles i us)"
| "admin_handler lf (RemoveFile i n) = act (upd_import i (remove_entry n))"
| "admin_handler lf (ChooseDataset i n d) = act (upd_import i (choose_dataset n d))"
| "admin_handler lf (SubmitBatch i oper) = submitBatch lf i oper"
| "admin_handler lf (ClickApplyBatch b c) = applyBatch lf b c"
| "admin_handler lf (ClickApplyJob j c) = applyJob lf j c"
| "admin_handler lf (ClickRetryTeams j) = retryTeams lf j"
| "admin_handler lf (FilterHistory i vs) = filterHistory i vs"
| "admin_handler lf (PageHistory i n) = guarded (loadHistory i (Some n))"
| "admin_handler lf (ClickTab k c) = guarded (loadTab k c)"
| "admin_handler lf (FilterRows i vs) = filterRows i vs"
| "admin_handler lf (PageRows i n) = guarded (loadRows i (Some n))"
| "admin_handler lf (OpenRecord c oper item k) = act (open_record c oper item k)"
| "admin_handler lf (SubmitRecord k vs c) = submitRecord k vs c"
| "admin_handler lf (OpenLinks k) = openLinks k"
| "admin_handler lf (FilterLinks i vs) = filterLinks i vs"
| "admin_handler lf (PageLinks i n) = guarded (loadLinks i (Some n))"
| "admin_handler lf (ClickUnlink i l c) = unlink i l c"
| "admin_handler lf (ClickLink i l q) = manualLink i l q"
| "admin_handler lf (ArchiveChosen i u) = act (upd_archive i (choose_archive u))"
| "admin_handler lf (ClickValidate i) = guarded (previewArchive i)"
| "admin_handler lf (MainChosen i m) = act (upd_archive i (choose_main m))"
| "admin_handler lf (SubmitTemplate i n d) = importTemplate lf i n d"
| "admin_handler lf (ClickEditTemplate t n d m) = editTemplate lf t n d m"
| "admin_handler lf (ClickRemoveTemplate t c) = removeTemplate lf t c"
| "admin_handler lf (PackChosen i u) = act (upd_pack i (choose_pack u))"
| "admin_handler lf (ClickValidatePack i) = guarded (validatePack i)"
| "admin_handler lf (SubmitPack i n d) = importPack lf i n d"
| "admin_handler lf (ClickViewPack p) = viewPack p"
| "admin_handler lf (ClickEditPack p n d) = editPack lf p n d"
| "admin_handler lf (ClickRemovePack p c) = removePack lf p c"
| "admin_handler lf (ClickFallback t) = saveFallback lf t"
| "admin_handler lf (ClickGlobalFront p) = saveGlobalFront lf p"
| "admin_handler lf (ClickSaveProgramme m t p) = saveProgramme lf m t p"
| "admin_handler lf (ClickRemoveMapping m c) = removeMapping lf m c"
| "admin_handler lf (PolicyTeam i t) = choosePolicyTeam i t"
| "admin_handler lf (ChoosePolicy i f p) = setPolicy i f p"

definition admin_run :: "locale_formats \<Rightarrow> admin_event \<Rightarrow> (admin, areq, aanswer) prog" where
  "admin_run lf e = spawn (\<lambda>_. VUnit) (admin_handler lf e)"

end
