(* ===== verification/AdminLemmas.thy ===== *)
theory AdminLemmas
  imports AdminEvents AsyncLogic
begin

text \<open>
  What the calls of the administration page share: the elementary changes that a run of the page consists of, as a
  step relation on its state; that every call moves the state by such steps at most; an invariant of the steps; how
  many answers a call takes; and which calls cannot reject.
\<close>

section \<open>Elementary changes\<close>

text \<open>Parts and dialogs that refer to no store.\<close>

definition plain_part :: "part \<Rightarrow> bool" where
  "plain_part p = (case p of CreateTeamForm k ts \<Rightarrow> False | TeamGrid k ts \<Rightarrow> False | ImportForm k \<Rightarrow> False
     | HistoryPanel k \<Rightarrow> False | TemplateForm k \<Rightarrow> False | PackForm k \<Rightarrow> False | DataPanel k \<Rightarrow> False
     | PolicyPart k \<Rightarrow> False | _ \<Rightarrow> True)"

definition plain_body :: "dialog_body \<Rightarrow> bool" where
  "plain_body b = (case b of TeamDialog k \<Rightarrow> False | RecordDialog k \<Rightarrow> False | _ \<Rightarrow> True)"

datatype grid_event = FiltersSet "(jsstr \<times> jsstr) list" | SizeSet nat | LoadBegins "nat option"
  | TeamsCome "team_row page_of" | RowChecked jsstr bool

fun grid_step :: "grid_event \<Rightarrow> team_grid \<Rightarrow> team_grid" where
  "grid_step (FiltersSet vs) t = t\<lparr>tg_paged := assign_filters vs (tg_paged t)\<rparr>"
| "grid_step (SizeSet n) t = t\<lparr>tg_paged := (tg_paged t)\<lparr>pp_limit := n, pp_page := 1\<rparr>\<rparr>"
| "grid_step (LoadBegins n) t = t\<lparr>tg_paged := (set_page n (tg_paged t))\<lparr>pp_loading := True\<rparr>\<rparr>"
| "grid_step (TeamsCome g) t = show_teams g t"
| "grid_step (RowChecked i b) t = check_row i b t"

datatype import_event = FilePushed upload detected | FilesDrawn | FileRemoved nat | DatasetChosen nat jsstr

fun import_step :: "import_event \<Rightarrow> import_form \<Rightarrow> import_form" where
  "import_step (FilePushed u d) f = push_entry u d f"
| "import_step FilesDrawn f = drawFiles f"
| "import_step (FileRemoved n) f = remove_entry n f"
| "import_step (DatasetChosen n d) f = choose_dataset n d f"

datatype dialog_event = FormChanged team_event | TemplateChosen jsstr | ChangePreviewed template_change
  | MainTicked bool | ChangeCancelled

fun dialog_step :: "dialog_event \<Rightarrow> team_dialog \<Rightarrow> team_dialog" where
  "dialog_step (FormChanged e) g = g\<lparr>dg_form := team_step e (dg_form g)\<rparr>"
| "dialog_step (TemplateChosen t) g = choose_template t g"
| "dialog_step (ChangePreviewed ch) g = show_change ch g"
| "dialog_step (MainTicked b) g = tick_main b g"
| "dialog_step ChangeCancelled g = g\<lparr>dg_box := NoBox\<rparr>"

inductive admin_step :: "admin \<Rightarrow> admin \<Rightarrow> bool" where
  a_says: "admin_step s (announce_admin m b s)"
| a_starts: "admin_step s (start_section c s)"
| a_shows: "list_all plain_part ps \<Longrightarrow> admin_step s (replace_content ps s)"
| a_appends: "plain_part p \<Longrightarrow> admin_step s (append_part p s)"
| a_opens: "plain_body b \<Longrightarrow> admin_step s (openAdminDialog t b s)"
| a_closes: "admin_step s (closeDialog s)"
| a_downloads: "admin_step s (downloadCredentials cs i s)"
| a_add_create: "admin_step s (add_create ts s)"
| a_create: "admin_step s (upd_create i (team_step e) s)"
| a_suggest: "admin_step s (upd_create i (\<lambda>f. f\<lparr>tm_suggestion := m\<rparr>) s)"
| a_add_grid: "admin_step s (add_grid ts s)"
| a_grid: "admin_step s (upd_grid i (grid_step ge) s)"
| a_add_import: "admin_step s (add_import s)"
| a_import: "admin_step s (upd_import i (import_step ie) s)"
| a_open_team: "admin_step s (open_team t d ts s)"
| a_dialog: "admin_step s (upd_dialog i (dialog_step de) s)"
| a_add_history: "admin_step s (add_history s)"
| a_history: "admin_step s (upd_history i hf s)"
| a_add_archive: "admin_step s (add_archive s)"
| a_archive: "admin_step s (upd_archive i (archive_step ae) s)"
| a_add_institution: "admin_step s (add_institution s)"
| a_add_data: "admin_step s (add_data i c s)"
| a_data: "admin_step s (upd_data i (apsnd df) s)"
| a_add_links: "admin_step s (add_links i s)"
| a_links: "admin_step s (upd_links i lf s)"
| a_add_policies: "admin_step s (add_policies trs s)"
| a_policies: "admin_step s (upd_policy i (show_policies fps) s)"
| a_policy_team: "admin_step s (upd_policy i (\<lambda>p. p\<lparr>po_team := Some t\<rparr>) s)"
| a_add_pack: "admin_step s (add_pack s)"
| a_pack: "admin_step s (upd_pack i pf s)"
| a_open_record: "admin_step s (open_record c oper item k s)"
| a_record: "admin_step s (upd_record i rf s)"

abbreviation admin_steps :: "admin \<Rightarrow> admin \<Rightarrow> bool" where
  "admin_steps \<equiv> admin_step\<^sup>*\<^sup>*"

section \<open>Calls move the state by such steps\<close>

interpretation asteps: rely admin_steps
  by unfold_locales simp_all

lemma moves_step: "(\<And>s. admin_step s (f s)) \<Longrightarrow> moves admin_steps (act f)"
  by (rule asteps.moves_act) blast

lemmas a_moves = moves_ret moves_throw moves_bind moves_attempt moves_look moves_steps moves_if moves_option moves_prod
  moves_need asteps.moves_request asteps.moves_fetch asteps.moves_post

lemmas step_moves = admin_step.intros [THEN moves_step]

text \<open>The elementary changes as the calls write them.\<close>

lemma event_functions:
  "grid_step (FiltersSet vs) = (\<lambda>t. t\<lparr>tg_paged := assign_filters vs (tg_paged t)\<rparr>)"
  "grid_step (SizeSet n) = (\<lambda>t. t\<lparr>tg_paged := (tg_paged t)\<lparr>pp_limit := n, pp_page := 1\<rparr>\<rparr>)"
  "grid_step (LoadBegins m) = (\<lambda>t. t\<lparr>tg_paged := (set_page m (tg_paged t))\<lparr>pp_loading := True\<rparr>\<rparr>)"
  "grid_step (TeamsCome g) = show_teams g" "grid_step (RowChecked i b) = check_row i b"
  "import_step (FilePushed u d) = push_entry u d" "import_step FilesDrawn = drawFiles"
  "import_step (FileRemoved n) = remove_entry n" "import_step (DatasetChosen n i) = choose_dataset n i"
  "dialog_step (FormChanged e) = (\<lambda>g. g\<lparr>dg_form := team_step e (dg_form g)\<rparr>)"
  "dialog_step (TemplateChosen i) = choose_template i" "dialog_step (ChangePreviewed ch) = show_change ch"
  "dialog_step (MainTicked b) = tick_main b" "dialog_step ChangeCancelled = (\<lambda>g. g\<lparr>dg_box := NoBox\<rparr>)"
  "archive_step (ChooseArchive u') = choose_archive u'" "archive_step (Previewed pv) = take_preview pv"
  "archive_step (ChooseMain i) = choose_main i"
  by (rule ext; simp)+

lemma grid_moves:
  "moves admin_steps (act (upd_grid i (\<lambda>t. t\<lparr>tg_paged := assign_filters vs (tg_paged t)\<rparr>)))"
  "moves admin_steps (act (upd_grid i (\<lambda>t. t\<lparr>tg_paged := (tg_paged t)\<lparr>pp_limit := n, pp_page := 1\<rparr>\<rparr>)))"
  "moves admin_steps (act (upd_grid i (\<lambda>t. t\<lparr>tg_paged := (set_page m (tg_paged t))\<lparr>pp_loading := True\<rparr>\<rparr>)))"
  "moves admin_steps (act (upd_grid i (show_teams g)))" "moves admin_steps (act (upd_grid i (check_row t b)))"
  unfolding event_functions(1-5) [symmetric] by (rule step_moves)+

lemma import_moves:
  "moves admin_steps (act (upd_import i (push_entry u d)))" "moves admin_steps (act (upd_import i drawFiles))"
  "moves admin_steps (act (upd_import i (remove_entry n)))" "moves admin_steps (act (upd_import i (choose_dataset n t)))"
  unfolding event_functions(6-9) [symmetric] by (rule step_moves)+

lemma dialog_moves:
  "moves admin_steps (act (upd_dialog i (\<lambda>g. g\<lparr>dg_form := team_step e (dg_form g)\<rparr>)))"
  "moves admin_steps (act (upd_dialog i (choose_template t)))" "moves admin_steps (act (upd_dialog i (show_change ch)))"
  "moves admin_steps (act (upd_dialog i (tick_main b)))"
  "moves admin_steps (act (upd_dialog i (\<lambda>g. g\<lparr>dg_box := NoBox\<rparr>)))"
  unfolding event_functions(10-14) [symmetric] by (rule step_moves)+

lemma archive_moves:
  "moves admin_steps (act (upd_archive i (choose_archive u)))" "moves admin_steps (act (upd_archive i (take_preview pv)))"
  "moves admin_steps (act (upd_archive i (choose_main m)))"
  unfolding event_functions(15-17) [symmetric] by (rule step_moves)+

lemma handoff_moves: "moves admin_steps (act (showCredentialHandoff p i))"
proof (rule asteps.moves_act)
  fix s
  have "admin_step s (openAdminDialog ''Account setup'' (Handoff r i) s)" for r
    by (rule a_opens) (simp add: plain_body_def)
  then show "admin_steps s (showCredentialHandoff p i s)"
    unfolding showCredentialHandoff_def Let_def
    by (auto split: option.split intro: a_downloads rtranclp.rtrancl_into_rtrancl)
qed

lemma showError_moves: "moves admin_steps (act (showError e))"
  unfolding showError_def by (rule step_moves)

lemma failure_moves: "moves admin_steps (act (show_failure c opts e))"
  unfolding show_failure_def by (rule step_moves) (simp add: plain_part_def)

lemma say_moves: "moves admin_steps (a_say m)" "moves admin_steps (say_or_warn m b)" "moves admin_steps (a_fail m)"
  unfolding a_say_def say_or_warn_def a_fail_def by (intro a_moves step_moves)+

lemma guarded_moves: "moves admin_steps m \<Longrightarrow> moves admin_steps (guarded m)"
  unfolding guarded_def by (intro a_moves showError_moves)

lemma fetch_both_moves: "moves admin_steps (fetch_both p f q g)"
  unfolding fetch_both_def
  by (intro a_moves asteps.moves_promise_all)
    (auto intro: asteps.segment_spawn asteps.moves_request a_moves split: list.split option.split)

lemmas all_moves = a_moves grid_moves import_moves dialog_moves archive_moves handoff_moves showError_moves
  failure_moves say_moves guarded_moves fetch_both_moves

text \<open>The sections.\<close>

lemma moves_loads:
  "moves admin_steps (loadTeams i n)" "moves admin_steps (loadHistory i n)" "moves admin_steps (loadRows i n)"
  "moves admin_steps (loadLinks i n)" "moves admin_steps (loadPolicies i)"
  unfolding loadTeams_def loadHistory_def loadRows_def loadLinks_def loadPolicies_def
  by (intro all_moves step_moves)+

lemma moves_panels:
  "moves admin_steps renderPaperTeamGrid" "moves admin_steps (renderBatchDetail b)"
  "moves admin_steps (renderImportDetail b)" "moves admin_steps (loadTab k c)" "moves admin_steps renderAutomaticDefaults"
  unfolding renderPaperTeamGrid_def renderBatchDetail_def renderImportDetail_def loadTab_def renderAutomaticDefaults_def
  by (intro all_moves moves_loads step_moves; simp add: plain_part_def)+

lemma moves_packs: "moves admin_steps (renderFrontMatterPacks ps)"
  unfolding renderFrontMatterPacks_def by (intro all_moves step_moves) (simp add: plain_part_def)

lemma moves_renders:
  "moves admin_steps (renderImports opts)" "moves admin_steps (renderInstitutionData opts)"
  "moves admin_steps (renderFilePolicies ts)" "moves admin_steps (renderTemplates tps ps)"
  unfolding renderImports_def renderInstitutionData_def renderFilePolicies_def renderTemplates_def
  by (intro all_moves moves_loads moves_panels moves_packs step_moves; simp add: plain_part_def)+

lemma moves_show_parts: "list_all plain_part ps \<Longrightarrow> moves admin_steps (show_parts c ps)"
  unfolding show_parts_def by (rule step_moves) (simp add: plain_part_def)

lemma moves_section_body: "moves admin_steps (section_body lf c opts)"
  by (cases c; simp only: section_body.simps renderVersions_def;
    intro all_moves moves_show_parts moves_panels moves_renders; simp add: plain_part_def)

lemma moves_showSection: "moves admin_steps (showSection lf c opts)"
  unfolding showSection_def by (intro all_moves moves_section_body step_moves)

text \<open>The listeners.\<close>

lemmas part_moves = all_moves moves_loads moves_showSection step_moves

lemma moves_accounts:
  "moves admin_steps (createUser lf e p r b)" "moves admin_steps (patchV2Role lf u r)"
  unfolding createUser_def patchV2Role_def by (intro part_moves)+

lemma moves_user_action: "moves admin_steps (run_user_action lf u b a)"
  by (cases a; simp only: run_user_action.simps resetPassword_def retryEmail_def toggleUser_def;
    intro part_moves; simp add: plain_body_def)

lemma moves_team_forms:
  "moves admin_steps (suggestTemplate i ts ps)" "moves admin_steps (submitTeam lf i n t f)"
  "moves admin_steps (searchPeople r q (\<lambda>ps. upd_create i (team_step (e ps))))"
  "moves admin_steps (searchPeople r q (\<lambda>ps. upd_dialog i (\<lambda>g. g\<lparr>dg_form := team_step (e ps) (dg_form g)\<rparr>)))"
  unfolding suggestTemplate_def submitTeam_def searchPeople_def by (intro part_moves)+

lemma moves_team_dialog:
  "moves admin_steps (openTeamDetail r ts)" "moves admin_steps (saveTeam lf i n)" "moves admin_steps (setTeamStatus lf i n)"
  "moves admin_steps (changeTemplate i)" "moves admin_steps (changeFrontMatter lf i p b)"
  unfolding openTeamDetail_def saveTeam_def setTeamStatus_def changeTemplate_def changeFrontMatter_def with_dialog_def Let_def
  by (intro part_moves; simp add: plain_body_def)+

lemma moves_applyChange: "moves admin_steps (applyChange lf i)"
proof -
  have box: "moves admin_steps (case dg_box g of NoBox \<Rightarrow> ret () | Conflicts cs \<Rightarrow> ret () | ConfirmBox ch n c \<Rightarrow> m ch c)"
    if "\<And>ch c. moves admin_steps (m ch c)" for g and m :: "template_change \<Rightarrow> bool \<Rightarrow> unit acall"
    using that by (cases "dg_box g") (auto intro: a_moves)
  then show ?thesis unfolding applyChange_def with_dialog_def by (intro part_moves box)
qed

lemma moves_grid_handlers:
  "moves admin_steps (filterTeams i vs)" "moves admin_steps (sizeTeams i n)" "moves admin_steps (runBulk i t b)"
  unfolding filterTeams_def sizeTeams_def runBulk_def by (intro part_moves)+

lemma moves_addFiles: "moves admin_steps (addFiles i us)"
  by (induction us) (simp_all only: addFiles.simps, (intro part_moves; assumption)+)

lemma moves_imports:
  "moves admin_steps (submitBatch lf i oper)" "moves admin_steps (applyBatch lf b c)" "moves admin_steps (applyJob lf j c)"
  "moves admin_steps (retryTeams lf j)" "moves admin_steps (filterHistory i vs)"
  unfolding submitBatch_def applyBatch_def applyJob_def retryTeams_def filterHistory_def Let_def
  by (intro part_moves)+

lemma moves_institution:
  "moves admin_steps (filterRows i vs)" "moves admin_steps (submitRecord i vs c)" "moves admin_steps (openLinks i)"
  "moves admin_steps (filterLinks i vs)" "moves admin_steps (unlink i l c)"
  unfolding filterRows_def submitRecord_def openLinks_def filterLinks_def unlink_def by (intro part_moves)+

lemma moves_manualLink: "moves admin_steps (manualLink i l q)"
proof -
  have found: "moves admin_steps (case us of [] \<Rightarrow> a_fail e | u # _ \<Rightarrow> m u)"
    if "\<And>u. moves admin_steps (m u)" for us e and m :: "person \<Rightarrow> unit acall"
    using that by (cases us) (auto intro: say_moves)
  then show ?thesis unfolding manualLink_def by (intro part_moves found)
qed

lemma moves_archives:
  "moves admin_steps (previewArchive i)" "moves admin_steps (validatePack i)" "moves admin_steps (editTemplate lf t n d m)"
  "moves admin_steps (removeTemplate lf t c)" "moves admin_steps (editPack lf p n d)" "moves admin_steps (removePack lf p c)"
  "moves admin_steps (viewPack p)"
  unfolding previewArchive_def validatePack_def editTemplate_def removeTemplate_def editPack_def removePack_def viewPack_def
  by (intro part_moves; simp add: plain_body_def)+

lemma moves_submit_archives:
  "moves admin_steps (importTemplate lf i n d)" "moves admin_steps (importPack lf i n d)"
  unfolding importTemplate_def importPack_def by (intro part_moves moves_archives)+

lemma moves_defaults:
  "moves admin_steps (saveFallback lf t)" "moves admin_steps (saveGlobalFront lf t)"
  "moves admin_steps (saveProgramme lf m t t')" "moves admin_steps (removeMapping lf m c)"
  "moves admin_steps (choosePolicyTeam i t)" "moves admin_steps (setPolicy i f t)"
  unfolding saveFallback_def saveGlobalFront_def saveProgramme_def removeMapping_def choosePolicyTeam_def setPolicy_def
  by (intro part_moves)+

theorem admin_handler_steps: "moves admin_steps (admin_handler lf e)"
  by (cases e; simp only: admin_handler.simps;
    intro moves_showSection moves_accounts moves_user_action moves_team_forms moves_team_dialog moves_applyChange moves_grid_handlers moves_addFiles
      moves_imports moves_institution moves_manualLink moves_archives moves_submit_archives moves_defaults guarded_moves
      moves_loads moves_panels grid_moves import_moves dialog_moves archive_moves step_moves)

lemma admin_page_run:
  assumes "page_reach (range (admin_run lf)) s0 pg"
  shows "admin_steps s0 (fst pg)"
proof -
  have "segment admin_steps p" if "p \<in> range (admin_run lf)" for p
    using that unfolding admin_run_def by (auto intro: asteps.segment_spawn admin_handler_steps)
  with asteps.page_moves [OF assms] show ?thesis by blast
qed

section \<open>An invariant\<close>

text \<open>What is in the content and in the dialog refers to entries that exist.\<close>

fun part_exists :: "admin \<Rightarrow> part \<Rightarrow> bool" where
  "part_exists s (CreateTeamForm k ts) = (k < length (create_forms s))"
| "part_exists s (TeamGrid k ts) = (k < length (grids s))"
| "part_exists s (ImportForm k) = (k < length (import_forms s))"
| "part_exists s (HistoryPanel k) = (k < length (histories s))"
| "part_exists s (TemplateForm k) = (k < length (archive_forms s))"
| "part_exists s (PackForm k) = (k < length (pack_forms s))"
| "part_exists s (DataPanel k) = (k < length (institutions s))"
| "part_exists s (PolicyPart k) = (k < length (policy_panels s))"
| "part_exists s p = True"

fun body_exists :: "admin \<Rightarrow> dialog_body \<Rightarrow> bool" where
  "body_exists s (TeamDialog k) = (k < length (team_dialogs s))"
| "body_exists s (RecordDialog k) = (k < length (record_forms s))"
| "body_exists s b = True"

text \<open>
  A grid that is not loading has selected only teams of the page it shows. A submission of files is possible only
  when the files on the page are labelled. A template change can be confirmed only when no file is in its way.
\<close>

definition grid_ok :: "team_grid \<Rightarrow> bool" where
  "grid_ok t \<longleftrightarrow> distinct (tg_selected t) \<and>
     (\<not> pp_loading (tg_paged t) \<longrightarrow>
        (case pp_shown (tg_paged t) of None \<Rightarrow> tg_selected t = [] | Some g \<Rightarrow> set (tg_selected t) \<subseteq> row_ids g))"

definition import_ok :: "import_form \<Rightarrow> bool" where
  "import_ok f \<longleftrightarrow> im_drawn f \<le> length (im_entries f) \<and>
     im_submit_off f = (im_drawn f = 0 \<or> list_ex unlabelled (take (im_drawn f) (im_entries f)))"

definition box_ok :: "team_dialog \<Rightarrow> bool" where
  "box_ok g = (case dg_box g of ConfirmBox ch n c \<Rightarrow> file_conflicts ch = [] \<and> (c \<longrightarrow> ch_main_changed ch) | _ \<Rightarrow> True)"

definition policies_ok :: "policy_panel \<Rightarrow> bool" where
  "policies_ok p = list_all (\<lambda>f. fp_policy f \<noteq> ''HIDDEN_SYSTEM'') (po_files p)"

definition admin_ok :: "admin \<Rightarrow> bool" where
  "admin_ok s \<longleftrightarrow> list_all (part_exists s) (content s) \<and> (case dialog s of None \<Rightarrow> True | Some (t, b) \<Rightarrow> body_exists s b) \<and>
     list_all team_ok (create_forms s) \<and> list_all grid_ok (grids s) \<and> list_all import_ok (import_forms s) \<and>
     list_all box_ok (team_dialogs s) \<and> list_all archive_ok (archive_forms s) \<and> list_all policies_ok (policy_panels s)"

lemma list_all_upd_nth: "list_all P xs \<Longrightarrow> (\<And>x. P x \<Longrightarrow> P (f x)) \<Longrightarrow> list_all P (upd_nth i f xs)"
  using set_update_subset_insert [of xs i "f (xs ! i)"] by (auto simp: upd_nth_def list_all_iff)

lemma grid_ok_step: "grid_ok t \<Longrightarrow> grid_ok (grid_step ge t)"
proof (cases ge)
  case (RowChecked i b)
  assume "grid_ok t"
  with RowChecked show ?thesis
    by (auto simp: grid_ok_def check_row_def row_ids_def list_all_iff distinct_removeAll split: option.splits if_splits)
qed (auto simp: grid_ok_def assign_filters_def set_page_def show_teams_def row_ids_def split: option.splits)

lemma import_ok_draw: "import_ok (drawFiles f)"
  by (auto simp: import_ok_def drawFiles_def)

lemma import_ok_step: "import_ok f \<Longrightarrow> import_ok (import_step ie f)"
  by (cases ie) (auto simp: import_ok_draw remove_entry_def choose_dataset_def, auto simp: import_ok_def push_entry_def)

lemma box_ok_step: "box_ok g \<Longrightarrow> box_ok (dialog_step de g)"
  by (cases de) (auto simp: box_ok_def choose_template_def show_change_def tick_main_def Let_def split: change_box.splits)

definition stores_grow :: "admin \<Rightarrow> admin \<Rightarrow> bool" where
  "stores_grow s t \<longleftrightarrow> length (create_forms s) \<le> length (create_forms t) \<and> length (grids s) \<le> length (grids t) \<and>
     length (import_forms s) \<le> length (import_forms t) \<and> length (histories s) \<le> length (histories t) \<and>
     length (archive_forms s) \<le> length (archive_forms t) \<and> length (pack_forms s) \<le> length (pack_forms t) \<and>
     length (institutions s) \<le> length (institutions t) \<and> length (policy_panels s) \<le> length (policy_panels t) \<and>
     length (team_dialogs s) \<le> length (team_dialogs t) \<and> length (record_forms s) \<le> length (record_forms t)"

lemma exists_mono:
  assumes "stores_grow s t"
  shows "part_exists s p \<Longrightarrow> part_exists t p" "body_exists s b \<Longrightarrow> body_exists t b"
  using assms by (cases p; simp add: stores_grow_def) (use assms in \<open>cases b; simp add: stores_grow_def\<close>)

lemma plain_part_exists: "plain_part p \<Longrightarrow> part_exists s p"
  by (cases p) (simp_all add: plain_part_def)

lemma plain_body_exists: "plain_body b \<Longrightarrow> body_exists s b"
  by (cases b) (simp_all add: plain_body_def)

text \<open>How a step changes the parts of the page that the invariant is about.\<close>

definition stores_ok :: "admin \<Rightarrow> bool" where
  "stores_ok s \<longleftrightarrow> list_all team_ok (create_forms s) \<and> list_all grid_ok (grids s) \<and> list_all import_ok (import_forms s) \<and>
     list_all box_ok (team_dialogs s) \<and> list_all archive_ok (archive_forms s) \<and> list_all policies_ok (policy_panels s)"

definition shown_ok :: "admin \<Rightarrow> admin \<Rightarrow> bool" where
  "shown_ok s t \<longleftrightarrow> (\<forall>p\<in>set (content t). p \<in> set (content s) \<or> part_exists t p) \<and>
     (case dialog t of None \<Rightarrow> True | Some (ti, b) \<Rightarrow> dialog t = dialog s \<or> body_exists t b)"

lemma admin_ok_changed:
  assumes "admin_ok s" "stores_grow s t" "shown_ok s t" "stores_ok t"
  shows "admin_ok t"
proof -
  have "part_exists t p" if "p \<in> set (content t)" for p
    using assms exists_mono(1) that unfolding admin_ok_def shown_ok_def list_all_iff by blast
  moreover have "case dialog t of None \<Rightarrow> True | Some (ti, b) \<Rightarrow> body_exists t b"
    using assms(1,3) exists_mono(2) [OF assms(2)] by (auto simp: admin_ok_def shown_ok_def split: option.splits)
  ultimately show ?thesis using assms(4) by (auto simp: admin_ok_def stores_ok_def list_all_iff)
qed

lemmas change_defs = announce_admin_def start_section_def replace_content_def append_part_def openAdminDialog_def
  closeDialog_def downloadCredentials_def add_create_def upd_create_def add_grid_def upd_grid_def add_import_def upd_import_def
  open_team_def upd_dialog_def add_history_def upd_history_def add_archive_def upd_archive_def add_institution_def
  add_data_def upd_data_def add_links_def upd_links_def add_policies_def upd_policy_def add_pack_def upd_pack_def
  open_record_def upd_record_def

lemma step_grows: "admin_step s t \<Longrightarrow> stores_grow s t"
  by (induction rule: admin_step.induct) (simp_all add: stores_grow_def change_defs)

lemma step_shows: "admin_step s t \<Longrightarrow> shown_ok s t"
  by (induction rule: admin_step.induct)
    (auto simp: shown_ok_def change_defs plain_part_exists plain_body_exists list_all_iff split: option.splits)

lemma new_entries_ok:
  "team_ok (new_team_form [] [] None)" "grid_ok new_grid" "import_ok new_import_form" "box_ok (new_dialog t d ts)"
  "policies_ok \<lparr>po_teams = trs, po_team = pt, po_files = []\<rparr>" "policies_ok (show_policies fs pp)"
  by (auto simp: new_team_form_def new_people_def ids_ok_def people_ids_def grid_ok_def new_grid_def new_paged_def
      import_ok_def new_import_form_def box_ok_def new_dialog_def policies_ok_def show_policies_def list_all_iff
      intro!: team_ok_update)

lemma step_stores: "admin_step s t \<Longrightarrow> stores_ok s \<Longrightarrow> stores_ok t"
proof (induction rule: admin_step.induct)
  case (a_suggest s i m)
  then show ?case
    by (auto simp: stores_ok_def upd_create_def team_ok_def intro!: list_all_upd_nth)
next
  case (a_policy_team s i t)
  then show ?case
    by (auto simp: stores_ok_def upd_policy_def policies_ok_def intro!: list_all_upd_nth)
qed (simp_all add: stores_ok_def change_defs new_entries_ok archive_ok_new list_all_upd_nth team_ok_step
    grid_ok_step import_ok_step box_ok_step archive_ok_step)

lemma admin_ok_step: "admin_step s t \<Longrightarrow> admin_ok s \<Longrightarrow> admin_ok t"
  using admin_ok_changed step_grows step_shows step_stores unfolding admin_ok_def stores_ok_def by blast

lemma admin_ok_steps: "admin_steps s t \<Longrightarrow> admin_ok s \<Longrightarrow> admin_ok t"
  by (induction rule: rtranclp_induct) (auto intro: admin_ok_step)

lemma admin_page_ok: "page_reach (range (admin_run lf)) admin_init pg \<Longrightarrow> admin_ok (fst pg)"
  by (drule admin_page_run, erule admin_ok_steps) (simp add: admin_ok_def admin_init_def)

section \<open>How many answers a call takes\<close>

lemma costs_says [costs_intros]: "costs 0 (a_say m)" "costs 0 (say_or_warn m b)" "costs 0 (a_fail m)"
  unfolding a_say_def say_or_warn_def a_fail_def by (rule costs_intros)+

lemma costs_guarded [costs_intros]: "costs n m \<Longrightarrow> costs n (guarded m)"
  unfolding guarded_def by (rule costs_weaken, (rule costs_intros)+, assumption, rule costs_intros, simp)

lemma costs_fetch_both [costs_intros]: "costs 2 (fetch_both p f q g)"
proof -
  have "costs (sum_list [1, 1]) (promise_all [spawn id (request (AApi p)), spawn id (request (AApi q)) :: (admin, areq, aanswer) prog])"
    by (intro costs_promise_all) (simp add: costs_spawn costs_request del: One_nat_def)
  then have both: "costs 2 (promise_all [spawn id (request (AApi p)), spawn id (request (AApi q)) :: (admin, areq, aanswer) prog])"
    by (simp add: numeral_2_eq_2)
  have "costs 0 ((case vs of [a, b] \<Rightarrow> (case (f a, g b) of (Some x, Some y) \<Rightarrow> ret (x, y) | _ \<Rightarrow> throw type_error)
      | _ \<Rightarrow> throw type_error) :: ('x \<times> 'y) acall)" for vs and f :: "aanswer \<Rightarrow> 'x option" and g :: "aanswer \<Rightarrow> 'y option"
    by (auto intro: costs_intros split: list.split option.split)
  then show ?thesis unfolding fetch_both_def by (rule costs_weaken [OF costs_bind [OF both]]) simp
qed

lemma costs_loads [costs_intros]:
  "costs 1 (loadTeams i n)" "costs 1 (loadHistory i n)" "costs 1 (loadRows i n)" "costs 1 (loadLinks i n)"
  "costs 1 (loadPolicies i)"
  unfolding loadTeams_def loadHistory_def loadRows_def loadLinks_def loadPolicies_def
  by (rule costs_weaken, (rule costs_intros)+, simp)+

lemma costs_panels [costs_intros]:
  "costs 3 renderPaperTeamGrid" "costs 1 (renderBatchDetail b)" "costs 1 (renderImportDetail b)" "costs 1 (loadTab k c)"
  "costs 2 renderAutomaticDefaults"
  unfolding renderPaperTeamGrid_def renderBatchDetail_def renderImportDetail_def loadTab_def renderAutomaticDefaults_def
  by (rule costs_weaken, (rule costs_intros)+, simp)+

lemma costs_packs [costs_intros]: "costs 0 (renderFrontMatterPacks ps)"
  unfolding renderFrontMatterPacks_def by (rule costs_weaken, (rule costs_intros)+, simp)

lemma costs_renders [costs_intros]:
  "costs 3 (renderImports opts)" "costs 1 (renderInstitutionData opts)" "costs 1 (renderFilePolicies ts)"
  "costs 2 (renderTemplates tps ps)" "costs 0 (show_parts c qs)"
  unfolding renderImports_def renderInstitutionData_def renderFilePolicies_def renderTemplates_def show_parts_def
  by (rule costs_weaken, (rule costs_intros)+, simp)+

lemma costs_section_body: "costs 4 (section_body lf c opts)"
  by (cases c; simp only: section_body.simps; rule costs_weaken, (rule costs_intros)+, simp)

lemma costs_showSection [costs_intros]: "costs 4 (showSection lf c opts)"
  unfolding showSection_def by (rule costs_weaken, (rule costs_intros costs_section_body)+, simp)

definition answers_needed :: "admin_event \<Rightarrow> nat" where
  "answers_needed e = (case e of AddFiles i us \<Rightarrow> length us | _ \<Rightarrow> 6)"

lemma costs_previews [costs_intros]: "costs 1 (previewArchive i)" "costs 1 (validatePack i)"
  unfolding previewArchive_def validatePack_def by (rule costs_weaken, (rule costs_intros)+, simp)+

lemma costs_accounts:
  "costs 6 (createUser lf e p r b)" "costs 6 (patchV2Role lf u r)"
  "costs 6 (suggestTemplate i ts ps)" "costs 6 (submitTeam lf i n t f)" "costs 6 (searchPeople r q sh)"
  unfolding createUser_def patchV2Role_def suggestTemplate_def submitTeam_def searchPeople_def
  by (rule costs_weaken, (rule costs_intros)+, simp)+

lemma costs_user_action: "costs 6 (run_user_action lf u b a)"
  by (cases a; simp only: run_user_action.simps resetPassword_def retryEmail_def toggleUser_def;
    rule costs_weaken, (rule costs_intros)+, simp)

lemma costs_team_dialog:
  "costs 6 (openTeamDetail r ts)" "costs 6 (saveTeam lf i n)" "costs 6 (setTeamStatus lf i n)"
  "costs 6 (changeTemplate i)" "costs 6 (changeFrontMatter lf i p b)"
  unfolding openTeamDetail_def saveTeam_def setTeamStatus_def changeTemplate_def changeFrontMatter_def with_dialog_def Let_def
  by (rule costs_weaken, (rule costs_intros)+, simp)+

lemma costs_applyChange: "costs 6 (applyChange lf i)"
proof -
  have box: "costs n (case dg_box g of NoBox \<Rightarrow> ret () | Conflicts cs \<Rightarrow> ret () | ConfirmBox ch nm c \<Rightarrow> m ch nm c)"
    if "\<And>ch nm c. costs n (m ch nm c)" for g n and m :: "template_change \<Rightarrow> jsstr option \<Rightarrow> bool \<Rightarrow> unit acall"
    using that by (cases "dg_box g") (auto intro: costs_weaken [OF costs_ret])
  show ?thesis unfolding applyChange_def with_dialog_def
    by (rule costs_weaken, (rule costs_intros box)+, simp)
qed

lemma costs_grid_handlers:
  "costs 6 (filterTeams i vs)" "costs 6 (sizeTeams i n)" "costs 6 (runBulk i t b)"
  unfolding filterTeams_def sizeTeams_def runBulk_def by (rule costs_weaken, (rule costs_intros)+, simp)+

lemma costs_addFiles: "costs (length us) (addFiles i us)"
proof (induction us)
  case Nil
  show ?case unfolding addFiles.simps by (rule costs_weaken, (rule costs_intros)+, simp)
next
  case (Cons u us)
  show ?case unfolding addFiles.simps by (rule costs_weaken, (rule costs_intros Cons)+, simp)
qed

lemma costs_imports:
  "costs 6 (submitBatch lf i oper)" "costs 6 (applyBatch lf b c)" "costs 6 (applyJob lf j c)"
  "costs 6 (retryTeams lf j)" "costs 6 (filterHistory i vs)"
  unfolding submitBatch_def applyBatch_def applyJob_def retryTeams_def filterHistory_def Let_def
  by (rule costs_weaken, (rule costs_intros)+, simp)+

lemma costs_institution:
  "costs 6 (filterRows i vs)" "costs 6 (submitRecord i vs c)" "costs 6 (openLinks i)"
  "costs 6 (filterLinks i vs)" "costs 6 (unlink i l c)"
  unfolding filterRows_def submitRecord_def openLinks_def filterLinks_def unlink_def
  by (rule costs_weaken, (rule costs_intros)+, simp)+

lemma costs_manualLink: "costs 6 (manualLink i l q)"
proof -
  have found: "costs n (case us of [] \<Rightarrow> a_fail e | u # us' \<Rightarrow> m u us')"
    if "\<And>u us'. costs n (m u us')" for us e n and m :: "person \<Rightarrow> person list \<Rightarrow> unit acall"
    using that by (cases us) (auto intro: costs_weaken [OF costs_says(3)])
  show ?thesis unfolding manualLink_def by (rule costs_weaken, (rule costs_intros found)+, simp)
qed

lemma costs_archives:
  "costs 6 (editTemplate lf t n d m)" "costs 6 (removeTemplate lf t c)" "costs 6 (editPack lf p n d)"
  "costs 6 (removePack lf p c)" "costs 6 (viewPack p)" "costs 6 (importTemplate lf i n d)" "costs 6 (importPack lf i n d)"
  unfolding editTemplate_def removeTemplate_def editPack_def removePack_def viewPack_def importTemplate_def importPack_def
  by (rule costs_weaken, (rule costs_intros)+, simp)+

lemma costs_defaults:
  "costs 6 (saveFallback lf t)" "costs 6 (saveGlobalFront lf t)" "costs 6 (saveProgramme lf m t t')"
  "costs 6 (removeMapping lf m c)" "costs 6 (choosePolicyTeam i t)" "costs 6 (setPolicy i f t)"
  unfolding saveFallback_def saveGlobalFront_def saveProgramme_def removeMapping_def choosePolicyTeam_def setPolicy_def
  by (rule costs_weaken, (rule costs_intros)+, simp)+

lemma costs_small:
  "costs 6 (act f)" "costs 6 (showSection lf c opts)" "costs 6 (guarded (loadTeams i n))" "costs 6 (guarded (loadHistory i n))"
  "costs 6 (guarded (loadRows i n))" "costs 6 (guarded (loadLinks i n))" "costs 6 (guarded (loadTab k dc))"
  "costs 6 (guarded (previewArchive i))" "costs 6 (guarded (validatePack i))"
  by (rule costs_weaken, (rule costs_intros)+, simp)+

lemma admin_handler_costs: "costs (answers_needed e) (admin_handler lf e)"
  by (cases e; simp only: admin_handler.simps answers_needed_def admin_event.case;
    rule costs_accounts costs_user_action costs_team_dialog costs_applyChange costs_grid_handlers
      costs_imports costs_institution costs_manualLink costs_archives costs_defaults costs_small
      costs_guarded [OF costs_addFiles])

section \<open>Which calls cannot reject\<close>

lemma quietly_guarded [quiet_intros]: "calm m \<Longrightarrow> quietly (guarded m)"
  unfolding guarded_def by (intro quiet_intros)

lemma calm_says [quiet_intros]: "calm (a_say m)" "calm (say_or_warn m b)" "calm (a_fail m)"
  unfolding a_say_def say_or_warn_def a_fail_def by (intro quiet_intros)+

lemma calm_fetch_both [quiet_intros]: "calm (fetch_both p f q g)"
  unfolding fetch_both_def by (intro quiet_intros) (auto intro: quiet_intros split: list.split option.split)

lemma calm_loads [quiet_intros]:
  "calm (loadTeams i n)" "calm (loadHistory i n)" "calm (loadRows i n)" "calm (loadLinks i n)" "calm (loadPolicies i)"
  unfolding loadTeams_def loadHistory_def loadRows_def loadLinks_def loadPolicies_def by (intro quiet_intros)+

lemma calm_panels [quiet_intros]:
  "calm renderPaperTeamGrid" "calm (renderBatchDetail b)" "calm (renderImportDetail b)" "calm (loadTab k c)"
  "calm renderAutomaticDefaults"
  unfolding renderPaperTeamGrid_def renderBatchDetail_def renderImportDetail_def loadTab_def renderAutomaticDefaults_def
  by (intro quiet_intros)+

lemma calm_renders [quiet_intros]:
  "calm (renderImports opts)" "calm (renderInstitutionData opts)" "calm (renderFilePolicies ts)"
  "calm (renderTemplates tps ps)" "calm (show_parts c qs)"
  unfolding renderImports_def renderInstitutionData_def renderFilePolicies_def renderTemplates_def show_parts_def
    renderFrontMatterPacks_def
  by (intro quiet_intros)+

lemma calm_section_body [quiet_intros]: "calm (section_body lf c opts)"
  by (cases c; simp only: section_body.simps; intro quiet_intros)

lemma quietly_showSection: "quietly (showSection lf c opts)"
  unfolding showSection_def by (intro quiet_intros)

lemma calm_showSection [quiet_intros]: "calm (showSection lf c opts)"
  by (rule quietly_calm) (rule quietly_showSection)

lemma calm_previews [quiet_intros]: "calm (previewArchive i)" "calm (validatePack i)"
  unfolding previewArchive_def validatePack_def by (intro quiet_intros)+

lemma calm_addFiles [quiet_intros]: "calm (addFiles i us)"
  by (induction us) (simp_all only: addFiles.simps, (intro quiet_intros; assumption)+)

lemma quietly_accounts:
  "quietly (createUser lf e p r b)" "quietly (patchV2Role lf u r)" "quietly (searchPeople ro q sh)"
  "quietly (suggestTemplate i ts ps)"
  unfolding createUser_def patchV2Role_def searchPeople_def suggestTemplate_def by (intro quiet_intros)+

lemma quietly_user_action: "quietly (run_user_action lf u b a)"
  by (cases a; simp only: run_user_action.simps resetPassword_def retryEmail_def toggleUser_def; intro quiet_intros)

lemma quietly_team_dialog:
  "quietly (openTeamDetail r ts)" "quietly (saveTeam lf i n)" "quietly (setTeamStatus lf i n)"
  "quietly (changeTemplate i)" "quietly (changeFrontMatter lf i p b)"
  unfolding openTeamDetail_def saveTeam_def setTeamStatus_def changeTemplate_def changeFrontMatter_def with_dialog_def Let_def
  by (intro quiet_intros)+

lemma quietly_applyChange: "quietly (applyChange lf i)"
proof -
  have box: "calm (case dg_box g of NoBox \<Rightarrow> ret () | Conflicts cs \<Rightarrow> ret () | ConfirmBox ch nm c \<Rightarrow> m ch nm c)"
    if "\<And>ch nm c. calm (m ch nm c)" for g and m :: "template_change \<Rightarrow> jsstr option \<Rightarrow> bool \<Rightarrow> unit acall"
    using that by (cases "dg_box g") (auto intro: calm_ret)
  show ?thesis unfolding applyChange_def with_dialog_def by (intro quiet_intros box)
qed

lemma quietly_grid_and_imports:
  "quietly (runBulk i t b)" "quietly (submitBatch lf i oper)" "quietly (applyBatch lf bt c)" "quietly (applyJob lf j c)"
  "quietly (retryTeams lf j)" "quietly (openLinks i)" "quietly (unlink i l c)"
  unfolding runBulk_def submitBatch_def applyBatch_def applyJob_def retryTeams_def Let_def openLinks_def unlink_def
  by (intro quiet_intros)+

lemma quietly_manualLink: "quietly (manualLink i l q)"
proof -
  have found: "calm (case us of [] \<Rightarrow> a_fail e | u # us' \<Rightarrow> m u us')"
    if "\<And>u us'. calm (m u us')" for us e and m :: "person \<Rightarrow> person list \<Rightarrow> unit acall"
    using that by (cases us) (auto intro: calm_says)
  show ?thesis unfolding manualLink_def by (intro quiet_intros found)
qed

lemma quietly_archives:
  "quietly (editTemplate lf t n d m)" "quietly (removeTemplate lf t c)" "quietly (editPack lf p n d)"
  "quietly (removePack lf p c)" "quietly (viewPack p)" "quietly (importTemplate lf i n d)" "quietly (importPack lf i n d)"
  unfolding editTemplate_def removeTemplate_def editPack_def removePack_def viewPack_def importTemplate_def importPack_def
  by (intro quiet_intros)+

lemma quietly_defaults:
  "quietly (saveFallback lf t)" "quietly (saveGlobalFront lf t)" "quietly (saveProgramme lf m t t')"
  "quietly (removeMapping lf m c)" "quietly (choosePolicyTeam i t)" "quietly (setPolicy i f t)"
  unfolding saveFallback_def saveGlobalFront_def saveProgramme_def removeMapping_def choosePolicyTeam_def setPolicy_def
  by (intro quiet_intros)+

lemma quietly_submissions: "quietly (submitTeam lf i n t p)" "quietly (submitRecord k vs c)"
  unfolding submitTeam_def submitRecord_def by (intro quiet_intros)+

text \<open>The listeners that leave a rejection uncaught: the filters and the page size.\<close>

definition uncaught :: "admin_event \<Rightarrow> bool" where
  "uncaught e = (case e of FilterTeams i vs \<Rightarrow> True | SizeTeams i n \<Rightarrow> True | FilterHistory i vs \<Rightarrow> True
     | FilterRows i vs \<Rightarrow> True | FilterLinks i vs \<Rightarrow> True | _ \<Rightarrow> False)"

lemma admin_handler_quietly: "\<not> uncaught e \<Longrightarrow> quietly (admin_handler lf e)"
  by (cases e; (simp only: admin_handler.simps uncaught_def admin_event.case not_True_eq_False)?;
    (erule FalseE | rule quietly_showSection quietly_accounts quietly_user_action quietly_team_dialog quietly_applyChange
      quietly_grid_and_imports quietly_manualLink quietly_archives quietly_defaults quietly_submissions quietly_act
      quietly_guarded [OF calm_addFiles] quietly_guarded [OF calm_loads(1)] quietly_guarded [OF calm_loads(2)]
      quietly_guarded [OF calm_loads(3)] quietly_guarded [OF calm_loads(4)] quietly_guarded [OF calm_panels(4)]
      quietly_guarded [OF calm_previews(1)] quietly_guarded [OF calm_previews(2)]))

end
