(* ===== verification/AdminProperties.thy ===== *)
theory AdminProperties
  imports AdminLemmas
begin

text \<open>
  The properties of the administration page: what holds of every interleaving of its calls, when its calls end and
  what becomes of their rejections, what guards the requests that change teams and archives, and where events that
  cross go wrong.
\<close>

lemmas admin_run_defs = admin_run_def spawn_def bind_def ret_def throw_def act_def look_def attempt_def request_def
  fetch_def post_def need_def guarded_def aanswer_defs a_say_def a_fail_def say_or_warn_def

section \<open>Sample data\<close>

definition demo_formats :: locale_formats where
  "demo_formats = \<lparr>lf_num = nat_str, lf_time = id, lf_instant = (\<lambda>_. None)\<rparr>"

definition demo_template :: "jsstr \<Rightarrow> template" where
  "demo_template i = \<lparr>tp_id = i, tp_name = ''T'' @ i, tp_description = None, tp_tex_files = [''main.tex''],
     tp_main_file = ''main.tex'', tp_compatible = True, tp_created = [], tp_pinned = False, tp_usage = 0\<rparr>"

definition demo_change :: template_change where
  "demo_change = \<lparr>ch_token = ''t1'', ch_conflicts = [], ch_main_changed = True, ch_main_from = ''a.tex'',
     ch_main_to = ''b.tex'', ch_updates = 1, ch_adds = 0\<rparr>"

section \<open>Every interleaving\<close>

text \<open>
  C7. Whatever the administrator does and in whatever order requests are answered: what the page and its dialog show
  exists; the teams selected in a grid that is not loading are teams of the page of the grid that is shown; a
  new team has distinct writers with its leader, if chosen, among them; files can be submitted only when those
  drawn are labelled; and no file that policies hide is listed.
\<close>

theorem admin_page_consistent:
  assumes "page_reach (range (admin_run lf)) admin_init pg"
  shows "list_all (part_exists (fst pg)) (content (fst pg)) \<and>
    (case dialog (fst pg) of None \<Rightarrow> True | Some (t, b) \<Rightarrow> body_exists (fst pg) b) \<and>
    (\<forall>t\<in>set (grids (fst pg)). \<not> pp_loading (tg_paged t) \<longrightarrow>
       (\<forall>i\<in>set (tg_selected t). \<exists>g. pp_shown (tg_paged t) = Some g \<and> i \<in> row_ids g)) \<and>
    (\<forall>f\<in>set (create_forms (fst pg)). distinct (people_ids (tm_writers f)) \<and>
       (tm_leader f = [] \<or> tm_leader f \<in> set (people_ids (tm_writers f)))) \<and>
    (\<forall>f\<in>set (import_forms (fst pg)). \<not> im_submit_off f \<longrightarrow>
       0 < im_drawn f \<and> (\<forall>e\<in>set (take (im_drawn f) (im_entries f)). \<not> unlabelled e)) \<and>
    (\<forall>p\<in>set (policy_panels (fst pg)). \<forall>f\<in>set (po_files p). fp_policy f \<noteq> ''HIDDEN_SYSTEM'')"
proof -
  have ok: "admin_ok (fst pg)" by (rule admin_page_ok [OF assms])
  then have "\<exists>g. pp_shown (tg_paged t) = Some g \<and> i \<in> row_ids g"
    if "t \<in> set (grids (fst pg))" "\<not> pp_loading (tg_paged t)" "i \<in> set (tg_selected t)" for t i
  proof -
    have "grid_ok t" using ok that(1) by (simp add: admin_ok_def list_all_iff)
    with that(2,3) show ?thesis by (auto simp: grid_ok_def split: option.splits)
  qed
  moreover have "team_ok f" if "f \<in> set (create_forms (fst pg))" for f
    using ok that by (simp add: admin_ok_def list_all_iff)
  moreover have "import_ok f" if "f \<in> set (import_forms (fst pg))" for f
    using ok that by (simp add: admin_ok_def list_all_iff)
  moreover have "policies_ok p" if "p \<in> set (policy_panels (fst pg))" for p
    using ok that by (simp add: admin_ok_def list_all_iff)
  ultimately show ?thesis
    using ok by (simp add: admin_ok_def team_ok_def ids_ok_def import_ok_def policies_ok_def list_all_iff
        list_ex_iff)
qed

theorem admin_page_consistent_witness:
  "let pg = begin_call (admin_run demo_formats (ShowSection SImports no_options)) (admin_init, [])
   in content (fst pg) \<noteq> [] \<and> list_all (part_exists (fst pg)) (content (fst pg)) \<and> dialog (fst pg) = None"
proof -
  let ?pg = "begin_call (admin_run demo_formats (ShowSection SImports no_options)) (admin_init, [])"
  have "page_reach (range (admin_run demo_formats)) admin_init ?pg"
    by (intro page_reach.begins page_reach.at_load) simp
  moreover have "content (fst ?pg) = [Heading SImports, ImportForm 0, HistoryPanel 0]" "dialog (fst ?pg) = None"
    by (simp_all add: begin_call_def split_beta admin_run_defs showSection_def show_parts_def renderImports_def no_options_def
        loadHistory_def change_defs admin_init_def truthy_def entry_def upd_nth_def)
  ultimately show ?thesis using admin_page_consistent [of demo_formats ?pg] unfolding Let_def by simp
qed

text \<open>
  C19. The button that applies a template change sends something only from a confirmation that is shown, of a preview
  without conflicting files, and when the main file changes only with the box for that ticked; it then asks for
  a new preview first, and for the change itself otherwise, with the token of the preview.
\<close>

theorem template_change_guarded:
  assumes "page_reach (range (admin_run lf)) admin_init pg"
    and "asks (admin_run lf (ClickApplyChange k) (fst pg)) = Some q"
  shows "\<exists>g ch n. entry k (team_dialogs (fst pg)) = Some g \<and> dg_box g = ConfirmBox ch n (ch_main_changed ch) \<and>
    file_conflicts ch = [] \<and>
    q = AApi (if ch_main_changed ch then PreviewChange (dg_team g) (dg_template g) True
              else ApplyChange (dg_team g) (dg_template g) (ch_token ch) False)"
proof -
  have ok: "list_all box_ok (team_dialogs (fst pg))" using admin_page_ok [OF assms(1)] by (simp add: admin_ok_def)
  from assms(2) obtain g where g: "entry k (team_dialogs (fst pg)) = Some g"
    by (cases "entry k (team_dialogs (fst pg))")
      (auto simp: asks_def admin_run_defs applyChange_def with_dialog_def)
  with ok have "box_ok g" by (auto simp: entry_def list_all_iff split: if_splits)
  then show ?thesis
    using assms(2) g
    by (cases "dg_box g") (auto simp: asks_def admin_run_defs applyChange_def with_dialog_def box_ok_def split: if_splits)
qed

definition confirming_page :: "(admin, areq, aanswer) page" where
  "confirming_page =
     begin_call (admin_run demo_formats (TickMain 0 True))
       (answer_call 1 [] (Inr (VChange demo_change))
         (begin_call (admin_run demo_formats (ClickChangeTemplate 0))
           (answer_call 0 [] (Inr (VTeam demo_team))
             (begin_call (admin_run demo_formats
                (OpenTeam \<lparr>tr_id = Some ''p1'', tr_name = ''T'', tr_unresolved = False, tr_job = None\<rparr> [demo_template ''b'']))
                (admin_init, [])))))"

theorem template_change_guarded_witness:
  "\<exists>g n. entry 0 (team_dialogs (fst confirming_page)) = Some g \<and> dg_box g = ConfirmBox demo_change n True \<and>
     asks (admin_run demo_formats (ClickApplyChange 0) (fst confirming_page))
       = Some (AApi (PreviewChange ''p1'' (dg_template g) True))"
proof -
  have reach: "page_reach (range (admin_run demo_formats)) admin_init confirming_page"
    unfolding confirming_page_def by (intro page_reach.begins page_reach.answers page_reach.at_load) simp_all
  have g: "\<exists>g n. entry 0 (team_dialogs (fst confirming_page)) = Some g \<and> dg_team g = ''p1'' \<and>
      dg_box g = ConfirmBox demo_change n True"
    by (simp add: confirming_page_def begin_call_def answer_call_def split_beta admin_run_defs openTeamDetail_def open_team_def
        changeTemplate_def with_dialog_def upd_dialog_def openAdminDialog_def admin_init_def new_dialog_def alternatives_def
        demo_team_def demo_template_def show_change_def demo_change_def file_conflicts_def tick_main_def Let_def
        js_or_def truthy_def entry_def upd_nth_def)
  then obtain q where "asks (admin_run demo_formats (ClickApplyChange 0) (fst confirming_page)) = Some q"
    by (auto simp: asks_def admin_run_defs applyChange_def with_dialog_def demo_change_def)
  with template_change_guarded [OF reach this] g show ?thesis by (auto simp: demo_change_def)
qed

text \<open>
  C28. Every call of the page settles after at most six answers, reading files after one answer per file, and until
  then waits for an answer and for nothing else.
\<close>

theorem admin_calls_settle:
  assumes "answer_seq xs (snd (admin_run lf e s)) = Some t"
  shows "length xs \<le> (case e of AddFiles i us \<Rightarrow> length us | _ \<Rightarrow> 6) \<and>
    ((\<exists>v. t = Done v) \<or> (\<exists>err. t = Failed err) \<or> (\<exists>p. waits_at p t))"
proof -
  have "settles (answers_needed e) (snd (admin_run lf e s))"
    using costs_spawn [OF admin_handler_costs [of e lf]] unfolding prog_costs_def admin_run_def by blast
  from settles_answers [OF this assms] show ?thesis by (cases t) (auto simp: answers_needed_def)
qed

theorem admin_calls_settle_witness:
  "length [([], Inl type_error, admin_init) :: nat list \<times> aanswer result \<times> admin] \<le> 6 \<and>
     ((\<exists>v. (Done VUnit :: (admin, areq, aanswer) thread) = Done v)
      \<or> (\<exists>err. (Done VUnit :: (admin, areq, aanswer) thread) = Failed err)
      \<or> (\<exists>p. waits_at p (Done VUnit :: (admin, areq, aanswer) thread)))"
  using admin_calls_settle [where e = "ClickUnlink 0 \<lparr>il_type = ''STUDENT'', il_external = ''7'', il_status = []\<rparr> True"
      and s = admin_init and lf = demo_formats and xs = "[([], Inl type_error, admin_init)]" and t = "Done VUnit"]
  by (simp add: admin_run_defs unlink_def)

text \<open>
  C27. A listener that is none of the four filters and the page size never leaves a rejection uncaught, whatever the
  answers and in whatever state. Those five do, each of them, when their request fails: the call rejects and nothing
  is announced. The table of the teams is then left loading; the other three tables go on showing the rows of the old
  filter, under the new one.
\<close>

theorem failures_are_caught:
  "(\<not> uncaught e \<longrightarrow> answer_seq xs (snd (admin_run lf e s)) = Some t \<longrightarrow> (\<forall>err. t \<noteq> Failed err)) \<and>
   (entry i (grids s) \<noteq> None \<longrightarrow> e = FilterTeams i vs \<or> e = SizeTeams i n \<longrightarrow>
      (let st = replied [Inl err] (admin_run lf e s)
       in snd st = Failed err \<and> status_line (fst st) = status_line s \<and>
          map_option (pp_loading \<circ> tg_paged) (entry i (grids (fst st))) = Some True)) \<and>
   (entry i (histories s) \<noteq> None \<longrightarrow>
      (let st = replied [Inl err] (admin_run lf (FilterHistory i vs) s)
       in snd st = Failed err \<and> status_line (fst st) = status_line s \<and>
          map_option pp_shown (entry i (histories (fst st))) = map_option pp_shown (entry i (histories s)) \<and>
          map_option pp_filters (entry i (histories (fst st)))
            = map_option (pp_filters \<circ> assign_filters vs) (entry i (histories s)))) \<and>
   (entry i (data_panels s) \<noteq> None \<longrightarrow>
      (let st = replied [Inl err] (admin_run lf (FilterRows i vs) s)
       in snd st = Failed err \<and> status_line (fst st) = status_line s \<and>
          map_option (pp_shown \<circ> snd) (entry i (data_panels (fst st))) = map_option (pp_shown \<circ> snd) (entry i (data_panels s)) \<and>
          map_option (pp_filters \<circ> snd) (entry i (data_panels (fst st)))
            = map_option (pp_filters \<circ> assign_filters vs \<circ> snd) (entry i (data_panels s)))) \<and>
   (entry i (link_panels s) \<noteq> None \<longrightarrow>
      (let st = replied [Inl err] (admin_run lf (FilterLinks i vs) s)
       in snd st = Failed err \<and> status_line (fst st) = status_line s \<and>
          map_option pp_shown (entry i (link_panels (fst st))) = map_option pp_shown (entry i (link_panels s)) \<and>
          map_option pp_filters (entry i (link_panels (fst st)))
            = map_option (pp_filters \<circ> assign_filters vs) (entry i (link_panels s))))"
proof (intro conjI impI)
  assume "\<not> uncaught e" and answers: "answer_seq xs (snd (admin_run lf e s)) = Some t"
  then have "quiet (snd (admin_run lf e s))"
    unfolding admin_run_def by (intro quiet_spawn admin_handler_quietly)
  from quiet_answers [OF this answers] show "\<forall>err. t \<noteq> Failed err" by auto
next
  assume "entry i (grids s) \<noteq> None" "e = FilterTeams i vs \<or> e = SizeTeams i n"
  then show "let st = replied [Inl err] (admin_run lf e s)
       in snd st = Failed err \<and> status_line (fst st) = status_line s \<and>
          map_option (pp_loading \<circ> tg_paged) (entry i (grids (fst st))) = Some True"
    by (auto simp: Let_def admin_run_defs filterTeams_def sizeTeams_def loadTeams_def upd_grid_def)
qed (auto simp: Let_def admin_run_defs filterHistory_def loadHistory_def upd_history_def filterRows_def loadRows_def
    upd_data_def filterLinks_def loadLinks_def upd_links_def set_page_def assign_filters_def)

theorem failures_are_caught_witness:
  "answer_seq [([], Inl type_error, admin_init)]
     (snd (admin_run demo_formats (ClickUnlink 0 \<lparr>il_type = ''STUDENT'', il_external = ''7'', il_status = []\<rparr> True) admin_init))
       \<noteq> Some (Failed type_error) \<and>
   snd (replied [Inl type_error] (admin_run demo_formats (FilterTeams 0 []) (admin_init\<lparr>grids := [new_grid]\<rparr>))) = Failed type_error"
proof -
  let ?e = "ClickUnlink 0 \<lparr>il_type = ''STUDENT'', il_external = ''7'', il_status = []\<rparr> True"
  have "\<not> uncaught ?e" by (simp add: uncaught_def)
  then have "answer_seq [([], Inl type_error, admin_init)] (snd (admin_run demo_formats ?e admin_init)) \<noteq> Some (Failed type_error)"
    using failures_are_caught by blast
  moreover have "entry 0 (grids (admin_init\<lparr>grids := [new_grid]\<rparr>)) \<noteq> None" by (simp add: entry_def)
  then have "snd (replied [Inl type_error] (admin_run demo_formats (FilterTeams 0 []) (admin_init\<lparr>grids := [new_grid]\<rparr>)))
      = Failed type_error"
    using failures_are_caught [where i = 0 and e = "FilterTeams 0 []" and vs = "[]"] unfolding Let_def by blast
  ultimately show ?thesis by blast
qed

section \<open>Events that cross\<close>

text \<open>
  Two sections opened one after the other, whose answers come in the other order: the navigation says the second,
  and the page shows the first. A failure of the first shows its message over the second in the same way.
\<close>

theorem stale_section_wins:
  "let pg = begin_call (admin_run lf (ShowSection SBuilds opts2)) (begin_call (admin_run lf (ShowSection SReviews opts1)) (s, []));
       shown = answer_call 0 [] (Inr (VReviews rs)) (answer_call 1 [] (Inr (VJobs js)) pg);
       failed = answer_call 0 [] (Inl err) (answer_call 1 [] (Inr (VJobs js)) pg)
   in active (fst shown) = SBuilds \<and>
      content (fst shown) = [Heading SReviews, Markup (renderAdminReviews (lf_time lf) (lf_instant lf) rs)] \<and>
      list_all settled (snd shown) \<and> active (fst failed) = SBuilds \<and>
      (\<exists>m. content (fst failed) = [Heading SReviews, Failure m SReviews opts1])"
  by (simp add: Let_def begin_call_def answer_call_def split_beta admin_run_defs showSection_def start_section_def
      show_parts_def replace_content_def show_failure_def)

text \<open>
  A template that is selected while the preview of another is shown is applied without a preview of its own: the
  confirmation stays, the new preview that the button asks for is not shown, and whatever conflicts it has, its
  token is used for the template selected.
\<close>

theorem unpreviewed_template_applied:
  assumes "entry k (team_dialogs s) = Some g" and "dg_box g = ConfirmBox ch n True" and "ch_main_changed ch"
    and "t \<in> tp_id ` set (alternatives (dg_detail g) (dg_templates g))"
  shows "let chosen = fst (admin_run lf (ChooseTemplate k t) s);
             st = admin_run lf (ClickApplyChange k) chosen; next = replied [Inr (VChange again)] st
         in map_option dg_box (entry k (team_dialogs chosen)) = Some (ConfirmBox ch n True) \<and>
            asks st = Some (AApi (PreviewChange (dg_team g) t True)) \<and>
            asks next = Some (AApi (ApplyChange (dg_team g) t (ch_token again) True)) \<and>
            map_option dg_box (entry k (team_dialogs (fst next))) = Some (ConfirmBox ch n True)"
proof -
  have "list_ex (\<lambda>x. tp_id x = t) (alternatives (dg_detail g) (dg_templates g))"
    using assms(4) by (auto simp: list_ex_iff)
  with assms(1-3) show ?thesis
    by (simp add: Let_def asks_def admin_run_defs applyChange_def with_dialog_def upd_dialog_def choose_template_def)
qed

theorem unpreviewed_template_applied_witness:
  "let g = (new_dialog ''p1'' demo_team [demo_template ''b'', demo_template ''c''])
             \<lparr>dg_box := ConfirmBox demo_change (Some ''Tb'') True\<rparr>;
       chosen = fst (admin_run demo_formats (ChooseTemplate 0 ''c'') (admin_init\<lparr>team_dialogs := [g]\<rparr>))
   in asks (admin_run demo_formats (ClickApplyChange 0) chosen) = Some (AApi (PreviewChange ''p1'' ''c'' True))"
proof -
  let ?g = "(new_dialog ''p1'' demo_team [demo_template ''b'', demo_template ''c''])
             \<lparr>dg_box := ConfirmBox demo_change (Some ''Tb'') True\<rparr>"
  have "entry 0 (team_dialogs (admin_init\<lparr>team_dialogs := [?g]\<rparr>)) = Some ?g" by (simp add: entry_def)
  moreover have "dg_box ?g = ConfirmBox demo_change (Some ''Tb'') True" "ch_main_changed demo_change"
    by (simp_all add: demo_change_def)
  moreover have "''c'' \<in> tp_id ` set (alternatives (dg_detail ?g) (dg_templates ?g))"
    by (simp add: alternatives_def new_dialog_def demo_team_def demo_template_def)
  ultimately show ?thesis
    using unpreviewed_template_applied [where k = 0 and t = "''c''" and lf = demo_formats and again = demo_change]
    unfolding Let_def by (fastforce simp: new_dialog_def)
qed

text \<open>
  While files are added to a batch that can be submitted, a file that has been read belongs to the batch but is not
  on the page, and the submission stays possible: a file without a dataset is submitted without one, and the server
  reads it so. When the next file cannot be read, it remains in the batch without being on the page.
\<close>

theorem unlabelled_file_submitted:
  assumes "entry i (import_forms s) = Some f" and "\<not> im_submit_off f"
    and "importable u" and "\<not> is_xlsx (up_name u)" and "\<not> already_in u f"
    and "dt_dataset (detectInstitutionDataset (up_name u) c) = []"
    and "importable v" and "\<not> is_xlsx (up_name v)" and "\<not> already_in v (push_entry u (detectInstitutionDataset (up_name u) c) f)"
  shows "let st = replied [Inr (VContent c)] (admin_run lf (AddFiles i [u, v]) s);
             f' = the (entry i (import_forms (fst st))); unread = replied [Inl err] st
         in asks st = Some (ReadFile v) \<and> im_drawn f' = im_drawn f \<and> length (im_entries f') = Suc (length (im_entries f)) \<and>
            \<not> im_submit_off f' \<and> unlabelled (last (im_entries f')) \<and>
            asks (admin_run lf (SubmitBatch i oper) (fst st)) = Some (AApi (ValidateBatch (batch_fields oper f'))) \<and>
            (\<exists>ups. read_batch (batch_fields oper f') = Some (Some oper, ups @ [(u, None)])) \<and>
            settled (snd unread) \<and> entry i (import_forms (fst unread)) = Some f'"
proof -
  define d where "d = detectInstitutionDataset (up_name u) c"
  define f' where "f' = push_entry u d f"
  define st where "st = replied [Inr (VContent c)] (admin_run lf (AddFiles i [u, v]) s)"
  have "entry i (import_forms (fst st)) = Some f'" "asks st = Some (ReadFile v)"
    "settled (snd (replied [Inl err] st))" "entry i (import_forms (fst (replied [Inl err] st))) = Some f'"
    using assms by (simp_all add: st_def f'_def d_def asks_def admin_run_defs upd_import_def showError_def announce_admin_def)
  moreover have "\<not> im_submit_off f'" "im_drawn f' = im_drawn f" "unlabelled (last (im_entries f'))"
    "length (im_entries f') = Suc (length (im_entries f))"
    using assms(2,4,6) by (simp_all add: f'_def push_entry_def unlabelled_def d_def)
  moreover have "asks (admin_run lf (SubmitBatch i oper) (fst st)) = Some (AApi (ValidateBatch (batch_fields oper f')))"
    using calculation(1) by (simp add: asks_def admin_run_defs submitBatch_def)
  moreover have "\<exists>ups. read_batch (batch_fields oper f') = Some (Some oper, ups @ [(u, None)])"
    using read_entries [of "Some oper" "[]" "im_entries f'"] assms(6)
    by (simp add: read_batch_def batch_fields_def f'_def d_def push_entry_def)
  ultimately show ?thesis unfolding Let_def st_def [symmetric] by simp
qed

definition demo_upload :: "jsstr \<Rightarrow> upload" where
  "demo_upload n = \<lparr>up_name = n, up_size = 3, up_modified = 0, up_content = ''x''\<rparr>"

definition demo_import :: import_form where
  "demo_import = drawFiles (push_entry (demo_upload ''schools.csv'') \<lparr>dt_dataset = ''schools'', dt_candidates = [],
     dt_status = ''Ready''\<rparr> new_import_form)"

theorem unlabelled_file_submitted_witness:
  "asks (replied [Inr (VContent ''x'')] (admin_run demo_formats (AddFiles 0 [demo_upload ''a.csv'', demo_upload ''b.csv''])
     (admin_init\<lparr>import_forms := [demo_import]\<rparr>))) = Some (ReadFile (demo_upload ''b.csv''))"
proof -
  have "\<not> im_submit_off demo_import" "importable (demo_upload ''a.csv'')" "\<not> is_xlsx (up_name (demo_upload ''a.csv''))"
    "\<not> already_in (demo_upload ''a.csv'') demo_import" "importable (demo_upload ''b.csv'')"
    "\<not> is_xlsx (up_name (demo_upload ''b.csv''))"
    "dt_dataset (detectInstitutionDataset (up_name (demo_upload ''a.csv'')) ''x'') = []"
    "\<not> already_in (demo_upload ''b.csv'')
        (push_entry (demo_upload ''a.csv'') (detectInstitutionDataset (up_name (demo_upload ''a.csv'')) ''x'') demo_import)"
    by code_simp+
  moreover have "entry 0 (import_forms (admin_init\<lparr>import_forms := [demo_import]\<rparr>)) = Some demo_import"
    by (simp add: entry_def)
  ultimately show ?thesis
    using unlabelled_file_submitted [where lf = demo_formats and err = type_error] unfolding Let_def by blast
qed

text \<open>
  A preview that comes after another archive was chosen is shown for it: the main file can be one of the first
  archive, and the submission sends it with the second.
\<close>

theorem archive_preview_of_other_file:
  assumes "entry i (archive_forms s) = Some f" and "af_file f = Some u"
    and "pv_detected_main pv = Some m" and "m \<noteq> []" and "m \<in> ent_path ` {e \<in> set (pv_files pv). ent_is_tex e}"
  shows "let st = admin_run lf (ClickValidate i) s;
             s1 = fst (admin_run lf (ArchiveChosen i (Some v)) (fst st));
             s2 = fst (deliver [] (Inr (VPreview pv)) (snd st) s1)
         in asks st = Some (AApi (PreviewTemplate u)) \<and>
            map_option af_submit_off (entry i (archive_forms s1)) = Some True \<and>
            map_option af_submit_off (entry i (archive_forms s2)) = Some False \<and>
            map_option af_preview (entry i (archive_forms s2)) = Some (Some pv) \<and>
            asks (admin_run lf (SubmitTemplate i name desc) s2) = Some (AApi (ImportTemplate name desc m v))"
proof -
  define g where "g = take_preview pv (choose_archive (Some v) f)"
  have "m \<in> set ([] # map ent_path (filter ent_is_tex (pv_files pv)))" using assms(5) by auto
  then have g: "af_file g = Some v" "af_preview g = Some pv" "af_main g = m" "\<not> af_submit_off g"
    using assms(3,4) by (simp_all add: g_def take_preview_def choose_archive_def js_or_def Let_def truthy_def)
  have off: "af_submit_off (choose_archive (Some v) f)" by (simp add: choose_archive_def)
  show ?thesis
    using assms(1,2,4) g off
    by (simp add: Let_def asks_def admin_run_defs previewArchive_def importTemplate_def upd_archive_def g_def)
qed

theorem archive_preview_of_other_file_witness:
  "let pv = \<lparr>pv_files = [\<lparr>ent_path = ''main.tex'', ent_size = 9, ent_is_tex = True, ent_compatible = False\<rparr>],
             pv_detected_main = Some ''main.tex''\<rparr>;
       f = choose_archive (Some (demo_upload ''a.zip'')) new_archive_form; st = admin_run demo_formats (ClickValidate 0)
         (admin_init\<lparr>archive_forms := [f]\<rparr>);
       s2 = fst (deliver [] (Inr (VPreview pv)) (snd st)
              (fst (admin_run demo_formats (ArchiveChosen 0 (Some (demo_upload ''b.zip''))) (fst st))))
   in asks (admin_run demo_formats (SubmitTemplate 0 ''T'' ''D'') s2)
        = Some (AApi (ImportTemplate ''T'' ''D'' ''main.tex'' (demo_upload ''b.zip'')))"
proof -
  let ?pv = "\<lparr>pv_files = [\<lparr>ent_path = ''main.tex'', ent_size = 9, ent_is_tex = True, ent_compatible = False\<rparr>],
             pv_detected_main = Some ''main.tex''\<rparr>"
  let ?f = "choose_archive (Some (demo_upload ''a.zip'')) new_archive_form"
  have "entry 0 (archive_forms (admin_init\<lparr>archive_forms := [?f]\<rparr>)) = Some ?f" "af_file ?f = Some (demo_upload ''a.zip'')"
    "pv_detected_main ?pv = Some ''main.tex''" "''main.tex'' \<noteq> []"
    "''main.tex'' \<in> ent_path ` {e \<in> set (pv_files ?pv). ent_is_tex e}"
    by (auto simp: entry_def choose_archive_def image_iff)
  from archive_preview_of_other_file [OF this, of demo_formats "demo_upload ''b.zip''" "''T''" "''D''"]
  show ?thesis unfolding Let_def by blast
qed

text \<open>
  A change of a file's policy goes to the team selected at the time, also while the files of the team before are
  still shown and the new ones are being fetched.
\<close>

theorem policy_of_other_team:
  assumes "entry i (policy_panels s) = Some p" and "f \<in> set (po_files p)"
  shows "let st = admin_run lf (PolicyTeam i t) s
         in asks st = Some (AApi (FilePolicies t)) \<and>
            map_option po_files (entry i (policy_panels (fst st))) = Some (po_files p) \<and>
            asks (admin_run lf (ChoosePolicy i f pol) (fst st)) = Some (AApi (SetPolicy t (fp_file f) pol))"
  using assms
  by (simp add: Let_def asks_def admin_run_defs choosePolicyTeam_def loadPolicies_def setPolicy_def upd_policy_def)

theorem policy_of_other_team_witness:
  "let f = \<lparr>fp_file = ''f1'', fp_path = ''main.tex'', fp_policy = ''EDITABLE''\<rparr>;
       s = admin_init\<lparr>policy_panels := [\<lparr>po_teams = [], po_team = Some ''p1'', po_files = [f]\<rparr>]\<rparr>
   in asks (admin_run demo_formats (ChoosePolicy 0 f ''STRUCTURE_LOCKED'') (fst (admin_run demo_formats (PolicyTeam 0 ''p2'') s)))
        = Some (AApi (SetPolicy ''p2'' ''f1'' ''STRUCTURE_LOCKED''))"
proof -
  let ?f = "\<lparr>fp_file = ''f1'', fp_path = ''main.tex'', fp_policy = ''EDITABLE''\<rparr>"
  let ?p = "\<lparr>po_teams = [], po_team = Some ''p1'', po_files = [?f]\<rparr>"
  have "entry 0 (policy_panels (admin_init\<lparr>policy_panels := [?p]\<rparr>)) = Some ?p" "?f \<in> set (po_files ?p)"
    by (simp_all add: entry_def)
  from policy_of_other_team [OF this, of demo_formats "''p2''" "''STRUCTURE_LOCKED''"]
  show ?thesis unfolding Let_def by simp
qed

text \<open>
  Choosing no template for a programme and saving leaves its template as it is: one request is made, for the
  front matter, and then the defaults are announced as saved.
\<close>

theorem programme_default_kept:
  "let st = admin_run lf (ClickSaveProgramme m [] pack) s; next = replied [Inr VUnit] st
   in asks st = Some (AApi (SaveProgrammeFront (dm_programme m) (if pack = [] then None else Some pack))) \<and>
      status_line (fst next) = (dm_programme m @ '' defaults saved for future Teams.'', False) \<and>
      asks next = Some (AApi Templates)"
  by (simp add: Let_def asks_def admin_run_defs saveProgramme_def announce_admin_def showSection_def fetch_both_def
      promise_all_def settle_all_def start_section_def opt_value_def)

text \<open>
  A record whose validation finds errors can not be corrected in its form: the problems are shown, nothing is
  applied, and every later submission of the form, whatever its values, does nothing.
\<close>

theorem record_with_errors_is_final:
  assumes "entry k (record_forms s) = Some f" and "\<not> rf_submit_off f" and "0 < ib_error_rows (bd_batch d)"
  shows "let st = admin_run lf (SubmitRecord k vs c) s; next = replied [Inr (VBatch d)] st
         in asks st = Some (AApi (ValidateRecord (dc_dataset (rf_config f)) (rf_operation f) vs)) \<and>
            settled (snd next) \<and> dialog (fst next) = dialog s \<and>
            map_option rf_result (entry k (record_forms (fst next)))
              = Some (js_join ''; '' (map (\<lambda>x. js_or (bi_problem x) []) (bd_issues d))) \<and>
            (let again = admin_run lf (SubmitRecord k vs' c') (fst next)
             in settled (snd again) \<and> fst again = fst next)"
  using assms by (simp add: Let_def asks_def admin_run_defs submitRecord_def upd_record_def)

theorem record_with_errors_is_final_witness:
  "let f = new_record_form (hd institutionDatasets) ''ADD'' [] 0; s = admin_init\<lparr>record_forms := [f]\<rparr>;
       d = \<lparr>bd_batch = \<lparr>ib_id = ''b'', ib_operation = ''ADD'', ib_status = [], ib_error_rows = 1, ib_total_rows = 1,
              ib_total_files = 1\<rparr>, bd_issues = [], bd_provisioning = None\<rparr>;
       next = replied [Inr (VBatch d)] (admin_run demo_formats (SubmitRecord 0 [] True) s)
   in settled (snd (admin_run demo_formats (SubmitRecord 0 [(''reg_no'', ''1'')] True) (fst next)))"
proof -
  let ?f = "new_record_form (hd institutionDatasets) ''ADD'' [] 0"
  let ?d = "\<lparr>bd_batch = \<lparr>ib_id = ''b'', ib_operation = ''ADD'', ib_status = [], ib_error_rows = 1, ib_total_rows = 1,
              ib_total_files = 1\<rparr>, bd_issues = [], bd_provisioning = None\<rparr>"
  have "entry 0 (record_forms (admin_init\<lparr>record_forms := [?f]\<rparr>)) = Some ?f" "\<not> rf_submit_off ?f"
    "0 < ib_error_rows (bd_batch ?d)"
    by (simp_all add: entry_def new_record_form_def)
  from record_with_errors_is_final [OF this, of demo_formats "[]" True "[(''reg_no'', ''1'')]" True]
  show ?thesis unfolding Let_def by blast
qed

text \<open>
  While a filtered page of teams is being loaded, the buttons still act on the teams selected before: they are not
  on the page that will be shown, and what is sent is the old selection.
\<close>

theorem hidden_teams_changed:
  assumes "entry i (grids s) = Some t" and "tg_selected t \<noteq> []"
  shows "let st = admin_run lf (FilterTeams i vs) s; bulk = admin_run lf (ClickBulk i status True) (fst st)
         in (\<exists>query. asks st = Some (AApi (QueryTeams query))) \<and>
            map_option (pp_loading \<circ> tg_paged) (entry i (grids (fst st))) = Some True \<and>
            asks bulk = Some (AApi (BulkLifecycle (tg_selected t) status))"
  using assms
  by (simp add: Let_def asks_def admin_run_defs filterTeams_def loadTeams_def runBulk_def upd_grid_def)

theorem hidden_teams_changed_witness:
  "let s = admin_init\<lparr>grids := [new_grid\<lparr>tg_selected := [''p1'']\<rparr>]\<rparr>
   in asks (admin_run demo_formats (ClickBulk 0 ''archived'' True)
        (fst (admin_run demo_formats (FilterTeams 0 [(''search'', ''x'')]) s))) = Some (AApi (BulkLifecycle [''p1''] ''archived''))"
proof -
  let ?t = "new_grid\<lparr>tg_selected := [''p1'']\<rparr>"
  have "entry 0 (grids (admin_init\<lparr>grids := [?t]\<rparr>)) = Some ?t" "tg_selected ?t \<noteq> []"
    by (simp_all add: entry_def)
  from hidden_teams_changed [OF this, of demo_formats "[(''search'', ''x'')]" "''archived''"]
  show ?thesis unfolding Let_def by simp
qed

end
