(* ===== verification/ClientData.thy ===== *)
theory ClientData
  imports PaperApi JsSort Dom
begin

text \<open>
  The data of the first-generation client, \<^verbatim>\<open>services/server/static/app.js\<close>: projects with their files and
  collaboration, the responses of the server, the request that every call makes, and the functions on them that
  need no page.
\<close>

section \<open>Projects\<close>

record ws_file =
  wf_path :: jsstr
  wf_policy :: "jsstr option"
  wf_draft :: bool
  wf_revision :: nat
  wf_draft_revision :: nat

record collaboration_info =
  cb_team :: jsstr
  cb_project :: jsstr
  cb_write :: bool

record project =
  pr_id :: jsstr
  pr_name :: jsstr
  pr_version :: nat
  pr_main :: "jsstr option"
  pr_files :: "ws_file list"
  pr_collab :: "collaboration_info option"

record nav_project =
  np_workspace :: jsstr
  np_id :: jsstr
  np_name :: jsstr

record nav_team =
  nt_id :: jsstr
  nt_name :: jsstr
  nt_mentor :: bool

record research_group =
  rg_id :: jsstr
  rg_name :: jsstr
  rg_workspace :: jsstr
  rg_owner :: jsstr

record template_info =
  ti_id :: jsstr
  ti_name :: jsstr

record job_info =
  jb_state :: jsstr
  jb_ahead :: nat

record artifact =
  at_id :: jsstr
  at_name :: jsstr

record publish_conflict =
  pc_path :: jsstr
  pc_reason :: jsstr
  pc_destination :: "jsstr option"

record team_user =
  tu_id :: jsstr
  tu_email :: jsstr

record project_roles =
  ro_writer :: bool
  ro_mentor :: bool
  ro_manager :: bool

section \<open>Files\<close>

definition textExtensions :: "jsstr list" where
  "textExtensions = [''tex'', ''bib'', ''cls'', ''sty'', ''bst'', ''cfg'', ''def'', ''txt'', ''csv'', ''md'', ''log'', ''aux'', ''toc'']"

definition isText :: "jsstr \<Rightarrow> bool" where
  "isText path \<longleftrightarrow> js_lower (last (js_split CHR ''.'' path)) \<in> set textExtensions"

definition file_name :: "jsstr \<Rightarrow> jsstr" where
  "file_name path = last (js_split CHR ''/'' path)"

definition record_of :: "project option \<Rightarrow> jsstr option \<Rightarrow> ws_file option" where
  "record_of p path = (case p of None \<Rightarrow> None | Some pr \<Rightarrow> List.find (\<lambda>f. Some (wf_path f) = path) (pr_files pr))"

definition isTeam :: "project option \<Rightarrow> bool" where
  "isTeam p \<longleftrightarrow> Option.bind p pr_collab \<noteq> None"

definition may_write :: "project option \<Rightarrow> bool" where
  "may_write p = (case Option.bind p pr_collab of None \<Rightarrow> False | Some c \<Rightarrow> cb_write c)"

definition canEdit :: "project option \<Rightarrow> ws_file option \<Rightarrow> bool" where
  "canEdit p f = (case f of None \<Rightarrow> False
     | Some r \<Rightarrow> \<not> isTeam p \<or> (may_write p \<and> wf_policy r = Some ''editable''))"

definition pathLooksValid :: "jsstr \<Rightarrow> bool" where
  "pathLooksValid path \<longleftrightarrow> path \<noteq> [] \<and> \<not> js_startsWith path ''/'' \<and>
     list_all (\<lambda>part. part \<noteq> [] \<and> part \<noteq> ''.'' \<and> part \<noteq> ''..'') (js_split CHR ''/'' path)"

text \<open>The file that is opened with a project: the one edited last, else one that may be edited, else the main one.\<close>

definition preferred_file :: "project option \<Rightarrow> project \<Rightarrow> jsstr list \<Rightarrow> jsstr option" where
  "preferred_file cur p recent =
     opt_or (List.find (\<lambda>path. list_ex (\<lambda>f. wf_path f = path \<and> canEdit cur (Some f)) (pr_files p)) recent)
       (opt_or (map_option wf_path (List.find (\<lambda>f. canEdit cur (Some f)) (pr_files p)))
         (if truthy (pr_main p) then pr_main p
          else case pr_files p of [] \<Rightarrow> None | f # _ \<Rightarrow> Some (wf_path f)))"

text \<open>How many lines of a log say that something is wrong.\<close>

definition error_line :: "jsstr \<Rightarrow> bool" where
  "error_line l \<longleftrightarrow> js_startsWith l ''! '' \<or> js_includes l ''Error'' \<or> js_includes l ''Undefined control sequence''"

definition count_errors :: "jsstr \<Rightarrow> nat" where
  "count_errors log = length (filter error_line (concat (map (js_split CHR 0x0D) (js_split CHR 0x0A log))))"

text \<open>The file that is shown when the current one has been deleted.\<close>

definition next_file :: "project \<Rightarrow> jsstr option" where
  "next_file p =
     (if truthy (pr_main p) \<and> list_ex (\<lambda>f. Some (wf_path f) = pr_main p) (pr_files p) then pr_main p
      else map_option wf_path (List.find (\<lambda>f. isText (wf_path f)) (pr_files p)))"

section \<open>Messages\<close>

definition readableError :: "api_error \<Rightarrow> jsstr" where
  "readableError e =
     (if err_status e = 401 then ''Session expired -- your local changes are still retained.''
      else if err_status e = 0 then ''Offline -- changes not saved.''
      else if err_message e = ''stale workspace version''
      then ''Project changed since it was opened. Reload it and try again.''
      else if err_message e = ''protected by project policy'' then ''This file is protected by project policy.''
      else if err_message e = ''draft changed in another session'' then ''Your private draft changed in another session.''
      else js_or (Some (err_message e)) ''Something went wrong.'')"

datatype ws_state = WClean | WDirty | WSaving | WSaved | WSavedPrivate | WPublishing | WConflict | WOffline

primrec state_label :: "ws_state \<Rightarrow> jsstr" where
  "state_label WClean = ''Saved''"
| "state_label WDirty = ''Unsaved changes''"
| "state_label WSaving = ''Saving...''"
| "state_label WSaved = ''Saved''"
| "state_label WSavedPrivate = ''Private changes saved''"
| "state_label WPublishing = ''Publishing...''"
| "state_label WConflict = ''Save conflict''"
| "state_label WOffline = ''Offline -- changes not saved''"

definition waiting_job :: "job_info \<Rightarrow> bool" where
  "waiting_job j \<longleftrightarrow> jb_state j \<in> {''queued'', ''claimed'', ''running''}"

definition jobLabel :: "job_info \<Rightarrow> jsstr" where
  "jobLabel j =
     (if jb_state j = ''queued'' then nat_str (jb_ahead j) @ '' queued jobs ahead''
      else if jb_state j = ''claimed'' \<or> jb_state j = ''running'' then ''Compiling''
      else if jb_state j = ''succeeded'' then ''Success'' else ''Failed'')"

definition conflictCopy :: "(jsstr \<times> jsstr) list" where
  "conflictCopy =
     [(''changed_since_edit'', ''This file changed after you started editing.''),
      (''destination_exists'', ''The rename destination already exists.''),
      (''missing_source'', ''The original file no longer exists.''),
      (''main_target_missing'', ''The selected Main file no longer exists.''),
      (''main_locked'', ''This project's Main file is locked.''), (''policy_changed'', ''This file is now protected.''),
      (''permission_changed'', ''Your project permissions changed.'')]"

definition conflict_text :: "publish_conflict \<Rightarrow> jsstr list" where
  "conflict_text c =
     [pc_path c, (case map_of conflictCopy (pc_reason c) of Some t \<Rightarrow> t | None \<Rightarrow> ''This change cannot be published yet.'')]
     @ (if truthy (pc_destination c) then [''Destination: '' @ the (pc_destination c)] else [])"

section \<open>Requests\<close>

text \<open>
  A write of a file carries the version of the workspace and, in a team, the revisions of the file and of its draft.
\<close>

datatype (plugins only: size) client_api =
    GetProject jsstr | ListProjects | ListGroups | ListTeams | TeamProjects jsstr | GetFile jsstr jsstr
  | PutFile jsstr jsstr nat "(nat \<times> nat) option" jsstr
  | MoveFile jsstr jsstr nat jsstr | RemoveProjectFile jsstr jsstr nat | ChooseMainFile jsstr jsstr nat
  | StartCompile jsstr | GetJob jsstr | GetArtifacts jsstr | GetArtifactText jsstr jsstr | PublishChanges jsstr
  | ListTemplates | NewProject "jsstr option" "jsstr option" jsstr | ImportZip jsstr
  | TeamMembers jsstr | ProjectMembers jsstr | SetRoles jsstr jsstr project_roles | RemoveMember jsstr jsstr
  | AddToTeam jsstr jsstr | GroupMembers jsstr | AddToGroup jsstr jsstr | RemoveFromGroup jsstr jsstr
  | NewGroup jsstr | RenameGroup jsstr jsstr | DeleteGroup jsstr | NewTeam jsstr | WhoAmI

text \<open>\<open>encodeURI\<close> keeps the characters that structure a URI.\<close>

definition uri_byte :: "nat \<Rightarrow> jsstr" where
  "uri_byte b = (if b \<in> set (map of_char ''#$&+,/:;=?@'') then [char_of b] else percent_byte b)"

definition encodeURI :: "jsstr \<Rightarrow> jsstr" where
  "encodeURI s = concat (map uri_byte (concat (map utf8 s)))"

datatype client_body = CNone | CJson json | CText jsstr | CZip

record client_request =
  cq_path :: jsstr
  cq_method :: jsstr
  cq_headers :: "(jsstr \<times> jsstr) list"
  cq_body :: client_body

definition c_get :: "jsstr \<Rightarrow> client_request" where
  "c_get path = \<lparr>cq_path = path, cq_method = ''GET'', cq_headers = [], cq_body = CNone\<rparr>"

definition c_json :: "jsstr \<Rightarrow> jsstr \<Rightarrow> (jsstr \<times> jsstr) list \<Rightarrow> (jsstr \<times> json) list \<Rightarrow> client_request" where
  "c_json path verb headers body = \<lparr>cq_path = path, cq_method = verb,
     cq_headers = (''Content-Type'', ''application/json'') # headers, cq_body = CJson (JObj body)\<rparr>"

definition c_delete :: "jsstr \<Rightarrow> (jsstr \<times> jsstr) list \<Rightarrow> client_request" where
  "c_delete path headers = \<lparr>cq_path = path, cq_method = ''DELETE'', cq_headers = headers, cq_body = CNone\<rparr>"

definition if_match :: "nat \<Rightarrow> jsstr \<times> jsstr" where
  "if_match v = (''If-Match'', CHR 0x22 # nat_str v @ [CHR 0x22])"

definition file_url :: "jsstr \<Rightarrow> jsstr \<Rightarrow> jsstr" where
  "file_url i path = ''/api/projects/'' @ i @ ''/files/'' @ encodeURI path"

definition roles_json :: "project_roles \<Rightarrow> (jsstr \<times> json) list" where
  "roles_json r = [(''writer'', JBool (ro_writer r)), (''mentor'', JBool (ro_mentor r)),
     (''project_manager'', JBool (ro_manager r))]"

primrec client_http :: "client_api \<Rightarrow> client_request" where
  "client_http (GetProject i) = c_get (''/api/projects/'' @ i)"
| "client_http ListProjects = c_get ''/api/projects''"
| "client_http ListGroups = c_get ''/api/research-groups''"
| "client_http ListTeams = c_get ''/api/teams''"
| "client_http (TeamProjects t) = c_get (''/api/teams/'' @ t @ ''/projects'')"
| "client_http (GetFile i path) = c_get (file_url i path)"
| "client_http (PutFile i path v revs content) = \<lparr>cq_path = file_url i path, cq_method = ''PUT'',
     cq_headers = if_match v # (case revs of None \<Rightarrow> []
       | Some (r, d) \<Rightarrow> [(''X-File-Revision'', nat_str r), (''If-Draft-Match'', nat_str d)]),
     cq_body = CText content\<rparr>"
| "client_http (MoveFile i path v to) = c_json (file_url i path) ''PATCH'' [if_match v] [(''path'', JStr to)]"
| "client_http (RemoveProjectFile i path v) = c_delete (file_url i path) [if_match v]"
| "client_http (ChooseMainFile i path v) =
     c_json (''/api/projects/'' @ i @ ''/main'') ''POST'' [] [(''path'', JStr path), (''version'', JNat v)]"
| "client_http (StartCompile i) = c_json (''/api/projects/'' @ i @ ''/compile'') ''POST'' [] []"
| "client_http (GetJob j) = c_get (''/api/jobs/'' @ j)"
| "client_http (GetArtifacts j) = c_get (''/api/jobs/'' @ j @ ''/artifacts'')"
| "client_http (GetArtifactText j a) = c_get (''/api/jobs/'' @ j @ ''/artifacts/'' @ a)"
| "client_http (PublishChanges p) = \<lparr>cq_path = ''/api/team-projects/'' @ p @ ''/publish'', cq_method = ''POST'',
     cq_headers = [], cq_body = CNone\<rparr>"
| "client_http ListTemplates = c_get ''/api/templates''"
| "client_http (NewProject team template name) =
     c_json ((case team of None \<Rightarrow> ''/api'' | Some t \<Rightarrow> ''/api/teams/'' @ t)
        @ (case template of None \<Rightarrow> [] | Some t \<Rightarrow> ''/templates/'' @ t) @ ''/projects'') ''POST'' [] [(''name'', JStr name)]"
| "client_http (ImportZip name) = \<lparr>cq_path = ''/api/projects/import?name='' @ encodeURIComponent name,
     cq_method = ''POST'', cq_headers = [(''Content-Type'', ''application/zip'')], cq_body = CZip\<rparr>"
| "client_http (TeamMembers t) = c_get (''/api/teams/'' @ t @ ''/members'')"
| "client_http (ProjectMembers p) = c_get (''/api/team-projects/'' @ p @ ''/members'')"
| "client_http (SetRoles p email r) =
     c_json (''/api/team-projects/'' @ p @ ''/members'') ''POST'' [] ((''email'', JStr email) # roles_json r)"
| "client_http (RemoveMember p u) = c_delete (''/api/team-projects/'' @ p @ ''/members/'' @ u) []"
| "client_http (AddToTeam t email) = c_json (''/api/teams/'' @ t @ ''/members'') ''POST'' []
     [(''email'', JStr email), (''group_manager'', JBool False)]"
| "client_http (GroupMembers g) = c_get (''/api/research-groups/'' @ g @ ''/members'')"
| "client_http (AddToGroup g email) =
     c_json (''/api/research-groups/'' @ g @ ''/members'') ''POST'' [] [(''email'', JStr email)]"
| "client_http (RemoveFromGroup g u) = c_delete (''/api/research-groups/'' @ g @ ''/members/'' @ u) []"
| "client_http (NewGroup name) = c_json ''/api/research-groups'' ''POST'' [] [(''name'', JStr name)]"
| "client_http (RenameGroup g name) = c_json (''/api/research-groups/'' @ g) ''PATCH'' [] [(''name'', JStr name)]"
| "client_http (DeleteGroup g) = c_delete (''/api/research-groups/'' @ g) []"
| "client_http (NewTeam name) =
     c_json ''/api/teams'' ''POST'' [] [(''name'', JStr name), (''group_type'', JStr ''research_team'')]"
| "client_http WhoAmI = c_get ''/api/auth/me''"

end
