(* ===== verification/ClientPage.thy ===== *)
theory ClientPage
  imports ClientData FileTree
begin

text \<open>
  The state of the first-generation client, \<^verbatim>\<open>services/server/static/app.js\<close> and \<^verbatim>\<open>static/state.js\<close>: the object
  \<open>state\<close>, what the browser stores, the controls that the functions read, and the functions that do not wait. The
  buffer of a tab is an object that a save under way holds on to, so buffers are in a store and tabs refer to them
  by position.
\<close>

section \<open>State\<close>

record tab_buffer =
  bf_text :: jsstr
  bf_dirty :: bool
  bf_saving :: bool

datatype dialog_name =
    DFile | DActions | DRename | DDelete | DProject | DCompile | DConflict | DCommand | DTeam | DGroup | DGroupRename
  | DGroupDelete | DMember | DGroupMember

record shown_file =
  sf_breadcrumb :: jsstr
  sf_meta :: jsstr
  sf_main_hidden :: bool
  sf_note_hidden :: bool
  sf_note :: jsstr

record navigation =
  nv_projects :: "nav_project list"
  nv_groups :: "research_group list"
  nv_teams :: "(nav_team \<times> nav_project list) list"
  nv_mentor_hidden :: bool

text \<open>
  The panel of a team: the project chosen and the members fetched. A row of its list has the roles of a member, and
  whether they can be changed and the member removed.
\<close>

datatype list_row = MemberRow team_user project_roles bool bool | NoteRow jsstr

record team_panel =
  tm_team :: nav_team
  tm_projects :: "nav_project list"
  tm_project :: "jsstr option"
  tm_members :: "team_user list option"

record new_project_form =
  nf_teams :: "(jsstr \<times> jsstr) list"
  nf_in_team :: bool
  nf_team :: jsstr
  nf_templates :: "template_info list"

record 'c command_list =
  cm_items :: "(jsstr \<times> 'c) list"
  cm_index :: int
  cm_query :: jsstr

record identity =
  iu_id :: jsstr
  iu_email :: jsstr
  iu_type :: jsstr

text \<open>What the body of the page is: the workspace, the administration panel of this client, or a refusal.\<close>

datatype screen = LoginScreen | WorkspaceScreen | AdminScreen | DeniedScreen

datatype command =
    CmdCompile | CmdSave | CmdPublish | CmdPublishCompile | CmdProblems | CmdTogglePdf | CmdToggleSidebar
  | CmdToggleBottom | CmdResetLayout | CmdQuickOpen | CmdOpenFile jsstr

record layout_prefs =
  ly_left :: int
  ly_right :: int
  ly_bottom :: int
  ly_sidebar :: bool
  ly_pdf :: bool

definition layout_defaults :: layout_prefs where
  "layout_defaults = \<lparr>ly_left = 242, ly_right = 520, ly_bottom = 190, ly_sidebar = False, ly_pdf = False\<rparr>"

record client =
  cl_boot :: jsstr
  cl_screen :: screen
  cl_goto :: "jsstr option"
  cl_user :: "identity option"
  cl_project :: "project option"
  cl_current :: "jsstr option"
  cl_buffers :: "tab_buffer list"
  cl_tabs :: "(jsstr \<times> nat) list"
  cl_state :: ws_state
  cl_timer :: bool
  cl_job :: "jsstr option option"
  cl_polls :: "jsstr list"
  cl_team :: "jsstr option"
  cl_closed :: "jsstr list"
  cl_structural :: "jsstr list"
  cl_action :: "jsstr option"
  cl_main_action_hidden :: bool
  cl_delete_copy :: "jsstr \<times> jsstr"
  cl_mutating :: bool
  cl_cache :: "(jsstr \<times> jsstr) list"
  cl_recent :: "(jsstr \<times> jsstr list) list"
  cl_editor :: jsstr
  cl_editor_off :: bool
  cl_save_off :: bool
  cl_new_file_off :: bool
  cl_publish_hidden :: bool
  cl_compile_off :: bool
  cl_compile_text :: jsstr
  cl_compile_status :: jsstr
  cl_log :: jsstr
  cl_errors :: nat
  cl_pdf :: "jsstr option"
  cl_shown :: shown_file
  cl_title :: "jsstr \<times> bool"
  cl_open :: "dialog_name list"
  cl_problem :: "dialog_name \<Rightarrow> jsstr"
  cl_conflicts :: "jsstr list list"
  cl_nav :: navigation
  cl_panel :: "team_panel option"
  cl_rows :: "list_row list"
  cl_form_hidden :: bool
  cl_group :: "research_group option"
  cl_group_rows :: "list_row list"
  cl_group_form_hidden :: bool
  cl_new :: new_project_form
  cl_commands :: "command command_list"
  cl_layout :: layout_prefs
  cl_bottom_closed :: bool
  cl_toasts :: "(jsstr \<times> bool) list"

definition no_roles :: project_roles where
  "no_roles = \<lparr>ro_writer = False, ro_mentor = False, ro_manager = False\<rparr>"

definition client_init :: client where
  "client_init = \<lparr>cl_boot = ''starting'', cl_screen = LoginScreen, cl_goto = None, cl_user = None, cl_project = None, cl_current = None, cl_buffers = [], cl_tabs = [], cl_state = WClean,
     cl_timer = False, cl_job = None, cl_polls = [], cl_team = None, cl_closed = [], cl_structural = [], cl_action = None,
     cl_main_action_hidden = False, cl_delete_copy = ([], []), cl_mutating = False, cl_cache = [], cl_recent = [], cl_editor = [], cl_editor_off = True, cl_save_off = True,
     cl_new_file_off = True, cl_publish_hidden = True, cl_compile_off = True, cl_compile_text = ''Compile'',
     cl_compile_status = [], cl_log = [], cl_errors = 0, cl_pdf = None,
     cl_shown = \<lparr>sf_breadcrumb = ''Choose a file'', sf_meta = [], sf_main_hidden = True, sf_note_hidden = True,
       sf_note = ''Read only''\<rparr>,
     cl_title = (''LaTeX Core'', False), cl_open = [], cl_problem = (\<lambda>_. []), cl_conflicts = [],
     cl_nav = \<lparr>nv_projects = [], nv_groups = [], nv_teams = [], nv_mentor_hidden = True\<rparr>, cl_panel = None, cl_rows = [],
     cl_form_hidden = True, cl_group = None, cl_group_rows = [], cl_group_form_hidden = True,
     cl_new = \<lparr>nf_teams = [], nf_in_team = False, nf_team = [], nf_templates = []\<rparr>,
     cl_commands = \<lparr>cm_items = [], cm_index = 0, cm_query = []\<rparr>, cl_layout = layout_defaults, cl_bottom_closed = False,
     cl_toasts = []\<rparr>"

section \<open>Reading the state\<close>

definition currentRecord :: "client \<Rightarrow> ws_file option" where
  "currentRecord s = record_of (cl_project s) (cl_current s)"

definition buffer_at :: "jsstr option \<Rightarrow> client \<Rightarrow> nat option" where
  "buffer_at path s = Option.bind path (map_of (cl_tabs s))"

text \<open>\<open>buffer()\<close>.\<close>

definition current_buffer :: "client \<Rightarrow> tab_buffer option" where
  "current_buffer s = map_option (\<lambda>i. cl_buffers s ! i) (buffer_at (cl_current s) s)"

definition buffer_dirty :: "client \<Rightarrow> bool" where
  "buffer_dirty s = (case current_buffer s of None \<Rightarrow> False | Some b \<Rightarrow> bf_dirty b)"

definition may_edit :: "client \<Rightarrow> bool" where
  "may_edit s = canEdit (cl_project s) (currentRecord s)"

definition project_id :: "client \<Rightarrow> jsstr option" where
  "project_id s = map_option pr_id (cl_project s)"

definition user_id :: "client \<Rightarrow> jsstr" where
  "user_id s = (case cl_user s of None \<Rightarrow> [] | Some u \<Rightarrow> iu_id u)"

definition hasKnownPrivateChanges :: "client \<Rightarrow> bool" where
  "hasKnownPrivateChanges s = (case cl_project s of None \<Rightarrow> False
     | Some p \<Rightarrow> list_ex wf_draft (pr_files p) \<or> pr_id p \<in> set (cl_structural s))"

text \<open>The lists are kept by key; what has no project is kept under the empty one.\<close>

definition projectCacheKey :: "client \<Rightarrow> jsstr" where
  "projectCacheKey s = (case project_id s of None \<Rightarrow> [] | Some i \<Rightarrow> ''latex-core.recent.'' @ i)"

definition recentFiles :: "client \<Rightarrow> jsstr list" where
  "recentFiles s = (case map_of (cl_recent s) (projectCacheKey s) of None \<Rightarrow> [] | Some ps \<Rightarrow> ps)"

definition remember :: "jsstr \<Rightarrow> client \<Rightarrow> client" where
  "remember path s =
     s\<lparr>cl_recent := map_set (projectCacheKey s) (take 8 (path # filter (\<lambda>p. p \<noteq> path) (recentFiles s))) (cl_recent s)\<rparr>"

definition emergencyKey :: "client \<Rightarrow> jsstr" where
  "emergencyKey s = (case (project_id s, cl_current s) of
     (Some i, Some path) \<Rightarrow> if path = [] then [] else ''latex-core.emergency.'' @ i @ ''.'' @ path | _ \<Rightarrow> [])"

definition cacheBuffer :: "jsstr \<Rightarrow> client \<Rightarrow> client" where
  "cacheBuffer t s = (let key = emergencyKey s in if key = [] then s else s\<lparr>cl_cache := map_set key t (cl_cache s)\<rparr>)"

definition clearBufferCache :: "client \<Rightarrow> client" where
  "clearBufferCache s = (let key = emergencyKey s
     in if key = [] then s else s\<lparr>cl_cache := filter (\<lambda>kv. fst kv \<noteq> key) (cl_cache s)\<rparr>)"

section \<open>Controls\<close>

definition toast :: "jsstr \<Rightarrow> bool \<Rightarrow> client \<Rightarrow> client" where
  "toast m failed s = s\<lparr>cl_toasts := cl_toasts s @ [(m, failed)]\<rparr>"

definition setSaveState :: "ws_state \<Rightarrow> client \<Rightarrow> client" where
  "setSaveState v s = s\<lparr>cl_state := v,
     cl_save_off := cl_project s = None \<or> \<not> truthy (cl_current s) \<or> \<not> buffer_dirty s \<or> \<not> may_edit s \<or> v = WSaving,
     cl_title := (js_or (map_option pr_name (cl_project s)) ''LaTeX Core'', buffer_dirty s)\<rparr>"

definition updateTop :: "client \<Rightarrow> client" where
  "updateTop s = setSaveState (cl_state s) (s\<lparr>
     cl_publish_hidden := \<not> may_write (cl_project s),
     cl_new_file_off := cl_project s = None \<or> isTeam (cl_project s) \<and> \<not> may_write (cl_project s),
     cl_compile_off := cl_project s = None \<or> cl_job s \<noteq> None\<rparr>)"

definition file_meta :: "ws_file option \<Rightarrow> jsstr" where
  "file_meta r = (case r of None \<Rightarrow> []
     | Some f \<Rightarrow> if wf_draft f then ''Private working copy''
         else if truthy (wf_policy f) \<and> wf_policy f \<noteq> Some ''editable'' then ''Protected by project policy'' else [])"

definition show_record :: "client \<Rightarrow> shown_file" where
  "show_record s =
     (let path = cl_current s; r = currentRecord s; tab = current_buffer s; txt = truthy path \<and> isText (the path);
          editable = tab \<noteq> None \<and> txt \<and> canEdit (cl_project s) r
      in \<lparr>sf_breadcrumb = (if truthy path then js_join '' / '' (js_split CHR ''/'' (the path)) else ''Choose a file''),
          sf_meta = file_meta r,
          sf_main_hidden = \<not> truthy path \<or> \<not> js_endsWith (the path) ''.tex'' \<or> Option.bind (cl_project s) pr_main = path
            \<or> \<not> canEdit (cl_project s) r,
          sf_note_hidden = (tab = None \<or> txt \<and> editable),
          sf_note = (if tab \<noteq> None \<and> \<not> txt then ''Binary asset'' else sf_note (cl_shown s))\<rparr>)"

definition showFile :: "client \<Rightarrow> client" where
  "showFile s =
     (let r = currentRecord s; tab = current_buffer s
      in setSaveState (if buffer_dirty s then WDirty
             else if (case r of None \<Rightarrow> False | Some f \<Rightarrow> wf_draft f) then WSavedPrivate else WSaved)
           (s\<lparr>cl_shown := show_record s, cl_editor := (case tab of None \<Rightarrow> [] | Some b \<Rightarrow> bf_text b),
              cl_editor_off := \<not> (tab \<noteq> None \<and> truthy (cl_current s) \<and> isText (the (cl_current s)) \<and> canEdit (cl_project s) r)\<rparr>))"

definition clearEditor :: "client \<Rightarrow> client" where
  "clearEditor s = setSaveState WClean (s\<lparr>cl_current := None, cl_editor := [], cl_editor_off := True,
     cl_shown := (cl_shown s)\<lparr>sf_breadcrumb := ''Choose a file'', sf_meta := [], sf_note_hidden := True\<rparr>\<rparr>)"

definition open_dialog :: "dialog_name \<Rightarrow> client \<Rightarrow> client" where
  "open_dialog d s = s\<lparr>cl_open := d # removeAll d (cl_open s)\<rparr>"

definition close_dialog :: "dialog_name \<Rightarrow> client \<Rightarrow> client" where
  "close_dialog d s = s\<lparr>cl_open := removeAll d (cl_open s)\<rparr>"

definition closeFileDialogs :: "client \<Rightarrow> client" where
  "closeFileDialogs s = s\<lparr>cl_open := filter (\<lambda>d. d \<notin> {DActions, DRename, DDelete}) (cl_open s)\<rparr>"

definition set_problem :: "dialog_name \<Rightarrow> jsstr \<Rightarrow> client \<Rightarrow> client" where
  "set_problem d m s = s\<lparr>cl_problem := (cl_problem s)(d := m)\<rparr>"

section \<open>Buffers and tabs\<close>

definition upd_buffer :: "nat \<Rightarrow> (tab_buffer \<Rightarrow> tab_buffer) \<Rightarrow> client \<Rightarrow> client" where
  "upd_buffer i f s = s\<lparr>cl_buffers := (if i < length (cl_buffers s) then (cl_buffers s)[i := f (cl_buffers s ! i)] else cl_buffers s)\<rparr>"

definition set_version :: "nat \<Rightarrow> client \<Rightarrow> client" where
  "set_version v s = s\<lparr>cl_project := map_option (\<lambda>p. p\<lparr>pr_version := v\<rparr>) (cl_project s)\<rparr>"

text \<open>\<open>state.tabs.set(path, { text, dirty: false, saving: false })\<close>.\<close>

definition new_tab :: "jsstr \<Rightarrow> jsstr \<Rightarrow> client \<Rightarrow> client" where
  "new_tab path t s = s\<lparr>cl_buffers := cl_buffers s @ [\<lparr>bf_text = t, bf_dirty = False, bf_saving = False\<rparr>],
     cl_tabs := map_set path (length (cl_buffers s)) (cl_tabs s)\<rparr>"

definition delete_tab :: "jsstr \<Rightarrow> client \<Rightarrow> client" where
  "delete_tab path s = s\<lparr>cl_tabs := filter (\<lambda>t. fst t \<noteq> path) (cl_tabs s)\<rparr>"

definition move_tab :: "jsstr \<Rightarrow> jsstr \<Rightarrow> client \<Rightarrow> client" where
  "move_tab from to s = (case map_of (cl_tabs s) from of None \<Rightarrow> s
     | Some i \<Rightarrow> s\<lparr>cl_tabs := map_set to i (filter (\<lambda>t. fst t \<noteq> from) (cl_tabs s))\<rparr>)"

text \<open>What closing a tab does once nothing is left to be saved.\<close>

definition drop_tab :: "jsstr \<Rightarrow> client \<Rightarrow> client" where
  "drop_tab path s =
     (let s1 = delete_tab path s
      in if cl_current s1 = Some path
         then (let s2 = s1\<lparr>cl_current := (case cl_tabs s1 of [] \<Rightarrow> None | (q, _) # _ \<Rightarrow> if q = [] then None else Some q)\<rparr>
               in if cl_current s2 \<noteq> None then showFile s2 else clearEditor s2)
         else s1)"

definition onEditorInput :: "jsstr \<Rightarrow> client \<Rightarrow> client" where
  "onEditorInput t s = (case buffer_at (cl_current s) s of None \<Rightarrow> s\<lparr>cl_editor := t\<rparr>
     | Some i \<Rightarrow>
         if \<not> may_edit s then s\<lparr>cl_editor := t\<rparr>
         else (setSaveState WDirty (cacheBuffer t (upd_buffer i (\<lambda>b. b\<lparr>bf_text := t, bf_dirty := True\<rparr>) (s\<lparr>cl_editor := t\<rparr>))))
                \<lparr>cl_timer := True\<rparr>)"

end
