(* ===== verification/ClientCalls.thy ===== *)
theory ClientCalls
  imports ClientPage Async
begin

text \<open>
  The asynchronous functions of the first-generation client, \<^verbatim>\<open>services/server/static/app.js\<close>: saving and
  opening files, projects, the mutations of files, compilation and publication, as calls over the state of
  \<open>ClientPage\<close>. A call that nothing waits for, and one that a timer makes, is an event of its own: the timer of the
  autosave is \<^const>\<open>cl_timer\<close>, the jobs that are to be polled are in \<^const>\<open>cl_polls\<close>.
\<close>

section \<open>Requests and answers\<close>

datatype (plugins only: size) creq = CApi client_api | CompileChoice

datatype (plugins only: size) canswer =
    GUnit | GProject project | GProjects "nav_project list" | GGroups "research_group list" | GTeams "nav_team list"
  | GText jsstr | GVersion nat | GCreated jsstr | GJobId jsstr | GJob job_info | GArtifacts "artifact list"
  | GPublished nat | GConflicts api_error "publish_conflict list" | GTemplates "template_info list"
  | GUsers "team_user list" | GRoles "(jsstr \<times> project_roles) list" | GChoice jsstr | GGroup research_group | GIdentity identity

type_synonym 'r ccall = "(client, creq, canswer, 'r) async"

definition g_project where "g_project v = (case v of GProject x \<Rightarrow> Some x | _ \<Rightarrow> None)"
definition g_projects where "g_projects v = (case v of GProjects x \<Rightarrow> Some x | _ \<Rightarrow> None)"
definition g_groups where "g_groups v = (case v of GGroups x \<Rightarrow> Some x | _ \<Rightarrow> None)"
definition g_teams where "g_teams v = (case v of GTeams x \<Rightarrow> Some x | _ \<Rightarrow> None)"
definition g_text where "g_text v = (case v of GText x \<Rightarrow> Some x | _ \<Rightarrow> None)"
definition g_version where "g_version v = (case v of GVersion x \<Rightarrow> Some x | _ \<Rightarrow> None)"
definition g_created where "g_created v = (case v of GCreated x \<Rightarrow> Some x | _ \<Rightarrow> None)"
definition g_job_id where "g_job_id v = (case v of GJobId x \<Rightarrow> Some x | _ \<Rightarrow> None)"
definition g_job where "g_job v = (case v of GJob x \<Rightarrow> Some x | _ \<Rightarrow> None)"
definition g_artifacts where "g_artifacts v = (case v of GArtifacts x \<Rightarrow> Some x | _ \<Rightarrow> None)"
definition g_templates where "g_templates v = (case v of GTemplates x \<Rightarrow> Some x | _ \<Rightarrow> None)"
definition g_users where "g_users v = (case v of GUsers x \<Rightarrow> Some x | _ \<Rightarrow> None)"
definition g_roles where "g_roles v = (case v of GRoles x \<Rightarrow> Some x | _ \<Rightarrow> None)"
definition g_choice where "g_choice v = (case v of GChoice x \<Rightarrow> Some x | _ \<Rightarrow> None)"
definition g_group where "g_group v = (case v of GGroup x \<Rightarrow> Some x | _ \<Rightarrow> None)"
definition g_identity where "g_identity v = (case v of GIdentity x \<Rightarrow> Some x | _ \<Rightarrow> None)"

lemmas canswer_defs = g_project_def g_projects_def g_groups_def g_teams_def g_text_def g_version_def g_created_def
  g_job_id_def g_job_def g_artifacts_def g_templates_def g_users_def g_roles_def g_choice_def g_group_def g_identity_def

text \<open>
  An error that is no response has no status; unlike that of a failed fetch, which is 0, it is not a number, and
  stands as 1.
\<close>

definition script_error :: api_error where
  "script_error = \<lparr>err_message = ''TypeError'', err_status = 1\<rparr>"

definition ask :: "client_api \<Rightarrow> (canswer \<Rightarrow> 'x option) \<Rightarrow> 'x ccall" where
  "ask q f = bind (request (CApi q)) (\<lambda>v. case f v of None \<Rightarrow> throw script_error | Some x \<Rightarrow> ret x)"

definition tell :: "client_api \<Rightarrow> unit ccall" where
  "tell q = bind (request (CApi q)) (\<lambda>_. ret ())"

text \<open>Code that reads a property of the project.\<close>

definition with_project :: "(project \<Rightarrow> 'r ccall) \<Rightarrow> 'r ccall" where
  "with_project f = look (\<lambda>s. case cl_project s of None \<Rightarrow> throw script_error | Some p \<Rightarrow> f p)"

text \<open>\<open>try { m } finally { f }\<close>.\<close>

definition in_the_end :: "'r ccall \<Rightarrow> (client \<Rightarrow> client) \<Rightarrow> 'r ccall" where
  "in_the_end m f = bind (attempt m (\<lambda>e. bind (act f) (\<lambda>_. throw e))) (\<lambda>r. bind (act f) (\<lambda>_. ret r))"

definition complain_ws :: "api_error \<Rightarrow> unit ccall" where
  "complain_ws e = act (toast (readableError e) True)"

definition then_ret :: "unit ccall \<Rightarrow> 'r \<Rightarrow> 'r ccall" where
  "then_ret m r = bind m (\<lambda>_. ret r)"

section \<open>Saving\<close>

definition refreshProject :: "unit ccall" where
  "refreshProject = look (\<lambda>s. case cl_project s of None \<Rightarrow> ret ()
     | Some p \<Rightarrow> bind (ask (GetProject (pr_id p)) g_project) (\<lambda>q. act (\<lambda>s. updateTop (s\<lparr>cl_project := Some q\<rparr>))))"

definition revisions :: "client \<Rightarrow> (nat \<times> nat) option" where
  "revisions s = (if isTeam (cl_project s)
     then Some (case currentRecord s of None \<Rightarrow> (0, 0) | Some r \<Rightarrow> (wf_revision r, wf_draft_revision r)) else None)"

definition mark_saved :: "nat \<Rightarrow> jsstr \<Rightarrow> client \<Rightarrow> client" where
  "mark_saved i payload s =
     (if bf_text (cl_buffers s ! i) = payload then clearBufferCache (upd_buffer i (\<lambda>b. b\<lparr>bf_dirty := False\<rparr>) s) else s)"

definition announce_saved :: "client \<Rightarrow> client" where
  "announce_saved s = (if isTeam (cl_project s) then toast ''Private changes saved'' False (setSaveState WSavedPrivate s)
     else toast ''Changes saved'' False (setSaveState WSaved s))"

definition save_failed :: "nat \<Rightarrow> api_error \<Rightarrow> client \<Rightarrow> client" where
  "save_failed i e s = toast (readableError e) True (setSaveState
     (if err_status e = 0 then WOffline else if err_status e = 409 then WConflict else WDirty)
     (cacheBuffer (bf_text (cl_buffers s ! i)) s))"

definition save_ended :: "nat \<Rightarrow> client \<Rightarrow> client" where
  "save_ended i s = (let s1 = upd_buffer i (\<lambda>b. b\<lparr>bf_saving := False\<rparr>) s
     in if bf_dirty (cl_buffers s1 ! i) then setSaveState WDirty s1 else s1)"

definition save_started :: "nat \<Rightarrow> client \<Rightarrow> client" where
  "save_started i s = setSaveState WSaving (upd_buffer i (\<lambda>b. b\<lparr>bf_saving := True\<rparr>) s)"

definition save_ws :: "bool ccall" where
  "save_ws = look (\<lambda>s. case buffer_at (cl_current s) s of None \<Rightarrow> ret True
     | Some i \<Rightarrow>
         (let b = cl_buffers s ! i; payload = bf_text b
          in if \<not> bf_dirty b \<or> bf_saving b \<or> \<not> may_edit s then ret True
             else bind (act (save_started i)) (\<lambda>_. in_the_end
               (attempt
                 (with_project (\<lambda>p. bind
                    (ask (PutFile (pr_id p) (the (cl_current s)) (pr_version p) (revisions s) payload) g_version)
                    (\<lambda>v. then_ret (steps [act (set_version v), act (mark_saved i payload), refreshProject,
                       act announce_saved]) True)))
                 (\<lambda>e. then_ret (act (save_failed i e)) False))
               (save_ended i))))"

definition flushDirty :: "bool ccall" where
  "flushDirty = bind (act (\<lambda>s. s\<lparr>cl_timer := False\<rparr>)) (\<lambda>_. save_ws)"

text \<open>\<open>if (!(await flushDirty())) return\<close>.\<close>

definition flushed :: "unit ccall \<Rightarrow> unit ccall" where
  "flushed m = bind flushDirty (\<lambda>saved. if saved then m else ret ())"

section \<open>Opening\<close>

definition openFile_ws :: "jsstr \<Rightarrow> unit ccall" where
  "openFile_ws path = look (\<lambda>s. if cl_current s = Some path then ret ()
     else flushed (attempt
       (steps
         [look (\<lambda>s. if map_of (cl_tabs s) path \<noteq> None then ret ()
            else bind (if isText path then with_project (\<lambda>p. ask (GetFile (pr_id p) path) g_text) else ret [])
              (\<lambda>t. act (new_tab path t))),
          act (\<lambda>s. showFile (remember path (s\<lparr>cl_current := Some path\<rparr>)))])
       complain_ws))"

definition switchTab :: "jsstr \<Rightarrow> unit ccall" where
  "switchTab path = look (\<lambda>s. if cl_current s = Some path then ret ()
     else flushed (act (\<lambda>s. showFile (s\<lparr>cl_current := Some path\<rparr>))))"

definition closeTab :: "jsstr \<Rightarrow> unit ccall" where
  "closeTab path = look (\<lambda>s. if cl_current s = Some path then flushed (act (drop_tab path)) else act (drop_tab path))"

definition take_navigation :: "nav_project list \<Rightarrow> research_group list \<Rightarrow> nav_team list \<Rightarrow> client \<Rightarrow> client" where
  "take_navigation ps gs ts s = s\<lparr>cl_nav := \<lparr>nv_projects = ps, nv_groups = gs, nv_teams = [],
     nv_mentor_hidden = \<not> list_ex nt_mentor ts\<rparr>\<rparr>"

definition add_team_row :: "nav_team \<Rightarrow> nav_project list \<Rightarrow> client \<Rightarrow> client" where
  "add_team_row t ps s = s\<lparr>cl_nav := (cl_nav s)\<lparr>nv_teams := nv_teams (cl_nav s) @ [(t, ps)]\<rparr>\<rparr>"

fun load_teams :: "nav_team list \<Rightarrow> unit ccall" where
  "load_teams [] = ret ()"
| "load_teams (t # ts) = bind (ask (TeamProjects (nt_id t)) g_projects) (\<lambda>ps. bind (act (add_team_row t ps)) (\<lambda>_. load_teams ts))"

definition loadNavigation :: "unit ccall" where
  "loadNavigation = bind (promise_all [spawn id (request (CApi ListProjects)), spawn id (request (CApi ListGroups)),
       spawn id (request (CApi ListTeams))])
     (\<lambda>vs. case vs of [a, b, c] \<Rightarrow>
         (case (g_projects a, g_groups b, g_teams c) of
            (Some ps, Some gs, Some ts) \<Rightarrow> bind (act (take_navigation ps gs ts)) (\<lambda>_. load_teams ts)
          | _ \<Rightarrow> throw script_error)
       | _ \<Rightarrow> throw script_error)"

definition enter_project :: "project \<Rightarrow> client \<Rightarrow> client" where
  "enter_project p s = updateTop (s\<lparr>cl_project := Some p, cl_team := map_option cb_team (pr_collab p), cl_current := None,
     cl_tabs := []\<rparr>)"

definition openProject :: "jsstr \<Rightarrow> unit ccall" where
  "openProject i = flushed (attempt
     (bind (ask (GetProject i) g_project) (\<lambda>p. steps
        [act (enter_project p), loadNavigation,
         look (\<lambda>s. case preferred_file (cl_project s) p (recentFiles s) of
             Some path \<Rightarrow> if path = [] then act clearEditor else openFile_ws path
           | None \<Rightarrow> act clearEditor)]))
     complain_ws)"

section \<open>Changing files\<close>

definition note_structural :: "client \<Rightarrow> client" where
  "note_structural s = (if isTeam (cl_project s)
     then s\<lparr>cl_structural := (case project_id s of None \<Rightarrow> cl_structural s | Some i \<Rightarrow> i # removeAll i (cl_structural s))\<rparr> else s)"

definition say_team :: "jsstr \<Rightarrow> jsstr \<Rightarrow> unit ccall" where
  "say_team a b = act (\<lambda>s. toast (if isTeam (cl_project s) then a else b) False s)"

definition createFile_ws :: "jsstr \<Rightarrow> unit ccall" where
  "createFile_ws typed = (let path = js_trim typed in look (\<lambda>s.
     if path = [] \<or> cl_project s = None then ret ()
     else attempt
       (with_project (\<lambda>p. bind
          (ask (PutFile (pr_id p) path (pr_version p) (if pr_collab p \<noteq> None then Some (0, 0) else None) []) g_version)
          (\<lambda>v. steps [act (set_version v), act (close_dialog DFile), refreshProject, openFile_ws path,
             say_team ''Private file created'' ''File created''])))
       (\<lambda>e. act (set_problem DFile (readableError e)))))"

definition openFileActions :: "jsstr \<Rightarrow> unit ccall" where
  "openFileActions path = look (\<lambda>s.
     if \<not> canEdit (cl_project s) (record_of (cl_project s) (Some path)) \<or> cl_mutating s then ret ()
     else let m = act (\<lambda>s. open_dialog DActions (s\<lparr>cl_action := Some path,
                cl_main_action_hidden := \<not> js_endsWith path ''.tex'' \<or> Option.bind (cl_project s) pr_main = Some path\<rparr>))
          in if cl_current s = Some path then flushed m else m)"

definition openRenameDialog :: "client \<Rightarrow> client" where
  "openRenameDialog s = (if \<not> truthy (cl_action s) then s
     else open_dialog DRename (set_problem DRename [] (close_dialog DActions s)))"

definition openDeleteDialog :: "client \<Rightarrow> client" where
  "openDeleteDialog s = (if \<not> truthy (cl_action s) then s
     else open_dialog DDelete (set_problem DDelete [] ((close_dialog DActions s)\<lparr>cl_delete_copy :=
       (''Delete '' @ the (cl_action s) @ ''?'',
        if cl_action s = cl_current s \<and> buffer_dirty s then ''Unsaved edits will be discarded. This cannot be undone.''
        else ''This cannot be undone.'')\<rparr>)))"

definition mutating :: "unit ccall \<Rightarrow> dialog_name \<Rightarrow> unit ccall" where
  "mutating m d = bind (act (\<lambda>s. s\<lparr>cl_mutating := True\<rparr>)) (\<lambda>_. in_the_end
     (attempt m (\<lambda>e. act (set_problem d (readableError e)))) (\<lambda>s. s\<lparr>cl_mutating := False\<rparr>))"

definition follow_rename :: "jsstr \<Rightarrow> jsstr \<Rightarrow> client \<Rightarrow> client" where
  "follow_rename from to s = (let s1 = move_tab from to s
     in (closeFileDialogs (note_structural (if cl_current s1 = Some from then s1\<lparr>cl_current := Some to\<rparr> else s1)))
          \<lparr>cl_action := None\<rparr>)"

definition renameFile_ws :: "jsstr \<Rightarrow> unit ccall" where
  "renameFile_ws typed = (let to = js_trim typed in look (\<lambda>s. case cl_action s of None \<Rightarrow> ret ()
     | Some from \<Rightarrow>
         if from = [] \<or> cl_project s = None then ret ()
         else if \<not> pathLooksValid to then act (set_problem DRename ''Enter a valid relative file path.'')
         else if from = to then act (set_problem DRename ''Choose a different path.'')
         else if cl_mutating s then ret ()
         else flushed (mutating
           (with_project (\<lambda>p. bind (ask (MoveFile (pr_id p) from (pr_version p) to) g_version) (\<lambda>v. steps
              [act (set_version v), act (follow_rename from to), refreshProject, act showFile,
               say_team ''File move staged privately'' ''File renamed''])))
           DRename)))"

definition show_next :: "unit ccall" where
  "show_next = with_project (\<lambda>p. bind (act (\<lambda>s. s\<lparr>cl_current := None\<rparr>)) (\<lambda>_.
     case next_file p of None \<Rightarrow> act clearEditor | Some path \<Rightarrow> if path = [] then act clearEditor else openFile_ws path))"

definition deleteFile_ws :: "unit ccall" where
  "deleteFile_ws = look (\<lambda>s. case cl_action s of None \<Rightarrow> ret ()
     | Some path \<Rightarrow>
         if path = [] \<or> cl_project s = None \<or> cl_mutating s then ret ()
         else let m = mutating
                (with_project (\<lambda>p. bind (ask (RemoveProjectFile (pr_id p) path (pr_version p)) g_version) (\<lambda>v.
                   bind (act (set_version v)) (\<lambda>_. look (\<lambda>s. let was = cl_current s = Some path in steps
                     [act (delete_tab path), act note_structural,
                      act (\<lambda>s. (closeFileDialogs s)\<lparr>cl_action := None\<rparr>), refreshProject,
                      if was then show_next else act showFile,
                      say_team ''File deletion staged privately'' ''File deleted''])))))
                DDelete
              in if cl_current s = Some path then flushed m else m)"

definition setMainForPath :: "jsstr option \<Rightarrow> unit ccall" where
  "setMainForPath path =
     (if \<not> truthy path \<or> \<not> js_endsWith (the path) ''.tex'' then ret ()
      else flushed (attempt
        (with_project (\<lambda>p. bind (ask (ChooseMainFile (pr_id p) (the path) (pr_version p)) g_version) (\<lambda>v. steps
           [act (set_version v), act note_structural, act (\<lambda>s. (closeFileDialogs s)\<lparr>cl_action := None\<rparr>), refreshProject,
            act showFile, say_team ''Main file staged privately'' ''Main file updated''])))
        complain_ws))"

definition setMain_ws :: "unit ccall" where
  "setMain_ws = look (\<lambda>s. setMainForPath (cl_current s))"

section \<open>Publishing and compiling\<close>

definition clear_structural :: "client \<Rightarrow> client" where
  "clear_structural s = s\<lparr>cl_structural := (case project_id s of None \<Rightarrow> cl_structural s | Some i \<Rightarrow> removeAll i (cl_structural s))\<rparr>"

definition showConflicts :: "publish_conflict list \<Rightarrow> client \<Rightarrow> client" where
  "showConflicts cs s = open_dialog DConflict (s\<lparr>cl_conflicts := map conflict_text cs\<rparr>)"

definition published :: "jsstr \<Rightarrow> bool ccall" where
  "published m = then_ret (steps [with_project (\<lambda>p. act clear_structural), refreshProject,
     act (setSaveState WSaved), act (toast m False)]) True"

definition publish_failed :: "api_error \<Rightarrow> bool ccall" where
  "publish_failed e = (if err_status e = 404 \<and> err_message e = ''no unpublished changes''
     then published ''No unpublished changes'' else then_ret (complain_ws e) False)"

text \<open>
  An error whose body lists conflicts is the answer \<^const>\<open>GConflicts\<close>; what is made of it is not guarded.
\<close>

definition publish_conflicted :: "api_error \<Rightarrow> publish_conflict list \<Rightarrow> bool ccall" where
  "publish_conflicted e cs =
     (if err_status e = 409
      then then_ret (act (\<lambda>s. setSaveState WConflict (showConflicts cs s))) False else publish_failed e)"

definition publish_ws :: "bool ccall" where
  "publish_ws = look (\<lambda>s. if \<not> may_write (cl_project s) then ret False
     else bind flushDirty (\<lambda>saved. if \<not> saved then ret False
       else bind (act (setSaveState WPublishing)) (\<lambda>_. bind (attempt
         (look (\<lambda>s. case Option.bind (cl_project s) pr_collab of None \<Rightarrow> throw script_error
            | Some c \<Rightarrow> bind (request (CApi (PublishChanges (cb_project c)))) (\<lambda>v. case v of
                GPublished n \<Rightarrow> bind
                  (published (''Changes published'' @ (if n = 0 then [] else '' ('' @ nat_str n @ '')''))) (\<lambda>b. ret (Inl b))
              | GConflicts e cs \<Rightarrow> ret (Inr (e, cs))
              | _ \<Rightarrow> throw script_error)))
         (\<lambda>e. bind (publish_failed e) (\<lambda>b. ret (Inl b))))
         (\<lambda>r. case r of Inl b \<Rightarrow> ret b | Inr (e, cs) \<Rightarrow> publish_conflicted e cs))))"

definition compile_reset :: "client \<Rightarrow> client" where
  "compile_reset s = s\<lparr>cl_job := None, cl_compile_off := False, cl_compile_text := ''Compile''\<rparr>"

definition queue_job :: "client \<Rightarrow> client" where
  "queue_job s = s\<lparr>cl_job := Some None, cl_compile_off := True, cl_compile_text := ''Queued'', cl_compile_status := ''Queued'',
     cl_bottom_closed := False\<rparr>"

definition start_compile :: "unit ccall" where
  "start_compile = attempt
     (bind (act queue_job) (\<lambda>_. with_project (\<lambda>p. bind (ask (StartCompile (pr_id p)) g_job_id) (\<lambda>j. look (\<lambda>s.
        if cl_job s = None then throw script_error
        else act (\<lambda>s. toast ''Compile queued'' False (s\<lparr>cl_job := Some (Some j), cl_polls := cl_polls s @ [j]\<rparr>)))))))
     (\<lambda>e. act (\<lambda>s. toast (readableError e) True (compile_reset s)))"

text \<open>What compiling does once the current file is saved.\<close>

definition compile_saved :: "unit ccall" where
  "compile_saved = with_project (\<lambda>p.
     if \<not> truthy (pr_main p) then act (toast ''Choose a Main .tex file before compiling.'' True)
     else look (\<lambda>s. if isTeam (cl_project s) \<and> hasKnownPrivateChanges s
       then bind (act (open_dialog DCompile)) (\<lambda>_. bind (request CompileChoice) (\<lambda>v.
         bind (act (close_dialog DCompile)) (\<lambda>_.
           let choice = js_or (g_choice v) ''cancel''
           in if choice = ''cancel'' then ret ()
              else if choice = ''publish'' then bind publish_ws (\<lambda>okay. if okay then start_compile else ret ())
              else start_compile)))
       else start_compile))"

definition compile_ws :: "unit ccall" where
  "compile_ws = look (\<lambda>s. if cl_project s = None \<or> cl_job s \<noteq> None then ret () else flushed compile_saved)"

definition show_job :: "job_info \<Rightarrow> client \<Rightarrow> client" where
  "show_job j s = s\<lparr>cl_compile_status := jobLabel j,
     cl_compile_text := (if jb_state j = ''queued'' then ''Queued'' else if waiting_job j then ''Compiling'' else ''Compile'')\<rparr>"

definition artifact_url :: "jsstr \<Rightarrow> artifact \<Rightarrow> jsstr" where
  "artifact_url j a = ''/api/jobs/'' @ j @ ''/artifacts/'' @ at_id a"

definition take_log :: "jsstr \<Rightarrow> client \<Rightarrow> client" where
  "take_log content s = s\<lparr>cl_log := js_or (Some content) ''Build completed without compiler output.'',
     cl_errors := count_errors content\<rparr>"

definition job_done :: "jsstr \<Rightarrow> job_info \<Rightarrow> artifact option \<Rightarrow> client \<Rightarrow> client" where
  "job_done j job pdf s =
     (if jb_state job = ''succeeded''
      then toast ''Compilation completed'' False (case pdf of None \<Rightarrow> s | Some a \<Rightarrow> s\<lparr>cl_pdf := Some (artifact_url j a)\<rparr>)
      else toast ''Compilation failed'' True
        (s\<lparr>cl_log := js_or (Some (cl_log s)) ''Compilation failed. Open the Build Log for details.''\<rparr>))"

text \<open>\<open>poll\<close>, of a job that is due.\<close>

definition poll :: "jsstr \<Rightarrow> unit ccall" where
  "poll j = look (\<lambda>s. if j \<notin> set (cl_polls s) then ret ()
     else bind (act (\<lambda>s. s\<lparr>cl_polls := remove1 j (cl_polls s)\<rparr>)) (\<lambda>_. attempt
       (bind (ask (GetJob j) g_job) (\<lambda>job. bind (act (show_job job)) (\<lambda>_.
          if waiting_job job then act (\<lambda>s. s\<lparr>cl_polls := cl_polls s @ [j]\<rparr>)
          else bind (act (\<lambda>s. s\<lparr>cl_job := None, cl_compile_off := False\<rparr>)) (\<lambda>_.
            bind (ask (GetArtifacts j) g_artifacts) (\<lambda>as. steps
              [case List.find (\<lambda>a. js_endsWith (at_name a) ''.log'') as of None \<Rightarrow> ret ()
               | Some l \<Rightarrow> bind (ask (GetArtifactText j (at_id l)) g_text) (\<lambda>t. act (take_log t)),
               act (job_done j job (List.find (\<lambda>a. js_endsWith (at_name a) ''.pdf'') as))])))))
       (\<lambda>e. act (\<lambda>s. toast (readableError e) True (compile_reset s)))))"

end
