(* ===== verification/ClientEvents.thy ===== *)
theory ClientEvents
  imports ClientCalls
begin

text \<open>
  The rest of the first-generation client, \<^verbatim>\<open>services/server/static/app.js\<close>: the dialogs that make projects, the
  panels of teams and research groups, the command palette, the layout, and the listeners, as calls over the state
  of \<open>ClientPage\<close>; \<open>client_handler\<close> maps the events of the page to them. A click carries what was typed.
\<close>

section \<open>Projects\<close>

definition selectedProjectTeam :: "client \<Rightarrow> jsstr option" where
  "selectedProjectTeam s = (if nf_in_team (cl_new s) then Some (nf_team (cl_new s)) else None)"

definition openProjectDialog :: "nav_team option \<Rightarrow> unit ccall" where
  "openProjectDialog team = bind (act (set_problem DProject [])) (\<lambda>_. bind (ask ListTeams g_teams) (\<lambda>ts.
     let chosen = (case team of None \<Rightarrow> None | Some t \<Rightarrow> List.find (\<lambda>c. nt_id c = nt_id t) ts);
         choices = map (\<lambda>t. (nt_id t, nt_name t)) ts;
         first = (case choices of [] \<Rightarrow> [] | (i, _) # _ \<Rightarrow> i)
     in steps
       [act (\<lambda>s. s\<lparr>cl_new := \<lparr>nf_teams = choices, nf_in_team = chosen \<noteq> None,
          nf_team = (case chosen of None \<Rightarrow> first | Some t \<Rightarrow> nt_id t), nf_templates = nf_templates (cl_new s)\<rparr>\<rparr>),
        bind (attempt (ask ListTemplates g_templates) (\<lambda>e. ret []))
          (\<lambda>tps. act (\<lambda>s. s\<lparr>cl_new := (cl_new s)\<lparr>nf_templates := tps\<rparr>\<rparr>)),
        act (open_dialog DProject)]))"

definition createProject :: "jsstr \<Rightarrow> jsstr \<Rightarrow> unit ccall" where
  "createProject typed template = (let name = js_trim typed in look (\<lambda>s. let team = selectedProjectTeam s in
     if name = [] then ret ()
     else if team = Some [] then act (set_problem DProject ''Choose a team for this project.'')
     else attempt
       (bind (ask (NewProject team (if template = [] then None else Some template) name) g_created) (\<lambda>i. steps
          [act (close_dialog DProject), openProject i, act (toast ''Project created'' False)]))
       (\<lambda>e. act (set_problem DProject (readableError e)))))"

definition importProject :: "jsstr \<Rightarrow> bool \<Rightarrow> unit ccall" where
  "importProject typed chosen = (let name = js_trim typed in look (\<lambda>s.
     if truthy (selectedProjectTeam s) then act (set_problem DProject ''Team ZIP import is not available in this release.'')
     else if \<not> chosen \<or> name = [] then act (set_problem DProject ''Enter a project name, then choose a ZIP.'')
     else attempt
       (bind (ask (ImportZip name) g_created) (\<lambda>i. steps
          [act (close_dialog DProject), openProject i, act (toast ''Project imported'' False)]))
       (\<lambda>e. act (set_problem DProject (readableError e)))))"

definition createTeam_ws :: "jsstr \<Rightarrow> unit ccall" where
  "createTeam_ws typed = (let name = js_trim typed in
     if name = [] then ret ()
     else attempt (steps [tell (NewTeam name), act (close_dialog DTeam), loadNavigation, act (toast ''Team created'' False)])
       (\<lambda>e. act (set_problem DTeam (readableError e))))"

section \<open>The panel of a team\<close>

definition member_rows :: "bool \<Rightarrow> team_user list \<Rightarrow> (jsstr \<times> project_roles) list \<Rightarrow> list_row list" where
  "member_rows manager us rs = map (\<lambda>u. case map_of rs (tu_id u) of
     None \<Rightarrow> MemberRow u no_roles manager False | Some r \<Rightarrow> MemberRow u r manager manager) us"

definition take_members :: "team_user list \<Rightarrow> (jsstr \<times> project_roles) list \<Rightarrow> client \<Rightarrow> client" where
  "take_members us rs s =
     (let manager = list_ex (\<lambda>(i, r). i = user_id s \<and> ro_manager r) rs
      in s\<lparr>cl_panel := map_option (\<lambda>p. p\<lparr>tm_members := Some us\<rparr>) (cl_panel s), cl_form_hidden := \<not> manager,
           cl_rows := cl_rows s @ member_rows manager us rs\<rparr>)"

definition renderTeamActions :: "unit ccall" where
  "renderTeamActions = look (\<lambda>s. case cl_panel s of None \<Rightarrow> ret ()
     | Some p \<Rightarrow> bind (act (\<lambda>s. set_problem DMember [] (s\<lparr>cl_rows := []\<rparr>))) (\<lambda>_. case tm_project p of
         None \<Rightarrow> act (\<lambda>s. s\<lparr>cl_rows := [NoteRow ''Create a project to manage project roles.''], cl_form_hidden := True\<rparr>)
       | Some i \<Rightarrow> attempt
           (bind (promise_all [spawn id (request (CApi (TeamMembers (nt_id (tm_team p))))),
                               spawn id (request (CApi (ProjectMembers i)))])
              (\<lambda>vs. case vs of [a, b] \<Rightarrow> (case (g_users a, g_roles b) of
                  (Some us, Some rs) \<Rightarrow> look (\<lambda>s. if cl_panel s = None then throw script_error else act (take_members us rs))
                | _ \<Rightarrow> throw script_error) | _ \<Rightarrow> throw script_error))
           (\<lambda>e. act (\<lambda>s. s\<lparr>cl_rows := cl_rows s @ [NoteRow (readableError e)], cl_form_hidden := True\<rparr>))))"

definition closeTeamActions :: "client \<Rightarrow> client" where
  "closeTeamActions s = s\<lparr>cl_panel := None\<rparr>"

definition openTeamActions :: "nav_team \<Rightarrow> nav_project list \<Rightarrow> unit ccall" where
  "openTeamActions t ps = bind (act (\<lambda>s. s\<lparr>cl_panel := Some \<lparr>tm_team = t, tm_projects = ps,
       tm_project = opt_or (map_option np_id (List.find (\<lambda>p. Some (np_workspace p) = project_id s) ps))
         (case ps of [] \<Rightarrow> None | p # _ \<Rightarrow> Some (np_id p)),
       tm_members = None\<rparr>\<rparr>)) (\<lambda>_. renderTeamActions)"

definition chooseTeamProject :: "jsstr \<Rightarrow> unit ccall" where
  "chooseTeamProject i = look (\<lambda>s. if cl_panel s = None then ret ()
     else bind (act (\<lambda>s. s\<lparr>cl_panel := map_option (\<lambda>p. p\<lparr>tm_project := Some i\<rparr>) (cl_panel s)\<rparr>)) (\<lambda>_. renderTeamActions))"

text \<open>The project of the panel in a path; without one its text is \<open>null\<close>.\<close>

definition with_panel :: "(team_panel \<Rightarrow> 'r ccall) \<Rightarrow> 'r ccall" where
  "with_panel f = look (\<lambda>s. case cl_panel s of None \<Rightarrow> throw script_error | Some p \<Rightarrow> f p)"

definition panel_project :: "team_panel \<Rightarrow> jsstr" where
  "panel_project p = (case tm_project p of None \<Rightarrow> ''null'' | Some i \<Rightarrow> i)"

definition or_explain :: "unit ccall \<Rightarrow> unit ccall" where
  "or_explain m = attempt m (\<lambda>e. bind renderTeamActions (\<lambda>_. act (set_problem DMember (readableError e))))"

definition in_panel :: "unit ccall \<Rightarrow> unit ccall" where
  "in_panel m = look (\<lambda>s. if cl_panel s = None then ret () else m)"

definition removeProjectAccess :: "team_user \<Rightarrow> unit ccall" where
  "removeProjectAccess u = in_panel (or_explain (steps
     [with_panel (\<lambda>p. tell (RemoveMember (panel_project p) (tu_id u))), act (toast ''Project access removed'' False),
      renderTeamActions]))"

definition has_role :: "project_roles \<Rightarrow> bool" where
  "has_role r \<longleftrightarrow> ro_writer r \<or> ro_mentor r \<or> ro_manager r"

definition updateMemberRoles :: "team_user \<Rightarrow> project_roles \<Rightarrow> unit ccall" where
  "updateMemberRoles u r = in_panel (or_explain
     (if \<not> has_role r then removeProjectAccess u
      else steps [with_panel (\<lambda>p. tell (SetRoles (panel_project p) (tu_email u) r)), act (toast ''Project roles updated'' False),
        renderTeamActions]))"

definition addTeamMember :: "jsstr \<Rightarrow> project_roles \<Rightarrow> unit ccall" where
  "addTeamMember typed r = (let email = js_trim typed in in_panel
     (if \<not> has_role r then act (set_problem DMember ''Select at least one project role.'')
      else attempt
        (steps
          [with_panel (\<lambda>p. case tm_members p of None \<Rightarrow> throw script_error
             | Some us \<Rightarrow> if list_ex (\<lambda>u. js_lower (tu_email u) = js_lower email) us then ret ()
                 else tell (AddToTeam (nt_id (tm_team p)) email)),
           with_panel (\<lambda>p. tell (SetRoles (panel_project p) email r)),
           act (toast ''Member added'' False), renderTeamActions])
        (\<lambda>e. act (set_problem DMember (readableError e)))))"

section \<open>The panel of a research group\<close>

definition group_rows :: "jsstr \<Rightarrow> research_group \<Rightarrow> team_user list \<Rightarrow> list_row list" where
  "group_rows me g us = map (\<lambda>u. MemberRow u no_roles (rg_owner g = me) (rg_owner g = me \<and> tu_id u \<noteq> rg_owner g)) us"

definition renderResearchGroupActions :: "unit ccall" where
  "renderResearchGroupActions = look (\<lambda>s. case cl_group s of None \<Rightarrow> ret ()
     | Some g \<Rightarrow> bind (act (\<lambda>s. set_problem DGroupMember [] (s\<lparr>cl_group_rows := []\<rparr>))) (\<lambda>_. attempt
         (bind (ask (GroupMembers (rg_id g)) g_users) (\<lambda>us. act (\<lambda>s. s\<lparr>cl_group_form_hidden := rg_owner g \<noteq> user_id s,
            cl_group_rows := cl_group_rows s @ group_rows (user_id s) g us\<rparr>)))
         (\<lambda>e. act (\<lambda>s. s\<lparr>cl_group_rows := cl_group_rows s @ [NoteRow (readableError e)]\<rparr>))))"

definition closeResearchGroupActions :: "client \<Rightarrow> client" where
  "closeResearchGroupActions s = s\<lparr>cl_group := None\<rparr>"

definition openResearchGroupActions :: "research_group \<Rightarrow> unit ccall" where
  "openResearchGroupActions g = bind (act (\<lambda>s. s\<lparr>cl_group := Some g\<rparr>)) (\<lambda>_. renderResearchGroupActions)"

definition with_group :: "(research_group \<Rightarrow> 'r ccall) \<Rightarrow> 'r ccall" where
  "with_group f = look (\<lambda>s. case cl_group s of None \<Rightarrow> throw script_error | Some g \<Rightarrow> f g)"

definition in_group :: "unit ccall \<Rightarrow> dialog_name \<Rightarrow> unit ccall" where
  "in_group m d = look (\<lambda>s. if cl_group s = None then ret () else attempt m (\<lambda>e. act (set_problem d (readableError e))))"

definition addResearchGroupMember :: "jsstr \<Rightarrow> unit ccall" where
  "addResearchGroupMember typed = in_group (steps
     [with_group (\<lambda>g. tell (AddToGroup (rg_id g) (js_trim typed))), renderResearchGroupActions, loadNavigation,
      act (toast ''Member added'' False)]) DGroupMember"

definition removeResearchGroupMember :: "team_user \<Rightarrow> unit ccall" where
  "removeResearchGroupMember u = attempt (steps
     [with_group (\<lambda>g. tell (RemoveFromGroup (rg_id g) (tu_id u))), renderResearchGroupActions, loadNavigation,
      act (toast ''Member removed'' False)]) (\<lambda>e. act (set_problem DGroupMember (readableError e)))"

definition createResearchGroup :: "jsstr \<Rightarrow> unit ccall" where
  "createResearchGroup typed = attempt
     (bind (ask (NewGroup (js_trim typed)) g_group) (\<lambda>g. steps
        [act (close_dialog DGroup), loadNavigation, openProject (rg_workspace g), act (toast ''Research group created'' False)]))
     (\<lambda>e. act (set_problem DGroup (readableError e)))"

definition submitResearchGroupRename :: "jsstr \<Rightarrow> unit ccall" where
  "submitResearchGroupRename typed = in_group (steps
     [with_group (\<lambda>g. tell (RenameGroup (rg_id g) (js_trim typed))), act (close_dialog DGroupRename),
      act closeResearchGroupActions, loadNavigation, act (toast ''Research group renamed'' False)]) DGroupRename"

definition confirmDeleteResearchGroup :: "unit ccall" where
  "confirmDeleteResearchGroup = in_group (steps
     [with_group (\<lambda>g. tell (DeleteGroup (rg_id g))), act (close_dialog DGroupDelete), act closeResearchGroupActions,
      loadNavigation, act (toast ''Research group deleted'' False)]) DGroupDelete"

section \<open>Commands\<close>

definition commands_ws :: "(jsstr \<times> command) list" where
  "commands_ws = [(''Compile'', CmdCompile), (''Save'', CmdSave), (''Publish Changes'', CmdPublish),
     (''Publish & Compile'', CmdPublishCompile), (''Open Problems'', CmdProblems), (''Toggle PDF'', CmdTogglePdf),
     (''Toggle Sidebar'', CmdToggleSidebar), (''Toggle Bottom Panel'', CmdToggleBottom), (''Reset Layout'', CmdResetLayout),
     (''Quick Open'', CmdQuickOpen)]"

definition shown_commands :: "'c command_list \<Rightarrow> (jsstr \<times> 'c) list" where
  "shown_commands c = filter (\<lambda>(l, _). js_includes (js_lower l) (js_lower (cm_query c))) (cm_items c)"

definition open_commands :: "(jsstr \<times> command) list \<Rightarrow> client \<Rightarrow> client" where
  "open_commands cs s = open_dialog DCommand (s\<lparr>cl_commands := \<lparr>cm_items = cs, cm_index = 0, cm_query = []\<rparr>\<rparr>)"

definition openQuickOpen_ws :: "client \<Rightarrow> client" where
  "openQuickOpen_ws s = (case cl_project s of None \<Rightarrow> s
     | Some p \<Rightarrow> open_commands (map (\<lambda>f. (wf_path f, CmdOpenFile (wf_path f))) (filter (\<lambda>f. isText (wf_path f)) (pr_files p))) s)"

datatype command_event = QueryTyped jsstr | ArrowDown | ArrowUp

fun command_step :: "command_event \<Rightarrow> 'c command_list \<Rightarrow> 'c command_list" where
  "command_step (QueryTyped q) c = c\<lparr>cm_query := q, cm_index := 0\<rparr>"
| "command_step ArrowDown c = c\<lparr>cm_index := min (int (length (shown_commands c)) - 1) (cm_index c + 1)\<rparr>"
| "command_step ArrowUp c = c\<lparr>cm_index := max 0 (cm_index c - 1)\<rparr>"

text \<open>The row that is marked, and what Enter runs.\<close>

definition marked_command :: "'c command_list \<Rightarrow> (jsstr \<times> 'c) option" where
  "marked_command c = (let cs = shown_commands c in if 0 \<le> cm_index c \<and> cm_index c < int (length cs) then Some (cs ! nat (cm_index c)) else None)"

definition resetLayout :: "client \<Rightarrow> client" where
  "resetLayout s = toast ''Layout reset'' False (s\<lparr>cl_layout := layout_defaults\<rparr>)"

datatype layout_field = LeftWidth | RightWidth | BottomHeight

primrec field_of :: "layout_field \<Rightarrow> layout_prefs \<Rightarrow> int" where
  "field_of LeftWidth l = ly_left l"
| "field_of RightWidth l = ly_right l"
| "field_of BottomHeight l = ly_bottom l"

primrec field_min :: "layout_field \<Rightarrow> int" where
  "field_min LeftWidth = 180" | "field_min RightWidth = 300" | "field_min BottomHeight = 100"

primrec field_max :: "layout_field \<Rightarrow> int" where
  "field_max LeftWidth = 420" | "field_max RightWidth = 900" | "field_max BottomHeight = 480"

primrec set_field :: "layout_field \<Rightarrow> int \<Rightarrow> layout_prefs \<Rightarrow> layout_prefs" where
  "set_field LeftWidth v l = l\<lparr>ly_left := v\<rparr>"
| "set_field RightWidth v l = l\<lparr>ly_right := v\<rparr>"
| "set_field BottomHeight v l = l\<lparr>ly_bottom := v\<rparr>"

text \<open>
  A pointer that took a bar at \<open>start\<close>, when the field was \<open>v\<close>, is at \<open>pos\<close>; positions grow to the right and
  downwards.
\<close>

definition bindResizer :: "layout_field \<Rightarrow> int \<Rightarrow> int \<Rightarrow> int \<Rightarrow> client \<Rightarrow> client" where
  "bindResizer f start v pos s =
     (let delta = (if f = BottomHeight then start - pos else pos - start)
      in s\<lparr>cl_layout := set_field f (max (field_min f) (min (field_max f) (v + delta))) (cl_layout s)\<rparr>)"

definition ignore_result :: "'r ccall \<Rightarrow> unit ccall" where
  "ignore_result m = bind m (\<lambda>_. ret ())"

primrec run_command :: "command \<Rightarrow> unit ccall" where
  "run_command CmdCompile = compile_ws"
| "run_command CmdSave = ignore_result save_ws"
| "run_command CmdPublish = ignore_result publish_ws"
| "run_command CmdPublishCompile = bind publish_ws (\<lambda>okay. if okay then compile_ws else ret ())"
| "run_command CmdProblems = act (\<lambda>s. s\<lparr>cl_bottom_closed := False\<rparr>)"
| "run_command CmdTogglePdf = act (\<lambda>s. s\<lparr>cl_layout := (cl_layout s)\<lparr>ly_pdf := \<not> ly_pdf (cl_layout s)\<rparr>\<rparr>)"
| "run_command CmdToggleSidebar = act (\<lambda>s. s\<lparr>cl_layout := (cl_layout s)\<lparr>ly_sidebar := \<not> ly_sidebar (cl_layout s)\<rparr>\<rparr>)"
| "run_command CmdToggleBottom = act (\<lambda>s. s\<lparr>cl_bottom_closed := \<not> cl_bottom_closed s\<rparr>)"
| "run_command CmdResetLayout = act resetLayout"
| "run_command CmdQuickOpen = act openQuickOpen_ws"
| "run_command (CmdOpenFile path) = openFile_ws path"

definition enter_command :: "unit ccall" where
  "enter_command = look (\<lambda>s. case marked_command (cl_commands s) of None \<Rightarrow> ret ()
     | Some (_, c) \<Rightarrow> bind (act (close_dialog DCommand)) (\<lambda>_. run_command c))"

section \<open>Start\<close>

definition bootAuthenticated :: "jsstr \<Rightarrow> identity \<Rightarrow> unit ccall" where
  "bootAuthenticated path u = bind (act (\<lambda>s. s\<lparr>cl_user := Some u\<rparr>)) (\<lambda>_.
     if iu_type u = ''admin'' \<and> path \<notin> {''/admin'', ''/workspace''} then act (\<lambda>s. s\<lparr>cl_goto := Some ''/admin''\<rparr>)
     else if iu_type u \<noteq> ''admin'' \<and> path = ''/admin'' then act (\<lambda>s. s\<lparr>cl_goto := Some ''/''\<rparr>)
     else if path = ''/admin''
       then act (\<lambda>s. s\<lparr>cl_screen := (if iu_type u = ''admin'' then AdminScreen else DeniedScreen)\<rparr>)
     else bind (act (\<lambda>s. s\<lparr>cl_screen := WorkspaceScreen\<rparr>)) (\<lambda>_. loadNavigation))"

text \<open>\<open>init\<close> and what follows it; the server says in the page whether it knows the user.\<close>

definition client_boot :: "bool \<Rightarrow> jsstr \<Rightarrow> unit ccall" where
  "client_boot authenticated path = attempt
     (bind (act (\<lambda>s. updateTop (s\<lparr>cl_boot := ''bound''\<rparr>))) (\<lambda>_.
        if \<not> authenticated then ret ()
        else bind (ask WhoAmI g_identity) (\<lambda>u. bind (bootAuthenticated path u) (\<lambda>_.
          act (\<lambda>s. s\<lparr>cl_boot := ''ready''\<rparr>)))))
     (\<lambda>e. act (\<lambda>s. toast ''Workspace controls failed to start. Reload.'' True (s\<lparr>cl_boot := ''failed''\<rparr>)))"

section \<open>Events\<close>

datatype (plugins only: size) client_event =
    ClickProject jsstr | ClickTeamName nav_team | ClickTeamProject nav_team jsstr | ClickFile jsstr | ClickTabName jsstr
  | ClickTabClose jsstr | ToggleFolder jsstr | TypeEditor jsstr | SaveTimerFires | ClickSave | ClickCompile | ClickPublish
  | PollDue jsstr | ClickSetMain | NewFileDialog | SubmitFile jsstr | ClickFileActions jsstr | ClickRename | SubmitRename jsstr
  | ClickDelete | ConfirmDelete | ClickSetMainAction | NewProjectDialog "nav_team option" | ChooseWorkspace bool
  | ChooseProjectTeam jsstr | SubmitProject jsstr jsstr | ImportChosen jsstr bool | SubmitTeam jsstr
  | ClickTeamActions nav_team "nav_project list" | CloseTeamActions | ChooseTeamProject jsstr | ChangeRoles team_user project_roles
  | ClickRemoveAccess team_user | SubmitTeamMember jsstr project_roles
  | ClickGroupActions research_group | CloseGroupActions | SubmitGroupMember jsstr | ClickRemoveGroupMember team_user
  | SubmitGroup jsstr | SubmitGroupRename jsstr | ConfirmDeleteGroup
  | OpenPalette | OpenQuickOpen | CommandEvent command_event | EnterCommand | ClickCommand command | CloseDialogAction
  | PressEscape | DragResizer layout_field int int int | NewTeamProject | NewTeamDialog | NewGroupDialog | RenameGroupDialog
  | DeleteGroupDialog | HidePdf | ToggleSidebar | ToggleBottom | PageLoads bool jsstr

definition toggle_folder :: "jsstr \<Rightarrow> client \<Rightarrow> client" where
  "toggle_folder k s = s\<lparr>cl_closed := (if k \<in> set (cl_closed s) then removeAll k (cl_closed s) else k # cl_closed s)\<rparr>"

primrec client_handler :: "client_event \<Rightarrow> unit ccall" where
  "client_handler (ClickProject i) = openProject i"
| "client_handler (ClickTeamName t) = attempt (steps [act (\<lambda>s. s\<lparr>cl_team := Some (nt_id t)\<rparr>), loadNavigation]) complain_ws"
| "client_handler (ClickTeamProject t i) = bind (act (\<lambda>s. s\<lparr>cl_team := Some (nt_id t)\<rparr>)) (\<lambda>_. openProject i)"
| "client_handler (ClickFile path) = openFile_ws path"
| "client_handler (ClickTabName path) = switchTab path"
| "client_handler (ClickTabClose path) = closeTab path"
| "client_handler (ToggleFolder k) = act (toggle_folder k)"
| "client_handler (TypeEditor t) = look (\<lambda>s. if cl_editor_off s then ret () else act (onEditorInput t))"
| "client_handler SaveTimerFires = look (\<lambda>s. if \<not> cl_timer s then ret ()
     else bind (act (\<lambda>s. s\<lparr>cl_timer := False\<rparr>)) (\<lambda>_. ignore_result save_ws))"
| "client_handler ClickSave = ignore_result save_ws"
| "client_handler ClickCompile = compile_ws"
| "client_handler ClickPublish = ignore_result publish_ws"
| "client_handler (PollDue j) = poll j"
| "client_handler ClickSetMain = setMain_ws"
| "client_handler NewFileDialog = look (\<lambda>s. if cl_project s = None then ret ()
     else act (\<lambda>s. open_dialog DFile (set_problem DFile [] s)))"
| "client_handler (SubmitFile t) = createFile_ws t"
| "client_handler (ClickFileActions path) = openFileActions path"
| "client_handler ClickRename = act openRenameDialog"
| "client_handler (SubmitRename t) = renameFile_ws t"
| "client_handler ClickDelete = act openDeleteDialog"
| "client_handler ConfirmDelete = deleteFile_ws"
| "client_handler ClickSetMainAction = look (\<lambda>s. setMainForPath (cl_action s))"
| "client_handler (NewProjectDialog t) = openProjectDialog t"
| "client_handler (ChooseWorkspace b) = act (\<lambda>s. s\<lparr>cl_new := (cl_new s)\<lparr>nf_in_team := b\<rparr>\<rparr>)"
| "client_handler (ChooseProjectTeam t) = act (\<lambda>s. s\<lparr>cl_new := (cl_new s)\<lparr>nf_team := t\<rparr>\<rparr>)"
| "client_handler (SubmitProject n t) = createProject n t"
| "client_handler (ImportChosen n b) = importProject n b"
| "client_handler (SubmitTeam n) = createTeam_ws n"
| "client_handler (ClickTeamActions t ps) = openTeamActions t ps"
| "client_handler CloseTeamActions = act closeTeamActions"
| "client_handler (ChooseTeamProject i) = chooseTeamProject i"
| "client_handler (ChangeRoles u r) = updateMemberRoles u r"
| "client_handler (ClickRemoveAccess u) = removeProjectAccess u"
| "client_handler (SubmitTeamMember m r) = addTeamMember m r"
| "client_handler (ClickGroupActions g) = openResearchGroupActions g"
| "client_handler CloseGroupActions = act closeResearchGroupActions"
| "client_handler (SubmitGroupMember m) = addResearchGroupMember m"
| "client_handler (ClickRemoveGroupMember u) = removeResearchGroupMember u"
| "client_handler (SubmitGroup n) = createResearchGroup n"
| "client_handler (SubmitGroupRename n) = submitResearchGroupRename n"
| "client_handler ConfirmDeleteGroup = confirmDeleteResearchGroup"
| "client_handler OpenPalette = act (open_commands commands_ws)"
| "client_handler OpenQuickOpen = act openQuickOpen_ws"
| "client_handler (CommandEvent e) = act (\<lambda>s. s\<lparr>cl_commands := command_step e (cl_commands s)\<rparr>)"
| "client_handler EnterCommand = enter_command"
| "client_handler (ClickCommand c) = bind (act (close_dialog DCommand)) (\<lambda>_. run_command c)"
| "client_handler CloseDialogAction = act (\<lambda>s. s\<lparr>cl_open := []\<rparr>)"
| "client_handler PressEscape = act (\<lambda>s. s\<lparr>cl_open := [], cl_panel := None, cl_group := None\<rparr>)"
| "client_handler (DragResizer f start v pos) = act (bindResizer f start v pos)"
| "client_handler NewTeamProject = look (\<lambda>s. case cl_panel s of None \<Rightarrow> ret ()
     | Some p \<Rightarrow> bind (act closeTeamActions) (\<lambda>_. openProjectDialog (Some (tm_team p))))"
| "client_handler NewTeamDialog = act (\<lambda>s. open_dialog DTeam (set_problem DTeam [] s))"
| "client_handler NewGroupDialog = act (\<lambda>s. open_dialog DGroup (set_problem DGroup [] s))"
| "client_handler RenameGroupDialog = act (\<lambda>s. if cl_group s = None then s
     else open_dialog DGroupRename (set_problem DGroupRename [] s))"
| "client_handler DeleteGroupDialog = act (\<lambda>s. open_dialog DGroupDelete (set_problem DGroupDelete [] s))"
| "client_handler HidePdf = act (\<lambda>s. s\<lparr>cl_layout := (cl_layout s)\<lparr>ly_pdf := True\<rparr>\<rparr>)"
| "client_handler ToggleSidebar = run_command CmdToggleSidebar"
| "client_handler ToggleBottom = run_command CmdToggleBottom"
| "client_handler (PageLoads authenticated path) = client_boot authenticated path"

definition client_run :: "client_event \<Rightarrow> (client, creq, canswer) prog" where
  "client_run e = spawn (\<lambda>_. GUnit) (client_handler e)"

end
