(* ===== verification/ClientLemmas.thy ===== *)
theory ClientLemmas
  imports ClientEvents AsyncLogic
begin

text \<open>
  What the calls of the first-generation client share: an invariant of its state, that every segment of every call
  keeps it, and what its functions leave alone.
\<close>

section \<open>An invariant\<close>

definition tabs_ok :: "client \<Rightarrow> bool" where
  "tabs_ok s \<longleftrightarrow> distinct (map fst (cl_tabs s)) \<and> distinct (map snd (cl_tabs s)) \<and>
     (\<forall>t\<in>set (cl_tabs s). snd t < length (cl_buffers s))"

definition recent_ok :: "(jsstr \<times> jsstr list) list \<Rightarrow> bool" where
  "recent_ok r \<longleftrightarrow> (\<forall>x\<in>set r. length (snd x) \<le> 8 \<and> distinct (snd x))"

definition layout_ok :: "layout_prefs \<Rightarrow> bool" where
  "layout_ok l \<longleftrightarrow> (\<forall>f. field_min f \<le> field_of f l \<and> field_of f l \<le> field_max f)"

definition client_ok :: "client \<Rightarrow> bool" where
  "client_ok s \<longleftrightarrow> tabs_ok s \<and> (cl_job s \<noteq> None \<longrightarrow> cl_compile_off s) \<and> recent_ok (cl_recent s) \<and> layout_ok (cl_layout s)"

lemma layout_ok_fields: "layout_ok l \<longleftrightarrow> 180 \<le> ly_left l \<and> ly_left l \<le> 420 \<and> 300 \<le> ly_right l \<and> ly_right l \<le> 900 \<and>
    100 \<le> ly_bottom l \<and> ly_bottom l \<le> 480"
proof -
  have "(\<forall>f. P f) \<longleftrightarrow> P LeftWidth \<and> P RightWidth \<and> P BottomHeight" for P :: "layout_field \<Rightarrow> bool"
    by (metis layout_field.exhaust)
  then show ?thesis by (simp add: layout_ok_def)
qed

lemma layout_ok_simps:
  "layout_ok (l\<lparr>ly_pdf := b\<rparr>) = layout_ok l" "layout_ok (l\<lparr>ly_sidebar := b\<rparr>) = layout_ok l" "layout_ok layout_defaults"
  by (simp_all add: layout_ok_fields layout_defaults_def)

lemma layout_ok_set: "layout_ok l \<Longrightarrow> layout_ok (set_field f (max (field_min f) (min (field_max f) v)) l)"
  by (cases f) (auto simp: layout_ok_fields)

lemma map_set_keys: "map fst (map_set k v kvs) = (if k \<in> fst ` set kvs then map fst kvs else map fst kvs @ [k])"
  by (induction k v kvs rule: map_set.induct) (auto simp: image_iff)

lemma map_set_values: "set (map_set k v kvs) \<subseteq> insert (k, v) (set kvs)"
  by (induction k v kvs rule: map_set.induct) auto

lemma map_set_distinct:
  assumes "distinct (map snd kvs)" "v \<notin> snd ` set kvs"
  shows "distinct (map snd (map_set k v kvs))"
  using assms
proof (induction kvs)
  case (Cons a kvs)
  have "snd ` set (map_set k v kvs) \<subseteq> insert v (snd ` set kvs)" using map_set_values [of k v kvs] by force
  with Cons show ?case by (cases a) auto
qed simp

lemma map_set_of [simp]: "map_of (map_set k v kvs) k = Some v"
  by (induction kvs) auto

lemma map_set_other [simp]: "k' \<noteq> k \<Longrightarrow> map_of (map_set k v kvs) k' = map_of kvs k'"
  by (induction kvs) auto

section \<open>What keeps it\<close>

text \<open>Functions that touch nothing of it.\<close>

lemma ok_same:
  "client_ok (toast m b s) = client_ok s" "client_ok (setSaveState v s) = client_ok s" "client_ok (open_dialog d s) = client_ok s"
  "client_ok (close_dialog d s) = client_ok s" "client_ok (closeFileDialogs s) = client_ok s"
  "client_ok (set_problem d m s) = client_ok s" "client_ok (set_version n s) = client_ok s" "client_ok (clearEditor s) = client_ok s"
  "client_ok (showFile s) = client_ok s" "client_ok (showConflicts cs s) = client_ok s" "client_ok (toggle_folder k s) = client_ok s"
  "client_ok (show_job j s) = client_ok s" "client_ok (take_log t s) = client_ok s" "client_ok (cacheBuffer t s) = client_ok s"
  "client_ok (clearBufferCache s) = client_ok s" "client_ok (note_structural s) = client_ok s"
  "client_ok (clear_structural s) = client_ok s" "client_ok (take_navigation ps gs ts s) = client_ok s"
  "client_ok (add_team_row tm ps s) = client_ok s" "client_ok (take_members us rs s) = client_ok s"
  "client_ok (open_commands cmds s) = client_ok s"
  by (simp_all add: client_ok_def tabs_ok_def toast_def setSaveState_def open_dialog_def close_dialog_def closeFileDialogs_def
      set_problem_def set_version_def clearEditor_def showFile_def showConflicts_def toggle_folder_def show_job_def take_log_def
      cacheBuffer_def clearBufferCache_def note_structural_def clear_structural_def take_navigation_def add_team_row_def
      take_members_def open_commands_def Let_def)

lemma ok_fields:
  "client_ok (s\<lparr>cl_timer := b\<rparr>) = client_ok s" "client_ok (s\<lparr>cl_current := c\<rparr>) = client_ok s"
  "client_ok (s\<lparr>cl_polls := js\<rparr>) = client_ok s" "client_ok (s\<lparr>cl_action := a\<rparr>) = client_ok s"
  "client_ok (s\<lparr>cl_mutating := b\<rparr>) = client_ok s" "client_ok (s\<lparr>cl_team := c\<rparr>) = client_ok s"
  "client_ok (s\<lparr>cl_open := ds\<rparr>) = client_ok s" "client_ok (s\<lparr>cl_panel := p\<rparr>) = client_ok s"
  "client_ok (s\<lparr>cl_group := g\<rparr>) = client_ok s" "client_ok (s\<lparr>cl_rows := rs\<rparr>) = client_ok s"
  "client_ok (s\<lparr>cl_form_hidden := b\<rparr>) = client_ok s" "client_ok (s\<lparr>cl_group_rows := rs\<rparr>) = client_ok s"
  "client_ok (s\<lparr>cl_group_form_hidden := b\<rparr>) = client_ok s" "client_ok (s\<lparr>cl_new := n\<rparr>) = client_ok s"
  "client_ok (s\<lparr>cl_bottom_closed := b\<rparr>) = client_ok s" "client_ok (s\<lparr>cl_commands := cmds\<rparr>) = client_ok s"
  "client_ok (s\<lparr>cl_editor := t\<rparr>) = client_ok s" "client_ok (s\<lparr>cl_boot := t\<rparr>) = client_ok s"
  "client_ok (s\<lparr>cl_screen := c'\<rparr>) = client_ok s" "client_ok (s\<lparr>cl_goto := c\<rparr>) = client_ok s"
  "client_ok (s\<lparr>cl_user := u\<rparr>) = client_ok s" "client_ok (s\<lparr>cl_project := p'\<rparr>) = client_ok s"
  "client_ok (s\<lparr>cl_main_action_hidden := b\<rparr>) = client_ok s" "client_ok (s\<lparr>cl_delete_copy := d\<rparr>) = client_ok s"
  "client_ok (s\<lparr>cl_compile_text := t\<rparr>) = client_ok s" "client_ok (s\<lparr>cl_log := t\<rparr>) = client_ok s"
  "client_ok (s\<lparr>cl_pdf := c\<rparr>) = client_ok s"
  by (simp_all add: client_ok_def tabs_ok_def layout_ok_simps)

lemma ok_job: "client_ok s \<Longrightarrow> client_ok (s\<lparr>cl_job := None, cl_compile_off := b\<rparr>)"
  by (simp add: client_ok_def tabs_ok_def)

lemma ok_layout: "client_ok s \<Longrightarrow> layout_ok l \<Longrightarrow> client_ok (s\<lparr>cl_layout := l\<rparr>)" "client_ok s \<Longrightarrow> layout_ok (cl_layout s)"
  by (simp_all add: client_ok_def tabs_ok_def)

text \<open>Functions that change it.\<close>

lemma ok_updateTop: "client_ok s \<Longrightarrow> client_ok (updateTop s)"
  unfolding updateTop_def ok_same by (simp add: client_ok_def tabs_ok_def)

lemma ok_remember:
  assumes "client_ok s"
  shows "client_ok (remember path s)"
proof -
  let ?ps = "take 8 (path # filter (\<lambda>p. p \<noteq> path) (recentFiles s))"
  have ok: "recent_ok (cl_recent s)" using assms by (simp add: client_ok_def)
  then have "distinct (recentFiles s)"
    by (force simp: recentFiles_def recent_ok_def split: option.splits dest: map_of_SomeD)
  then have "distinct ?ps" by (intro distinct_take) simp
  then have "recent_ok (map_set (projectCacheKey s) ?ps (cl_recent s))"
    using ok map_set_values [of "projectCacheKey s" ?ps "cl_recent s"]
    unfolding recent_ok_def by (force simp del: take_Cons_numeral)
  with assms show ?thesis by (simp add: remember_def client_ok_def tabs_ok_def del: take_Cons_numeral)
qed

lemma ok_upd_buffer: "client_ok s \<Longrightarrow> client_ok (upd_buffer i f s)"
  by (simp add: upd_buffer_def client_ok_def tabs_ok_def)

lemma ok_filter_tabs: "client_ok s \<Longrightarrow> client_ok (s\<lparr>cl_tabs := filter P (cl_tabs s)\<rparr>)"
  by (auto simp: client_ok_def tabs_ok_def distinct_map_filter)

lemma ok_map_set_tabs:
  assumes "client_ok s" "i \<notin> snd ` set (cl_tabs s)" "i < length (cl_buffers s)"
  shows "client_ok (s\<lparr>cl_tabs := map_set p i (cl_tabs s)\<rparr>)"
proof -
  have ok: "distinct (map fst (cl_tabs s))" "distinct (map snd (cl_tabs s))" "\<forall>t\<in>set (cl_tabs s). snd t < length (cl_buffers s)"
    using assms(1) by (simp_all add: client_ok_def tabs_ok_def)
  from ok(1) have "distinct (map fst (map_set p i (cl_tabs s)))" by (auto simp: map_set_keys)
  moreover have "distinct (map snd (map_set p i (cl_tabs s)))" using ok(2) assms(2) by (rule map_set_distinct)
  moreover have "snd t < length (cl_buffers s)" if "t \<in> set (map_set p i (cl_tabs s))" for t
    using that ok(3) assms(3) map_set_values [of p i "cl_tabs s"] by auto
  ultimately show ?thesis using assms(1) by (simp add: client_ok_def tabs_ok_def)
qed

lemma ok_new_tab:
  assumes "client_ok s"
  shows "client_ok (new_tab path t s)"
proof -
  let ?s = "s\<lparr>cl_buffers := cl_buffers s @ [\<lparr>bf_text = t, bf_dirty = False, bf_saving = False\<rparr>]\<rparr>"
  have "client_ok ?s" using assms by (auto simp: client_ok_def tabs_ok_def intro: less_SucI)
  moreover have "length (cl_buffers s) \<notin> snd ` set (cl_tabs ?s)" using assms by (auto simp: client_ok_def tabs_ok_def)
  ultimately have "client_ok (?s\<lparr>cl_tabs := map_set path (length (cl_buffers s)) (cl_tabs ?s)\<rparr>)"
    by (intro ok_map_set_tabs) simp_all
  then show ?thesis by (simp add: new_tab_def)
qed

lemma ok_delete_tab: "client_ok s \<Longrightarrow> client_ok (delete_tab path s)"
  unfolding delete_tab_def by (rule ok_filter_tabs)

lemma ok_move_tab:
  assumes "client_ok s"
  shows "client_ok (move_tab a b s)"
proof (cases "map_of (cl_tabs s) a")
  case (Some i)
  let ?s = "s\<lparr>cl_tabs := filter (\<lambda>t. fst t \<noteq> a) (cl_tabs s)\<rparr>"
  have ok: "distinct (map snd (cl_tabs s))" "\<forall>t\<in>set (cl_tabs s). snd t < length (cl_buffers s)"
    using assms by (simp_all add: client_ok_def tabs_ok_def)
  have a: "(a, i) \<in> set (cl_tabs s)" using Some by (rule map_of_SomeD)
  have "inj_on snd (set (cl_tabs s))" using ok(1) by (simp add: distinct_map)
  with a have unique: "c = a" if "(c, i) \<in> set (cl_tabs s)" for c
    using that inj_onD [of snd "set (cl_tabs s)" "(c, i)" "(a, i)"] by simp
  then have "i \<notin> snd ` set (cl_tabs ?s)" by (auto dest: unique)
  moreover have "i < length (cl_buffers ?s)" using ok(2) a by auto
  ultimately have "client_ok (?s\<lparr>cl_tabs := map_set b i (cl_tabs ?s)\<rparr>)"
    using assms by (intro ok_map_set_tabs ok_filter_tabs)
  with Some show ?thesis by (simp add: move_tab_def)
qed (use assms in \<open>simp add: move_tab_def\<close>)

lemma ok_drop_tab: "client_ok s \<Longrightarrow> client_ok (drop_tab path s)"
  by (simp add: drop_tab_def Let_def ok_same ok_fields ok_delete_tab)

lemma ok_follow_rename: "client_ok s \<Longrightarrow> client_ok (follow_rename a b s)"
  by (simp add: follow_rename_def Let_def ok_same ok_fields ok_move_tab)

lemma ok_onEditorInput: "client_ok s \<Longrightarrow> client_ok (onEditorInput t s)"
  by (simp add: onEditorInput_def ok_same ok_fields ok_upd_buffer split: option.split)

lemma ok_enter_project: "client_ok s \<Longrightarrow> client_ok (enter_project p s)"
  unfolding enter_project_def by (rule ok_updateTop) (simp add: client_ok_def tabs_ok_def)

lemma ok_saving:
  "client_ok s \<Longrightarrow> client_ok (save_started i s)" "client_ok s \<Longrightarrow> client_ok (mark_saved i payload s)"
  "client_ok s \<Longrightarrow> client_ok (announce_saved s)" "client_ok s \<Longrightarrow> client_ok (save_failed i e s)"
  "client_ok s \<Longrightarrow> client_ok (save_ended i s)"
  by (simp_all add: save_started_def mark_saved_def announce_saved_def save_failed_def save_ended_def Let_def ok_same ok_upd_buffer)

lemma ok_jobs:
  "client_ok s \<Longrightarrow> client_ok (queue_job s)" "client_ok s \<Longrightarrow> client_ok (compile_reset s)" "client_ok s \<Longrightarrow> client_ok (job_done j i a s)"
  by (auto simp: queue_job_def compile_reset_def job_done_def client_ok_def tabs_ok_def toast_def split: option.split)

lemma ok_opens:
  "client_ok s \<Longrightarrow> client_ok (openRenameDialog s)" "client_ok s \<Longrightarrow> client_ok (openDeleteDialog s)"
  "client_ok s \<Longrightarrow> client_ok (openQuickOpen_ws s)" "client_ok s \<Longrightarrow> client_ok (closeTeamActions s)"
  "client_ok s \<Longrightarrow> client_ok (closeResearchGroupActions s)" "client_ok s \<Longrightarrow> client_ok (resetLayout s)"
  "client_ok s \<Longrightarrow> client_ok (bindResizer f a v b s)"
  by (simp_all add: openRenameDialog_def openDeleteDialog_def openQuickOpen_ws_def closeTeamActions_def
      closeResearchGroupActions_def resetLayout_def bindResizer_def Let_def ok_same ok_fields ok_layout layout_ok_simps
      layout_ok_set split: option.split)

lemmas ok_intros = ok_updateTop ok_remember ok_upd_buffer ok_new_tab ok_delete_tab ok_move_tab ok_drop_tab ok_follow_rename
  ok_onEditorInput ok_enter_project ok_saving ok_jobs ok_opens ok_job ok_layout

section \<open>Every call keeps it\<close>

abbreviation client_keeps :: "client \<Rightarrow> client \<Rightarrow> bool" where
  "client_keeps s t \<equiv> client_ok s \<longrightarrow> client_ok t"

interpretation ckeeps: rely client_keeps
  by unfold_locales simp_all

lemma ckeeps_act: "(\<And>s. client_ok s \<Longrightarrow> client_ok (f s)) \<Longrightarrow> moves client_keeps (act f)"
  by (rule ckeeps.moves_act) blast

text \<open>Changes of the state that depend on it.\<close>

lemma moves_unless:
  assumes "\<And>s. \<not> c s \<Longrightarrow> client_ok s \<Longrightarrow> client_ok (f s)"
  shows "moves client_keeps (look (\<lambda>s. if c s then throw e else act f))"
  using assms unfolding moves_def look_def act_def throw_def segment_def by (auto intro: ckeeps.rely_trans)

lemma cmoves_request: "moves client_keeps (request q)"
  by (rule ckeeps.moves_request)

lemma moves_calls:
  "moves client_keeps (ask q g)" "moves client_keeps (tell q)" "moves client_keeps (complain_ws e)"
  "(\<And>p. moves client_keeps (f p)) \<Longrightarrow> moves client_keeps (with_project f)"
  unfolding ask_def tell_def with_project_def complain_ws_def
  by (intro moves_intros cmoves_request ckeeps_act; simp add: ok_same)+

lemma moves_in_the_end:
  "moves client_keeps m \<Longrightarrow> (\<And>s. client_ok s \<Longrightarrow> client_ok (f s)) \<Longrightarrow> moves client_keeps (in_the_end m f)"
  unfolding in_the_end_def by (intro moves_intros ckeeps_act)

lemma moves_then_ret: "moves client_keeps m \<Longrightarrow> moves client_keeps (then_ret m r)"
  unfolding then_ret_def by (intro moves_intros)

lemmas cl_intros = moves_intros cmoves_request moves_calls moves_in_the_end moves_then_ret ckeeps_act

lemma moves_refresh: "moves client_keeps refreshProject" "moves client_keeps (say_team a b)"
  unfolding refreshProject_def say_team_def by (intro cl_intros; simp add: ok_intros ok_fields ok_same)+

lemma moves_save: "moves client_keeps save_ws" "moves client_keeps flushDirty"
  unfolding flushDirty_def save_ws_def Let_def
  by (intro cl_intros moves_refresh; simp add: ok_intros ok_same ok_fields)+

lemma moves_flushed: "moves client_keeps m \<Longrightarrow> moves client_keeps (flushed m)"
  unfolding flushed_def by (intro cl_intros moves_save)

lemma cmoves_openFile: "moves client_keeps (openFile_ws path)"
  unfolding openFile_ws_def by (intro cl_intros moves_flushed; simp add: ok_intros ok_same ok_fields)

lemma moves_tabs: "moves client_keeps (switchTab path)" "moves client_keeps (closeTab path)"
  unfolding switchTab_def closeTab_def by (intro cl_intros moves_flushed; simp add: ok_intros ok_same ok_fields)+

lemma moves_load_teams: "moves client_keeps (load_teams ts)"
  by (induction ts) (simp_all only: load_teams.simps, (intro cl_intros; (assumption | simp add: ok_same))+)

lemma moves_navigation: "moves client_keeps loadNavigation"
proof -
  have three: "moves client_keeps (case vs of [a, b, c] \<Rightarrow> f a b c | _ \<Rightarrow> throw e)"
    if "\<And>a b c. moves client_keeps (f a b c)" for vs and f :: "canswer \<Rightarrow> canswer \<Rightarrow> canswer \<Rightarrow> unit ccall" and e
    using that by (auto intro: moves_throw split: list.split)
  have "segment client_keeps (spawn id (request q))" for q
    by (intro ckeeps.segment_spawn cmoves_request)
  then show ?thesis unfolding loadNavigation_def
    by (intro cl_intros ckeeps.moves_promise_all three moves_load_teams)
      (auto simp: ok_same intro: moves_throw moves_bind ckeeps_act moves_load_teams split: option.split)
qed

lemma moves_openProject: "moves client_keeps (openProject i)"
  unfolding openProject_def by (intro cl_intros moves_flushed moves_navigation cmoves_openFile; simp add: ok_intros ok_same ok_fields)

lemma moves_mutating: "moves client_keeps m \<Longrightarrow> moves client_keeps (mutating m d)"
  unfolding mutating_def by (intro cl_intros; simp add: ok_fields ok_same)

lemma cmoves_files:
  "moves client_keeps (createFile_ws t)" "moves client_keeps (openFileActions path)" "moves client_keeps (renameFile_ws t)"
  "moves client_keeps deleteFile_ws" "moves client_keeps (setMainForPath mp)" "moves client_keeps setMain_ws"
  unfolding createFile_ws_def openFileActions_def renameFile_ws_def deleteFile_ws_def setMain_ws_def setMainForPath_def
    show_next_def Let_def
  by (intro cl_intros moves_flushed moves_mutating cmoves_openFile moves_refresh; simp add: ok_intros ok_fields ok_same)+

lemma moves_published: "moves client_keeps (published m)" "moves client_keeps (publish_failed e)"
  "moves client_keeps (publish_conflicted e cs)"
  unfolding publish_conflicted_def publish_failed_def published_def
  by (intro cl_intros moves_refresh; simp add: ok_intros ok_fields ok_same)+

lemma moves_publish: "moves client_keeps publish_ws"
proof -
  have answer: "moves client_keeps (case v of GPublished n \<Rightarrow> f n | GConflicts e cs \<Rightarrow> g e cs | _ \<Rightarrow> throw x)"
    if "\<And>n. moves client_keeps (f n)" "\<And>e cs. moves client_keeps (g e cs)"
    for v x and f :: "nat \<Rightarrow> (bool + api_error \<times> publish_conflict list) ccall" and g
    using that by (cases v) (auto intro: moves_throw)
  have result: "moves client_keeps (case r of Inl b \<Rightarrow> ret b | Inr (e, cs) \<Rightarrow> publish_conflicted e cs)" for r
    by (auto intro: moves_ret moves_published split: sum.split)
  show ?thesis unfolding publish_ws_def
    by (intro cl_intros moves_save moves_published answer result; simp add: ok_same)
qed

lemma moves_start_compile: "moves client_keeps start_compile"
  unfolding start_compile_def
  by (intro cl_intros moves_unless; simp add: ok_intros ok_same) (simp add: client_ok_def tabs_ok_def)

lemma moves_compile: "moves client_keeps compile_ws"
  unfolding compile_ws_def compile_saved_def Let_def
  by (intro cl_intros moves_flushed moves_publish moves_start_compile; simp add: ok_same)

lemma moves_poll: "moves client_keeps (poll j)"
  unfolding poll_def by (intro cl_intros; simp add: ok_intros ok_fields ok_same)

text \<open>The dialogs, the panels and the commands.\<close>

lemma moves_new_projects:
  "moves client_keeps (openProjectDialog team)" "moves client_keeps (createProject t u)"
  "moves client_keeps (importProject t b)" "moves client_keeps (createTeam_ws t)"
  unfolding openProjectDialog_def createProject_def importProject_def createTeam_ws_def Let_def
  by (intro cl_intros moves_openProject moves_navigation; simp add: ok_fields ok_same)+

lemma moves_renderTeamActions: "moves client_keeps renderTeamActions"
proof -
  have two: "moves client_keeps (case vs of [a, b] \<Rightarrow> f a b | _ \<Rightarrow> throw e)"
    if "\<And>a b. moves client_keeps (f a b)" for vs and f :: "canswer \<Rightarrow> canswer \<Rightarrow> unit ccall" and e
    using that by (auto intro: moves_throw split: list.split)
  have "segment client_keeps (spawn id (request q))" for q
    by (intro ckeeps.segment_spawn cmoves_request)
  moreover have both: "moves client_keeps (case (x, y) of (Some us, Some rs) \<Rightarrow> m us rs | _ \<Rightarrow> throw e)"
    if "\<And>us rs. moves client_keeps (m us rs)" for x :: "'x option" and y :: "'y option" and m e
    using that by (auto intro: moves_throw split: option.split)
  ultimately show ?thesis unfolding renderTeamActions_def
    by (intro cl_intros ckeeps.moves_promise_all two both moves_unless) (auto simp: ok_fields ok_same)
qed

lemma moves_panel:
  "moves client_keeps (openTeamActions tm ps)" "moves client_keeps (chooseTeamProject i)"
  "(\<And>p. moves client_keeps (f p)) \<Longrightarrow> moves client_keeps (with_panel f)"
  "moves client_keeps m \<Longrightarrow> moves client_keeps (or_explain m)" "moves client_keeps m \<Longrightarrow> moves client_keeps (in_panel m)"
  unfolding openTeamActions_def chooseTeamProject_def with_panel_def or_explain_def in_panel_def
  by (intro cl_intros moves_renderTeamActions; simp add: ok_fields ok_same)+

lemma moves_members:
  "moves client_keeps (removeProjectAccess u)" "moves client_keeps (updateMemberRoles u r)" "moves client_keeps (addTeamMember t r)"
  unfolding updateMemberRoles_def removeProjectAccess_def addTeamMember_def Let_def
  by (intro cl_intros moves_panel moves_renderTeamActions; simp add: ok_fields ok_same)+

lemma moves_renderGroup: "moves client_keeps renderResearchGroupActions"
  unfolding renderResearchGroupActions_def by (intro cl_intros; simp add: ok_fields ok_same)

lemma moves_group:
  "moves client_keeps (openResearchGroupActions g)" "(\<And>g. moves client_keeps (f g)) \<Longrightarrow> moves client_keeps (with_group f)"
  "moves client_keeps m \<Longrightarrow> moves client_keeps (in_group m d)"
  unfolding openResearchGroupActions_def with_group_def in_group_def
  by (intro cl_intros moves_renderGroup; simp add: ok_fields ok_same)+

lemma moves_groups:
  "moves client_keeps (addResearchGroupMember t)" "moves client_keeps (removeResearchGroupMember u)"
  "moves client_keeps (createResearchGroup t)" "moves client_keeps (submitResearchGroupRename t)"
  "moves client_keeps confirmDeleteResearchGroup"
  unfolding addResearchGroupMember_def removeResearchGroupMember_def createResearchGroup_def submitResearchGroupRename_def
    confirmDeleteResearchGroup_def
  by (intro cl_intros moves_group moves_renderGroup moves_navigation moves_openProject; simp add: ok_intros ok_fields ok_same)+

lemma moves_ignore: "moves client_keeps m \<Longrightarrow> moves client_keeps (ignore_result m)"
  unfolding ignore_result_def by (intro cl_intros)

lemma moves_command: "moves client_keeps (run_command c)"
  by (cases c; simp only: run_command.simps;
    intro cl_intros moves_ignore moves_compile moves_save moves_publish cmoves_openFile;
    simp add: ok_intros ok_fields ok_same layout_ok_simps)

lemma moves_enter: "moves client_keeps enter_command"
  unfolding enter_command_def by (intro cl_intros moves_command; simp add: ok_same)

lemma moves_boot: "moves client_keeps (client_boot b path)"
  unfolding client_boot_def bootAuthenticated_def
  by (intro cl_intros moves_navigation; simp add: ok_intros ok_fields ok_same)

lemma client_handler_keeps: "moves client_keeps (client_handler e)"
  by (cases e; simp only: client_handler.simps;
    intro cl_intros moves_ignore moves_openProject moves_navigation cmoves_openFile moves_tabs moves_save moves_compile
      moves_publish moves_poll cmoves_files moves_new_projects moves_panel moves_members moves_group moves_groups moves_command
      moves_enter moves_boot; simp add: ok_intros ok_fields ok_same layout_ok_simps)

lemma client_init_ok: "client_ok client_init"
  by (simp add: client_ok_def client_init_def tabs_ok_def recent_ok_def layout_ok_simps)

lemma client_page_ok:
  assumes "page_reach (range client_run) client_init pg"
  shows "client_ok (fst pg)"
proof -
  have "segment client_keeps p" if "p \<in> range client_run" for p
    using that unfolding client_run_def by (auto intro: ckeeps.segment_spawn client_handler_keeps)
  with ckeeps.page_moves [OF assms] client_init_ok show ?thesis by blast
qed

end
