(* ===== verification/ClientLogic.thy ===== *)
theory ClientLogic
  imports ClientLemmas
begin

text \<open>
  The runs of the first-generation client in parts: what its functions do to the fields that saving reads, what a
  save, the opening of a project and a build send and what becomes of the answers, what the requests of an event can
  be, and which calls cannot reject.
\<close>

lemmas client_run_defs = client_run_def spawn_def bind_def ret_def throw_def act_def look_def attempt_def request_def
  ask_def tell_def with_project_def in_the_end_def then_ret_def complain_ws_def ignore_result_def canswer_defs

section \<open>Fields\<close>

text \<open>What the functions of the page do to the fields that saving reads.\<close>

lemma state_fields [simp]:
  "cl_project (setSaveState v s) = cl_project s" "cl_current (setSaveState v s) = cl_current s"
  "cl_tabs (setSaveState v s) = cl_tabs s" "cl_buffers (setSaveState v s) = cl_buffers s" "cl_state (setSaveState v s) = v"
  "cl_timer (setSaveState v s) = cl_timer s" "cl_toasts (setSaveState v s) = cl_toasts s" "cl_job (setSaveState v s) = cl_job s"
  "cl_recent (setSaveState v s) = cl_recent s" "cl_editor_off (setSaveState v s) = cl_editor_off s"
  "cl_cache (setSaveState v s) = cl_cache s" "cl_editor (setSaveState v s) = cl_editor s"
  "cl_mutating (setSaveState v s) = cl_mutating s" "cl_action (setSaveState v s) = cl_action s"
  by (simp_all add: setSaveState_def)

lemma top_fields [simp]:
  "cl_project (updateTop s) = cl_project s" "cl_current (updateTop s) = cl_current s" "cl_tabs (updateTop s) = cl_tabs s"
  "cl_buffers (updateTop s) = cl_buffers s" "cl_state (updateTop s) = cl_state s" "cl_timer (updateTop s) = cl_timer s"
  "cl_toasts (updateTop s) = cl_toasts s" "cl_job (updateTop s) = cl_job s" "cl_recent (updateTop s) = cl_recent s"
  "cl_editor_off (updateTop s) = cl_editor_off s" "cl_cache (updateTop s) = cl_cache s" "cl_editor (updateTop s) = cl_editor s"
  "cl_mutating (updateTop s) = cl_mutating s" "cl_action (updateTop s) = cl_action s"
  by (simp_all add: updateTop_def)

lemma toast_fields [simp]:
  "cl_project (toast m b s) = cl_project s" "cl_current (toast m b s) = cl_current s" "cl_tabs (toast m b s) = cl_tabs s"
  "cl_buffers (toast m b s) = cl_buffers s" "cl_state (toast m b s) = cl_state s" "cl_timer (toast m b s) = cl_timer s"
  "cl_toasts (toast m b s) = cl_toasts s @ [(m, b)]" "cl_job (toast m b s) = cl_job s" "cl_cache (toast m b s) = cl_cache s"
  "cl_editor (toast m b s) = cl_editor s" "cl_editor_off (toast m b s) = cl_editor_off s"
  by (simp_all add: toast_def)

lemma cache_fields [simp]:
  "cl_project (cacheBuffer t s) = cl_project s" "cl_current (cacheBuffer t s) = cl_current s"
  "cl_tabs (cacheBuffer t s) = cl_tabs s" "cl_buffers (cacheBuffer t s) = cl_buffers s" "cl_state (cacheBuffer t s) = cl_state s"
  "cl_timer (cacheBuffer t s) = cl_timer s" "cl_toasts (cacheBuffer t s) = cl_toasts s" "cl_job (cacheBuffer t s) = cl_job s"
  "cl_editor_off (cacheBuffer t s) = cl_editor_off s" "cl_editor (cacheBuffer t s) = cl_editor s"
  "cl_project (clearBufferCache s) = cl_project s" "cl_current (clearBufferCache s) = cl_current s"
  "cl_tabs (clearBufferCache s) = cl_tabs s" "cl_buffers (clearBufferCache s) = cl_buffers s"
  "cl_state (clearBufferCache s) = cl_state s" "cl_timer (clearBufferCache s) = cl_timer s"
  "cl_toasts (clearBufferCache s) = cl_toasts s" "cl_job (clearBufferCache s) = cl_job s"
  "cl_editor_off (clearBufferCache s) = cl_editor_off s"
  by (simp_all add: cacheBuffer_def clearBufferCache_def Let_def)

lemma buffer_fields [simp]:
  "cl_project (upd_buffer i f s) = cl_project s" "cl_current (upd_buffer i f s) = cl_current s"
  "cl_tabs (upd_buffer i f s) = cl_tabs s" "cl_state (upd_buffer i f s) = cl_state s" "cl_timer (upd_buffer i f s) = cl_timer s"
  "cl_toasts (upd_buffer i f s) = cl_toasts s" "cl_job (upd_buffer i f s) = cl_job s" "cl_cache (upd_buffer i f s) = cl_cache s"
  "cl_editor_off (upd_buffer i f s) = cl_editor_off s" "length (cl_buffers (upd_buffer i f s)) = length (cl_buffers s)"
  by (simp_all add: upd_buffer_def)

lemma buffer_nth: "j < length (cl_buffers s) \<Longrightarrow>
    cl_buffers (upd_buffer i f s) ! j = (if i = j then f (cl_buffers s ! j) else cl_buffers s ! j)"
  by (auto simp: upd_buffer_def)

lemma version_fields [simp]:
  "cl_project (set_version v s) = map_option (\<lambda>p. p\<lparr>pr_version := v\<rparr>) (cl_project s)" "cl_current (set_version v s) = cl_current s"
  "cl_tabs (set_version v s) = cl_tabs s" "cl_buffers (set_version v s) = cl_buffers s" "cl_state (set_version v s) = cl_state s"
  "cl_timer (set_version v s) = cl_timer s" "cl_toasts (set_version v s) = cl_toasts s" "cl_job (set_version v s) = cl_job s"
  "cl_cache (set_version v s) = cl_cache s" "cl_editor_off (set_version v s) = cl_editor_off s"
  by (simp_all add: set_version_def)

lemma show_fields [simp]:
  "cl_project (showFile s) = cl_project s" "cl_current (showFile s) = cl_current s" "cl_tabs (showFile s) = cl_tabs s"
  "cl_buffers (showFile s) = cl_buffers s" "cl_timer (showFile s) = cl_timer s" "cl_toasts (showFile s) = cl_toasts s"
  "cl_job (showFile s) = cl_job s" "cl_cache (showFile s) = cl_cache s"
  "cl_editor (showFile s) = (case current_buffer s of None \<Rightarrow> [] | Some b \<Rightarrow> bf_text b)"
  "cl_editor_off (showFile s) \<longleftrightarrow>
     \<not> (current_buffer s \<noteq> None \<and> truthy (cl_current s) \<and> isText (the (cl_current s)) \<and> canEdit (cl_project s) (currentRecord s))"
  by (simp_all add: showFile_def Let_def)

lemma open_fields [simp]:
  "cl_project (remember path s) = cl_project s" "cl_current (remember path s) = cl_current s"
  "cl_tabs (remember path s) = cl_tabs s" "cl_buffers (remember path s) = cl_buffers s"
  "cl_timer (remember path s) = cl_timer s" "cl_toasts (remember path s) = cl_toasts s"
  "cl_project (new_tab path t s) = cl_project s" "cl_current (new_tab path t s) = cl_current s"
  "cl_timer (new_tab path t s) = cl_timer s" "cl_toasts (new_tab path t s) = cl_toasts s"
  "cl_tabs (new_tab path t s) = map_set path (length (cl_buffers s)) (cl_tabs s)"
  "cl_buffers (new_tab path t s) = cl_buffers s @ [\<lparr>bf_text = t, bf_dirty = False, bf_saving = False\<rparr>]"
  by (simp_all add: remember_def new_tab_def split: option.split)

lemma editor_of_save [simp]:
  "cl_editor (save_ended i s) = cl_editor s" "cl_editor (announce_saved s) = cl_editor s"
  by (simp_all add: save_ended_def announce_saved_def upd_buffer_def Let_def)

lemma preferred_only:
  assumes "map wf_path (pr_files p) = [path]" "pr_collab p = None"
  shows "preferred_file (Some p) p recent = Some path"
proof -
  obtain f where f: "pr_files p = [f]" "wf_path f = path" using assms(1) by auto
  have edit: "canEdit (Some p) (Some f)" using assms(2) by (simp add: canEdit_def isTeam_def)
  with f have "List.find (\<lambda>q. list_ex (\<lambda>f. wf_path f = q \<and> canEdit (Some p) (Some f)) (pr_files p)) recent \<in> {None, Some path}"
    by (induction recent) auto
  with f edit show ?thesis by (auto simp: preferred_file_def opt_or_def)
qed

text \<open>A current file with changes that no save has taken up.\<close>

definition unsaved :: "client \<Rightarrow> project \<Rightarrow> jsstr \<Rightarrow> nat \<Rightarrow> bool" where
  "unsaved s p path i \<longleftrightarrow> cl_project s = Some p \<and> cl_current s = Some path \<and> map_of (cl_tabs s) path = Some i \<and>
     i < length (cl_buffers s) \<and> bf_dirty (cl_buffers s ! i) \<and> \<not> bf_saving (cl_buffers s ! i) \<and> may_edit s"

text \<open>What a save sends, and what becomes of the answers.\<close>

definition save_refreshed :: "nat \<Rightarrow> (bool \<Rightarrow> (client, creq, canswer) prog) \<Rightarrow> canswer result \<Rightarrow> (client, creq, canswer) prog" where
  "save_refreshed i k r s = (case r of Inl e \<Rightarrow> k False (save_ended i (save_failed i e s))
     | Inr v \<Rightarrow> (case g_project v of None \<Rightarrow> k False (save_ended i (save_failed i script_error s))
         | Some q \<Rightarrow> k True (save_ended i (announce_saved (updateTop (s\<lparr>cl_project := Some q\<rparr>))))))"

definition save_answered ::
    "nat \<Rightarrow> jsstr \<Rightarrow> (bool \<Rightarrow> (client, creq, canswer) prog) \<Rightarrow> canswer result \<Rightarrow> (client, creq, canswer) prog" where
  "save_answered i payload k r s = (case r of Inl e \<Rightarrow> k False (save_ended i (save_failed i e s))
     | Inr v \<Rightarrow> (case g_version v of None \<Rightarrow> k False (save_ended i (save_failed i script_error s))
         | Some n \<Rightarrow> (let s1 = mark_saved i payload (set_version n s)
             in case cl_project s1 of None \<Rightarrow> k True (save_ended i (announce_saved s1))
                | Some q \<Rightarrow> (s1, Wait (CApi (GetProject (pr_id q))) (save_refreshed i k)))))"

lemma save_runs:
  assumes "unsaved s p path i"
  shows "save_ws k h s = (save_started i s,
     Wait (CApi (PutFile (pr_id p) path (pr_version p) (revisions s) (bf_text (cl_buffers s ! i))))
       (save_answered i (bf_text (cl_buffers s ! i)) k))"
proof -
  have sent: "cl_project (save_started i s) = Some p" "cl_current (save_started i s) = Some path"
    "revisions (save_started i s) = revisions s"
    using assms by (simp_all add: unsaved_def save_started_def revisions_def isTeam_def currentRecord_def)
  show ?thesis using assms sent
    by (auto simp: client_run_defs save_ws_def buffer_at_def unsaved_def Let_def refreshProject_def save_answered_def
        save_refreshed_def fun_eq_iff split: option.split sum.split)
qed

text \<open>Calls that have come to their end.\<close>

definition ended :: "'x \<Rightarrow> (client, creq, canswer) prog" where
  "ended x s = (s, Done GUnit)"

definition warned :: "api_error \<Rightarrow> (client, creq, canswer) prog" where
  "warned e s = (toast (readableError e) True s, Done GUnit)"

lemma save_sends:
  assumes "unsaved s p path i"
  shows "client_run ClickSave s = (save_started i s,
     Wait (CApi (PutFile (pr_id p) path (pr_version p) (revisions s) (bf_text (cl_buffers s ! i))))
       (save_answered i (bf_text (cl_buffers s ! i)) ended))"
proof -
  have "(ended :: bool \<Rightarrow> (client, creq, canswer) prog) = (\<lambda>x s. (s, Done GUnit))" by (simp add: fun_eq_iff ended_def)
  then show ?thesis using save_runs [OF assms, of "\<lambda>x s. (s, Done GUnit)"] by (simp add: client_run_defs)
qed

lemma save_fields [simp]:
  "cl_project (mark_saved i t s) = cl_project s" "cl_current (mark_saved i t s) = cl_current s"
  "cl_tabs (mark_saved i t s) = cl_tabs s" "cl_timer (mark_saved i t s) = cl_timer s" "cl_toasts (mark_saved i t s) = cl_toasts s"
  "cl_job (mark_saved i t s) = cl_job s" "length (cl_buffers (mark_saved i t s)) = length (cl_buffers s)"
  "cl_editor_off (mark_saved i t s) = cl_editor_off s"
  "cl_project (save_started i s) = cl_project s" "cl_current (save_started i s) = cl_current s"
  "cl_tabs (save_started i s) = cl_tabs s" "cl_timer (save_started i s) = cl_timer s" "cl_toasts (save_started i s) = cl_toasts s"
  "cl_job (save_started i s) = cl_job s" "cl_editor_off (save_started i s) = cl_editor_off s"
  "cl_project (save_ended i s) = cl_project s" "cl_current (save_ended i s) = cl_current s"
  "cl_tabs (save_ended i s) = cl_tabs s" "cl_timer (save_ended i s) = cl_timer s" "cl_toasts (save_ended i s) = cl_toasts s"
  "cl_job (save_ended i s) = cl_job s" "cl_editor_off (save_ended i s) = cl_editor_off s"
  "cl_project (announce_saved s) = cl_project s" "cl_current (announce_saved s) = cl_current s"
  "cl_tabs (announce_saved s) = cl_tabs s" "cl_timer (announce_saved s) = cl_timer s" "cl_job (announce_saved s) = cl_job s"
  "cl_buffers (announce_saved s) = cl_buffers s" "cl_editor_off (announce_saved s) = cl_editor_off s"
  "cl_toasts (announce_saved s) =
     cl_toasts s @ [(if isTeam (cl_project s) then ''Private changes saved'' else ''Changes saved'', False)]"
  "cl_buffers (save_failed i e s) = cl_buffers s" "cl_toasts (save_failed i e s) = cl_toasts s @ [(readableError e, True)]"
  by (simp_all add: mark_saved_def save_started_def save_ended_def announce_saved_def save_failed_def Let_def)

lemma save_buffers:
  "j < length (cl_buffers s) \<Longrightarrow> cl_buffers (save_started i s) ! j
     = (if i = j then (cl_buffers s ! j)\<lparr>bf_saving := True\<rparr> else cl_buffers s ! j)"
  "j < length (cl_buffers s) \<Longrightarrow> cl_buffers (save_ended i s) ! j
     = (if i = j then (cl_buffers s ! j)\<lparr>bf_saving := False\<rparr> else cl_buffers s ! j)"
  "j < length (cl_buffers s) \<Longrightarrow> cl_buffers (mark_saved i t s) ! j
     = (if i = j \<and> bf_text (cl_buffers s ! i) = t then (cl_buffers s ! j)\<lparr>bf_dirty := False\<rparr> else cl_buffers s ! j)"
  by (auto simp: save_started_def save_ended_def mark_saved_def Let_def buffer_nth)

lemma save_lengths [simp]:
  "length (cl_buffers (save_started i s)) = length (cl_buffers s)" "length (cl_buffers (save_ended i s)) = length (cl_buffers s)"
  by (simp_all add: save_started_def save_ended_def Let_def)

lemma poll_fields [simp]:
  "cl_polls (save_started i s) = cl_polls s" "cl_polls (save_ended i s) = cl_polls s" "cl_polls (mark_saved i t s) = cl_polls s"
  "cl_polls (announce_saved s) = cl_polls s" "cl_polls (updateTop s) = cl_polls s" "cl_polls (set_version n s) = cl_polls s"
  "cl_polls (toast m b s) = cl_polls s"
  by (simp_all add: save_started_def save_ended_def mark_saved_def announce_saved_def updateTop_def set_version_def toast_def
      setSaveState_def upd_buffer_def clearBufferCache_def Let_def)

section \<open>Sample data\<close>

definition demo_project :: "jsstr \<Rightarrow> project" where
  "demo_project i = \<lparr>pr_id = i, pr_name = ''P'' @ i, pr_version = 3, pr_main = Some ''main.tex'',
     pr_files = [\<lparr>wf_path = ''main.tex'', wf_policy = None, wf_draft = False, wf_revision = 0, wf_draft_revision = 0\<rparr>],
     pr_collab = None\<rparr>"

definition demo_client :: client where
  "demo_client = client_init\<lparr>cl_project := Some (demo_project ''A''), cl_current := Some ''main.tex'',
     cl_buffers := [\<lparr>bf_text = ''old'', bf_dirty = True, bf_saving = False\<rparr>],
     cl_tabs := [(''main.tex'', 0)], cl_editor_off := False\<rparr>"

lemma demo_buffers: "cl_buffers demo_client = [\<lparr>bf_text = ''old'', bf_dirty = True, bf_saving = False\<rparr>]"
  by (simp add: demo_client_def)

lemma demo_unsaved: "unsaved demo_client (demo_project ''A'') ''main.tex'' 0"
  by (simp add: unsaved_def demo_client_def demo_project_def client_init_def may_edit_def canEdit_def currentRecord_def
      record_of_def isTeam_def)

section \<open>Saving\<close>

text \<open>A save that has nothing to do, or is already under way, lets what follows it pass.\<close>

definition lets_pass :: "client \<Rightarrow> bool" where
  "lets_pass s \<longleftrightarrow> (case buffer_at (cl_current s) s of None \<Rightarrow> True
     | Some i \<Rightarrow> \<not> bf_dirty (cl_buffers s ! i) \<or> bf_saving (cl_buffers s ! i) \<or> \<not> may_edit s)"

lemma lets_pass_timer [simp]: "lets_pass (s\<lparr>cl_timer := b\<rparr>) = lets_pass s"
  by (simp add: lets_pass_def buffer_at_def may_edit_def currentRecord_def split: option.split)

lemma save_passes: "lets_pass s \<Longrightarrow> save_ws k h s = k True s"
  by (auto simp: save_ws_def look_def lets_pass_def ret_def Let_def split: option.splits)

lemma flushed_passes: "lets_pass s \<Longrightarrow> flushed m k h s = m k h (s\<lparr>cl_timer := False\<rparr>)"
  by (simp add: flushed_def flushDirty_def bind_def act_def save_passes)

lemma typed_fields:
  assumes "cl_current s = Some path" "map_of (cl_tabs s) path = Some i" "i < length (cl_buffers s)" "may_edit s"
  shows "cl_project (onEditorInput t s) = cl_project s" "cl_current (onEditorInput t s) = Some path"
    "cl_tabs (onEditorInput t s) = cl_tabs s" "cl_timer (onEditorInput t s)" "cl_toasts (onEditorInput t s) = cl_toasts s"
    "cl_job (onEditorInput t s) = cl_job s" "length (cl_buffers (onEditorInput t s)) = length (cl_buffers s)"
    "cl_buffers (onEditorInput t s) ! i = (cl_buffers s ! i)\<lparr>bf_text := t, bf_dirty := True\<rparr>"
  using assms by (simp_all add: onEditorInput_def buffer_at_def) (simp add: upd_buffer_def)

lemma may_edit_cong: "cl_project s = cl_project s' \<Longrightarrow> cl_current s = cl_current s' \<Longrightarrow> may_edit s = may_edit s'"
  by (simp add: may_edit_def currentRecord_def)

section \<open>Opening a project\<close>

text \<open>What opening a project sends, and what becomes of the answers.\<close>

definition member_reply :: "canswer result \<Rightarrow> (client, creq, canswer) prog" where
  "member_reply v s = (case v of Inl e \<Rightarrow> (s, Failed e) | Inr x \<Rightarrow> (s, Done x))"

definition first_shown :: "project \<Rightarrow> unit \<Rightarrow> (client, creq, canswer) prog" where
  "first_shown p x s = (case preferred_file (cl_project s) p (recentFiles s) of
      Some path \<Rightarrow> if path = [] then (clearEditor s, Done GUnit) else openFile_ws path ended warned s
    | None \<Rightarrow> (clearEditor s, Done GUnit))"

definition navigated :: "project \<Rightarrow> canswer list \<Rightarrow> (client, creq, canswer) prog" where
  "navigated p vs s = (case vs of [a, b, c] \<Rightarrow>
       (case (g_projects a, g_groups b, g_teams c) of
          (Some ps, Some gs, Some ts) \<Rightarrow> load_teams ts (first_shown p) warned (take_navigation ps gs ts s)
        | _ \<Rightarrow> warned script_error s)
     | _ \<Rightarrow> warned script_error s)"

definition project_answered :: "canswer result \<Rightarrow> (client, creq, canswer) prog" where
  "project_answered r s = (case r of Inl e \<Rightarrow> warned e s
     | Inr v \<Rightarrow> (case g_project v of None \<Rightarrow> warned script_error s
         | Some p \<Rightarrow> (enter_project p s,
             All [Wait (CApi ListProjects) member_reply, Wait (CApi ListGroups) member_reply, Wait (CApi ListTeams) member_reply]
               (navigated p) warned)))"

lemma openProject_sends:
  assumes "lets_pass s"
  shows "client_run (ClickProject i) s = (s\<lparr>cl_timer := False\<rparr>, Wait (CApi (GetProject i)) project_answered)"
proof -
  have calls: "ended = (\<lambda>x s. (s, Done GUnit))" "warned = (\<lambda>e s. (toast (readableError e) True s, Done GUnit))"
    by (simp_all add: fun_eq_iff ended_def warned_def)
  have first: "first_shown p = (\<lambda>x s. (case preferred_file (cl_project s) p (recentFiles s) of None \<Rightarrow> act clearEditor
      | Some path \<Rightarrow> if path = [] then act clearEditor else openFile_ws path) ended warned s)" for p
    by (auto simp: fun_eq_iff first_shown_def act_def ended_def split: option.split)
  show ?thesis using assms
    by (auto simp: client_run_defs openProject_def flushed_passes loadNavigation_def promise_all_def settle_all_def
        project_answered_def navigated_def first member_reply_def calls fun_eq_iff
        split: option.split sum.split list.split)
qed

lemma openFile_sends:
  assumes "cl_current s = None" "cl_project s = Some p" "map_of (cl_tabs s) path = None" "isText path"
  shows "\<exists>K. openFile_ws path ended warned s = (s\<lparr>cl_timer := False\<rparr>, Wait (CApi (GetFile (pr_id p) path)) K) \<and>
     (\<forall>t s'. K (Inr (GText t)) s' = (showFile (remember path ((new_tab path t s')\<lparr>cl_current := Some path\<rparr>)), Done GUnit))"
proof -
  have "lets_pass s" using assms(1) by (simp add: lets_pass_def buffer_at_def)
  with assms show ?thesis
    by (simp add: openFile_ws_def look_def flushed_passes attempt_def bind_def act_def ret_def ask_def request_def
        with_project_def canswer_defs ended_def)
qed

abbreviation navigation_asked :: "project \<Rightarrow> (client, creq, canswer) thread" where
  "navigation_asked p \<equiv> All [Wait (CApi ListProjects) member_reply, Wait (CApi ListGroups) member_reply,
     Wait (CApi ListTeams) member_reply] (navigated p) warned"

abbreviation refresh_asked :: "project \<Rightarrow> nat \<Rightarrow> (client, creq, canswer) thread" where
  "refresh_asked p i \<equiv> Wait (CApi (GetProject (pr_id p))) (save_refreshed i ended)"

text \<open>A project entered while the last one is being saved.\<close>

lemma entered_during_save:
  assumes "unsaved s p path i"
  shows "\<exists>s'. answer_call 1 [] (Inr (GProject new)) (answer_call 0 [] (Inr (GVersion n))
        (begin_call (client_run (ClickProject (pr_id new))) (begin_call (client_run ClickSave) (s, []))))
      = (s', [refresh_asked p i, navigation_asked new]) \<and>
    cl_project s' = Some new \<and> cl_current s' = None \<and> cl_tabs s' = [] \<and> i < length (cl_buffers s')"
proof -
  define s1 where "s1 = save_started i s"
  define s3 where "s3 = mark_saved i (bf_text (cl_buffers s ! i)) (set_version n (s1\<lparr>cl_timer := False\<rparr>))"
  have s1: "cl_current s1 = Some path" "map_of (cl_tabs s1) path = Some i" "i < length (cl_buffers s1)"
    "bf_saving (cl_buffers s1 ! i)" "cl_project s1 = Some p"
    using assms by (simp_all add: unsaved_def s1_def save_buffers)
  then have pass: "lets_pass s1" by (simp add: lets_pass_def buffer_at_def)
  have s3: "cl_project s3 = Some (p\<lparr>pr_version := n\<rparr>)" "i < length (cl_buffers s3)"
    using s1 by (simp_all add: s3_def)
  then have "save_answered i (bf_text (cl_buffers s ! i)) ended (Inr (GVersion n)) (s1\<lparr>cl_timer := False\<rparr>) = (s3, refresh_asked p i)"
    by (simp add: save_answered_def canswer_defs Let_def s3_def [symmetric])
  then have "answer_call 1 [] (Inr (GProject new)) (answer_call 0 [] (Inr (GVersion n))
        (begin_call (client_run (ClickProject (pr_id new))) (begin_call (client_run ClickSave) (s, []))))
      = (enter_project new s3, [refresh_asked p i, navigation_asked new])"
    by (simp add: begin_call_def answer_call_def save_sends [OF assms(1)] s1_def [symmetric] openProject_sends [OF pass]
        project_answered_def canswer_defs)
  then show ?thesis using s3 by (simp add: enter_project_def)
qed

text \<open>Its only file, fetched and shown whatever else is under way.\<close>

lemma only_file_shown:
  assumes "cl_project s = Some new" "cl_current s = None" "cl_tabs s = []" "path \<noteq> []" "isText path"
    and "map wf_path (pr_files new) = [path]" "pr_collab new = None"
  shows "\<exists>s1 K. answer_call 1 [2] (Inr (GTeams [])) (answer_call 1 [1] (Inr (GGroups gs))
        (answer_call 1 [0] (Inr (GProjects ps)) (s, [other, navigation_asked new])))
      = (s1, [other, Wait (CApi (GetFile (pr_id new) path)) K]) \<and>
    (\<exists>s2. answer_call 1 [] (Inr (GText t)) (s1, [other, Wait (CApi (GetFile (pr_id new) path)) K]) = (s2, [other, Done GUnit]) \<and>
      cl_project s2 = Some new \<and> cl_current s2 = Some path \<and> cl_tabs s2 = [(path, length (cl_buffers s))] \<and>
      cl_buffers s2 = cl_buffers s @ [\<lparr>bf_text = t, bf_dirty = False, bf_saving = False\<rparr>] \<and> cl_editor s2 = t \<and> \<not> cl_editor_off s2)"
proof -
  define s1 where "s1 = take_navigation ps gs [] s"
  have s1: "cl_project s1 = Some new" "cl_current s1 = None" "cl_tabs s1 = []" "cl_buffers s1 = cl_buffers s"
    using assms(1-3) by (simp_all add: s1_def take_navigation_def)
  obtain K where K: "openFile_ws path ended warned s1 = (s1\<lparr>cl_timer := False\<rparr>, Wait (CApi (GetFile (pr_id new) path)) K)"
    "\<And>t s'. K (Inr (GText t)) s' = (showFile (remember path ((new_tab path t s')\<lparr>cl_current := Some path\<rparr>)), Done GUnit)"
    using openFile_sends [of s1 new path] s1 assms(5) by auto
  have "preferred_file (cl_project s1) new (recentFiles s1) = Some path"
    using s1 assms(6,7) by (simp add: preferred_only)
  then have "navigated new [GProjects ps, GGroups gs, GTeams []] s
      = (s1\<lparr>cl_timer := False\<rparr>, Wait (CApi (GetFile (pr_id new) path)) K)"
    using assms(4) K(1) by (simp add: navigated_def canswer_defs ret_def first_shown_def s1_def [symmetric])
  then show ?thesis using s1 assms(4-7)
    by (intro exI [of _ "s1\<lparr>cl_timer := False\<rparr>"] exI [of _ K])
      (auto simp: answer_call_def member_reply_def settle_all_def K(2) current_buffer_def buffer_at_def canEdit_def isTeam_def
        currentRecord_def record_of_def truthy_def)
qed

text \<open>The state of the old project, when it comes after that.\<close>

lemma late_refresh:
  assumes "cl_current s = Some path" "cl_tabs s = [(path, j)]" "j < length (cl_buffers s)" "i \<noteq> j" "\<not> cl_editor_off s"
    and "cl_buffers s ! j = \<lparr>bf_text = b, bf_dirty = False, bf_saving = False\<rparr>"
    and "path \<in> wf_path ` set (pr_files p')" "pr_collab p' = None"
  shows "\<exists>s'. answer_call 0 [] (Inr (GProject p')) (s, [refresh_asked p i, other]) = (s', [Done GUnit, other]) \<and>
    cl_project s' = Some p' \<and> cl_editor s' = cl_editor s \<and>
    asks (client_run ClickSave (fst (client_run (TypeEditor t) s'))) = Some (CApi (PutFile (pr_id p') path (pr_version p') None t))"
proof -
  define s1 where "s1 = save_ended i (announce_saved (updateTop (s\<lparr>cl_project := Some p'\<rparr>)))"
  have s1: "cl_project s1 = Some p'" "cl_current s1 = Some path" "cl_tabs s1 = [(path, j)]" "j < length (cl_buffers s1)"
    "cl_buffers s1 ! j = \<lparr>bf_text = b, bf_dirty = False, bf_saving = False\<rparr>" "cl_editor s1 = cl_editor s"
    "\<not> cl_editor_off s1" "may_edit s1"
    using assms by (auto simp: s1_def save_buffers may_edit_def canEdit_def isTeam_def currentRecord_def record_of_def
        find_None_iff split: option.split)
  note typed = typed_fields [of s1 path j t]
  have "unsaved (onEditorInput t s1) p' path j"
    using s1 typed may_edit_cong [of "onEditorInput t s1" s1] by (simp add: unsaved_def)
  from save_sends [OF this] have "asks (client_run ClickSave (onEditorInput t s1))
      = Some (CApi (PutFile (pr_id p') path (pr_version p') None t))"
    using s1 typed assms(8) by (simp add: asks_def revisions_def isTeam_def)
  moreover have "client_run (TypeEditor t) s1 = (onEditorInput t s1, Done GUnit)"
    using s1 by (simp add: client_run_defs)
  moreover have "save_refreshed i ended (Inr (GProject p')) s = (s1, Done GUnit)"
    by (simp add: save_refreshed_def ended_def canswer_defs s1_def)
  ultimately show ?thesis using s1 by (simp add: answer_call_def)
qed

section \<open>Compiling\<close>

definition job_answered :: "canswer result \<Rightarrow> (client, creq, canswer) prog" where
  "job_answered r s = (case r of Inl e \<Rightarrow> (toast (readableError e) True (compile_reset s), Done GUnit)
     | Inr v \<Rightarrow> (case g_job_id v of None \<Rightarrow> (toast (readableError script_error) True (compile_reset s), Done GUnit)
         | Some j \<Rightarrow> if cl_job s = None then (toast (readableError script_error) True (compile_reset s), Done GUnit)
             else (toast ''Compile queued'' False (s\<lparr>cl_job := Some (Some j), cl_polls := cl_polls s @ [j]\<rparr>), Done GUnit)))"

lemma queue_fields [simp]:
  "cl_project (queue_job s) = cl_project s" "cl_current (queue_job s) = cl_current s" "cl_job (queue_job s) = Some None"
  "cl_tabs (queue_job s) = cl_tabs s" "cl_buffers (queue_job s) = cl_buffers s" "cl_polls (queue_job s) = cl_polls s"
  by (simp_all add: queue_job_def)

lemma start_runs:
  assumes "cl_project s = Some p"
  shows "start_compile ended h s = (queue_job s, Wait (CApi (StartCompile (pr_id p))) job_answered)"
  using assms
  by (auto simp: client_run_defs start_compile_def job_answered_def ended_def fun_eq_iff split: option.split sum.split)

definition compile_resumes :: "bool \<Rightarrow> (client, creq, canswer) prog" where
  "compile_resumes = (\<lambda>saved. if saved then compile_saved ended (\<lambda>e s. (s, Failed e)) else ended ())"

lemma flushed_runs: "flushed m k h s = save_ws (\<lambda>saved. if saved then m k h else k ()) h (s\<lparr>cl_timer := False\<rparr>)"
  unfolding flushed_def flushDirty_def bind_def act_def ret_def if_distrib [of "\<lambda>m. m k h"] ..

lemma compile_runs:
  assumes "cl_project s = Some p" "cl_job s = None"
  shows "client_run ClickCompile s = save_ws compile_resumes (\<lambda>e s. (s, Failed e)) (s\<lparr>cl_timer := False\<rparr>)"
proof -
  have "(ended :: unit \<Rightarrow> (client, creq, canswer) prog) = (\<lambda>x s. (s, Done GUnit))" by (simp add: fun_eq_iff ended_def)
  then show ?thesis using assms
    by (simp add: client_run_def spawn_def compile_ws_def look_def flushed_runs compile_resumes_def cong: if_cong)
qed

lemma compile_continues:
  assumes "cl_project s = Some p" "pr_collab p = None" "truthy (pr_main p)"
  shows "compile_resumes True s = (queue_job s, Wait (CApi (StartCompile (pr_id p))) job_answered)"
  using assms start_runs [OF assms(1)]
  by (simp add: compile_resumes_def compile_saved_def with_project_def look_def isTeam_def)

section \<open>What guards the requests\<close>

text \<open>A save of the current file, as it is sent.\<close>

definition saves_current :: "client \<Rightarrow> client_api \<Rightarrow> bool" where
  "saves_current s q \<longleftrightarrow> (\<exists>p path b. cl_project s = Some p \<and> cl_current s = Some path \<and> current_buffer s = Some b \<and>
     bf_dirty b \<and> \<not> bf_saving b \<and> may_edit s \<and> q = PutFile (pr_id p) path (pr_version p) (revisions s) (bf_text b))"

lemma asks_save:
  assumes "asks (save_ws k h s) = Some (CApi q)"
  shows "saves_current s q \<or> asks (k True s) = Some (CApi q)"
proof (cases "lets_pass s")
  case True
  with assms show ?thesis by (simp add: save_passes)
next
  case False
  then obtain path i where i: "cl_current s = Some path" "map_of (cl_tabs s) path = Some i" "bf_dirty (cl_buffers s ! i)"
    "\<not> bf_saving (cl_buffers s ! i)" "may_edit s"
    by (auto simp: lets_pass_def buffer_at_def split: option.splits bind_splits)
  then obtain p where p: "cl_project s = Some p"
    by (cases "cl_project s") (auto simp: may_edit_def currentRecord_def record_of_def canEdit_def)
  have "revisions (save_started i s) = revisions s"
    by (simp add: revisions_def currentRecord_def)
  with i p have "asks (save_ws k h s) = Some (CApi (PutFile (pr_id p) path (pr_version p) (revisions s) (bf_text (cl_buffers s ! i))))"
    by (simp add: asks_def save_ws_def buffer_at_def Let_def client_run_defs)
  with assms i p show ?thesis by (auto simp: saves_current_def current_buffer_def buffer_at_def)
qed

lemma saves_current_timer [simp]: "saves_current (s\<lparr>cl_timer := b\<rparr>) q = saves_current s q"
  by (simp add: saves_current_def current_buffer_def buffer_at_def may_edit_def currentRecord_def revisions_def)

lemma saves_current_team [simp]: "saves_current (s\<lparr>cl_team := t\<rparr>) q = saves_current s q"
  by (simp add: saves_current_def current_buffer_def buffer_at_def may_edit_def currentRecord_def revisions_def)

lemma asks_flushed:
  "asks (flushed m k h s) = Some (CApi q) \<Longrightarrow> saves_current s q \<or> asks (m k h (s\<lparr>cl_timer := False\<rparr>)) = Some (CApi q)"
  unfolding flushed_runs by (auto dest: asks_save)

lemma asks_waits [simp]:
  "asks (s, Done v) = None" "asks (s, Failed e) = None" "asks (s, Wait q K) = Some q"
  "asks (s, All (Wait q K # ts) k h) = Some q"
  by (simp_all add: asks_def)

lemma asks_navigation: "asks (loadNavigation k h s) = Some (CApi ListProjects)"
  by (simp add: client_run_defs loadNavigation_def promise_all_def settle_all_def)

lemma asks_ask [simp]: "asks (ask q g k h s) = Some (CApi q)" "asks (tell q k1 h s) = Some (CApi q)"
   "asks (request r k2 h s) = Some r"
  by (simp_all add: client_run_defs)

lemma asks_openProject: "asks (openProject i k h s) = Some (CApi q) \<Longrightarrow> saves_current s q \<or> q = GetProject i"
  unfolding openProject_def by (auto dest!: asks_flushed simp: attempt_def bind_def)

lemma asks_renderTeam:
  "asks (renderTeamActions (\<lambda>x s. (s, Done (v x))) h s) = Some q \<Longrightarrow> \<exists>i. q = CApi (TeamMembers i)"
  unfolding renderTeamActions_def
  by (auto simp: client_run_defs promise_all_def settle_all_def split: option.splits)

lemma asks_openFile:
  "asks (openFile_ws path (\<lambda>x s. (s, Done (v x))) (\<lambda>e s. (s, Failed e)) s) = Some (CApi q) \<Longrightarrow>
     saves_current s q \<or> (\<exists>i. q = GetFile i path)"
  unfolding openFile_ws_def look_def
  by (auto dest!: asks_flushed simp: client_run_defs split: if_splits option.splits)

text \<open>What an event may send first that writes; the other requests read, or change projects and people.\<close>

definition sends_guarded :: "client_event \<Rightarrow> client \<Rightarrow> client_api \<Rightarrow> bool" where
  "sends_guarded e s q \<longleftrightarrow> saves_current s q \<or> (case q of
     PutFile i path v revs content \<Rightarrow> (\<exists>p typed. e = SubmitFile typed \<and> cl_project s = Some p \<and> i = pr_id p \<and> v = pr_version p \<and>
       path = js_trim typed \<and> path \<noteq> [] \<and> content = [])
   | MoveFile i path v to \<Rightarrow> (\<exists>p typed. e = SubmitRename typed \<and> cl_project s = Some p \<and> i = pr_id p \<and> v = pr_version p \<and>
       cl_action s = Some path \<and> to = js_trim typed \<and> pathLooksValid to \<and> to \<noteq> path \<and> \<not> cl_mutating s)
   | RemoveProjectFile i path v \<Rightarrow> (\<exists>p. e = ConfirmDelete \<and> cl_project s = Some p \<and> i = pr_id p \<and> v = pr_version p \<and>
       cl_action s = Some path \<and> \<not> cl_mutating s)
   | ChooseMainFile i path v \<Rightarrow> (\<exists>p. cl_project s = Some p \<and> i = pr_id p \<and> v = pr_version p \<and> js_endsWith path ''.tex'')
   | PublishChanges i \<Rightarrow> (\<exists>p c. cl_project s = Some p \<and> pr_collab p = Some c \<and> cb_write c \<and> i = cb_project c)
   | StartCompile i \<Rightarrow> (\<exists>p. cl_project s = Some p \<and> i = pr_id p \<and> truthy (pr_main p) \<and> cl_job s = None)
   | _ \<Rightarrow> True)"

lemma timer_reads [simp]:
  "cl_project (s\<lparr>cl_timer := b\<rparr>) = cl_project s" "cl_action (s\<lparr>cl_timer := b\<rparr>) = cl_action s"
  by simp_all

lemma guarded_flush:
  assumes "asks (flushed m k h s) = Some (CApi q)"
    and "asks (m k h (s\<lparr>cl_timer := False\<rparr>)) = Some (CApi q) \<Longrightarrow> sends_guarded e s q"
  shows "sends_guarded e s q"
  using assms asks_flushed unfolding sends_guarded_def by blast

lemma guarded_compile:
  assumes "asks (spawn v compile_ws s) = Some (CApi q)"
  shows "sends_guarded e s q"
proof -
  from assms have "asks (flushed compile_saved (\<lambda>x s. (s, Done (v x))) (\<lambda>e s. (s, Failed e)) s) = Some (CApi q)" "cl_job s = None"
    by (auto simp: spawn_def compile_ws_def look_def ret_def split: if_splits)
  then show ?thesis
    by (elim guarded_flush)
      (auto simp: compile_saved_def sends_guarded_def start_compile_def client_run_defs queue_job_def split: option.splits if_splits)
qed

lemma guarded_publish:
  assumes "asks (publish_ws k (\<lambda>e s. (s, Failed e)) s) = Some (CApi q)" "\<And>s. asks (k False s) = None"
  shows "sends_guarded e s q"
proof -
  have "may_write (cl_project s)" using assms by (auto simp: publish_ws_def look_def ret_def split: if_splits)
  then obtain p c where p: "cl_project s = Some p" "pr_collab p = Some c" "cb_write c" and w: "may_write (Some p)"
    by (auto simp: may_write_def split: option.splits bind_splits)
  then have "asks (publish_ws k (\<lambda>e s. (s, Failed e)) s) = Some (CApi q) \<Longrightarrow>
      saves_current s q \<or> q = PublishChanges (cb_project c)"
    unfolding publish_ws_def look_def flushDirty_def
    by (auto simp: client_run_defs dest!: asks_save)
  with assms(1) p show ?thesis by (auto simp: sends_guarded_def)
qed

lemma guarded_reads [simp]:
  "sends_guarded e s ListProjects" "sends_guarded e s ListGroups" "sends_guarded e s ListTeams" "sends_guarded e s ListTemplates"
  "sends_guarded e s WhoAmI" "sends_guarded e s (GetProject i)" "sends_guarded e s (TeamProjects i)"
  "sends_guarded e s (GetFile i path)" "sends_guarded e s (GetJob i)" "sends_guarded e s (TeamMembers i)"
  "sends_guarded e s (ProjectMembers i)" "sends_guarded e s (SetRoles i path r)" "sends_guarded e s (RemoveMember i path)"
  "sends_guarded e s (AddToTeam i path)" "sends_guarded e s (GroupMembers i)" "sends_guarded e s (AddToGroup i path)"
  "sends_guarded e s (RemoveFromGroup i path)" "sends_guarded e s (NewGroup i)" "sends_guarded e s (RenameGroup i path)"
  "sends_guarded e s (DeleteGroup i)" "sends_guarded e s (NewTeam i)" "sends_guarded e s (NewProject u v path)"
  "sends_guarded e s (ImportZip i)" "saves_current s q \<Longrightarrow> sends_guarded e s q"
  by (simp_all add: sends_guarded_def)

lemma guarded_command:
  assumes "asks (spawn v (run_command c) s) = Some (CApi q)"
  shows "sends_guarded e s q"
proof (cases c)
  case CmdCompile
  from assms show ?thesis unfolding CmdCompile run_command.simps by (rule guarded_compile)
next
  case CmdPublish
  from assms show ?thesis unfolding CmdPublish run_command.simps ignore_result_def spawn_def bind_def ret_def
    by (rule guarded_publish) simp
next
  case CmdPublishCompile
  from assms show ?thesis unfolding CmdPublishCompile run_command.simps spawn_def bind_def
    by (rule guarded_publish) (simp add: ret_def)
next
  case CmdSave
  from assms show ?thesis unfolding CmdSave run_command.simps ignore_result_def spawn_def bind_def ret_def
    by (auto dest!: asks_save)
next
  case (CmdOpenFile path)
  from assms show ?thesis unfolding CmdOpenFile run_command.simps spawn_def by (auto dest!: asks_openFile)
qed (use assms in \<open>simp_all add: spawn_def act_def\<close>)

lemma guarded_closed [simp]: "sends_guarded e (close_dialog d s) q = sends_guarded e s q"
  by (simp add: sends_guarded_def saves_current_def close_dialog_def current_buffer_def buffer_at_def may_edit_def
      currentRecord_def revisions_def cong: client_api.case_cong)

lemmas event_defs = client_run_def spawn_def look_def bind_def act_def ret_def attempt_def throw_def with_project_def
  ignore_result_def complain_ws_def switchTab_def closeTab_def createFile_ws_def openFileActions_def renameFile_ws_def deleteFile_ws_def
  mutating_def in_the_end_def setMain_ws_def setMainForPath_def poll_def openProjectDialog_def createProject_def importProject_def
  createTeam_ws_def openTeamActions_def chooseTeamProject_def in_panel_def or_explain_def with_panel_def
  removeProjectAccess_def updateMemberRoles_def addTeamMember_def openResearchGroupActions_def renderResearchGroupActions_def
  in_group_def with_group_def addResearchGroupMember_def removeResearchGroupMember_def createResearchGroup_def
  submitResearchGroupRename_def confirmDeleteResearchGroup_def client_boot_def Let_def

section \<open>Failures\<close>

lemma quietly_in_the_end: "quietly m \<Longrightarrow> quietly (in_the_end m f)"
  unfolding quietly_def in_the_end_def attempt_def bind_def act_def throw_def ret_def by simp

lemma calm_calls [quiet_intros]:
  "calm (ask q g)" "calm (tell q)" "(\<And>p. calm (f p)) \<Longrightarrow> calm (with_project f)" "calm m \<Longrightarrow> calm (then_ret m r)"
  unfolding ask_def tell_def with_project_def then_ret_def by (intro quiet_intros; assumption?)+

lemma quietly_calls [quiet_intros]:
  "quietly (complain_ws e)" "quietly (say_team a b)" "quietly m \<Longrightarrow> quietly (then_ret m r)" "quietly m2 \<Longrightarrow> quietly (ignore_result m2)"
  unfolding complain_ws_def say_team_def then_ret_def ignore_result_def by (intro quiet_intros; assumption?)+

lemma calm_refresh: "calm refreshProject"
  unfolding refreshProject_def by (intro quiet_intros)

lemma quietly_save: "quietly save_ws" "quietly flushDirty"
  unfolding flushDirty_def save_ws_def Let_def
  by (intro quiet_intros quietly_in_the_end calm_refresh quietly_calm)+

lemma quietly_flushed: "quietly m \<Longrightarrow> quietly (flushed m)"
  unfolding flushed_def by (intro quiet_intros quietly_save; assumption?)

lemma cquietly_openFile: "quietly (openFile_ws path)"
  unfolding openFile_ws_def by (intro quiet_intros quietly_flushed)

lemma calm_load_teams: "calm (load_teams ts)"
  by (induction ts) (simp_all only: load_teams.simps, (intro quiet_intros; assumption?)+)

lemma calm_navigation: "calm loadNavigation"
proof -
  have three: "calm (case vs of [a, b, c] \<Rightarrow> f a b c | _ \<Rightarrow> throw e)" if "\<And>a b c. calm (f a b c)"
    for vs and f :: "canswer \<Rightarrow> canswer \<Rightarrow> canswer \<Rightarrow> unit ccall" and e
    using that by (auto intro: calm_throw split: list.split)
  show ?thesis unfolding loadNavigation_def
    by (intro quiet_intros three) (auto intro: quiet_intros calm_load_teams split: option.split)
qed

lemma quietly_openProject: "quietly (openProject i)"
  unfolding openProject_def
  by (intro quiet_intros quietly_flushed calm_navigation quietly_calm [OF cquietly_openFile])

lemma quietly_mutating: "calm m \<Longrightarrow> quietly (mutating m d)"
  unfolding mutating_def by (intro quiet_intros quietly_in_the_end; assumption?)

lemma calm_show_next: "calm show_next"
  unfolding show_next_def by (intro quiet_intros quietly_calm [OF cquietly_openFile])

lemma cquietly_files:
  "quietly (switchTab path)" "quietly (closeTab path)" "quietly (createFile_ws t)" "quietly (openFileActions path)"
  "quietly (renameFile_ws t)" "quietly deleteFile_ws" "quietly (setMainForPath mp)" "quietly setMain_ws"
  unfolding switchTab_def closeTab_def createFile_ws_def openFileActions_def renameFile_ws_def deleteFile_ws_def setMain_ws_def
    setMainForPath_def Let_def
  by (intro quiet_intros quietly_flushed quietly_mutating calm_refresh calm_show_next quietly_calm [OF cquietly_openFile]
      quietly_calm [OF quietly_calls(2)])+

lemma quietly_poll: "quietly (poll j)"
  unfolding poll_def by (intro quiet_intros)

lemma quietly_renderTeam: "quietly renderTeamActions"
proof -
  have two: "calm (case vs of [a, b] \<Rightarrow> f a b | _ \<Rightarrow> throw e)" if "\<And>a b. calm (f a b)"
    for vs and f :: "canswer \<Rightarrow> canswer \<Rightarrow> unit ccall" and e
    using that by (auto intro: calm_throw split: list.split)
  show ?thesis unfolding renderTeamActions_def
    by (intro quiet_intros two)
qed

lemma quietly_panel:
  "quietly (openTeamActions tm ps)" "quietly (chooseTeamProject i)" "quietly m \<Longrightarrow> quietly (in_panel m)"
  "calm m \<Longrightarrow> quietly (or_explain m)" "(\<And>p. calm (f p)) \<Longrightarrow> calm (with_panel f)"
  unfolding openTeamActions_def chooseTeamProject_def in_panel_def or_explain_def with_panel_def
  by (intro quiet_intros quietly_renderTeam; assumption?)+

lemma quietly_members:
  "quietly (removeProjectAccess u)" "quietly (updateMemberRoles u r)" "quietly (addTeamMember t r)"
proof -
  show removal: "quietly (removeProjectAccess u)"
    unfolding removeProjectAccess_def by (intro quiet_intros quietly_panel quietly_calm [OF quietly_renderTeam])
  show "quietly (updateMemberRoles u r)" "quietly (addTeamMember t r)"
    unfolding updateMemberRoles_def addTeamMember_def Let_def
    by (intro quiet_intros quietly_panel quietly_calm [OF quietly_renderTeam] quietly_calm [OF removal])+
qed

lemma quietly_renderGroup: "quietly renderResearchGroupActions"
  unfolding renderResearchGroupActions_def by (intro quiet_intros)

lemma quietly_groups:
  "quietly (openResearchGroupActions g)" "quietly (addResearchGroupMember t)" "quietly (removeResearchGroupMember u)"
  "quietly (createResearchGroup t)" "quietly (submitResearchGroupRename t)" "quietly confirmDeleteResearchGroup"
  "quietly (createProject t u')" "quietly (importProject t b)" "quietly (createTeam_ws t)"
  unfolding openResearchGroupActions_def addResearchGroupMember_def removeResearchGroupMember_def createResearchGroup_def
    submitResearchGroupRename_def confirmDeleteResearchGroup_def in_group_def with_group_def createProject_def importProject_def
    createTeam_ws_def Let_def
  by (intro quiet_intros quietly_renderGroup quietly_calm [OF quietly_renderGroup] calm_navigation
      quietly_calm [OF quietly_openProject])+

lemma quietly_boot: "quietly (client_boot b path)"
  unfolding client_boot_def bootAuthenticated_def by (intro quiet_intros calm_navigation)

definition client_may_reject :: "client_event \<Rightarrow> bool" where
  "client_may_reject e \<longleftrightarrow> e \<in> {NewTeamProject, ClickPublish, ClickCompile, EnterCommand} \<or>
     (\<exists>t c. e = NewProjectDialog t \<or> e = ClickCommand c)"

lemma client_handler_quietly: "\<not> client_may_reject e \<Longrightarrow> quietly (client_handler e)"
  unfolding client_may_reject_def
  by (cases e; simp only: client_handler.simps run_command.simps simp_thms client_event.distinct insert_iff empty_iff;
      (blast | intro quiet_intros quietly_save quietly_openProject cquietly_openFile cquietly_files quietly_poll quietly_panel
         quietly_members quietly_groups quietly_boot calm_navigation)?)

section \<open>Paths\<close>

text \<open>Where a relative path leads, by its parts: the names gone through so far, the last one first.\<close>

fun resolve_parts :: "jsstr list \<Rightarrow> jsstr list \<Rightarrow> jsstr list" where
  "resolve_parts names [] = rev names"
| "resolve_parts names (part # parts) =
     (if part = [] \<or> part = ''.'' then resolve_parts names parts
      else if part = ''..'' then resolve_parts (tl names) parts else resolve_parts (part # names) parts)"

definition proper_part :: "jsstr \<Rightarrow> bool" where
  "proper_part part \<longleftrightarrow> part \<noteq> [] \<and> part \<noteq> ''.'' \<and> part \<noteq> ''..''"

lemma resolve_proper: "list_all proper_part parts \<Longrightarrow> resolve_parts names parts = rev names @ parts"
  by (induction parts arbitrary: names) (auto simp: proper_part_def)

lemma resolved_proper: "list_all proper_part names \<Longrightarrow> list_all proper_part (resolve_parts names parts)"
proof (induction parts arbitrary: names)
  case (Cons part parts)
  from Cons.prems have "list_all proper_part (tl names)" by (cases names) auto
  with Cons have "list_all proper_part (resolve_parts (tl names) parts)" "list_all proper_part (resolve_parts names parts)"
    "proper_part part \<Longrightarrow> list_all proper_part (resolve_parts (part # names) parts)" by simp_all
  moreover have "proper_part part \<longleftrightarrow> \<not> (part = [] \<or> part = ''.'') \<and> part \<noteq> ''..''"
    by (auto simp: proper_part_def)
  ultimately show ?case by simp
qed (simp add: list_all_iff)

end
