(* ===== verification/ClientProperties.thy ===== *)
theory ClientProperties
  imports ClientLogic
begin

text \<open>
  The properties of the first-generation client: what holds of every interleaving of its calls, what saving a file
  promises and where it does not keep it, what guards the requests that change files, and which failures are shown.
\<close>

section \<open>Every interleaving\<close>

text \<open>
  C8. Whatever the user does and in whatever order requests are answered: no path has two tabs, no two tabs share a
  buffer and every tab has one; while a job is queued or running the button that compiles is off; at most eight
  different files of a project are remembered; and panes keep within their bounds.
\<close>

theorem client_page_consistent:
  assumes "page_reach (range client_run) client_init pg"
  shows "distinct (map fst (cl_tabs (fst pg))) \<and> distinct (map snd (cl_tabs (fst pg))) \<and>
    (\<forall>t\<in>set (cl_tabs (fst pg)). snd t < length (cl_buffers (fst pg))) \<and>
    (cl_job (fst pg) \<noteq> None \<longrightarrow> cl_compile_off (fst pg)) \<and>
    (\<forall>r\<in>set (cl_recent (fst pg)). length (snd r) \<le> 8 \<and> distinct (snd r)) \<and>
    (\<forall>f. field_min f \<le> field_of f (cl_layout (fst pg)) \<and> field_of f (cl_layout (fst pg)) \<le> field_max f)"
  using client_page_ok [OF assms] unfolding client_ok_def tabs_ok_def recent_ok_def layout_ok_def by blast

theorem client_page_consistent_witness:
  "let pg = answer_call 0 [] (Inr (GProject (demo_project ''A'')))
              (begin_call (client_run (DragResizer LeftWidth 100 242 999)) (begin_call (client_run (ClickProject ''A'')) (client_init, [])))
   in cl_project (fst pg) = Some (demo_project ''A'') \<and> distinct (map fst (cl_tabs (fst pg))) \<and>
      field_of LeftWidth (cl_layout (fst pg)) \<le> 420"
proof -
  let ?pg = "answer_call 0 [] (Inr (GProject (demo_project ''A'')))
    (begin_call (client_run (DragResizer LeftWidth 100 242 999)) (begin_call (client_run (ClickProject ''A'')) (client_init, [])))"
  have "page_reach (range client_run) client_init ?pg"
    by (intro page_reach.begins page_reach.answers page_reach.at_load) simp_all
  note ok = client_page_consistent [OF this]
  have "lets_pass client_init" by (simp add: lets_pass_def buffer_at_def client_init_def)
  then have "cl_project (fst ?pg) = Some (demo_project ''A'')"
    by (simp add: begin_call_def answer_call_def openProject_sends project_answered_def canswer_defs client_run_def [of "DragResizer _ _ _ _"]
        spawn_def act_def enter_project_def split_beta)
  with ok show ?thesis unfolding Let_def by (metis field_max.simps(1))
qed

section \<open>Saving\<close>

text \<open>
  C24. A save that succeeds, whatever has happened meanwhile: the tab it was started for keeps its text, and is clean
  exactly when it was or when its text is what was sent; no other buffer changes.
\<close>

theorem saved_when_sent:
  assumes "unsaved s p path i" and "i < length (cl_buffers s')" and "j < length (cl_buffers s')"
  shows "let s1 = fst (deliver [] (Inr (GVersion n)) (snd (client_run ClickSave s)) s')
    in bf_text (cl_buffers s1 ! i) = bf_text (cl_buffers s' ! i) \<and>
       (bf_dirty (cl_buffers s1 ! i) \<longleftrightarrow>
          bf_dirty (cl_buffers s' ! i) \<and> bf_text (cl_buffers s' ! i) \<noteq> bf_text (cl_buffers s ! i)) \<and>
       (j \<noteq> i \<longrightarrow> cl_buffers s1 ! j = cl_buffers s' ! j)"
  using assms
  by (auto simp: save_sends [OF assms(1)] save_answered_def ended_def canswer_defs Let_def save_buffers split: option.split)

theorem saved_when_sent_witness:
  "let later = upd_buffer 0 (\<lambda>b. b\<lparr>bf_text := ''newer''\<rparr>) (fst (client_run ClickSave demo_client));
       s1 = fst (deliver [] (Inr (GVersion 4)) (snd (client_run ClickSave demo_client)) later)
   in bf_dirty (cl_buffers s1 ! 0) \<and> bf_text (cl_buffers s1 ! 0) = ''newer''"
proof -
  let ?s = "fst (client_run ClickSave demo_client)"
  let ?later = "upd_buffer 0 (\<lambda>b. b\<lparr>bf_text := ''newer''\<rparr>) ?s"
  have n: "0 < length (cl_buffers ?s)" "cl_buffers ?s ! 0 = \<lparr>bf_text = ''old'', bf_dirty = True, bf_saving = True\<rparr>"
    by (simp_all add: save_sends [OF demo_unsaved] save_buffers demo_buffers)
  then have later: "0 < length (cl_buffers ?later)"
      "cl_buffers ?later ! 0 = \<lparr>bf_text = ''newer'', bf_dirty = True, bf_saving = True\<rparr>"
    by (simp_all add: buffer_nth)
  have "bf_text (cl_buffers demo_client ! 0) = ''old''" by (simp add: demo_client_def)
  with saved_when_sent [OF demo_unsaved later(1) later(1), of 4] later(2) show ?thesis unfolding Let_def by simp
qed

text \<open>
  A save that fails, whatever has happened meanwhile, leaves the text unsaved and says why; but the state it ends
  in is that of unsaved changes for every failure: the states of a conflict and of a lost connection are replaced
  before they can be seen.
\<close>

theorem failed_save_is_unsaved:
  assumes "unsaved s p path i" and "i < length (cl_buffers s')" and "bf_dirty (cl_buffers s' ! i)"
  shows "let st = deliver [] (Inl e) (snd (client_run ClickSave s)) s'
    in snd st = Done GUnit \<and> cl_buffers (fst st) ! i = (cl_buffers s' ! i)\<lparr>bf_saving := False\<rparr> \<and>
       cl_state (fst st) = WDirty \<and> state_label (cl_state (fst st)) = ''Unsaved changes'' \<and>
       cl_toasts (fst st) = cl_toasts s' @ [(readableError e, True)]"
  using assms
  by (simp add: save_sends [OF assms(1)] save_answered_def ended_def Let_def save_buffers)
    (simp add: save_ended_def Let_def buffer_nth)

theorem failed_save_is_unsaved_witness:
  "let st = client_run ClickSave demo_client; failed = deliver [] (Inl type_error) (snd st) (fst st)
   in cl_state (fst failed) = WDirty \<and> bf_dirty (cl_buffers (fst failed) ! 0)"
proof -
  let ?s = "fst (client_run ClickSave demo_client)"
  have n: "0 < length (cl_buffers ?s)" "bf_dirty (cl_buffers ?s ! 0)"
    by (simp_all add: save_sends [OF demo_unsaved] save_buffers demo_buffers)
  from failed_save_is_unsaved [OF demo_unsaved n, of type_error] n(2) show ?thesis unfolding Let_def by simp
qed

text \<open>
  C26. Changes typed while a save is under way are lost without a word when the user goes to another tab before the
  answer and then closes the tab: the save that leaving it makes does nothing but stop the timer, the answer leaves
  the tab changed but no longer current, and a tab that is not current is closed without being saved. The only text
  that was sent is the first one, and the message is that changes are saved.
\<close>

theorem edits_during_save_lost:
  assumes "unsaved s p path i" and "\<not> cl_editor_off s" and "typed \<noteq> bf_text (cl_buffers s ! i)" and "other \<noteq> path"
    and "pr_collab q = None"
  shows "let began = begin_call (client_run ClickSave) (s, []);
             left = begin_call (client_run (ClickTabName other)) (begin_call (client_run (TypeEditor typed)) began);
             saved = answer_call 0 [] (Inr (GProject q)) (answer_call 0 [] (Inr (GVersion n)) left);
             closed = begin_call (client_run (ClickTabClose path)) saved
         in map first_wait (snd left)
              = [Some ([], CApi (PutFile (pr_id p) path (pr_version p) (revisions s) (bf_text (cl_buffers s ! i)))), None, None] \<and>
            list_all settled (snd closed) \<and> (''Changes saved'', False) \<in> set (cl_toasts (fst closed)) \<and>
            cl_buffers (fst closed) ! i = \<lparr>bf_text = typed, bf_dirty = True, bf_saving = False\<rparr> \<and>
            path \<notin> fst ` set (cl_tabs (fst closed)) \<and> \<not> cl_timer (fst closed)"
proof -
  define s1 where "s1 = save_started i s"
  define s2 where "s2 = onEditorInput typed s1"
  define s3 where "s3 = showFile (s2\<lparr>cl_timer := False, cl_current := Some other\<rparr>)"
  define s4 where "s4 = mark_saved i (bf_text (cl_buffers s ! i)) (set_version n s3)"
  define s5 where "s5 = save_ended i (announce_saved (updateTop (s4\<lparr>cl_project := Some q\<rparr>)))"
  note u = assms(1) [unfolded unsaved_def]
  have s1: "cl_current s1 = Some path" "map_of (cl_tabs s1) path = Some i" "i < length (cl_buffers s1)" "may_edit s1"
    "cl_buffers s1 ! i = (cl_buffers s ! i)\<lparr>bf_saving := True\<rparr>" "\<not> cl_editor_off s1" "cl_project s1 = Some p"
    using u assms(2) may_edit_cong [of "save_started i s" s] by (simp_all add: s1_def save_buffers)
  note s2 = typed_fields [OF s1(1-4), of typed, folded s2_def]
  have "lets_pass s2" using s1 s2 by (simp add: lets_pass_def buffer_at_def)
  then have leave: "client_run (ClickTabName other) s2 = (s3, Done GUnit)"
    using s2 assms(4) by (simp add: client_run_defs switchTab_def flushed_passes s3_def)
  have s3: "cl_current s3 = Some other" "cl_project s3 = Some p" "i < length (cl_buffers s3)" "\<not> cl_timer s3"
    "cl_buffers s3 ! i = \<lparr>bf_text = typed, bf_dirty = True, bf_saving = True\<rparr>" "cl_tabs s3 = cl_tabs s2"
    using s1 s2 by (simp_all add: s3_def)
  have s4: "cl_current s4 = Some other" "cl_project s4 = Some (p\<lparr>pr_version := n\<rparr>)" "i < length (cl_buffers s4)"
    "\<not> cl_timer s4" "cl_buffers s4 ! i = \<lparr>bf_text = typed, bf_dirty = True, bf_saving = True\<rparr>"
    using s3 assms(3) by (simp_all add: s4_def save_buffers)
  have s5: "cl_current s5 = Some other" "\<not> cl_timer s5" "(''Changes saved'', False) \<in> set (cl_toasts s5)"
    "cl_buffers s5 ! i = \<lparr>bf_text = typed, bf_dirty = True, bf_saving = False\<rparr>"
    using s4 assms(5) by (simp_all add: s5_def save_buffers isTeam_def)
  have close: "client_run (ClickTabClose path) s5 = (delete_tab path s5, Done GUnit)"
    using s5 assms(4) by (simp add: client_run_defs closeTab_def drop_tab_def Let_def delete_tab_def)
  have type: "client_run (TypeEditor typed) s1 = (s2, Done GUnit)"
    using s1 by (simp add: client_run_defs s2_def)
  have answers: "save_answered i (bf_text (cl_buffers s ! i)) ended (Inr (GVersion n)) s3
      = (s4, Wait (CApi (GetProject (pr_id p))) (save_refreshed i ended))"
    "save_refreshed i ended (Inr (GProject q)) s4 = (s5, Done GUnit)"
    using s4 by (simp_all add: save_answered_def save_refreshed_def ended_def canswer_defs Let_def s4_def [symmetric] s5_def)
  show ?thesis using s5
    by (auto simp: Let_def begin_call_def answer_call_def save_sends [OF assms(1)] s1_def [symmetric] type leave answers
        close delete_tab_def)
qed

theorem edits_during_save_lost_witness:
  "let left = begin_call (client_run (ClickTabName ''b.tex'')) (begin_call (client_run (TypeEditor ''newer''))
                (begin_call (client_run ClickSave) (demo_client, [])));
       saved = answer_call 0 [] (Inr (GProject (demo_project ''A''))) (answer_call 0 [] (Inr (GVersion 4)) left);
       closed = begin_call (client_run (ClickTabClose ''main.tex'')) saved
   in list_all settled (snd closed) \<and> ''main.tex'' \<notin> fst ` set (cl_tabs (fst closed)) \<and>
      bf_text (cl_buffers (fst closed) ! 0) = ''newer''"
proof -
  have "\<not> cl_editor_off demo_client" "''newer'' \<noteq> bf_text (cl_buffers demo_client ! 0)" "''b.tex'' \<noteq> ''main.tex''"
    "pr_collab (demo_project ''A'') = None"
    by (simp_all add: demo_client_def demo_project_def)
  from edits_during_save_lost [OF demo_unsaved this, of 4] show ?thesis unfolding Let_def by simp
qed

text \<open>
  C25. A project opened while the last one is still being saved is taken over by it: the answer to the save's request
  for the state of the old project makes that the project of the page, while the tabs are those of the new one. A
  file that both have, such as \<open>main.tex\<close>, is then shown with the text of the new project, and saving it sends this
  text to the old project, with its current version, so that the server accepts it.
\<close>

theorem old_project_overwritten:
  assumes "unsaved s p path i" and "path \<noteq> []" and "isText path"
    and "map wf_path (pr_files new) = [path]" and "pr_collab new = None"
    and "pr_id p' = pr_id p" and "path \<in> wf_path ` set (pr_files p')" and "pr_collab p' = None"
  shows "let pg1 = begin_call (client_run (ClickProject (pr_id new))) (begin_call (client_run ClickSave) (s, []));
             pg2 = answer_call 1 [] (Inr (GProject new)) (answer_call 0 [] (Inr (GVersion n)) pg1);
             pg3 = answer_call 1 [2] (Inr (GTeams [])) (answer_call 1 [1] (Inr (GGroups gs))
                     (answer_call 1 [0] (Inr (GProjects ps)) pg2));
             pg4 = answer_call 1 [] (Inr (GText text_of_new)) pg3;
             pg5 = answer_call 0 [] (Inr (GProject p')) pg4;
             typed = fst (client_run (TypeEditor t) (fst pg5))
         in map (map_option snd \<circ> first_wait) (snd pg3)
              = [Some (CApi (GetProject (pr_id p))), Some (CApi (GetFile (pr_id new) path))] \<and>
            list_all settled (snd pg5) \<and> cl_project (fst pg4) = Some new \<and> cl_editor (fst pg4) = text_of_new \<and>
            cl_project (fst pg5) = Some p' \<and> cl_editor (fst pg5) = text_of_new \<and>
            asks (client_run ClickSave typed) = Some (CApi (PutFile (pr_id p) path (pr_version p') None t))"
proof -
  obtain s1 where s1: "answer_call 1 [] (Inr (GProject new)) (answer_call 0 [] (Inr (GVersion n))
        (begin_call (client_run (ClickProject (pr_id new))) (begin_call (client_run ClickSave) (s, []))))
      = (s1, [refresh_asked p i, navigation_asked new])"
    "cl_project s1 = Some new" "cl_current s1 = None" "cl_tabs s1 = []" "i < length (cl_buffers s1)"
    using entered_during_save [OF assms(1), of new n] by blast
  obtain s2 K s3 where s2: "answer_call 1 [2] (Inr (GTeams [])) (answer_call 1 [1] (Inr (GGroups gs))
        (answer_call 1 [0] (Inr (GProjects ps)) (s1, [refresh_asked p i, navigation_asked new])))
      = (s2, [refresh_asked p i, Wait (CApi (GetFile (pr_id new) path)) K])"
    and s3: "answer_call 1 [] (Inr (GText text_of_new)) (s2, [refresh_asked p i, Wait (CApi (GetFile (pr_id new) path)) K])
      = (s3, [refresh_asked p i, Done GUnit])"
      "cl_project s3 = Some new" "cl_current s3 = Some path" "cl_tabs s3 = [(path, length (cl_buffers s1))]"
      "cl_buffers s3 = cl_buffers s1 @ [\<lparr>bf_text = text_of_new, bf_dirty = False, bf_saving = False\<rparr>]"
      "cl_editor s3 = text_of_new" "\<not> cl_editor_off s3"
    using only_file_shown [OF s1(2-4) assms(2-5)] by metis
  obtain s4 where s4: "answer_call 0 [] (Inr (GProject p')) (s3, [refresh_asked p i, Done GUnit]) = (s4, [Done GUnit, Done GUnit])"
    "cl_project s4 = Some p'" "cl_editor s4 = cl_editor s3"
    "asks (client_run ClickSave (fst (client_run (TypeEditor t) s4))) = Some (CApi (PutFile (pr_id p') path (pr_version p') None t))"
    using late_refresh [of s3 path "length (cl_buffers s1)" i text_of_new p' p "Done GUnit" t] s1(5) s3 assms(7,8) by auto
  show ?thesis unfolding Let_def s1(1) s2 s3(1) s4(1) using s3 s4 assms(6) by simp
qed

theorem old_project_overwritten_witness:
  "let pg1 = begin_call (client_run (ClickProject ''B'')) (begin_call (client_run ClickSave) (demo_client, []));
       pg2 = answer_call 1 [] (Inr (GProject (demo_project ''B''))) (answer_call 0 [] (Inr (GVersion 4)) pg1);
       pg3 = answer_call 1 [2] (Inr (GTeams [])) (answer_call 1 [1] (Inr (GGroups []))
               (answer_call 1 [0] (Inr (GProjects [])) pg2));
       pg5 = answer_call 0 [] (Inr (GProject (demo_project ''A''))) (answer_call 1 [] (Inr (GText ''of B'')) pg3)
   in asks (client_run ClickSave (fst (client_run (TypeEditor ''of B!'') (fst pg5))))
        = Some (CApi (PutFile ''A'' ''main.tex'' 3 None ''of B!''))"
proof -
  have "''main.tex'' \<noteq> []" "isText ''main.tex''" "map wf_path (pr_files (demo_project ''B'')) = [''main.tex'']"
    "pr_collab (demo_project ''B'') = None" "pr_id (demo_project ''A'') = pr_id (demo_project ''A'')"
    "''main.tex'' \<in> wf_path ` set (pr_files (demo_project ''A''))" "pr_collab (demo_project ''A'') = None"
    by (simp_all add: demo_project_def) code_simp
  from old_project_overwritten [OF demo_unsaved this, of 4 "[]" "[]" "''of B''" "''of B!''"]
  show ?thesis unfolding Let_def by (simp add: demo_project_def)
qed

section \<open>Compiling\<close>

text \<open>
  A second click on compile while the first is still saving starts a build at once, of the text that is on the
  server: the second save does nothing as one is under way. When the first save is done its build is started too,
  although one is queued; both are polled, and the page follows the second.
\<close>

theorem compiled_twice:
  assumes "unsaved s p path i" and "cl_job s = None" and "pr_collab p = None" and "truthy (pr_main p)"
    and "pr_collab q = None" and "truthy (pr_main q)"
  shows "let pg1 = begin_call (client_run ClickCompile) (begin_call (client_run ClickCompile) (s, []));
             pg2 = answer_call 1 [] (Inr (GJobId j)) pg1;
             pg3 = answer_call 0 [] (Inr (GProject q)) (answer_call 0 [] (Inr (GVersion n)) pg2);
             pg4 = answer_call 0 [] (Inr (GJobId j')) pg3
         in map (map_option snd \<circ> first_wait) (snd pg1)
              = [Some (CApi (PutFile (pr_id p) path (pr_version p) None (bf_text (cl_buffers s ! i)))),
                 Some (CApi (StartCompile (pr_id p)))] \<and>
            cl_job (fst pg2) = Some (Some j) \<and>
            map (map_option snd \<circ> first_wait) (snd pg3) = [Some (CApi (StartCompile (pr_id q))), None] \<and>
            list_all settled (snd pg4) \<and> cl_job (fst pg4) = Some (Some j') \<and> cl_polls (fst pg4) = cl_polls s @ [j, j']"
proof -
  let ?s = "s\<lparr>cl_timer := False\<rparr>"
  define s1 where "s1 = save_started i ?s"
  define s2 where "s2 = queue_job (s1\<lparr>cl_timer := False\<rparr>)"
  define s3 where "s3 = toast ''Compile queued'' False (s2\<lparr>cl_job := Some (Some j), cl_polls := cl_polls s2 @ [j]\<rparr>)"
  define s4 where "s4 = mark_saved i (bf_text (cl_buffers s ! i)) (set_version n s3)"
  define s5 where "s5 = save_ended i (announce_saved (updateTop (s4\<lparr>cl_project := Some q\<rparr>)))"
  define s6 where "s6 = queue_job s5"
  have u: "unsaved ?s p path i"
    using assms(1) may_edit_cong [of ?s s] by (simp add: unsaved_def)
  note runs = save_runs [OF u, of compile_resumes "\<lambda>e s. (s, Failed e)", folded s1_def]
  have s1: "cl_project s1 = Some p" "cl_job s1 = None" "cl_current s1 = Some path" "map_of (cl_tabs s1) path = Some i"
    "bf_saving (cl_buffers s1 ! i)"
    using u assms(2) by (simp_all add: s1_def unsaved_def save_buffers)
  then have pass: "lets_pass s1" by (simp add: lets_pass_def buffer_at_def)
  have s2: "cl_project s2 = Some p" "cl_job s2 = Some None" "cl_polls s2 = cl_polls s"
    using s1 by (simp_all add: s2_def s1_def)
  have s3: "cl_project s3 = Some p" "cl_job s3 = Some (Some j)" "cl_polls s3 = cl_polls s @ [j]"
    using s2 by (simp_all add: s3_def)
  have s4: "cl_project s4 = Some (p\<lparr>pr_version := n\<rparr>)" "cl_polls s4 = cl_polls s @ [j]"
    using s3 by (simp_all add: s4_def)
  have s5: "cl_project s5 = Some q" "cl_polls s5 = cl_polls s @ [j]" using s4 by (simp_all add: s5_def)
  let ?put = "Wait (CApi (PutFile (pr_id p) path (pr_version p) None (bf_text (cl_buffers s ! i))))
    (save_answered i (bf_text (cl_buffers s ! i)) compile_resumes)"
  let ?job = "Wait (CApi (StartCompile (pr_id p))) job_answered :: (client, creq, canswer) thread"
  have first: "client_run ClickCompile s = (s1, ?put)"
    using compile_runs [of s p] u assms(2,3) runs by (simp add: unsaved_def revisions_def isTeam_def)
  have second: "client_run ClickCompile s1 = (s2, ?job)"
    using compile_runs [OF s1(1,2)] pass s1(1) compile_continues [of "s1\<lparr>cl_timer := False\<rparr>" p] assms(3,4)
    by (simp add: save_passes s2_def)
  have pg1: "begin_call (client_run ClickCompile) (begin_call (client_run ClickCompile) (s, [])) = (s2, [?put, ?job])"
    by (simp add: begin_call_def first second)
  have pg2: "answer_call 1 [] (Inr (GJobId j)) (s2, [?put, ?job]) = (s3, [?put, Done GUnit])"
    using s2 by (simp add: answer_call_def job_answered_def canswer_defs s3_def)
  have pg3: "answer_call 0 [] (Inr (GProject q)) (answer_call 0 [] (Inr (GVersion n)) (s3, [?put, Done GUnit]))
      = (s6, [Wait (CApi (StartCompile (pr_id q))) job_answered, Done GUnit])"
    using s4 compile_continues [OF s5(1) assms(5,6)]
    by (simp add: answer_call_def save_answered_def save_refreshed_def canswer_defs Let_def s4_def [symmetric]
        s5_def [symmetric] s6_def)
  have pg4: "answer_call 0 [] (Inr (GJobId j')) (s6, [Wait (CApi (StartCompile (pr_id q))) job_answered, Done GUnit])
      = (toast ''Compile queued'' False (s6\<lparr>cl_job := Some (Some j'), cl_polls := cl_polls s6 @ [j']\<rparr>), [Done GUnit, Done GUnit])"
    by (simp add: answer_call_def job_answered_def canswer_defs s6_def)
  show ?thesis unfolding Let_def pg1 pg2 pg3 pg4 using s3 s5 by (simp add: s6_def)
qed

theorem compiled_twice_witness:
  "let pg1 = begin_call (client_run ClickCompile) (begin_call (client_run ClickCompile) (demo_client, []));
       pg3 = answer_call 0 [] (Inr (GProject (demo_project ''A''))) (answer_call 0 [] (Inr (GVersion 4))
               (answer_call 1 [] (Inr (GJobId ''j1'')) pg1));
       pg4 = answer_call 0 [] (Inr (GJobId ''j2'')) pg3
   in cl_job (fst pg4) = Some (Some ''j2'') \<and> cl_polls (fst pg4) = [''j1'', ''j2'']"
proof -
  have "cl_job demo_client = None" "pr_collab (demo_project ''A'') = None" "truthy (pr_main (demo_project ''A''))"
    by (simp_all add: demo_client_def demo_project_def client_init_def)
  from compiled_twice [OF demo_unsaved this this(2,3), of "''j1''" 4 "''j2''"] show ?thesis
    unfolding Let_def by (simp add: demo_client_def client_init_def)
qed

section \<open>What guards the requests\<close>



section \<open>Failures\<close>

text \<open>
  C29. An event never leaves a rejection uncaught, whatever the answers, unless it opens the dialog of a new project,
  publishes or compiles, or runs a command. The dialog does: without the list of teams it does not open and nothing
  is said. Publishing does: when there was nothing to publish and the project cannot be read again, the page goes on
  saying that it publishes.
\<close>

theorem client_failures_shown:
  "(\<not> client_may_reject e \<longrightarrow> answer_seq xs (snd (client_run e s)) = Some t \<longrightarrow> (\<forall>err. t \<noteq> Failed err)) \<and>
   (let st = replied [Inl err] (client_run (NewProjectDialog tm) s)
    in snd st = Failed err \<and> cl_toasts (fst st) = cl_toasts s \<and> cl_open (fst st) = cl_open s) \<and>
   (cl_project s = Some p \<and> pr_collab p = Some c \<and> cb_write c \<and> lets_pass s \<longrightarrow>
      (let st = replied [Inl \<lparr>err_message = ''no unpublished changes'', err_status = 404\<rparr>, Inl err] (client_run ClickPublish s)
       in snd st = Failed err \<and> cl_state (fst st) = WPublishing \<and> cl_toasts (fst st) = cl_toasts s))"
proof (intro conjI impI)
  assume "\<not> client_may_reject e" and answers: "answer_seq xs (snd (client_run e s)) = Some t"
  then have "quiet (snd (client_run e s))"
    unfolding client_run_def by (intro quiet_spawn client_handler_quietly)
  from quiet_answers [OF this answers] show "\<forall>err. t \<noteq> Failed err" by auto
next
  show "let st = replied [Inl err] (client_run (NewProjectDialog tm) s)
    in snd st = Failed err \<and> cl_toasts (fst st) = cl_toasts s \<and> cl_open (fst st) = cl_open s"
    by (simp add: Let_def client_run_defs openProjectDialog_def set_problem_def)
next
  assume "cl_project s = Some p \<and> pr_collab p = Some c \<and> cb_write c \<and> lets_pass s"
  then show "let st = replied [Inl \<lparr>err_message = ''no unpublished changes'', err_status = 404\<rparr>, Inl err] (client_run ClickPublish s)
       in snd st = Failed err \<and> cl_state (fst st) = WPublishing \<and> cl_toasts (fst st) = cl_toasts s"
    by (simp add: Let_def client_run_defs publish_ws_def may_write_def flushDirty_def save_passes publish_failed_def
        published_def refreshProject_def clear_structural_def project_id_def)
qed

theorem client_failures_shown_witness:
  "answer_seq [([], Inl type_error, demo_client)] (snd (client_run ClickSave demo_client)) \<noteq> Some (Failed type_error) \<and>
   (let s = client_init\<lparr>cl_project := Some ((demo_project ''A'')\<lparr>pr_collab := Some \<lparr>cb_team = ''t'', cb_project = ''p'', cb_write = True\<rparr>\<rparr>)\<rparr>
    in cl_state (fst (replied [Inl \<lparr>err_message = ''no unpublished changes'', err_status = 404\<rparr>, Inl type_error]
         (client_run ClickPublish s))) = WPublishing)"
proof -
  let ?p = "(demo_project ''A'')\<lparr>pr_collab := Some \<lparr>cb_team = ''t'', cb_project = ''p'', cb_write = True\<rparr>\<rparr>"
  let ?s = "client_init\<lparr>cl_project := Some ?p\<rparr>"
  have "\<not> client_may_reject ClickSave" by (simp add: client_may_reject_def)
  then have "answer_seq [([], Inl type_error, demo_client)] (snd (client_run ClickSave demo_client)) \<noteq> Some (Failed type_error)"
    using client_failures_shown by blast
  moreover have "cl_project ?s = Some ?p \<and> pr_collab ?p = Some \<lparr>cb_team = ''t'', cb_project = ''p'', cb_write = True\<rparr> \<and>
      cb_write \<lparr>cb_team = ''t'', cb_project = ''p'', cb_write = True\<rparr> \<and> lets_pass ?s"
    by (simp add: lets_pass_def buffer_at_def client_init_def)
  then have "cl_state (fst (replied [Inl \<lparr>err_message = ''no unpublished changes'', err_status = 404\<rparr>, Inl type_error]
       (client_run ClickPublish ?s))) = WPublishing"
    using client_failures_shown unfolding Let_def by blast
  ultimately show ?thesis unfolding Let_def by blast
qed

section \<open>Paths\<close>

text \<open>
  The paths that a file may be renamed to are those that lead, part by part, exactly where they say: resolving
  them changes nothing, so none leaves the project, and no two name the same place.
\<close>

theorem valid_paths_resolve_to_themselves:
  "pathLooksValid path \<longleftrightarrow> resolve_parts [] (js_split CHR ''/'' path) = js_split CHR ''/'' path"
proof -
  have "pathLooksValid path \<longleftrightarrow> list_all proper_part (js_split CHR ''/'' path)"
    unfolding pathLooksValid_def proper_part_def
    by (cases path) (auto simp: js_startsWith_def)
  moreover have "list_all proper_part (js_split CHR ''/'' path)"
    if "resolve_parts [] (js_split CHR ''/'' path) = js_split CHR ''/'' path"
    using resolved_proper [of "[]" "js_split CHR ''/'' path"] unfolding that by simp
  ultimately show ?thesis using resolve_proper [of "js_split CHR ''/'' path" "[]"] by auto
qed

text \<open>
  A new file whose path is already taken empties the file that is there: nothing looks the path up, and what is
  sent is an empty text with the version of the project. When that file is shown, the page announces a new file and
  goes on showing the old text, as saved.
\<close>

theorem new_file_empties_old:
  assumes "cl_project s = Some p" and "js_trim typed = path" and "path \<noteq> []" and "path \<in> wf_path ` set (pr_files p)"
    and "cl_current s = Some path" and "pr_collab p = None" and "pr_collab q = None"
  shows "let st = client_run (SubmitFile typed) s; made = replied [Inr (GVersion n), Inr (GProject q)] st
    in asks st = Some (CApi (PutFile (pr_id p) path (pr_version p) None [])) \<and> snd made = Done GUnit \<and>
       cl_project (fst made) = Some q \<and> current_buffer (fst made) = current_buffer s \<and>
       cl_toasts (fst made) = cl_toasts s @ [(''File created'', False)]"
  using assms
  by (simp add: Let_def client_run_defs createFile_ws_def refreshProject_def openFile_ws_def say_team_def isTeam_def
      current_buffer_def buffer_at_def close_dialog_def)

theorem new_file_empties_old_witness:
  "asks (client_run (SubmitFile '' main.tex'') demo_client) = Some (CApi (PutFile ''A'' ''main.tex'' 3 None []))"
proof -
  have "cl_project demo_client = Some (demo_project ''A'')" "js_trim '' main.tex'' = ''main.tex''" "''main.tex'' \<noteq> []"
    "''main.tex'' \<in> wf_path ` set (pr_files (demo_project ''A''))" "cl_current demo_client = Some ''main.tex''"
    "pr_collab (demo_project ''A'') = None"
    by (simp_all add: demo_client_def demo_project_def) code_simp
  from new_file_empties_old [OF this this(6), of 4] show ?thesis unfolding Let_def by (simp add: demo_project_def)
qed

end
