(* ===== verification/Spec2Isabelle.thy ===== *)
theory Spec2Isabelle
  imports AutoBuild ReviewHelpers Outline QuickOpen LatexSafety PdfPreview MathEntries CollabProperties
    PaperApi WriterPalette DialogProperties MentorProperties AdminProperties
    ClientProperties
begin

text \<open>
  A verification development for the browser clients of the repository: the writer's application in
  \<^verbatim>\<open>services/server/frontend/writer.js\<close> and the modules it is built from, together with the envelope that the
  server (\<^verbatim>\<open>services/server/src/collaboration.rs\<close>) puts around its messages, the mentor's review page
  \<^verbatim>\<open>services/server/frontend/review.js\<close>, the administration page \<^verbatim>\<open>services/server/static/admin.js\<close>, and the client
  of the first generation, \<^verbatim>\<open>services/server/static/app.js\<close> with \<^verbatim>\<open>static/state.js\<close>.

  \<^bold>\<open>The program.\<close> A writer opens a paper, chooses a file and edits it together with others. A
  \<open>CollaborationSession\<close> keeps the text of one file in a Yjs document, a local database and a WebSocket to the
  server; durable updates drive an idle build scheduler; around the editor the page offers a file tree, an
  outline, builders and palettes for LaTeX, reviews with suggestions, a history with restoration, and the PDF of
  the last build. A mentor opens a paper read-only, sees its source live and its PDF, and annotates either while the
  paper's review is open. An administrator manages accounts, paper teams, templates, imports of institution data and
  the policies of files in sections that replace one another. The client of the first generation edits the files of
  personal and team projects in tabs, saves each with the version of its project, and compiles and publishes them.
  Requests to the server are asynchronous, and every handler of a page may run while another waits for its answer.

  \<^bold>\<open>Theories, from the ground up.\<close>
  \<^item> \<open>Prelude\<close>, \<open>JsString\<close>, \<open>JsSort\<close>, \<open>Timers\<close>, \<open>Base64\<close>, \<open>Dom\<close>: what JavaScript and the browser provide, as
    far as the code uses it: strings of code units below 256, stable sorting, the timer service (an interface
    \<open>timer_service\<close> with the clock of \<^verbatim>\<open>auto-build.test.mjs\<close> as its model), \<open>atob\<close>, elements with their clicks.
  \<^item> \<open>AutoBuild\<close> (\<^verbatim>\<open>auto-build.mjs\<close>): the idle build scheduler, and a specification that knows only a deadline.
  \<^item> \<open>ReviewHelpers\<close> (\<^verbatim>\<open>review-helpers.mjs\<close>), \<open>PdfPreview\<close> (\<^verbatim>\<open>writer-pdf.mjs\<close>), \<open>MathCatalog\<close>
    and \<open>MathEntries\<close> (\<^verbatim>\<open>math-catalog.mjs\<close>: the search, the rows of the catalogue, and how the palette's own
    search differs).
  \<^item> \<open>Outline\<close>, \<open>QuickOpen\<close>, \<open>TexScan\<close>, \<open>LatexBuilders\<close>, \<open>LatexSafety\<close> (\<^verbatim>\<open>writer-productivity.mjs\<close>): the
    outline tree with the sharing of its children arrays, the ranking of Quick Open, the LaTeX builders and a
    scanner of TeX groups against which they are judged.
  \<^item> \<open>PageStatus\<close>, \<open>CollabFrames\<close>, \<open>CollabSession\<close>, \<open>CollabInvariants\<close>, \<open>CollabProperties\<close>: the class
    \<open>CollaborationSession\<close> as a record with one function per method and listener, its step relation over browser
    events, and its invariants. Yjs and y-indexeddb are parameters.
  \<^item> \<open>FileTree\<close>, \<open>Reviews\<close>, \<open>History\<close>: what the page renders, as functions to documents whose clicks are
    values. \<open>PaperApi\<close>: the request each API call makes and the reading of a response.
  \<^item> \<open>WriterEditor\<close>, \<open>WriterBuilders\<close>, \<open>WriterPalette\<close>: the operations on the text, the builder dialogs, and the
    palettes as state machines.
  \<^item> \<open>Async\<close>, \<open>AsyncLogic\<close>: asynchronous functions. A call runs uninterrupted up to a request; a thread is what is
    left of it. Calls are written in continuation style, so that a definition reads like the source (\<open>bind\<close> for
    \<open>await\<close>, \<open>attempt\<close> for \<open>try\<close>, \<open>look\<close> where the code reads the page, \<open>promise_all\<close>). Four judgements on
    calls: what every segment does to the state (\<open>moves\<close>), how many answers a call needs (\<open>costs\<close>), whether it can
    reject (\<open>quietly\<close>), and what it achieves among others (\<open>achieves\<close>).
  \<^item> \<open>DocumentDetails\<close>, \<open>DetailsProperties\<close>: the form of the document details of a team paper, what its submission
    sends, and the checks that the server (\<^verbatim>\<open>src/front_matter.rs\<close>) makes of that, with what it accepts.
  \<^item> \<open>Workspace\<close>, \<open>WorkspaceCalls\<close>, \<open>WorkspaceEvents\<close>, \<open>WorkspaceDialogs\<close>: the object \<open>model\<close> and the controls
    \<open>ui\<close>, the functions on them, and every asynchronous function and listener; the dialog with its palettes and
    builders, the document details in the drawer and the shortcuts; \<open>handler\<close> maps the events of the page to them.
  \<^item> \<open>DialogProperties\<close>: the properties of the dialog and of the document details on the page.
  \<^item> \<open>WorkspaceLemmas\<close>, \<open>WorkspaceCosts\<close>, \<open>WorkspaceSessions\<close>, \<open>WorkspaceProperties\<close>: the four judgements for every
    handler, and the properties of the page.
  \<^item> \<open>MentorData\<close>, \<open>MentorPage\<close>, \<open>MentorCalls\<close>, \<open>MentorLemmas\<close>, \<open>MentorProperties\<close> (\<^verbatim>\<open>review.js\<close>): the requests
    and threads, the class \<open>ReadOnlySession\<close> with the object \<open>model\<close>, the asynchronous functions and listeners over
    the same calls (\<open>mentor_handler\<close>), the judgements for them, and their properties. A Yjs document is the list of
    the updates applied to it; pdf.js and the digest of the browser are part of the environment. What nothing waits for
    (\<open>renderPapers\<close>) is counted in \<open>due_papers\<close> and runs as an event of its own; \<open>await_all\<close> is \<^verbatim>\<open>Promise.all\<close> with
    its members going on after a rejection.
  \<^item> \<open>AdminText\<close>, \<open>AdminData\<close>, \<open>AdminTables\<close>, \<open>AdminForms\<close> (\<^verbatim>\<open>admin.js\<close>, \<^verbatim>\<open>api.js\<close>): labels, the credentials
    file, query strings, the recognition of a dataset; the responses and the request of every call; the tables as
    documents; the forms with state, and what the server (\<^verbatim>\<open>src/main.rs\<close>) reads from the fields of an import.
  \<^item> \<open>AdminPage\<close>, \<open>AdminCalls\<close>, \<open>AdminEvents\<close>: the page as one region of content with a status line and a dialog, its
    forms and tables in stores to which the content refers by position (a closure of the code goes on with its own
    form when the content has been replaced), the sections, and every listener (\<open>admin_handler\<close>).
  \<^item> \<open>AdminLemmas\<close>, \<open>AdminProperties\<close>: a step relation of elementary changes that every call refines, its invariant,
    the judgements for every handler, and the properties of the page.
  \<^item> \<open>ClientData\<close>, \<open>ClientPage\<close>, \<open>ClientCalls\<close>, \<open>ClientEvents\<close> (\<^verbatim>\<open>app.js\<close>, \<^verbatim>\<open>state.js\<close>): projects and the request of
    every call; the object \<open>state\<close> with its tabs and the controls that functions read (the buffer of a tab is an object
    that a save under way holds on to, so buffers are in a store); saving, opening, mutations of files, publishing,
    compiling and polling; the dialogs, panels, commands and listeners (\<open>client_handler\<close>). The timer of the autosave
    and the polls that are due are fields of the state, and run as events.
  \<^item> \<open>ClientLemmas\<close>, \<open>ClientLogic\<close>, \<open>ClientProperties\<close>: an invariant that every segment keeps, the runs of this
    client in parts, and its properties.

  \<^bold>\<open>What is shown.\<close> Of a session: \<open>Saved\<close> means acknowledged, updates are numbered consecutively over
  reconnections, read-only sessions send nothing, a restored paper never mixes with old edits, a destroyed
  session is silent, a live one is always reconnecting, and every flush settles. Of the page: whatever the order
  of answers, the current session edits the current file, the editor shows an existing session (which need not be the
  current one) in the mode of its file, and the undo buttons follow it; a call on its own leaves one live session; every
  call settles after at most fifteen answers (the longest, saving document details, flushes, saves, reopens the paper
  with nine requests and may build); only the calls of \<open>may_reject\<close> can end in an unhandled rejection; structural
  requests follow a durable flush and carry the version read after it, and document details are sent after one; the
  server accepts a submission of document details exactly under
  stated conditions, and the command palette runs what it lists. Of the mentor's page: in every interleaving the current session
  reads the file shown, a view shows a session that was let in and has a text, and the composer is open only while the
  review is, every call settles after at most ten answers (or waits for a
  session that is never ready), and annotations are guarded. Of the administration page: in every interleaving what is
  shown exists and the forms are consistent, a template change is sent only from a confirmed preview without conflicts,
  every call settles, and only filters and the page size leave a rejection uncaught. Of the first client: tabs, buffers and panes are
  consistent in every interleaving, a save marks clean only what was sent, every request that writes is guarded, and
  the paths of renames stay inside the project. Of the pure modules: equivalence with reference
  definitions, well-nestedness of generated LaTeX, round trips and orderings. Several theorems state what goes
  wrong: overlapping file opens, answers taken for another paper, a paper that fails to load, a reconnection while the
  local database loads, a flush reply that resolves later flushes, an arrow key in Quick Open, document details saved to another paper
  or always refused, a bibliography entry put into another file, an insertion into a session that was
  destroyed, an image opened when no paper is; for a mentor, an
  opening that never ends, a PDF that is not loaded again, an anchor that is lost or takes another page; for an
  administrator, a section shown under another's name, a template applied without its preview, a file submitted
  without being shown, a preview taken for another archive, a request for another team, a default that cannot be
  cleared, a form that cannot be corrected, and a selection that is acted on after its page was left; in the first
  client, a project that overwrites another, changes that are lost during a save, two builds for one, a new file that
  empties an old one, and failures under the wrong name or none.

  \<^bold>\<open>Bounds and fuel.\<close> \<open>serve\<close> takes the number of answers it may give; nothing is claimed through it beyond what
  \<open>calls_settle\<close> bounds. All recursive definitions terminate; no other fuel is used. Characters above code unit
  255 (an ellipsis, dashes, curly quotes, mathematical symbols) are outside the model: three full stops, two
  hyphens and plain quotes stand for them. Sequence numbers and times are natural numbers; a frame's number is eight
  bytes.

  \<^bold>\<open>Not modelled.\<close> Scrolling and focus, the timer
  of the review popover; CodeMirror, Yjs, y-indexeddb and the browser's fetch, which
  are parameters or the environment; of the administration page the import guide, focus, drag and drop, row menus, the
  timers that delay a search, and the legacy account functions, which nothing calls; of the first client the drawing of the
  tree, the tabs and the navigation, the positions of popovers, and its own administration panel, whose address is
  served by another page; the
  names that an object literal inherits when it is read as a table (the levels of the outline, the alignments of a
  table); the
  bundles \<^verbatim>\<open>static/writer.js\<close>, \<^verbatim>\<open>static/review.js\<close> and \<^verbatim>\<open>static/pdf*.min.mjs\<close>, which are generated or third-party; the
  server and the crates in Rust, but for the frames, the
  fields of an import and the checks of document details.
\<close>

end
